(* ===== verification/Kastur_Prelude.thy ===== *)
theory Kastur_Prelude
  imports Complex_Main "HOL-Library.Char_ord" "HOL-Library.List_Lexorder"
    "HOL-Library.Multiset" "HOL-Library.Code_Target_Nat"
begin

text \<open>
  The vocabulary every component shares.

  \<^item> A thrown error is a value: a fallible function returns \<open>js_error + 'a\<close>, with \<open>Inl\<close> for
    the throw. The error keeps the class and its stable \<open>code\<close>; the human readable message is not
    modelled, except for the errors of synchronisation and of the server, whose message is stored or sent. \<open>bindE\<close> is sequencing, \<open>catchE\<close> is \<open>try/catch\<close>, \<open>throwUnless\<close> is the guard
    \<open>if (!c) throw\<close>, and \<open>mapE\<close>, \<open>foldE\<close> are \<open>map\<close> and the \<open>for\<close> loops whose body may throw.
  \<^item> A JavaScript string is a \<open>string\<close> whose characters are code units; the model covers the code
    units below 256. \<open><\<close> on strings is the lexicographic order of code units (theory
    \<open>List_Lexorder\<close>), as in JavaScript and as in the key order of IndexedDB.
  \<^item> A \<open>number\<close> that reaches the code from outside is a \<open>js_number\<close>: an integer, a fraction, or
    no finite number (NaN, an infinity).
\<close>

section \<open>Collections of facts\<close>

named_theorems result_simps \<open>rewriting of results: bindE, catchE, mapE, foldE\<close>
named_theorems canon \<open>facts about canonical decimal texts\<close>
named_theorems table_simps \<open>rewriting of table operations\<close>

section \<open>Errors as values\<close>

datatype js_error =
    NumericError string
  | PricingError string
  | PricingResolutionError string
  | CartError string
  | PaymentError string
  | CashOperationError string
  | ShiftOpenError string
  | CompleteSaleError string
  | LocalSyncStoreError string
  | ProductLookupError string
  | PricingBootstrapError string
  | CatalogAlreadyBootstrapped
  | DexieError string
  | SyncHttpError int string string "bool option" "rat option"
  | SyncTransportError string string
  | ProjectionRequiresBootstrapError string
  | ApiError int string string "(string \<times> string) list"
  | DatabaseError string "string option"
  | JsError string

type_synonym 'a result = "js_error + 'a"

definition bindE :: "'a result \<Rightarrow> ('a \<Rightarrow> 'b result) \<Rightarrow> 'b result" where
  "bindE m f = (case m of Inl e \<Rightarrow> Inl e | Inr x \<Rightarrow> f x)"

definition catchE :: "'a result \<Rightarrow> (js_error \<Rightarrow> 'a result) \<Rightarrow> 'a result" where
  "catchE m h = (case m of Inl e \<Rightarrow> h e | Inr x \<Rightarrow> Inr x)"

definition throwUnless :: "bool \<Rightarrow> js_error \<Rightarrow> unit result" where
  "throwUnless c e = (if c then Inr () else Inl e)"

definition throwIf :: "bool \<Rightarrow> js_error \<Rightarrow> unit result" where
  "throwIf c e = (if c then Inl e else Inr ())"

fun mapE :: "('a \<Rightarrow> 'b result) \<Rightarrow> 'a list \<Rightarrow> 'b list result" where
  "mapE f [] = Inr []"
| "mapE f (x # xs) = bindE (f x) (\<lambda>y. bindE (mapE f xs) (\<lambda>ys. Inr (y # ys)))"

fun foldE :: "('s \<Rightarrow> 'a \<Rightarrow> 's result) \<Rightarrow> 's \<Rightarrow> 'a list \<Rightarrow> 's result" where
  "foldE f s [] = Inr s"
| "foldE f s (x # xs) = bindE (f s x) (\<lambda>s'. foldE f s' xs)"

text \<open>
  For evaluation, sequencing is unfolded to the case distinction it is, so that the rest of a
  computation is looked at only when its input is known.
\<close>

declare bindE_def [code_unfold] catchE_def [code_unfold]
declare throwUnless_def [code_unfold] throwIf_def [code_unfold]

lemma bindE_Inl [simp]: "bindE (Inl e) f = Inl e"
  by (simp add: bindE_def)

lemma bindE_Inr [simp]: "bindE (Inr x) f = f x"
  by (simp add: bindE_def)

lemma catchE_Inl [simp]: "catchE (Inl e) h = h e"
  by (simp add: catchE_def)

lemma catchE_Inr [simp]: "catchE (Inr x) h = Inr x"
  by (simp add: catchE_def)

lemma throwUnless_True [simp]: "throwUnless True e = Inr ()"
  by (simp add: throwUnless_def)

lemma throwIf_False [simp]: "throwIf False e = Inr ()"
  by (simp add: throwIf_def)

lemma throwUnless_False [simp]: "throwUnless False e = Inl e"
  by (simp add: throwUnless_def)

lemma throwIf_True [simp]: "throwIf True e = Inl e"
  by (simp add: throwIf_def)

lemma bindE_eq_Inr [result_simps]: "bindE m f = Inr y \<longleftrightarrow> (\<exists>x. m = Inr x \<and> f x = Inr y)"
  by (cases m) auto

lemma bindE_eq_Inl [result_simps]:
  "bindE m f = Inl e \<longleftrightarrow> m = Inl e \<or> (\<exists>x. m = Inr x \<and> f x = Inl e)"
  by (cases m) auto

lemma throwUnless_eq_Inr [result_simps]: "throwUnless c e = Inr u \<longleftrightarrow> c"
  by (simp add: throwUnless_def)

lemma throwIf_eq_Inr [result_simps]: "throwIf c e = Inr u \<longleftrightarrow> \<not> c"
  by (simp add: throwIf_def)

lemma throwUnless_eq_Inl [result_simps]: "throwUnless c e = Inl e' \<longleftrightarrow> \<not> c \<and> e' = e"
  by (auto simp: throwUnless_def)

lemma throwIf_eq_Inl [result_simps]: "throwIf c e = Inl e' \<longleftrightarrow> c \<and> e' = e"
  by (auto simp: throwIf_def)

lemma catchE_eq_Inr [result_simps]:
  "catchE m h = Inr y \<longleftrightarrow> m = Inr y \<or> (\<exists>e. m = Inl e \<and> h e = Inr y)"
  by (cases m) auto

lemma bindE_cong [fundef_cong]:
  "m = m' \<Longrightarrow> (\<And>x. m' = Inr x \<Longrightarrow> f x = g x) \<Longrightarrow> bindE m f = bindE m' g"
  by (cases m') auto

lemma bindE_assoc: "bindE (bindE m f) g = bindE m (\<lambda>x. bindE (f x) g)"
  by (cases m) auto

lemma mapE_Inr_length: "mapE f xs = Inr ys \<Longrightarrow> length ys = length xs"
  by (induction xs arbitrary: ys) (auto simp: bindE_eq_Inr)

lemma mapE_Inr_nth: "mapE f xs = Inr ys \<Longrightarrow> i < length xs \<Longrightarrow> f (xs ! i) = Inr (ys ! i)"
  by (induction xs arbitrary: ys i) (auto simp: bindE_eq_Inr nth_Cons split: nat.splits)

lemma mapE_Inr_all2: "mapE f xs = Inr ys \<Longrightarrow> list_all2 (\<lambda>x y. f x = Inr y) xs ys"
  by (induction xs arbitrary: ys) (auto simp: bindE_eq_Inr)

lemma mapE_eq_Inr: "mapE f xs = Inr ys \<longleftrightarrow> (\<forall>x\<in>set xs. \<exists>y. f x = Inr y) \<and> ys = map (projr \<circ> f) xs"
  by (induction xs arbitrary: ys) (auto simp: bindE_eq_Inr)

lemma foldE_append: "foldE f s (xs @ ys) = bindE (foldE f s xs) (\<lambda>s'. foldE f s' ys)"
  by (induction xs arbitrary: s) (simp_all add: bindE_assoc)

text \<open>A property that every successful iteration keeps is kept by the loop.\<close>

lemma foldE_invariant:
  assumes "foldE f s xs = Inr t" "P s"
    and "\<And>s x s'. x \<in> set xs \<Longrightarrow> P s \<Longrightarrow> f s x = Inr s' \<Longrightarrow> P s'"
  shows "P t"
  using assms
proof (induction xs arbitrary: s)
  case Nil
  then show ?case by simp
next
  case (Cons x xs)
  then obtain s' where s': "f s x = Inr s'" "foldE f s' xs = Inr t"
    by (auto simp: bindE_eq_Inr)
  have "P s'" by (rule Cons.prems(3) [OF _ Cons.prems(2) s'(1)]) simp
  then show ?case by (rule Cons.IH [OF s'(2)]) (rule Cons.prems(3), simp_all)
qed

lemma find_SomeD: "find P xs = Some x \<Longrightarrow> x \<in> set xs \<and> P x"
  by (auto simp: find_Some_iff)

lemma find_append:
  "find P (xs @ ys) = (case find P xs of None \<Rightarrow> find P ys | Some x \<Rightarrow> Some x)"
  by (induction xs) auto

section \<open>Numbers and strings of the host language\<close>

datatype js_number = JSInt int | JSFrac rat | JSNotFinite

definition isSafeInteger :: "js_number \<Rightarrow> bool" where
  "isSafeInteger n = (case n of JSInt i \<Rightarrow> \<bar>i\<bar> \<le> 9007199254740991 | _ \<Rightarrow> False)"

definition isFinite :: "js_number \<Rightarrow> bool" where
  "isFinite n = (n \<noteq> JSNotFinite)"

text \<open>The white space \<open>String.prototype.trim\<close> removes, among the code units below 256.\<close>

definition is_js_space :: "char \<Rightarrow> bool" where
  "is_js_space c = (of_char c \<in> {9, 10, 11, 12, 13, 32, 160 :: nat})"

definition js_trim :: "string \<Rightarrow> string" where
  "js_trim s = rev (dropWhile is_js_space (rev (dropWhile is_js_space s)))"

definition char_toLower :: "char \<Rightarrow> char" where
  "char_toLower c =
     (let n = of_char c :: nat in
      if (65 \<le> n \<and> n \<le> 90) \<or> (192 \<le> n \<and> n \<le> 222 \<and> n \<noteq> 215)
      then char_of (n + 32) else c)"

definition js_toLowerCase :: "string \<Rightarrow> string" where
  "js_toLowerCase s = map char_toLower s"

text \<open>\<open>s.includes(t)\<close> and \<open>s.startsWith(t)\<close>.\<close>

fun js_startsWith :: "string \<Rightarrow> string \<Rightarrow> bool" where
  "js_startsWith s [] = True"
| "js_startsWith [] (t # ts) = False"
| "js_startsWith (c # s) (t # ts) = (c = t \<and> js_startsWith s ts)"

fun js_includes :: "string \<Rightarrow> string \<Rightarrow> bool" where
  "js_includes [] t = (t = [])"
| "js_includes (c # s) t = (js_startsWith (c # s) t \<or> js_includes s t)"

lemma js_trim_idem: "js_trim (js_trim s) = js_trim s"
proof -
  have trailing: "dropWhile is_js_space (rev (js_trim s)) = rev (js_trim s)"
    by (simp add: js_trim_def)
  let ?t = "dropWhile is_js_space s"
  have "dropWhile is_js_space (js_trim s) = js_trim s"
  proof (cases "js_trim s")
    case (Cons c r)
    have "?t \<noteq> []"
    proof
      assume empty: "?t = []"
      have "js_trim s = []" unfolding js_trim_def empty by simp
      with Cons show False by simp
    qed
    then have "\<not> is_js_space (hd ?t)" by (rule hd_dropWhile)
    moreover have "hd (js_trim s) = hd ?t"
    proof -
      have "?t = js_trim s @ rev (takeWhile is_js_space (rev ?t))"
        unfolding js_trim_def by (metis rev_append rev_rev_ident takeWhile_dropWhile_id)
      then show ?thesis using Cons by (metis hd_append2 list.distinct(1))
    qed
    ultimately show ?thesis using Cons by simp
  qed simp
  then show ?thesis using trailing by (simp add: js_trim_def)
qed

text \<open>
  What the host supplies and the language leaves to the implementation: \<open>Date.parse\<close> (\<open>None\<close> is
  NaN), the text of a time value (\<open>toISOString\<close>), \<open>localeCompare\<close>, and the text of the number nearest to
  a text, \<open>String(Number(s))\<close>. They are parameters.
\<close>

record js_env =
  dateParse :: "string \<Rightarrow> int option"
  toISOString :: "int \<Rightarrow> string"
  localeCompare :: "string \<Rightarrow> string \<Rightarrow> int"
  numberText :: "string \<Rightarrow> string"

section \<open>Stable sorting with a comparison function\<close>

text \<open>
  \<open>Array.prototype.sort\<close> with a comparator is stable: elements the comparator calls equal keep
  their order. Insertion sort is the reference; \<open>cmp a b > 0\<close> means that \<open>a\<close> comes after \<open>b\<close>.
\<close>

fun insert_by :: "('a \<Rightarrow> 'a \<Rightarrow> int) \<Rightarrow> 'a \<Rightarrow> 'a list \<Rightarrow> 'a list" where
  "insert_by cmp x [] = [x]"
| "insert_by cmp x (y # ys) = (if cmp x y \<le> 0 then x # y # ys else y # insert_by cmp x ys)"

definition sort_by :: "('a \<Rightarrow> 'a \<Rightarrow> int) \<Rightarrow> 'a list \<Rightarrow> 'a list" where
  "sort_by cmp xs = foldr (insert_by cmp) xs []"

lemma sort_by_Nil [simp]: "sort_by cmp [] = []"
  by (simp add: sort_by_def)

lemma sort_by_Cons [simp]: "sort_by cmp (x # xs) = insert_by cmp x (sort_by cmp xs)"
  by (simp add: sort_by_def)

lemma set_insert_by [simp]: "set (insert_by cmp x xs) = insert x (set xs)"
  by (induction xs) auto

lemma set_sort_by [simp]: "set (sort_by cmp xs) = set xs"
  by (induction xs) auto

lemma length_insert_by [simp]: "length (insert_by cmp x xs) = Suc (length xs)"
  by (induction xs) auto

lemma length_sort_by [simp]: "length (sort_by cmp xs) = length xs"
  by (induction xs) auto

lemma distinct_insert_by: "distinct (insert_by cmp x xs) \<longleftrightarrow> x \<notin> set xs \<and> distinct xs"
  by (induction xs) auto

lemma distinct_sort_by [simp]: "distinct (sort_by cmp xs) \<longleftrightarrow> distinct xs"
  by (induction xs) (auto simp: distinct_insert_by)

text \<open>
  The contract of a comparator, and what it gives: \<open>sort_by\<close> puts a minimum first. The
  comparators of the program are interpretations of this locale.
\<close>

locale comparator =
  fixes cmp :: "'a \<Rightarrow> 'a \<Rightarrow> int" and S :: "'a set"
  assumes antisym: "x \<in> S \<Longrightarrow> y \<in> S \<Longrightarrow> 0 < cmp x y \<longleftrightarrow> cmp y x < 0"
    and trans: "x \<in> S \<Longrightarrow> y \<in> S \<Longrightarrow> z \<in> S \<Longrightarrow> cmp x y \<le> 0 \<Longrightarrow> cmp y z \<le> 0 \<Longrightarrow> cmp x z \<le> 0"
begin

lemma total: "x \<in> S \<Longrightarrow> y \<in> S \<Longrightarrow> cmp x y \<le> 0 \<or> cmp y x \<le> 0"
  using antisym [of x y] by force

lemma refl: "x \<in> S \<Longrightarrow> cmp x x \<le> 0"
  using total [of x x] by simp

lemma sorted_insert_by:
  "set (x # xs) \<subseteq> S \<Longrightarrow> sorted_wrt (\<lambda>a b. cmp a b \<le> 0) xs \<Longrightarrow>
   sorted_wrt (\<lambda>a b. cmp a b \<le> 0) (insert_by cmp x xs)"
proof (induction xs)
  case (Cons y ys)
  show ?case
  proof (cases "cmp x y \<le> 0")
    case True
    have "cmp x z \<le> 0" if "z \<in> set ys" for z
      using trans [of x y z] Cons.prems True that by auto
    then show ?thesis using Cons.prems True by auto
  next
    case False
    then have "cmp y x \<le> 0" using total [of x y] Cons.prems by auto
    then show ?thesis using Cons False by auto
  qed
qed simp

lemma sorted_sort_by: "set xs \<subseteq> S \<Longrightarrow> sorted_wrt (\<lambda>a b. cmp a b \<le> 0) (sort_by cmp xs)"
  by (induction xs) (simp_all add: sorted_insert_by)

lemma sort_by_hd_least:
  assumes "set xs \<subseteq> S" "sort_by cmp xs = y # ys" "x \<in> set xs"
  shows "cmp y x \<le> 0"
proof -
  have "x = y \<or> x \<in> set ys" using assms(2,3) set_sort_by [of cmp xs] by auto
  moreover have "y \<in> set xs" using assms(2) set_sort_by [of cmp xs] by auto
  ultimately show ?thesis
    using sorted_sort_by [OF assms(1)] refl [of y] assms by auto
qed

end

end
