(* ===== verification/Store.thy ===== *)
theory Store
  imports Kastur_Prelude
begin

text \<open>
  The local database as the managers of \<open>packages/local-db\<close> use it. A table of Dexie (IndexedDB) is the
  list of its rows in the order of the primary key; a schema names the primary key and the unique
  indexes. A row whose indexed property is null has no entry in the index (\<open>None\<close>). Methods run in a
  state and exception monad: a failed method keeps the writes made before the failure, and
  \<open>transaction\<close> undoes them, which is what \<open>db.transaction("rw", ...)\<close> does when its callback throws.
  The contract of a table is a locale, interpreted on these definitions for every schema.
\<close>

section \<open>State and exceptions\<close>

type_synonym ('s, 'a) act = "'s \<Rightarrow> 'a result \<times> 's"

definition retA :: "'a \<Rightarrow> ('s, 'a) act" where
  "retA x s = (Inr x, s)"

definition liftA :: "'a result \<Rightarrow> ('s, 'a) act" where
  "liftA r s = (r, s)"

definition throwA :: "js_error \<Rightarrow> ('s, 'a) act" where
  "throwA e s = (Inl e, s)"

definition readA :: "('s \<Rightarrow> 'a) \<Rightarrow> ('s, 'a) act" where
  "readA f s = (Inr (f s), s)"

definition bindA :: "('s, 'a) act \<Rightarrow> ('a \<Rightarrow> ('s, 'b) act) \<Rightarrow> ('s, 'b) act" where
  "bindA m f s = (case m s of (Inl e, s') \<Rightarrow> (Inl e, s') | (Inr x, s') \<Rightarrow> f x s')"

definition catchA :: "('s, 'a) act \<Rightarrow> (js_error \<Rightarrow> ('s, 'a) act) \<Rightarrow> ('s, 'a) act" where
  "catchA m h s = (case m s of (Inl e, s') \<Rightarrow> h e s' | (Inr x, s') \<Rightarrow> (Inr x, s'))"

definition transaction :: "('s, 'a) act \<Rightarrow> ('s, 'a) act" where
  "transaction m s = (case m s of (Inl e, s') \<Rightarrow> (Inl e, s) | (Inr x, s') \<Rightarrow> (Inr x, s'))"

fun forA :: "('a \<Rightarrow> ('s, unit) act) \<Rightarrow> 'a list \<Rightarrow> ('s, unit) act" where
  "forA f [] = retA ()"
| "forA f (x # xs) = bindA (f x) (\<lambda>_. forA f xs)"

declare retA_def [code_unfold] liftA_def [code_unfold] throwA_def [code_unfold] readA_def [code_unfold]

lemma runA_simps [simp]:
  "retA x s = (Inr x, s)" "liftA r s = (r, s)" "throwA e s = (Inl e, s)" "readA f s = (Inr (f s), s)"
  by (simp_all add: retA_def liftA_def throwA_def readA_def)

lemma bindA_retA [simp]: "bindA (retA x) f = f x" "bindA (liftA (Inr x)) f = f x"
  "bindA (throwA e) f = throwA e" "bindA (liftA (Inl e)) f' = throwA e"
  by (simp_all add: fun_eq_iff bindA_def)

lemma bindA_eq_Inr [result_simps]:
  "bindA m f s = (Inr y, s') \<longleftrightarrow> (\<exists>x s1. m s = (Inr x, s1) \<and> f x s1 = (Inr y, s'))"
  by (auto simp: bindA_def split: prod.splits sum.splits)

lemma bindA_eq_Inl [result_simps]:
  "bindA m f s = (Inl e, s') \<longleftrightarrow>
     m s = (Inl e, s') \<or> (\<exists>x s1. m s = (Inr x, s1) \<and> f x s1 = (Inl e, s'))"
  by (auto simp: bindA_def split: prod.splits sum.splits)

lemma transaction_eq_Inr [result_simps]: "transaction m s = (Inr x, s') \<longleftrightarrow> m s = (Inr x, s')"
  by (auto simp: transaction_def split: prod.splits sum.splits)

lemma transaction_eq_Inl [result_simps]:
  "transaction m s = (Inl e, s') \<longleftrightarrow> (\<exists>s1. m s = (Inl e, s1)) \<and> s' = s"
  by (auto simp: transaction_def split: prod.splits sum.splits)

lemma catchA_eq_Inr [result_simps]:
  "catchA m h s = (Inr y, s') \<longleftrightarrow>
     m s = (Inr y, s') \<or> (\<exists>e s1. m s = (Inl e, s1) \<and> h e s1 = (Inr y, s'))"
  by (auto simp: catchA_def split: prod.splits sum.splits)

lemma catchA_eq_Inl [result_simps]:
  "catchA m h s = (Inl e, s') \<longleftrightarrow> (\<exists>e1 s1. m s = (Inl e1, s1) \<and> h e1 s1 = (Inl e, s'))"
  by (auto simp: catchA_def split: prod.splits sum.splits)

text \<open>All or nothing: a transaction that fails leaves the state as it was.\<close>

lemma transaction_atomic: "fst (transaction m s) = Inl e \<Longrightarrow> snd (transaction m s) = s"
  by (auto simp: transaction_def split: prod.splits sum.splits)

text \<open>A method that never writes.\<close>

definition readonly :: "('s, 'a) act \<Rightarrow> bool" where
  "readonly m = (\<forall>s. snd (m s) = s)"

lemma readonly_simps [simp]:
  "readonly (retA x)" "readonly (liftA r)" "readonly (throwA e)" "readonly (readA f)"
  by (simp_all add: readonly_def)

lemma readonly_bindA: "readonly m \<Longrightarrow> (\<And>x. readonly (f x)) \<Longrightarrow> readonly (bindA m f)"
proof -
  assume m: "readonly m" and f: "\<And>x. readonly (f x)"
  have "snd (bindA m f s) = s" for s
  proof (cases "m s")
    case (Pair r s')
    moreover have "s' = s" using m Pair by (metis readonly_def snd_conv)
    moreover have "snd (f x s) = s" for x using f [of x] by (simp add: readonly_def)
    ultimately show ?thesis by (cases r) (simp_all add: bindA_def)
  qed
  then show ?thesis by (simp add: readonly_def)
qed

section \<open>Tables\<close>

record 'r schema =
  sch_key :: "'r \<Rightarrow> string"
  sch_unique :: "('r \<Rightarrow> string list option) list"

fun ins_row :: "('r \<Rightarrow> string) \<Rightarrow> 'r \<Rightarrow> 'r list \<Rightarrow> 'r list" where
  "ins_row k r [] = [r]"
| "ins_row k r (x # xs) =
     (if k r < k x then r # x # xs else if k r = k x then r # xs else x # ins_row k r xs)"

definition t_get :: "'r schema \<Rightarrow> string \<Rightarrow> 'r list \<Rightarrow> 'r option" where
  "t_get S k t = find (\<lambda>r. sch_key S r = k) t"

text \<open>Another row holds one of the unique index keys of the row.\<close>

definition t_conflict :: "'r schema \<Rightarrow> 'r \<Rightarrow> 'r list \<Rightarrow> bool" where
  "t_conflict S r t =
     list_ex (\<lambda>x. sch_key S x \<noteq> sch_key S r \<and>
                  list_ex (\<lambda>u. u r \<noteq> None \<and> u x = u r) (sch_unique S)) t"

definition t_add :: "'r schema \<Rightarrow> 'r \<Rightarrow> 'r list \<Rightarrow> 'r list result" where
  "t_add S r t =
     (if t_get S (sch_key S r) t \<noteq> None \<or> t_conflict S r t then Inl (DexieError ''ConstraintError'')
      else Inr (ins_row (sch_key S) r t))"

definition t_put :: "'r schema \<Rightarrow> 'r \<Rightarrow> 'r list \<Rightarrow> 'r list result" where
  "t_put S r t =
     (if t_conflict S r t then Inl (DexieError ''ConstraintError'') else Inr (ins_row (sch_key S) r t))"

text \<open>
  \<open>bulkAdd\<close> and \<open>bulkPut\<close> report a failed row as a \<open>BulkError\<close>; uncaught, it aborts the transaction.
\<close>

definition t_bulkAdd :: "'r schema \<Rightarrow> 'r list \<Rightarrow> 'r list \<Rightarrow> 'r list result" where
  "t_bulkAdd S rs t =
     catchE (foldE (\<lambda>t r. t_add S r t) t rs) (\<lambda>_. Inl (DexieError ''BulkError''))"

definition t_bulkPut :: "'r schema \<Rightarrow> 'r list \<Rightarrow> 'r list \<Rightarrow> 'r list result" where
  "t_bulkPut S rs t =
     catchE (foldE (\<lambda>t r. t_put S r t) t rs) (\<lambda>_. Inl (DexieError ''BulkError''))"

definition t_bulkDelete :: "'r schema \<Rightarrow> string list \<Rightarrow> 'r list \<Rightarrow> 'r list" where
  "t_bulkDelete S ks t = filter (\<lambda>r. sch_key S r \<notin> set ks) t"

text \<open>
  \<open>where(...).modify(...)\<close> rewrites the selected rows; \<open>update(key, ...)\<close> selects by the primary key and
  does nothing when there is no such row. The changes the program makes leave the primary key alone.
\<close>

definition t_modify :: "'r schema \<Rightarrow> ('r \<Rightarrow> bool) \<Rightarrow> ('r \<Rightarrow> 'r) \<Rightarrow> 'r list \<Rightarrow> 'r list result" where
  "t_modify S p f t =
     catchE (foldE (\<lambda>t r. t_put S (f r) t) t (filter p t)) (\<lambda>_. Inl (DexieError ''ModifyError''))"

definition t_update :: "'r schema \<Rightarrow> string \<Rightarrow> ('r \<Rightarrow> 'r) \<Rightarrow> 'r list \<Rightarrow> 'r list result" where
  "t_update S k f t = t_modify S (\<lambda>r. sch_key S r = k) f t"

text \<open>The order \<open>sortBy(keyPath)\<close> and index order use for strings.\<close>

definition cmpStr :: "string \<Rightarrow> string \<Rightarrow> int" where
  "cmpStr a b = (if a < b then - 1 else if b < a then 1 else 0)"

definition sortBy :: "('r \<Rightarrow> string) \<Rightarrow> 'r list \<Rightarrow> 'r list" where
  "sortBy f rs = sort_by (\<lambda>a b. cmpStr (f a) (f b)) rs"

text \<open>A table operation inside a method: \<open>rd\<close> and \<open>wr\<close> select the table in the database.\<close>

definition tableA ::
  "('s \<Rightarrow> 't) \<Rightarrow> (('t \<Rightarrow> 't) \<Rightarrow> 's \<Rightarrow> 's) \<Rightarrow> ('t \<Rightarrow> 't result) \<Rightarrow> ('s, unit) act" where
  "tableA rd wr f s = (case f (rd s) of Inl e \<Rightarrow> (Inl e, s) | Inr t \<Rightarrow> (Inr (), wr (\<lambda>_. t) s))"

lemma tableA_eq_Inr [result_simps]:
  "tableA rd wr f s = (Inr u, s') \<longleftrightarrow> (\<exists>t. f (rd s) = Inr t \<and> s' = wr (\<lambda>_. t) s)"
  by (auto simp: tableA_def split: sum.splits)

lemma tableA_eq_Inl [result_simps]: "tableA rd wr f s = (Inl e, s') \<longleftrightarrow> f (rd s) = Inl e \<and> s' = s"
  by (auto simp: tableA_def split: sum.splits)

section \<open>The contract of a table\<close>

text \<open>Rows are in strict key order and no two rows share a unique index key.\<close>

definition t_ok :: "'r schema \<Rightarrow> 'r list \<Rightarrow> bool" where
  "t_ok S t =
     (sorted_wrt (\<lambda>a b. sch_key S a < sch_key S b) t \<and>
      (\<forall>u \<in> set (sch_unique S). \<forall>a \<in> set t. \<forall>b \<in> set t. u a \<noteq> None \<and> u a = u b \<longrightarrow> a = b))"

locale table_contract =
  fixes key :: "'r \<Rightarrow> string" and uniq :: "('r \<Rightarrow> string list option) list"
    and ok :: "'t \<Rightarrow> bool" and rows :: "'t \<Rightarrow> 'r set" and get :: "string \<Rightarrow> 't \<Rightarrow> 'r option"
    and add :: "'r \<Rightarrow> 't \<Rightarrow> 't result" and put :: "'r \<Rightarrow> 't \<Rightarrow> 't result"
  assumes get_iff: "ok t \<Longrightarrow> get k t = Some r \<longleftrightarrow> r \<in> rows t \<and> key r = k"
    and add_Inr: "ok t \<Longrightarrow> add r t = Inr t' \<Longrightarrow>
          ok t' \<and> rows t' = insert r (rows t) \<and> key r \<notin> key ` rows t"
    and add_Inl: "ok t \<Longrightarrow> add r t = Inl e \<Longrightarrow> e = DexieError ''ConstraintError'' \<and>
          (key r \<in> key ` rows t \<or> (\<exists>u \<in> set uniq. u r \<noteq> None \<and> u r \<in> u ` rows t))"
    and put_Inr: "ok t \<Longrightarrow> put r t = Inr t' \<Longrightarrow>
          ok t' \<and> rows t' = insert r {x \<in> rows t. key x \<noteq> key r}"
    and put_Inl: "ok t \<Longrightarrow> put r t = Inl e \<Longrightarrow> e = DexieError ''ConstraintError'' \<and>
          (\<exists>x \<in> rows t. key x \<noteq> key r \<and> (\<exists>u \<in> set uniq. u r \<noteq> None \<and> u x = u r))"
    and unique_index: "ok t \<Longrightarrow> u \<in> set uniq \<Longrightarrow> a \<in> rows t \<Longrightarrow> b \<in> rows t \<Longrightarrow>
          u a \<noteq> None \<Longrightarrow> u a = u b \<Longrightarrow> a = b"
begin

lemma get_None_iff: "ok t \<Longrightarrow> get k t = None \<longleftrightarrow> k \<notin> key ` rows t"
  using get_iff [of t k] by (metis image_iff not_None_eq option.distinct(1))

lemma key_determines_row: "ok t \<Longrightarrow> a \<in> rows t \<Longrightarrow> b \<in> rows t \<Longrightarrow> key a = key b \<Longrightarrow> a = b"
  using get_iff by (metis option.inject)

lemma get_add: "ok t \<Longrightarrow> add r t = Inr t' \<Longrightarrow> get k t' = (if k = key r then Some r else get k t)"
proof -
  assume t: "ok t" "add r t = Inr t'"
  then have t': "ok t'" "rows t' = insert r (rows t)" "key r \<notin> key ` rows t" using add_Inr by blast+
  show ?thesis
  proof (cases "k = key r")
    case True
    then show ?thesis using get_iff [OF t'(1), of k r] t'(2) by simp
  next
    case False
    have "get k t' = Some x \<longleftrightarrow> get k t = Some x" for x
      using get_iff [OF t'(1), of k x] get_iff [OF t(1), of k x] t'(2) False by auto
    then show ?thesis using False by (metis option.exhaust)
  qed
qed

lemma get_put: "ok t \<Longrightarrow> put r t = Inr t' \<Longrightarrow> get k t' = (if k = key r then Some r else get k t)"
proof -
  assume t: "ok t" "put r t = Inr t'"
  then have t': "ok t'" "rows t' = insert r {x \<in> rows t. key x \<noteq> key r}" using put_Inr by blast+
  show ?thesis
  proof (cases "k = key r")
    case True
    then show ?thesis using get_iff [OF t'(1), of k r] t'(2) by simp
  next
    case False
    have "get k t' = Some x \<longleftrightarrow> get k t = Some x" for x
      using get_iff [OF t'(1), of k x] get_iff [OF t(1), of k x] t'(2) False by auto
    then show ?thesis using False by (metis option.exhaust)
  qed
qed

text \<open>An added row cannot share a unique index key with a row that was there.\<close>

lemma add_unique:
  "ok t \<Longrightarrow> add r t = Inr t' \<Longrightarrow> u \<in> set uniq \<Longrightarrow> x \<in> rows t \<Longrightarrow> u r \<noteq> None \<Longrightarrow> u x \<noteq> u r"
  using add_Inr unique_index by (metis image_eqI insertI1 insertI2)

end

lemma ins_row_sorted:
  "sorted_wrt (\<lambda>a b. k a < k b) t \<Longrightarrow> sorted_wrt (\<lambda>a b. k a < k b) (ins_row k r t)"
  and ins_row_set: "sorted_wrt (\<lambda>a b. k a < k b) t \<Longrightarrow>
     set (ins_row k r t) = insert r {x \<in> set t. k x \<noteq> k r}"
proof (induction t)
  case (Cons x xs)
  {
    case 1
    then have IH: "sorted_wrt (\<lambda>a b. k a < k b) (ins_row k r xs)"
      "set (ins_row k r xs) = insert r {x \<in> set xs. k x \<noteq> k r}" using Cons.IH by simp_all
    then show ?case using 1 by (auto intro: order_less_trans)
  next
    case 2
    then have "set (ins_row k r xs) = insert r {x \<in> set xs. k x \<noteq> k r}" using Cons.IH by simp
    then show ?case using 2 by (auto dest: order_less_trans)
  }
qed simp_all

lemma sorted_key_unique:
  "sorted_wrt (\<lambda>a b. k a < k b) t \<Longrightarrow> a \<in> set t \<Longrightarrow> b \<in> set t \<Longrightarrow> k a = (k b :: string) \<Longrightarrow> a = b"
  by (induction t) (simp_all, metis order_less_irrefl)

lemma t_get_iff: "t_ok S t \<Longrightarrow> t_get S k t = Some r \<longleftrightarrow> r \<in> set t \<and> sch_key S r = k"
proof -
  assume "t_ok S t"
  then have sorted: "sorted_wrt (\<lambda>a b. sch_key S a < sch_key S b) t" by (simp add: t_ok_def)
  show ?thesis
  proof
    assume "t_get S k t = Some r"
    then show "r \<in> set t \<and> sch_key S r = k" unfolding t_get_def by (auto simp: find_Some_iff)
  next
    assume r: "r \<in> set t \<and> sch_key S r = k"
    then obtain x where "t_get S k t = Some x" unfolding t_get_def by (metis (mono_tags, lifting) find_None_iff not_None_eq)
    moreover have "x \<in> set t" "sch_key S x = k" using calculation unfolding t_get_def by (auto simp: find_Some_iff)
    ultimately show "t_get S k t = Some r" using r sorted_key_unique [OF sorted, of x r] by simp
  qed
qed

lemma t_put_ok:
  assumes "t_ok S t" "\<not> t_conflict S r t"
  shows "t_ok S (ins_row (sch_key S) r t)"
proof -
  have sorted: "sorted_wrt (\<lambda>a b. sch_key S a < sch_key S b) t"
    and uniq: "\<And>u a b. u \<in> set (sch_unique S) \<Longrightarrow> a \<in> set t \<Longrightarrow> b \<in> set t \<Longrightarrow> u a \<noteq> None \<Longrightarrow> u a = u b \<Longrightarrow> a = b"
    using assms(1) unfolding t_ok_def by blast+
  have fresh: "u x \<noteq> u r" if "u \<in> set (sch_unique S)" "x \<in> set t" "sch_key S x \<noteq> sch_key S r" "u r \<noteq> None" for u x
    using assms(2) that unfolding t_conflict_def list_ex_iff by metis
  have "a = b" if "u \<in> set (sch_unique S)" "a \<in> insert r {x \<in> set t. sch_key S x \<noteq> sch_key S r}"
      "b \<in> insert r {x \<in> set t. sch_key S x \<noteq> sch_key S r}" "u a \<noteq> None" "u a = u b" for u a b
    using that uniq [of u a b] fresh [of u a] fresh [of u b] by (metis (mono_tags, lifting) insertE mem_Collect_eq)
  then show ?thesis
    unfolding t_ok_def ins_row_set [OF sorted] using ins_row_sorted [OF sorted, of r] by blast
qed

interpretation tbl: table_contract "sch_key S" "sch_unique S" "t_ok S" set "t_get S" "t_add S" "t_put S"
  for S :: "'r schema"
proof
  fix t :: "'r list" and r t'
  assume ok: "t_ok S t"
  have sorted: "sorted_wrt (\<lambda>a b. sch_key S a < sch_key S b) t" using ok by (simp add: t_ok_def)
  show "t_get S k t = Some x \<longleftrightarrow> x \<in> set t \<and> sch_key S x = k" for k x by (rule t_get_iff [OF ok])
  have None: "t_get S k t = None \<longleftrightarrow> k \<notin> sch_key S ` set t" for k
    by (auto simp: t_get_def find_None_iff)
  show "t_add S r t = Inr t' \<Longrightarrow>
      t_ok S t' \<and> set t' = insert r (set t) \<and> sch_key S r \<notin> sch_key S ` set t"
  proof -
    assume "t_add S r t = Inr t'"
    then have "t_get S (sch_key S r) t = None" "\<not> t_conflict S r t" "t' = ins_row (sch_key S) r t"
      by (auto simp: t_add_def split: if_splits)
    then show ?thesis using None t_put_ok [OF ok] ins_row_set [OF sorted, of r] by (auto simp: image_iff)
  qed
  show "t_add S r t = Inl e \<Longrightarrow> e = DexieError ''ConstraintError'' \<and>
      (sch_key S r \<in> sch_key S ` set t \<or> (\<exists>u \<in> set (sch_unique S). u r \<noteq> None \<and> u r \<in> u ` set t))" for e
    using None [of "sch_key S r"] unfolding t_add_def t_conflict_def list_ex_iff
    by (metis (no_types, lifting) image_eqI sum.inject(1) sum.distinct(1))
  show "t_put S r t = Inr t' \<Longrightarrow> t_ok S t' \<and> set t' = insert r {x \<in> set t. sch_key S x \<noteq> sch_key S r}"
    using t_put_ok [OF ok] ins_row_set [OF sorted, of r] by (auto simp: t_put_def split: if_splits)
  show "t_put S r t = Inl e \<Longrightarrow> e = DexieError ''ConstraintError'' \<and>
      (\<exists>x \<in> set t. sch_key S x \<noteq> sch_key S r \<and> (\<exists>u \<in> set (sch_unique S). u r \<noteq> None \<and> u x = u r))" for e
    by (auto simp: t_put_def t_conflict_def list_ex_iff split: if_splits)
qed (auto simp: t_ok_def)

text \<open>
  Rewriting rows without touching the primary key, and touching unique index keys only to clear them,
  always succeeds and changes exactly the selected rows.
\<close>

definition keeps_keys :: "'r schema \<Rightarrow> ('r \<Rightarrow> 'r) \<Rightarrow> bool" where
  "keeps_keys S f = ((\<forall>r. sch_key S (f r) = sch_key S r) \<and>
     (\<forall>u \<in> set (sch_unique S). \<forall>r. u (f r) = u r \<or> u (f r) = None))"

lemma ins_row_replace:
  "sorted_wrt (\<lambda>a b. k a < k b) t \<Longrightarrow> x \<in> set t \<Longrightarrow> k x = k r \<Longrightarrow>
   ins_row k r t = map (\<lambda>x. if k x = k r then r else x) t"
proof (induction t)
  case (Cons y ys)
  show ?case
  proof (cases "k y = k r")
    case True
    then have "map (\<lambda>x. if k x = k r then r else x) ys = ys"
      using Cons.prems(1) by (intro map_idI) auto
    then show ?thesis using True by simp
  next
    case False
    then have "x \<in> set ys" "k y < k r" using Cons.prems by auto
    then show ?thesis using False Cons.IH Cons.prems by (simp add: order_less_not_sym)
  qed
qed simp

lemma put_rewritten:
  assumes "t_ok S t" "keeps_keys S f" "r \<in> set t"
  shows "t_put S (f r) t = Inr (map (\<lambda>x. if x = r then f r else x) t)"
    and "t_ok S (map (\<lambda>x. if x = r then f r else x) t)"
proof -
  have sorted: "sorted_wrt (\<lambda>a b. sch_key S a < sch_key S b) t" using assms(1) by (simp add: t_ok_def)
  have k: "sch_key S (f r) = sch_key S r" using assms(2) by (simp add: keeps_keys_def)
  have same: "sch_key S x = sch_key S r \<longleftrightarrow> x = r" if "x \<in> set t" for x
    using sorted_key_unique [OF sorted that assms(3)] by auto
  have "\<not> t_conflict S (f r) t"
  proof
    assume "t_conflict S (f r) t"
    then obtain x u where x: "x \<in> set t" "sch_key S x \<noteq> sch_key S r" "u \<in> set (sch_unique S)"
        "u (f r) \<noteq> None" "u x = u (f r)"
      unfolding t_conflict_def list_ex_iff k by blast
    then have "u x = u r" "u x \<noteq> None" using assms(2) unfolding keeps_keys_def by metis+
    then show False using tbl.unique_index [OF assms(1) x(3,1) assms(3)] x(2) by blast
  qed
  moreover have "ins_row (sch_key S) (f r) t = map (\<lambda>x. if x = r then f r else x) t"
    unfolding ins_row_replace [OF sorted assms(3) k [symmetric]] k using same by (intro map_cong) auto
  ultimately show "t_put S (f r) t = Inr (map (\<lambda>x. if x = r then f r else x) t)"
    "t_ok S (map (\<lambda>x. if x = r then f r else x) t)"
    using t_put_ok [OF assms(1), of "f r"] by (simp_all add: t_put_def)
qed

lemma modify_fold:
  assumes "t_ok S t" "keeps_keys S f" "set rs \<subseteq> set t" "distinct (map (sch_key S) rs)"
  shows "foldE (\<lambda>t r. t_put S (f r) t) t rs = Inr (map (\<lambda>x. if x \<in> set rs then f x else x) t) \<and>
    t_ok S (map (\<lambda>x. if x \<in> set rs then f x else x) t)"
  using assms
proof (induction rs arbitrary: t)
  case (Cons r rs)
  let ?t = "map (\<lambda>x. if x = r then f r else x) t"
  have put: "t_put S (f r) t = Inr ?t" "t_ok S ?t" using put_rewritten Cons.prems(1-3) by auto
  have k: "sch_key S (f r) = sch_key S r" using assms(2) by (simp add: keeps_keys_def)
  have notin: "r \<notin> set rs" "f r \<notin> set rs" using Cons.prems(4) k by (auto simp: image_iff)
  then have "set rs \<subseteq> set ?t" using Cons.prems(3) by auto
  then have IH: "foldE (\<lambda>t r. t_put S (f r) t) ?t rs = Inr (map (\<lambda>x. if x \<in> set rs then f x else x) ?t)"
    "t_ok S (map (\<lambda>x. if x \<in> set rs then f x else x) ?t)"
    using Cons.IH [OF put(2) Cons.prems(2)] Cons.prems(4) by simp_all
  have eq: "map (\<lambda>x. if x \<in> set rs then f x else x) ?t = map (\<lambda>x. if x \<in> set (r # rs) then f x else x) t"
    using notin by auto
  show ?case using put(1) IH unfolding eq by simp
qed simp

lemma modify_keeps:
  assumes "t_ok S t" "keeps_keys S f"
  shows "t_modify S p f t = Inr (map (\<lambda>x. if p x then f x else x) t)"
    and "t_ok S (map (\<lambda>x. if p x then f x else x) t)"
proof -
  have sorted: "sorted_wrt (\<lambda>a b. sch_key S a < sch_key S b) t" using assms(1) by (simp add: t_ok_def)
  then have "sorted_wrt (<) (map (sch_key S) t)" by (simp add: sorted_wrt_map)
  then have "distinct (map (sch_key S) t)" by (simp add: strict_sorted_iff)
  then have "distinct (map (sch_key S) (filter p t))" by (rule distinct_map_filter)
  from modify_fold [OF assms _ this] have
    "foldE (\<lambda>t r. t_put S (f r) t) t (filter p t) = Inr (map (\<lambda>x. if p x then f x else x) t) \<and>
     t_ok S (map (\<lambda>x. if p x then f x else x) t)"
    by (simp cong: map_cong)
  then show "t_modify S p f t = Inr (map (\<lambda>x. if p x then f x else x) t)"
    "t_ok S (map (\<lambda>x. if p x then f x else x) t)"
    by (simp_all add: t_modify_def)
qed

lemma update_keeps:
  assumes "t_ok S t" "keeps_keys S f"
  shows "t_update S k f t = Inr (map (\<lambda>x. if sch_key S x = k then f x else x) t)"
    and "t_ok S (map (\<lambda>x. if sch_key S x = k then f x else x) t)"
  using modify_keeps [OF assms] by (simp_all add: t_update_def)

lemma bulkAdd_Inr:
  assumes "t_bulkAdd S rs t = Inr t'" "t_ok S t"
  shows "t_ok S t' \<and> set t' = set t \<union> set rs \<and> sch_key S ` set rs \<inter> sch_key S ` set t = {}"
proof -
  have "foldE (\<lambda>t r. t_add S r t) t rs = Inr t'" using assms(1) by (auto simp: t_bulkAdd_def catchE_eq_Inr)
  then show ?thesis using assms(2)
  proof (induction rs arbitrary: t)
    case (Cons r rs)
    then obtain t1 where t1: "t_add S r t = Inr t1" "foldE (\<lambda>t r. t_add S r t) t1 rs = Inr t'"
      by (auto simp: bindE_eq_Inr)
    then have "t_ok S t1 \<and> set t1 = insert r (set t) \<and> sch_key S r \<notin> sch_key S ` set t"
      using tbl.add_Inr [OF Cons.prems(2)] by blast
    then show ?case using Cons.IH [OF t1(2)] by auto
  qed simp
qed

lemma bulkPut_Inr:
  assumes "t_bulkPut S rs t = Inr t'" "t_ok S t"
  shows "t_ok S t' \<and> set t' \<subseteq> set t \<union> set rs \<and>
    sch_key S ` set t' = sch_key S ` set t \<union> sch_key S ` set rs \<and>
    {x \<in> set t. sch_key S x \<notin> sch_key S ` set rs} \<subseteq> set t' \<and>
    (distinct (map (sch_key S) rs) \<longrightarrow> set rs \<subseteq> set t')"
proof -
  have "foldE (\<lambda>t r. t_put S r t) t rs = Inr t'" using assms(1) by (auto simp: t_bulkPut_def catchE_eq_Inr)
  then show ?thesis using assms(2)
  proof (induction rs arbitrary: t)
    case (Cons r rs)
    then obtain t1 where t1: "t_put S r t = Inr t1" "foldE (\<lambda>t r. t_put S r t) t1 rs = Inr t'"
      by (auto simp: bindE_eq_Inr)
    then have ok1: "t_ok S t1" "set t1 = insert r {x \<in> set t. sch_key S x \<noteq> sch_key S r}"
      using tbl.put_Inr [OF Cons.prems(2)] by blast+
    then have keys: "sch_key S ` set t1 = insert (sch_key S r) (sch_key S ` set t)" by auto
    note ih = Cons.IH [OF t1(2) ok1(1)]
    have "set t' \<subseteq> set t \<union> set (r # rs)" using ih ok1(2) by auto
    moreover have "sch_key S ` set t' = sch_key S ` set t \<union> sch_key S ` set (r # rs)" using ih keys by simp
    moreover have "{x \<in> set t. sch_key S x \<notin> sch_key S ` set (r # rs)} \<subseteq> set t'"
      using ih ok1(2) by auto
    moreover have "distinct (map (sch_key S) (r # rs)) \<longrightarrow> set (r # rs) \<subseteq> set t'"
      using ih ok1(2) by (auto simp: subset_iff)
    ultimately show ?case using ih by blast
  qed simp
qed

lemma bulkDelete_ok: "t_ok S t \<Longrightarrow> t_ok S (t_bulkDelete S ks t)"
  by (auto simp: t_ok_def t_bulkDelete_def sorted_wrt_filter)

end
