(* ===== verification/Decimal_Text.thy ===== *)
theory Decimal_Text
  imports Kastur_Prelude
begin

text \<open>
  Decimal numbers as the program sees them: texts. \<open>dec_syntax\<close> is the regular expression
  \<open>^-?\d+(?:\.\d+)?$\<close> of \<open>packages/numeric/src/decimal-engine.ts\<close>, \<open>dec_value\<close> the rational number
  such a text denotes, and \<open>canonical\<close> the normal form that \<open>toCanonicalString\<close> promises: no
  superfluous zeros, no negative zero. The main facts: a canonical text is determined by its
  value, and the integer part of a canonical text has as many characters as the number has digits.
\<close>

section \<open>Digit strings\<close>

definition is_digit :: "char \<Rightarrow> bool" where
  "is_digit c = (48 \<le> (of_char c :: nat) \<and> (of_char c :: nat) \<le> 57)"

definition digit_val :: "char \<Rightarrow> nat" where
  "digit_val c = of_char c - 48"

definition digit_char :: "nat \<Rightarrow> char" where
  "digit_char d = char_of (48 + d)"

definition digits_val :: "string \<Rightarrow> nat" where
  "digits_val s = foldl (\<lambda>n c. 10 * n + digit_val c) 0 s"

lemma digits_val_Nil [simp]: "digits_val [] = 0"
  by (simp add: digits_val_def)

lemma digits_val_foldl:
  "foldl (\<lambda>n c. 10 * n + digit_val c) a s = a * 10 ^ length s + digits_val s"
proof (induction s arbitrary: a)
  case (Cons c s)
  have "foldl (\<lambda>n c. 10 * n + digit_val c) (10 * 0 + digit_val c) s =
      (10 * 0 + digit_val c) * 10 ^ length s + digits_val s"
    by (rule Cons.IH)
  then show ?case using Cons.IH [of "10 * a + digit_val c"]
    by (simp add: digits_val_def algebra_simps)
qed simp

lemma digits_val_append [simp]:
  "digits_val (a @ b) = digits_val a * 10 ^ length b + digits_val b"
proof -
  have "digits_val (a @ b) = foldl (\<lambda>n c. 10 * n + digit_val c) (digits_val a) b"
    by (simp add: digits_val_def)
  then show ?thesis by (simp add: digits_val_foldl)
qed

lemma digits_val_single [simp]: "digits_val [c] = digit_val c"
  by (simp add: digits_val_def)

lemma digits_val_Cons: "digits_val (c # s) = digit_val c * 10 ^ length s + digits_val s"
  using digits_val_append [of "[c]" s] by simp

lemma digit_val_less: "is_digit c \<Longrightarrow> digit_val c < 10"
  unfolding is_digit_def digit_val_def by linarith

lemma digit_char_digit [simp]: "d < 10 \<Longrightarrow> is_digit (digit_char d)"
  by (simp add: is_digit_def digit_char_def)

lemma digit_val_char [simp]: "d < 10 \<Longrightarrow> digit_val (digit_char d) = d"
  by (simp add: digit_val_def digit_char_def)

lemma digit_char_val: "is_digit c \<Longrightarrow> digit_char (digit_val c) = c"
  by (simp add: is_digit_def digit_val_def digit_char_def)

lemma digit_char_0 [simp]: "digit_char 0 = CHR ''0''"
  by code_simp

lemma digit_char_zero_iff: "d < 10 \<Longrightarrow> digit_char d = CHR ''0'' \<longleftrightarrow> d = 0"
  by (metis digit_val_char digit_char_0 zero_less_numeral)

lemma digit_val_inj: "is_digit c \<Longrightarrow> is_digit d \<Longrightarrow> digit_val c = digit_val d \<Longrightarrow> c = d"
  by (metis digit_char_val)

lemma digits_val_bound: "list_all is_digit s \<Longrightarrow> digits_val s < 10 ^ length s"
proof (induction s)
  case (Cons c s)
  then have "digits_val s < 10 ^ length s" "digit_val c < 10"
    by (simp_all add: digit_val_less)
  moreover from this have "digit_val c * 10 ^ length s \<le> 9 * 10 ^ length s"
    by (intro mult_le_mono1) simp
  ultimately have "digit_val c * 10 ^ length s + digits_val s < 10 * 10 ^ length s" by linarith
  then show ?case by (simp add: digits_val_Cons)
qed simp

lemma digits_val_inj:
  "list_all is_digit s \<Longrightarrow> list_all is_digit t \<Longrightarrow> length s = length t \<Longrightarrow>
   digits_val s = digits_val t \<Longrightarrow> s = t"
proof (induction s arbitrary: t)
  case (Cons c s)
  then obtain d r where t: "t = d # r" by (cases t) auto
  have len: "length s = length r" using Cons.prems t by simp
  let ?k = "10 ^ length r :: nat"
  have lt: "digits_val s < ?k" "digits_val r < ?k"
    using Cons.prems t digits_val_bound [of s] digits_val_bound [of r] len by auto
  have eq: "digit_val c * ?k + digits_val s = digit_val d * ?k + digits_val r"
    using Cons.prems(4) t len by (simp add: digits_val_Cons)
  from arg_cong [OF eq, of "\<lambda>x. x div ?k"] have "digit_val c = digit_val d"
    using lt by simp
  moreover from arg_cong [OF eq, of "\<lambda>x. x mod ?k"] have "digits_val s = digits_val r"
    using lt by simp
  ultimately show ?case
    using Cons.IH [of r] Cons.prems t len digit_val_inj [of c d] by simp
qed simp

text \<open>A digit string with no leading zero is as long as its number has digits.\<close>

lemma digits_val_lower:
  assumes "list_all is_digit s" "s \<noteq> []" "hd s \<noteq> CHR ''0''"
  shows "10 ^ (length s - 1) \<le> digits_val s"
proof -
  obtain c r where s: "s = c # r" using assms(2) by (cases s) auto
  have "is_digit c" "c \<noteq> CHR ''0''" using assms s by auto
  then have "digit_val c \<noteq> 0" using digit_char_val [of c] by (metis digit_char_0)
  then have "1 * 10 ^ length r \<le> digit_val c * 10 ^ length r" by (intro mult_le_mono1) simp
  then have "10 ^ length r \<le> digit_val c * 10 ^ length r + digits_val r" by linarith
  then show ?thesis by (simp add: s digits_val_Cons)
qed

definition plain_int :: "string \<Rightarrow> bool" where
  "plain_int i = (list_all is_digit i \<and> i \<noteq> [] \<and> (i = ''0'' \<or> hd i \<noteq> CHR ''0''))"

lemma plain_int_zero: "plain_int i \<Longrightarrow> digits_val i = 0 \<Longrightarrow> i = ''0''"
  using digits_val_lower [of i] by (auto simp: plain_int_def)

lemma plain_int_length:
  assumes "plain_int i" "digits_val i \<noteq> 0"
  shows "length i \<le> n \<longleftrightarrow> digits_val i < 10 ^ n"
proof -
  have ne: "i \<noteq> ''0''" using assms(2) by (auto simp: digit_val_def)
  then have low: "10 ^ (length i - 1) \<le> digits_val i" and up: "digits_val i < 10 ^ length i"
    using assms(1) digits_val_lower [of i] digits_val_bound [of i] by (auto simp: plain_int_def)
  show ?thesis
  proof
    assume "length i \<le> n"
    then have "(10::nat) ^ length i \<le> 10 ^ n" by (intro power_increasing) simp_all
    with up show "digits_val i < 10 ^ n" by (rule less_le_trans)
  next
    assume "digits_val i < 10 ^ n"
    with low have "(10::nat) ^ (length i - 1) < 10 ^ n" by (rule le_less_trans)
    then have "length i - 1 < n" by (metis nat_power_less_imp_less zero_less_numeral)
    then show "length i \<le> n" by linarith
  qed
qed

lemma plain_int_inj:
  assumes "plain_int i" "plain_int j" "digits_val i = digits_val j"
  shows "i = j"
proof (cases "digits_val i = 0")
  case True
  then show ?thesis using assms plain_int_zero [of i] plain_int_zero [of j] by simp
next
  case False
  have "length i \<le> length j"
    using plain_int_length [OF assms(1) False, of "length j"] digits_val_bound [of j] assms
    by (simp add: plain_int_def)
  moreover have "length j \<le> length i"
    using plain_int_length [of j "length i"] digits_val_bound [of i] assms False
    by (simp add: plain_int_def)
  ultimately show ?thesis using digits_val_inj [of i j] assms by (simp add: plain_int_def)
qed

text \<open>Printing a natural number.\<close>

fun nat_digits :: "nat \<Rightarrow> string" where
  "nat_digits n = (if n < 10 then [digit_char n] else nat_digits (n div 10) @ [digit_char (n mod 10)])"

declare nat_digits.simps [simp del]

lemma nat_digits_val [simp]: "digits_val (nat_digits n) = n"
proof (induction n rule: nat_digits.induct)
  case (1 n)
  then show ?case by (subst nat_digits.simps) simp
qed

lemma nat_digits_ne [simp]: "nat_digits n \<noteq> []"
  by (subst nat_digits.simps) simp

lemma nat_digits_digit [simp]: "list_all is_digit (nat_digits n)"
proof (induction n rule: nat_digits.induct)
  case (1 n)
  then show ?case by (subst nat_digits.simps) simp
qed

lemma nat_digits_hd: "0 < n \<Longrightarrow> hd (nat_digits n) \<noteq> CHR ''0''"
proof (induction n rule: nat_digits.induct)
  case (1 n)
  show ?case
  proof (cases "n < 10")
    case True
    then show ?thesis using 1 by (subst nat_digits.simps) (simp add: digit_char_zero_iff)
  next
    case False
    then have "hd (nat_digits (n div 10)) \<noteq> CHR ''0''" using 1 by simp
    then show ?thesis using False by (subst nat_digits.simps) (simp add: hd_append)
  qed
qed

section \<open>Decimal texts\<close>

text \<open>Sign, integer digits and fraction digits of a text, when it matches the regular expression.\<close>

definition dec_parts :: "string \<Rightarrow> (bool \<times> string \<times> string) option" where
  "dec_parts s =
     (let neg = (s \<noteq> [] \<and> hd s = CHR ''-'');
          t = (if neg then tl s else s);
          i = takeWhile is_digit t;
          r = dropWhile is_digit t
      in if i = [] then None
         else case r of
             [] \<Rightarrow> Some (neg, i, [])
           | c # f \<Rightarrow> if c = CHR ''.'' \<and> f \<noteq> [] \<and> list_all is_digit f then Some (neg, i, f) else None)"

definition dec_syntax :: "string \<Rightarrow> bool" where
  "dec_syntax s = (dec_parts s \<noteq> None)"

definition dec_render :: "bool \<Rightarrow> string \<Rightarrow> string \<Rightarrow> string" where
  "dec_render neg i f = (if neg then ''-'' else []) @ i @ (if f = [] then [] else CHR ''.'' # f)"

definition parts_value :: "bool \<Rightarrow> string \<Rightarrow> string \<Rightarrow> rat" where
  "parts_value neg i f =
     (if neg then - 1 else 1) * (of_nat (digits_val (i @ f)) / 10 ^ length f)"

definition dec_value :: "string \<Rightarrow> rat" where
  "dec_value s = (case dec_parts s of None \<Rightarrow> 0 | Some (neg, i, f) \<Rightarrow> parts_value neg i f)"

definition canonical :: "string \<Rightarrow> bool" where
  "canonical s =
     (case dec_parts s of
        None \<Rightarrow> False
      | Some (neg, i, f) \<Rightarrow>
          (i = ''0'' \<or> hd i \<noteq> CHR ''0'') \<and> (f = [] \<or> last f \<noteq> CHR ''0'') \<and>
          (neg \<longrightarrow> \<not> (i = ''0'' \<and> f = [])))"

lemma takeWhile_digits_append:
  "list_all is_digit i \<Longrightarrow> r = [] \<or> \<not> is_digit (hd r) \<Longrightarrow>
   takeWhile is_digit (i @ r) = i \<and> dropWhile is_digit (i @ r) = r"
  by (induction i) (cases r; auto)+

lemma not_digit_punct [simp]: "\<not> is_digit CHR ''.''" "\<not> is_digit CHR ''-''"
  by code_simp+

lemma dec_parts_render:
  assumes "list_all is_digit i" "i \<noteq> []" "list_all is_digit f"
  shows "dec_parts (dec_render neg i f) = Some (neg, i, f)"
proof -
  let ?r = "if f = [] then [] else CHR ''.'' # f"
  have "hd (i @ ?r) \<noteq> CHR ''-''" using assms by (cases i) auto
  moreover have "takeWhile is_digit (i @ ?r) = i" "dropWhile is_digit (i @ ?r) = ?r"
    using takeWhile_digits_append [of i ?r] assms(1) by auto
  ultimately show ?thesis using assms by (auto simp: dec_parts_def dec_render_def Let_def)
qed

lemma dec_parts_SomeD:
  assumes "dec_parts s = Some (neg, i, f)"
  shows "s = dec_render neg i f" "list_all is_digit i" "i \<noteq> []" "list_all is_digit f"
proof -
  define t where "t = (if s \<noteq> [] \<and> hd s = CHR ''-'' then tl s else s)"
  define r where "r = dropWhile is_digit t"
  have neg: "neg = (s \<noteq> [] \<and> hd s = CHR ''-'')" and i: "i = takeWhile is_digit t" "i \<noteq> []"
    and rf: "r = (if f = [] then [] else CHR ''.'' # f)" and f: "list_all is_digit f"
    using assms by (auto simp: dec_parts_def Let_def t_def r_def split: if_splits list.splits)
  have "t = i @ r" by (simp add: i(1) r_def)
  moreover have "s = (if neg then ''-'' else []) @ t"
    using neg by (cases s) (auto simp: t_def)
  ultimately show "s = dec_render neg i f" using rf by (simp add: dec_render_def)
  show "list_all is_digit i" unfolding i(1) list_all_iff by (blast dest: set_takeWhileD)
qed (use assms in \<open>auto simp: dec_parts_def Let_def split: if_splits list.splits\<close>)

lemma canonical_syntax: "canonical s \<Longrightarrow> dec_syntax s"
  by (auto simp: canonical_def dec_syntax_def split: option.splits)

lemma canonicalE:
  assumes "canonical s"
  obtains neg i f where "s = dec_render neg i f" "dec_parts s = Some (neg, i, f)"
    "plain_int i" "list_all is_digit f" "f = [] \<or> last f \<noteq> CHR ''0''"
    "neg \<longrightarrow> \<not> (i = ''0'' \<and> f = [])" "dec_value s = parts_value neg i f"
proof -
  obtain neg i f where p: "dec_parts s = Some (neg, i, f)"
    using assms by (auto simp: canonical_def split: option.splits)
  have c: "i = ''0'' \<or> hd i \<noteq> CHR ''0''" "f = [] \<or> last f \<noteq> CHR ''0''"
    "neg \<longrightarrow> \<not> (i = ''0'' \<and> f = [])"
    using assms by (simp_all add: canonical_def p)
  show thesis
  proof (rule that)
    show "s = dec_render neg i f" "dec_parts s = Some (neg, i, f)" "list_all is_digit f"
      using dec_parts_SomeD [OF p] p by blast+
    show "plain_int i" using dec_parts_SomeD [OF p] c(1) by (simp add: plain_int_def)
    show "dec_value s = parts_value neg i f" by (simp add: dec_value_def p)
  qed (fact c)+
qed

lemma canonicalI:
  assumes "plain_int i" "list_all is_digit f" "f = [] \<or> last f \<noteq> CHR ''0''"
    "neg \<longrightarrow> \<not> (i = ''0'' \<and> f = [])"
  shows "canonical (dec_render neg i f)" "dec_value (dec_render neg i f) = parts_value neg i f"
  using assms dec_parts_render [of i f neg]
  by (auto simp: canonical_def plain_int_def dec_value_def)

text \<open>The last digit of a canonical fraction is not zero, so its numerator is no multiple of ten.\<close>

lemma digits_val_last:
  assumes "list_all is_digit s" "s \<noteq> []" "last s \<noteq> CHR ''0''"
  shows "\<not> 10 dvd digits_val s"
proof -
  obtain r c where s: "s = r @ [c]" using assms(2) by (metis append_butlast_last_id)
  have c: "is_digit c" "c \<noteq> CHR ''0''" using assms s by auto
  then have "digit_val c \<noteq> 0" by (metis digit_char_0 digit_char_val)
  with c show ?thesis by (auto simp: s dvd_eq_mod_eq_0 digit_val_less)
qed

lemma canonical_digits_not_dvd:
  assumes "list_all is_digit i" "list_all is_digit f" "f \<noteq> []" "last f \<noteq> CHR ''0''"
  shows "\<not> 10 dvd digits_val (i @ f)"
  using digits_val_last [of "i @ f"] assms by simp

lemma pow10_ratio_unique:
  fixes N N' :: nat
  assumes "N * 10 ^ k' = N' * 10 ^ k" "k' = 0 \<or> \<not> 10 dvd N'"
  shows "k' \<le> k"
proof (rule ccontr)
  assume "\<not> k' \<le> k"
  then obtain d where d: "k' = k + Suc d" by (metis add_Suc_right less_iff_Suc_add not_le)
  have "N * 10 ^ Suc d * 10 ^ k = N' * 10 ^ k"
    using assms(1) d by (simp add: power_add mult.commute mult.left_commute)
  then have "N * 10 ^ Suc d = N'" by simp
  then have "10 dvd N'" by auto
  with assms(2) d show False by simp
qed

text \<open>A canonical text is determined by its value.\<close>

theorem canonical_unique:
  assumes "canonical s" "canonical t" "dec_value s = dec_value t"
  shows "s = t"
proof -
  obtain n i f where s: "s = dec_render n i f" "plain_int i" "list_all is_digit f"
      "f = [] \<or> last f \<noteq> CHR ''0''" "n \<longrightarrow> \<not> (i = ''0'' \<and> f = [])"
      "dec_value s = parts_value n i f"
    using canonicalE [OF assms(1)] by metis
  obtain m j g where t: "t = dec_render m j g" "plain_int j" "list_all is_digit g"
      "g = [] \<or> last g \<noteq> CHR ''0''" "m \<longrightarrow> \<not> (j = ''0'' \<and> g = [])"
      "dec_value t = parts_value m j g"
    using canonicalE [OF assms(2)] by metis
  define N where "N = digits_val (i @ f)"
  define M where "M = digits_val (j @ g)"
  have eq: "parts_value n i f = parts_value m j g" using assms(3) s t by simp
  then have "\<bar>parts_value n i f\<bar> = \<bar>parts_value m j g\<bar>" by simp
  then have "rat_of_nat N / 10 ^ length f = rat_of_nat M / 10 ^ length g"
    by (auto simp: parts_value_def N_def M_def abs_mult simp del: digits_val_append split: if_splits)
  then have "rat_of_nat (N * 10 ^ length g) = rat_of_nat (M * 10 ^ length f)"
    by (simp add: field_simps)
  then have cross: "N * 10 ^ length g = M * 10 ^ length f" by (simp only: of_nat_eq_iff)
  have ndN: "length f = 0 \<or> \<not> 10 dvd N" and ndM: "length g = 0 \<or> \<not> 10 dvd M"
    using s t canonical_digits_not_dvd [of i f] canonical_digits_not_dvd [of j g]
    unfolding N_def M_def plain_int_def by auto
  have len: "length f = length g"
    using pow10_ratio_unique [OF cross ndM] pow10_ratio_unique [OF cross [symmetric] ndN] by simp
  with cross have "N = M" by simp
  then have sum: "digits_val i * 10 ^ length f + digits_val f
      = digits_val j * 10 ^ length f + digits_val g"
    by (simp add: N_def M_def len)
  have lt: "digits_val f < 10 ^ length f" "digits_val g < 10 ^ length f"
    using digits_val_bound [of f] digits_val_bound [of g] s t len by auto
  from arg_cong [OF sum, of "\<lambda>x. x div 10 ^ length f"] lt have "digits_val i = digits_val j" by simp
  then have "i = j" using plain_int_inj s t by blast
  moreover from arg_cong [OF sum, of "\<lambda>x. x mod 10 ^ length f"] lt
  have "digits_val f = digits_val g" by simp
  then have "f = g" using digits_val_inj s t len by blast
  moreover have "n = m"
  proof (cases "N = 0")
    case True
    then have "digits_val i = 0" "digits_val f = 0" by (simp_all add: N_def)
    have "f = []"
    proof (rule ccontr)
      assume "f \<noteq> []"
      with ndN True show False by simp
    qed
    then have "i = ''0'' \<and> f = []" using plain_int_zero s(2) \<open>digits_val i = 0\<close> by blast
    then show ?thesis using s(5) t(5) \<open>i = j\<close> \<open>f = g\<close> by auto
  next
    case False
    then show ?thesis using eq \<open>i = j\<close> \<open>f = g\<close>
      by (auto simp: parts_value_def N_def simp del: digits_val_append split: if_splits)
  qed
  ultimately show ?thesis using s(1) t(1) by simp
qed

section \<open>Printing a decimal fraction\<close>

text \<open>\<open>dec_print m s\<close> is the canonical text of \<open>m / 10 ^ s\<close>.\<close>

fun strip10 :: "int \<Rightarrow> nat \<Rightarrow> int \<times> nat" where
  "strip10 m 0 = (m, 0)"
| "strip10 m (Suc s) = (if 10 dvd m then strip10 (m div 10) s else (m, Suc s))"

definition dec_print :: "int \<Rightarrow> nat \<Rightarrow> string" where
  "dec_print m s =
     (let (n, k) = strip10 m s;
          d = nat_digits (nat \<bar>n\<bar>);
          p = replicate (Suc k - length d) CHR ''0'' @ d
      in dec_render (n < 0) (take (length p - k) p) (drop (length p - k) p))"

lemma strip10_value: "strip10 m s = (n, k) \<Longrightarrow> (of_int n / 10 ^ k :: rat) = of_int m / 10 ^ s"
proof (induction m s rule: strip10.induct)
  case (2 m s)
  show ?case
  proof (cases "10 dvd m")
    case True
    then obtain q where q: "m = 10 * q" by blast
    with 2 True show ?thesis by simp
  qed (use 2 in simp)
qed simp

lemma strip10_normal: "strip10 m s = (n, k) \<Longrightarrow> k = 0 \<or> \<not> 10 dvd n"
  by (induction m s rule: strip10.induct) (auto split: if_splits)

lemma strip10_le: "strip10 m s = (n, k) \<Longrightarrow> k \<le> s"
  by (induction m s rule: strip10.induct) (auto split: if_splits simp: le_SucI)

lemma digits_val_zeros [simp]: "digits_val (replicate n CHR ''0'') = 0"
proof -
  have "digit_val CHR ''0'' = 0" by code_simp
  then show ?thesis by (induction n) (simp_all add: digits_val_Cons)
qed

lemma is_digit_0 [simp]: "is_digit CHR ''0''"
  by code_simp

lemma nat_digits_0: "nat_digits 0 = ''0''"
  by (simp add: nat_digits.simps)

lemma dec_print_correct:
  "canonical (dec_print m s) \<and> dec_value (dec_print m s) = of_int m / 10 ^ s"
proof -
  obtain n k where st: "strip10 m s = (n, k)" by fastforce
  define d where "d = nat_digits (nat \<bar>n\<bar>)"
  define p where "p = replicate (Suc k - length d) CHR ''0'' @ d"
  define i where "i = take (length p - k) p"
  define f where "f = drop (length p - k) p"
  have len: "k < length p" by (simp add: p_def)
  have p_if: "i @ f = p" by (simp add: i_def f_def)
  have "list_all is_digit (replicate j CHR ''0'')" for j by (simp add: list_all_iff)
  then have all: "list_all is_digit p" by (simp add: p_def d_def)
  then have digs: "list_all is_digit i" "list_all is_digit f"
    using p_if by (metis list_all_append)+
  have val: "digits_val (i @ f) = nat \<bar>n\<bar>" by (simp add: p_if p_def d_def)
  have lf: "length f = k" using len by (simp add: f_def)
  have i_ne: "i \<noteq> []" using len by (auto simp: i_def)
  have hd_i: "hd i = hd p" using i_ne p_if by (metis hd_append2)
  have i0: "i = ''0'' \<or> hd i \<noteq> CHR ''0''"
  proof (cases "length d \<le> k")
    case True
    then have "length p = Suc k" by (simp add: p_def)
    then have "length i = 1" by (simp add: i_def)
    moreover have "hd p = CHR ''0''" using True by (cases "Suc k - length d") (auto simp: p_def)
    ultimately show ?thesis using hd_i by (cases i) auto
  next
    case False
    then have pd: "p = d" by (simp add: p_def)
    show ?thesis
    proof (cases "n = 0")
      case True
      then have "d = ''0''" by (simp add: d_def nat_digits_0)
      moreover have "k = 0" using strip10_normal [OF st] True by simp
      ultimately show ?thesis using pd by (simp add: i_def)
    next
      case False
      then have "hd d \<noteq> CHR ''0''" unfolding d_def by (intro nat_digits_hd) simp
      then show ?thesis using hd_i pd by simp
    qed
  qed
  then have pl: "plain_int i" using digs i_ne by (simp add: plain_int_def)
  have lastf: "f = [] \<or> last f \<noteq> CHR ''0''"
  proof (rule ccontr)
    assume "\<not> ?thesis"
    then have f: "f \<noteq> []" "last f = CHR ''0''" by auto
    then obtain g where g: "f = g @ ''0''" by (metis append_butlast_last_id)
    have "digit_val CHR ''0'' = 0" by code_simp
    then have "10 dvd digits_val (i @ f)" by (simp add: g)
    then have "10 dvd n" unfolding val by (simp add: nat_dvd_iff)
    moreover have "k \<noteq> 0" using f lf by auto
    ultimately show False using strip10_normal [OF st] by simp
  qed
  have neg: "n < 0 \<longrightarrow> \<not> (i = ''0'' \<and> f = [])"
  proof clarify
    assume "n < 0" "i = ''0''" "f = []"
    then have "nat \<bar>n\<bar> = digits_val ''0''" using val by simp
    moreover have "digits_val ''0'' = 0" by code_simp
    ultimately show False using \<open>n < 0\<close> by simp
  qed
  have dp: "dec_print m s = dec_render (n < 0) i f"
    by (simp add: dec_print_def st Let_def i_def f_def p_def d_def)
  have "parts_value (n < 0) i f = of_int n / 10 ^ k"
    unfolding parts_value_def val lf by simp
  then show ?thesis
    using canonicalI [OF pl digs(2) lastf neg] strip10_value [OF st] dp by simp
qed

text \<open>Decimal fractions are the values that have a text; \<open>dec_text\<close> is the canonical one.\<close>

definition decimal_fraction :: "rat \<Rightarrow> bool" where
  "decimal_fraction q = (\<exists>m s. q = of_int m / 10 ^ s)"

definition dec_text :: "rat \<Rightarrow> string" where
  "dec_text q = (THE s. canonical s \<and> dec_value s = q)"

lemma dec_text_eqI: "canonical s \<Longrightarrow> dec_value s = q \<Longrightarrow> dec_text q = s"
  unfolding dec_text_def by (rule the_equality) (auto intro: canonical_unique)

lemma dec_text_value [canon]: "canonical s \<Longrightarrow> dec_text (dec_value s) = s"
  by (rule dec_text_eqI) simp_all

lemma dec_value_fraction [canon, simp]: "decimal_fraction (dec_value s)"
proof (cases "dec_parts s")
  case None
  have "0 = (of_int 0 / 10 ^ 0 :: rat)" by simp
  then show ?thesis unfolding decimal_fraction_def dec_value_def None option.case by blast
next
  case (Some p)
  obtain n i f where p: "p = (n, i, f)" by (cases p)
  have "dec_value s = of_int ((if n then - 1 else 1) * int (digits_val (i @ f))) / 10 ^ length f"
    by (simp add: dec_value_def Some p parts_value_def del: digits_val_append)
  then show ?thesis unfolding decimal_fraction_def by blast
qed

lemma dec_text_canonical [canon, simp]: "decimal_fraction q \<Longrightarrow> canonical (dec_text q)"
  and dec_value_text [canon, simp]: "decimal_fraction q \<Longrightarrow> dec_value (dec_text q) = q"
proof -
  assume "decimal_fraction q"
  then obtain m s where "q = of_int m / 10 ^ s" by (auto simp: decimal_fraction_def)
  then have "canonical (dec_print m s)" "dec_value (dec_print m s) = q"
    using dec_print_correct [of m s] by simp_all
  then show "canonical (dec_text q)" "dec_value (dec_text q) = q"
    using dec_text_eqI by auto
qed

lemma dec_text_inject: "decimal_fraction p \<Longrightarrow> decimal_fraction q \<Longrightarrow> dec_text p = dec_text q \<longleftrightarrow> p = q"
  by (metis dec_value_text)

lemma dec_text_syntax [simp]: "decimal_fraction q \<Longrightarrow> dec_syntax (dec_text q)"
  by (simp add: canonical_syntax)

lemma decimal_fractionI: "q = of_int m / 10 ^ s \<Longrightarrow> decimal_fraction q"
  by (auto simp: decimal_fraction_def)

lemma decimal_fraction_int [simp]: "decimal_fraction (of_int m)"
  by (rule decimal_fractionI [of _ m 0]) simp

lemma decimal_fraction_0 [simp]: "decimal_fraction 0"
  using decimal_fraction_int [of 0] by simp

lemma canonical_zero [simp]: "canonical ''0''" and dec_value_zero [simp]: "dec_value ''0'' = 0"
  using dec_print_correct [of 0 0] by (simp_all add: dec_print_def nat_digits_0 dec_render_def)

lemma dec_text_0 [simp]: "dec_text 0 = ''0''"
  by (rule dec_text_eqI) simp_all

text \<open>A canonical text of a positive integer has one character per digit.\<close>

lemma dec_text_int_length:
  assumes "0 < n"
  shows "length (dec_text (of_nat n)) \<le> L \<longleftrightarrow> n < 10 ^ L"
proof -
  have pl: "plain_int (nat_digits n)"
    using nat_digits_hd [OF assms] by (simp add: plain_int_def)
  have "dec_text (of_nat n) = dec_render False (nat_digits n) []"
    using canonicalI [OF pl, of "[]" False] by (intro dec_text_eqI) (simp_all add: parts_value_def)
  then have "dec_text (of_nat n) = nat_digits n" by (simp add: dec_render_def)
  then show ?thesis using plain_int_length [OF pl, of L] assms by simp
qed

end
