(* ===== verification/Decimal_Js.thy ===== *)
theory Decimal_Js
  imports Decimal_Text
begin

text \<open>
  The boundary to the third-party package \<open>decimal.js\<close> (10.4.3). Its code is not part of the
  repository, so its operations are a parameter of the model: a record \<open>decimal_ops\<close> that every
  definition using decimals takes. The locale \<open>decimal_library\<close> names what the program relies on,
  as the package documents it: a constructor that keeps every digit, arithmetic that is exact
  whenever the result has at most 80 significant digits (the \<open>precision\<close> the program configures),
  exact comparison, explicit rounding, and printing without exponents. The laws say nothing about
  results of more than 80 digits. At the end, an executable decimal arithmetic \<open>ref_ops\<close> is shown
  to satisfy all the laws, so that they can hold together and concrete inputs can be evaluated.
\<close>

section \<open>Rounding\<close>

text \<open>The rounding modes of \<open>decimal.js\<close> and their meaning on an exact value.\<close>

datatype Decimal_Rounding =
  ROUND_UP | ROUND_DOWN | ROUND_CEIL | ROUND_FLOOR | ROUND_HALF_UP | ROUND_HALF_DOWN | ROUND_HALF_EVEN

fun round_int :: "Decimal_Rounding \<Rightarrow> rat \<Rightarrow> int" where
  "round_int ROUND_UP q = (if 0 \<le> q then \<lceil>q\<rceil> else \<lfloor>q\<rfloor>)"
| "round_int ROUND_DOWN q = (if 0 \<le> q then \<lfloor>q\<rfloor> else \<lceil>q\<rceil>)"
| "round_int ROUND_CEIL q = \<lceil>q\<rceil>"
| "round_int ROUND_FLOOR q = \<lfloor>q\<rfloor>"
| "round_int ROUND_HALF_UP q = (if 0 \<le> q then \<lfloor>q + 1 / 2\<rfloor> else \<lceil>q - 1 / 2\<rceil>)"
| "round_int ROUND_HALF_DOWN q = (if 0 \<le> q then \<lceil>q - 1 / 2\<rceil> else \<lfloor>q + 1 / 2\<rfloor>)"
| "round_int ROUND_HALF_EVEN q =
     (let f = \<lfloor>q\<rfloor>; d = q - of_int f
      in if d < 1 / 2 then f else if 1 / 2 < d then f + 1 else if even f then f else f + 1)"

definition round_dp :: "Decimal_Rounding \<Rightarrow> nat \<Rightarrow> rat \<Rightarrow> rat" where
  "round_dp m n q = of_int (round_int m (q * 10 ^ n)) / 10 ^ n"

lemma round_int_of_int [simp]: "round_int m (of_int i) = i"
  by (cases m) (simp_all add: floor_eq_iff ceiling_eq_iff)

lemma round_dp_exact: "q * 10 ^ n \<in> \<int> \<Longrightarrow> round_dp m n q = q"
  by (auto simp: round_dp_def elim!: Ints_cases) (simp add: field_simps)

text \<open>Every mode moves the value by less than one unit of the last place.\<close>

lemma round_int_error: "\<bar>of_int (round_int m q) - q\<bar> < 1"
proof (cases m)
  case ROUND_HALF_EVEN
  show ?thesis
    using floor_correct [of q] by (simp add: ROUND_HALF_EVEN Let_def abs_less_iff) linarith
qed (use floor_correct [of q] ceiling_correct [of q] floor_correct [of "q + 1 / 2"]
      ceiling_correct [of "q - 1 / 2"] in \<open>simp_all, linarith+\<close>)

lemma round_half_up_mono: "p \<le> q \<Longrightarrow> round_int ROUND_HALF_UP p \<le> round_int ROUND_HALF_UP q"
proof (cases "0 \<le> p"; cases "0 \<le> q")
  assume "p \<le> q" "\<not> 0 \<le> p" "0 \<le> q"
  have "\<lceil>p - 1 / 2\<rceil> \<le> 0" using \<open>\<not> 0 \<le> p\<close> by (simp add: ceiling_le_iff)
  also have "0 \<le> \<lfloor>q + 1 / 2\<rfloor>" using \<open>0 \<le> q\<close> by (simp add: le_floor_iff)
  finally show ?thesis using \<open>\<not> 0 \<le> p\<close> \<open>0 \<le> q\<close> by simp
qed (simp_all add: floor_mono ceiling_mono)

lemma round_dp_half_up_mono: "p \<le> q \<Longrightarrow> round_dp ROUND_HALF_UP n p \<le> round_dp ROUND_HALF_UP n q"
proof -
  assume "p \<le> q"
  then have "p * 10 ^ n \<le> q * 10 ^ n" by simp
  then have "(of_int (round_int ROUND_HALF_UP (p * 10 ^ n)) :: rat)
      \<le> of_int (round_int ROUND_HALF_UP (q * 10 ^ n))"
    by (simp only: of_int_le_iff round_half_up_mono)
  then show ?thesis by (simp add: round_dp_def divide_right_mono)
qed

section \<open>Values with bounded digits\<close>

text \<open>
  \<open>scaled k b q\<close>: \<open>q\<close> has at most \<open>k\<close> fraction digits, and at most \<open>b\<close> digits when written
  with \<open>k\<close> of them. It holds of every \<open>NUMERIC(b, k)\<close> value, and it is how the size of
  intermediate results is tracked.
\<close>

definition scaled :: "nat \<Rightarrow> nat \<Rightarrow> rat \<Rightarrow> bool" where
  "scaled k b q = (\<exists>m::int. \<bar>m\<bar> < 10 ^ b \<and> q = of_int m / 10 ^ k)"

definition sig80 :: "rat \<Rightarrow> bool" where
  "sig80 q = (\<exists>k\<le>200. scaled k 80 q)"

lemma scaledI: "\<bar>m\<bar> < 10 ^ b \<Longrightarrow> q = of_int m / 10 ^ k \<Longrightarrow> scaled k b q"
  by (auto simp: scaled_def)

lemma scaled_fraction [simp]: "scaled k b q \<Longrightarrow> decimal_fraction q"
  by (auto simp: scaled_def decimal_fraction_def)

lemma sig80_fraction [simp]: "sig80 q \<Longrightarrow> decimal_fraction q"
  by (auto simp: sig80_def)

lemma scaled_0 [simp]: "scaled k b 0"
  by (rule scaledI [of 0]) simp_all

lemma scaled_uminus [simp]: "scaled k b (- q) \<longleftrightarrow> scaled k b q"
proof -
  have "scaled k b (- q)" if "scaled k b q" for q
  proof -
    obtain m where "\<bar>m\<bar> < 10 ^ b" "q = of_int m / 10 ^ k" using \<open>scaled k b q\<close> by (auto simp: scaled_def)
    then show ?thesis by (intro scaledI [of "- m"]) simp_all
  qed
  from this [of q] this [of "- q"] show ?thesis by auto
qed

lemma scaled_mono_digits: "scaled k b q \<Longrightarrow> b \<le> c \<Longrightarrow> scaled k c q"
proof -
  assume a: "scaled k b q" "b \<le> c"
  then obtain m where m: "\<bar>m\<bar> < 10 ^ b" "q = of_int m / 10 ^ k" by (auto simp: scaled_def)
  have "(10::int) ^ b \<le> 10 ^ c" using a(2) by (intro power_increasing) simp_all
  with m(1) have "\<bar>m\<bar> < 10 ^ c" by (rule less_le_trans)
  then show ?thesis using m(2) by (rule scaledI)
qed

lemma scaled_shift: "scaled k b q \<Longrightarrow> scaled (k + j) (b + j) q"
proof -
  assume "scaled k b q"
  then obtain m where m: "\<bar>m\<bar> < 10 ^ b" "q = of_int m / 10 ^ k" by (auto simp: scaled_def)
  have "\<bar>m * 10 ^ j\<bar> < 10 ^ (b + j)" using m(1) by (simp add: abs_mult power_add)
  then show ?thesis by (rule scaledI) (simp add: m(2) power_add)
qed

lemma scaled_mono: "scaled k b q \<Longrightarrow> k \<le> l \<Longrightarrow> b + (l - k) \<le> c \<Longrightarrow> scaled l c q"
  using scaled_mono_digits [OF scaled_shift [of k b q "l - k"]] by simp

lemma scaled_add: "scaled k b p \<Longrightarrow> scaled k b q \<Longrightarrow> scaled k (Suc b) (p + q)"
proof -
  assume "scaled k b p" "scaled k b q"
  then obtain m n where m: "\<bar>m\<bar> < 10 ^ b" "p = of_int m / 10 ^ k"
    and n: "\<bar>n\<bar> < 10 ^ b" "q = of_int n / 10 ^ k"
    by (auto simp: scaled_def)
  have "\<bar>m + n\<bar> < 10 ^ Suc b" using m(1) n(1) by simp
  then show ?thesis by (rule scaledI) (simp add: m(2) n(2) add_divide_distrib)
qed

lemma scaled_diff: "scaled k b p \<Longrightarrow> scaled k b q \<Longrightarrow> scaled k (Suc b) (p - q)"
  using scaled_add [of k b p "- q"] by simp

lemma scaled_mult: "scaled k b p \<Longrightarrow> scaled l c q \<Longrightarrow> scaled (k + l) (b + c) (p * q)"
proof -
  assume "scaled k b p" "scaled l c q"
  then obtain m n where m: "\<bar>m\<bar> < 10 ^ b" "p = of_int m / 10 ^ k"
    and n: "\<bar>n\<bar> < 10 ^ c" "q = of_int n / 10 ^ l"
    by (auto simp: scaled_def)
  have "\<bar>m\<bar> * \<bar>n\<bar> < 10 ^ b * 10 ^ c" using m(1) n(1) by (intro mult_strict_mono') simp_all
  then have "\<bar>m * n\<bar> < 10 ^ (b + c)" by (simp add: abs_mult power_add)
  then show ?thesis by (rule scaledI) (simp add: m(2) n(2) power_add)
qed

lemma scaled_iff: "scaled k b q \<longleftrightarrow> q * 10 ^ k \<in> \<int> \<and> \<bar>q\<bar> * 10 ^ k < 10 ^ b"
proof
  assume "scaled k b q"
  then obtain m where m: "\<bar>m\<bar> < 10 ^ b" "q = of_int m / 10 ^ k" by (auto simp: scaled_def)
  have "(of_int \<bar>m\<bar> :: rat) < of_int (10 ^ b)" using m(1) by (simp only: of_int_less_iff)
  then show "q * 10 ^ k \<in> \<int> \<and> \<bar>q\<bar> * 10 ^ k < 10 ^ b" using m(2) by (simp add: abs_divide)
next
  assume a: "q * 10 ^ k \<in> \<int> \<and> \<bar>q\<bar> * 10 ^ k < 10 ^ b"
  then obtain m where m: "q * 10 ^ k = of_int m" by (auto elim: Ints_cases)
  have "(of_int \<bar>m\<bar> :: rat) = \<bar>q\<bar> * 10 ^ k" by (simp add: abs_mult flip: m)
  with a have "(of_int \<bar>m\<bar> :: rat) < of_int (10 ^ b)" by simp
  then have "\<bar>m\<bar> < 10 ^ b" by (simp only: of_int_less_iff)
  then show "scaled k b q" by (rule scaledI) (simp add: m [symmetric])
qed

lemma scaled_sum:
  assumes "\<forall>x \<in> set xs. scaled k b (f x)" "length xs \<le> 10 ^ m"
  shows "scaled k (b + m) (\<Sum>x\<leftarrow>xs. f x)"
proof -
  have "\<exists>M::int. \<bar>M\<bar> \<le> int (length xs) * (10 ^ b - 1) \<and> (\<Sum>x\<leftarrow>xs. f x) = of_int M / 10 ^ k"
    using assms(1)
  proof (induction xs)
    case (Cons x xs)
    then obtain M where M: "\<bar>M\<bar> \<le> int (length xs) * (10 ^ b - 1)" "(\<Sum>x\<leftarrow>xs. f x) = of_int M / 10 ^ k" by auto
    obtain n where n: "\<bar>n\<bar> < 10 ^ b" "f x = of_int n / 10 ^ k" using Cons.prems by (auto simp: scaled_def)
    have "\<bar>n + M\<bar> \<le> int (length (x # xs)) * (10 ^ b - 1)" using M(1) n(1) by (simp add: algebra_simps)
    moreover have "(\<Sum>x\<leftarrow>x # xs. f x) = of_int (n + M) / 10 ^ k" by (simp add: M(2) n(2) add_divide_distrib)
    ultimately show ?case by blast
  qed (auto intro: exI [of _ 0])
  then obtain M :: int where M: "\<bar>M\<bar> \<le> int (length xs) * (10 ^ b - 1)" "(\<Sum>x\<leftarrow>xs. f x) = of_int M / 10 ^ k"
    by blast
  have "int (length xs) * (10 ^ b - 1) \<le> 10 ^ m * (10 ^ b - 1)"
    using assms(2) by (intro mult_right_mono) (simp_all flip: of_nat_le_iff)
  also have "\<dots> < 10 ^ (b + m)" by (simp add: algebra_simps power_add)
  finally show ?thesis using M by (intro scaledI [of M]) auto
qed

lemma scaled_sig80: "scaled k b q \<Longrightarrow> b \<le> 80 \<Longrightarrow> k \<le> 200 \<Longrightarrow> sig80 q"
  unfolding sig80_def by (blast intro: scaled_mono_digits)

section \<open>The operations and their laws\<close>

record 'd decimal_ops =
  d_new :: "string \<Rightarrow> 'd"
  d_isNaN :: "'d \<Rightarrow> bool"
  d_isFinite :: "'d \<Rightarrow> bool"
  d_plus :: "'d \<Rightarrow> 'd \<Rightarrow> 'd"
  d_minus :: "'d \<Rightarrow> 'd \<Rightarrow> 'd"
  d_times :: "'d \<Rightarrow> 'd \<Rightarrow> 'd"
  d_div :: "'d \<Rightarrow> 'd \<Rightarrow> 'd"
  d_eq :: "'d \<Rightarrow> 'd \<Rightarrow> bool"
  d_lt :: "'d \<Rightarrow> 'd \<Rightarrow> bool"
  d_abs :: "'d \<Rightarrow> 'd"
  d_neg :: "'d \<Rightarrow> 'd"
  d_floor :: "'d \<Rightarrow> 'd"
  d_isZero :: "'d \<Rightarrow> bool"
  d_isPositive :: "'d \<Rightarrow> bool"
  d_isNegative :: "'d \<Rightarrow> bool"
  d_toString :: "'d \<Rightarrow> string"
  d_decimalPlaces :: "'d \<Rightarrow> nat"
  d_toDecimalPlaces :: "'d \<Rightarrow> nat \<Rightarrow> Decimal_Rounding \<Rightarrow> 'd"
  d_toFixed :: "'d \<Rightarrow> nat \<Rightarrow> Decimal_Rounding option \<Rightarrow> string"

text \<open>
  \<open>V\<close> reads the value of a decimal. \<open>W\<close> holds of the decimals the program handles: finite ones
  whose exponent stays in the range that prints without exponent notation.
\<close>

locale decimal_library =
  fixes D :: "'d decimal_ops" and V :: "'d \<Rightarrow> rat" and W :: "'d \<Rightarrow> bool"
  assumes W_finite: "W x \<Longrightarrow> d_isFinite D x \<and> \<not> d_isNaN D x"
    and W_new: "dec_syntax s \<Longrightarrow> W (d_new D s)"
    and V_new: "dec_syntax s \<Longrightarrow> V (d_new D s) = dec_value s"
    and plus_exact: "W x \<Longrightarrow> W y \<Longrightarrow> sig80 (V x + V y) \<Longrightarrow>
          W (d_plus D x y) \<and> V (d_plus D x y) = V x + V y"
    and minus_exact: "W x \<Longrightarrow> W y \<Longrightarrow> sig80 (V x - V y) \<Longrightarrow>
          W (d_minus D x y) \<and> V (d_minus D x y) = V x - V y"
    and times_exact: "W x \<Longrightarrow> W y \<Longrightarrow> sig80 (V x * V y) \<Longrightarrow>
          W (d_times D x y) \<and> V (d_times D x y) = V x * V y"
    and div_exact: "W x \<Longrightarrow> W y \<Longrightarrow> V y \<noteq> 0 \<Longrightarrow> sig80 (V x / V y) \<Longrightarrow>
          W (d_div D x y) \<and> V (d_div D x y) = V x / V y"
    and eq_exact: "W x \<Longrightarrow> W y \<Longrightarrow> d_eq D x y \<longleftrightarrow> V x = V y"
    and lt_exact: "W x \<Longrightarrow> W y \<Longrightarrow> d_lt D x y \<longleftrightarrow> V x < V y"
    and abs_exact: "W x \<Longrightarrow> W (d_abs D x) \<and> V (d_abs D x) = \<bar>V x\<bar>"
    and neg_exact: "W x \<Longrightarrow> W (d_neg D x) \<and> V (d_neg D x) = - V x"
    and floor_exact: "W x \<Longrightarrow> W (d_floor D x) \<and> V (d_floor D x) = of_int \<lfloor>V x\<rfloor>"
    and isZero_exact: "W x \<Longrightarrow> d_isZero D x \<longleftrightarrow> V x = 0"
    and isPositive_exact: "W x \<Longrightarrow> V x \<noteq> 0 \<Longrightarrow> d_isPositive D x \<longleftrightarrow> 0 < V x"
    and isNegative_exact: "W x \<Longrightarrow> V x \<noteq> 0 \<Longrightarrow> d_isNegative D x \<longleftrightarrow> V x < 0"
    and toString_canonical: "W x \<Longrightarrow> V x \<noteq> 0 \<Longrightarrow>
          canonical (d_toString D x) \<and> dec_value (d_toString D x) = V x"
    and decimalPlaces_least: "W x \<Longrightarrow> d_decimalPlaces D x \<le> n \<longleftrightarrow> V x * 10 ^ n \<in> \<int>"
    and toDecimalPlaces_rounds: "W x \<Longrightarrow> n \<le> 80 \<Longrightarrow>
          W (d_toDecimalPlaces D x n m) \<and> V (d_toDecimalPlaces D x n m) = round_dp m n (V x)"
    and toFixed_rounds: "W x \<Longrightarrow> n \<le> 80 \<Longrightarrow>
          dec_value (d_toFixed D x n (Some m)) = round_dp m n (V x) \<and>
          (\<exists>neg i f. dec_parts (d_toFixed D x n (Some m)) = Some (neg, i, f) \<and> length f = n)"
    and toFixed_default: "W x \<Longrightarrow> n \<le> 80 \<Longrightarrow>
          d_toFixed D x n None = d_toFixed D x n (Some ROUND_HALF_EVEN)"
begin

lemma toString_text: "W x \<Longrightarrow> V x \<noteq> 0 \<Longrightarrow> d_toString D x = dec_text (V x)"
  by (metis toString_canonical dec_text_eqI)

end

section \<open>An executable decimal arithmetic that satisfies the laws\<close>

text \<open>A decimal is a pair \<open>(m, s)\<close> with the value \<open>m / 10 ^ s\<close>.\<close>

type_synonym rdec = "int \<times> nat"

definition rval :: "rdec \<Rightarrow> rat" where
  "rval x = of_int (fst x) / 10 ^ snd x"

definition ref_new :: "string \<Rightarrow> rdec" where
  "ref_new s =
     (case dec_parts s of
        None \<Rightarrow> (0, 0)
      | Some (neg, i, f) \<Rightarrow> ((if neg then - 1 else 1) * int (digits_val (i @ f)), length f))"

definition ref_plus :: "rdec \<Rightarrow> rdec \<Rightarrow> rdec" where
  "ref_plus x y =
     (let k = max (snd x) (snd y)
      in (fst x * 10 ^ (k - snd x) + fst y * 10 ^ (k - snd y), k))"

definition ref_neg :: "rdec \<Rightarrow> rdec" where
  "ref_neg x = (- fst x, snd x)"

definition ref_times :: "rdec \<Rightarrow> rdec \<Rightarrow> rdec" where
  "ref_times x y = (fst x * fst y, snd x + snd y)"

text \<open>The least scale, up to the fuel, at which the quotient of two integers is exact.\<close>

fun div_scale :: "nat \<Rightarrow> nat \<Rightarrow> int \<Rightarrow> int \<Rightarrow> rdec" where
  "div_scale 0 k n d = (n div d, k)"
| "div_scale (Suc fuel) k n d = (if d dvd n then (n div d, k) else div_scale fuel (Suc k) (10 * n) d)"

definition ref_div :: "rdec \<Rightarrow> rdec \<Rightarrow> rdec" where
  "ref_div x y = div_scale 200 0 (fst x * 10 ^ snd y) (fst y * 10 ^ snd x)"

definition ref_lt :: "rdec \<Rightarrow> rdec \<Rightarrow> bool" where
  "ref_lt x y = (fst x * 10 ^ snd y < fst y * 10 ^ snd x)"

definition ref_eq :: "rdec \<Rightarrow> rdec \<Rightarrow> bool" where
  "ref_eq x y = (fst x * 10 ^ snd y = fst y * 10 ^ snd x)"

definition ref_round :: "rdec \<Rightarrow> nat \<Rightarrow> Decimal_Rounding \<Rightarrow> rdec" where
  "ref_round x n m = (round_int m (rval x * 10 ^ n), n)"

text \<open>The text of \<open>m / 10 ^ n\<close> with exactly \<open>n\<close> fraction digits.\<close>

definition fixed_print :: "int \<Rightarrow> nat \<Rightarrow> string" where
  "fixed_print m n =
     (let d = nat_digits (nat \<bar>m\<bar>);
          p = replicate (Suc n - length d) CHR ''0'' @ d
      in dec_render (m < 0) (take (length p - n) p) (drop (length p - n) p))"

definition ref_minus :: "rdec \<Rightarrow> rdec \<Rightarrow> rdec" where
  "ref_minus x y = ref_plus x (ref_neg y)"

definition ref_isNaN :: "rdec \<Rightarrow> bool" where
  "ref_isNaN x = False"

definition ref_isFinite :: "rdec \<Rightarrow> bool" where
  "ref_isFinite x = True"

definition ref_abs :: "rdec \<Rightarrow> rdec" where
  "ref_abs x = (\<bar>fst x\<bar>, snd x)"

definition ref_floor :: "rdec \<Rightarrow> rdec" where
  "ref_floor x = (fst x div 10 ^ snd x, 0)"

definition ref_isZero :: "rdec \<Rightarrow> bool" where
  "ref_isZero x = (fst x = 0)"

definition ref_isPositive :: "rdec \<Rightarrow> bool" where
  "ref_isPositive x = (0 \<le> fst x)"

definition ref_isNegative :: "rdec \<Rightarrow> bool" where
  "ref_isNegative x = (fst x < 0)"

definition ref_toString :: "rdec \<Rightarrow> string" where
  "ref_toString x = dec_print (fst x) (snd x)"

definition ref_decimalPlaces :: "rdec \<Rightarrow> nat" where
  "ref_decimalPlaces x = snd (strip10 (fst x) (snd x))"

definition ref_toFixed :: "rdec \<Rightarrow> nat \<Rightarrow> Decimal_Rounding option \<Rightarrow> string" where
  "ref_toFixed x n m =
     fixed_print (fst (ref_round x n (case m of None \<Rightarrow> ROUND_HALF_EVEN | Some r \<Rightarrow> r))) n"

definition ref_ops :: "rdec decimal_ops" where
  "ref_ops = \<lparr>
     d_new = ref_new, d_isNaN = ref_isNaN, d_isFinite = ref_isFinite,
     d_plus = ref_plus, d_minus = ref_minus, d_times = ref_times, d_div = ref_div,
     d_eq = ref_eq, d_lt = ref_lt, d_abs = ref_abs, d_neg = ref_neg, d_floor = ref_floor,
     d_isZero = ref_isZero, d_isPositive = ref_isPositive, d_isNegative = ref_isNegative,
     d_toString = ref_toString, d_decimalPlaces = ref_decimalPlaces,
     d_toDecimalPlaces = ref_round, d_toFixed = ref_toFixed\<rparr>"

lemmas ref_defs = ref_ops_def ref_minus_def ref_isNaN_def ref_isFinite_def ref_abs_def
  ref_floor_def ref_isZero_def ref_isPositive_def ref_isNegative_def ref_toString_def
  ref_decimalPlaces_def ref_toFixed_def

lemma rval_new: "dec_syntax s \<Longrightarrow> rval (ref_new s) = dec_value s"
  by (auto simp: ref_new_def rval_def dec_value_def parts_value_def dec_syntax_def
      simp del: digits_val_append split: option.splits)

lemma rval_plus: "rval (ref_plus x y) = rval x + rval y"
proof -
  have "(of_int a * 10 ^ (max j k - j) / 10 ^ max j k :: rat) = of_int a / 10 ^ j" for a j k
    by (simp add: power_diff)
  from this [of "fst x" "snd x" "snd y"] this [of "fst y" "snd y" "snd x"] show ?thesis
    by (simp add: rval_def ref_plus_def Let_def add_divide_distrib max.commute)
qed

lemma rval_neg: "rval (ref_neg x) = - rval x"
  by (simp add: rval_def ref_neg_def)

lemma rval_times: "rval (ref_times x y) = rval x * rval y"
  by (simp add: rval_def ref_times_def power_add)

lemma pow10_split: "k \<le> n \<Longrightarrow> (10 ^ n :: rat) = 10 ^ (n - k) * 10 ^ k"
  by (simp flip: power_add)

lemma div_scale_exact:
  assumes "d \<noteq> 0" "j \<le> fuel" "d dvd n * 10 ^ j"
  shows "rval (div_scale fuel k n d) = of_int n / (of_int d * 10 ^ k)"
  using assms(2,3)
proof (induction fuel arbitrary: j k n)
  case 0
  then show ?case using assms(1) by (auto simp: rval_def field_simps)
next
  case (Suc fuel)
  show ?case
  proof (cases "d dvd n")
    case True
    then show ?thesis using assms(1) by (auto simp: rval_def field_simps)
  next
    case False
    then obtain i where j: "j = Suc i" using Suc.prems by (cases j) auto
    then have "i \<le> fuel" "d dvd 10 * n * 10 ^ i" using Suc.prems by (simp_all add: algebra_simps)
    from Suc.IH [OF this, of "Suc k"] False show ?thesis by simp
  qed
qed

lemma rval_div:
  assumes "rval y \<noteq> 0" "sig80 (rval x / rval y)"
  shows "rval (ref_div x y) = rval x / rval y"
proof -
  let ?n = "fst x * 10 ^ snd y" and ?d = "fst y * 10 ^ snd x"
  have fy: "fst y \<noteq> 0" using assms(1) by (auto simp: rval_def)
  have q: "rval x / rval y = of_int ?n / of_int ?d" by (simp add: rval_def)
  obtain k m where k: "k \<le> 200" "rval x / rval y = of_int m / 10 ^ k"
    using assms(2) by (auto simp: sig80_def scaled_def)
  then have "(of_int ?n / of_int ?d :: rat) = of_int m / 10 ^ k" using q by simp
  then have "(of_int (?n * 10 ^ k) :: rat) = of_int (m * ?d)" using fy by (simp add: field_simps)
  then have "?n * 10 ^ k = m * ?d" by (simp only: of_int_eq_iff)
  then have "?d dvd ?n * 10 ^ k" by simp
  from div_scale_exact [OF _ k(1) this, of 0] fy q show ?thesis by (simp add: ref_div_def)
qed

lemma rval_compare: "ref_eq x y \<longleftrightarrow> rval x = rval y" "ref_lt x y \<longleftrightarrow> rval x < rval y"
proof -
  have "(rval x = rval y) = (of_int (fst x * 10 ^ snd y) = (of_int (fst y * 10 ^ snd x) :: rat))"
    by (simp add: rval_def field_simps)
  then show "ref_eq x y \<longleftrightarrow> rval x = rval y" by (simp only: of_int_eq_iff ref_eq_def)
  have "(rval x < rval y) = (of_int (fst x * 10 ^ snd y) < (of_int (fst y * 10 ^ snd x) :: rat))"
    by (simp add: rval_def field_simps)
  then show "ref_lt x y \<longleftrightarrow> rval x < rval y" by (simp only: of_int_less_iff ref_lt_def)
qed

lemma rval_floor: "fst x div 10 ^ snd x = \<lfloor>rval x\<rfloor>"
  using floor_divide_of_int_eq [of "fst x" "10 ^ snd x", where 'a = rat] by (simp add: rval_def)

lemma rval_round: "rval (ref_round x n m) = round_dp m n (rval x)"
  by (simp only: ref_round_def round_dp_def rval_def [of "(_, n)"] fst_conv snd_conv)

lemma not_Ints_tenth:
  assumes "\<not> 10 dvd m" "n < k"
  shows "(of_int m / 10 ^ k * 10 ^ n :: rat) \<notin> \<int>"
proof
  assume "(of_int m / 10 ^ k * 10 ^ n :: rat) \<in> \<int>"
  then obtain z where "(of_int m / 10 ^ k * 10 ^ n :: rat) = of_int z" by (auto elim: Ints_cases)
  then have "(of_int (m * 10 ^ n) :: rat) = of_int (z * 10 ^ k)" by (simp add: field_simps)
  then have "m * 10 ^ n = z * 10 ^ k" by (simp only: of_int_eq_iff)
  also have "10 ^ k = (10 ^ (k - n) :: int) * 10 ^ n" using assms(2) by (simp flip: power_add)
  finally have "m = z * 10 ^ (k - n)" by simp
  moreover have "10 dvd (10 ^ (k - n) :: int)" using assms(2) by (simp add: dvd_power)
  ultimately show False using assms(1) by simp
qed

lemma strip10_least: "snd (strip10 (fst x) (snd x)) \<le> n \<longleftrightarrow> rval x * 10 ^ n \<in> \<int>"
proof -
  obtain m k where st: "strip10 (fst x) (snd x) = (m, k)" by fastforce
  have v: "rval x = of_int m / 10 ^ k" using strip10_value [OF st] by (simp add: rval_def)
  show ?thesis
  proof (cases "k \<le> n")
    case True
    then have "rval x * 10 ^ n = of_int (m * 10 ^ (n - k))" by (simp add: v pow10_split)
    then show ?thesis using True st by (metis Ints_of_int snd_conv)
  next
    case False
    then show ?thesis using not_Ints_tenth [of m n k] strip10_normal [OF st] st v by simp
  qed
qed

lemma fixed_print_parts:
  "\<exists>i f. dec_parts (fixed_print m n) = Some (m < 0, i, f) \<and> length f = n \<and>
     digits_val (i @ f) = nat \<bar>m\<bar>"
proof -
  define d where "d = nat_digits (nat \<bar>m\<bar>)"
  define p where "p = replicate (Suc n - length d) CHR ''0'' @ d"
  define i where "i = take (length p - n) p"
  define f where "f = drop (length p - n) p"
  have len: "n < length p" by (simp add: p_def)
  have p_if: "i @ f = p" by (simp add: i_def f_def)
  have "list_all is_digit (replicate j CHR ''0'')" for j by (simp add: list_all_iff)
  then have "list_all is_digit p" by (simp add: p_def d_def)
  then have digs: "list_all is_digit i" "list_all is_digit f"
    using p_if by (metis list_all_append)+
  have "i \<noteq> []" using len by (auto simp: i_def)
  then have "dec_parts (fixed_print m n) = Some (m < 0, i, f)"
    using dec_parts_render [of i f "m < 0"] digs
    by (simp add: fixed_print_def Let_def i_def f_def p_def d_def)
  moreover have "length f = n" using len by (simp add: f_def)
  moreover have "digits_val (i @ f) = nat \<bar>m\<bar>" by (simp add: p_if p_def d_def)
  ultimately show ?thesis by blast
qed

lemma fixed_print_value: "dec_value (fixed_print m n) = of_int m / 10 ^ n"
proof -
  obtain i f where "dec_parts (fixed_print m n) = Some (m < 0, i, f)" "length f = n"
    "digits_val (i @ f) = nat \<bar>m\<bar>"
    using fixed_print_parts by blast
  then show ?thesis by (simp add: dec_value_def parts_value_def del: digits_val_append)
qed

lemma ref_toFixed_law:
  "dec_value (d_toFixed ref_ops x n (Some m)) = round_dp m n (rval x) \<and>
   (\<exists>neg i f. dec_parts (d_toFixed ref_ops x n (Some m)) = Some (neg, i, f) \<and> length f = n)"
  using fixed_print_parts [of "round_int m (rval x * 10 ^ n)" n]
  by (auto simp: ref_defs ref_round_def round_dp_def fixed_print_value)

lemma rval_sign: "0 < rval x \<longleftrightarrow> 0 < fst x" "rval x < 0 \<longleftrightarrow> fst x < 0" "rval x = 0 \<longleftrightarrow> fst x = 0"
  by (simp_all add: rval_def zero_less_divide_iff divide_less_0_iff)

interpretation ref: decimal_library ref_ops rval "\<lambda>_. True"
proof (unfold_locales, goal_cases)
  case (18 x n m)
  then show ?case by (simp add: ref_defs rval_round)
next
  case (19 x n m)
  show ?case by (rule ref_toFixed_law)
qed (simp_all add: ref_defs rval_new rval_plus rval_neg rval_times rval_div rval_compare
      rval_floor strip10_least rval_sign, simp_all add: rval_def dec_print_correct less_le)

end
