(* ===== verification/Js_Json.thy ===== *)
theory Js_Json
  imports Decimal_Text
begin

text \<open>
  \<open>JSON.stringify\<close> as the program uses it: for the keys \<open>JSON.stringify([a, b])\<close> of tables and cart
  lines, for the payloads of the outbox and for request fingerprints. Objects list their members in
  the order the source writes them. The numbers the program serialises are integers; a number that is
  no integer (\<open>JFrac\<close>, by its text) only occurs in what it receives. \<open>json\<close> is also the type of a
  value the code receives as \<open>unknown\<close>.
\<close>

datatype json =
    JNull
  | JBool bool
  | JNum int
  | JFrac string
  | JStr string
  | JArr "json list"
  | JObj "(string \<times> json) list"

section \<open>Serialisation\<close>

definition hex_char :: "nat \<Rightarrow> char" where
  "hex_char d = (if d < 10 then char_of (48 + d) else char_of (87 + d))"

text \<open>One code unit inside a JSON string literal (ECMA-262, QuoteJSONString).\<close>

definition json_escape :: "char \<Rightarrow> string" where
  "json_escape c =
     (let n = of_char c :: nat in
      if n = 34 then [CHR 0x5C, CHR 0x22]
      else if n = 92 then [CHR 0x5C, CHR 0x5C]
      else if n = 8 then [CHR 0x5C, CHR ''b'']
      else if n = 9 then [CHR 0x5C, CHR ''t'']
      else if n = 10 then [CHR 0x5C, CHR ''n'']
      else if n = 12 then [CHR 0x5C, CHR ''f'']
      else if n = 13 then [CHR 0x5C, CHR ''r'']
      else if n < 32 then [CHR 0x5C, CHR ''u'', CHR ''0'', CHR ''0'', hex_char (n div 16), hex_char (n mod 16)]
      else [c])"

definition json_quote :: "string \<Rightarrow> string" where
  "json_quote s = CHR 0x22 # concat (map json_escape s) @ [CHR 0x22]"

fun join_with :: "string \<Rightarrow> string list \<Rightarrow> string" where
  "join_with sep [] = []"
| "join_with sep [x] = x"
| "join_with sep (x # y # xs) = x @ sep @ join_with sep (y # xs)"

definition int_text :: "int \<Rightarrow> string" where
  "int_text i = (if i < 0 then CHR ''-'' # nat_digits (nat (- i)) else nat_digits (nat i))"

fun json_stringify :: "json \<Rightarrow> string" where
  "json_stringify JNull = ''null''"
| "json_stringify (JBool b) = (if b then ''true'' else ''false'')"
| "json_stringify (JNum i) = int_text i"
| "json_stringify (JFrac t) = t"
| "json_stringify (JStr s) = json_quote s"
| "json_stringify (JArr xs) = ''['' @ join_with '','' (map json_stringify xs) @ '']''"
| "json_stringify (JObj ms) =
     ''{'' @ join_with '','' (map (\<lambda>(k, v). json_quote k @ '':'' @ json_stringify v) ms) @ ''}''"

definition json_strings :: "string list \<Rightarrow> string" where
  "json_strings xs = json_stringify (JArr (map JStr xs))"

definition jstr_opt :: "string option \<Rightarrow> json" where
  "jstr_opt x = (case x of None \<Rightarrow> JNull | Some s \<Rightarrow> JStr s)"

section \<open>String arrays are serialised injectively\<close>

lemma json_escape_ne [simp]: "json_escape c \<noteq> []"
  by (simp add: json_escape_def Let_def)

text \<open>
  Reading the first escape of a literal back: the closing quote is never the start of an escape,
  and the escape determines the character it stands for.
\<close>

definition hex_val :: "char \<Rightarrow> nat" where
  "hex_val h = (if (of_char h :: nat) < 58 then of_char h - 48 else of_char h - 87)"

definition json_unescape :: "string \<Rightarrow> (char \<times> string) option" where
  "json_unescape s =
     (case s of
        [] \<Rightarrow> None
      | c # r \<Rightarrow>
          if c = CHR 0x22 then None
          else if c \<noteq> CHR 0x5C then Some (c, r)
          else case r of
              [] \<Rightarrow> None
            | d # t \<Rightarrow>
                if d = CHR 0x22 \<or> d = CHR 0x5C then Some (d, t)
                else if d = CHR ''b'' then Some (char_of (8::nat), t)
                else if d = CHR ''t'' then Some (char_of (9::nat), t)
                else if d = CHR ''n'' then Some (char_of (10::nat), t)
                else if d = CHR ''f'' then Some (char_of (12::nat), t)
                else if d = CHR ''r'' then Some (char_of (13::nat), t)
                else Some (char_of (16 * hex_val (t ! 2) + hex_val (t ! 3)), drop 4 t))"

lemma hex_val_char: "d < 16 \<Longrightarrow> hex_val (hex_char d) = d"
  by (simp add: hex_char_def hex_val_def)

lemma json_unescape_escape: "json_unescape (json_escape c @ r) = Some (c, r)"
proof -
  define n where "n = (of_char c :: nat)"
  have c: "c = char_of n" by (simp add: n_def)
  have nlt: "n < 256" by (simp add: n_def)
  consider "n \<in> {34, 92, 8, 9, 10, 12, 13}" | "n < 32" "n \<notin> {8, 9, 10, 12, 13}"
    | "32 \<le> n" "n \<noteq> 34" "n \<noteq> 92" by fastforce
  then show ?thesis
  proof cases
    case 1
    then show ?thesis
      by (elim insertE emptyE)
        (simp_all add: json_escape_def json_unescape_def flip: n_def, simp_all add: c char_of_def bit_Suc_0_iff)
  next
    case 2
    then have "json_escape c = [CHR 0x5C, CHR ''u'', CHR ''0'', CHR ''0'', hex_char (n div 16), hex_char (n mod 16)]"
      by (simp add: json_escape_def flip: n_def)
    moreover have "n div 16 < 16" "n mod 16 < 16" using 2 by simp_all
    ultimately show ?thesis
      by (simp add: json_unescape_def hex_val_char c)
  next
    case 3
    then have e: "json_escape c = [c]" by (simp add: json_escape_def flip: n_def)
    have "(of_char CHR 0x22 :: nat) = 34" "(of_char CHR 0x5C :: nat) = 92" by code_simp+
    then have "c \<noteq> CHR 0x22" "c \<noteq> CHR 0x5C" using 3 n_def by auto
    then show ?thesis by (simp add: e json_unescape_def)
  qed
qed

lemma json_unescape_quote: "json_unescape (CHR 0x22 # r) = None"
  by (simp add: json_unescape_def)

lemma escapes_inject:
  "concat (map json_escape s) @ CHR 0x22 # r = concat (map json_escape t) @ CHR 0x22 # r' \<Longrightarrow>
   s = t \<and> r = r'"
proof (induction s arbitrary: t)
  case Nil
  show ?case
  proof (cases t)
    case (Cons d u)
    with Nil have "json_unescape (CHR 0x22 # r) = Some (d, concat (map json_escape u) @ CHR 0x22 # r')"
      by (simp add: json_unescape_escape)
    then show ?thesis by (simp add: json_unescape_quote)
  qed (use Nil in simp)
next
  case (Cons c s)
  let ?rest = "\<lambda>x q. concat (map json_escape x) @ CHR 0x22 # q"
  have l: "json_unescape (?rest (c # s) r) = Some (c, ?rest s r)" by (simp add: json_unescape_escape)
  show ?case
  proof (cases t)
    case Nil
    with Cons.prems l have "json_unescape (CHR 0x22 # r') = Some (c, ?rest s r)" by simp
    then show ?thesis by (simp add: json_unescape_quote)
  next
    case (Cons d u)
    have "json_unescape (?rest (d # u) r') = Some (d, ?rest u r')" by (simp add: json_unescape_escape)
    then have "c = d \<and> ?rest s r = ?rest u r'" using l Cons.prems Cons by simp
    then show ?thesis using Cons.IH [of u] Cons by simp
  qed
qed

lemma json_quote_inject: "json_quote s @ r = json_quote t @ r' \<longleftrightarrow> s = t \<and> r = r'"
  using escapes_inject [of s r t r'] by (auto simp: json_quote_def)

lemma json_quote_eq [simp]: "json_quote s = json_quote t \<longleftrightarrow> s = t"
  using json_quote_inject [of s "[]" t "[]"] by simp

lemma json_quotes_inject:
  "xs \<noteq> [] \<Longrightarrow> ys \<noteq> [] \<Longrightarrow>
   join_with '','' (map json_quote xs) @ '']'' = join_with '','' (map json_quote ys) @ '']'' \<Longrightarrow> xs = ys"
proof (induction xs arbitrary: ys)
  case (Cons x xs)
  obtain t ts where ys: "ys = t # ts" using Cons.prems(2) by (cases ys) auto
  show ?case
  proof (cases xs)
    case Nil
    then show ?thesis using Cons.prems ys
      by (cases ts) (auto simp: json_quote_inject)
  next
    case (Cons x2 xs2)
    note xs = this
    show ?thesis
    proof (cases ts)
      case Nil
      then show ?thesis using Cons.prems ys xs by (auto simp: json_quote_inject)
    next
      case (Cons t2 ts2)
      then have "x = t \<and> join_with '','' (map json_quote xs) @ '']'' = join_with '','' (map json_quote ts) @ '']''"
        using \<open>join_with '','' (map json_quote (x # xs)) @ '']'' = _\<close> ys xs
        by (auto simp: json_quote_inject)
      then show ?thesis using Cons.IH [of ts] xs Cons ys by auto
    qed
  qed
qed simp

lemma json_strings_inject [simp]:
  "xs \<noteq> [] \<Longrightarrow> ys \<noteq> [] \<Longrightarrow> json_strings xs = json_strings ys \<longleftrightarrow> xs = ys"
  using json_quotes_inject [of xs ys] by (auto simp: json_strings_def comp_def)

end
