(* ===== verification/Numeric.thy ===== *)
theory Numeric
  imports Decimal_Js Js_Json
begin

text \<open>
  The package \<open>packages/numeric\<close>: decimal, money and quantity values are canonical decimal texts,
  and every operation parses its arguments, computes with \<open>decimal.js\<close> and prints the result.
  \<open>D\<close> is the package \<open>decimal.js\<close> (theory \<open>Decimal_Js\<close>). Inside the locale \<open>decimal_library\<close> every
  operation is rewritten to rational arithmetic: the result of an operation is the canonical text
  \<open>dec_text\<close> of the exact value, as long as that value has at most 80 digits.
\<close>

type_synonym DecimalValue = string
type_synonym MoneyValue = string
type_synonym QuantityValue = string

section \<open>decimal-engine.ts\<close>

datatype RoundingMode = UP | DOWN | CEIL | FLOOR | HALF_UP | HALF_DOWN | HALF_EVEN

definition INVALID_DECIMAL :: string where "INVALID_DECIMAL = ''INVALID_DECIMAL''"
definition DIVISION_BY_ZERO :: string where "DIVISION_BY_ZERO = ''DIVISION_BY_ZERO''"
definition INVALID_SCALE :: string where "INVALID_SCALE = ''INVALID_SCALE''"
definition INVALID_PRECISION :: string where "INVALID_PRECISION = ''INVALID_PRECISION''"
definition DECIMAL_PRECISION_OVERFLOW :: string where
  "DECIMAL_PRECISION_OVERFLOW = ''DECIMAL_PRECISION_OVERFLOW''"

fun mapRoundingMode :: "RoundingMode \<Rightarrow> Decimal_Rounding" where
  "mapRoundingMode UP = ROUND_UP"
| "mapRoundingMode DOWN = ROUND_DOWN"
| "mapRoundingMode CEIL = ROUND_CEIL"
| "mapRoundingMode FLOOR = ROUND_FLOOR"
| "mapRoundingMode HALF_UP = ROUND_HALF_UP"
| "mapRoundingMode HALF_DOWN = ROUND_HALF_DOWN"
| "mapRoundingMode HALF_EVEN = ROUND_HALF_EVEN"

definition fromStringSafe :: "'d decimal_ops \<Rightarrow> json \<Rightarrow> 'd result" where
  "fromStringSafe D value =
     (case value of
        JStr s \<Rightarrow>
          if \<not> dec_syntax s then Inl (NumericError INVALID_DECIMAL)
          else let d = d_new D s in
               if d_isNaN D d \<or> \<not> d_isFinite D d then Inl (NumericError INVALID_DECIMAL)
               else Inr d
      | _ \<Rightarrow> Inl (NumericError INVALID_DECIMAL))"

definition toCanonicalString :: "'d decimal_ops \<Rightarrow> 'd \<Rightarrow> string" where
  "toCanonicalString D d = (if d_isZero D d then ''0'' else d_toString D d)"

definition assertNoZeroDivision :: "'d decimal_ops \<Rightarrow> 'd \<Rightarrow> unit result" where
  "assertNoZeroDivision D d = throwIf (d_isZero D d) (NumericError DIVISION_BY_ZERO)"

section \<open>money.ts\<close>

definition parseMoney :: "'d decimal_ops \<Rightarrow> string \<Rightarrow> MoneyValue result" where
  "parseMoney D value = bindE (fromStringSafe D (JStr value)) (\<lambda>d. Inr (toCanonicalString D d))"

definition moneyAdd :: "'d decimal_ops \<Rightarrow> MoneyValue \<Rightarrow> MoneyValue \<Rightarrow> MoneyValue result" where
  "moneyAdd D a b =
     bindE (fromStringSafe D (JStr a)) (\<lambda>x. bindE (fromStringSafe D (JStr b)) (\<lambda>y.
     Inr (toCanonicalString D (d_plus D x y))))"

definition moneySubtract :: "'d decimal_ops \<Rightarrow> MoneyValue \<Rightarrow> MoneyValue \<Rightarrow> MoneyValue result" where
  "moneySubtract D a b =
     bindE (fromStringSafe D (JStr a)) (\<lambda>x. bindE (fromStringSafe D (JStr b)) (\<lambda>y.
     Inr (toCanonicalString D (d_minus D x y))))"

definition moneyCompare :: "'d decimal_ops \<Rightarrow> MoneyValue \<Rightarrow> MoneyValue \<Rightarrow> int result" where
  "moneyCompare D a b =
     bindE (fromStringSafe D (JStr a)) (\<lambda>d1. bindE (fromStringSafe D (JStr b)) (\<lambda>d2.
     Inr (if d_eq D d1 d2 then 0 else if d_lt D d1 d2 then - 1 else 1)))"

definition moneyAbs :: "'d decimal_ops \<Rightarrow> MoneyValue \<Rightarrow> MoneyValue result" where
  "moneyAbs D a = bindE (fromStringSafe D (JStr a)) (\<lambda>x. Inr (toCanonicalString D (d_abs D x)))"

definition moneyNegate :: "'d decimal_ops \<Rightarrow> MoneyValue \<Rightarrow> MoneyValue result" where
  "moneyNegate D a = bindE (fromStringSafe D (JStr a)) (\<lambda>x. Inr (toCanonicalString D (d_neg D x)))"

definition multiplyMoneyByQuantity ::
  "'d decimal_ops \<Rightarrow> MoneyValue \<Rightarrow> QuantityValue \<Rightarrow> MoneyValue result" where
  "multiplyMoneyByQuantity D unitAmount quantity =
     bindE (fromStringSafe D (JStr unitAmount)) (\<lambda>x. bindE (fromStringSafe D (JStr quantity)) (\<lambda>y.
     Inr (toCanonicalString D (d_times D x y))))"

section \<open>decimal.ts\<close>

definition parseDecimal :: "'d decimal_ops \<Rightarrow> string \<Rightarrow> DecimalValue result" where
  "parseDecimal D value = bindE (fromStringSafe D (JStr value)) (\<lambda>d. Inr (toCanonicalString D d))"

definition decimalAdd :: "'d decimal_ops \<Rightarrow> DecimalValue \<Rightarrow> DecimalValue \<Rightarrow> DecimalValue result" where
  "decimalAdd D a b =
     bindE (fromStringSafe D (JStr a)) (\<lambda>x. bindE (fromStringSafe D (JStr b)) (\<lambda>y.
     Inr (toCanonicalString D (d_plus D x y))))"

definition decimalSubtract :: "'d decimal_ops \<Rightarrow> DecimalValue \<Rightarrow> DecimalValue \<Rightarrow> DecimalValue result" where
  "decimalSubtract D a b =
     bindE (fromStringSafe D (JStr a)) (\<lambda>x. bindE (fromStringSafe D (JStr b)) (\<lambda>y.
     Inr (toCanonicalString D (d_minus D x y))))"

definition decimalMultiply :: "'d decimal_ops \<Rightarrow> DecimalValue \<Rightarrow> DecimalValue \<Rightarrow> DecimalValue result" where
  "decimalMultiply D a b =
     bindE (fromStringSafe D (JStr a)) (\<lambda>x. bindE (fromStringSafe D (JStr b)) (\<lambda>y.
     Inr (toCanonicalString D (d_times D x y))))"

definition decimalDivide :: "'d decimal_ops \<Rightarrow> DecimalValue \<Rightarrow> DecimalValue \<Rightarrow> DecimalValue result" where
  "decimalDivide D a b =
     bindE (fromStringSafe D (JStr b)) (\<lambda>d.
     bindE (assertNoZeroDivision D d) (\<lambda>_.
     bindE (fromStringSafe D (JStr a)) (\<lambda>x.
     Inr (toCanonicalString D (d_div D x d)))))"

definition decimalCompare :: "'d decimal_ops \<Rightarrow> DecimalValue \<Rightarrow> DecimalValue \<Rightarrow> int result" where
  "decimalCompare D a b =
     bindE (fromStringSafe D (JStr a)) (\<lambda>d1. bindE (fromStringSafe D (JStr b)) (\<lambda>d2.
     Inr (if d_eq D d1 d2 then 0 else if d_lt D d1 d2 then - 1 else 1)))"

definition decimalAbs :: "'d decimal_ops \<Rightarrow> DecimalValue \<Rightarrow> DecimalValue result" where
  "decimalAbs D a = bindE (fromStringSafe D (JStr a)) (\<lambda>x. Inr (toCanonicalString D (d_abs D x)))"

definition decimalNegate :: "'d decimal_ops \<Rightarrow> DecimalValue \<Rightarrow> DecimalValue result" where
  "decimalNegate D a = bindE (fromStringSafe D (JStr a)) (\<lambda>x. Inr (toCanonicalString D (d_neg D x)))"

definition decimalIsZero :: "'d decimal_ops \<Rightarrow> DecimalValue \<Rightarrow> bool result" where
  "decimalIsZero D a = bindE (fromStringSafe D (JStr a)) (\<lambda>x. Inr (d_isZero D x))"

definition decimalIsPositive :: "'d decimal_ops \<Rightarrow> DecimalValue \<Rightarrow> bool result" where
  "decimalIsPositive D a =
     bindE (fromStringSafe D (JStr a)) (\<lambda>x. Inr (d_isPositive D x \<and> \<not> d_isZero D x))"

definition decimalIsNegative :: "'d decimal_ops \<Rightarrow> DecimalValue \<Rightarrow> bool result" where
  "decimalIsNegative D a =
     bindE (fromStringSafe D (JStr a)) (\<lambda>x. Inr (d_isNegative D x \<and> \<not> d_isZero D x))"

section \<open>quantity.ts\<close>

definition parseQuantity :: "'d decimal_ops \<Rightarrow> string \<Rightarrow> QuantityValue result" where
  "parseQuantity D value = bindE (fromStringSafe D (JStr value)) (\<lambda>d. Inr (toCanonicalString D d))"

definition quantityAdd :: "'d decimal_ops \<Rightarrow> QuantityValue \<Rightarrow> QuantityValue \<Rightarrow> QuantityValue result" where
  "quantityAdd D a b =
     bindE (fromStringSafe D (JStr a)) (\<lambda>x. bindE (fromStringSafe D (JStr b)) (\<lambda>y.
     Inr (toCanonicalString D (d_plus D x y))))"

definition quantitySubtract :: "'d decimal_ops \<Rightarrow> QuantityValue \<Rightarrow> QuantityValue \<Rightarrow> QuantityValue result" where
  "quantitySubtract D a b =
     bindE (fromStringSafe D (JStr a)) (\<lambda>x. bindE (fromStringSafe D (JStr b)) (\<lambda>y.
     Inr (toCanonicalString D (d_minus D x y))))"

definition quantityCompare :: "'d decimal_ops \<Rightarrow> QuantityValue \<Rightarrow> QuantityValue \<Rightarrow> int result" where
  "quantityCompare D a b =
     bindE (fromStringSafe D (JStr a)) (\<lambda>d1. bindE (fromStringSafe D (JStr b)) (\<lambda>d2.
     Inr (if d_eq D d1 d2 then 0 else if d_lt D d1 d2 then - 1 else 1)))"

definition quantityAbs :: "'d decimal_ops \<Rightarrow> QuantityValue \<Rightarrow> QuantityValue result" where
  "quantityAbs D a = bindE (fromStringSafe D (JStr a)) (\<lambda>x. Inr (toCanonicalString D (d_abs D x)))"

definition quantityNegate :: "'d decimal_ops \<Rightarrow> QuantityValue \<Rightarrow> QuantityValue result" where
  "quantityNegate D a = bindE (fromStringSafe D (JStr a)) (\<lambda>x. Inr (toCanonicalString D (d_neg D x)))"

definition multiplyQuantityByFactor ::
  "'d decimal_ops \<Rightarrow> QuantityValue \<Rightarrow> DecimalValue \<Rightarrow> QuantityValue result" where
  "multiplyQuantityByFactor D quantity factor =
     bindE (fromStringSafe D (JStr quantity)) (\<lambda>x. bindE (fromStringSafe D (JStr factor)) (\<lambda>y.
     Inr (toCanonicalString D (d_times D x y))))"

section \<open>precision.ts\<close>

definition GUARD_PRECISION :: int where "GUARD_PRECISION = 80"

definition js_int :: "js_number \<Rightarrow> int" where
  "js_int n = (case n of JSInt i \<Rightarrow> i | _ \<Rightarrow> 0)"

definition validateDecimalPlaces :: "js_number \<Rightarrow> unit result" where
  "validateDecimalPlaces decimalPlaces =
     throwIf (\<not> isSafeInteger decimalPlaces \<or> js_int decimalPlaces < 0 \<or>
              js_int decimalPlaces > GUARD_PRECISION)
       (NumericError INVALID_SCALE)"

definition validatePrecisionScaleConfiguration :: "js_number \<Rightarrow> js_number \<Rightarrow> unit result" where
  "validatePrecisionScaleConfiguration prec scale =
     bindE (throwIf (\<not> isSafeInteger prec \<or> js_int prec \<le> 0) (NumericError INVALID_PRECISION)) (\<lambda>_.
     throwIf (\<not> isSafeInteger scale \<or> js_int scale < 0 \<or> js_int scale > js_int prec)
       (NumericError INVALID_SCALE))"

definition quantizeDecimal ::
  "'d decimal_ops \<Rightarrow> DecimalValue \<Rightarrow> js_number \<Rightarrow> RoundingMode \<Rightarrow> DecimalValue result" where
  "quantizeDecimal D value decimalPlaces roundingMode =
     bindE (validateDecimalPlaces decimalPlaces) (\<lambda>_.
     bindE (fromStringSafe D (JStr value)) (\<lambda>d.
     Inr (toCanonicalString D
       (d_toDecimalPlaces D d (nat (js_int decimalPlaces)) (mapRoundingMode roundingMode)))))"

definition toFixedScale ::
  "'d decimal_ops \<Rightarrow> string \<Rightarrow> js_number \<Rightarrow> RoundingMode option \<Rightarrow> string result" where
  "toFixedScale D value decimalPlaces roundingMode =
     bindE (validateDecimalPlaces decimalPlaces) (\<lambda>_.
     bindE (fromStringSafe D (JStr value)) (\<lambda>d.
     case roundingMode of
       Some m \<Rightarrow> Inr (d_toFixed D d (nat (js_int decimalPlaces)) (Some (mapRoundingMode m)))
     | None \<Rightarrow>
         bindE (throwIf (nat (js_int decimalPlaces) < d_decimalPlaces D d) (NumericError INVALID_SCALE)) (\<lambda>_.
         Inr (d_toFixed D d (nat (js_int decimalPlaces)) None))))"

text \<open>The constant \<open>1\<close> of the comparison \<open>d.abs().lt(1)\<close> is a decimal of the library.\<close>

definition fitsPrecisionScale ::
  "'d decimal_ops \<Rightarrow> string \<Rightarrow> js_number \<Rightarrow> js_number \<Rightarrow> bool result" where
  "fitsPrecisionScale D value prec scale =
     bindE (validatePrecisionScaleConfiguration prec scale) (\<lambda>_.
     bindE (fromStringSafe D (JStr value)) (\<lambda>d.
     if int (d_decimalPlaces D d) > js_int scale then Inr False
     else let mathIntDigits =
                (if d_isZero D d \<or> d_lt D (d_abs D d) (d_new D ''1'') then 0
                 else length (d_toString D (d_floor D (d_abs D d))));
              maxIntDigits = js_int prec - js_int scale
          in Inr (\<not> int mathIntDigits > maxIntDigits)))"

definition assertFitsPrecisionScale ::
  "'d decimal_ops \<Rightarrow> string \<Rightarrow> js_number \<Rightarrow> js_number \<Rightarrow> unit result" where
  "assertFitsPrecisionScale D value prec scale =
     bindE (fitsPrecisionScale D value prec scale) (\<lambda>ok.
     throwIf (\<not> ok) (NumericError DECIMAL_PRECISION_OVERFLOW))"

text \<open>The three families of operations are the same function on texts.\<close>

lemma money_family:
  "parseDecimal = parseMoney" "parseQuantity = parseMoney"
  "decimalAdd = moneyAdd" "quantityAdd = moneyAdd"
  "decimalSubtract = moneySubtract" "quantitySubtract = moneySubtract"
  "decimalCompare = moneyCompare" "quantityCompare = moneyCompare"
  "decimalMultiply = multiplyMoneyByQuantity" "multiplyQuantityByFactor = multiplyMoneyByQuantity"
  "decimalAbs = moneyAbs" "quantityAbs = moneyAbs"
  "decimalNegate = moneyNegate" "quantityNegate = moneyNegate"
  by (simp_all add: fun_eq_iff parseDecimal_def parseMoney_def parseQuantity_def decimalAdd_def
      moneyAdd_def quantityAdd_def decimalSubtract_def moneySubtract_def quantitySubtract_def
      decimalCompare_def moneyCompare_def quantityCompare_def decimalMultiply_def
      multiplyMoneyByQuantity_def multiplyQuantityByFactor_def decimalAbs_def moneyAbs_def
      quantityAbs_def decimalNegate_def moneyNegate_def quantityNegate_def)

section \<open>The operations as rational arithmetic\<close>

definition sgn3 :: "rat \<Rightarrow> rat \<Rightarrow> int" where
  "sgn3 p q = (if p = q then 0 else if p < q then - 1 else 1)"

lemma sgn3_simps [simp]:
  "sgn3 p q < 0 \<longleftrightarrow> p < q" "sgn3 p q \<le> 0 \<longleftrightarrow> p \<le> q" "0 < sgn3 p q \<longleftrightarrow> q < p" "0 \<le> sgn3 p q \<longleftrightarrow> q \<le> p"
  "sgn3 p q = 0 \<longleftrightarrow> p = q" "sgn3 p q = - 1 \<longleftrightarrow> p < q" "sgn3 p q = 1 \<longleftrightarrow> q < p"
  by (auto simp: sgn3_def)

context decimal_library
begin

lemma fromStringSafe_text [simp]:
  "fromStringSafe D (JStr s) =
     (if dec_syntax s then Inr (d_new D s) else Inl (NumericError INVALID_DECIMAL))"
  using W_finite [OF W_new [of s]] by (simp add: fromStringSafe_def Let_def)

lemma toCanonicalString_text: "W x \<Longrightarrow> toCanonicalString D x = dec_text (V x)"
  by (simp add: toCanonicalString_def isZero_exact toString_text)

lemma parse_text:
  "parseMoney D s = (if dec_syntax s then Inr (dec_text (dec_value s)) else Inl (NumericError INVALID_DECIMAL))"
  by (simp add: parseMoney_def toCanonicalString_text W_new V_new)

lemma parse_Inr: "parseMoney D s = Inr t \<longleftrightarrow> dec_syntax s \<and> t = dec_text (dec_value s)"
  by (auto simp: parse_text)

lemma parse_canonical [simp]: "canonical s \<Longrightarrow> parseMoney D s = Inr s"
  by (simp add: parse_text canonical_syntax dec_text_value)

lemma add_text:
  "dec_syntax a \<Longrightarrow> dec_syntax b \<Longrightarrow> sig80 (dec_value a + dec_value b) \<Longrightarrow>
   moneyAdd D a b = Inr (dec_text (dec_value a + dec_value b))"
  using plus_exact [OF W_new W_new, of a b] by (simp add: moneyAdd_def toCanonicalString_text V_new)

lemma subtract_text:
  "dec_syntax a \<Longrightarrow> dec_syntax b \<Longrightarrow> sig80 (dec_value a - dec_value b) \<Longrightarrow>
   moneySubtract D a b = Inr (dec_text (dec_value a - dec_value b))"
  using minus_exact [OF W_new W_new, of a b]
  by (simp add: moneySubtract_def toCanonicalString_text V_new)

lemma multiply_text:
  "dec_syntax a \<Longrightarrow> dec_syntax b \<Longrightarrow> sig80 (dec_value a * dec_value b) \<Longrightarrow>
   multiplyMoneyByQuantity D a b = Inr (dec_text (dec_value a * dec_value b))"
  using times_exact [OF W_new W_new, of a b]
  by (simp add: multiplyMoneyByQuantity_def toCanonicalString_text V_new)

lemma divide_text:
  "dec_syntax a \<Longrightarrow> dec_syntax b \<Longrightarrow> dec_value b \<noteq> 0 \<Longrightarrow> sig80 (dec_value a / dec_value b) \<Longrightarrow>
   decimalDivide D a b = Inr (dec_text (dec_value a / dec_value b))"
  using div_exact [OF W_new W_new, of a b] isZero_exact [OF W_new, of b]
  by (simp add: decimalDivide_def assertNoZeroDivision_def toCanonicalString_text V_new)

lemma divide_zero:
  "dec_syntax b \<Longrightarrow> dec_value b = 0 \<Longrightarrow> decimalDivide D a b = Inl (NumericError DIVISION_BY_ZERO)"
  using isZero_exact [OF W_new, of b] by (simp add: decimalDivide_def assertNoZeroDivision_def V_new)

lemma compare_text:
  "dec_syntax a \<Longrightarrow> dec_syntax b \<Longrightarrow> moneyCompare D a b = Inr (sgn3 (dec_value a) (dec_value b))"
  by (simp add: moneyCompare_def eq_exact lt_exact W_new V_new sgn3_def)

lemma negate_text: "dec_syntax a \<Longrightarrow> moneyNegate D a = Inr (dec_text (- dec_value a))"
  using neg_exact [OF W_new, of a] by (simp add: moneyNegate_def toCanonicalString_text V_new)

lemma abs_text: "dec_syntax a \<Longrightarrow> moneyAbs D a = Inr (dec_text \<bar>dec_value a\<bar>)"
  using abs_exact [OF W_new, of a] by (simp add: moneyAbs_def toCanonicalString_text V_new)

lemma quantize_text:
  "dec_syntax a \<Longrightarrow> 0 \<le> n \<Longrightarrow> n \<le> 80 \<Longrightarrow>
   quantizeDecimal D a (JSInt n) m = Inr (dec_text (round_dp (mapRoundingMode m) (nat n) (dec_value a)))"
  using toDecimalPlaces_rounds [OF W_new, of a "nat n" "mapRoundingMode m"]
  by (simp add: quantizeDecimal_def validateDecimalPlaces_def isSafeInteger_def js_int_def
      GUARD_PRECISION_def toCanonicalString_text V_new)

lemma dec_syntax_one: "dec_syntax ''1''" and dec_value_one: "dec_value ''1'' = 1"
proof -
  have "dec_parts ''1'' = Some (False, ''1'', [])" by code_simp
  then show "dec_syntax ''1''" "dec_value ''1'' = 1"
    by (simp_all add: dec_syntax_def dec_value_def parts_value_def digit_val_def)
qed

lemma integer_digits:
  assumes "W x" "1 \<le> \<bar>V x\<bar>"
  shows "length (d_toString D (d_floor D (d_abs D x))) \<le> L \<longleftrightarrow> \<bar>V x\<bar> < 10 ^ L"
proof -
  define n where "n = nat \<lfloor>\<bar>V x\<bar>\<rfloor>"
  have n: "of_nat n = (of_int \<lfloor>\<bar>V x\<bar>\<rfloor> :: rat)" by (simp add: n_def)
  have "1 \<le> \<lfloor>\<bar>V x\<bar>\<rfloor>" using assms(2) by (simp add: le_floor_iff)
  then have pos: "0 < n" by (simp add: n_def)
  have fl: "W (d_floor D (d_abs D x))" "V (d_floor D (d_abs D x)) = of_nat n"
    using abs_exact [OF assms(1)] floor_exact [of "d_abs D x"] n by auto
  then have "d_toString D (d_floor D (d_abs D x)) = dec_text (of_nat n)"
    using toString_text [OF fl(1)] pos by simp
  moreover have "n < 10 ^ L \<longleftrightarrow> \<bar>V x\<bar> < 10 ^ L"
  proof -
    have "n < 10 ^ L \<longleftrightarrow> \<lfloor>\<bar>V x\<bar>\<rfloor> < int (10 ^ L)" using \<open>1 \<le> \<lfloor>\<bar>V x\<bar>\<rfloor>\<close> unfolding n_def by linarith
    also have "\<dots> \<longleftrightarrow> \<bar>V x\<bar> < of_int (int (10 ^ L))" by (simp only: floor_less_iff)
    finally show ?thesis by simp
  qed
  ultimately show ?thesis using dec_text_int_length [OF pos, of L] by simp
qed

text \<open>\<open>fitsPrecisionScale\<close> decides whether the value is one of SQL's \<open>NUMERIC(p, s)\<close>.\<close>

lemma fits_text:
  assumes "dec_syntax a" "0 \<le> s" "s \<le> p" "0 < p" "p \<le> 1000"
  shows "fitsPrecisionScale D a (JSInt p) (JSInt s) = Inr (scaled (nat s) (nat p) (dec_value a))"
proof -
  define x where "x = d_new D a"
  have x: "W x" "V x = dec_value a" using assms(1) by (simp_all add: x_def W_new V_new)
  have cfg: "validatePrecisionScaleConfiguration (JSInt p) (JSInt s) = Inr ()"
    using assms by (simp add: validatePrecisionScaleConfiguration_def isSafeInteger_def js_int_def)
  have places: "int (d_decimalPlaces D x) > s \<longleftrightarrow> V x * 10 ^ nat s \<notin> \<int>"
    using decimalPlaces_least [OF x(1), of "nat s"] assms(2) by linarith
  define digs where "digs = (if d_isZero D x \<or> d_lt D (d_abs D x) (d_new D ''1'') then 0
      else length (d_toString D (d_floor D (d_abs D x))))"
  have zero_lt: "d_isZero D x \<or> d_lt D (d_abs D x) (d_new D ''1'') \<longleftrightarrow> \<bar>V x\<bar> < 1"
    using abs_exact [OF x(1)] lt_exact [of "d_abs D x" "d_new D ''1''"] isZero_exact [OF x(1)]
    by (auto simp: W_new V_new dec_syntax_one dec_value_one)
  have ten: "(1::rat) \<le> 10 ^ nat (p - s)" by simp
  have "digs \<le> nat (p - s) \<longleftrightarrow> \<bar>V x\<bar> < 10 ^ nat (p - s)"
  proof (cases "\<bar>V x\<bar> < 1")
    case True
    then show ?thesis using zero_lt ten by (auto simp: digs_def intro: less_le_trans)
  next
    case False
    then show ?thesis using zero_lt integer_digits [OF x(1)] by (simp add: digs_def)
  qed
  then have digs: "\<not> int digs > p - s \<longleftrightarrow> \<bar>V x\<bar> < 10 ^ nat (p - s)" using assms(3) by linarith
  have "(10 ^ nat p :: rat) = 10 ^ nat (p - s) * 10 ^ nat s"
    using assms(2,3) by (simp flip: power_add nat_add_distrib)
  then have "scaled (nat s) (nat p) (V x) \<longleftrightarrow> V x * 10 ^ nat s \<in> \<int> \<and> \<bar>V x\<bar> < 10 ^ nat (p - s)"
    by (simp add: scaled_iff)
  then show ?thesis
    using places digs x assms(1) cfg
    by (simp add: fitsPrecisionScale_def js_int_def Let_def flip: x_def digs_def)
qed

lemma fixed_scale_text:
  assumes "dec_syntax a" "0 \<le> n" "n \<le> 80"
  shows "toFixedScale D a (JSInt n) None =
    (if dec_value a * 10 ^ nat n \<in> \<int> then Inr (d_toFixed D (d_new D a) (nat n) None)
     else Inl (NumericError INVALID_SCALE))"
  using assms decimalPlaces_least [OF W_new [OF assms(1)], of "nat n"]
  by (auto simp add: toFixedScale_def validateDecimalPlaces_def isSafeInteger_def js_int_def
      GUARD_PRECISION_def V_new not_le throwIf_def)

lemma fixed_scale_value:
  assumes "dec_syntax a" "n \<le> 80" "dec_value a * 10 ^ n \<in> \<int>"
  shows "dec_value (d_toFixed D (d_new D a) n None) = dec_value a"
    and "\<exists>neg i f. dec_parts (d_toFixed D (d_new D a) n None) = Some (neg, i, f) \<and> length f = n"
  using toFixed_default [OF W_new [OF assms(1)] assms(2)]
    toFixed_rounds [OF W_new [OF assms(1)] assms(2), of ROUND_HALF_EVEN] assms
  by (simp_all add: V_new round_dp_exact)

end

section \<open>Properties of the package\<close>

text \<open>
  C40. Parsing accepts exactly the plain decimal syntax and normalises: the result is the canonical
  text of the same value, parsing it again changes nothing, and two inputs get the same text exactly
  when their values agree. Everything else is \<open>INVALID_DECIMAL\<close>.
\<close>

theorem parse_normalises:
  assumes "decimal_library D V W"
  shows "if dec_syntax a
    then \<exists>t. parseMoney D a = Inr t \<and> canonical t \<and> dec_value t = dec_value a \<and> parseMoney D t = Inr t \<and>
         (\<forall>b. dec_syntax b \<longrightarrow> (parseMoney D b = Inr t \<longleftrightarrow> dec_value a = dec_value b))
    else parseMoney D a = Inl (NumericError INVALID_DECIMAL)"
  by (auto simp: decimal_library.parse_text [OF assms] dec_text_inject)

theorem parse_normalises_witness:
  "\<exists>t. parseMoney ref_ops ''007.50'' = Inr t \<and> canonical t \<and> dec_value t = dec_value ''007.50''"
proof -
  have "dec_syntax ''007.50''" by code_simp
  then show ?thesis using parse_normalises [OF ref.decimal_library_axioms, of "''007.50''"] by auto
qed

text \<open>
  C39. Money arithmetic is exact: sums and differences of \<open>NUMERIC(20,4)\<close> amounts and the product of
  such an amount with a \<open>NUMERIC(20,6)\<close> quantity are the canonical texts of the rational results, and
  comparison is the order of the values.
\<close>

theorem money_arithmetic_exact:
  assumes "decimal_library D V W" "dec_syntax a" "dec_syntax b" "dec_syntax q"
    "scaled 4 20 (dec_value a)" "scaled 4 20 (dec_value b)" "scaled 6 20 (dec_value q)"
  shows "moneyAdd D a b = Inr (dec_text (dec_value a + dec_value b)) \<and>
    moneySubtract D a b = Inr (dec_text (dec_value a - dec_value b)) \<and>
    multiplyMoneyByQuantity D a q = Inr (dec_text (dec_value a * dec_value q)) \<and>
    moneyCompare D a b = Inr (sgn3 (dec_value a) (dec_value b))"
proof -
  have sum: "scaled 4 21 (dec_value a + dec_value b)" "scaled 4 21 (dec_value a - dec_value b)"
    and prod: "scaled 10 40 (dec_value a * dec_value q)"
    using assms(5-7) scaled_add [of 4 20 "dec_value a" "dec_value b"]
      scaled_diff [of 4 20 "dec_value a" "dec_value b"]
      scaled_mult [of 4 20 "dec_value a" 6 20 "dec_value q"] by simp_all
  show ?thesis
    using assms decimal_library.add_text [OF assms(1-3)] decimal_library.subtract_text [OF assms(1-3)]
      decimal_library.multiply_text [OF assms(1,2,4)] decimal_library.compare_text [OF assms(1-3)]
      sum [THEN scaled_sig80] prod [THEN scaled_sig80] by simp
qed

theorem money_arithmetic_exact_witness:
  "moneyAdd ref_ops ''0.1'' ''0.2'' = Inr (dec_text (dec_value ''0.1'' + dec_value ''0.2''))"
proof -
  have syn: "dec_syntax ''0.1''" "dec_syntax ''0.2''" by code_simp+
  have "fitsPrecisionScale ref_ops ''0.1'' (JSInt 20) (JSInt 4) = Inr True"
    "fitsPrecisionScale ref_ops ''0.2'' (JSInt 20) (JSInt 4) = Inr True"
    "fitsPrecisionScale ref_ops ''0.1'' (JSInt 20) (JSInt 6) = Inr True" by code_simp+
  then have "scaled 4 20 (dec_value ''0.1'')" "scaled 4 20 (dec_value ''0.2'')"
    "scaled 6 20 (dec_value ''0.1'')"
    using ref.fits_text [OF syn(1), of 4 20] ref.fits_text [OF syn(2), of 4 20]
      ref.fits_text [OF syn(1), of 6 20] by simp_all
  then show ?thesis
    using money_arithmetic_exact [OF ref.decimal_library_axioms syn syn(1)] by blast
qed

text \<open>
  \<open>fitsPrecisionScale\<close> decides membership in SQL's \<open>NUMERIC(p, s)\<close>: the value is an integer of at
  most \<open>p\<close> digits over \<open>10 ^ s\<close>. \<open>assertFitsPrecisionScale\<close> throws \<open>DECIMAL_PRECISION_OVERFLOW\<close> on
  every other value.
\<close>

theorem fits_is_numeric_p_s:
  assumes "decimal_library D V W" "dec_syntax a" "0 \<le> s" "s \<le> p" "0 < p" "p \<le> 1000"
  shows "fitsPrecisionScale D a (JSInt p) (JSInt s) =
      Inr (\<exists>m::int. \<bar>m\<bar> < 10 ^ nat p \<and> dec_value a = of_int m / 10 ^ nat s) \<and>
    (assertFitsPrecisionScale D a (JSInt p) (JSInt s) = Inr () \<longleftrightarrow>
      (\<exists>m::int. \<bar>m\<bar> < 10 ^ nat p \<and> dec_value a = of_int m / 10 ^ nat s)) \<and>
    (assertFitsPrecisionScale D a (JSInt p) (JSInt s) \<noteq> Inr () \<longrightarrow>
      assertFitsPrecisionScale D a (JSInt p) (JSInt s) = Inl (NumericError DECIMAL_PRECISION_OVERFLOW))"
  using decimal_library.fits_text [OF assms]
  by (simp add: assertFitsPrecisionScale_def throwIf_def flip: scaled_def)

theorem fits_is_numeric_p_s_witness:
  "fitsPrecisionScale ref_ops ''12.345'' (JSInt 5) (JSInt 3) =
     Inr (\<exists>m::int. \<bar>m\<bar> < 10 ^ nat 5 \<and> dec_value ''12.345'' = of_int m / 10 ^ nat 3)"
proof -
  have "dec_syntax ''12.345''" by code_simp
  then show ?thesis
    using fits_is_numeric_p_s [OF ref.decimal_library_axioms, of "''12.345''" 3 5] by auto
qed

text \<open>
  \<open>quantizeDecimal\<close> returns the canonical text of the value rounded by the chosen mode: a multiple of
  \<open>10 ^ -n\<close> less than one unit of the last place away, and the value itself when it needs no rounding.
\<close>

theorem quantize_rounds:
  assumes "decimal_library D V W" "dec_syntax a" "0 \<le> n" "n \<le> 80"
  shows "\<exists>t. quantizeDecimal D a (JSInt n) m = Inr t \<and> canonical t \<and>
    dec_value t * 10 ^ nat n \<in> \<int> \<and> \<bar>dec_value t - dec_value a\<bar> < 1 / 10 ^ nat n \<and>
    (dec_value a * 10 ^ nat n \<in> \<int> \<longrightarrow> dec_value t = dec_value a)"
proof -
  define r where "r = round_dp (mapRoundingMode m) (nat n) (dec_value a)"
  have q: "quantizeDecimal D a (JSInt n) m = Inr (dec_text r)"
    using decimal_library.quantize_text [OF assms] by (simp add: r_def)
  have int: "r * 10 ^ nat n = of_int (round_int (mapRoundingMode m) (dec_value a * 10 ^ nat n))"
    by (simp add: r_def round_dp_def)
  then have frac: "decimal_fraction r"
    by (intro decimal_fractionI [of _ "round_int (mapRoundingMode m) (dec_value a * 10 ^ nat n)" "nat n"])
       (simp add: field_simps)
  have "\<bar>r * 10 ^ nat n - dec_value a * 10 ^ nat n\<bar> < 1" unfolding int by (rule round_int_error)
  then have "\<bar>r - dec_value a\<bar> * 10 ^ nat n < 1" by (simp add: abs_mult flip: left_diff_distrib)
  then have "\<bar>r - dec_value a\<bar> < 1 / 10 ^ nat n" by (simp add: field_simps)
  then show ?thesis using q frac int round_dp_exact [of "dec_value a" "nat n"] by (simp add: r_def)
qed

theorem quantize_rounds_witness:
  "\<exists>t. quantizeDecimal ref_ops ''2.345'' (JSInt 2) HALF_UP = Inr t \<and> canonical t \<and>
     \<bar>dec_value t - dec_value ''2.345''\<bar> < 1 / 10 ^ nat 2"
proof -
  have "dec_syntax ''2.345''" by code_simp
  then show ?thesis using quantize_rounds [OF ref.decimal_library_axioms, of "''2.345''" 2 HALF_UP] by auto
qed

text \<open>
  \<open>toFixedScale\<close> without a rounding mode never rounds: it succeeds exactly when the value has at most
  \<open>n\<close> decimal places, and then prints the same value with exactly \<open>n\<close> of them; otherwise it throws
  \<open>INVALID_SCALE\<close>.
\<close>

theorem fixed_scale_never_rounds:
  assumes "decimal_library D V W" "dec_syntax a" "0 \<le> n" "n \<le> 80"
  shows "if dec_value a * 10 ^ nat n \<in> \<int>
    then \<exists>t neg i f. toFixedScale D a (JSInt n) None = Inr t \<and> dec_value t = dec_value a \<and>
           dec_parts t = Some (neg, i, f) \<and> length f = nat n
    else toFixedScale D a (JSInt n) None = Inl (NumericError INVALID_SCALE)"
  using decimal_library.fixed_scale_text [OF assms] assms(4)
    decimal_library.fixed_scale_value [OF assms(1,2), of "nat n"] by auto

theorem fixed_scale_never_rounds_witness:
  "toFixedScale ref_ops ''2.345'' (JSInt 2) None = Inl (NumericError INVALID_SCALE)"
proof -
  have syn: "dec_syntax ''2.345''" by code_simp
  have "quantizeDecimal ref_ops ''2.345'' (JSInt 2) DOWN = Inr ''2.34''" by code_simp
  then have "dec_text (round_dp ROUND_DOWN 2 (dec_value ''2.345'')) = ''2.34''"
    using ref.quantize_text [OF syn, of 2 DOWN] by simp
  moreover have "dec_text (dec_value ''2.345'') \<noteq> ''2.34''"
  proof -
    have "parseMoney ref_ops ''2.345'' = Inr ''2.345''" by code_simp
    then show ?thesis by (simp add: ref.parse_text syn)
  qed
  ultimately have "dec_value ''2.345'' * 10 ^ nat 2 \<notin> \<int>" using round_dp_exact [of _ 2] by fastforce
  then show ?thesis using fixed_scale_never_rounds [OF ref.decimal_library_axioms syn, of 2] by simp
qed

text \<open>
  Division throws \<open>DIVISION_BY_ZERO\<close> on a zero divisor and is exact whenever the quotient has at
  most 80 significant digits.
\<close>

theorem decimal_division:
  assumes "decimal_library D V W" "dec_syntax a" "dec_syntax b"
    "dec_value b \<noteq> 0 \<longrightarrow> sig80 (dec_value a / dec_value b)"
  shows "decimalDivide D a b = (if dec_value b = 0 then Inl (NumericError DIVISION_BY_ZERO)
    else Inr (dec_text (dec_value a / dec_value b)))"
  using assms(4) decimal_library.divide_zero [OF assms(1,3)] decimal_library.divide_text [OF assms(1-3)] by simp

theorem decimal_division_witness: "decimalDivide ref_ops ''7'' ''-0.00'' = Inl (NumericError DIVISION_BY_ZERO)"
proof -
  have "dec_syntax ''7''" "dec_syntax ''-0.00''" by code_simp+
  moreover have "dec_parts ''-0.00'' = Some (True, ''0'', ''00'')" by code_simp
  then have "dec_value ''-0.00'' = 0" by (simp add: dec_value_def parts_value_def digits_val_def digit_val_def)
  ultimately show ?thesis using decimal_division [OF ref.decimal_library_axioms, of "''7''" "''-0.00''"] by simp
qed

end
