(* ===== verification/Pricing.thy ===== *)
theory Pricing
  imports Numeric
begin

text \<open>
  The offline price resolver, \<open>packages/domain/src/pricing/resolver.ts\<close>: the published base price
  of a product unit, replaced by the best quantity tier, reduced by at most one promotion. \<open>D\<close> is
  \<open>decimal.js\<close> and \<open>E\<close> the host (\<open>Date.parse\<close>). Record fields carry a prefix of their record
  (\<open>pt_\<close> for a tier, \<open>pp_\<close> for a promotion, and so on) and otherwise the source's name.
\<close>

section \<open>Data\<close>

datatype PricingTimeStatus = TRUSTED | CLOCK_UNTRUSTED | UnknownTimeStatus string

datatype PublishedPromotionType =
  FIXED_PRICE | PERCENT_DISCOUNT | FIXED_DISCOUNT | UnsupportedPromotionType string

record PublishedPriceTier =
  pt_tier_id :: string
  pt_tier_code :: string
  pt_min_qty :: string
  pt_unit_price :: string
  pt_sort_order :: js_number

record PublishedPromotion =
  pp_promotion_id :: string
  pp_promotion_type :: PublishedPromotionType
  pp_value :: string
  pp_min_qty :: string
  pp_priority :: js_number
  pp_effective_from :: string
  pp_effective_to :: string
  pp_created_at :: string

record OfflinePriceResolutionInput =
  in_product_unit_id :: string
  in_price_version_id :: string
  in_price_effective_from :: string
  in_base_unit_price :: string
  in_quantity :: string
  in_price_tiers :: "PublishedPriceTier list"
  in_promotions :: "PublishedPromotion list"
  in_pricing_resolved_at :: string
  in_pricing_time_status :: PricingTimeStatus

record AppliedTierSnapshot =
  at_tier_id :: string
  at_tier_code :: string
  at_min_qty :: QuantityValue
  at_unit_price :: MoneyValue
  at_sort_order :: int

record AppliedPromotionSnapshot =
  ap_promotion_id :: string
  ap_promotion_type :: PublishedPromotionType
  ap_value :: DecimalValue
  ap_min_qty :: QuantityValue
  ap_priority :: int
  ap_effective_from :: string
  ap_effective_to :: string
  ap_created_at :: string
  ap_discount_per_unit :: MoneyValue
  ap_final_unit_price :: MoneyValue

record PromotionCandidate =
  pc_snapshot :: AppliedPromotionSnapshot
  pc_created_at_epoch :: int

record OfflinePriceResolution =
  pr_product_unit_id :: string
  pr_price_version_id :: string
  pr_price_effective_from :: string
  pr_pricing_resolved_at :: string
  pr_pricing_time_status :: PricingTimeStatus
  pr_quantity :: QuantityValue
  pr_base_unit_price :: MoneyValue
  pr_applied_tier :: "AppliedTierSnapshot option"
  pr_tier_unit_price :: MoneyValue
  pr_applied_promotion :: "AppliedPromotionSnapshot option"
  pr_promotion_discount :: MoneyValue
  pr_final_unit_price :: MoneyValue
  pr_warnings :: "string list"

record PosPublishedRetailPrice =
  rp_price_version_id :: string
  rp_product_unit_id :: string
  rp_unit_price :: string
  rp_effective_from :: string
  rp_effective_to :: "string option"

section \<open>Validation helpers\<close>

definition resolvePublishedRetailPrice ::
  "'d decimal_ops \<Rightarrow> PosPublishedRetailPrice option \<Rightarrow> string \<Rightarrow> PosPublishedRetailPrice result" where
  "resolvePublishedRetailPrice D cachedPrice productUnitId =
     (case cachedPrice of
        None \<Rightarrow> Inl (PricingError ''PUBLISHED_RETAIL_PRICE_NOT_AVAILABLE'')
      | Some p \<Rightarrow>
          if rp_product_unit_id p \<noteq> productUnitId
          then Inl (PricingError ''PUBLISHED_RETAIL_PRICE_NOT_AVAILABLE'')
          else bindE (parseMoney D (rp_unit_price p)) (\<lambda>price.
               Inr \<lparr>rp_price_version_id = rp_price_version_id p,
                    rp_product_unit_id = rp_product_unit_id p,
                    rp_unit_price = price,
                    rp_effective_from = rp_effective_from p,
                    rp_effective_to = rp_effective_to p\<rparr>))"

definition ZERO_MONEY :: "'d decimal_ops \<Rightarrow> MoneyValue result" where
  "ZERO_MONEY D = parseMoney D ''0''"

definition ZERO_QUANTITY :: "'d decimal_ops \<Rightarrow> QuantityValue result" where
  "ZERO_QUANTITY D = parseQuantity D ''0''"

definition ONE_HUNDRED :: "'d decimal_ops \<Rightarrow> DecimalValue result" where
  "ONE_HUNDRED D = parseDecimal D ''100''"

definition timestamp :: "js_env \<Rightarrow> string \<Rightarrow> string \<Rightarrow> int result" where
  "timestamp E value code =
     (case dateParse E value of None \<Rightarrow> Inl (PricingResolutionError code) | Some t \<Rightarrow> Inr t)"

definition requiredIdentifier :: "string \<Rightarrow> string result" where
  "requiredIdentifier value =
     (if js_trim value = '''' then Inl (PricingResolutionError ''INVALID_PRICING_CONTEXT'')
      else Inr (js_trim value))"

definition positiveQuantity :: "'d decimal_ops \<Rightarrow> string \<Rightarrow> string \<Rightarrow> QuantityValue result" where
  "positiveQuantity D value code =
     bindE (catchE (parseQuantity D value) (\<lambda>_. Inl (PricingResolutionError code))) (\<lambda>parsed.
     bindE (ZERO_QUANTITY D) (\<lambda>zero.
     bindE (quantityCompare D parsed zero) (\<lambda>c.
     if c \<le> 0 then Inl (PricingResolutionError code)
     else bindE (fitsPrecisionScale D parsed (JSInt 20) (JSInt 6)) (\<lambda>fits.
          if \<not> fits then Inl (PricingResolutionError code) else Inr parsed))))"

definition nonNegativeMoney :: "'d decimal_ops \<Rightarrow> string \<Rightarrow> string \<Rightarrow> MoneyValue result" where
  "nonNegativeMoney D value code =
     bindE (catchE (parseMoney D value) (\<lambda>_. Inl (PricingResolutionError code))) (\<lambda>parsed.
     bindE (ZERO_MONEY D) (\<lambda>zero.
     bindE (moneyCompare D parsed zero) (\<lambda>c.
     if c < 0 then Inl (PricingResolutionError code)
     else bindE (fitsPrecisionScale D parsed (JSInt 20) (JSInt 4)) (\<lambda>fits.
          if \<not> fits then Inl (PricingResolutionError code) else Inr parsed))))"

definition safeInteger :: "js_number \<Rightarrow> string \<Rightarrow> int result" where
  "safeInteger value code =
     (if isSafeInteger value then Inr (js_int value) else Inl (PricingResolutionError code))"

section \<open>Quantity tiers\<close>

text \<open>
  A comparison inside \<open>sort\<close> or \<open>filter\<close> is applied to texts that were parsed before, so it does
  not throw; \<open>compared\<close> reads its number.
\<close>

definition compared :: "int result \<Rightarrow> int" where
  "compared r = (case r of Inl _ \<Rightarrow> 0 | Inr c \<Rightarrow> c)"

type_synonym tier_state =
  "string list \<times> string list \<times> string list \<times> AppliedTierSnapshot list"

text \<open>The callback of \<open>tiers.map\<close>, with the sets it fills and the snapshots it returns.\<close>

definition normalizeTier :: "'d decimal_ops \<Rightarrow> tier_state \<Rightarrow> PublishedPriceTier \<Rightarrow> tier_state result" where
  "normalizeTier D st tier =
     (case st of (ids, codes, minimums, acc) \<Rightarrow>
      let id = js_trim (pt_tier_id tier); code = js_trim (pt_tier_code tier) in
      bindE (positiveQuantity D (pt_min_qty tier) ''INVALID_PRICE_TIER'') (\<lambda>minQty.
      if id = '''' \<or> code = '''' \<or> id \<in> set ids \<or> code \<in> set codes \<or> minQty \<in> set minimums
      then Inl (PricingResolutionError ''INVALID_PRICE_TIER'')
      else
        bindE (nonNegativeMoney D (pt_unit_price tier) ''INVALID_PRICE_TIER'') (\<lambda>price.
        bindE (safeInteger (pt_sort_order tier) ''INVALID_PRICE_TIER'') (\<lambda>sortOrder.
        Inr (ids @ [id], codes @ [code], minimums @ [minQty],
          acc @ [\<lparr>at_tier_id = id, at_tier_code = code, at_min_qty = minQty,
                  at_unit_price = price, at_sort_order = sortOrder\<rparr>])))))"

definition resolveTier ::
  "'d decimal_ops \<Rightarrow> PublishedPriceTier list \<Rightarrow> QuantityValue \<Rightarrow> AppliedTierSnapshot option result" where
  "resolveTier D tiers quantity =
     bindE (foldE (normalizeTier D) ([], [], [], []) tiers) (\<lambda>(_, _, _, normalized).
     let eligible = filter (\<lambda>tier. compared (quantityCompare D (at_min_qty tier) quantity) \<le> 0) normalized;
         sorted = sort_by (\<lambda>left right. compared (quantityCompare D (at_min_qty right) (at_min_qty left))) eligible
     in Inr (case sorted of [] \<Rightarrow> None | tier # _ \<Rightarrow> Some tier))"

section \<open>Promotions\<close>

definition asMoney :: "'d decimal_ops \<Rightarrow> DecimalValue \<Rightarrow> string \<Rightarrow> MoneyValue result" where
  "asMoney D value code =
     bindE (quantizeDecimal D value (JSInt 4) HALF_UP) (\<lambda>rounded.
     bindE (fitsPrecisionScale D rounded (JSInt 20) (JSInt 4)) (\<lambda>fits.
     if \<not> fits then Inl (PricingResolutionError code) else parseMoney D rounded))"

text \<open>The \<open>switch\<close> on the promotion type inside \<open>promotionCandidate\<close>.\<close>

definition promotionPrice ::
  "'d decimal_ops \<Rightarrow> PublishedPromotion \<Rightarrow> DecimalValue \<Rightarrow> MoneyValue \<Rightarrow> MoneyValue result" where
  "promotionPrice D promotion value tierUnitPrice =
     (case pp_promotion_type promotion of
        FIXED_PRICE \<Rightarrow> nonNegativeMoney D (pp_value promotion) ''INVALID_PROMOTION''
      | FIXED_DISCOUNT \<Rightarrow>
          bindE (nonNegativeMoney D (pp_value promotion) ''INVALID_PROMOTION'') (\<lambda>fixedDiscount.
          bindE (moneyCompare D fixedDiscount tierUnitPrice) (\<lambda>c.
          if c > 0 then Inl (PricingResolutionError ''INVALID_PROMOTION'')
          else moneySubtract D tierUnitPrice fixedDiscount))
      | PERCENT_DISCOUNT \<Rightarrow>
          bindE (ONE_HUNDRED D) (\<lambda>hundred.
          bindE (decimalCompare D value hundred) (\<lambda>c.
          if c > 0 then Inl (PricingResolutionError ''INVALID_PROMOTION'')
          else
            bindE (decimalSubtract D hundred value) (\<lambda>rest.
            bindE (decimalDivide D rest hundred) (\<lambda>remaining.
            bindE (parseDecimal D tierUnitPrice) (\<lambda>price.
            bindE (decimalMultiply D price remaining) (\<lambda>product.
            asMoney D product ''INVALID_PROMOTION''))))))
      | UnsupportedPromotionType _ \<Rightarrow> Inl (PricingResolutionError ''INVALID_PROMOTION''))"

definition promotionCandidate ::
  "'d decimal_ops \<Rightarrow> js_env \<Rightarrow> PublishedPromotion \<Rightarrow> MoneyValue \<Rightarrow> QuantityValue \<Rightarrow> int \<Rightarrow>
   PromotionCandidate option result" where
  "promotionCandidate D E promotion tierUnitPrice quantity resolvedAt =
     (let id = js_trim (pp_promotion_id promotion) in
      bindE (positiveQuantity D (pp_min_qty promotion) ''INVALID_PROMOTION'') (\<lambda>minQty.
      bindE (timestamp E (pp_effective_from promotion) ''INVALID_PROMOTION'') (\<lambda>effectiveFrom.
      bindE (timestamp E (pp_effective_to promotion) ''INVALID_PROMOTION'') (\<lambda>effectiveTo.
      bindE (timestamp E (pp_created_at promotion) ''INVALID_PROMOTION'') (\<lambda>createdAt.
      bindE (safeInteger (pp_priority promotion) ''INVALID_PROMOTION'') (\<lambda>priority.
      if id = '''' \<or> effectiveTo \<le> effectiveFrom
      then Inl (PricingResolutionError ''INVALID_PROMOTION'')
      else
        bindE (quantityCompare D minQty quantity) (\<lambda>c.
        if c > 0 \<or> resolvedAt < effectiveFrom \<or> resolvedAt \<ge> effectiveTo then Inr None
        else
          bindE (catchE (parseDecimal D (pp_value promotion))
                   (\<lambda>_. Inl (PricingResolutionError ''INVALID_PROMOTION''))) (\<lambda>value.
          bindE (parseDecimal D ''0'') (\<lambda>zero.
          bindE (decimalCompare D value zero) (\<lambda>cz.
          if cz < 0 then Inl (PricingResolutionError ''INVALID_PROMOTION'')
          else
            bindE (fitsPrecisionScale D value (JSInt 20) (JSInt 4)) (\<lambda>fits.
            if \<not> fits then Inl (PricingResolutionError ''INVALID_PROMOTION'')
            else
              bindE (promotionPrice D promotion value tierUnitPrice) (\<lambda>finalUnitPrice.
              bindE (moneyCompare D finalUnitPrice tierUnitPrice) (\<lambda>cf.
              if cf \<ge> 0 then Inr None
              else
                bindE (moneySubtract D tierUnitPrice finalUnitPrice) (\<lambda>discount.
                Inr (Some \<lparr>
                  pc_snapshot = \<lparr>
                    ap_promotion_id = id,
                    ap_promotion_type = pp_promotion_type promotion,
                    ap_value = value,
                    ap_min_qty = minQty,
                    ap_priority = priority,
                    ap_effective_from = pp_effective_from promotion,
                    ap_effective_to = pp_effective_to promotion,
                    ap_created_at = pp_created_at promotion,
                    ap_discount_per_unit = discount,
                    ap_final_unit_price = finalUnitPrice\<rparr>,
                  pc_created_at_epoch = createdAt\<rparr>)))))))))))))))"

definition compareCanonicalIds :: "string \<Rightarrow> string \<Rightarrow> int" where
  "compareCanonicalIds left right =
     (let l = js_toLowerCase left; r = js_toLowerCase right
      in if l < r then - 1 else if l > r then 1 else 0)"

definition comparePromotions :: "'d decimal_ops \<Rightarrow> PromotionCandidate \<Rightarrow> PromotionCandidate \<Rightarrow> int" where
  "comparePromotions D left right =
     (let l = pc_snapshot left; r = pc_snapshot right in
      if ap_priority l \<noteq> ap_priority r then (if ap_priority l > ap_priority r then - 1 else 1)
      else let benefit = compared (moneyCompare D (ap_discount_per_unit r) (ap_discount_per_unit l)) in
        if benefit \<noteq> 0 then benefit
        else if pc_created_at_epoch left \<noteq> pc_created_at_epoch right
        then pc_created_at_epoch left - pc_created_at_epoch right
        else compareCanonicalIds (ap_promotion_id l) (ap_promotion_id r))"

definition collectPromotion ::
  "'d decimal_ops \<Rightarrow> js_env \<Rightarrow> MoneyValue \<Rightarrow> QuantityValue \<Rightarrow> int \<Rightarrow>
   string list \<times> PromotionCandidate list \<Rightarrow> PublishedPromotion \<Rightarrow>
   (string list \<times> PromotionCandidate list) result" where
  "collectPromotion D E tierUnitPrice quantity resolvedAt st promotion =
     (case st of (ids, acc) \<Rightarrow>
      let canonicalId = js_toLowerCase (js_trim (pp_promotion_id promotion)) in
      if canonicalId = '''' \<or> canonicalId \<in> set ids
      then Inl (PricingResolutionError ''INVALID_PROMOTION'')
      else
        bindE (promotionCandidate D E promotion tierUnitPrice quantity resolvedAt) (\<lambda>candidate.
        Inr (ids @ [canonicalId], acc @ (case candidate of None \<Rightarrow> [] | Some c \<Rightarrow> [c]))))"

definition resolvePromotion ::
  "'d decimal_ops \<Rightarrow> js_env \<Rightarrow> PublishedPromotion list \<Rightarrow> MoneyValue \<Rightarrow> QuantityValue \<Rightarrow> int \<Rightarrow>
   AppliedPromotionSnapshot option result" where
  "resolvePromotion D E promotions tierUnitPrice quantity resolvedAt =
     bindE (foldE (collectPromotion D E tierUnitPrice quantity resolvedAt) ([], []) promotions)
       (\<lambda>(_, candidates).
     Inr (case sort_by (comparePromotions D) candidates of
            [] \<Rightarrow> None | selected # _ \<Rightarrow> Some (pc_snapshot selected)))"

section \<open>Resolution\<close>

definition resolveOfflineUnitPrice ::
  "'d decimal_ops \<Rightarrow> js_env \<Rightarrow> OfflinePriceResolutionInput \<Rightarrow> OfflinePriceResolution result" where
  "resolveOfflineUnitPrice D E input =
     bindE (requiredIdentifier (in_product_unit_id input)) (\<lambda>productUnitId.
     bindE (requiredIdentifier (in_price_version_id input)) (\<lambda>priceVersionId.
     bindE (timestamp E (in_price_effective_from input) ''INVALID_PRICING_TIMESTAMP'') (\<lambda>_.
     bindE (throwUnless (in_pricing_time_status input = TRUSTED \<or>
                         in_pricing_time_status input = CLOCK_UNTRUSTED)
              (PricingResolutionError ''INVALID_PRICING_CONTEXT'')) (\<lambda>_.
     bindE (positiveQuantity D (in_quantity input) ''INVALID_PRICING_QUANTITY'') (\<lambda>quantity.
     bindE (nonNegativeMoney D (in_base_unit_price input) ''INVALID_BASE_PRICE'') (\<lambda>baseUnitPrice.
     bindE (timestamp E (in_pricing_resolved_at input) ''INVALID_PRICING_TIMESTAMP'') (\<lambda>resolvedAt.
     bindE (resolveTier D (in_price_tiers input) quantity) (\<lambda>appliedTier.
     let tierUnitPrice = (case appliedTier of None \<Rightarrow> baseUnitPrice | Some t \<Rightarrow> at_unit_price t);
         clockTrusted = (in_pricing_time_status input = TRUSTED) in
     bindE (if clockTrusted
            then resolvePromotion D E (in_promotions input) tierUnitPrice quantity resolvedAt
            else Inr None) (\<lambda>appliedPromotion.
     bindE (ZERO_MONEY D) (\<lambda>zero.
     Inr \<lparr>
       pr_product_unit_id = productUnitId,
       pr_price_version_id = priceVersionId,
       pr_price_effective_from = in_price_effective_from input,
       pr_pricing_resolved_at = in_pricing_resolved_at input,
       pr_pricing_time_status = in_pricing_time_status input,
       pr_quantity = quantity,
       pr_base_unit_price = baseUnitPrice,
       pr_applied_tier = appliedTier,
       pr_tier_unit_price = tierUnitPrice,
       pr_applied_promotion = appliedPromotion,
       pr_promotion_discount =
         (case appliedPromotion of None \<Rightarrow> zero | Some p \<Rightarrow> ap_discount_per_unit p),
       pr_final_unit_price =
         (case appliedPromotion of None \<Rightarrow> tierUnitPrice | Some p \<Rightarrow> ap_final_unit_price p),
       pr_warnings = (if clockTrusted then [] else [''CLOCK_UNTRUSTED''])\<rparr>))))))))))"

section \<open>What the helpers accept\<close>

text \<open>Money of \<open>NUMERIC(20,4)\<close> and quantities of \<open>NUMERIC(20,6)\<close>, as canonical texts.\<close>

definition money_ok :: "MoneyValue \<Rightarrow> bool" where
  "money_ok m = (canonical m \<and> 0 \<le> dec_value m \<and> scaled 4 20 (dec_value m))"

definition qty_ok :: "QuantityValue \<Rightarrow> bool" where
  "qty_ok q = (canonical q \<and> 0 < dec_value q \<and> scaled 6 20 (dec_value q))"

lemma money_okD [canon]:
  "money_ok m \<Longrightarrow> canonical m" "money_ok m \<Longrightarrow> dec_syntax m" "money_ok m \<Longrightarrow> scaled 4 20 (dec_value m)"
  by (auto simp: money_ok_def canonical_syntax)

lemma qty_okD [canon]:
  "qty_ok m \<Longrightarrow> canonical m" "qty_ok m \<Longrightarrow> dec_syntax m" "qty_ok m \<Longrightarrow> scaled 6 20 (dec_value m)"
  by (auto simp: qty_ok_def canonical_syntax)

lemma fits_20:
  assumes "decimal_library D V W" "dec_syntax a"
  shows "fitsPrecisionScale D a (JSInt 20) (JSInt 4) = Inr (scaled 4 20 (dec_value a))"
    "fitsPrecisionScale D a (JSInt 20) (JSInt 6) = Inr (scaled 6 20 (dec_value a))"
    "fitsPrecisionScale D a (JSInt 20) (JSInt 8) = Inr (scaled 8 20 (dec_value a))"
  using decimal_library.fits_text [OF assms, of 4 20] decimal_library.fits_text [OF assms, of 6 20]
    decimal_library.fits_text [OF assms, of 8 20]
  by simp_all

lemma timestamp_Inr [result_simps]: "timestamp E v code = Inr t \<longleftrightarrow> dateParse E v = Some t"
  by (auto simp: timestamp_def split: option.splits)

lemma safeInteger_Inr [result_simps]: "safeInteger n code = Inr i \<longleftrightarrow> isSafeInteger n \<and> i = js_int n"
  by (auto simp: safeInteger_def)

lemma requiredIdentifier_Inr [result_simps]:
  "requiredIdentifier v = Inr i \<longleftrightarrow> js_trim v \<noteq> '''' \<and> i = js_trim v"
  by (auto simp: requiredIdentifier_def)

context decimal_library
begin

lemmas fits_20_text = fits_20 [OF decimal_library_axioms]

lemma zero_constants [simp]: "ZERO_MONEY D = Inr ''0''" "ZERO_QUANTITY D = Inr ''0''"
  by (simp_all add: ZERO_MONEY_def ZERO_QUANTITY_def money_family)

lemma dec_100 [simp]: "canonical ''100''" "dec_syntax ''100''" "dec_value ''100'' = 100"
proof -
  have p: "dec_parts ''100'' = Some (False, ''100'', [])" by code_simp
  have v: "digits_val ''100'' = 100" by code_simp
  show "canonical ''100''" by (simp add: canonical_def p)
  then show "dec_syntax ''100''" by (rule canonical_syntax)
  show "dec_value ''100'' = 100" by (simp add: dec_value_def p parts_value_def v)
qed

lemma one_hundred [simp]: "ONE_HUNDRED D = Inr ''100''"
  by (simp add: ONE_HUNDRED_def money_family)

lemma positiveQuantity_text:
  "positiveQuantity D v code =
     (if dec_syntax v \<and> 0 < dec_value v \<and> scaled 6 20 (dec_value v)
      then Inr (dec_text (dec_value v)) else Inl (PricingResolutionError code))"
  by (auto simp: positiveQuantity_def money_family parse_text compare_text canonical_syntax fits_20_text)

lemma nonNegativeMoney_text:
  "nonNegativeMoney D v code =
     (if dec_syntax v \<and> 0 \<le> dec_value v \<and> scaled 4 20 (dec_value v)
      then Inr (dec_text (dec_value v)) else Inl (PricingResolutionError code))"
  by (auto simp: nonNegativeMoney_def money_family parse_text compare_text canonical_syntax fits_20_text)

lemma positiveQuantity_ok: "positiveQuantity D v code = Inr q \<Longrightarrow> qty_ok q \<and> dec_value q = dec_value v"
  by (auto simp: positiveQuantity_text qty_ok_def split: if_splits)

lemma nonNegativeMoney_ok: "nonNegativeMoney D v code = Inr q \<Longrightarrow> money_ok q \<and> dec_value q = dec_value v"
  by (auto simp: nonNegativeMoney_text money_ok_def split: if_splits)

lemma compare_canonical [simp]:
  "canonical a \<Longrightarrow> canonical b \<Longrightarrow> moneyCompare D a b = Inr (sgn3 (dec_value a) (dec_value b))"
  "canonical a \<Longrightarrow> canonical b \<Longrightarrow> quantityCompare D a b = Inr (sgn3 (dec_value a) (dec_value b))"
  "canonical a \<Longrightarrow> canonical b \<Longrightarrow> decimalCompare D a b = Inr (sgn3 (dec_value a) (dec_value b))"
  by (simp_all add: money_family compare_text canonical_syntax)

end

lemma compared_Inr [simp]: "compared (Inr c) = c"
  by (simp add: compared_def)

section \<open>Tiers: the eligible tier with the greatest minimum\<close>

text \<open>What normalisation makes of one published tier.\<close>

definition tier_norm :: "PublishedPriceTier \<Rightarrow> AppliedTierSnapshot \<Rightarrow> bool" where
  "tier_norm p t =
     (at_tier_id t = js_trim (pt_tier_id p) \<and> at_tier_code t = js_trim (pt_tier_code p) \<and>
      qty_ok (at_min_qty t) \<and> dec_value (at_min_qty t) = dec_value (pt_min_qty p) \<and>
      money_ok (at_unit_price t) \<and> dec_value (at_unit_price t) = dec_value (pt_unit_price p) \<and>
      pt_sort_order p = JSInt (at_sort_order t))"

lemma safe_js_int: "isSafeInteger n \<Longrightarrow> n = JSInt (js_int n)"
  by (cases n) (auto simp: isSafeInteger_def js_int_def)

context decimal_library
begin

lemma normalizeTier_Inr:
  assumes "normalizeTier D (ids, codes, mins, acc) p = Inr st"
  shows "\<exists>t. st = (ids @ [at_tier_id t], codes @ [at_tier_code t], mins @ [at_min_qty t], acc @ [t]) \<and>
     tier_norm p t \<and> at_min_qty t \<notin> set mins"
proof -
  let ?id = "js_trim (pt_tier_id p)" and ?code = "js_trim (pt_tier_code p)"
  obtain q m s where q: "positiveQuantity D (pt_min_qty p) ''INVALID_PRICE_TIER'' = Inr q" "q \<notin> set mins"
    and m: "nonNegativeMoney D (pt_unit_price p) ''INVALID_PRICE_TIER'' = Inr m"
    and s: "safeInteger (pt_sort_order p) ''INVALID_PRICE_TIER'' = Inr s"
    and st: "st = (ids @ [?id], codes @ [?code], mins @ [q],
       acc @ [\<lparr>at_tier_id = ?id, at_tier_code = ?code, at_min_qty = q, at_unit_price = m, at_sort_order = s\<rparr>])"
    using assms by (auto simp: normalizeTier_def Let_def bindE_eq_Inr split: if_splits)
  have "pt_sort_order p = JSInt s" using s safe_js_int by (auto simp: safeInteger_Inr)
  then show ?thesis
    using positiveQuantity_ok [OF q(1)] nonNegativeMoney_ok [OF m] q(2) st
    by (intro exI [of _ "\<lparr>at_tier_id = ?id, at_tier_code = ?code, at_min_qty = q, at_unit_price = m, at_sort_order = s\<rparr>"])
       (simp add: tier_norm_def)
qed

lemma normalizeTiers_Inr:
  "foldE (normalizeTier D) (ids, codes, mins, acc) ps = Inr (ids', codes', mins', acc') \<Longrightarrow> distinct mins \<Longrightarrow>
   \<exists>ts. acc' = acc @ ts \<and> list_all2 tier_norm ps ts \<and> distinct (mins @ map at_min_qty ts)"
proof (induction ps arbitrary: ids codes mins acc)
  case (Cons p ps)
  then obtain st where st: "normalizeTier D (ids, codes, mins, acc) p = Inr st"
    and rest: "foldE (normalizeTier D) st ps = Inr (ids', codes', mins', acc')"
    by (auto simp: bindE_eq_Inr)
  from normalizeTier_Inr [OF st] obtain t
    where t: "st = (ids @ [at_tier_id t], codes @ [at_tier_code t], mins @ [at_min_qty t], acc @ [t])"
      "tier_norm p t" "at_min_qty t \<notin> set mins"
    by blast
  have "distinct (mins @ [at_min_qty t])" using t(3) Cons.prems(2) by simp
  from Cons.IH [OF rest [unfolded t(1)] this] obtain ts
    where "acc' = (acc @ [t]) @ ts" "list_all2 tier_norm ps ts"
      "distinct ((mins @ [at_min_qty t]) @ map at_min_qty ts)"
    by blast
  then show ?case using t(2) by (intro exI [of _ "t # ts"]) auto
qed simp

end

text \<open>The order in which eligible tiers are sorted: greatest minimum first.\<close>

definition tier_order :: "'d decimal_ops \<Rightarrow> AppliedTierSnapshot \<Rightarrow> AppliedTierSnapshot \<Rightarrow> int" where
  "tier_order D left right = compared (quantityCompare D (at_min_qty right) (at_min_qty left))"

sublocale decimal_library \<subseteq> tiers: comparator "tier_order D" "{t. qty_ok (at_min_qty t)}"
  by unfold_locales (auto simp: tier_order_def canon)

context decimal_library
begin

lemma resolveTier_Inr:
  assumes "resolveTier D ps q = Inr r" "canonical q"
  shows "\<exists>ts. list_all2 tier_norm ps ts \<and>
    (case r of
       None \<Rightarrow> \<forall>t\<in>set ts. dec_value q < dec_value (at_min_qty t)
     | Some t \<Rightarrow> t \<in> set ts \<and> dec_value (at_min_qty t) \<le> dec_value q \<and>
         (\<forall>t'\<in>set ts. dec_value (at_min_qty t') \<le> dec_value q \<longrightarrow>
            dec_value (at_min_qty t') \<le> dec_value (at_min_qty t)))"
proof -
  define elig where "elig = (\<lambda>ts :: AppliedTierSnapshot list. filter (\<lambda>tier. compared (quantityCompare D (at_min_qty tier) q) \<le> 0) ts)"
  obtain ids codes mins ts where ts: "foldE (normalizeTier D) ([], [], [], []) ps = Inr (ids, codes, mins, ts)"
    and r: "r = (case sort_by (tier_order D) (elig ts) of [] \<Rightarrow> None | tier # _ \<Rightarrow> Some tier)"
    using assms(1)
    by (auto simp: resolveTier_def bindE_eq_Inr Let_def elig_def tier_order_def [abs_def])
  have norm: "list_all2 tier_norm ps ts" using normalizeTiers_Inr [OF ts] by auto
  have ok: "qty_ok (at_min_qty t)" if "t \<in> set ts" for t
    using list_all2_conv_all_nth [THEN iffD1, OF norm] that by (auto simp: in_set_conv_nth tier_norm_def)
  have elig: "set (elig ts) = {t \<in> set ts. dec_value (at_min_qty t) \<le> dec_value q}"
    using ok assms(2) by (auto simp: elig_def canon)
  show ?thesis
  proof (intro exI [of _ ts] conjI norm, cases "sort_by (tier_order D) (elig ts)")
    case Nil
    then have "elig ts = []" by (metis length_0_conv length_sort_by)
    then show "case r of None \<Rightarrow> \<forall>t\<in>set ts. dec_value q < dec_value (at_min_qty t)
     | Some t \<Rightarrow> t \<in> set ts \<and> dec_value (at_min_qty t) \<le> dec_value q \<and>
         (\<forall>t'\<in>set ts. dec_value (at_min_qty t') \<le> dec_value q \<longrightarrow>
            dec_value (at_min_qty t') \<le> dec_value (at_min_qty t))"
      using elig r Nil by force
  next
    case (Cons t rest)
    have t: "t \<in> set (elig ts)" using Cons set_sort_by [of "tier_order D" "elig ts"] by auto
    have sub: "set (elig ts) \<subseteq> {t. qty_ok (at_min_qty t)}" using elig ok by auto
    have "tier_order D t t' \<le> 0" if "t' \<in> set (elig ts)" for t'
      by (rule tiers.sort_by_hd_least [OF sub Cons that])
    then have "dec_value (at_min_qty t') \<le> dec_value (at_min_qty t)" if "t' \<in> set (elig ts)" for t'
      using that t elig ok by (fastforce simp: tier_order_def canon)
    then show "case r of None \<Rightarrow> \<forall>t\<in>set ts. dec_value q < dec_value (at_min_qty t)
     | Some t \<Rightarrow> t \<in> set ts \<and> dec_value (at_min_qty t) \<le> dec_value q \<and>
         (\<forall>t'\<in>set ts. dec_value (at_min_qty t') \<le> dec_value q \<longrightarrow>
            dec_value (at_min_qty t') \<le> dec_value (at_min_qty t))"
      using r Cons t elig by auto
  qed
qed

end

section \<open>Promotions: at most one, the best one\<close>

text \<open>The unit price a promotion promises, in rational arithmetic.\<close>

definition promo_price :: "PublishedPromotion \<Rightarrow> rat \<Rightarrow> rat" where
  "promo_price p tier =
     (case pp_promotion_type p of
        FIXED_PRICE \<Rightarrow> dec_value (pp_value p)
      | FIXED_DISCOUNT \<Rightarrow> tier - dec_value (pp_value p)
      | PERCENT_DISCOUNT \<Rightarrow> round_dp ROUND_HALF_UP 4 (tier * ((100 - dec_value (pp_value p)) / 100))
      | UnsupportedPromotionType _ \<Rightarrow> tier)"

text \<open>When a promotion is in force for a quantity at a time.\<close>

definition promo_applies :: "js_env \<Rightarrow> PublishedPromotion \<Rightarrow> QuantityValue \<Rightarrow> int \<Rightarrow> bool" where
  "promo_applies E p q now =
     (dec_value (pp_min_qty p) \<le> dec_value q \<and>
      (\<exists>from to. dateParse E (pp_effective_from p) = Some from \<and>
                 dateParse E (pp_effective_to p) = Some to \<and> from \<le> now \<and> now < to))"

lemma round_dp_fraction [simp]: "decimal_fraction (round_dp m n q)"
  unfolding round_dp_def decimal_fraction_def by blast

lemma scaled_diff_nonneg: "scaled k b p \<Longrightarrow> scaled k b q \<Longrightarrow> 0 \<le> q \<Longrightarrow> q \<le> p \<Longrightarrow> scaled k b (p - q)"
proof -
  assume a: "scaled k b p" "scaled k b q" "0 \<le> q" "q \<le> p"
  have "(p - q) * 10 ^ k \<in> \<int>"
    using a(1,2) by (simp add: scaled_iff left_diff_distrib)
  moreover have "\<bar>p - q\<bar> * 10 ^ k \<le> \<bar>p\<bar> * 10 ^ k" using a(3,4) by (intro mult_right_mono) auto
  moreover have "\<bar>p\<bar> * 10 ^ k < 10 ^ b" using a(1) by (simp add: scaled_iff)
  ultimately show ?thesis unfolding scaled_iff by (blast intro: le_less_trans)
qed

lemma scaled_hundredth: "scaled 4 b q \<Longrightarrow> scaled 6 b (q / 100)"
proof -
  assume "scaled 4 b q"
  then obtain m where m: "\<bar>m\<bar> < 10 ^ b" "q = of_int m / 10 ^ 4" by (auto simp: scaled_def)
  have "q / 100 = of_int m / 10 ^ 6" by (simp add: m(2))
  with m(1) show ?thesis by (rule scaledI)
qed

lemma scaled_100: "scaled 4 20 100"
  by (rule scaledI [of "1000000"]) simp_all

context decimal_library
begin

lemma percent_price:
  assumes "money_ok t" "canonical v" "0 \<le> dec_value v" "dec_value v \<le> 100" "scaled 4 20 (dec_value v)"
  shows "\<exists>r m p. decimalSubtract D ''100'' v = Inr r \<and> decimalDivide D r ''100'' = Inr m \<and>
     decimalMultiply D t m = Inr p \<and> dec_syntax p \<and>
     dec_value p = dec_value t * ((100 - dec_value v) / 100)"
proof -
  let ?d = "100 - dec_value v"
  have d: "scaled 4 20 ?d" using assms scaled_100 by (intro scaled_diff_nonneg)
  have r: "decimalSubtract D ''100'' v = Inr (dec_text ?d)"
    using assms(2) d by (simp add: money_family subtract_text canonical_syntax scaled_sig80)
  have q: "scaled 6 20 (?d / 100)" using d by (rule scaled_hundredth)
  have m: "decimalDivide D (dec_text ?d) ''100'' = Inr (dec_text (?d / 100))"
    using d q by (simp add: divide_text scaled_sig80)
  have s: "scaled (4 + 6) (20 + 20) (dec_value t * (?d / 100))"
    by (rule scaled_mult) (use assms(1) q in \<open>simp_all add: canon\<close>)
  then have fr: "sig80 (dec_value t * (?d / 100))" by (rule scaled_sig80) simp_all
  have p: "decimalMultiply D t (dec_text (?d / 100)) = Inr (dec_text (dec_value t * (?d / 100)))"
    using assms(1) q fr by (simp add: money_family multiply_text canon)
  show ?thesis
    by (intro exI conjI, rule r, rule m, rule p) (use fr in simp_all)
qed

lemma promotionPrice_Inr:
  assumes "promotionPrice D p v t = Inr f" "money_ok t"
    "canonical v" "dec_value v = dec_value (pp_value p)" "0 \<le> dec_value v" "scaled 4 20 (dec_value v)"
  shows "money_ok f \<and> dec_value f = promo_price p (dec_value t)"
proof (cases "pp_promotion_type p")
  case FIXED_PRICE
  then show ?thesis using assms by (auto simp: promotionPrice_def promo_price_def dest: nonNegativeMoney_ok)
next
  case FIXED_DISCOUNT
  then obtain d where d: "nonNegativeMoney D (pp_value p) ''INVALID_PROMOTION'' = Inr d"
    and le: "dec_value d \<le> dec_value t" and f: "moneySubtract D t d = Inr f"
    using assms by (auto simp: promotionPrice_def bindE_eq_Inr canon dest!: nonNegativeMoney_ok split: if_splits)
  have dok: "money_ok d" "dec_value d = dec_value (pp_value p)" using nonNegativeMoney_ok [OF d] by auto
  have sc: "scaled 4 20 (dec_value t - dec_value d)"
    using assms(2) dok le by (intro scaled_diff_nonneg) (auto simp: money_ok_def)
  have "f = dec_text (dec_value t - dec_value d)"
    using f assms(2) dok sc subtract_text [of t d] by (simp add: canon scaled_sig80)
  then show ?thesis using sc le dok FIXED_DISCOUNT by (simp add: money_ok_def promo_price_def)
next
  case PERCENT_DISCOUNT
  let ?q = "dec_value t * ((100 - dec_value v) / 100)"
  have le: "dec_value v \<le> 100"
    using assms(1,3) PERCENT_DISCOUNT by (auto simp: promotionPrice_def split: if_splits)
  obtain r m x where x: "decimalSubtract D ''100'' v = Inr r" "decimalDivide D r ''100'' = Inr m"
      "decimalMultiply D t m = Inr x" "dec_syntax x" "dec_value x = ?q"
    using percent_price [OF assms(2,3,5) le assms(6)] by blast
  have "asMoney D x ''INVALID_PROMOTION'' = Inr f"
    using assms(1,2,3) PERCENT_DISCOUNT le x by (simp add: promotionPrice_def money_family canon)
  then have f: "scaled 4 20 (round_dp ROUND_HALF_UP 4 ?q)" "f = dec_text (round_dp ROUND_HALF_UP 4 ?q)"
    using x(4,5) quantize_text [of x 4 HALF_UP]
    by (auto simp: asMoney_def fits_20_text canonical_syntax split: if_splits)
  have "0 \<le> ?q" using assms(2) le by (auto simp: money_ok_def intro!: mult_nonneg_nonneg)
  then have "round_dp ROUND_HALF_UP 4 0 \<le> round_dp ROUND_HALF_UP 4 ?q" by (rule round_dp_half_up_mono)
  moreover have "round_dp ROUND_HALF_UP 4 0 = 0" by (rule round_dp_exact) simp
  ultimately have "0 \<le> round_dp ROUND_HALF_UP 4 ?q" by simp
  then show ?thesis using f assms(4) PERCENT_DISCOUNT by (simp add: money_ok_def promo_price_def)
next
  case (UnsupportedPromotionType x)
  then show ?thesis using assms(1) by (simp add: promotionPrice_def)
qed

text \<open>What a candidate is: an applicable promotion that really lowers the price.\<close>

lemma promotionCandidate_Some:
  assumes "promotionCandidate D E p t q now = Inr (Some c)" "money_ok t" "canonical q"
  shows "promo_applies E p q now"
    and "money_ok (ap_final_unit_price (pc_snapshot c))"
    and "dec_value (ap_final_unit_price (pc_snapshot c)) = promo_price p (dec_value t)"
    and "promo_price p (dec_value t) < dec_value t"
    and "money_ok (ap_discount_per_unit (pc_snapshot c))"
    and "dec_value (ap_discount_per_unit (pc_snapshot c)) = dec_value t - promo_price p (dec_value t)"
    and "ap_promotion_id (pc_snapshot c) = js_trim (pp_promotion_id p)"
    and "ap_promotion_type (pc_snapshot c) = pp_promotion_type p"
    and "pp_priority p = JSInt (ap_priority (pc_snapshot c))"
    and "dateParse E (pp_created_at p) = Some (pc_created_at_epoch c)"
proof -
  obtain mq frm til cr pri v f d where
      mq: "positiveQuantity D (pp_min_qty p) ''INVALID_PROMOTION'' = Inr mq" "dec_value mq \<le> dec_value q"
    and time: "dateParse E (pp_effective_from p) = Some frm" "dateParse E (pp_effective_to p) = Some til"
      "frm \<le> now" "now < til" "dateParse E (pp_created_at p) = Some cr"
    and pri: "isSafeInteger (pp_priority p)" "pri = js_int (pp_priority p)"
    and v: "dec_syntax (pp_value p)" "v = dec_text (dec_value (pp_value p))"
      "0 \<le> dec_value v" "scaled 4 20 (dec_value v)"
    and f: "promotionPrice D p v t = Inr f" "dec_value f < dec_value t"
    and d: "moneySubtract D t f = Inr d"
    and c: "pc_snapshot c = \<lparr>ap_promotion_id = js_trim (pp_promotion_id p),
        ap_promotion_type = pp_promotion_type p, ap_value = v, ap_min_qty = mq, ap_priority = pri,
        ap_effective_from = pp_effective_from p, ap_effective_to = pp_effective_to p,
        ap_created_at = pp_created_at p, ap_discount_per_unit = d, ap_final_unit_price = f\<rparr>"
      "pc_created_at_epoch c = cr"
  proof -
    from assms(1) obtain mq frm til cr pri where
        a: "positiveQuantity D (pp_min_qty p) ''INVALID_PROMOTION'' = Inr mq"
        "dateParse E (pp_effective_from p) = Some frm" "dateParse E (pp_effective_to p) = Some til"
        "dateParse E (pp_created_at p) = Some cr" "isSafeInteger (pp_priority p)" "pri = js_int (pp_priority p)"
      by (auto simp: promotionCandidate_def Let_def bindE_eq_Inr timestamp_Inr safeInteger_Inr)
    have mq: "canonical mq" using positiveQuantity_ok [OF a(1)] by (simp add: canon)
    note step1 = assms(1) [unfolded promotionCandidate_def Let_def a(1)]
    from step1 have win: "dec_value mq \<le> dec_value q" "frm \<le> now" "now < til"
      using a mq assms(3) by (auto simp: timestamp_def safeInteger_def split: if_splits)
    let ?v = "dec_text (dec_value (pp_value p))"
    from step1 a mq win assms(3) have v: "dec_syntax (pp_value p)"
      by (auto simp: timestamp_def safeInteger_def bindE_eq_Inr money_family parse_text split: if_splits)
    from step1 a mq win assms(3) v have v2: "0 \<le> dec_value ?v" "scaled 4 20 (dec_value ?v)"
      by (auto simp: timestamp_def safeInteger_def money_family parse_text compare_text
          canonical_syntax fits_20_text split: if_splits)
    from step1 a mq win assms(3) v v2 obtain f where f: "promotionPrice D p ?v t = Inr f"
      and rest: "bindE (moneyCompare D f t) (\<lambda>cf. if 0 \<le> cf then Inr None
          else bindE (moneySubtract D t f) (\<lambda>discount.
            Inr (Some \<lparr>pc_snapshot = \<lparr>ap_promotion_id = js_trim (pp_promotion_id p),
              ap_promotion_type = pp_promotion_type p, ap_value = ?v, ap_min_qty = mq, ap_priority = pri,
              ap_effective_from = pp_effective_from p, ap_effective_to = pp_effective_to p,
              ap_created_at = pp_created_at p, ap_discount_per_unit = discount,
              ap_final_unit_price = f\<rparr>, pc_created_at_epoch = cr\<rparr>))) = Inr (Some c)"
      by (auto simp: timestamp_def safeInteger_def money_family parse_text compare_text
          canonical_syntax fits_20_text bindE_eq_Inr split: if_splits)
    have "money_ok f" using promotionPrice_Inr [OF f assms(2)] v2 by simp
    with rest assms(2) obtain d where "dec_value f < dec_value t" "moneySubtract D t f = Inr d"
        "c = \<lparr>pc_snapshot = \<lparr>ap_promotion_id = js_trim (pp_promotion_id p),
              ap_promotion_type = pp_promotion_type p, ap_value = ?v, ap_min_qty = mq, ap_priority = pri,
              ap_effective_from = pp_effective_from p, ap_effective_to = pp_effective_to p,
              ap_created_at = pp_created_at p, ap_discount_per_unit = d,
              ap_final_unit_price = f\<rparr>, pc_created_at_epoch = cr\<rparr>"
      by (auto simp: canon bindE_eq_Inr split: if_splits)
    with that [of mq frm til cr pri ?v f d] a win v v2 f show thesis by simp
  qed
  have fp: "money_ok f" "dec_value f = promo_price p (dec_value t)"
    using promotionPrice_Inr [OF f(1) assms(2)] v by simp_all
  have sc: "scaled 4 20 (dec_value t - dec_value f)"
    using assms(2) fp(1) f(2) by (intro scaled_diff_nonneg) (auto simp: money_ok_def)
  then have d': "d = dec_text (dec_value t - dec_value f)"
    using d assms(2) fp subtract_text [of t f] by (simp add: canon scaled_sig80)
  show "promo_applies E p q now"
    using mq time positiveQuantity_ok [OF mq(1)] by (auto simp: promo_applies_def)
  show "money_ok (ap_discount_per_unit (pc_snapshot c))"
    "dec_value (ap_discount_per_unit (pc_snapshot c)) = dec_value t - promo_price p (dec_value t)"
    using c d' sc fp f(2) by (simp_all add: money_ok_def)
  show "pp_priority p = JSInt (ap_priority (pc_snapshot c))" using c pri safe_js_int by simp
  show "money_ok (ap_final_unit_price (pc_snapshot c))"
    "dec_value (ap_final_unit_price (pc_snapshot c)) = promo_price p (dec_value t)"
    "promo_price p (dec_value t) < dec_value t"
    "ap_promotion_id (pc_snapshot c) = js_trim (pp_promotion_id p)"
    "ap_promotion_type (pc_snapshot c) = pp_promotion_type p"
    "dateParse E (pp_created_at p) = Some (pc_created_at_epoch c)"
    using c fp f(2) time by simp_all
qed

text \<open>A valid promotion that is no candidate does not apply, or does not lower the price.\<close>

lemma promotionCandidate_None:
  assumes "promotionCandidate D E p t q now = Inr None" "money_ok t" "canonical q"
  shows "\<not> (promo_applies E p q now \<and> promo_price p (dec_value t) < dec_value t)"
proof
  assume applies: "promo_applies E p q now \<and> promo_price p (dec_value t) < dec_value t"
  from assms(1) obtain mq frm til cr pri where
      a: "positiveQuantity D (pp_min_qty p) ''INVALID_PROMOTION'' = Inr mq"
      "dateParse E (pp_effective_from p) = Some frm" "dateParse E (pp_effective_to p) = Some til"
      "dateParse E (pp_created_at p) = Some cr" "isSafeInteger (pp_priority p)" "pri = js_int (pp_priority p)"
    by (auto simp: promotionCandidate_def Let_def bindE_eq_Inr timestamp_Inr safeInteger_Inr)
  have mq: "canonical mq" "dec_value mq = dec_value (pp_min_qty p)" using positiveQuantity_ok [OF a(1)] by (auto simp: canon)
  have win: "dec_value mq \<le> dec_value q" "frm \<le> now" "now < til" using applies a(2,3) mq(2) by (auto simp: promo_applies_def)
  let ?v = "dec_text (dec_value (pp_value p))"
  note step1 = assms(1) [unfolded promotionCandidate_def Let_def a(1)]
  from step1 a mq win assms(3) have v: "dec_syntax (pp_value p)"
    by (auto simp: timestamp_def safeInteger_def bindE_eq_Inr money_family parse_text split: if_splits)
  from step1 a mq win assms(3) v have v2: "0 \<le> dec_value ?v" "scaled 4 20 (dec_value ?v)"
    by (auto simp: timestamp_def safeInteger_def money_family parse_text compare_text
        canonical_syntax fits_20_text split: if_splits)
  from step1 a mq win assms(3) v v2 obtain f where f: "promotionPrice D p ?v t = Inr f"
    and rest: "bindE (moneyCompare D f t) (\<lambda>cf. if 0 \<le> cf then Inr None
        else bindE (moneySubtract D t f) (\<lambda>discount.
          Inr (Some \<lparr>pc_snapshot = \<lparr>ap_promotion_id = js_trim (pp_promotion_id p),
            ap_promotion_type = pp_promotion_type p, ap_value = ?v, ap_min_qty = mq, ap_priority = pri,
            ap_effective_from = pp_effective_from p, ap_effective_to = pp_effective_to p,
            ap_created_at = pp_created_at p, ap_discount_per_unit = discount,
            ap_final_unit_price = f\<rparr>, pc_created_at_epoch = cr\<rparr>))) = Inr None"
    by (auto simp: timestamp_def safeInteger_def money_family parse_text compare_text
        canonical_syntax fits_20_text bindE_eq_Inr split: if_splits)
  have fp: "money_ok f" "dec_value f = promo_price p (dec_value t)" using promotionPrice_Inr [OF f assms(2)] v2 by simp_all
  then show False using rest applies assms(2) by (auto simp: canon bindE_eq_Inr split: if_splits)
qed

end

text \<open>
  \<open>resolvePromotion\<close> succeeds exactly when the lower-case identifiers are non-empty and pairwise
  different and every promotion is valid; its candidates are those of the single promotions.
\<close>

definition canonical_promotion_id :: "PublishedPromotion \<Rightarrow> string" where
  "canonical_promotion_id p = js_toLowerCase (js_trim (pp_promotion_id p))"

definition promo_candidates ::
  "'d decimal_ops \<Rightarrow> js_env \<Rightarrow> PublishedPromotion list \<Rightarrow> MoneyValue \<Rightarrow> QuantityValue \<Rightarrow> int \<Rightarrow>
   PromotionCandidate list" where
  "promo_candidates D E ps t q now =
     concat (map (\<lambda>p. case promotionCandidate D E p t q now of Inr (Some c) \<Rightarrow> [c] | _ \<Rightarrow> []) ps)"

definition promos_valid ::
  "'d decimal_ops \<Rightarrow> js_env \<Rightarrow> PublishedPromotion list \<Rightarrow> MoneyValue \<Rightarrow> QuantityValue \<Rightarrow> int \<Rightarrow> bool" where
  "promos_valid D E ps t q now =
     (distinct (map canonical_promotion_id ps) \<and> (\<forall>p\<in>set ps. canonical_promotion_id p \<noteq> '''') \<and>
      (\<forall>p\<in>set ps. \<exists>c. promotionCandidate D E p t q now = Inr c))"

lemma collectPromotions_Inr:
  "foldE (collectPromotion D E t q now) (ids, acc) ps = Inr st \<longleftrightarrow>
     promos_valid D E ps t q now \<and> set (map canonical_promotion_id ps) \<inter> set ids = {} \<and>
     st = (ids @ map canonical_promotion_id ps, acc @ promo_candidates D E ps t q now)"
proof (induction ps arbitrary: ids acc)
  case Nil
  show ?case by (auto simp: promos_valid_def promo_candidates_def)
next
  case (Cons p ps)
  let ?i = "canonical_promotion_id p"
  show ?case
  proof (cases "promotionCandidate D E p t q now")
    case (Inl e)
    then show ?thesis
      by (auto simp: collectPromotion_def Let_def promos_valid_def)
  next
    case (Inr c)
    have step: "collectPromotion D E t q now (ids, acc) p =
        (if ?i = '''' \<or> ?i \<in> set ids then Inl (PricingResolutionError ''INVALID_PROMOTION'')
         else Inr (ids @ [?i], acc @ (case c of None \<Rightarrow> [] | Some c \<Rightarrow> [c])))"
      by (simp add: collectPromotion_def canonical_promotion_id_def Let_def Inr)
    have cands: "promo_candidates D E (p # ps) t q now =
        (case c of None \<Rightarrow> [] | Some c \<Rightarrow> [c]) @ promo_candidates D E ps t q now"
      by (simp add: promo_candidates_def Inr split: option.splits)
    have valid: "promos_valid D E (p # ps) t q now \<longleftrightarrow>
        ?i \<noteq> '''' \<and> ?i \<notin> set (map canonical_promotion_id ps) \<and> promos_valid D E ps t q now"
      using Inr by (auto simp: promos_valid_def)
    show ?thesis
      unfolding foldE.simps step cands valid
      using Cons.IH [of "ids @ [?i]" "acc @ (case c of None \<Rightarrow> [] | Some c \<Rightarrow> [c])"]
      by auto
  qed
qed

lemma resolvePromotion_Inr:
  "resolvePromotion D E ps t q now = Inr r \<longleftrightarrow>
     promos_valid D E ps t q now \<and>
     r = (case sort_by (comparePromotions D) (promo_candidates D E ps t q now) of
            [] \<Rightarrow> None | c # _ \<Rightarrow> Some (pc_snapshot c))"
  by (auto simp: resolvePromotion_def bindE_eq_Inr collectPromotions_Inr)

lemma promo_candidates_set:
  "c \<in> set (promo_candidates D E ps t q now) \<longleftrightarrow>
   (\<exists>p\<in>set ps. promotionCandidate D E p t q now = Inr (Some c))"
proof -
  have "c \<in> set (case r of Inr (Some c) \<Rightarrow> [c] | _ \<Rightarrow> []) \<longleftrightarrow> r = Inr (Some c)"
    for r :: "PromotionCandidate option result"
    by (auto split: sum.splits option.splits)
  then show ?thesis by (simp add: promo_candidates_def)
qed

lemma compareCanonicalIds_order:
  "compareCanonicalIds l r < 0 \<longleftrightarrow> js_toLowerCase l < js_toLowerCase r"
  "0 < compareCanonicalIds l r \<longleftrightarrow> js_toLowerCase r < js_toLowerCase l"
  "compareCanonicalIds l r \<le> 0 \<longleftrightarrow> js_toLowerCase l \<le> js_toLowerCase r"
  "compareCanonicalIds l r = 0 \<longleftrightarrow> js_toLowerCase l = js_toLowerCase r"
  by (auto simp: compareCanonicalIds_def Let_def)

sublocale decimal_library \<subseteq> promos: comparator "comparePromotions D"
  "{c. canonical (ap_discount_per_unit (pc_snapshot c))}"
proof
  fix x y z :: PromotionCandidate
  assume x: "x \<in> {c. canonical (ap_discount_per_unit (pc_snapshot c))}"
    and y: "y \<in> {c. canonical (ap_discount_per_unit (pc_snapshot c))}"
  then show "0 < comparePromotions D x y \<longleftrightarrow> comparePromotions D y x < 0"
    by (auto simp: comparePromotions_def Let_def compareCanonicalIds_order)
  assume z: "z \<in> {c. canonical (ap_discount_per_unit (pc_snapshot c))}"
    and "comparePromotions D x y \<le> 0" "comparePromotions D y z \<le> 0"
  then show "comparePromotions D x z \<le> 0"
    using x y by (auto simp: comparePromotions_def Let_def compareCanonicalIds_order split: if_splits)
qed

context decimal_library
begin

lemma comparePromotions_tie:
  assumes "comparePromotions D x y \<le> 0" "comparePromotions D y x \<le> 0"
    "canonical (ap_discount_per_unit (pc_snapshot x))" "canonical (ap_discount_per_unit (pc_snapshot y))"
  shows "js_toLowerCase (ap_promotion_id (pc_snapshot x)) = js_toLowerCase (ap_promotion_id (pc_snapshot y))"
  using assms by (auto simp: comparePromotions_def Let_def compareCanonicalIds_order split: if_splits)

lemma candidate_ids_unique:
  assumes "promos_valid D E ps t q now" "money_ok t" "canonical q"
    "c \<in> set (promo_candidates D E ps t q now)" "c' \<in> set (promo_candidates D E ps t q now)"
    "js_toLowerCase (ap_promotion_id (pc_snapshot c)) = js_toLowerCase (ap_promotion_id (pc_snapshot c'))"
  shows "c = c'"
proof -
  obtain p p' where p: "p \<in> set ps" "promotionCandidate D E p t q now = Inr (Some c)"
    and p': "p' \<in> set ps" "promotionCandidate D E p' t q now = Inr (Some c')"
    using assms(4,5) promo_candidates_set by metis
  have "canonical_promotion_id p = canonical_promotion_id p'"
    using assms(6) promotionCandidate_Some(7) [OF p(2) assms(2,3)]
      promotionCandidate_Some(7) [OF p'(2) assms(2,3)]
    by (simp add: canonical_promotion_id_def)
  then have "p = p'" using assms(1) p(1) p'(1) by (auto simp: promos_valid_def distinct_map inj_on_def)
  with p p' show ?thesis by simp
qed

text \<open>The selected promotion precedes every other candidate.\<close>

lemma resolvePromotion_best:
  assumes "resolvePromotion D E ps t q now = Inr (Some s)" "money_ok t" "canonical q"
  shows "\<exists>c \<in> set (promo_candidates D E ps t q now). s = pc_snapshot c \<and>
    (\<forall>c' \<in> set (promo_candidates D E ps t q now). comparePromotions D c c' \<le> 0)"
proof -
  let ?cs = "promo_candidates D E ps t q now"
  obtain c rest where c: "sort_by (comparePromotions D) ?cs = c # rest" "s = pc_snapshot c"
    using assms(1) by (auto simp: resolvePromotion_Inr split: list.splits)
  have sub: "set ?cs \<subseteq> {c. canonical (ap_discount_per_unit (pc_snapshot c))}"
    using promotionCandidate_Some(5) [OF _ assms(2,3)] by (auto simp: promo_candidates_set canon)
  have "c \<in> set ?cs" using c(1) set_sort_by [of "comparePromotions D" ?cs] by auto
  then show ?thesis using promos.sort_by_hd_least [OF sub c(1)] c(2) by blast
qed

lemma resolvePromotion_permute:
  assumes "resolvePromotion D E ps t q now = Inr r" "mset ps' = mset ps" "money_ok t" "canonical q"
  shows "resolvePromotion D E ps' t q now = Inr r"
proof -
  let ?cs = "promo_candidates D E ps t q now" and ?cs' = "promo_candidates D E ps' t q now"
  let ?S = "{c. canonical (ap_discount_per_unit (pc_snapshot c))}"
  have sets: "set ps' = set ps" using assms(2) by (rule mset_eq_setD)
  have "mset (map canonical_promotion_id ps') = mset (map canonical_promotion_id ps)"
    using assms(2) by simp
  then have dist: "distinct (map canonical_promotion_id ps') = distinct (map canonical_promotion_id ps)"
    by (rule mset_eq_imp_distinct_iff)
  have valid: "promos_valid D E ps t q now" using assms(1) by (simp add: resolvePromotion_Inr)
  then have valid': "promos_valid D E ps' t q now" using sets dist by (simp add: promos_valid_def)
  have cs: "set ?cs' = set ?cs" using sets by (auto simp: promo_candidates_set)
  have sub: "set ?cs \<subseteq> ?S"
    using promotionCandidate_Some(5) [OF _ assms(3,4)] by (auto simp: promo_candidates_set canon)
  have "(case sort_by (comparePromotions D) ?cs' of [] \<Rightarrow> None | c # _ \<Rightarrow> Some (pc_snapshot c)) =
        (case sort_by (comparePromotions D) ?cs of [] \<Rightarrow> None | c # _ \<Rightarrow> Some (pc_snapshot c))"
  proof (cases "sort_by (comparePromotions D) ?cs")
    case Nil
    then have "set ?cs = {}" using set_sort_by [of "comparePromotions D" ?cs] by simp
    then have "?cs' = []" using cs by simp
    then show ?thesis using Nil by simp
  next
    case (Cons c rest)
    then have c: "c \<in> set ?cs" using set_sort_by [of "comparePromotions D" ?cs] by auto
    then obtain c' rest' where Cons': "sort_by (comparePromotions D) ?cs' = c' # rest'"
      using cs set_sort_by [of "comparePromotions D" ?cs'] by (cases "sort_by (comparePromotions D) ?cs'") auto
    then have c': "c' \<in> set ?cs" using cs set_sort_by [of "comparePromotions D" ?cs'] by auto
    have "comparePromotions D c c' \<le> 0" by (rule promos.sort_by_hd_least [OF sub Cons c'])
    moreover have "comparePromotions D c' c \<le> 0"
      using promos.sort_by_hd_least [OF _ Cons', of c] sub cs c by simp
    ultimately have "c = c'"
      using comparePromotions_tie [of c c'] c c' sub
      by (intro candidate_ids_unique [OF valid assms(3,4) c c']) auto
    then show ?thesis using Cons Cons' by simp
  qed
  then show ?thesis using assms(1) valid' by (simp add: resolvePromotion_Inr)
qed

end

context decimal_library
begin

lemma resolve_Inr:
  assumes "resolveOfflineUnitPrice D E inp = Inr r"
  shows "positiveQuantity D (in_quantity inp) ''INVALID_PRICING_QUANTITY'' = Inr (pr_quantity r)"
    and "nonNegativeMoney D (in_base_unit_price inp) ''INVALID_BASE_PRICE'' = Inr (pr_base_unit_price r)"
    and "resolveTier D (in_price_tiers inp) (pr_quantity r) = Inr (pr_applied_tier r)"
    and "pr_tier_unit_price r =
      (case pr_applied_tier r of None \<Rightarrow> pr_base_unit_price r | Some t \<Rightarrow> at_unit_price t)"
    and "\<exists>now. dateParse E (in_pricing_resolved_at inp) = Some now \<and>
      (if in_pricing_time_status inp = TRUSTED
       then resolvePromotion D E (in_promotions inp) (pr_tier_unit_price r) (pr_quantity r) now
       else Inr None) = Inr (pr_applied_promotion r)"
    and "pr_promotion_discount r =
      (case pr_applied_promotion r of None \<Rightarrow> ''0'' | Some p \<Rightarrow> ap_discount_per_unit p)"
    and "pr_final_unit_price r =
      (case pr_applied_promotion r of None \<Rightarrow> pr_tier_unit_price r | Some p \<Rightarrow> ap_final_unit_price p)"
    and "pr_warnings r = (if in_pricing_time_status inp = TRUSTED then [] else [''CLOCK_UNTRUSTED''])"
proof -
  obtain pid vid q b now t ap z where
    steps: "positiveQuantity D (in_quantity inp) ''INVALID_PRICING_QUANTITY'' = Inr q"
      "nonNegativeMoney D (in_base_unit_price inp) ''INVALID_BASE_PRICE'' = Inr b"
      "dateParse E (in_pricing_resolved_at inp) = Some now"
      "resolveTier D (in_price_tiers inp) q = Inr t"
      "(if in_pricing_time_status inp = TRUSTED
        then resolvePromotion D E (in_promotions inp)
               (case t of None \<Rightarrow> b | Some t \<Rightarrow> at_unit_price t) q now
        else Inr None) = Inr ap"
      "ZERO_MONEY D = Inr z"
    and r: "r = \<lparr>
       pr_product_unit_id = pid, pr_price_version_id = vid,
       pr_price_effective_from = in_price_effective_from inp,
       pr_pricing_resolved_at = in_pricing_resolved_at inp,
       pr_pricing_time_status = in_pricing_time_status inp,
       pr_quantity = q, pr_base_unit_price = b, pr_applied_tier = t,
       pr_tier_unit_price = (case t of None \<Rightarrow> b | Some t \<Rightarrow> at_unit_price t),
       pr_applied_promotion = ap,
       pr_promotion_discount = (case ap of None \<Rightarrow> z | Some p \<Rightarrow> ap_discount_per_unit p),
       pr_final_unit_price =
         (case ap of None \<Rightarrow> (case t of None \<Rightarrow> b | Some t \<Rightarrow> at_unit_price t)
                   | Some p \<Rightarrow> ap_final_unit_price p),
       pr_warnings = (if in_pricing_time_status inp = TRUSTED then [] else [''CLOCK_UNTRUSTED''])\<rparr>"
    using assms unfolding resolveOfflineUnitPrice_def Let_def bindE_eq_Inr timestamp_Inr
    by (elim exE conjE) (rule that, assumption+, erule sum.inject(2) [THEN iffD1, symmetric])
  have z: "z = ''0''" using steps(6) by simp
  from steps show "positiveQuantity D (in_quantity inp) ''INVALID_PRICING_QUANTITY'' = Inr (pr_quantity r)"
    and "nonNegativeMoney D (in_base_unit_price inp) ''INVALID_BASE_PRICE'' = Inr (pr_base_unit_price r)"
    and "resolveTier D (in_price_tiers inp) (pr_quantity r) = Inr (pr_applied_tier r)"
    and "pr_tier_unit_price r =
      (case pr_applied_tier r of None \<Rightarrow> pr_base_unit_price r | Some t \<Rightarrow> at_unit_price t)"
    and "\<exists>now. dateParse E (in_pricing_resolved_at inp) = Some now \<and>
      (if in_pricing_time_status inp = TRUSTED
       then resolvePromotion D E (in_promotions inp) (pr_tier_unit_price r) (pr_quantity r) now
       else Inr None) = Inr (pr_applied_promotion r)"
    and "pr_promotion_discount r =
      (case pr_applied_promotion r of None \<Rightarrow> ''0'' | Some p \<Rightarrow> ap_discount_per_unit p)"
    and "pr_final_unit_price r =
      (case pr_applied_promotion r of None \<Rightarrow> pr_tier_unit_price r | Some p \<Rightarrow> ap_final_unit_price p)"
    and "pr_warnings r = (if in_pricing_time_status inp = TRUSTED then [] else [''CLOCK_UNTRUSTED''])"
    unfolding r z OfflinePriceResolution.select_convs by (blast | assumption | rule refl)+
qed

lemma resolve_quantity_ok: "resolveOfflineUnitPrice D E inp = Inr r \<Longrightarrow> qty_ok (pr_quantity r)"
  using positiveQuantity_ok resolve_Inr(1) by blast

lemma resolve_tier_price_ok:
  assumes "resolveOfflineUnitPrice D E inp = Inr r"
  shows "money_ok (pr_tier_unit_price r)"
proof (cases "pr_applied_tier r")
  case None
  then show ?thesis using resolve_Inr(4) [OF assms] nonNegativeMoney_ok [OF resolve_Inr(2) [OF assms]] by simp
next
  case (Some t)
  have "canonical (pr_quantity r)" using resolve_quantity_ok [OF assms] by (simp add: canon)
  from resolveTier_Inr [OF resolve_Inr(3) [OF assms] this] Some
  obtain ts where "list_all2 tier_norm (in_price_tiers inp) ts" "t \<in> set ts" by auto
  then have "money_ok (at_unit_price t)"
    by (auto simp: list_all2_conv_all_nth in_set_conv_nth tier_norm_def)
  then show ?thesis using resolve_Inr(4) [OF assms] Some by simp
qed

lemma resolve_promotion_candidate:
  assumes "resolveOfflineUnitPrice D E inp = Inr r" "pr_applied_promotion r = Some s"
  shows "\<exists>now p c. dateParse E (in_pricing_resolved_at inp) = Some now \<and>
    in_pricing_time_status inp = TRUSTED \<and> p \<in> set (in_promotions inp) \<and> s = pc_snapshot c \<and>
    promotionCandidate D E p (pr_tier_unit_price r) (pr_quantity r) now = Inr (Some c) \<and>
    (\<forall>c' \<in> set (promo_candidates D E (in_promotions inp) (pr_tier_unit_price r) (pr_quantity r) now).
       comparePromotions D c c' \<le> 0)"
proof -
  have q: "canonical (pr_quantity r)" using resolve_quantity_ok [OF assms(1)] by (simp add: canon)
  obtain now where now: "dateParse E (in_pricing_resolved_at inp) = Some now"
    "in_pricing_time_status inp = TRUSTED"
    "resolvePromotion D E (in_promotions inp) (pr_tier_unit_price r) (pr_quantity r) now = Inr (Some s)"
    using resolve_Inr(5) [OF assms(1)] assms(2) by (auto split: if_splits)
  from resolvePromotion_best [OF now(3) resolve_tier_price_ok [OF assms(1)] q] obtain c
    where c: "c \<in> set (promo_candidates D E (in_promotions inp) (pr_tier_unit_price r) (pr_quantity r) now)"
      "s = pc_snapshot c"
      "\<forall>c' \<in> set (promo_candidates D E (in_promotions inp) (pr_tier_unit_price r) (pr_quantity r) now).
       comparePromotions D c c' \<le> 0"
    by blast
  from c(1) obtain p where "p \<in> set (in_promotions inp)"
      "promotionCandidate D E p (pr_tier_unit_price r) (pr_quantity r) now = Inr (Some c)"
    by (auto simp: promo_candidates_set)
  with now c show ?thesis by blast
qed

lemma resolve_promotion_prices:
  assumes "resolveOfflineUnitPrice D E inp = Inr r"
  shows "money_ok (pr_final_unit_price r) \<and> money_ok (pr_promotion_discount r) \<and>
    dec_value (pr_final_unit_price r) = dec_value (pr_tier_unit_price r) - dec_value (pr_promotion_discount r)"
proof (cases "pr_applied_promotion r")
  case None
  have "money_ok ''0''" by (simp add: money_ok_def)
  then show ?thesis
    using None resolve_Inr(6,7) [OF assms] resolve_tier_price_ok [OF assms] by simp
next
  case (Some s)
  have q: "canonical (pr_quantity r)" using resolve_quantity_ok [OF assms] by (simp add: canon)
  from resolve_promotion_candidate [OF assms Some] obtain now p c where
    pc: "promotionCandidate D E p (pr_tier_unit_price r) (pr_quantity r) now = Inr (Some c)"
    and s: "s = pc_snapshot c" by blast
  note facts = promotionCandidate_Some [OF pc resolve_tier_price_ok [OF assms] q]
  show ?thesis using facts(2,3,5,6) s resolve_Inr(6,7) [OF assms] Some by simp
qed

end

section \<open>A concrete resolution\<close>

text \<open>
  A quantity of six, two tiers and one promotion of ten percent, evaluated with the executable
  decimal arithmetic. The time values are those of \<open>Date.parse\<close> for the three dates.
\<close>

definition demo_env :: js_env where
  "demo_env = \<lparr>dateParse = map_of [(''2026-08-01'', 1785542400000), (''2026-08-23'', 1787443200000),
                                   (''2026-09-01'', 1788220800000)],
              toISOString = (\<lambda>_. ''''), localeCompare = (\<lambda>a b. if a < b then - 1 else if b < a then 1 else 0),
              numberText = id\<rparr>"

definition demo_tiers :: "PublishedPriceTier list" where
  "demo_tiers =
     [\<lparr>pt_tier_id = ''a'', pt_tier_code = ''R'', pt_min_qty = ''1'', pt_unit_price = ''100'', pt_sort_order = JSInt 0\<rparr>,
      \<lparr>pt_tier_id = ''b'', pt_tier_code = ''S'', pt_min_qty = ''5'', pt_unit_price = ''90'', pt_sort_order = JSInt 1\<rparr>]"

definition demo_promotion :: PublishedPromotion where
  "demo_promotion = \<lparr>pp_promotion_id = ''p'', pp_promotion_type = PERCENT_DISCOUNT, pp_value = ''10'',
     pp_min_qty = ''1'', pp_priority = JSInt 1, pp_effective_from = ''2026-08-01'',
     pp_effective_to = ''2026-09-01'', pp_created_at = ''2026-08-01''\<rparr>"

definition demo_input :: OfflinePriceResolutionInput where
  "demo_input = \<lparr>in_product_unit_id = ''u'', in_price_version_id = ''v'',
     in_price_effective_from = ''2026-08-01'', in_base_unit_price = ''100'', in_quantity = ''6'',
     in_price_tiers = demo_tiers, in_promotions = [demo_promotion],
     in_pricing_resolved_at = ''2026-08-23'', in_pricing_time_status = TRUSTED\<rparr>"

definition demo_applied_tier :: AppliedTierSnapshot where
  "demo_applied_tier = \<lparr>at_tier_id = ''b'', at_tier_code = ''S'', at_min_qty = ''5'',
     at_unit_price = ''90'', at_sort_order = 1\<rparr>"

definition demo_applied_promotion :: AppliedPromotionSnapshot where
  "demo_applied_promotion = \<lparr>ap_promotion_id = ''p'', ap_promotion_type = PERCENT_DISCOUNT,
     ap_value = ''10'', ap_min_qty = ''1'', ap_priority = 1, ap_effective_from = ''2026-08-01'',
     ap_effective_to = ''2026-09-01'', ap_created_at = ''2026-08-01'', ap_discount_per_unit = ''9'',
     ap_final_unit_price = ''81''\<rparr>"

definition demo_resolution :: OfflinePriceResolution where
  "demo_resolution = \<lparr>pr_product_unit_id = ''u'', pr_price_version_id = ''v'',
     pr_price_effective_from = ''2026-08-01'', pr_pricing_resolved_at = ''2026-08-23'',
     pr_pricing_time_status = TRUSTED, pr_quantity = ''6'', pr_base_unit_price = ''100'',
     pr_applied_tier = Some demo_applied_tier, pr_tier_unit_price = ''90'',
     pr_applied_promotion = Some demo_applied_promotion, pr_promotion_discount = ''9'',
     pr_final_unit_price = ''81'', pr_warnings = []\<rparr>"

lemma demo_resolves: "resolveOfflineUnitPrice ref_ops demo_env demo_input = Inr demo_resolution"
  by code_simp

section \<open>Properties\<close>

text \<open>
  C36. A resolved unit price is well formed money: the base price, the price after the tier, the
  discount and the final price are canonical non-negative texts of \<open>NUMERIC(20,4)\<close>, the final price
  is exactly the tier price minus the discount, and so it is never negative and never above the tier
  price. The discount is zero when no promotion applies.
\<close>

theorem resolved_price_layers:
  assumes "decimal_library D V W" "resolveOfflineUnitPrice D E inp = Inr r"
  shows "money_ok (pr_base_unit_price r) \<and> money_ok (pr_tier_unit_price r) \<and>
    money_ok (pr_promotion_discount r) \<and> money_ok (pr_final_unit_price r) \<and>
    dec_value (pr_final_unit_price r) = dec_value (pr_tier_unit_price r) - dec_value (pr_promotion_discount r) \<and>
    dec_value (pr_final_unit_price r) \<le> dec_value (pr_tier_unit_price r) \<and>
    (pr_applied_promotion r = None \<longrightarrow> pr_promotion_discount r = ''0'')"
proof -
  note L = decimal_library.resolve_Inr [OF assms]
  have "money_ok (pr_base_unit_price r)"
    using decimal_library.nonNegativeMoney_ok [OF assms(1) L(2)] by simp
  moreover have "money_ok (pr_tier_unit_price r)" using decimal_library.resolve_tier_price_ok [OF assms] .
  moreover have "0 \<le> dec_value (pr_promotion_discount r)"
    using decimal_library.resolve_promotion_prices [OF assms] by (simp add: money_ok_def)
  moreover have "pr_applied_promotion r = None \<longrightarrow> pr_promotion_discount r = ''0''" using L(6) by simp
  ultimately show ?thesis using decimal_library.resolve_promotion_prices [OF assms] by simp
qed

theorem resolved_price_layers_witness:
  "money_ok (pr_final_unit_price demo_resolution) \<and>
   dec_value (pr_final_unit_price demo_resolution) =
     dec_value (pr_tier_unit_price demo_resolution) - dec_value (pr_promotion_discount demo_resolution)"
  using resolved_price_layers [OF ref.decimal_library_axioms demo_resolves] by blast

text \<open>
  C37. Tier selection: the applied tier is one of the published tiers, its minimum does not exceed the
  quantity, and no other published tier with an eligible minimum has a greater one; without an applied
  tier every published minimum exceeds the quantity and the base price is used.
\<close>

theorem applied_tier_is_best:
  assumes "decimal_library D V W" "resolveOfflineUnitPrice D E inp = Inr r"
  shows "case pr_applied_tier r of
      None \<Rightarrow> pr_tier_unit_price r = pr_base_unit_price r \<and>
        (\<forall>p\<in>set (in_price_tiers inp). dec_value (pr_quantity r) < dec_value (pt_min_qty p))
    | Some t \<Rightarrow> pr_tier_unit_price r = at_unit_price t \<and>
        (\<exists>p\<in>set (in_price_tiers inp). tier_norm p t \<and> dec_value (pt_min_qty p) \<le> dec_value (pr_quantity r) \<and>
          (\<forall>p'\<in>set (in_price_tiers inp). dec_value (pt_min_qty p') \<le> dec_value (pr_quantity r) \<longrightarrow>
             dec_value (pt_min_qty p') \<le> dec_value (pt_min_qty p)))"
proof -
  note L = decimal_library.resolve_Inr [OF assms]
  have "canonical (pr_quantity r)"
    using decimal_library.resolve_quantity_ok [OF assms] by (simp add: canon)
  from decimal_library.resolveTier_Inr [OF assms(1) L(3) this] obtain ts
    where ts: "list_all2 tier_norm (in_price_tiers inp) ts"
      and best: "case pr_applied_tier r of
          None \<Rightarrow> \<forall>t\<in>set ts. dec_value (pr_quantity r) < dec_value (at_min_qty t)
        | Some t \<Rightarrow> t \<in> set ts \<and> dec_value (at_min_qty t) \<le> dec_value (pr_quantity r) \<and>
           (\<forall>t'\<in>set ts. dec_value (at_min_qty t') \<le> dec_value (pr_quantity r) \<longrightarrow>
              dec_value (at_min_qty t') \<le> dec_value (at_min_qty t))"
    by blast
  have to: "\<exists>t\<in>set ts. tier_norm p t" if "p \<in> set (in_price_tiers inp)" for p
    using ts that by (metis in_set_conv_nth list_all2_conv_all_nth)
  have origin: "\<exists>p\<in>set (in_price_tiers inp). tier_norm p t" if "t \<in> set ts" for t
    using ts that by (metis in_set_conv_nth list_all2_conv_all_nth)
  show ?thesis
  proof (cases "pr_applied_tier r")
    case None
    then show ?thesis using best L(4) to by (auto simp: tier_norm_def) metis
  next
    case (Some t)
    then obtain p where p: "p \<in> set (in_price_tiers inp)" "tier_norm p t" using best origin by auto
    have "dec_value (pt_min_qty p') \<le> dec_value (pt_min_qty p)"
      if "p' \<in> set (in_price_tiers inp)" "dec_value (pt_min_qty p') \<le> dec_value (pr_quantity r)" for p'
      using to [OF that(1)] best Some that(2) p(2) by (auto simp: tier_norm_def)
    then show ?thesis using Some best L(4) p by (auto simp: tier_norm_def)
  qed
qed

theorem applied_tier_is_best_witness:
  "pr_applied_tier demo_resolution = Some demo_applied_tier \<and>
   (\<exists>p\<in>set (in_price_tiers demo_input). tier_norm p demo_applied_tier)"
proof -
  have t: "pr_applied_tier demo_resolution = Some demo_applied_tier" by (simp add: demo_resolution_def)
  show ?thesis
    using applied_tier_is_best [OF ref.decimal_library_axioms demo_resolves] t by auto
qed

text \<open>
  The documented order of two promotions at a tier price: the higher priority first, then the lower resulting price, then
  the one created earlier, then the smaller identifier.
\<close>

definition promo_precedes :: "js_env \<Rightarrow> rat \<Rightarrow> PublishedPromotion \<Rightarrow> PublishedPromotion \<Rightarrow> bool" where
  "promo_precedes E tier p q =
     (js_int (pp_priority q) < js_int (pp_priority p) \<or> js_int (pp_priority q) = js_int (pp_priority p) \<and>
       (promo_price p tier < promo_price q tier \<or> promo_price p tier = promo_price q tier \<and>
         (the (dateParse E (pp_created_at p)) < the (dateParse E (pp_created_at q)) \<or>
          dateParse E (pp_created_at p) = dateParse E (pp_created_at q) \<and>
            canonical_promotion_id p \<le> canonical_promotion_id q)))"

text \<open>A promotion a customer could benefit from: it applies to the quantity at the time, and it lowers the tier price.\<close>

definition promo_helps :: "js_env \<Rightarrow> OfflinePriceResolution \<Rightarrow> int \<Rightarrow> PublishedPromotion \<Rightarrow> bool" where
  "promo_helps E r now p = (promo_applies E p (pr_quantity r) now \<and>
     promo_price p (dec_value (pr_tier_unit_price r)) < dec_value (pr_tier_unit_price r))"

context decimal_library
begin

lemma candidates_precede:
  assumes "promotionCandidate D E p t q now = Inr (Some c)" "promotionCandidate D E p' t q now = Inr (Some c')"
    "money_ok t" "canonical q" "comparePromotions D c c' \<le> 0"
  shows "promo_precedes E (dec_value t) p p'"
proof -
  note f = promotionCandidate_Some [OF assms(1,3,4)] and f' = promotionCandidate_Some [OF assms(2,3,4)]
  have ok: "canonical (ap_discount_per_unit (pc_snapshot c))" "canonical (ap_discount_per_unit (pc_snapshot c'))"
    using f(5) f'(5) by (simp_all add: canon)
  have pri: "js_int (pp_priority p) = ap_priority (pc_snapshot c)" "js_int (pp_priority p') = ap_priority (pc_snapshot c')"
    using f(9) f'(9) by (simp_all add: js_int_def)
  have ids: "canonical_promotion_id p = js_toLowerCase (ap_promotion_id (pc_snapshot c))"
    "canonical_promotion_id p' = js_toLowerCase (ap_promotion_id (pc_snapshot c'))"
    using f(7) f'(7) by (simp_all add: canonical_promotion_id_def)
  show ?thesis
    using assms(5) ok f(6,10) f'(6,10)
    by (auto simp: promo_precedes_def pri ids comparePromotions_def Let_def compareCanonicalIds_order split: if_splits)
qed

end

text \<open>
  C38. Promotion selection. Without an applied promotion, no published promotion would have helped at the resolution
  time (or the clock is not trusted). An applied promotion is one of the published ones that help: it is in force at that
  time and for the quantity, the final price is exactly the value its type promises (a fixed price, a fixed discount, or
  the percentage rounded half up to four places) and lower than the tier price, the snapshot names it, and it precedes
  every published promotion that helps in the order priority, resulting price, age, identifier.
\<close>

theorem applied_promotion_is_best:
  assumes "decimal_library D V W" "resolveOfflineUnitPrice D E inp = Inr r"
  shows "\<exists>now. dateParse E (in_pricing_resolved_at inp) = Some now \<and>
    (case pr_applied_promotion r of
       None \<Rightarrow> in_pricing_time_status inp = TRUSTED \<longrightarrow> (\<forall>p \<in> set (in_promotions inp). \<not> promo_helps E r now p)
     | Some s \<Rightarrow> in_pricing_time_status inp = TRUSTED \<and>
         (\<exists>p \<in> set (in_promotions inp). promo_helps E r now p \<and>
            dec_value (pr_final_unit_price r) = promo_price p (dec_value (pr_tier_unit_price r)) \<and>
            ap_promotion_id s = js_trim (pp_promotion_id p) \<and> ap_promotion_type s = pp_promotion_type p \<and>
            dec_value (ap_discount_per_unit s) = dec_value (pr_tier_unit_price r) - dec_value (pr_final_unit_price r) \<and>
            (\<forall>p' \<in> set (in_promotions inp). promo_helps E r now p' \<longrightarrow>
               promo_precedes E (dec_value (pr_tier_unit_price r)) p p')))"
proof -
  let ?t = "pr_tier_unit_price r" and ?q = "pr_quantity r" and ?ps = "in_promotions inp"
  have q: "canonical ?q" using decimal_library.resolve_quantity_ok [OF assms] by (simp add: canon)
  note t = decimal_library.resolve_tier_price_ok [OF assms]
  from decimal_library.resolve_Inr(5) [OF assms] obtain now where now: "dateParse E (in_pricing_resolved_at inp) = Some now"
    "(if in_pricing_time_status inp = TRUSTED then resolvePromotion D E ?ps ?t ?q now else Inr None) = Inr (pr_applied_promotion r)"
    by blast
  have helps: "\<exists>c. promotionCandidate D E p ?t ?q now = Inr (Some c)"
    if p: "p \<in> set ?ps" "promo_helps E r now p" "in_pricing_time_status inp = TRUSTED" for p
  proof -
    have "promos_valid D E ?ps ?t ?q now" using now(2) p(3) by (simp add: resolvePromotion_Inr)
    then obtain c where c: "promotionCandidate D E p ?t ?q now = Inr c" using p(1) unfolding promos_valid_def by blast
    then show ?thesis
      using decimal_library.promotionCandidate_None [OF assms(1) _ t q] p(2) by (cases c) (auto simp: promo_helps_def)
  qed
  show ?thesis
  proof (intro exI [of _ now] conjI now(1), cases "pr_applied_promotion r")
    case None
    have "\<not> promo_helps E r now p" if trusted: "in_pricing_time_status inp = TRUSTED" and p: "p \<in> set ?ps" for p
    proof
      assume "promo_helps E r now p"
      then obtain c where "c \<in> set (promo_candidates D E ?ps ?t ?q now)" using helps [OF p _ trusted] p promo_candidates_set by blast
      then have "sort_by (comparePromotions D) (promo_candidates D E ?ps ?t ?q now) \<noteq> []" by (metis list.set_cases set_sort_by list.distinct(1))
      then show False using now(2) trusted None by (auto simp: resolvePromotion_Inr split: list.splits)
    qed
    then show "case pr_applied_promotion r of
       None \<Rightarrow> in_pricing_time_status inp = TRUSTED \<longrightarrow> (\<forall>p \<in> set ?ps. \<not> promo_helps E r now p)
     | Some s \<Rightarrow> in_pricing_time_status inp = TRUSTED \<and>
         (\<exists>p \<in> set ?ps. promo_helps E r now p \<and> dec_value (pr_final_unit_price r) = promo_price p (dec_value ?t) \<and>
            ap_promotion_id s = js_trim (pp_promotion_id p) \<and> ap_promotion_type s = pp_promotion_type p \<and>
            dec_value (ap_discount_per_unit s) = dec_value ?t - dec_value (pr_final_unit_price r) \<and>
            (\<forall>p' \<in> set ?ps. promo_helps E r now p' \<longrightarrow> promo_precedes E (dec_value ?t) p p'))"
      by (simp add: None)
  next
    case (Some s)
    from decimal_library.resolve_promotion_candidate [OF assms Some] obtain p c where
      x: "in_pricing_time_status inp = TRUSTED" "p \<in> set ?ps" "s = pc_snapshot c"
        "promotionCandidate D E p ?t ?q now = Inr (Some c)"
        "\<forall>c' \<in> set (promo_candidates D E ?ps ?t ?q now). comparePromotions D c c' \<le> 0"
      using now(1) by auto
    note facts = decimal_library.promotionCandidate_Some [OF assms(1) x(4) t q]
    have "pr_final_unit_price r = ap_final_unit_price s"
      using decimal_library.resolve_Inr(7) [OF assms] Some by simp
    then have final: "dec_value (pr_final_unit_price r) = promo_price p (dec_value ?t)" using facts(3) x(3) by simp
    have "promo_precedes E (dec_value ?t) p p'" if p': "p' \<in> set ?ps" "promo_helps E r now p'" for p'
    proof -
      obtain c' where c': "promotionCandidate D E p' ?t ?q now = Inr (Some c')" using helps [OF p' x(1)] by blast
      then have "comparePromotions D c c' \<le> 0" using x(5) p'(1) promo_candidates_set by blast
      then show ?thesis by (rule decimal_library.candidates_precede [OF assms(1) x(4) c' t q])
    qed
    then show "case pr_applied_promotion r of
       None \<Rightarrow> in_pricing_time_status inp = TRUSTED \<longrightarrow> (\<forall>p \<in> set ?ps. \<not> promo_helps E r now p)
     | Some s \<Rightarrow> in_pricing_time_status inp = TRUSTED \<and>
         (\<exists>p \<in> set ?ps. promo_helps E r now p \<and> dec_value (pr_final_unit_price r) = promo_price p (dec_value ?t) \<and>
            ap_promotion_id s = js_trim (pp_promotion_id p) \<and> ap_promotion_type s = pp_promotion_type p \<and>
            dec_value (ap_discount_per_unit s) = dec_value ?t - dec_value (pr_final_unit_price r) \<and>
            (\<forall>p' \<in> set ?ps. promo_helps E r now p' \<longrightarrow> promo_precedes E (dec_value ?t) p p'))"
      unfolding Some option.case using x(1,2,3) final facts(1,4,6,7,8) by (auto simp: promo_helps_def)
  qed
qed

text \<open>A rival with a greater discount and a lower priority does not win.\<close>

definition demo_rival :: PublishedPromotion where
  "demo_rival = demo_promotion\<lparr>pp_promotion_id := ''a'', pp_value := ''20'', pp_priority := JSInt 0\<rparr>"

lemma demo_rival_loses: "resolveOfflineUnitPrice ref_ops demo_env (demo_input\<lparr>in_promotions := [demo_rival, demo_promotion]\<rparr>) = Inr demo_resolution"
  by code_simp

theorem applied_promotion_is_best_witness:
  "\<exists>p \<in> {demo_rival, demo_promotion}. dec_value (pr_final_unit_price demo_resolution) = promo_price p (dec_value (pr_tier_unit_price demo_resolution)) \<and>
     ap_promotion_id demo_applied_promotion = js_trim (pp_promotion_id p)"
proof -
  have "pr_applied_promotion demo_resolution = Some demo_applied_promotion"
    by (simp add: demo_resolution_def)
  with applied_promotion_is_best [OF ref.decimal_library_axioms demo_rival_loses] show ?thesis by auto
qed

text \<open>
  The promotion that is applied does not depend on the order in which the promotions are listed:
  whenever resolution succeeds, any rearrangement of the promotions gives the same result.
\<close>

theorem promotion_order_irrelevant:
  assumes "decimal_library D V W" "resolveOfflineUnitPrice D E inp = Inr r"
    "mset ps = mset (in_promotions inp)"
  shows "resolveOfflineUnitPrice D E (inp\<lparr>in_promotions := ps\<rparr>) = Inr r"
proof -
  have q: "canonical (pr_quantity r)"
    using decimal_library.resolve_quantity_ok [OF assms(1,2)] by (simp add: canon)
  note t = decimal_library.resolve_tier_price_ok [OF assms(1,2)]
  from decimal_library.resolve_Inr(5) [OF assms(1,2)] obtain now where
    now: "dateParse E (in_pricing_resolved_at inp) = Some now"
      "(if in_pricing_time_status inp = TRUSTED
       then resolvePromotion D E (in_promotions inp) (pr_tier_unit_price r) (pr_quantity r) now
       else Inr None) = Inr (pr_applied_promotion r)"
    by blast
  have "(if in_pricing_time_status inp = TRUSTED
       then resolvePromotion D E ps (pr_tier_unit_price r) (pr_quantity r) now
       else Inr None) = Inr (pr_applied_promotion r)"
    using now(2) decimal_library.resolvePromotion_permute [OF assms(1) _ assms(3) t q]
    by (auto split: if_splits)
  with now assms(2) show ?thesis
    using decimal_library.resolve_Inr(1-4) [OF assms(1,2)]
    by (auto simp: resolveOfflineUnitPrice_def bindE_eq_Inr Let_def timestamp_Inr)
qed

theorem promotion_order_irrelevant_witness:
  "resolveOfflineUnitPrice ref_ops demo_env (demo_input\<lparr>in_promotions := rev [demo_promotion]\<rparr>) =
   Inr demo_resolution"
proof -
  have "mset (rev [demo_promotion]) = mset (in_promotions demo_input)"
    by (simp add: demo_input_def)
  from promotion_order_irrelevant [OF ref.decimal_library_axioms demo_resolves this] show ?thesis .
qed

text \<open>
  With an untrusted clock no promotion is applied: resolution uses the tier price unchanged and
  says so in its warnings, whatever promotions are listed.
\<close>

theorem untrusted_clock_no_promotion:
  assumes "decimal_library D V W" "resolveOfflineUnitPrice D E inp = Inr r"
    "in_pricing_time_status inp \<noteq> TRUSTED"
  shows "pr_applied_promotion r = None \<and> pr_final_unit_price r = pr_tier_unit_price r \<and>
    pr_promotion_discount r = ''0'' \<and> pr_warnings r = [''CLOCK_UNTRUSTED''] \<and>
    resolveOfflineUnitPrice D E (inp\<lparr>in_promotions := ps\<rparr>) = Inr r"
proof -
  note L = decimal_library.resolve_Inr [OF assms(1,2)]
  have none: "pr_applied_promotion r = None" using L(5) assms(3) by auto
  moreover have "resolveOfflineUnitPrice D E (inp\<lparr>in_promotions := ps\<rparr>) = resolveOfflineUnitPrice D E inp"
    using assms(3) by (simp add: resolveOfflineUnitPrice_def)
  ultimately show ?thesis using L(6,7,8) assms(2,3) by simp
qed

lemma demo_untrusted:
  "resolveOfflineUnitPrice ref_ops demo_env (demo_input\<lparr>in_pricing_time_status := CLOCK_UNTRUSTED\<rparr>) =
   Inr (demo_resolution\<lparr>pr_pricing_time_status := CLOCK_UNTRUSTED, pr_applied_promotion := None,
     pr_promotion_discount := ''0'', pr_final_unit_price := ''90'', pr_warnings := [''CLOCK_UNTRUSTED'']\<rparr>)"
  by code_simp

theorem untrusted_clock_no_promotion_witness:
  "resolveOfflineUnitPrice ref_ops demo_env
     (demo_input\<lparr>in_pricing_time_status := CLOCK_UNTRUSTED, in_promotions := []\<rparr>) =
   Inr (demo_resolution\<lparr>pr_pricing_time_status := CLOCK_UNTRUSTED, pr_applied_promotion := None,
     pr_promotion_discount := ''0'', pr_final_unit_price := ''90'', pr_warnings := [''CLOCK_UNTRUSTED'']\<rparr>)"
  using untrusted_clock_no_promotion [OF ref.decimal_library_axioms demo_untrusted, of "[]"] by simp

end
