(* ===== verification/Cart.thy ===== *)
theory Cart
  imports Pricing
begin

text \<open>
  The sale cart, \<open>packages/domain/src/sales/cart.ts\<close>: an immutable list of lines, each with the
  candidate prices it was added with, so that a change of quantity resolves the price again. Fields
  carry a prefix (\<open>cx_\<close> pricing context, \<open>cl_\<close> line, \<open>ct_\<close> totals, \<open>lr_\<close> lookup result). The lemmas
  show that every cart the operations reach keeps one line per unit and price version, priced by the
  resolver, and that the totals are exact.
\<close>

section \<open>Data\<close>

definition CART_BUSINESS_MISMATCH :: string where
  "CART_BUSINESS_MISMATCH = ''CART_BUSINESS_MISMATCH''"
definition CART_PRICE_CONTEXT_CONFLICT :: string where
  "CART_PRICE_CONTEXT_CONFLICT = ''CART_PRICE_CONTEXT_CONFLICT''"
definition INVALID_CART_QUANTITY :: string where
  "INVALID_CART_QUANTITY = ''INVALID_CART_QUANTITY''"
definition DECIMAL_QUANTITY_NOT_ALLOWED :: string where
  "DECIMAL_QUANTITY_NOT_ALLOWED = ''DECIMAL_QUANTITY_NOT_ALLOWED''"
definition INVALID_CART_PRICE :: string where
  "INVALID_CART_PRICE = ''INVALID_CART_PRICE''"

record CartPricingContext =
  cx_product_unit_id :: string
  cx_price_version_id :: string
  cx_price_effective_from :: string
  cx_base_unit_price :: MoneyValue
  cx_price_tiers :: "PublishedPriceTier list"
  cx_promotions :: "PublishedPromotion list"
  cx_pricing_resolved_at :: string
  cx_pricing_time_status :: PricingTimeStatus

text \<open>
  The fields of a line that a change of quantity keeps (the \<open>Omit<CartLine, ...>\<close> of
  \<open>withResolvedPrice\<close>), extended by the ones it computes.
\<close>

record CartLineBase =
  cl_line_key :: string
  cl_product_id :: string
  cl_product_unit_id :: string
  cl_product_name :: string
  cl_unit_code :: string
  cl_variant_name :: string
  cl_sku :: string
  cl_barcode :: "string option"
  cl_allow_decimal_qty :: bool
  cl_price_version_id :: string
  cl_price_effective_from :: string
  cl_pricing_context :: CartPricingContext
  cl_conversion_factor :: string
  cl_track_inventory :: bool

record CartLine = CartLineBase +
  cl_quantity :: QuantityValue
  cl_unit_price :: MoneyValue
  cl_line_total :: MoneyValue
  cl_base_unit_price :: MoneyValue
  cl_tier_id :: "string option"
  cl_tier_code :: "string option"
  cl_tier_min_qty :: "QuantityValue option"
  cl_tier_unit_price :: MoneyValue
  cl_promotion_id :: "string option"
  cl_promotion_type :: "PublishedPromotionType option"
  cl_promotion_value :: "DecimalValue option"
  cl_promotion_discount :: MoneyValue
  cl_pricing_resolved_at :: string
  cl_pricing_time_status :: PricingTimeStatus
  cl_pricing_warnings :: "string list"

record CartTotals =
  ct_gross_subtotal :: MoneyValue
  ct_promotion_discount_total :: MoneyValue
  ct_grand_total :: MoneyValue

record Cart =
  ca_business_id :: string
  ca_lines :: "CartLine list"

record LookupResultBoundary =
  lr_business_id :: string
  lr_product_id :: string
  lr_product_unit_id :: string
  lr_product_name :: string
  lr_variant_name :: string
  lr_sku :: string
  lr_barcode :: "string option"
  lr_unit_price :: string
  lr_price_effective_from :: string
  lr_unit_code :: string
  lr_allow_decimal_qty :: bool
  lr_price_version_id :: string
  lr_conversion_factor :: string
  lr_track_inventory :: bool
  lr_price_tiers :: "PublishedPriceTier list"
  lr_promotions :: "PublishedPromotion list"
  lr_pricing_resolved_at :: string
  lr_pricing_time_status :: PricingTimeStatus

section \<open>Operations\<close>

definition createCart :: "string \<Rightarrow> Cart" where
  "createCart businessId = \<lparr>ca_business_id = businessId, ca_lines = []\<rparr>"

definition addLineToTotals :: "'d decimal_ops \<Rightarrow> CartTotals \<Rightarrow> CartLine \<Rightarrow> CartTotals result" where
  "addLineToTotals D t line =
     bindE (multiplyMoneyByQuantity D (cl_tier_unit_price line) (cl_quantity line)) (\<lambda>gross.
     bindE (moneyAdd D (ct_gross_subtotal t) gross) (\<lambda>grossSubtotal.
     bindE (multiplyMoneyByQuantity D (cl_promotion_discount line) (cl_quantity line)) (\<lambda>promo.
     bindE (moneyAdd D (ct_promotion_discount_total t) promo) (\<lambda>promotionDiscountTotal.
     bindE (moneyAdd D (ct_grand_total t) (cl_line_total line)) (\<lambda>grandTotal.
     Inr \<lparr>ct_gross_subtotal = grossSubtotal,
          ct_promotion_discount_total = promotionDiscountTotal,
          ct_grand_total = grandTotal\<rparr>)))))"

definition calculateCartTotals :: "'d decimal_ops \<Rightarrow> Cart \<Rightarrow> CartTotals result" where
  "calculateCartTotals D cart =
     bindE (parseMoney D ''0'') (\<lambda>z.
     foldE (addLineToTotals D)
       \<lparr>ct_gross_subtotal = z, ct_promotion_discount_total = z, ct_grand_total = z\<rparr>
       (ca_lines cart))"

definition generateLineKey :: "string \<Rightarrow> string \<Rightarrow> string" where
  "generateLineKey productUnitId priceVersionId = json_strings [productUnitId, priceVersionId]"

definition assertQuantityPrecision :: "'d decimal_ops \<Rightarrow> QuantityValue \<Rightarrow> unit result" where
  "assertQuantityPrecision D quantity =
     bindE (fitsPrecisionScale D quantity (JSInt 20) (JSInt 6)) (\<lambda>ok.
     throwUnless ok (CartError INVALID_CART_QUANTITY))"

text \<open>\<open>s.split(".")\<close>: the pieces between the dots.\<close>

fun split_dot :: "string \<Rightarrow> string list" where
  "split_dot [] = [[]]"
| "split_dot (c # s) =
     (if c = CHR ''.'' then [] # split_dot s
      else case split_dot s of [] \<Rightarrow> [[c]] | w # ws \<Rightarrow> (c # w) # ws)"

definition validateQuantity :: "'d decimal_ops \<Rightarrow> string \<Rightarrow> bool \<Rightarrow> QuantityValue result" where
  "validateQuantity D quantity allowDecimal =
     bindE (catchE (parseQuantity D quantity) (\<lambda>_. Inl (CartError INVALID_CART_QUANTITY))) (\<lambda>canonicalQuantity.
     bindE (assertQuantityPrecision D canonicalQuantity) (\<lambda>_.
     bindE (parseQuantity D ''0'') (\<lambda>zero.
     bindE (quantityCompare D canonicalQuantity zero) (\<lambda>c.
     bindE (throwIf (c \<le> 0) (CartError INVALID_CART_QUANTITY)) (\<lambda>_.
     if \<not> allowDecimal \<and> js_includes canonicalQuantity ''.''
     then case split_dot canonicalQuantity of
            [] \<Rightarrow> parseQuantity D ''''
          | [whole] \<Rightarrow> parseQuantity D whole
          | whole # fractional # _ \<Rightarrow>
              bindE (throwIf (list_ex (\<lambda>ch. ch \<noteq> CHR ''0'') fractional)
                       (CartError DECIMAL_QUANTITY_NOT_ALLOWED)) (\<lambda>_.
              parseQuantity D whole)
     else Inr canonicalQuantity)))))"

definition validatePrice :: "'d decimal_ops \<Rightarrow> string \<Rightarrow> MoneyValue result" where
  "validatePrice D price =
     bindE (catchE (parseMoney D price) (\<lambda>_. Inl (CartError INVALID_CART_PRICE))) (\<lambda>canonicalPrice.
     if js_startsWith canonicalPrice ''-'' then Inl (CartError INVALID_CART_PRICE)
     else bindE (fitsPrecisionScale D canonicalPrice (JSInt 20) (JSInt 4)) (\<lambda>ok.
          bindE (throwUnless ok (CartError INVALID_CART_PRICE)) (\<lambda>_.
          Inr canonicalPrice)))"

definition resolution_input :: "CartPricingContext \<Rightarrow> QuantityValue \<Rightarrow> OfflinePriceResolutionInput" where
  "resolution_input context quantity = \<lparr>
     in_product_unit_id = cx_product_unit_id context,
     in_price_version_id = cx_price_version_id context,
     in_price_effective_from = cx_price_effective_from context,
     in_base_unit_price = cx_base_unit_price context,
     in_quantity = quantity,
     in_price_tiers = cx_price_tiers context,
     in_promotions = cx_promotions context,
     in_pricing_resolved_at = cx_pricing_resolved_at context,
     in_pricing_time_status = cx_pricing_time_status context\<rparr>"

definition resolvePrice ::
  "'d decimal_ops \<Rightarrow> js_env \<Rightarrow> CartPricingContext \<Rightarrow> QuantityValue \<Rightarrow> OfflinePriceResolution result" where
  "resolvePrice D E context quantity =
     catchE (resolveOfflineUnitPrice D E (resolution_input context quantity))
       (\<lambda>error. case error of
          PricingResolutionError _ \<Rightarrow> Inl (CartError INVALID_CART_PRICE)
        | _ \<Rightarrow> Inl error)"

definition clonePricingContext :: "'d decimal_ops \<Rightarrow> LookupResultBoundary \<Rightarrow> CartPricingContext result" where
  "clonePricingContext D item =
     bindE (validatePrice D (lr_unit_price item)) (\<lambda>price.
     Inr \<lparr>cx_product_unit_id = lr_product_unit_id item,
          cx_price_version_id = lr_price_version_id item,
          cx_price_effective_from = lr_price_effective_from item,
          cx_base_unit_price = price,
          cx_price_tiers = lr_price_tiers item,
          cx_promotions = lr_promotions item,
          cx_pricing_resolved_at = lr_pricing_resolved_at item,
          cx_pricing_time_status = lr_pricing_time_status item\<rparr>)"

definition withResolvedPrice ::
  "'d decimal_ops \<Rightarrow> js_env \<Rightarrow> 'a CartLineBase_scheme \<Rightarrow> QuantityValue \<Rightarrow> CartLine result" where
  "withResolvedPrice D E line quantity =
     bindE (resolvePrice D E (cl_pricing_context line) quantity) (\<lambda>resolved.
     bindE (multiplyMoneyByQuantity D (pr_final_unit_price resolved) quantity) (\<lambda>lineTotal.
     Inr \<lparr>
       cl_line_key = cl_line_key line,
       cl_product_id = cl_product_id line,
       cl_product_unit_id = cl_product_unit_id line,
       cl_product_name = cl_product_name line,
       cl_unit_code = cl_unit_code line,
       cl_variant_name = cl_variant_name line,
       cl_sku = cl_sku line,
       cl_barcode = cl_barcode line,
       cl_allow_decimal_qty = cl_allow_decimal_qty line,
       cl_price_version_id = cl_price_version_id line,
       cl_price_effective_from = cl_price_effective_from line,
       cl_pricing_context = cl_pricing_context line,
       cl_conversion_factor = cl_conversion_factor line,
       cl_track_inventory = cl_track_inventory line,
       cl_quantity = quantity,
       cl_unit_price = pr_final_unit_price resolved,
       cl_line_total = lineTotal,
       cl_base_unit_price = pr_base_unit_price resolved,
       cl_tier_id = map_option at_tier_id (pr_applied_tier resolved),
       cl_tier_code = map_option at_tier_code (pr_applied_tier resolved),
       cl_tier_min_qty = map_option at_min_qty (pr_applied_tier resolved),
       cl_tier_unit_price = pr_tier_unit_price resolved,
       cl_promotion_id = map_option ap_promotion_id (pr_applied_promotion resolved),
       cl_promotion_type = map_option ap_promotion_type (pr_applied_promotion resolved),
       cl_promotion_value = map_option ap_value (pr_applied_promotion resolved),
       cl_promotion_discount = pr_promotion_discount resolved,
       cl_pricing_resolved_at = pr_pricing_resolved_at resolved,
       cl_pricing_time_status = pr_pricing_time_status resolved,
       cl_pricing_warnings = pr_warnings resolved\<rparr>))"

text \<open>\<open>findIndex\<close>: the position of the first line with the key.\<close>

fun line_index :: "string \<Rightarrow> CartLine list \<Rightarrow> nat option" where
  "line_index k [] = None"
| "line_index k (l # ls) = (if cl_line_key l = k then Some 0 else map_option Suc (line_index k ls))"

definition setLineQuantity :: "'d decimal_ops \<Rightarrow> js_env \<Rightarrow> Cart \<Rightarrow> string \<Rightarrow> string \<Rightarrow> Cart result" where
  "setLineQuantity D E cart lineKey quantity =
     (case line_index lineKey (ca_lines cart) of
        None \<Rightarrow> Inr cart
      | Some lineIndex \<Rightarrow>
          let line = ca_lines cart ! lineIndex in
          bindE (validateQuantity D quantity (cl_allow_decimal_qty line)) (\<lambda>validatedQuantity.
          bindE (withResolvedPrice D E line validatedQuantity) (\<lambda>nextLine.
          Inr (cart\<lparr>ca_lines := (ca_lines cart)[lineIndex := nextLine]\<rparr>))))"

definition newLineBase :: "LookupResultBoundary \<Rightarrow> string \<Rightarrow> CartPricingContext \<Rightarrow> CartLineBase" where
  "newLineBase item lineKey pricingContext = \<lparr>
     cl_line_key = lineKey,
     cl_product_id = lr_product_id item,
     cl_product_unit_id = lr_product_unit_id item,
     cl_product_name = lr_product_name item,
     cl_unit_code = lr_unit_code item,
     cl_variant_name = lr_variant_name item,
     cl_sku = lr_sku item,
     cl_barcode = lr_barcode item,
     cl_allow_decimal_qty = lr_allow_decimal_qty item,
     cl_price_version_id = lr_price_version_id item,
     cl_price_effective_from = lr_price_effective_from item,
     cl_pricing_context = pricingContext,
     cl_conversion_factor = lr_conversion_factor item,
     cl_track_inventory = lr_track_inventory item\<rparr>"

text \<open>\<open>None\<close> is an omitted quantity, which defaults to \<open>"1"\<close>.\<close>

definition addItem ::
  "'d decimal_ops \<Rightarrow> js_env \<Rightarrow> Cart \<Rightarrow> LookupResultBoundary \<Rightarrow> string option \<Rightarrow> Cart result" where
  "addItem D E cart item quantityArg =
     (let quantity = (case quantityArg of None \<Rightarrow> ''1'' | Some q \<Rightarrow> q);
          lineKey = generateLineKey (lr_product_unit_id item) (lr_price_version_id item) in
      if ca_business_id cart \<noteq> lr_business_id item then Inl (CartError CART_BUSINESS_MISMATCH)
      else case find (\<lambda>l. cl_line_key l = lineKey) (ca_lines cart) of
        Some existingLine \<Rightarrow>
          bindE (validatePrice D (lr_unit_price item)) (\<lambda>incomingBasePrice.
          if cl_base_unit_price existingLine \<noteq> incomingBasePrice \<or>
             cl_price_effective_from existingLine \<noteq> lr_price_effective_from item
          then Inl (CartError CART_PRICE_CONTEXT_CONFLICT)
          else bindE (validateQuantity D quantity (lr_allow_decimal_qty item)) (\<lambda>addedQuantity.
               bindE (quantityAdd D (cl_quantity existingLine) addedQuantity) (\<lambda>nextQuantity.
               setLineQuantity D E cart lineKey nextQuantity)))
      | None \<Rightarrow>
          bindE (validateQuantity D quantity (lr_allow_decimal_qty item)) (\<lambda>validatedQuantity.
          bindE (clonePricingContext D item) (\<lambda>pricingContext.
          bindE (withResolvedPrice D E (newLineBase item lineKey pricingContext) validatedQuantity) (\<lambda>line.
          Inr (cart\<lparr>ca_lines := ca_lines cart @ [line]\<rparr>)))))"

definition removeLine :: "Cart \<Rightarrow> string \<Rightarrow> Cart" where
  "removeLine cart lineKey =
     cart\<lparr>ca_lines := filter (\<lambda>line. cl_line_key line \<noteq> lineKey) (ca_lines cart)\<rparr>"

definition clearCart :: "Cart \<Rightarrow> Cart" where
  "clearCart cart = cart\<lparr>ca_lines := []\<rparr>"

section \<open>Quantities and prices\<close>

text \<open>Quantities a line may have: positive \<open>NUMERIC(20,6)\<close>, whole unless the unit allows decimals.\<close>

definition line_qty_ok :: "bool \<Rightarrow> QuantityValue \<Rightarrow> bool" where
  "line_qty_ok allowDecimal q = (qty_ok q \<and> (allowDecimal \<or> dec_value q \<in> \<int>))"

lemma js_includes_char [simp]: "js_includes s [c] \<longleftrightarrow> c \<in> set s"
  by (induction s) auto

lemma split_dot_plain: "CHR ''.'' \<notin> set w \<Longrightarrow> split_dot w = [w]"
  by (induction w) auto

lemma split_dot_dot: "CHR ''.'' \<notin> set w \<Longrightarrow> split_dot (w @ CHR ''.'' # f) = w # split_dot f"
  by (induction w) auto

lemma digits_no_punct: "list_all is_digit w \<Longrightarrow> CHR ''.'' \<notin> set w \<and> CHR ''-'' \<notin> set w"
  by (induction w) auto

lemma parts_value_int_iff:
  assumes "list_all is_digit i" "list_all is_digit f" "f = [] \<or> last f \<noteq> CHR ''0''"
  shows "parts_value neg i f \<in> \<int> \<longleftrightarrow> f = []"
proof
  assume "parts_value neg i f \<in> \<int>"
  then obtain z :: int where "parts_value neg i f = of_int z" by (rule Ints_cases)
  then have "(of_nat (digits_val (i @ f)) :: rat) = of_int (if neg then - z else z) * 10 ^ length f"
    by (simp add: parts_value_def field_simps split: if_splits del: digits_val_append)
  then have "(of_int (int (digits_val (i @ f))) :: rat) = of_int ((if neg then - z else z) * 10 ^ length f)"
    by (simp del: digits_val_append)
  then have "int (digits_val (i @ f)) = (if neg then - z else z) * 10 ^ length f"
    by (simp only: of_int_eq_iff)
  then have dvd: "(10 :: int) ^ length f dvd int (digits_val (i @ f))" by simp
  show "f = []"
  proof (rule ccontr)
    assume "f \<noteq> []"
    then have "(10 :: int) dvd 10 ^ length f" by (simp add: dvd_power)
    with dvd have "10 dvd digits_val (i @ f)" by (metis dvd_trans int_dvd_int_iff of_nat_numeral)
    then show False using canonical_digits_not_dvd [OF assms(1,2) \<open>f \<noteq> []\<close>] assms(3) \<open>f \<noteq> []\<close> by blast
  qed
qed (simp add: parts_value_def)

lemma canonical_dot_iff:
  assumes "canonical s"
  shows "CHR ''.'' \<in> set s \<longleftrightarrow> dec_value s \<notin> \<int>"
    and "dec_value s \<notin> \<int> \<Longrightarrow> \<exists>w f. split_dot s = [w, f] \<and> list_ex (\<lambda>ch. ch \<noteq> CHR ''0'') f"
proof -
  obtain neg i f where s: "s = dec_render neg i f" "plain_int i" "list_all is_digit f"
    "f = [] \<or> last f \<noteq> CHR ''0''" "dec_value s = parts_value neg i f"
    using canonicalE [OF assms] by metis
  have i: "list_all is_digit i" using s(2) by (simp add: plain_int_def)
  have int: "dec_value s \<in> \<int> \<longleftrightarrow> f = []" using parts_value_int_iff [OF i s(3,4)] s(5) by simp
  have np: "CHR ''.'' \<notin> set i" "CHR ''.'' \<notin> set f" using digits_no_punct i s(3) by blast+
  show "CHR ''.'' \<in> set s \<longleftrightarrow> dec_value s \<notin> \<int>"
    using np int by (auto simp: s(1) dec_render_def)
  assume "dec_value s \<notin> \<int>"
  then have f: "f \<noteq> []" using int by simp
  have "split_dot s = [(if neg then ''-'' else []) @ i, f]"
    using np f split_dot_dot [of "(if neg then ''-'' else []) @ i" f] split_dot_plain [of f]
    by (simp add: s(1) dec_render_def split: if_splits)
  moreover have "list_ex (\<lambda>ch. ch \<noteq> CHR ''0'') f"
    using f s(4) by (auto simp: list_ex_iff intro!: bexI [of _ "last f"])
  ultimately show "\<exists>w f. split_dot s = [w, f] \<and> list_ex (\<lambda>ch. ch \<noteq> CHR ''0'') f" by blast
qed

lemma canonical_minus_iff:
  assumes "canonical s"
  shows "js_startsWith s ''-'' \<longleftrightarrow> dec_value s < 0"
proof -
  obtain neg i f where s: "s = dec_render neg i f" "plain_int i" "list_all is_digit f"
    "neg \<longrightarrow> \<not> (i = ''0'' \<and> f = [])" "f = [] \<or> last f \<noteq> CHR ''0''" "dec_value s = parts_value neg i f"
    using canonicalE [OF assms] by metis
  have i: "list_all is_digit i" "i \<noteq> []" using s(2) by (auto simp: plain_int_def)
  have "js_startsWith s ''-'' \<longleftrightarrow> neg"
    using i by (cases i) (auto simp: s(1) dec_render_def)
  moreover have "0 < digits_val (i @ f)" if neg
  proof (cases "f = []")
    case True
    then show ?thesis using s(2,4) that plain_int_zero [of i] by auto
  next
    case False
    then show ?thesis using canonical_digits_not_dvd [OF i(1) s(3) False] s(5) by (auto intro: gr0I)
  qed
  then have "parts_value neg i f < 0 \<longleftrightarrow> neg"
    by (auto simp: parts_value_def zero_less_divide_iff divide_less_0_iff simp del: digits_val_append)
  ultimately show ?thesis using s(6) by simp
qed

context decimal_library
begin

lemma validateQuantity_text:
  "validateQuantity D q allow =
     (if dec_syntax q \<and> 0 < dec_value q \<and> scaled 6 20 (dec_value q)
      then if allow \<or> dec_value q \<in> \<int> then Inr (dec_text (dec_value q))
           else Inl (CartError DECIMAL_QUANTITY_NOT_ALLOWED)
      else Inl (CartError INVALID_CART_QUANTITY))"
proof (cases "dec_syntax q")
  case True
  let ?t = "dec_text (dec_value q)"
  have t: "canonical ?t" "dec_value ?t = dec_value q" by simp_all
  have pre: "validateQuantity D q allow =
    (if 0 < dec_value q \<and> scaled 6 20 (dec_value q)
     then (if \<not> allow \<and> CHR ''.'' \<in> set ?t then case split_dot ?t of
            [] \<Rightarrow> parseQuantity D ''''
          | [whole] \<Rightarrow> parseQuantity D whole
          | whole # fractional # _ \<Rightarrow>
              bindE (throwIf (list_ex (\<lambda>ch. ch \<noteq> CHR ''0'') fractional)
                       (CartError DECIMAL_QUANTITY_NOT_ALLOWED)) (\<lambda>_. parseQuantity D whole)
           else Inr ?t)
     else Inl (CartError INVALID_CART_QUANTITY))"
    using True fits_20_text(2) [of ?t]
    by (simp add: validateQuantity_def assertQuantityPrecision_def money_family parse_text compare_text
        canonical_syntax throwIf_def throwUnless_def)
  show ?thesis
  proof (cases "dec_value q \<in> \<int>")
    case False
    then obtain w f where "split_dot ?t = [w, f]" "list_ex (\<lambda>ch. ch \<noteq> CHR ''0'') f"
      using canonical_dot_iff(2) [OF t(1)] by auto
    then show ?thesis using pre True False canonical_dot_iff(1) [OF t(1)] by (simp add: throwIf_def)
  qed (use pre True canonical_dot_iff(1) [OF t(1)] in auto)
qed (simp add: validateQuantity_def money_family parse_text)

lemma validatePrice_text:
  "validatePrice D p =
     (if dec_syntax p \<and> 0 \<le> dec_value p \<and> scaled 4 20 (dec_value p)
      then Inr (dec_text (dec_value p)) else Inl (CartError INVALID_CART_PRICE))"
  by (auto simp: validatePrice_def parse_text canonical_minus_iff fits_20_text throwUnless_def)

end

section \<open>The invariant of a cart\<close>

text \<open>
  A line is well formed when its key is the one of its unit and price version, its quantity is
  admissible, and its prices are what the resolver gives for its own snapshot and quantity.
\<close>

definition line_ok :: "'d decimal_ops \<Rightarrow> js_env \<Rightarrow> CartLine \<Rightarrow> bool" where
  "line_ok D E l =
     (cl_line_key l = generateLineKey (cl_product_unit_id l) (cl_price_version_id l) \<and>
      line_qty_ok (cl_allow_decimal_qty l) (cl_quantity l) \<and>
      withResolvedPrice D E l (cl_quantity l) = Inr l)"

definition cart_ok :: "'d decimal_ops \<Rightarrow> js_env \<Rightarrow> Cart \<Rightarrow> bool" where
  "cart_ok D E cart =
     (distinct (map cl_line_key (ca_lines cart)) \<and> (\<forall>l \<in> set (ca_lines cart). line_ok D E l))"

text \<open>The carts a sequence of successful operations reaches; a failed operation leaves the cart.\<close>

inductive cart_reachable :: "'d decimal_ops \<Rightarrow> js_env \<Rightarrow> string \<Rightarrow> Cart \<Rightarrow> bool" for D E b where
  create: "cart_reachable D E b (createCart b)"
| add: "cart_reachable D E b c \<Longrightarrow> addItem D E c item q = Inr c' \<Longrightarrow> cart_reachable D E b c'"
| set_quantity: "cart_reachable D E b c \<Longrightarrow> setLineQuantity D E c k q' = Inr c' \<Longrightarrow> cart_reachable D E b c'"
| remove: "cart_reachable D E b c \<Longrightarrow> cart_reachable D E b (removeLine c k)"
| clear: "cart_reachable D E b c \<Longrightarrow> cart_reachable D E b (clearCart c)"

lemma generateLineKey_inject [simp]:
  "generateLineKey u v = generateLineKey u' v' \<longleftrightarrow> u = u' \<and> v = v'"
  by (auto simp: generateLineKey_def dest: json_strings_inject)

lemma line_index_SomeD:
  "line_index k ls = Some i \<Longrightarrow> i < length ls \<and> cl_line_key (ls ! i) = k \<and>
     find (\<lambda>l. cl_line_key l = k) ls = Some (ls ! i)"
  by (induction ls arbitrary: i) (auto split: if_splits)

lemma line_index_None: "line_index k ls = None \<longleftrightarrow> find (\<lambda>l. cl_line_key l = k) ls = None"
  by (induction ls) auto

lemma resolvePrice_Inr:
  "resolvePrice D E cx q = Inr r \<longleftrightarrow> resolveOfflineUnitPrice D E (resolution_input cx q) = Inr r"
  by (auto simp: resolvePrice_def catchE_def split: sum.splits js_error.splits)

lemma withResolvedPrice_Inr:
  assumes "withResolvedPrice D E l q = Inr l'"
  shows "cl_line_key l' = cl_line_key l" "cl_product_unit_id l' = cl_product_unit_id l"
    "cl_price_version_id l' = cl_price_version_id l" "cl_allow_decimal_qty l' = cl_allow_decimal_qty l"
    "cl_pricing_context l' = cl_pricing_context l" "cl_quantity l' = q"
    "withResolvedPrice D E l' q = Inr l'"
    "\<exists>r. resolveOfflineUnitPrice D E (resolution_input (cl_pricing_context l) q) = Inr r \<and>
       multiplyMoneyByQuantity D (pr_final_unit_price r) q = Inr (cl_line_total l') \<and>
       cl_unit_price l' = pr_final_unit_price r \<and> cl_tier_unit_price l' = pr_tier_unit_price r \<and>
       cl_promotion_discount l' = pr_promotion_discount r"
  using assms by (auto simp: withResolvedPrice_def bindE_eq_Inr resolvePrice_Inr)

context decimal_library
begin

lemma priced_line:
  assumes "withResolvedPrice D E l q = Inr l'" "qty_ok q"
  shows "money_ok (cl_unit_price l')" "money_ok (cl_tier_unit_price l')" "money_ok (cl_promotion_discount l')"
    "dec_value (cl_unit_price l') = dec_value (cl_tier_unit_price l') - dec_value (cl_promotion_discount l')"
    "canonical (cl_line_total l')" "scaled 10 40 (dec_value (cl_line_total l'))"
    "dec_value (cl_line_total l') = dec_value (cl_unit_price l') * dec_value q"
proof -
  obtain r where r: "resolveOfflineUnitPrice D E (resolution_input (cl_pricing_context l) q) = Inr r"
    "multiplyMoneyByQuantity D (pr_final_unit_price r) q = Inr (cl_line_total l')"
    "cl_unit_price l' = pr_final_unit_price r" "cl_tier_unit_price l' = pr_tier_unit_price r"
    "cl_promotion_discount l' = pr_promotion_discount r"
    using withResolvedPrice_Inr(8) [OF assms(1)] by blast
  note p = resolve_promotion_prices [OF r(1)]
  show m: "money_ok (cl_unit_price l')" "money_ok (cl_tier_unit_price l')" "money_ok (cl_promotion_discount l')"
    "dec_value (cl_unit_price l') = dec_value (cl_tier_unit_price l') - dec_value (cl_promotion_discount l')"
    using p resolve_tier_price_ok [OF r(1)] r(3-5) by simp_all
  have sc: "scaled 10 40 (dec_value (cl_unit_price l') * dec_value q)"
    using scaled_mult [OF money_okD(3) [OF m(1)] qty_okD(3) [OF assms(2)]] by simp
  then have "cl_line_total l' = dec_text (dec_value (cl_unit_price l') * dec_value q)"
    using multiply_text [OF money_okD(2) [OF m(1)] qty_okD(2) [OF assms(2)] scaled_sig80 [OF sc]] r(2,3) by simp
  then show "canonical (cl_line_total l')" "scaled 10 40 (dec_value (cl_line_total l'))"
    "dec_value (cl_line_total l') = dec_value (cl_unit_price l') * dec_value q"
    using sc by simp_all
qed

lemma line_ok_priced:
  assumes "line_ok D E l"
  shows "qty_ok (cl_quantity l)" "money_ok (cl_unit_price l)" "money_ok (cl_tier_unit_price l)"
    "money_ok (cl_promotion_discount l)"
    "dec_value (cl_unit_price l) = dec_value (cl_tier_unit_price l) - dec_value (cl_promotion_discount l)"
    "canonical (cl_line_total l)" "scaled 10 40 (dec_value (cl_line_total l))"
    "dec_value (cl_line_total l) = dec_value (cl_unit_price l) * dec_value (cl_quantity l)"
  using assms priced_line [of E l "cl_quantity l" l] by (auto simp: line_ok_def line_qty_ok_def)

lemma validateQuantity_Inr:
  "validateQuantity D q allow = Inr t \<longleftrightarrow> dec_syntax q \<and> t = dec_text (dec_value q) \<and> line_qty_ok allow t"
  by (auto simp: validateQuantity_text line_qty_ok_def qty_ok_def)

lemma setLineQuantity_Inr:
  assumes "setLineQuantity D E c k q = Inr c'"
  shows "(find (\<lambda>l. cl_line_key l = k) (ca_lines c) = None \<and> c' = c) \<or>
    (\<exists>i l'. line_index k (ca_lines c) = Some i \<and> dec_syntax q \<and>
       line_qty_ok (cl_allow_decimal_qty (ca_lines c ! i)) (dec_text (dec_value q)) \<and>
       withResolvedPrice D E (ca_lines c ! i) (dec_text (dec_value q)) = Inr l' \<and>
       c' = c\<lparr>ca_lines := (ca_lines c)[i := l']\<rparr>)"
  using assms
  by (auto simp: setLineQuantity_def Let_def bindE_eq_Inr validateQuantity_Inr line_index_None
      split: option.splits)

lemma setLineQuantity_ok:
  assumes "cart_ok D E c" "setLineQuantity D E c k q = Inr c'"
  shows "cart_ok D E c' \<and> ca_business_id c' = ca_business_id c"
  using setLineQuantity_Inr [OF assms(2)]
proof (elim disjE conjE exE)
  fix i l'
  assume i: "line_index k (ca_lines c) = Some i"
    and q: "line_qty_ok (cl_allow_decimal_qty (ca_lines c ! i)) (dec_text (dec_value q))"
    and l': "withResolvedPrice D E (ca_lines c ! i) (dec_text (dec_value q)) = Inr l'"
    and c': "c' = c\<lparr>ca_lines := (ca_lines c)[i := l']\<rparr>"
  note w = withResolvedPrice_Inr [OF l']
  have "i < length (ca_lines c)" using line_index_SomeD [OF i] by simp
  then have old: "line_ok D E (ca_lines c ! i)" using assms(1) by (simp add: cart_ok_def)
  have "line_ok D E l'" using old q w(1-4,6,7) by (simp add: line_ok_def)
  moreover have "map cl_line_key ((ca_lines c)[i := l']) = map cl_line_key (ca_lines c)"
    using w(1) \<open>i < length (ca_lines c)\<close> by (simp add: map_update list_update_same_conv)
  ultimately show ?thesis
    using assms(1) set_update_subset_insert [of "ca_lines c" i l'] by (auto simp: c' cart_ok_def)
qed (use assms(1) in simp)

lemma addItem_new:
  assumes "addItem D E c item qa = Inr c'"
    "find (\<lambda>l. cl_line_key l = generateLineKey (lr_product_unit_id item) (lr_price_version_id item)) (ca_lines c) = None"
  shows "\<exists>q cx l. dec_syntax (case qa of None \<Rightarrow> ''1'' | Some q \<Rightarrow> q) \<and>
    q = dec_text (dec_value (case qa of None \<Rightarrow> ''1'' | Some q \<Rightarrow> q)) \<and>
    line_qty_ok (lr_allow_decimal_qty item) q \<and>
    withResolvedPrice D E
      (newLineBase item (generateLineKey (lr_product_unit_id item) (lr_price_version_id item)) cx) q = Inr l \<and>
    c' = c\<lparr>ca_lines := ca_lines c @ [l]\<rparr>"
  using assms by (auto simp: addItem_def Let_def bindE_eq_Inr validateQuantity_Inr split: if_splits)

lemma addItem_merge:
  assumes "addItem D E c item qa = Inr c'" "cart_ok D E c"
    "find (\<lambda>l. cl_line_key l = generateLineKey (lr_product_unit_id item) (lr_price_version_id item)) (ca_lines c) = Some l"
  shows "\<exists>q. dec_syntax (case qa of None \<Rightarrow> ''1'' | Some q \<Rightarrow> q) \<and>
    q = dec_text (dec_value (cl_quantity l) + dec_value (case qa of None \<Rightarrow> ''1'' | Some q \<Rightarrow> q)) \<and>
    dec_value q = dec_value (cl_quantity l) + dec_value (case qa of None \<Rightarrow> ''1'' | Some q \<Rightarrow> q) \<and>
    setLineQuantity D E c (generateLineKey (lr_product_unit_id item) (lr_price_version_id item)) q = Inr c'"
proof -
  let ?q = "case qa of None \<Rightarrow> ''1'' | Some q \<Rightarrow> q"
  obtain a n where a: "validateQuantity D ?q (lr_allow_decimal_qty item) = Inr a"
    "quantityAdd D (cl_quantity l) a = Inr n"
    "setLineQuantity D E c (generateLineKey (lr_product_unit_id item) (lr_price_version_id item)) n = Inr c'"
    using assms(1,3) by (auto simp: addItem_def Let_def bindE_eq_Inr split: if_splits)
  have "l \<in> set (ca_lines c)" using assms(3) by (auto simp: find_Some_iff)
  then have l: "qty_ok (cl_quantity l)" using line_ok_priced(1) [of E l] assms(2) by (simp add: cart_ok_def)
  have q: "dec_syntax ?q" "a = dec_text (dec_value ?q)" "qty_ok a"
    using a(1) by (auto simp: validateQuantity_Inr line_qty_ok_def)
  have "scaled 6 21 (dec_value (cl_quantity l) + dec_value a)"
    using scaled_add [OF qty_okD(3) [OF l] qty_okD(3) [OF q(3)]] by simp
  then have "n = dec_text (dec_value (cl_quantity l) + dec_value a)"
      "decimal_fraction (dec_value (cl_quantity l) + dec_value a)"
    using add_text [OF qty_okD(2) [OF l] qty_okD(2) [OF q(3)]] scaled_sig80 a(2) by (auto simp: money_family)
  then show ?thesis using a(3) q by auto
qed

lemma addItem_ok:
  assumes "cart_ok D E c" "addItem D E c item qa = Inr c'"
  shows "cart_ok D E c' \<and> ca_business_id c' = ca_business_id c"
proof (cases "find (\<lambda>l. cl_line_key l = generateLineKey (lr_product_unit_id item) (lr_price_version_id item)) (ca_lines c)")
  case None
  from addItem_new [OF assms(2) None] obtain q cx l where
    q: "line_qty_ok (lr_allow_decimal_qty item) q"
    and l: "withResolvedPrice D E
      (newLineBase item (generateLineKey (lr_product_unit_id item) (lr_price_version_id item)) cx) q = Inr l"
    and c': "c' = c\<lparr>ca_lines := ca_lines c @ [l]\<rparr>" by blast
  note w = withResolvedPrice_Inr [OF l]
  have "line_ok D E l" using q w(1-4,6,7) by (simp add: line_ok_def newLineBase_def)
  then show ?thesis using None assms(1) w(1) by (auto simp: c' cart_ok_def newLineBase_def find_None_iff)
next
  case (Some l)
  from addItem_merge [OF assms(2,1) Some] show ?thesis using setLineQuantity_ok [OF assms(1)] by blast
qed

lemma cart_reachable_ok: "cart_reachable D E b c \<Longrightarrow> cart_ok D E c \<and> ca_business_id c = b"
proof (induction rule: cart_reachable.induct)
  case (add c item q c')
  then show ?case using addItem_ok [of E c item q c'] by simp
next
  case (set_quantity c k q' c')
  then show ?case using setLineQuantity_ok [of E c k q' c'] by simp
next
  case (remove c k)
  then show ?case by (auto simp: removeLine_def cart_ok_def distinct_map_filter)
qed (simp_all add: createCart_def cart_ok_def clearCart_def)

end

section \<open>Exact totals\<close>

context decimal_library
begin

lemma product_text:
  assumes "money_ok p" "qty_ok q"
  shows "multiplyMoneyByQuantity D p q = Inr (dec_text (dec_value p * dec_value q))"
    "scaled 10 40 (dec_value p * dec_value q)"
proof -
  show "scaled 10 40 (dec_value p * dec_value q)"
    using scaled_mult [OF money_okD(3) [OF assms(1)] qty_okD(3) [OF assms(2)]] by simp
  then show "multiplyMoneyByQuantity D p q = Inr (dec_text (dec_value p * dec_value q))"
    using multiply_text [OF money_okD(2) [OF assms(1)] qty_okD(2) [OF assms(2)]] scaled_sig80 by simp
qed

lemma add_text_text:
  assumes "scaled k b p" "scaled k b q" "b < 80" "k \<le> 200"
  shows "moneyAdd D (dec_text p) (dec_text q) = Inr (dec_text (p + q))"
  using add_text [of "dec_text p" "dec_text q"] assms scaled_sig80 [OF scaled_add [OF assms(1,2)]] by simp

lemma totals_fold:
  assumes "\<forall>l \<in> set ls. line_ok D E l" "length ls \<le> 10 ^ 30"
  shows "foldE (addLineToTotals D)
      \<lparr>ct_gross_subtotal = ''0'', ct_promotion_discount_total = ''0'', ct_grand_total = ''0''\<rparr> ls =
    Inr \<lparr>ct_gross_subtotal = dec_text (\<Sum>l\<leftarrow>ls. dec_value (cl_tier_unit_price l) * dec_value (cl_quantity l)),
         ct_promotion_discount_total = dec_text (\<Sum>l\<leftarrow>ls. dec_value (cl_promotion_discount l) * dec_value (cl_quantity l)),
         ct_grand_total = dec_text (\<Sum>l\<leftarrow>ls. dec_value (cl_line_total l))\<rparr>"
  using assms
proof (induction ls rule: rev_induct)
  case (snoc l ls)
  have l: "line_ok D E l" and ls: "\<forall>l \<in> set ls. line_ok D E l" "length ls \<le> 10 ^ 30" using snoc.prems by simp_all
  note p = line_ok_priced [OF l]
  have scaled_ls: "scaled 10 70 (\<Sum>l\<leftarrow>ls. f l)" if "\<And>l. line_ok D E l \<Longrightarrow> scaled 10 40 (f l)" for f
    using scaled_sum [of ls 10 40 f 30] ls that by simp
  have up: "scaled 10 70 x" if "scaled 10 40 x" for x using scaled_mono_digits [OF that, of 70] by simp
  note gross = product_text [OF p(3,1)] and promo = product_text [OF p(4,1)]
  have sums: "scaled 10 70 (\<Sum>l\<leftarrow>ls. dec_value (cl_tier_unit_price l) * dec_value (cl_quantity l))"
    "scaled 10 70 (\<Sum>l\<leftarrow>ls. dec_value (cl_promotion_discount l) * dec_value (cl_quantity l))"
    "scaled 10 70 (\<Sum>l\<leftarrow>ls. dec_value (cl_line_total l))"
    by (rule scaled_ls, use product_text(2) line_ok_priced in blast)+
  have total: "cl_line_total l = dec_text (dec_value (cl_line_total l))" using p(6) by (simp add: canon)
  show ?case
    using snoc.IH [OF ls] gross promo add_text_text [OF sums(1) up [OF gross(2)]]
      add_text_text [OF sums(2) up [OF promo(2)]] add_text_text [OF sums(3) up [OF p(7)]] total
    by (simp add: foldE_append addLineToTotals_def)
qed simp

end

section \<open>A concrete cart\<close>

definition demo_item :: LookupResultBoundary where
  "demo_item = \<lparr>lr_business_id = ''B'', lr_product_id = ''p'', lr_product_unit_id = ''u'',
     lr_product_name = ''Beras'', lr_variant_name = '''', lr_sku = ''S1'', lr_barcode = None,
     lr_unit_price = ''100.00'', lr_price_effective_from = ''2026-08-01'', lr_unit_code = ''KG'',
     lr_allow_decimal_qty = False, lr_price_version_id = ''v'', lr_conversion_factor = ''1'',
     lr_track_inventory = True, lr_price_tiers = demo_tiers, lr_promotions = [demo_promotion],
     lr_pricing_resolved_at = ''2026-08-23'', lr_pricing_time_status = TRUSTED\<rparr>"

definition demo_cart_line :: CartLine where
  "demo_cart_line =
    \<lparr>cl_line_key = generateLineKey ''u'' ''v'', cl_product_id = ''p'', cl_product_unit_id = ''u'', cl_product_name = ''Beras'',
     cl_unit_code = ''KG'', cl_variant_name = [], cl_sku = ''S1'', cl_barcode = None, cl_allow_decimal_qty = False,
     cl_price_version_id = ''v'', cl_price_effective_from = ''2026-08-01'',
     cl_pricing_context = \<lparr>cx_product_unit_id = ''u'', cx_price_version_id = ''v'', cx_price_effective_from = ''2026-08-01'',
       cx_base_unit_price = ''100'', cx_price_tiers = demo_tiers, cx_promotions = [demo_promotion],
       cx_pricing_resolved_at = ''2026-08-23'', cx_pricing_time_status = TRUSTED\<rparr>,
     cl_conversion_factor = ''1'', cl_track_inventory = True, cl_quantity = ''6'', cl_unit_price = ''81'',
     cl_line_total = ''486'', cl_base_unit_price = ''100'', cl_tier_id = Some ''b'', cl_tier_code = Some ''S'',
     cl_tier_min_qty = Some ''5'', cl_tier_unit_price = ''90'', cl_promotion_id = Some ''p'',
     cl_promotion_type = Some PERCENT_DISCOUNT, cl_promotion_value = Some ''10'', cl_promotion_discount = ''9'',
     cl_pricing_resolved_at = ''2026-08-23'', cl_pricing_time_status = TRUSTED, cl_pricing_warnings = []\<rparr>"

definition demo_cart :: Cart where
  "demo_cart = \<lparr>ca_business_id = ''B'', ca_lines = [demo_cart_line]\<rparr>"

lemma demo_cart_added: "addItem ref_ops demo_env (createCart ''B'') demo_item (Some ''6'') = Inr demo_cart"
  by code_simp

lemma demo_cart_reachable: "cart_reachable ref_ops demo_env ''B'' demo_cart"
  by (rule cart_reachable.add [OF cart_reachable.create demo_cart_added])

section \<open>Properties\<close>

text \<open>
  C30. Every cart reached by adding items, changing quantities, removing lines and clearing keeps its
  business, has at most one line per product unit and price version, and each line has an admissible
  quantity, well formed prices and a total that is exactly unit price times quantity. The prices are the
  ones the resolver gives for the line's own snapshot, so resolving the line again changes nothing.
\<close>

theorem reachable_cart_invariant:
  assumes "decimal_library D V W" "cart_reachable D E b c"
  shows "ca_business_id c = b \<and>
    distinct (map (\<lambda>l. (cl_product_unit_id l, cl_price_version_id l)) (ca_lines c)) \<and>
    (\<forall>l \<in> set (ca_lines c).
       line_qty_ok (cl_allow_decimal_qty l) (cl_quantity l) \<and> money_ok (cl_unit_price l) \<and>
       dec_value (cl_unit_price l) = dec_value (cl_tier_unit_price l) - dec_value (cl_promotion_discount l) \<and>
       dec_value (cl_line_total l) = dec_value (cl_unit_price l) * dec_value (cl_quantity l) \<and>
       withResolvedPrice D E l (cl_quantity l) = Inr l)"
proof -
  have ok: "cart_ok D E c" "ca_business_id c = b"
    using decimal_library.cart_reachable_ok [OF assms] by simp_all
  have "map cl_line_key (ca_lines c) =
      map (\<lambda>(u, v). generateLineKey u v) (map (\<lambda>l. (cl_product_unit_id l, cl_price_version_id l)) (ca_lines c))"
    using ok(1) by (simp add: cart_ok_def line_ok_def)
  then have "distinct (map (\<lambda>l. (cl_product_unit_id l, cl_price_version_id l)) (ca_lines c))"
    using ok(1) distinct_map by (metis cart_ok_def)
  then show ?thesis
    using ok decimal_library.line_ok_priced [OF assms(1)] by (auto simp: cart_ok_def line_ok_def)
qed

theorem reachable_cart_invariant_witness:
  "ca_business_id demo_cart = ''B'' \<and>
   dec_value (cl_line_total (hd (ca_lines demo_cart))) =
     dec_value (cl_unit_price (hd (ca_lines demo_cart))) * dec_value (cl_quantity (hd (ca_lines demo_cart)))"
proof -
  have "ca_lines demo_cart \<noteq> []" by code_simp
  then have "hd (ca_lines demo_cart) \<in> set (ca_lines demo_cart)" by simp
  with reachable_cart_invariant [OF ref.decimal_library_axioms demo_cart_reachable] show ?thesis by blast
qed

text \<open>
  Totals are exact: they are computed without error, the grand total is the sum of unit price times
  quantity, and gross subtotal minus promotion discount is the grand total to the last digit. (The
  bound keeps the sums below the 80 significant digits of the engine.)
\<close>

theorem cart_totals_exact:
  assumes "decimal_library D V W" "cart_reachable D E b c" "length (ca_lines c) \<le> 10 ^ 30"
  shows "\<exists>t. calculateCartTotals D c = Inr t \<and>
    dec_value (ct_gross_subtotal t) = (\<Sum>l\<leftarrow>ca_lines c. dec_value (cl_tier_unit_price l) * dec_value (cl_quantity l)) \<and>
    dec_value (ct_grand_total t) = (\<Sum>l\<leftarrow>ca_lines c. dec_value (cl_unit_price l) * dec_value (cl_quantity l)) \<and>
    dec_value (ct_grand_total t) = dec_value (ct_gross_subtotal t) - dec_value (ct_promotion_discount_total t) \<and>
    canonical (ct_gross_subtotal t) \<and> canonical (ct_promotion_discount_total t) \<and> canonical (ct_grand_total t)"
proof -
  let ?ls = "ca_lines c"
  let ?g = "\<Sum>l\<leftarrow>?ls. dec_value (cl_tier_unit_price l) * dec_value (cl_quantity l)"
    and ?p = "\<Sum>l\<leftarrow>?ls. dec_value (cl_promotion_discount l) * dec_value (cl_quantity l)"
    and ?t = "\<Sum>l\<leftarrow>?ls. dec_value (cl_line_total l)"
  have ok: "\<forall>l \<in> set ?ls. line_ok D E l"
    using decimal_library.cart_reachable_ok [OF assms(1,2)] by (simp add: cart_ok_def)
  note priced = decimal_library.line_ok_priced [OF assms(1)]
  have sum: "decimal_fraction (\<Sum>l\<leftarrow>?ls. f l)" if "\<And>l. line_ok D E l \<Longrightarrow> scaled 10 40 (f l)" for f
    using scaled_sum [of ?ls 10 40 f 30] ok assms(3) that by (auto intro: scaled_fraction)
  have frac: "decimal_fraction ?g" "decimal_fraction ?p" "decimal_fraction ?t"
    by (rule sum, use decimal_library.product_text(2) [OF assms(1)] priced in blast)+
  have total: "?t = (\<Sum>l\<leftarrow>?ls. dec_value (cl_unit_price l) * dec_value (cl_quantity l))"
    using ok priced(8) by (intro arg_cong [of _ _ sum_list] map_cong) auto
  have "?t = ?g - ?p"
    unfolding sum_list_subtractf [symmetric] using ok priced(5,8)
    by (intro arg_cong [of _ _ sum_list] map_cong) (auto simp: left_diff_distrib)
  with total frac show ?thesis
    using decimal_library.totals_fold [OF assms(1) ok assms(3)] assms(1)
    by (simp add: calculateCartTotals_def decimal_library.parse_canonical)
qed

theorem cart_totals_exact_witness:
  "\<exists>t. calculateCartTotals ref_ops demo_cart = Inr t \<and>
     dec_value (ct_grand_total t) = dec_value (ct_gross_subtotal t) - dec_value (ct_promotion_discount_total t)"
proof -
  have "length (ca_lines demo_cart) = 1" by code_simp
  then have "length (ca_lines demo_cart) \<le> 10 ^ 30" by simp
  from cart_totals_exact [OF ref.decimal_library_axioms demo_cart_reachable this] show ?thesis by blast
qed

text \<open>The quantity a cart holds under a line key.\<close>

definition cart_quantity :: "Cart \<Rightarrow> string \<Rightarrow> rat" where
  "cart_quantity c k = (case find (\<lambda>l. cl_line_key l = k) (ca_lines c) of
     None \<Rightarrow> 0 | Some l \<Rightarrow> dec_value (cl_quantity l))"

lemma find_update_key:
  assumes "line_index k ls = Some i" "cl_line_key l' = k"
  shows "find (\<lambda>l. cl_line_key l = k) (ls[i := l']) = Some l'"
    "filter (\<lambda>l. cl_line_key l \<noteq> k) (ls[i := l']) = filter (\<lambda>l. cl_line_key l \<noteq> k) ls"
  using assms by (induction ls arbitrary: i) (auto split: if_splits)

text \<open>
  Adding an item adds exactly the requested quantity under its key: an existing line is increased
  instead of duplicated, a new line is appended otherwise, and every other line stays as it was, in
  the same order.
\<close>

theorem add_item_accumulates:
  assumes "decimal_library D V W" "cart_reachable D E b c" "addItem D E c item (Some q) = Inr c'"
  shows "cart_quantity c' (generateLineKey (lr_product_unit_id item) (lr_price_version_id item)) =
      cart_quantity c (generateLineKey (lr_product_unit_id item) (lr_price_version_id item)) + dec_value q \<and>
    filter (\<lambda>l. cl_line_key l \<noteq> generateLineKey (lr_product_unit_id item) (lr_price_version_id item)) (ca_lines c') =
      filter (\<lambda>l. cl_line_key l \<noteq> generateLineKey (lr_product_unit_id item) (lr_price_version_id item)) (ca_lines c)"
proof -
  define k where "k = generateLineKey (lr_product_unit_id item) (lr_price_version_id item)"
  have ok: "cart_ok D E c" using decimal_library.cart_reachable_ok [OF assms(1,2)] by simp
  show ?thesis unfolding k_def [symmetric]
  proof (cases "find (\<lambda>l. cl_line_key l = k) (ca_lines c)")
    case None
    from decimal_library.addItem_new [OF assms(1,3) None [unfolded k_def]] obtain cx l where
      l: "withResolvedPrice D E (newLineBase item k cx) (dec_text (dec_value q)) = Inr l"
      "c' = c\<lparr>ca_lines := ca_lines c @ [l]\<rparr>" by (auto simp: k_def)
    then show "cart_quantity c' k = cart_quantity c k + dec_value q \<and>
      filter (\<lambda>l. cl_line_key l \<noteq> k) (ca_lines c') = filter (\<lambda>l. cl_line_key l \<noteq> k) (ca_lines c)"
      using None withResolvedPrice_Inr(1,6) [OF l(1)]
      by (simp add: cart_quantity_def find_append newLineBase_def)
  next
    case (Some l)
    from decimal_library.addItem_merge [OF assms(1,3) ok Some [unfolded k_def]] obtain n where
      n: "dec_value n = dec_value (cl_quantity l) + dec_value q" "setLineQuantity D E c k n = Inr c'"
      by (auto simp: k_def)
    from decimal_library.setLineQuantity_Inr [OF assms(1) n(2)] Some obtain i l' where
      i: "line_index k (ca_lines c) = Some i" "c' = c\<lparr>ca_lines := (ca_lines c)[i := l']\<rparr>"
      "withResolvedPrice D E (ca_lines c ! i) (dec_text (dec_value n)) = Inr l'" by auto
    have "cl_line_key l' = k" using line_index_SomeD [OF i(1)] withResolvedPrice_Inr(1) [OF i(3)] by simp
    then show "cart_quantity c' k = cart_quantity c k + dec_value q \<and>
      filter (\<lambda>l. cl_line_key l \<noteq> k) (ca_lines c') = filter (\<lambda>l. cl_line_key l \<noteq> k) (ca_lines c)"
      using find_update_key [OF i(1), of l'] i(2) Some withResolvedPrice_Inr(6) [OF i(3)]
        dec_value_text [OF dec_value_fraction [of n], unfolded n(1)] n(1) by (simp add: cart_quantity_def)
  qed
qed

theorem add_item_accumulates_witness:
  "cart_quantity demo_cart (generateLineKey ''u'' ''v'') =
     cart_quantity (createCart ''B'') (generateLineKey ''u'' ''v'') + dec_value ''6''"
  using add_item_accumulates [OF ref.decimal_library_axioms cart_reachable.create demo_cart_added]
  by (simp add: demo_item_def)

text \<open>
  A quantity that is no positive \<open>NUMERIC(20,6)\<close> value, or a fractional one for a unit sold whole,
  is refused with its own error; a key without a line leaves the cart alone.
\<close>

theorem set_quantity_guards:
  assumes "decimal_library D V W"
  shows "case line_index k (ca_lines c) of
      None \<Rightarrow> setLineQuantity D E c k q = Inr c
    | Some i \<Rightarrow>
        (\<not> (dec_syntax q \<and> 0 < dec_value q \<and> scaled 6 20 (dec_value q)) \<longrightarrow>
           setLineQuantity D E c k q = Inl (CartError INVALID_CART_QUANTITY)) \<and>
        (dec_syntax q \<and> 0 < dec_value q \<and> scaled 6 20 (dec_value q) \<and>
         \<not> cl_allow_decimal_qty (ca_lines c ! i) \<and> dec_value q \<notin> \<int> \<longrightarrow>
           setLineQuantity D E c k q = Inl (CartError DECIMAL_QUANTITY_NOT_ALLOWED))"
  using decimal_library.validateQuantity_text [OF assms]
  by (auto simp: setLineQuantity_def Let_def split: option.splits)

theorem set_quantity_guards_witness:
  "setLineQuantity ref_ops demo_env demo_cart (generateLineKey ''u'' ''v'') ''abc'' =
     Inl (CartError INVALID_CART_QUANTITY)"
proof -
  have "line_index (generateLineKey ''u'' ''v'') (ca_lines demo_cart) = Some 0" by code_simp
  moreover have "\<not> dec_syntax ''abc''" by code_simp
  ultimately show ?thesis
    using set_quantity_guards [OF ref.decimal_library_axioms,
        where k = "generateLineKey ''u'' ''v''" and c = demo_cart and E = demo_env and q = "''abc''"]
    by simp
qed

end
