(* ===== verification/Cash.thy ===== *)
theory Cash
  imports Cart
begin

text \<open>
  Cash at the till: the settlement of a sale in cash (\<open>packages/domain/src/sales/cash-settlement.ts\<close>)
  and the cash ledger of a shift (\<open>packages/domain/src/cash/cash-ledger.ts\<close>), with the movement
  types of \<open>packages/contracts/src/cash.ts\<close>. The lemmas show that tender, change and remainder
  balance, that the expected cash of a shift is the signed sum of its movements and decomposes into the
  categories of the closing report, and that reconciling a late movement agrees with recounting.
\<close>

section \<open>Cash settlement\<close>

definition INVALID_AMOUNT_DUE :: string where "INVALID_AMOUNT_DUE = ''INVALID_AMOUNT_DUE''"
definition INVALID_CASH_TENDER :: string where "INVALID_CASH_TENDER = ''INVALID_CASH_TENDER''"

text \<open>
  The two variants of the evaluation. The fields with a literal type (\<open>method_code: "CASH"\<close>,
  \<open>confirmation_type: "CASH_CONFIRMED"\<close>) are determined by the variant.
\<close>

datatype CashSettlementEvaluation =
  INSUFFICIENT (amount_due: MoneyValue) (amount_tendered: MoneyValue)
    (remaining_due: MoneyValue) (change_due: MoneyValue)
| SETTLED (amount_due: MoneyValue) (amount_tendered: MoneyValue) (payment_amount: MoneyValue)
    (remaining_due: MoneyValue) (change_due: MoneyValue)

definition validateMoneyInput :: "'d decimal_ops \<Rightarrow> json \<Rightarrow> string \<Rightarrow> MoneyValue result" where
  "validateMoneyInput D value errorCode =
     (case value of
        JStr s \<Rightarrow>
          bindE (catchE (parseMoney D s) (\<lambda>_. Inl (PaymentError errorCode))) (\<lambda>moneyVal.
          bindE (parseMoney D ''0'') (\<lambda>zero.
          bindE (moneyCompare D moneyVal zero) (\<lambda>c.
          bindE (throwIf (c < 0) (PaymentError errorCode)) (\<lambda>_.
          Inr moneyVal))))
      | _ \<Rightarrow> Inl (PaymentError errorCode))"

definition evaluateCashSettlement :: "'d decimal_ops \<Rightarrow> json \<Rightarrow> json \<Rightarrow> CashSettlementEvaluation result" where
  "evaluateCashSettlement D amountDue amountTendered =
     bindE (validateMoneyInput D amountDue INVALID_AMOUNT_DUE) (\<lambda>due.
     bindE (validateMoneyInput D amountTendered INVALID_CASH_TENDER) (\<lambda>tendered.
     bindE (moneyCompare D tendered due) (\<lambda>comparison.
     bindE (parseMoney D ''0'') (\<lambda>zero.
     if comparison < 0 then
       bindE (moneySubtract D due tendered) (\<lambda>remaining.
       Inr (INSUFFICIENT due tendered remaining zero))
     else if comparison = 0 then Inr (SETTLED due tendered due zero zero)
     else bindE (moneySubtract D tendered due) (\<lambda>change.
          Inr (SETTLED due tendered due zero change))))))"

section \<open>Cash ledger\<close>

datatype ShiftStatus = OPEN | CLOSING | CLOSED | FORCED_CLOSED
datatype CashMovementType =
  OPENING_BALANCE | CASH_SALE | CASH_IN | CASH_OUT | CASH_REFUND | CASH_REVERSAL | SAFE_DROP
datatype CashMovementDirection = IN | OUT
datatype CashVarianceType = MATCHED | SHORT | OVER

record CashMovementDTO =
  cm_id :: string
  cm_shift_id :: string
  cm_movement_type :: CashMovementType
  cm_amount :: string
  cm_direction :: CashMovementDirection
  cm_source_type :: string
  cm_source_id :: string
  cm_reason_code :: "string option"
  cm_notes :: "string option"
  cm_occurred_at :: string
  cm_actor_user_id :: string
  cm_correlation_id :: "string option"

fun getCashMovementDirection :: "CashMovementType \<Rightarrow> CashMovementDirection" where
  "getCashMovementDirection OPENING_BALANCE = IN"
| "getCashMovementDirection CASH_SALE = IN"
| "getCashMovementDirection CASH_IN = IN"
| "getCashMovementDirection CASH_OUT = OUT"
| "getCashMovementDirection CASH_REFUND = OUT"
| "getCashMovementDirection CASH_REVERSAL = OUT"
| "getCashMovementDirection SAFE_DROP = OUT"

definition applyMovement :: "'d decimal_ops \<Rightarrow> MoneyValue \<Rightarrow> CashMovementDTO \<Rightarrow> MoneyValue result" where
  "applyMovement D expected movement =
     bindE (parseMoney D (cm_amount movement)) (\<lambda>amount.
     if cm_direction movement = IN then moneyAdd D expected amount else moneySubtract D expected amount)"

definition calculateExpectedCash :: "'d decimal_ops \<Rightarrow> CashMovementDTO list \<Rightarrow> MoneyValue result" where
  "calculateExpectedCash D movements =
     bindE (parseMoney D ''0'') (\<lambda>zero. foldE (applyMovement D) zero movements)"

record ClosingAccumulator =
  acc_expected :: MoneyValue
  acc_opening :: MoneyValue
  acc_sales :: MoneyValue
  acc_cashIn :: MoneyValue
  acc_cashOut :: MoneyValue
  acc_refunds :: MoneyValue

record ShiftClosingCalculationResult =
  sc_expected_cash :: MoneyValue
  sc_variance :: MoneyValue
  sc_variance_type :: CashVarianceType
  sc_opening_cash :: MoneyValue
  sc_cash_sales :: MoneyValue
  sc_cash_in :: MoneyValue
  sc_cash_out :: MoneyValue
  sc_cash_refunds :: MoneyValue

definition categorise ::
  "'d decimal_ops \<Rightarrow> ClosingAccumulator \<Rightarrow> CashMovementType \<Rightarrow> MoneyValue \<Rightarrow> ClosingAccumulator result" where
  "categorise D acc ty amount =
     (case ty of
        OPENING_BALANCE \<Rightarrow> bindE (moneyAdd D (acc_opening acc) amount) (\<lambda>v. Inr (acc\<lparr>acc_opening := v\<rparr>))
      | CASH_SALE \<Rightarrow> bindE (moneyAdd D (acc_sales acc) amount) (\<lambda>v. Inr (acc\<lparr>acc_sales := v\<rparr>))
      | CASH_IN \<Rightarrow> bindE (moneyAdd D (acc_cashIn acc) amount) (\<lambda>v. Inr (acc\<lparr>acc_cashIn := v\<rparr>))
      | CASH_OUT \<Rightarrow> bindE (moneyAdd D (acc_cashOut acc) amount) (\<lambda>v. Inr (acc\<lparr>acc_cashOut := v\<rparr>))
      | SAFE_DROP \<Rightarrow> bindE (moneyAdd D (acc_cashOut acc) amount) (\<lambda>v. Inr (acc\<lparr>acc_cashOut := v\<rparr>))
      | CASH_REFUND \<Rightarrow> bindE (moneyAdd D (acc_refunds acc) amount) (\<lambda>v. Inr (acc\<lparr>acc_refunds := v\<rparr>))
      | CASH_REVERSAL \<Rightarrow> bindE (moneyAdd D (acc_refunds acc) amount) (\<lambda>v. Inr (acc\<lparr>acc_refunds := v\<rparr>)))"

definition closingStep ::
  "'d decimal_ops \<Rightarrow> ClosingAccumulator \<Rightarrow> CashMovementDTO \<Rightarrow> ClosingAccumulator result" where
  "closingStep D acc movement =
     bindE (parseMoney D (cm_amount movement)) (\<lambda>amount.
     bindE (if cm_direction movement = IN then moneyAdd D (acc_expected acc) amount
            else moneySubtract D (acc_expected acc) amount) (\<lambda>expected.
     categorise D (acc\<lparr>acc_expected := expected\<rparr>) (cm_movement_type movement) amount))"

text \<open>The classification of a variance, written out at both places of the source that need it.\<close>

definition varianceType :: "'d decimal_ops \<Rightarrow> MoneyValue \<Rightarrow> CashVarianceType result" where
  "varianceType D variance =
     bindE (parseMoney D ''0'') (\<lambda>zero.
     bindE (moneyCompare D variance zero) (\<lambda>compZero.
     Inr (if compZero = - 1 then SHORT else if compZero = 1 then OVER else MATCHED)))"

definition calculateShiftClosing ::
  "'d decimal_ops \<Rightarrow> CashMovementDTO list \<Rightarrow> MoneyValue \<Rightarrow> ShiftClosingCalculationResult result" where
  "calculateShiftClosing D movements actualCash =
     bindE (parseMoney D ''0'') (\<lambda>zero.
     bindE (foldE (closingStep D)
              \<lparr>acc_expected = zero, acc_opening = zero, acc_sales = zero, acc_cashIn = zero,
               acc_cashOut = zero, acc_refunds = zero\<rparr> movements) (\<lambda>acc.
     bindE (moneySubtract D actualCash (acc_expected acc)) (\<lambda>variance.
     bindE (varianceType D variance) (\<lambda>vt.
     Inr \<lparr>sc_expected_cash = acc_expected acc, sc_variance = variance, sc_variance_type = vt,
          sc_opening_cash = acc_opening acc, sc_cash_sales = acc_sales acc, sc_cash_in = acc_cashIn acc,
          sc_cash_out = acc_cashOut acc, sc_cash_refunds = acc_refunds acc\<rparr>))))"

record LateEventReconciliationResult =
  le_new_expected_cash :: MoneyValue
  le_adjusted_variance :: MoneyValue
  le_adjusted_variance_type :: CashVarianceType

definition calculateLateEventReconciliation ::
  "'d decimal_ops \<Rightarrow> MoneyValue \<Rightarrow> MoneyValue \<Rightarrow> CashMovementDTO \<Rightarrow> LateEventReconciliationResult result" where
  "calculateLateEventReconciliation D originalExpectedCash actualCash lateMovement =
     bindE (parseMoney D (cm_amount lateMovement)) (\<lambda>amount.
     bindE (if cm_direction lateMovement = IN then moneyAdd D originalExpectedCash amount
            else moneySubtract D originalExpectedCash amount) (\<lambda>newExpectedCash.
     bindE (moneySubtract D actualCash newExpectedCash) (\<lambda>newVariance.
     bindE (varianceType D newVariance) (\<lambda>newVarianceType.
     Inr \<lparr>le_new_expected_cash = newExpectedCash, le_adjusted_variance = newVariance,
          le_adjusted_variance_type = newVarianceType\<rparr>))))"

section \<open>The ledger as sums\<close>

text \<open>What the ledger accepts as an amount, its signed value, and the sum of some categories.\<close>

definition amount_ok :: "CashMovementDTO \<Rightarrow> bool" where
  "amount_ok m = (dec_syntax (cm_amount m) \<and> scaled 4 20 (dec_value (cm_amount m)))"

definition signed_amount :: "CashMovementDTO \<Rightarrow> rat" where
  "signed_amount m = (if cm_direction m = IN then dec_value (cm_amount m) else - dec_value (cm_amount m))"

definition expected_value :: "CashMovementDTO list \<Rightarrow> rat" where
  "expected_value ms = (\<Sum>m\<leftarrow>ms. signed_amount m)"

definition category_value :: "CashMovementType set \<Rightarrow> CashMovementDTO list \<Rightarrow> rat" where
  "category_value T ms = (\<Sum>m\<leftarrow>ms. if cm_movement_type m \<in> T then dec_value (cm_amount m) else 0)"

definition ledger_ok :: "CashMovementDTO list \<Rightarrow> bool" where
  "ledger_ok ms = ((\<forall>m \<in> set ms. amount_ok m) \<and> length ms \<le> 10 ^ 30)"

definition variance_class :: "rat \<Rightarrow> CashVarianceType" where
  "variance_class v = (if v < 0 then SHORT else if 0 < v then OVER else MATCHED)"

lemma ledger_ok_snoc: "ledger_ok (ms @ [m]) \<Longrightarrow> ledger_ok ms \<and> amount_ok m"
  by (simp add: ledger_ok_def)

lemma expected_value_snoc [simp]:
  "expected_value [] = 0" "expected_value (ms @ [m]) = expected_value ms + signed_amount m"
  by (simp_all add: expected_value_def)

lemma category_value_snoc [simp]:
  "category_value T [] = 0"
  "category_value T (ms @ [m]) =
     category_value T ms + (if cm_movement_type m \<in> T then dec_value (cm_amount m) else 0)"
  by (simp_all add: category_value_def)

lemma ledger_scaled:
  assumes "ledger_ok ms"
  shows "scaled 4 50 (expected_value ms)" "scaled 4 50 (category_value T ms)"
  using assms scaled_sum [of ms 4 20 signed_amount 30]
    scaled_sum [of ms 4 20 "\<lambda>m. if cm_movement_type m \<in> T then dec_value (cm_amount m) else 0" 30]
  by (auto simp: ledger_ok_def amount_ok_def signed_amount_def expected_value_def category_value_def)

lemma expected_by_category:
  assumes "\<forall>m \<in> set ms. cm_direction m = getCashMovementDirection (cm_movement_type m)"
  shows "expected_value ms = category_value {OPENING_BALANCE} ms + category_value {CASH_SALE} ms +
    category_value {CASH_IN} ms - category_value {CASH_OUT, SAFE_DROP} ms - category_value {CASH_REFUND, CASH_REVERSAL} ms"
  using assms
proof (induction ms rule: rev_induct)
  case (snoc m ms)
  then show ?case by (cases "cm_movement_type m") (simp_all add: signed_amount_def)
qed simp

context decimal_library
begin

lemma diff_text_text:
  assumes "scaled k b p" "scaled k b q" "b < 80" "k \<le> 200"
  shows "moneySubtract D (dec_text p) (dec_text q) = Inr (dec_text (p - q))"
  using subtract_text [of "dec_text p" "dec_text q"] assms scaled_sig80 [OF scaled_diff [OF assms(1,2)]] by simp

lemma amount_text:
  assumes "amount_ok m" "scaled 4 50 q"
  shows "parseMoney D (cm_amount m) = Inr (dec_text (dec_value (cm_amount m)))"
    "moneyAdd D (dec_text q) (dec_text (dec_value (cm_amount m))) = Inr (dec_text (q + dec_value (cm_amount m)))"
    "moneySubtract D (dec_text q) (dec_text (dec_value (cm_amount m))) = Inr (dec_text (q - dec_value (cm_amount m)))"
proof -
  have "scaled 4 50 (dec_value (cm_amount m))"
    using assms(1) scaled_mono_digits [of 4 20 "dec_value (cm_amount m)" 50] by (simp add: amount_ok_def)
  then show "moneyAdd D (dec_text q) (dec_text (dec_value (cm_amount m))) = Inr (dec_text (q + dec_value (cm_amount m)))"
    "moneySubtract D (dec_text q) (dec_text (dec_value (cm_amount m))) = Inr (dec_text (q - dec_value (cm_amount m)))"
    using assms(2) by (auto intro: add_text_text diff_text_text)
qed (use assms(1) in \<open>simp add: parse_text amount_ok_def\<close>)

lemma movement_text:
  assumes "amount_ok m" "scaled 4 50 q"
  shows "applyMovement D (dec_text q) m = Inr (dec_text (q + signed_amount m))"
    "(if cm_direction m = IN then moneyAdd D (dec_text q) (dec_text (dec_value (cm_amount m)))
      else moneySubtract D (dec_text q) (dec_text (dec_value (cm_amount m)))) = Inr (dec_text (q + signed_amount m))"
  using amount_text [OF assms] by (simp_all add: applyMovement_def signed_amount_def)

lemma expected_text: "ledger_ok ms \<Longrightarrow> calculateExpectedCash D ms = Inr (dec_text (expected_value ms))"
proof -
  have "foldE (applyMovement D) ''0'' ms = Inr (dec_text (expected_value ms))" if "ledger_ok ms"
    using that
  proof (induction ms rule: rev_induct)
    case (snoc m ms)
    then have ok: "ledger_ok ms" "amount_ok m" using ledger_ok_snoc by blast+
    then show ?case using snoc.IH movement_text(1) [OF ok(2) ledger_scaled(1)] by (simp add: foldE_append)
  qed simp
  then show "ledger_ok ms \<Longrightarrow> calculateExpectedCash D ms = Inr (dec_text (expected_value ms))"
    by (simp add: calculateExpectedCash_def)
qed

lemma closing_fold:
  assumes "ledger_ok ms"
  shows "foldE (closingStep D) \<lparr>acc_expected = ''0'', acc_opening = ''0'', acc_sales = ''0'',
       acc_cashIn = ''0'', acc_cashOut = ''0'', acc_refunds = ''0''\<rparr> ms =
     Inr \<lparr>acc_expected = dec_text (expected_value ms),
          acc_opening = dec_text (category_value {OPENING_BALANCE} ms),
          acc_sales = dec_text (category_value {CASH_SALE} ms),
          acc_cashIn = dec_text (category_value {CASH_IN} ms),
          acc_cashOut = dec_text (category_value {CASH_OUT, SAFE_DROP} ms),
          acc_refunds = dec_text (category_value {CASH_REFUND, CASH_REVERSAL} ms)\<rparr>"
  using assms
proof (induction ms rule: rev_induct)
  case (snoc m ms)
  then have ok: "ledger_ok ms" "amount_ok m" using ledger_ok_snoc by blast+
  note e = amount_text [OF ok(2) ledger_scaled(1) [OF ok(1)]]
    and c = amount_text [OF ok(2) ledger_scaled(2) [OF ok(1)]]
  show ?case
    unfolding foldE_append snoc.IH [OF ok(1)] using e c
    by (cases "cm_movement_type m") (simp_all add: closingStep_def categorise_def signed_amount_def)
qed simp

lemma variance_text: "decimal_fraction v \<Longrightarrow> varianceType D (dec_text v) = Inr (variance_class v)"
  by (simp add: varianceType_def variance_class_def)

lemma actual_variance:
  assumes "dec_syntax a" "scaled 4 20 (dec_value a)" "scaled 4 50 q"
  shows "moneySubtract D a (dec_text q) = Inr (dec_text (dec_value a - q))" "decimal_fraction (dec_value a - q)"
proof -
  have "scaled 4 51 (dec_value a - q)"
    using scaled_diff [OF scaled_mono_digits [OF assms(2), of 50] assms(3)] by simp
  then show "moneySubtract D a (dec_text q) = Inr (dec_text (dec_value a - q))" "decimal_fraction (dec_value a - q)"
    using subtract_text [OF assms(1), of "dec_text q"] assms(3) scaled_sig80 by auto
qed

lemma closing_text:
  assumes "ledger_ok ms" "dec_syntax a" "scaled 4 20 (dec_value a)"
  shows "calculateShiftClosing D ms a = Inr \<lparr>sc_expected_cash = dec_text (expected_value ms),
     sc_variance = dec_text (dec_value a - expected_value ms),
     sc_variance_type = variance_class (dec_value a - expected_value ms),
     sc_opening_cash = dec_text (category_value {OPENING_BALANCE} ms),
     sc_cash_sales = dec_text (category_value {CASH_SALE} ms),
     sc_cash_in = dec_text (category_value {CASH_IN} ms),
     sc_cash_out = dec_text (category_value {CASH_OUT, SAFE_DROP} ms),
     sc_cash_refunds = dec_text (category_value {CASH_REFUND, CASH_REVERSAL} ms)\<rparr>"
  using closing_fold [OF assms(1)] actual_variance [OF assms(2,3) ledger_scaled(1) [OF assms(1)]]
  by (simp add: calculateShiftClosing_def variance_text)

lemma late_text:
  assumes "ledger_ok (ms @ [m])" "dec_syntax a" "scaled 4 20 (dec_value a)"
  shows "calculateLateEventReconciliation D (dec_text (expected_value ms)) a m = Inr
     \<lparr>le_new_expected_cash = dec_text (expected_value (ms @ [m])),
      le_adjusted_variance = dec_text (dec_value a - expected_value (ms @ [m])),
      le_adjusted_variance_type = variance_class (dec_value a - expected_value (ms @ [m]))\<rparr>"
proof -
  have ok: "ledger_ok ms" "amount_ok m" using ledger_ok_snoc [OF assms(1)] by blast+
  show ?thesis
    using amount_text [OF ok(2) ledger_scaled(1) [OF ok(1)]]
      actual_variance [OF assms(2,3) ledger_scaled(1) [OF assms(1)]]
    by (cases "cm_direction m = IN")
       (simp_all add: calculateLateEventReconciliation_def variance_text signed_amount_def)
qed

lemma money_input_text:
  "validateMoneyInput D v code =
     (case v of JStr s \<Rightarrow>
        if dec_syntax s \<and> 0 \<le> dec_value s then Inr (dec_text (dec_value s)) else Inl (PaymentError code)
      | _ \<Rightarrow> Inl (PaymentError code))"
  by (auto simp: validateMoneyInput_def parse_text throwIf_def canonical_syntax split: json.splits)

end

section \<open>Properties\<close>

text \<open>
  A cash settlement balances. For amounts of the size of a cart total, a tender below the amount due
  is insufficient with the exact remainder and no change; any other tender settles the sale, pays exactly
  the amount due, and gives back exactly the excess. Negative amounts, malformed texts and values that
  are not strings are refused with the code of the argument they came in.
\<close>

theorem settlement_balances:
  assumes "decimal_library D V W" "scaled 10 70 (dec_value due)" "scaled 10 70 (dec_value tender)"
  shows "evaluateCashSettlement D (JStr due) (JStr tender) =
    (if \<not> (dec_syntax due \<and> 0 \<le> dec_value due) then Inl (PaymentError INVALID_AMOUNT_DUE)
     else if \<not> (dec_syntax tender \<and> 0 \<le> dec_value tender) then Inl (PaymentError INVALID_CASH_TENDER)
     else let d = dec_value due; t = dec_value tender in
       Inr (if t < d then INSUFFICIENT (dec_text d) (dec_text t) (dec_text (d - t)) ''0''
            else SETTLED (dec_text d) (dec_text t) (dec_text d) ''0'' (dec_text (t - d))))"
  using decimal_library.diff_text_text [OF assms(1,2,3)] decimal_library.diff_text_text [OF assms(1,3,2)]
  by (simp add: evaluateCashSettlement_def decimal_library.money_input_text [OF assms(1)]
      decimal_library.compare_canonical [OF assms(1)] decimal_library.parse_canonical [OF assms(1)] Let_def)

theorem settlement_balances_witness:
  "evaluateCashSettlement ref_ops (JStr ''0'') (JStr ''x'') = Inl (PaymentError INVALID_CASH_TENDER)"
proof -
  have "dec_parts ''x'' = None" by code_simp
  then have "\<not> dec_syntax ''x''" "dec_value ''x'' = 0" by (simp_all add: dec_syntax_def dec_value_def)
  then show ?thesis
    using settlement_balances [OF ref.decimal_library_axioms, of "''0''" "''x''"] by (simp add: canonical_syntax)
qed

text \<open>
  C34. The closing report of a shift: the expected cash is the signed sum of the movements, and it equals
  opening cash plus sales plus cash in minus cash out minus refunds whenever every movement has the
  direction of its type. The variance is the counted cash minus the expected one, and is classified by
  its sign.
\<close>

theorem closing_report_balances:
  assumes "decimal_library D V W" "ledger_ok ms" "dec_syntax actual" "scaled 4 20 (dec_value actual)"
    "\<forall>m \<in> set ms. cm_direction m = getCashMovementDirection (cm_movement_type m)"
  shows "\<exists>r. calculateShiftClosing D ms actual = Inr r \<and>
    calculateExpectedCash D ms = Inr (sc_expected_cash r) \<and>
    dec_value (sc_expected_cash r) = dec_value (sc_opening_cash r) + dec_value (sc_cash_sales r) +
      dec_value (sc_cash_in r) - dec_value (sc_cash_out r) - dec_value (sc_cash_refunds r) \<and>
    dec_value (sc_variance r) = dec_value actual - dec_value (sc_expected_cash r) \<and>
    sc_variance_type r = variance_class (dec_value actual - dec_value (sc_expected_cash r))"
  using expected_by_category [OF assms(5)] decimal_library.closing_text [OF assms(1-4)] decimal_library.expected_text [OF assms(1,2)]
    scaled_fraction [OF ledger_scaled(1) [OF assms(2)]]
    scaled_fraction [OF ledger_scaled(2) [OF assms(2)]]
    decimal_library.actual_variance(2) [OF assms(1,3,4) ledger_scaled(1) [OF assms(2)]]
  by simp

text \<open>
  C35. Reconciling a late movement agrees with recounting: starting from the expected cash of the closed
  ledger, the adjusted expectation, variance and class are those of closing the ledger with the late
  movement appended.
\<close>

theorem late_event_agrees_with_recount:
  assumes "decimal_library D V W" "ledger_ok (ms @ [late])" "dec_syntax actual" "scaled 4 20 (dec_value actual)"
    "calculateExpectedCash D ms = Inr expected" "calculateShiftClosing D (ms @ [late]) actual = Inr r"
  shows "calculateLateEventReconciliation D expected actual late =
    Inr \<lparr>le_new_expected_cash = sc_expected_cash r, le_adjusted_variance = sc_variance r,
         le_adjusted_variance_type = sc_variance_type r\<rparr>"
proof -
  have "ledger_ok ms" using ledger_ok_snoc [OF assms(2)] by simp
  then have "expected = dec_text (expected_value ms)"
    using decimal_library.expected_text [OF assms(1)] assms(5) by simp
  then show ?thesis
    using decimal_library.late_text [OF assms(1-4)] decimal_library.closing_text [OF assms(1-4)] assms(6) by auto
qed

section \<open>A concrete ledger\<close>

definition demo_movement :: "string \<Rightarrow> CashMovementType \<Rightarrow> string \<Rightarrow> CashMovementDTO" where
  "demo_movement i ty amount = \<lparr>cm_id = i, cm_shift_id = ''s'', cm_movement_type = ty, cm_amount = amount,
     cm_direction = getCashMovementDirection ty, cm_source_type = ''SHIFT'', cm_source_id = ''s'',
     cm_reason_code = None, cm_notes = None, cm_occurred_at = ''2026-08-23'', cm_actor_user_id = ''a'',
     cm_correlation_id = None\<rparr>"

definition demo_ledger :: "CashMovementDTO list" where
  "demo_ledger = [demo_movement ''1'' OPENING_BALANCE ''100'', demo_movement ''2'' CASH_SALE ''100'']"

lemma demo_amount: "dec_syntax ''100''" "scaled 4 20 (dec_value ''100'')"
proof -
  show syn: "dec_syntax ''100''" by code_simp
  have "fitsPrecisionScale ref_ops ''100'' (JSInt 20) (JSInt 4) = Inr True" by code_simp
  then show "scaled 4 20 (dec_value ''100'')" using ref.fits_text [OF syn, of 4 20] by simp
qed

lemma demo_ledger_ok: "ledger_ok (demo_ledger @ [demo_movement ''3'' SAFE_DROP ''100''])" "ledger_ok demo_ledger"
  using demo_amount by (simp_all add: ledger_ok_def demo_ledger_def demo_movement_def amount_ok_def)

theorem closing_report_balances_witness:
  "\<exists>r. calculateShiftClosing ref_ops demo_ledger ''100'' = Inr r \<and>
    dec_value (sc_expected_cash r) = dec_value (sc_opening_cash r) + dec_value (sc_cash_sales r) +
      dec_value (sc_cash_in r) - dec_value (sc_cash_out r) - dec_value (sc_cash_refunds r)"
proof -
  have "\<forall>m \<in> set demo_ledger. cm_direction m = getCashMovementDirection (cm_movement_type m)"
    by (simp add: demo_ledger_def demo_movement_def)
  from closing_report_balances [OF ref.decimal_library_axioms demo_ledger_ok(2) demo_amount this]
  show ?thesis by blast
qed

theorem late_event_agrees_with_recount_witness:
  "\<exists>e r. calculateExpectedCash ref_ops demo_ledger = Inr e \<and>
    calculateShiftClosing ref_ops (demo_ledger @ [demo_movement ''3'' SAFE_DROP ''100'']) ''100'' = Inr r \<and>
    calculateLateEventReconciliation ref_ops e ''100'' (demo_movement ''3'' SAFE_DROP ''100'') =
      Inr \<lparr>le_new_expected_cash = sc_expected_cash r, le_adjusted_variance = sc_variance r,
           le_adjusted_variance_type = sc_variance_type r\<rparr>"
  using late_event_agrees_with_recount [OF ref.decimal_library_axioms demo_ledger_ok(1) demo_amount
      ref.expected_text [OF demo_ledger_ok(2)] ref.closing_text [OF demo_ledger_ok(1) demo_amount]]
    ref.expected_text [OF demo_ledger_ok(2)] ref.closing_text [OF demo_ledger_ok(1) demo_amount]
  by blast

end
