(* ===== verification/Pos_Db.thy ===== *)
theory Pos_Db
  imports Store Cash
begin

text \<open>
  The rows and the schema of the POS database, \<open>packages/local-db/src/pos-database.ts\<close> (version 8), and
  the authorization context of \<open>packages/contracts/src/auth.ts\<close>. A property the source declares
  nullable or optional is an option. Fields whose type is a single literal and that no code branches on
  keep it as a string. The JSON text of a row lists its members in the order the source builds them.
\<close>

type_synonym uuid = string
type_synonym iso_time = string

section \<open>Authorization\<close>

record OfflineAuthorizationGrant =
  og_key_id :: string
  og_session_id :: string
  og_device_id :: string
  og_terminal_id :: string
  og_issued_at :: string
  og_offline_valid_until :: string
  og_user_id :: string
  og_business_id :: string
  og_primary_role :: string
  og_permissions :: "string list"
  og_authorization_version :: int
  og_default_location_id :: string
  og_signature :: string

record AuthContextResponse =
  au_user_id :: string
  au_business_id :: string
  au_primary_role :: "string option"
  au_permissions :: "string list"
  au_authorization_version :: int
  au_offline_valid_until :: string
  au_default_location_id :: string
  au_offline_authorization :: "OfflineAuthorizationGrant option"

text \<open>What a method draws from the host while it runs: fresh UUIDs and clock readings, by call.\<close>

record host_calls =
  h_uuid :: "nat \<Rightarrow> string"
  h_now :: "nat \<Rightarrow> string"

section \<open>Rows\<close>

datatype LocalSyncStatus = SYNC_PENDING | SYNC_SYNCED | SYNC_REQUIRES_REVIEW
datatype LocalOutboxStatus = PENDING | SENDING | ACCEPTED | FAILED_RETRYABLE | REQUIRES_REVIEW
datatype RowStatus = ACTIVE | INACTIVE
datatype PriceStatus = PRICE_ACTIVE | PRICE_SCHEDULED

record LocalShiftRecord =
  sh_shift_id :: string
  sh_shift_number :: string
  sh_business_id :: string
  sh_location_id :: string
  sh_cashier_user_id :: string
  sh_device_id :: string
  sh_terminal_id :: "string option"
  sh_status :: ShiftStatus
  sh_sync_status :: LocalSyncStatus
  sh_opening_cash :: string
  sh_opened_at :: string
  sh_authorization_version :: int
  sh_active_context_key :: "string option"
  sh_blind_actual_cash :: "string option"
  sh_blind_counted_at :: "string option"
  sh_closing_started_at :: "string option"
  sh_closed_at :: "string option"

record LocalCashMovementRecord =
  mv_id :: string
  mv_shift_id :: string
  mv_business_id :: string
  mv_location_id :: string
  mv_movement_type :: CashMovementType
  mv_direction :: CashMovementDirection
  mv_amount :: string
  mv_source_type :: string
  mv_source_id :: string
  mv_reason_code :: "string option"
  mv_notes :: "string option"
  mv_occurred_at :: string
  mv_actor_user_id :: string
  mv_correlation_id :: "string option"

record LocalShiftClosingSnapshotRecord =
  ss_id :: string
  ss_shift_id :: string
  ss_business_id :: string
  ss_location_id :: string
  ss_expected_cash :: string
  ss_actual_cash :: "string option"
  ss_variance :: "string option"
  ss_variance_type :: "CashVarianceType option"
  ss_variance_reason :: "string option"
  ss_created_at :: string
  ss_created_by :: string

record LocalAuditEventRecord =
  ae_id :: string
  ae_business_id :: string
  ae_location_id :: "string option"
  ae_actor_type :: string
  ae_actor_user_id :: "string option"
  ae_actor_role_snapshot :: "string option"
  ae_action :: string
  ae_entity_type :: string
  ae_entity_id :: string
  ae_occurred_at :: string
  ae_recorded_at :: string
  ae_device_id :: "string option"
  ae_session_id :: "string option"
  ae_reason :: "string option"
  ae_before_data :: json
  ae_after_data :: json
  ae_correlation_id :: "string option"
  ae_authorization_version :: "int option"
  ae_sync_status :: LocalSyncStatus

record LocalOutboxRecord =
  ob_outbox_id :: string
  ob_command_id :: string
  ob_business_id :: string
  ob_business_event_id :: string
  ob_command_type :: string
  ob_schema_version :: int
  ob_location_id :: "string option"
  ob_device_id :: string
  ob_authorization_version :: int
  ob_offline_authorization :: "OfflineAuthorizationGrant option"
  ob_correlation_id :: string
  ob_occurred_at :: string
  ob_payload :: string
  ob_request_fingerprint :: string
  ob_created_at :: string
  ob_attempt_count :: int
  ob_last_attempt_at :: "string option"
  ob_status :: LocalOutboxStatus
  ob_last_error :: "string option"
  ob_lease_owner :: "string option"
  ob_lease_expires_at :: "string option"
  ob_next_attempt_at :: "string option"

record LocalCompletedTransaction =
  tr_transaction_id :: string
  tr_command_id :: string
  tr_business_id :: string
  tr_location_id :: string
  tr_terminal_id :: string
  tr_device_id :: string
  tr_shift_id :: string
  tr_transaction_number :: string
  tr_status :: string
  tr_sync_status :: LocalSyncStatus
  tr_customer_id :: "string option"
  tr_subtotal :: string
  tr_promotion_discount_total :: string
  tr_line_discount_total :: string
  tr_transaction_discount_total :: string
  tr_tax_total :: string
  tr_grand_total :: string
  tr_total_paid :: string
  tr_change_amount :: string
  tr_cost_status :: string
  tr_created_by :: string
  tr_authorization_version :: int
  tr_occurred_at :: string
  tr_completed_at :: string
  tr_created_at :: string
  tr_correlation_id :: string

record LocalCompletedTransactionItem =
  ti_transaction_item_id :: string
  ti_transaction_id :: string
  ti_line_index :: int
  ti_product_id :: string
  ti_product_unit_id :: string
  ti_product_name_snapshot :: string
  ti_sku_snapshot :: string
  ti_unit_code_snapshot :: string
  ti_unit_name_snapshot :: string
  ti_conversion_snapshot :: string
  ti_quantity :: string
  ti_base_quantity :: string
  ti_price_version_id_snapshot :: string
  ti_price_effective_from_snapshot :: string
  ti_pricing_resolved_at_snapshot :: string
  ti_pricing_time_status_snapshot :: PricingTimeStatus
  ti_base_unit_price_snapshot :: string
  ti_tier_id_snapshot :: "string option"
  ti_tier_code_snapshot :: "string option"
  ti_tier_min_qty_snapshot :: "string option"
  ti_tier_unit_price_snapshot :: string
  ti_promotion_id :: "string option"
  ti_promotion_type_snapshot :: "PublishedPromotionType option"
  ti_promotion_value_snapshot :: "string option"
  ti_promotion_discount_snapshot :: string
  ti_manual_line_discount_snapshot :: string
  ti_transaction_discount_allocation :: string
  ti_final_unit_price_snapshot :: string
  ti_line_total :: string
  ti_tax_mode_snapshot :: string
  ti_tax_rate_snapshot :: string
  ti_tax_amount_snapshot :: string
  ti_cost_unit_snapshot :: "string option"
  ti_cost_status :: string
  ti_track_inventory_snapshot :: bool
  ti_created_at :: string

record LocalCompletedPayment =
  py_payment_id :: string
  py_business_id :: string
  py_transaction_id :: string
  py_method_code :: string
  py_amount :: string
  py_amount_tendered :: string
  py_change_amount :: string
  py_status :: string
  py_confirmation_type :: string
  py_external_reference :: "string option"
  py_received_at :: string
  py_completed_at :: string
  py_recorded_by :: string
  py_device_id :: string
  py_correlation_id :: string

record LocalSaleStockMovement =
  sm_stock_movement_id :: string
  sm_business_id :: string
  sm_location_id :: string
  sm_product_id :: string
  sm_movement_type :: string
  sm_base_quantity_delta :: string
  sm_source_unit_id :: string
  sm_source_quantity :: string
  sm_conversion_snapshot :: string
  sm_source_type :: string
  sm_source_id :: string
  sm_source_line_id :: string
  sm_occurred_at :: string
  sm_actor_user_id :: string
  sm_device_id :: string
  sm_correlation_id :: string

record LocalPosProduct =
  pd_id :: string
  pd_business_id :: string
  pd_sku :: string
  pd_name :: string
  pd_base_unit_code :: string
  pd_track_inventory :: bool
  pd_status :: RowStatus
  pd_version :: string
  pd_updated_at :: string

record LocalPosProductUnit =
  pu_id :: string
  pu_business_id :: string
  pu_product_id :: string
  pu_unit_code :: string
  pu_display_name :: string
  pu_conversion_factor :: string
  pu_can_sell :: bool
  pu_can_purchase :: bool
  pu_allow_decimal_qty :: bool
  pu_status :: RowStatus
  pu_version :: string
  pu_updated_at :: string

record LocalPosBarcode =
  bc_id :: string
  bc_business_id :: string
  bc_product_unit_id :: string
  bc_barcode :: string
  bc_is_internal :: bool
  bc_status :: RowStatus
  bc_deactivated_at :: "string option"

record LocalPublishedRetailPriceRecord =
  lp_price_version_id :: string
  lp_business_id :: string
  lp_product_unit_id :: string
  lp_unit_price :: string
  lp_effective_from :: string
  lp_effective_to :: "string option"
  lp_status :: PriceStatus
  lp_tiers :: "PublishedPriceTier list"

record LocalCatalogBootstrapState =
  cb_business_id :: string
  cb_bootstrap_version :: int
  cb_server_time :: string

record LocalPricingBootstrapState =
  pb_business_id :: string
  pb_bootstrap_version :: int
  pb_server_time :: string
  pb_applied_at :: string
  pb_clock_offset_ms :: js_number
  pb_clock_trust_status :: PricingTimeStatus

record LocalSyncStateRecord =
  st_context_key :: string
  st_business_id :: string
  st_device_id :: string
  st_cursor :: string
  st_bootstrap_version :: int
  st_server_time :: string
  st_clock_offset_ms :: js_number
  st_clock_trust_status :: PricingTimeStatus
  st_updated_at :: string

record LocalSyncConflictRecord =
  cf_id :: string
  cf_business_id :: string
  cf_command_id :: "string option"
  cf_conflict_type :: string
  cf_entity_type :: string
  cf_entity_id :: string
  cf_local_value :: json
  cf_server_value :: json
  cf_status :: string
  cf_created_at :: string

record LocalOpaqueProjectionRecord =
  op_key :: string
  op_business_id :: string
  op_entity_id :: string
  op_entity_version :: "string option"
  op_payload :: "(string \<times> json) list"
  op_updated_at :: string

record LocalObservedSyncEventRecord =
  oe_sequence :: string
  oe_business_id :: string
  oe_entity_type :: string
  oe_entity_id :: string
  oe_occurred_at :: string
  oe_payload :: json

section \<open>Schemas and the database\<close>

definition shifts_schema :: "LocalShiftRecord schema" where
  "shifts_schema = \<lparr>sch_key = sh_shift_id,
     sch_unique = [\<lambda>r. map_option (\<lambda>k. [k]) (sh_active_context_key r)]\<rparr>"

definition cash_movements_schema :: "LocalCashMovementRecord schema" where
  "cash_movements_schema = \<lparr>sch_key = mv_id,
     sch_unique = [\<lambda>r. Some [mv_business_id r, mv_source_type r, mv_source_id r]]\<rparr>"

definition shift_closing_snapshots_schema :: "LocalShiftClosingSnapshotRecord schema" where
  "shift_closing_snapshots_schema = \<lparr>sch_key = ss_id, sch_unique = []\<rparr>"

definition audit_events_schema :: "LocalAuditEventRecord schema" where
  "audit_events_schema = \<lparr>sch_key = ae_id, sch_unique = []\<rparr>"

definition outbox_schema :: "LocalOutboxRecord schema" where
  "outbox_schema = \<lparr>sch_key = ob_outbox_id, sch_unique = [\<lambda>r. Some [ob_command_id r]]\<rparr>"

definition transactions_schema :: "LocalCompletedTransaction schema" where
  "transactions_schema = \<lparr>sch_key = tr_transaction_id,
     sch_unique = [\<lambda>r. Some [tr_command_id r], \<lambda>r. Some [tr_business_id r, tr_transaction_number r]]\<rparr>"

definition transaction_items_schema :: "LocalCompletedTransactionItem schema" where
  "transaction_items_schema = \<lparr>sch_key = ti_transaction_item_id, sch_unique = []\<rparr>"

definition payments_schema :: "LocalCompletedPayment schema" where
  "payments_schema = \<lparr>sch_key = py_payment_id, sch_unique = []\<rparr>"

definition stock_movements_schema :: "LocalSaleStockMovement schema" where
  "stock_movements_schema = \<lparr>sch_key = sm_stock_movement_id,
     sch_unique = [\<lambda>r. Some [sm_business_id r, sm_source_type r, sm_source_id r,
                              sm_source_line_id r, sm_movement_type r]]\<rparr>"

definition products_schema :: "LocalPosProduct schema" where
  "products_schema = \<lparr>sch_key = pd_id, sch_unique = [\<lambda>r. Some [pd_business_id r, pd_sku r]]\<rparr>"

definition product_units_schema :: "LocalPosProductUnit schema" where
  "product_units_schema = \<lparr>sch_key = pu_id, sch_unique = [\<lambda>r. Some [pu_product_id r, pu_unit_code r]]\<rparr>"

definition barcodes_schema :: "LocalPosBarcode schema" where
  "barcodes_schema = \<lparr>sch_key = bc_id, sch_unique = []\<rparr>"

definition published_retail_prices_schema :: "LocalPublishedRetailPriceRecord schema" where
  "published_retail_prices_schema = \<lparr>sch_key = lp_price_version_id, sch_unique = []\<rparr>"

definition catalog_bootstrap_state_schema :: "LocalCatalogBootstrapState schema" where
  "catalog_bootstrap_state_schema = \<lparr>sch_key = cb_business_id, sch_unique = []\<rparr>"

definition pricing_bootstrap_state_schema :: "LocalPricingBootstrapState schema" where
  "pricing_bootstrap_state_schema = \<lparr>sch_key = pb_business_id, sch_unique = []\<rparr>"

definition sync_state_schema :: "LocalSyncStateRecord schema" where
  "sync_state_schema = \<lparr>sch_key = st_context_key,
     sch_unique = [\<lambda>r. Some [st_business_id r, st_device_id r]]\<rparr>"

definition sync_conflicts_schema :: "LocalSyncConflictRecord schema" where
  "sync_conflicts_schema = \<lparr>sch_key = cf_id, sch_unique = []\<rparr>"

definition opaque_schema :: "LocalOpaqueProjectionRecord schema" where
  "opaque_schema = \<lparr>sch_key = op_key, sch_unique = []\<rparr>"

definition sync_observed_events_schema :: "LocalObservedSyncEventRecord schema" where
  "sync_observed_events_schema = \<lparr>sch_key = oe_sequence, sch_unique = []\<rparr>"

lemmas schema_defs [simp] =
  shifts_schema_def cash_movements_schema_def shift_closing_snapshots_schema_def audit_events_schema_def
  outbox_schema_def transactions_schema_def transaction_items_schema_def payments_schema_def
  stock_movements_schema_def products_schema_def product_units_schema_def barcodes_schema_def
  published_retail_prices_schema_def catalog_bootstrap_state_schema_def
  pricing_bootstrap_state_schema_def sync_state_schema_def sync_conflicts_schema_def opaque_schema_def
  sync_observed_events_schema_def

record pos_db =
  db_shifts :: "LocalShiftRecord list"
  db_cash_movements :: "LocalCashMovementRecord list"
  db_shift_closing_snapshots :: "LocalShiftClosingSnapshotRecord list"
  db_audit_events :: "LocalAuditEventRecord list"
  db_outbox :: "LocalOutboxRecord list"
  db_transactions :: "LocalCompletedTransaction list"
  db_transaction_items :: "LocalCompletedTransactionItem list"
  db_payments :: "LocalCompletedPayment list"
  db_stock_movements :: "LocalSaleStockMovement list"
  db_products :: "LocalPosProduct list"
  db_product_units :: "LocalPosProductUnit list"
  db_barcodes :: "LocalPosBarcode list"
  db_published_retail_prices :: "LocalPublishedRetailPriceRecord list"
  db_catalog_bootstrap_state :: "LocalCatalogBootstrapState list"
  db_pricing_bootstrap_state :: "LocalPricingBootstrapState list"
  db_sync_state :: "LocalSyncStateRecord list"
  db_sync_conflicts :: "LocalSyncConflictRecord list"
  db_promotions :: "LocalOpaqueProjectionRecord list"
  db_payment_methods :: "LocalOpaqueProjectionRecord list"
  db_stock_balances :: "LocalOpaqueProjectionRecord list"
  db_authorization_cache :: "LocalOpaqueProjectionRecord list"
  db_sync_observed_events :: "LocalObservedSyncEventRecord list"

type_synonym 'a db_act = "(pos_db, 'a) act"

definition empty_db :: pos_db where
  "empty_db = \<lparr>db_shifts = [], db_cash_movements = [], db_shift_closing_snapshots = [],
     db_audit_events = [], db_outbox = [], db_transactions = [], db_transaction_items = [],
     db_payments = [], db_stock_movements = [], db_products = [], db_product_units = [],
     db_barcodes = [], db_published_retail_prices = [], db_catalog_bootstrap_state = [],
     db_pricing_bootstrap_state = [], db_sync_state = [], db_sync_conflicts = [], db_promotions = [],
     db_payment_methods = [], db_stock_balances = [], db_authorization_cache = [],
     db_sync_observed_events = []\<rparr>"

text \<open>The constraints IndexedDB enforces on the tables the till writes.\<close>

definition db_ok :: "pos_db \<Rightarrow> bool" where
  "db_ok s = (t_ok shifts_schema (db_shifts s) \<and> t_ok cash_movements_schema (db_cash_movements s) \<and>
     t_ok shift_closing_snapshots_schema (db_shift_closing_snapshots s) \<and>
     t_ok audit_events_schema (db_audit_events s) \<and> t_ok outbox_schema (db_outbox s) \<and>
     t_ok transactions_schema (db_transactions s) \<and>
     t_ok transaction_items_schema (db_transaction_items s) \<and> t_ok payments_schema (db_payments s) \<and>
     t_ok stock_movements_schema (db_stock_movements s))"

lemma empty_db_ok: "db_ok empty_db"
  by (simp add: db_ok_def empty_db_def t_ok_def)

section \<open>JSON of the rows that travel in an outbox payload\<close>

definition shift_status_text :: "ShiftStatus \<Rightarrow> string" where
  "shift_status_text s = (case s of OPEN \<Rightarrow> ''OPEN'' | CLOSING \<Rightarrow> ''CLOSING'' | CLOSED \<Rightarrow> ''CLOSED''
     | FORCED_CLOSED \<Rightarrow> ''FORCED_CLOSED'')"

definition sync_status_text :: "LocalSyncStatus \<Rightarrow> string" where
  "sync_status_text s = (case s of SYNC_PENDING \<Rightarrow> ''PENDING'' | SYNC_SYNCED \<Rightarrow> ''SYNCED''
     | SYNC_REQUIRES_REVIEW \<Rightarrow> ''REQUIRES_REVIEW'')"

definition movement_type_text :: "CashMovementType \<Rightarrow> string" where
  "movement_type_text t = (case t of OPENING_BALANCE \<Rightarrow> ''OPENING_BALANCE'' | CASH_SALE \<Rightarrow> ''CASH_SALE''
     | CASH_IN \<Rightarrow> ''CASH_IN'' | CASH_OUT \<Rightarrow> ''CASH_OUT'' | CASH_REFUND \<Rightarrow> ''CASH_REFUND''
     | CASH_REVERSAL \<Rightarrow> ''CASH_REVERSAL'' | SAFE_DROP \<Rightarrow> ''SAFE_DROP'')"

definition direction_text :: "CashMovementDirection \<Rightarrow> string" where
  "direction_text d = (case d of IN \<Rightarrow> ''IN'' | OUT \<Rightarrow> ''OUT'')"

definition variance_type_text :: "CashVarianceType \<Rightarrow> string" where
  "variance_type_text v = (case v of MATCHED \<Rightarrow> ''MATCHED'' | SHORT \<Rightarrow> ''SHORT'' | OVER \<Rightarrow> ''OVER'')"

definition jint_opt :: "int option \<Rightarrow> json" where
  "jint_opt x = (case x of None \<Rightarrow> JNull | Some i \<Rightarrow> JNum i)"

definition shift_json :: "LocalShiftRecord \<Rightarrow> json" where
  "shift_json r = JObj [
     (''shift_id'', JStr (sh_shift_id r)), (''shift_number'', JStr (sh_shift_number r)),
     (''business_id'', JStr (sh_business_id r)), (''location_id'', JStr (sh_location_id r)),
     (''cashier_user_id'', JStr (sh_cashier_user_id r)), (''device_id'', JStr (sh_device_id r)),
     (''terminal_id'', jstr_opt (sh_terminal_id r)), (''status'', JStr (shift_status_text (sh_status r))),
     (''sync_status'', JStr (sync_status_text (sh_sync_status r))),
     (''opening_cash'', JStr (sh_opening_cash r)), (''opened_at'', JStr (sh_opened_at r)),
     (''authorization_version'', JNum (sh_authorization_version r)),
     (''active_context_key'', jstr_opt (sh_active_context_key r)),
     (''blind_actual_cash'', jstr_opt (sh_blind_actual_cash r)),
     (''blind_counted_at'', jstr_opt (sh_blind_counted_at r))]"

definition movement_members :: "LocalCashMovementRecord \<Rightarrow> (string \<times> json) list" where
  "movement_members m = [
     (''id'', JStr (mv_id m)), (''shift_id'', JStr (mv_shift_id m)),
     (''business_id'', JStr (mv_business_id m)), (''location_id'', JStr (mv_location_id m)),
     (''movement_type'', JStr (movement_type_text (mv_movement_type m))),
     (''direction'', JStr (direction_text (mv_direction m))), (''amount'', JStr (mv_amount m)),
     (''source_type'', JStr (mv_source_type m)), (''source_id'', JStr (mv_source_id m)),
     (''reason_code'', jstr_opt (mv_reason_code m)), (''notes'', jstr_opt (mv_notes m)),
     (''occurred_at'', JStr (mv_occurred_at m)), (''actor_user_id'', JStr (mv_actor_user_id m)),
     (''correlation_id'', jstr_opt (mv_correlation_id m))]"

definition audit_json :: "LocalAuditEventRecord \<Rightarrow> json" where
  "audit_json a = JObj [
     (''id'', JStr (ae_id a)), (''business_id'', JStr (ae_business_id a)),
     (''location_id'', jstr_opt (ae_location_id a)), (''actor_type'', JStr (ae_actor_type a)),
     (''actor_user_id'', jstr_opt (ae_actor_user_id a)),
     (''actor_role_snapshot'', jstr_opt (ae_actor_role_snapshot a)), (''action'', JStr (ae_action a)),
     (''entity_type'', JStr (ae_entity_type a)), (''entity_id'', JStr (ae_entity_id a)),
     (''occurred_at'', JStr (ae_occurred_at a)), (''recorded_at'', JStr (ae_recorded_at a)),
     (''device_id'', jstr_opt (ae_device_id a)), (''session_id'', jstr_opt (ae_session_id a)),
     (''reason'', jstr_opt (ae_reason a)), (''before_data'', ae_before_data a),
     (''after_data'', ae_after_data a), (''correlation_id'', jstr_opt (ae_correlation_id a)),
     (''authorization_version'', jint_opt (ae_authorization_version a)),
     (''sync_status'', JStr (sync_status_text (ae_sync_status a)))]"

definition snapshot_members :: "LocalShiftClosingSnapshotRecord \<Rightarrow> (string \<times> json) list" where
  "snapshot_members r = [
     (''id'', JStr (ss_id r)), (''shift_id'', JStr (ss_shift_id r)),
     (''business_id'', JStr (ss_business_id r)), (''location_id'', JStr (ss_location_id r)),
     (''expected_cash'', JStr (ss_expected_cash r)), (''actual_cash'', jstr_opt (ss_actual_cash r)),
     (''variance'', jstr_opt (ss_variance r)),
     (''variance_type'', jstr_opt (map_option variance_type_text (ss_variance_type r))),
     (''variance_reason'', jstr_opt (ss_variance_reason r)), (''created_at'', JStr (ss_created_at r)),
     (''created_by'', JStr (ss_created_by r))]"

text \<open>
  The outbox row every command writes: status \<open>PENDING\<close>, no attempts. The optional lease fields are
  absent until the row is claimed.
\<close>

definition new_outbox ::
  "AuthContextResponse \<Rightarrow> uuid \<Rightarrow> uuid \<Rightarrow> uuid \<Rightarrow> string \<Rightarrow> uuid \<Rightarrow> uuid \<Rightarrow> iso_time \<Rightarrow> string \<Rightarrow>
   string \<Rightarrow> iso_time \<Rightarrow> LocalOutboxRecord" where
  "new_outbox auth outboxId commandId eventId commandType deviceId correlationId occurredAt payload
     fingerprint createdAt = \<lparr>
     ob_outbox_id = outboxId, ob_command_id = commandId, ob_business_id = au_business_id auth,
     ob_business_event_id = eventId, ob_command_type = commandType, ob_schema_version = 1,
     ob_location_id = Some (au_default_location_id auth), ob_device_id = deviceId,
     ob_authorization_version = au_authorization_version auth,
     ob_offline_authorization = au_offline_authorization auth, ob_correlation_id = correlationId,
     ob_occurred_at = occurredAt, ob_payload = payload, ob_request_fingerprint = fingerprint,
     ob_created_at = createdAt, ob_attempt_count = 0, ob_last_attempt_at = None, ob_status = PENDING,
     ob_last_error = None, ob_lease_owner = None, ob_lease_expires_at = None, ob_next_attempt_at = None\<rparr>"

end
