(* ===== verification/Shifts.thy ===== *)
theory Shifts
  imports Pos_Db
begin

text \<open>
  Shifts and cash at the till: \<open>packages/local-db/src/shift-cache.ts\<close> (opening a shift, at most one
  active shift per business, location and device) and \<open>packages/local-db/src/cash-manager.ts\<close> (manual
  cash movements and the two-step closing with a blind count). \<open>H\<close> supplies UUIDs and clock readings in
  the order of the calls. The fault point is the test hook of the source: it makes the transaction throw
  after one of its writes. The lemmas show atomicity, uniqueness of the active shift, what each method
  writes, the status machine of a shift, and that the closing snapshot agrees with the cash ledger.
\<close>

section \<open>Error codes\<close>

definition SHIFT_OPEN_PERMISSION_DENIED :: string where
  "SHIFT_OPEN_PERMISSION_DENIED = ''SHIFT_OPEN_PERMISSION_DENIED''"
definition SHIFT_AUTHORIZATION_EXPIRED :: string where
  "SHIFT_AUTHORIZATION_EXPIRED = ''SHIFT_AUTHORIZATION_EXPIRED''"
definition INVALID_SHIFT_CONTEXT :: string where
  "INVALID_SHIFT_CONTEXT = ''INVALID_SHIFT_CONTEXT''"
definition INVALID_OPENING_CASH :: string where
  "INVALID_OPENING_CASH = ''INVALID_OPENING_CASH''"
definition ACTIVE_SHIFT_ALREADY_EXISTS :: string where
  "ACTIVE_SHIFT_ALREADY_EXISTS = ''ACTIVE_SHIFT_ALREADY_EXISTS''"
definition CASH_MOVEMENT_PERMISSION_DENIED :: string where
  "CASH_MOVEMENT_PERMISSION_DENIED = ''CASH_MOVEMENT_PERMISSION_DENIED''"
definition SHIFT_NOT_OPEN :: string where "SHIFT_NOT_OPEN = ''SHIFT_NOT_OPEN''"
definition INVALID_AMOUNT :: string where "INVALID_AMOUNT = ''INVALID_AMOUNT''"
definition SHIFT_ALREADY_CLOSING :: string where "SHIFT_ALREADY_CLOSING = ''SHIFT_ALREADY_CLOSING''"
definition INVALID_SHIFT_STATE :: string where "INVALID_SHIFT_STATE = ''INVALID_SHIFT_STATE''"
definition CASH_AUTHORIZATION_EXPIRED :: string where
  "CASH_AUTHORIZATION_EXPIRED = ''CASH_AUTHORIZATION_EXPIRED''"

section \<open>Opening a shift\<close>

record OpenShiftInput =
  os_auth :: AuthContextResponse
  os_device_id :: string
  os_terminal_id :: "string option"
  os_opening_cash :: string
  os_opened_at :: string

datatype ShiftOpenFaultPoint = after_shift | after_cash | after_audit | before_outbox

definition buildActiveContextKey :: "string \<Rightarrow> string \<Rightarrow> string \<Rightarrow> string" where
  "buildActiveContextKey businessId locationId deviceId = json_strings [businessId, locationId, deviceId]"

text \<open>A time stamp that is present but unparsable is not finite, which the source treats as expired.\<close>

definition issued_after :: "js_env \<Rightarrow> AuthContextResponse \<Rightarrow> int \<Rightarrow> bool" where
  "issued_after E auth commandTime =
     (case au_offline_authorization auth of
        None \<Rightarrow> False
      | Some g \<Rightarrow> (case dateParse E (og_issued_at g) of None \<Rightarrow> True | Some i \<Rightarrow> commandTime < i))"

definition validateOpenShift :: "'d decimal_ops \<Rightarrow> js_env \<Rightarrow> OpenShiftInput \<Rightarrow> unit result" where
  "validateOpenShift D E input =
     (let auth = os_auth input in
      bindE (throwUnless (''workspace.pos.access'' \<in> set (au_permissions auth) \<and>
                          ''shift.open'' \<in> set (au_permissions auth))
               (ShiftOpenError SHIFT_OPEN_PERMISSION_DENIED)) (\<lambda>_.
      case (dateParse E (au_offline_valid_until auth), dateParse E (os_opened_at input)) of
        (Some offlineValidUntil, Some commandTime) \<Rightarrow>
          bindE (throwIf (offlineValidUntil < commandTime \<or> issued_after E auth commandTime)
                   (ShiftOpenError SHIFT_AUTHORIZATION_EXPIRED)) (\<lambda>_.
          bindE (throwIf (au_business_id auth = '''') (ShiftOpenError INVALID_SHIFT_CONTEXT)) (\<lambda>_.
          bindE (throwIf (au_user_id auth = '''') (ShiftOpenError INVALID_SHIFT_CONTEXT)) (\<lambda>_.
          bindE (throwIf (au_default_location_id auth = '''') (ShiftOpenError INVALID_SHIFT_CONTEXT)) (\<lambda>_.
          bindE (throwIf (os_device_id input = '''') (ShiftOpenError INVALID_SHIFT_CONTEXT)) (\<lambda>_.
          bindE (catchE (parseMoney D (os_opening_cash input))
                   (\<lambda>_. Inl (ShiftOpenError INVALID_OPENING_CASH))) (\<lambda>_.
          throwIf (js_startsWith (os_opening_cash input) ''-'')
            (ShiftOpenError INVALID_OPENING_CASH)))))))
      | _ \<Rightarrow> Inl (ShiftOpenError INVALID_SHIFT_CONTEXT)))"

text \<open>\<open>shift_id.split("-")[0].toUpperCase()\<close>; a UUID holds hexadecimal digits and dashes only.\<close>

definition shift_number_of :: "string \<Rightarrow> string" where
  "shift_number_of shiftId =
     map (\<lambda>c. let n = of_char c :: nat in if 97 \<le> n \<and> n \<le> 122 then char_of (n - 32) else c)
       (takeWhile (\<lambda>c. c \<noteq> CHR ''-'') shiftId)"

definition opened_shift :: "host_calls \<Rightarrow> OpenShiftInput \<Rightarrow> LocalShiftRecord" where
  "opened_shift H input = (let auth = os_auth input; shiftId = h_uuid H 0 in \<lparr>
     sh_shift_id = shiftId, sh_shift_number = shift_number_of shiftId,
     sh_business_id = au_business_id auth, sh_location_id = au_default_location_id auth,
     sh_cashier_user_id = au_user_id auth, sh_device_id = os_device_id input,
     sh_terminal_id = os_terminal_id input, sh_status = OPEN, sh_sync_status = SYNC_PENDING,
     sh_opening_cash = os_opening_cash input, sh_opened_at = os_opened_at input,
     sh_authorization_version = au_authorization_version auth,
     sh_active_context_key =
       Some (buildActiveContextKey (au_business_id auth) (au_default_location_id auth) (os_device_id input)),
     sh_blind_actual_cash = None, sh_blind_counted_at = None, sh_closing_started_at = None,
     sh_closed_at = None\<rparr>)"

definition opening_balance :: "host_calls \<Rightarrow> OpenShiftInput \<Rightarrow> LocalCashMovementRecord" where
  "opening_balance H input = (let auth = os_auth input in \<lparr>
     mv_id = h_uuid H 2, mv_shift_id = h_uuid H 0, mv_business_id = au_business_id auth,
     mv_location_id = au_default_location_id auth, mv_movement_type = OPENING_BALANCE,
     mv_direction = IN, mv_amount = os_opening_cash input, mv_source_type = ''SHIFT'',
     mv_source_id = h_uuid H 0, mv_reason_code = None, mv_notes = None,
     mv_occurred_at = os_opened_at input, mv_actor_user_id = au_user_id auth,
     mv_correlation_id = Some (h_uuid H 1)\<rparr>)"

definition shift_opened_event :: "host_calls \<Rightarrow> OpenShiftInput \<Rightarrow> LocalAuditEventRecord" where
  "shift_opened_event H input = (let auth = os_auth input in \<lparr>
     ae_id = h_uuid H 3, ae_business_id = au_business_id auth,
     ae_location_id = Some (au_default_location_id auth), ae_actor_type = ''USER'',
     ae_actor_user_id = Some (au_user_id auth), ae_actor_role_snapshot = au_primary_role auth,
     ae_action = ''SHIFT_OPENED'', ae_entity_type = ''CASH_SHIFT'', ae_entity_id = h_uuid H 0,
     ae_occurred_at = os_opened_at input, ae_recorded_at = h_now H 0,
     ae_device_id = Some (os_device_id input), ae_session_id = None, ae_reason = None,
     ae_before_data = JNull,
     ae_after_data = JObj [(''opening_cash'', JStr (os_opening_cash input)),
       (''shift_number'', JStr (shift_number_of (h_uuid H 0))), (''status'', JStr ''OPEN''),
       (''terminal_id'', jstr_opt (os_terminal_id input))],
     ae_correlation_id = Some (h_uuid H 1),
     ae_authorization_version = Some (au_authorization_version auth), ae_sync_status = SYNC_PENDING\<rparr>)"

definition open_shift_outbox :: "host_calls \<Rightarrow> OpenShiftInput \<Rightarrow> LocalOutboxRecord" where
  "open_shift_outbox H input =
     new_outbox (os_auth input) (h_uuid H 4) (h_uuid H 0) (h_uuid H 0) ''cash.shift.open''
       (os_device_id input) (h_uuid H 1) (os_opened_at input)
       (json_stringify (JObj [(''payload_version'', JNum 1), (''shift'', shift_json (opened_shift H input)),
          (''cash_movements'', JArr [JObj (movement_members (opening_balance H input))]),
          (''audit_events'', JArr [audit_json (shift_opened_event H input)])]))
       (json_stringify (JObj [(''open_shift'', JStr (h_uuid H 0))])) (h_now H 1)"

definition faultA :: "'f option \<Rightarrow> 'f \<Rightarrow> string \<Rightarrow> unit db_act" where
  "faultA fault here msg = (if fault = Some here then throwA (JsError msg) else retA ())"

definition openShift ::
  "'d decimal_ops \<Rightarrow> js_env \<Rightarrow> host_calls \<Rightarrow> ShiftOpenFaultPoint option \<Rightarrow> OpenShiftInput \<Rightarrow>
   LocalShiftRecord db_act" where
  "openShift D E H fault input =
     bindA (liftA (validateOpenShift D E input)) (\<lambda>_.
     let record = opened_shift H input in
     bindA (transaction (
       bindA (readA (\<lambda>s. find (\<lambda>r. sh_active_context_key r = sh_active_context_key record) (db_shifts s))) (\<lambda>existing.
       if existing \<noteq> None then throwA (ShiftOpenError ACTIVE_SHIFT_ALREADY_EXISTS)
       else catchA (
         bindA (tableA db_shifts db_shifts_update (t_add shifts_schema record)) (\<lambda>_.
         bindA (faultA fault after_shift ''Fault: after_shift'') (\<lambda>_.
         bindA (tableA db_cash_movements db_cash_movements_update
                  (t_add cash_movements_schema (opening_balance H input))) (\<lambda>_.
         bindA (faultA fault after_cash ''Fault: after_cash'') (\<lambda>_.
         bindA (tableA db_audit_events db_audit_events_update
                  (t_add audit_events_schema (shift_opened_event H input))) (\<lambda>_.
         bindA (faultA fault after_audit ''Fault: after_audit'') (\<lambda>_.
         bindA (faultA fault before_outbox ''Fault: before_outbox'') (\<lambda>_.
         tableA db_outbox db_outbox_update (t_add outbox_schema (open_shift_outbox H input))))))))))
        (\<lambda>error. if error = DexieError ''ConstraintError''
                  then throwA (ShiftOpenError ACTIVE_SHIFT_ALREADY_EXISTS) else throwA error)))) (\<lambda>_.
     retA record))"

definition getActiveShift :: "string \<Rightarrow> string \<Rightarrow> string \<Rightarrow> LocalShiftRecord option db_act" where
  "getActiveShift businessId locationId deviceId =
     readA (\<lambda>s. case find (\<lambda>r. sh_active_context_key r =
                     Some (buildActiveContextKey businessId locationId deviceId)) (db_shifts s) of
         None \<Rightarrow> None
       | Some r \<Rightarrow> if sh_status r = CLOSED \<or> sh_status r = FORCED_CLOSED then None else Some r)"

definition markShiftClosingStarted :: "string \<Rightarrow> string \<Rightarrow> string \<Rightarrow> unit db_act" where
  "markShiftClosingStarted shiftId ts actualCash =
     tableA db_shifts db_shifts_update (t_update shifts_schema shiftId (\<lambda>r. r\<lparr>
       sh_status := CLOSING, sh_closing_started_at := Some ts, sh_blind_actual_cash := Some actualCash,
       sh_blind_counted_at := Some ts\<rparr>))"

definition markShiftClosed :: "string \<Rightarrow> string \<Rightarrow> unit db_act" where
  "markShiftClosed shiftId ts =
     tableA db_shifts db_shifts_update (t_update shifts_schema shiftId (\<lambda>r. r\<lparr>
       sh_status := CLOSED, sh_closed_at := Some ts, sh_active_context_key := None\<rparr>))"

section \<open>Cash movements\<close>

fun localCashMovementDirection :: "CashMovementType \<Rightarrow> CashMovementDirection" where
  "localCashMovementDirection OPENING_BALANCE = IN"
| "localCashMovementDirection CASH_SALE = IN"
| "localCashMovementDirection CASH_IN = IN"
| "localCashMovementDirection CASH_OUT = OUT"
| "localCashMovementDirection CASH_REFUND = OUT"
| "localCashMovementDirection CASH_REVERSAL = OUT"
| "localCashMovementDirection SAFE_DROP = OUT"

text \<open>The commands the type admits; for any other movement type the \<open>switch\<close> yields \<open>undefined\<close>.\<close>

definition getManualCashMovementPermission :: "CashMovementType \<Rightarrow> string option" where
  "getManualCashMovementPermission ty =
     (case ty of CASH_IN \<Rightarrow> Some ''cash.in'' | CASH_OUT \<Rightarrow> Some ''cash.out''
      | SAFE_DROP \<Rightarrow> Some ''cash.safe_drop'' | _ \<Rightarrow> None)"

record RecordCashMovementCommand =
  rc_shift_id :: string
  rc_movement_type :: CashMovementType
  rc_amount :: string
  rc_reason_code :: string
  rc_notes :: "string option"

record CompleteShiftClosingCommand =
  cc_shift_id :: string
  cc_actual_cash :: string
  cc_variance_reason :: "string option"

record LocalShiftClosingPreview =
  cp_actual_cash :: string
  cp_expected_cash :: string
  cp_variance :: string
  cp_variance_type :: CashVarianceType

definition assertOfflineAuthorization :: "js_env \<Rightarrow> AuthContextResponse \<Rightarrow> string \<Rightarrow> unit result" where
  "assertOfflineAuthorization E auth occurredAt =
     (case (dateParse E (au_offline_valid_until auth), dateParse E occurredAt) of
        (Some validUntil, Some commandTime) \<Rightarrow>
          throwIf (validUntil < commandTime \<or> issued_after E auth commandTime)
            (CashOperationError CASH_AUTHORIZATION_EXPIRED)
      | _ \<Rightarrow> Inl (CashOperationError CASH_AUTHORIZATION_EXPIRED))"

definition parseNonNegativeActualCash :: "'d decimal_ops \<Rightarrow> json \<Rightarrow> string result" where
  "parseNonNegativeActualCash D value =
     (case value of
        JStr s \<Rightarrow>
          catchE (bindE (parseMoney D s) (\<lambda>parsed.
                  bindE (parseMoney D ''0'') (\<lambda>zero.
                  bindE (moneyCompare D parsed zero) (\<lambda>c.
                  bindE (throwIf (c < 0) (CashOperationError INVALID_AMOUNT)) (\<lambda>_.
                  Inr s)))))
            (\<lambda>error. case error of
               CashOperationError _ \<Rightarrow> Inl error | _ \<Rightarrow> Inl (CashOperationError INVALID_AMOUNT))
      | _ \<Rightarrow> Inl (CashOperationError INVALID_AMOUNT))"

definition previewStep :: "'d decimal_ops \<Rightarrow> string \<Rightarrow> LocalCashMovementRecord \<Rightarrow> string result" where
  "previewStep D expectedCash movement =
     bindE (parseMoney D expectedCash) (\<lambda>e.
     bindE (parseMoney D (mv_amount movement)) (\<lambda>a.
     if mv_direction movement = IN then moneyAdd D e a else moneySubtract D e a))"

definition calculateClosingPreview ::
  "'d decimal_ops \<Rightarrow> LocalCashMovementRecord list \<Rightarrow> string \<Rightarrow> string \<Rightarrow> LocalShiftClosingPreview result" where
  "calculateClosingPreview D movements openingCash actualCash =
     (let hasOpeningBalance = list_ex (\<lambda>m. mv_movement_type m = OPENING_BALANCE) movements in
      bindE (foldE (previewStep D) (if hasOpeningBalance then ''0'' else openingCash) movements) (\<lambda>expectedCash.
      bindE (parseMoney D actualCash) (\<lambda>a.
      bindE (parseMoney D expectedCash) (\<lambda>e.
      bindE (moneySubtract D a e) (\<lambda>variance.
      bindE (parseMoney D variance) (\<lambda>v.
      bindE (parseMoney D ''0'') (\<lambda>zero.
      bindE (moneyCompare D v zero) (\<lambda>comparison.
      Inr \<lparr>cp_actual_cash = actualCash, cp_expected_cash = expectedCash, cp_variance = variance,
           cp_variance_type = (if comparison = 0 then MATCHED else if 0 < comparison then OVER else SHORT)\<rparr>))))))))"

definition getMovementsForShift :: "string \<Rightarrow> LocalCashMovementRecord list db_act" where
  "getMovementsForShift shiftId =
     readA (\<lambda>s. sortBy mv_occurred_at (filter (\<lambda>m. mv_shift_id m = shiftId) (db_cash_movements s)))"

definition manual_movement ::
  "host_calls \<Rightarrow> RecordCashMovementCommand \<Rightarrow> AuthContextResponse \<Rightarrow> string \<Rightarrow> LocalCashMovementRecord" where
  "manual_movement H command auth occurredAt = \<lparr>
     mv_id = h_uuid H 0, mv_shift_id = rc_shift_id command, mv_business_id = au_business_id auth,
     mv_location_id = au_default_location_id auth, mv_movement_type = rc_movement_type command,
     mv_direction = localCashMovementDirection (rc_movement_type command), mv_amount = rc_amount command,
     mv_source_type = ''MANUAL'', mv_source_id = h_uuid H 0,
     mv_reason_code = Some (rc_reason_code command), mv_notes = rc_notes command,
     mv_occurred_at = occurredAt, mv_actor_user_id = au_user_id auth,
     mv_correlation_id = Some (h_uuid H 1)\<rparr>"

definition movement_recorded_event ::
  "host_calls \<Rightarrow> RecordCashMovementCommand \<Rightarrow> AuthContextResponse \<Rightarrow> string \<Rightarrow> string \<Rightarrow> LocalAuditEventRecord" where
  "movement_recorded_event H command auth deviceId occurredAt = \<lparr>
     ae_id = h_uuid H 2, ae_business_id = au_business_id auth,
     ae_location_id = Some (au_default_location_id auth), ae_actor_type = ''USER'',
     ae_actor_user_id = Some (au_user_id auth), ae_actor_role_snapshot = au_primary_role auth,
     ae_action = ''CASH_MOVEMENT_RECORDED'', ae_entity_type = ''CASH_MOVEMENT'', ae_entity_id = h_uuid H 0,
     ae_occurred_at = occurredAt, ae_recorded_at = h_now H 0, ae_device_id = Some deviceId,
     ae_session_id = None, ae_reason = Some (rc_reason_code command), ae_before_data = JNull,
     ae_after_data = JObj [(''amount'', JStr (rc_amount command)),
       (''direction'', JStr (direction_text (localCashMovementDirection (rc_movement_type command)))),
       (''movement_type'', JStr (movement_type_text (rc_movement_type command))),
       (''notes'', jstr_opt (rc_notes command)), (''shift_id'', JStr (rc_shift_id command))],
     ae_correlation_id = Some (h_uuid H 1),
     ae_authorization_version = Some (au_authorization_version auth), ae_sync_status = SYNC_PENDING\<rparr>"

definition movement_outbox ::
  "host_calls \<Rightarrow> RecordCashMovementCommand \<Rightarrow> AuthContextResponse \<Rightarrow> string \<Rightarrow> string \<Rightarrow> LocalOutboxRecord" where
  "movement_outbox H command auth deviceId occurredAt =
     new_outbox auth (h_uuid H 3) (h_uuid H 0) (h_uuid H 0) ''cash.movement.record'' deviceId (h_uuid H 1)
       occurredAt
       (json_stringify (JObj (movement_members (manual_movement H command auth occurredAt) @
          [(''authorization_version'', JNum (au_authorization_version auth)), (''device_id'', JStr deviceId)])))
       (json_stringify (JObj [(''record_cash_movement'', JStr (h_uuid H 0))])) (h_now H 1)"

definition recordCashMovement ::
  "'d decimal_ops \<Rightarrow> js_env \<Rightarrow> host_calls \<Rightarrow> RecordCashMovementCommand \<Rightarrow> AuthContextResponse \<Rightarrow> string \<Rightarrow>
   string \<Rightarrow> LocalCashMovementRecord db_act" where
  "recordCashMovement D E H command auth deviceId occurredAt =
     bindA (liftA (assertOfflineAuthorization E auth occurredAt)) (\<lambda>_.
     bindA (liftA (throwUnless (case getManualCashMovementPermission (rc_movement_type command) of
                       None \<Rightarrow> False | Some p \<Rightarrow> p \<in> set (au_permissions auth))
                     (CashOperationError CASH_MOVEMENT_PERMISSION_DENIED))) (\<lambda>_.
     bindA (getActiveShift (au_business_id auth) (au_default_location_id auth) deviceId) (\<lambda>shift.
     bindA (liftA (throwUnless (case shift of None \<Rightarrow> False | Some sh \<Rightarrow>
                       sh_shift_id sh = rc_shift_id command \<and> sh_cashier_user_id sh = au_user_id auth \<and>
                       sh_status sh = OPEN)
                     (CashOperationError SHIFT_NOT_OPEN))) (\<lambda>_.
     bindA (liftA (catchE (parseMoney D (rc_amount command))
                     (\<lambda>_. Inl (CashOperationError INVALID_AMOUNT)))) (\<lambda>parsedAmount.
     bindA (liftA (bindE (parseMoney D ''0'') (\<lambda>zero.
                   bindE (moneyCompare D parsedAmount zero) (\<lambda>c.
                   throwIf (c \<le> 0) (CashOperationError INVALID_AMOUNT))))) (\<lambda>_.
     bindA (transaction (
       bindA (tableA db_cash_movements db_cash_movements_update
                (t_add cash_movements_schema (manual_movement H command auth occurredAt))) (\<lambda>_.
       bindA (tableA db_audit_events db_audit_events_update
                (t_add audit_events_schema (movement_recorded_event H command auth deviceId occurredAt))) (\<lambda>_.
       tableA db_outbox db_outbox_update
         (t_add outbox_schema (movement_outbox H command auth deviceId occurredAt)))))) (\<lambda>_.
     retA (manual_movement H command auth occurredAt))))))))"

section \<open>Closing a shift\<close>

text \<open>The guard both closing steps start from: the active shift of the context, of this cashier.\<close>

definition own_active_shift :: "AuthContextResponse \<Rightarrow> string \<Rightarrow> string \<Rightarrow> LocalShiftRecord db_act" where
  "own_active_shift auth deviceId shiftId =
     bindA (getActiveShift (au_business_id auth) (au_default_location_id auth) deviceId) (\<lambda>shift.
     case shift of
       None \<Rightarrow> throwA (CashOperationError SHIFT_NOT_OPEN)
     | Some sh \<Rightarrow>
         if sh_shift_id sh \<noteq> shiftId \<or> sh_cashier_user_id sh \<noteq> au_user_id auth
         then throwA (CashOperationError SHIFT_NOT_OPEN) else retA sh)"

text \<open>The branch on the status that locks the counted cash, once.\<close>

definition lockCount :: "LocalShiftRecord \<Rightarrow> string \<Rightarrow> string \<Rightarrow> string \<Rightarrow> unit db_act" where
  "lockCount shift shiftId occurredAt actualCash =
     (if sh_status shift = CLOSING then
        (case sh_blind_actual_cash shift of
           None \<Rightarrow> markShiftClosingStarted shiftId occurredAt actualCash
         | Some counted \<Rightarrow>
             if counted \<noteq> actualCash then throwA (CashOperationError SHIFT_ALREADY_CLOSING) else retA ())
      else if sh_status shift = OPEN then markShiftClosingStarted shiftId occurredAt actualCash
      else throwA (CashOperationError INVALID_SHIFT_STATE))"

definition beginShiftClosing ::
  "'d decimal_ops \<Rightarrow> js_env \<Rightarrow> string \<Rightarrow> string \<Rightarrow> AuthContextResponse \<Rightarrow> string \<Rightarrow> string \<Rightarrow>
   LocalShiftClosingPreview db_act" where
  "beginShiftClosing D E shiftId actualCashInput auth deviceId occurredAt =
     bindA (liftA (assertOfflineAuthorization E auth occurredAt)) (\<lambda>_.
     bindA (liftA (parseNonNegativeActualCash D (JStr actualCashInput))) (\<lambda>actualCash.
     bindA (liftA (throwUnless (''shift.close'' \<in> set (au_permissions auth))
                     (CashOperationError CASH_MOVEMENT_PERMISSION_DENIED))) (\<lambda>_.
     bindA (own_active_shift auth deviceId shiftId) (\<lambda>shift.
     bindA (lockCount shift shiftId occurredAt actualCash) (\<lambda>_.
     bindA (getMovementsForShift shiftId) (\<lambda>movements.
     liftA (calculateClosingPreview D movements (sh_opening_cash shift) actualCash)))))))"

definition closing_snapshot ::
  "host_calls \<Rightarrow> CompleteShiftClosingCommand \<Rightarrow> AuthContextResponse \<Rightarrow> string \<Rightarrow> LocalShiftClosingPreview \<Rightarrow>
   LocalShiftClosingSnapshotRecord" where
  "closing_snapshot H command auth occurredAt preview = \<lparr>
     ss_id = h_uuid H 0, ss_shift_id = cc_shift_id command, ss_business_id = au_business_id auth,
     ss_location_id = au_default_location_id auth, ss_expected_cash = cp_expected_cash preview,
     ss_actual_cash = Some (cp_actual_cash preview), ss_variance = Some (cp_variance preview),
     ss_variance_type = Some (cp_variance_type preview), ss_variance_reason = cc_variance_reason command,
     ss_created_at = occurredAt, ss_created_by = au_user_id auth\<rparr>"

definition shift_closed_event ::
  "host_calls \<Rightarrow> CompleteShiftClosingCommand \<Rightarrow> AuthContextResponse \<Rightarrow> string \<Rightarrow> string \<Rightarrow> LocalShiftRecord \<Rightarrow>
   LocalShiftClosingPreview \<Rightarrow> LocalAuditEventRecord" where
  "shift_closed_event H command auth deviceId occurredAt shift preview = \<lparr>
     ae_id = h_uuid H 2, ae_business_id = au_business_id auth,
     ae_location_id = Some (au_default_location_id auth), ae_actor_type = ''USER'',
     ae_actor_user_id = Some (au_user_id auth), ae_actor_role_snapshot = au_primary_role auth,
     ae_action = ''SHIFT_CLOSED'', ae_entity_type = ''CASH_SHIFT'', ae_entity_id = cc_shift_id command,
     ae_occurred_at = occurredAt, ae_recorded_at = h_now H 0, ae_device_id = Some deviceId,
     ae_session_id = None, ae_reason = cc_variance_reason command,
     ae_before_data = JObj [(''status'', JStr (shift_status_text (sh_status shift)))],
     ae_after_data = JObj [(''actual_cash'', JStr (cp_actual_cash preview)),
       (''expected_cash'', JStr (cp_expected_cash preview)), (''status'', JStr ''CLOSED''),
       (''variance'', JStr (cp_variance preview)),
       (''variance_type'', JStr (variance_type_text (cp_variance_type preview)))],
     ae_correlation_id = Some (h_uuid H 1),
     ae_authorization_version = Some (au_authorization_version auth), ae_sync_status = SYNC_PENDING\<rparr>"

definition close_shift_outbox ::
  "host_calls \<Rightarrow> CompleteShiftClosingCommand \<Rightarrow> AuthContextResponse \<Rightarrow> string \<Rightarrow> string \<Rightarrow>
   LocalShiftClosingPreview \<Rightarrow> LocalOutboxRecord" where
  "close_shift_outbox H command auth deviceId occurredAt preview =
     new_outbox auth (h_uuid H 3) (h_uuid H 0) (cc_shift_id command) ''cash.shift.close'' deviceId
       (h_uuid H 1) occurredAt
       (json_stringify (JObj (snapshot_members (closing_snapshot H command auth occurredAt preview) @
          [(''authorization_version'', JNum (au_authorization_version auth)), (''device_id'', JStr deviceId)])))
       (json_stringify (JObj [(''close_shift'', JStr (cc_shift_id command))])) (h_now H 1)"

definition completeShiftClosing ::
  "'d decimal_ops \<Rightarrow> js_env \<Rightarrow> host_calls \<Rightarrow> CompleteShiftClosingCommand \<Rightarrow> AuthContextResponse \<Rightarrow> string \<Rightarrow>
   string \<Rightarrow> LocalShiftClosingSnapshotRecord db_act" where
  "completeShiftClosing D E H command auth deviceId occurredAt =
     bindA (liftA (assertOfflineAuthorization E auth occurredAt)) (\<lambda>_.
     bindA (liftA (throwUnless (''shift.close'' \<in> set (au_permissions auth))
                     (CashOperationError CASH_MOVEMENT_PERMISSION_DENIED))) (\<lambda>_.
     bindA (own_active_shift auth deviceId (cc_shift_id command)) (\<lambda>shift.
     bindA (liftA (parseNonNegativeActualCash D (JStr (cc_actual_cash command)))) (\<lambda>actualCash.
     bindA (liftA (throwIf (sh_status shift \<noteq> CLOSING \<or> sh_blind_actual_cash shift \<noteq> Some actualCash)
                     (CashOperationError INVALID_SHIFT_STATE))) (\<lambda>_.
     bindA (getMovementsForShift (cc_shift_id command)) (\<lambda>movements.
     bindA (liftA (calculateClosingPreview D movements (sh_opening_cash shift) actualCash)) (\<lambda>preview.
     bindA (transaction (
       bindA (tableA db_shift_closing_snapshots db_shift_closing_snapshots_update
                (t_add shift_closing_snapshots_schema (closing_snapshot H command auth occurredAt preview))) (\<lambda>_.
       bindA (tableA db_audit_events db_audit_events_update
                (t_add audit_events_schema
                   (shift_closed_event H command auth deviceId occurredAt shift preview))) (\<lambda>_.
       bindA (tableA db_outbox db_outbox_update
                (t_add outbox_schema (close_shift_outbox H command auth deviceId occurredAt preview))) (\<lambda>_.
       markShiftClosed (cc_shift_id command) occurredAt))))) (\<lambda>_.
     retA (closing_snapshot H command auth occurredAt preview)))))))))"

section \<open>What the methods write\<close>

lemma faultA_eq [result_simps]:
  "faultA f p msg s = (Inr u, s') \<longleftrightarrow> f \<noteq> Some p \<and> s' = s"
  by (auto simp: faultA_def)

lemma fault_none: "(f :: ShiftOpenFaultPoint option) \<noteq> Some after_shift \<Longrightarrow> f \<noteq> Some after_cash \<Longrightarrow>
    f \<noteq> Some after_audit \<Longrightarrow> f \<noteq> Some before_outbox \<Longrightarrow> f = None"
  by (metis ShiftOpenFaultPoint.exhaust not_None_eq)

lemma openShift_Inl: "openShift D E H fault input s = (Inl e, s') \<Longrightarrow> s' = s"
  by (auto simp: openShift_def Let_def result_simps)

lemma openShift_Inr:
  assumes "openShift D E H fault input s = (Inr r, s')"
  shows "validateOpenShift D E input = Inr () \<and> fault = None \<and> r = opened_shift H input \<and>
    (\<forall>x \<in> set (db_shifts s). sh_active_context_key x \<noteq> sh_active_context_key r) \<and>
    (\<exists>t1 t2 t3 t4. t_add shifts_schema r (db_shifts s) = Inr t1 \<and>
       t_add cash_movements_schema (opening_balance H input) (db_cash_movements s) = Inr t2 \<and>
       t_add audit_events_schema (shift_opened_event H input) (db_audit_events s) = Inr t3 \<and>
       t_add outbox_schema (open_shift_outbox H input) (db_outbox s) = Inr t4 \<and>
       s' = s\<lparr>db_shifts := t1, db_cash_movements := t2, db_audit_events := t3, db_outbox := t4\<rparr>)"
  using assms
  by (auto simp: openShift_def Let_def result_simps find_None_iff simp del: schema_defs
      split: if_splits dest: fault_none)

lemma openShift_rows:
  assumes "db_ok s" "openShift D E H fault input s = (Inr r, s')"
  shows "fault = None \<and> r = opened_shift H input \<and> db_ok s' \<and>
    set (db_shifts s') = insert r (set (db_shifts s)) \<and>
    set (db_cash_movements s') = insert (opening_balance H input) (set (db_cash_movements s)) \<and>
    set (db_audit_events s') = insert (shift_opened_event H input) (set (db_audit_events s)) \<and>
    set (db_outbox s') = insert (open_shift_outbox H input) (set (db_outbox s)) \<and>
    db_transactions s' = db_transactions s \<and> db_shift_closing_snapshots s' = db_shift_closing_snapshots s \<and>
    db_transaction_items s' = db_transaction_items s \<and> db_payments s' = db_payments s \<and>
    db_stock_movements s' = db_stock_movements s \<and> sh_shift_id r \<notin> sh_shift_id ` set (db_shifts s)"
proof -
  note ok = assms(1) [unfolded db_ok_def]
  from openShift_Inr [OF assms(2)] obtain t1 t2 t3 t4 where
    t: "fault = None" "r = opened_shift H input" "t_add shifts_schema r (db_shifts s) = Inr t1"
    "t_add cash_movements_schema (opening_balance H input) (db_cash_movements s) = Inr t2"
    "t_add audit_events_schema (shift_opened_event H input) (db_audit_events s) = Inr t3"
    "t_add outbox_schema (open_shift_outbox H input) (db_outbox s) = Inr t4"
    "s' = s\<lparr>db_shifts := t1, db_cash_movements := t2, db_audit_events := t3, db_outbox := t4\<rparr>" by blast
  have "sch_key shifts_schema = sh_shift_id" by simp
  then show ?thesis
    using t(1,2,7) tbl.add_Inr [OF _ t(3)] tbl.add_Inr [OF _ t(4)] tbl.add_Inr [OF _ t(5)]
      tbl.add_Inr [OF _ t(6)] ok
    by (simp add: db_ok_def del: schema_defs)
qed

lemma recordCashMovement_Inl: "recordCashMovement D E H c auth d t s = (Inl e, s') \<Longrightarrow> s' = s"
  by (auto simp: recordCashMovement_def getActiveShift_def result_simps)

lemma recordCashMovement_Inr:
  assumes "recordCashMovement D E H c auth d t s = (Inr m, s')"
  shows "m = manual_movement H c auth t \<and>
    (\<exists>p. getManualCashMovementPermission (rc_movement_type c) = Some p \<and> p \<in> set (au_permissions auth)) \<and>
    (\<exists>sh. find (\<lambda>r. sh_active_context_key r =
         Some (buildActiveContextKey (au_business_id auth) (au_default_location_id auth) d)) (db_shifts s) = Some sh \<and>
       sh_shift_id sh = rc_shift_id c \<and> sh_cashier_user_id sh = au_user_id auth \<and> sh_status sh = OPEN) \<and>
    (\<exists>a. parseMoney D (rc_amount c) = Inr a \<and> (\<exists>z n. parseMoney D ''0'' = Inr z \<and> moneyCompare D a z = Inr n \<and> 0 < n)) \<and>
    (\<exists>t2 t3 t4. t_add cash_movements_schema m (db_cash_movements s) = Inr t2 \<and>
       t_add audit_events_schema (movement_recorded_event H c auth d t) (db_audit_events s) = Inr t3 \<and>
       t_add outbox_schema (movement_outbox H c auth d t) (db_outbox s) = Inr t4 \<and>
       s' = s\<lparr>db_cash_movements := t2, db_audit_events := t3, db_outbox := t4\<rparr>)"
  using assms
  by (auto simp: recordCashMovement_def getActiveShift_def result_simps throwIf_def simp del: schema_defs
      split: option.splits if_splits)

lemma own_active_shift_Inr:
  "own_active_shift auth d sid s = (Inr sh, s') \<longleftrightarrow> s' = s \<and>
     find (\<lambda>r. sh_active_context_key r =
       Some (buildActiveContextKey (au_business_id auth) (au_default_location_id auth) d)) (db_shifts s) = Some sh \<and>
     sh_status sh \<noteq> CLOSED \<and> sh_status sh \<noteq> FORCED_CLOSED \<and>
     sh_shift_id sh = sid \<and> sh_cashier_user_id sh = au_user_id auth"
  by (auto simp: own_active_shift_def getActiveShift_def result_simps split: option.splits if_splits)

lemma own_active_shift_Inl: "own_active_shift auth d sid s = (Inl e, s') \<Longrightarrow> s' = s"
  by (auto simp: own_active_shift_def getActiveShift_def result_simps split: option.splits if_splits)

definition closing_started :: "string \<Rightarrow> string \<Rightarrow> LocalShiftRecord \<Rightarrow> LocalShiftRecord" where
  "closing_started ts cash r = r\<lparr>sh_status := CLOSING, sh_closing_started_at := Some ts,
     sh_blind_actual_cash := Some cash, sh_blind_counted_at := Some ts\<rparr>"

definition shift_closed :: "string \<Rightarrow> LocalShiftRecord \<Rightarrow> LocalShiftRecord" where
  "shift_closed ts r = r\<lparr>sh_status := CLOSED, sh_closed_at := Some ts, sh_active_context_key := None\<rparr>"

lemma shift_updates_keep [simp]:
  "keeps_keys shifts_schema (closing_started ts cash)" "keeps_keys shifts_schema (shift_closed ts)"
  by (simp_all add: keeps_keys_def closing_started_def shift_closed_def)

lemma mark_started:
  assumes "t_ok shifts_schema (db_shifts s)"
  shows "markShiftClosingStarted sid ts cash s =
    (Inr (), s\<lparr>db_shifts := map (\<lambda>r. if sh_shift_id r = sid then closing_started ts cash r else r) (db_shifts s)\<rparr>)"
  using update_keeps(1) [OF assms shift_updates_keep(1), of sid ts cash]
  by (simp add: markShiftClosingStarted_def tableA_def closing_started_def [abs_def])

lemma mark_closed:
  assumes "t_ok shifts_schema (db_shifts s)"
  shows "markShiftClosed sid ts s =
    (Inr (), s\<lparr>db_shifts := map (\<lambda>r. if sh_shift_id r = sid then shift_closed ts r else r) (db_shifts s)\<rparr>)"
  using update_keeps(1) [OF assms shift_updates_keep(2), of sid ts]
  by (simp add: markShiftClosed_def tableA_def shift_closed_def [abs_def])

text \<open>
  Beginning to close either changes nothing or locks the count of one open (or uncounted) shift, whatever
  the preview computation does afterwards.
\<close>

lemma bindA_eq:
  "bindA m f s = (res, s') \<longleftrightarrow> (\<exists>e. m s = (Inl e, s') \<and> res = Inl e) \<or>
     (\<exists>x s1. m s = (Inr x, s1) \<and> f x s1 = (res, s'))"
  by (auto simp: bindA_def split: prod.splits sum.splits)

lemma parse_actual_Inr: "parseNonNegativeActualCash D (JStr c) = Inr a \<Longrightarrow>
    a = c \<and> (\<exists>p z n. parseMoney D c = Inr p \<and> parseMoney D ''0'' = Inr z \<and> moneyCompare D p z = Inr n \<and> 0 \<le> n)"
proof -
  have "(case e of CashOperationError x \<Rightarrow> Inl e | _ \<Rightarrow> Inl (CashOperationError INVALID_AMOUNT)) \<noteq> Inr a" for e
    by (cases e) simp_all
  then show "parseNonNegativeActualCash D (JStr c) = Inr a \<Longrightarrow>
    a = c \<and> (\<exists>p z n. parseMoney D c = Inr p \<and> parseMoney D ''0'' = Inr z \<and> moneyCompare D p z = Inr n \<and> 0 \<le> n)"
    by (auto simp: parseNonNegativeActualCash_def result_simps not_less)
qed

lemma lockCount_writes:
  assumes "t_ok shifts_schema (db_shifts s)" "lockCount sh sid ts cash s = (res, s')"
  shows "s' = s \<or> ((sh_status sh = OPEN \<or> sh_status sh = CLOSING \<and> sh_blind_actual_cash sh = None) \<and>
      s' = s\<lparr>db_shifts := map (\<lambda>r. if sh_shift_id r = sid then closing_started ts cash r else r) (db_shifts s)\<rparr>)"
  using assms(2)
  by (auto simp: lockCount_def mark_started [OF assms(1)] split: if_splits option.splits)

lemma beginShiftClosing_writes:
  assumes "t_ok shifts_schema (db_shifts s)" "beginShiftClosing D E sid cash auth d ts s = (res, s')"
  shows "s' = s \<or> (\<exists>sh. find (\<lambda>r. sh_active_context_key r =
        Some (buildActiveContextKey (au_business_id auth) (au_default_location_id auth) d)) (db_shifts s) = Some sh \<and>
      sh_shift_id sh = sid \<and>
      (sh_status sh = OPEN \<or> sh_status sh = CLOSING \<and> sh_blind_actual_cash sh = None) \<and>
      sh_cashier_user_id sh = au_user_id auth \<and>
      s' = s\<lparr>db_shifts := map (\<lambda>r. if sh_shift_id r = sid then closing_started ts cash r else r) (db_shifts s)\<rparr>)"
proof -
  have "s' = s \<or> (\<exists>sh r. own_active_shift auth d sid s = (Inr sh, s) \<and> lockCount sh sid ts cash s = (r, s'))"
    using assms(2) unfolding beginShiftClosing_def
    by (auto simp: bindA_eq own_active_shift_Inr getMovementsForShift_def
        dest!: own_active_shift_Inl parse_actual_Inr)
  then show ?thesis unfolding own_active_shift_Inr using lockCount_writes [OF assms(1)] by blast
qed

lemma completeShiftClosing_Inl:
  assumes "completeShiftClosing D E H c auth d ts s = (Inl e, s')"
  shows "s' = s"
  using assms
  by (auto simp: completeShiftClosing_def result_simps own_active_shift_Inr getMovementsForShift_def
      dest: own_active_shift_Inl)

lemma completeShiftClosing_Inr:
  assumes "completeShiftClosing D E H c auth d ts s = (Inr snap, s')" "t_ok shifts_schema (db_shifts s)"
  shows "\<exists>sh p t1 t2 t3. find (\<lambda>r. sh_active_context_key r =
        Some (buildActiveContextKey (au_business_id auth) (au_default_location_id auth) d)) (db_shifts s) = Some sh \<and>
      sh_shift_id sh = cc_shift_id c \<and> sh_cashier_user_id sh = au_user_id auth \<and> sh_status sh = CLOSING \<and>
      sh_blind_actual_cash sh = Some (cc_actual_cash c) \<and>
      calculateClosingPreview D
        (sortBy mv_occurred_at (filter (\<lambda>m. mv_shift_id m = cc_shift_id c) (db_cash_movements s)))
        (sh_opening_cash sh) (cc_actual_cash c) = Inr p \<and>
      snap = closing_snapshot H c auth ts p \<and>
      t_add shift_closing_snapshots_schema snap (db_shift_closing_snapshots s) = Inr t1 \<and>
      t_add audit_events_schema (shift_closed_event H c auth d ts sh p) (db_audit_events s) = Inr t2 \<and>
      t_add outbox_schema (close_shift_outbox H c auth d ts p) (db_outbox s) = Inr t3 \<and>
      s' = s\<lparr>db_shift_closing_snapshots := t1, db_audit_events := t2, db_outbox := t3,
        db_shifts := map (\<lambda>r. if sh_shift_id r = cc_shift_id c then shift_closed ts r else r) (db_shifts s)\<rparr>"
proof -
  have closed: "markShiftClosed sid ts s1 = (Inr u, s2) \<longleftrightarrow>
      s2 = s1\<lparr>db_shifts := map (\<lambda>r. if sh_shift_id r = sid then shift_closed ts r else r) (db_shifts s1)\<rparr>"
    if "db_shifts s1 = db_shifts s" for s1 s2 sid u
    using mark_closed [of s1 sid ts] assms(2) that by auto
  show ?thesis
    using assms(1)
    by (auto simp: completeShiftClosing_def result_simps own_active_shift_Inr getMovementsForShift_def closed
        simp del: schema_defs dest!: parse_actual_Inr)
qed

section \<open>The preview and the ledger\<close>

text \<open>A local movement as the ledger of \<open>packages/domain\<close> sees it.\<close>

definition movement_dto :: "LocalCashMovementRecord \<Rightarrow> CashMovementDTO" where
  "movement_dto m = \<lparr>cm_id = mv_id m, cm_shift_id = mv_shift_id m, cm_movement_type = mv_movement_type m,
     cm_amount = mv_amount m, cm_direction = mv_direction m, cm_source_type = mv_source_type m,
     cm_source_id = mv_source_id m, cm_reason_code = mv_reason_code m, cm_notes = mv_notes m,
     cm_occurred_at = mv_occurred_at m, cm_actor_user_id = mv_actor_user_id m,
     cm_correlation_id = mv_correlation_id m\<rparr>"

lemma local_direction_agrees: "localCashMovementDirection = getCashMovementDirection"
proof
  show "localCashMovementDirection t = getCashMovementDirection t" for t by (cases t) simp_all
qed

context decimal_library
begin

lemma preview_fold:
  "ledger_ok (map movement_dto ms) \<Longrightarrow>
   foldE (previewStep D) ''0'' ms = Inr (dec_text (expected_value (map movement_dto ms)))"
proof (induction ms rule: rev_induct)
  case (snoc m ms)
  let ?e = "expected_value (map movement_dto ms)"
  have ok: "ledger_ok (map movement_dto ms)" "amount_ok (movement_dto m)"
    using ledger_ok_snoc [of "map movement_dto ms" "movement_dto m"] snoc.prems by simp_all
  then have "decimal_fraction ?e" using ledger_scaled(1) scaled_fraction by blast
  then have "previewStep D (dec_text ?e) m = applyMovement D (dec_text ?e) (movement_dto m)"
    by (simp add: previewStep_def applyMovement_def movement_dto_def)
  then show ?case
    using snoc.IH [OF ok(1)] movement_text(1) [OF ok(2) ledger_scaled(1) [OF ok(1)]] by (simp add: foldE_append)
qed simp

lemma preview_text:
  assumes "ledger_ok (map movement_dto ms)" "list_ex (\<lambda>m. mv_movement_type m = OPENING_BALANCE) ms"
    "dec_syntax a" "scaled 4 20 (dec_value a)"
  shows "calculateClosingPreview D ms opening a = Inr \<lparr>cp_actual_cash = a,
     cp_expected_cash = dec_text (expected_value (map movement_dto ms)),
     cp_variance = dec_text (dec_value a - expected_value (map movement_dto ms)),
     cp_variance_type = variance_class (dec_value a - expected_value (map movement_dto ms))\<rparr>"
proof -
  let ?e = "expected_value (map movement_dto ms)"
  have sc: "scaled 4 50 ?e" by (rule ledger_scaled(1) [OF assms(1)])
  have canon: "canonical (dec_text (dec_value a))" by simp
  note v = actual_variance [OF canonical_syntax [OF canon] _ sc]
  have "moneySubtract D (dec_text (dec_value a)) (dec_text ?e) = Inr (dec_text (dec_value a - ?e))"
    "decimal_fraction (dec_value a - ?e)"
    using v assms(4) by simp_all
  then show ?thesis
    using assms(2,3) preview_fold [OF assms(1)] scaled_fraction [OF sc]
    by (simp add: calculateClosingPreview_def parse_text canonical_syntax variance_class_def)
qed

end

section \<open>Properties\<close>

text \<open>
  C31. Opening a shift is all or nothing. On any failure, the injected faults included, the database is
  as before. On success the shift, its opening balance, the audit event and a pending outbox command are
  all stored, nothing else changes in those tables, and the constraints of the database still hold.
\<close>

theorem open_shift_all_or_nothing:
  assumes "db_ok s"
  shows "case openShift D E H fault input s of
      (Inl e, s') \<Rightarrow> s' = s
    | (Inr r, s') \<Rightarrow> fault = None \<and> r = opened_shift H input \<and> db_ok s' \<and>
        set (db_shifts s') = insert r (set (db_shifts s)) \<and>
        set (db_cash_movements s') = insert (opening_balance H input) (set (db_cash_movements s)) \<and>
        set (db_audit_events s') = insert (shift_opened_event H input) (set (db_audit_events s)) \<and>
        set (db_outbox s') = insert (open_shift_outbox H input) (set (db_outbox s)) \<and>
        db_transactions s' = db_transactions s \<and> db_shift_closing_snapshots s' = db_shift_closing_snapshots s"
  using openShift_rows [OF assms, of D E H fault input] openShift_Inl [of D E H fault input s]
  by (auto split: prod.splits sum.splits)

text \<open>
  At most one shift is active per business, location and device: while a shift holds the context,
  opening another one is refused with \<open>ACTIVE_SHIFT_ALREADY_EXISTS\<close> and changes nothing, and the shift
  just opened is the one \<open>getActiveShift\<close> finds.
\<close>

theorem one_active_shift_per_context:
  assumes "db_ok s" "openShift D E H fault input s = (Inr r, s')"
    "validateOpenShift D E input' = Inr ()" "os_device_id input' = os_device_id input"
    "au_business_id (os_auth input') = au_business_id (os_auth input)"
    "au_default_location_id (os_auth input') = au_default_location_id (os_auth input)"
  shows "fst (getActiveShift (au_business_id (os_auth input)) (au_default_location_id (os_auth input))
       (os_device_id input) s') = Inr (Some r) \<and>
    openShift D E H' fault' input' s' = (Inl (ShiftOpenError ACTIVE_SHIFT_ALREADY_EXISTS), s')"
proof -
  let ?k = "Some (buildActiveContextKey (au_business_id (os_auth input))
    (au_default_location_id (os_auth input)) (os_device_id input))"
  have ok: "t_ok shifts_schema (db_shifts s)" using assms(1) by (simp add: db_ok_def)
  from openShift_Inr [OF assms(2)] obtain t1 where
    t1: "t_add shifts_schema r (db_shifts s) = Inr t1" "db_shifts s' = t1" "r = opened_shift H input"
    by auto
  then have ok': "t_ok shifts_schema (db_shifts s')" "r \<in> set (db_shifts s')"
    using tbl.add_Inr [OF ok t1(1)] by simp_all
  have key: "sh_active_context_key r = ?k" "sh_status r = OPEN" using t1(3) by (simp_all add: opened_shift_def Let_def)
  have "x = r" if "x \<in> set (db_shifts s')" "sh_active_context_key x = ?k" for x
    using tbl.unique_index [OF ok'(1), of "\<lambda>r. map_option (\<lambda>k. [k]) (sh_active_context_key r)" x r] that ok'(2) key
    by simp
  moreover obtain x where "find (\<lambda>x. sh_active_context_key x = ?k) (db_shifts s') = Some x"
    using ok'(2) key by (metis (mono_tags, lifting) find_None_iff not_None_eq)
  moreover from this have "x \<in> set (db_shifts s')" "sh_active_context_key x = ?k" by (auto simp: find_Some_iff)
  ultimately have found: "find (\<lambda>x. sh_active_context_key x = ?k) (db_shifts s') = Some r" by simp
  have key': "sh_active_context_key (opened_shift H' input') = ?k"
    using assms(4-6) by (simp add: opened_shift_def Let_def)
  show ?thesis
    using found key(2) assms(3) unfolding openShift_def Let_def key'
    by (simp add: getActiveShift_def bindA_def transaction_def)
qed


text \<open>
  C33. The preview and the closing snapshot of the till agree with the domain's cash ledger: for a shift
  with its opening balance recorded, expected cash, variance and variance class are those
  \<open>calculateShiftClosing\<close> computes from the same movements.
\<close>

theorem preview_agrees_with_ledger:
  assumes "decimal_library D V W" "ledger_ok (map movement_dto ms)"
    "list_ex (\<lambda>m. mv_movement_type m = OPENING_BALANCE) ms" "dec_syntax a" "scaled 4 20 (dec_value a)"
  shows "\<exists>p r. calculateClosingPreview D ms opening a = Inr p \<and>
    calculateShiftClosing D (map movement_dto ms) a = Inr r \<and> cp_actual_cash p = a \<and>
    cp_expected_cash p = sc_expected_cash r \<and> cp_variance p = sc_variance r \<and>
    cp_variance_type p = sc_variance_type r"
  using decimal_library.preview_text [OF assms] decimal_library.closing_text [OF assms(1,2,4,5)] by simp

section \<open>A concrete till\<close>

definition demo_now :: "nat \<Rightarrow> string" where "demo_now n = ''2026-08-23''"

definition demo_host :: host_calls where "demo_host = \<lparr>h_uuid = nat_digits, h_now = demo_now\<rparr>"

definition demo_auth :: AuthContextResponse where
  "demo_auth = \<lparr>au_user_id = ''a'', au_business_id = ''B'', au_primary_role = Some ''CASHIER'',
     au_permissions = [''workspace.pos.access'', ''shift.open'', ''shift.close'', ''cash.in'', ''pos.use'',
       ''transaction.create'', ''transaction.complete'', ''payment.record''],
     au_authorization_version = 1, au_offline_valid_until = ''2026-09-01'', au_default_location_id = ''L'',
     au_offline_authorization = None\<rparr>"

definition demo_open :: OpenShiftInput where
  "demo_open = \<lparr>os_auth = demo_auth, os_device_id = ''dev'', os_terminal_id = Some ''T1'',
     os_opening_cash = ''100'', os_opened_at = ''2026-08-23''\<rparr>"

definition demo_shift :: LocalShiftRecord where "demo_shift = opened_shift demo_host demo_open"
definition demo_opening :: LocalCashMovementRecord where "demo_opening = opening_balance demo_host demo_open"

definition demo_db :: pos_db where
  "demo_db = empty_db\<lparr>db_shifts := [demo_shift], db_cash_movements := [demo_opening],
     db_audit_events := [shift_opened_event demo_host demo_open],
     db_outbox := [open_shift_outbox demo_host demo_open]\<rparr>"

lemma demo_open_valid: "validateOpenShift ref_ops demo_env demo_open = Inr ()"
  by code_simp

lemma demo_opens: "openShift ref_ops demo_env demo_host None demo_open empty_db = (Inr demo_shift, demo_db)"
  by (simp add: openShift_def Let_def demo_open_valid demo_db_def demo_shift_def demo_opening_def empty_db_def
      bindA_def catchA_def transaction_def tableA_def faultA_def t_add_def t_get_def t_conflict_def)

theorem open_shift_all_or_nothing_witness:
  "set (db_shifts demo_db) = insert demo_shift (set (db_shifts empty_db)) \<and>
   openShift ref_ops demo_env demo_host (Some after_cash) demo_open empty_db = (Inl (JsError ''Fault: after_cash''), empty_db)"
proof
  show "set (db_shifts demo_db) = insert demo_shift (set (db_shifts empty_db))"
    using open_shift_all_or_nothing [OF empty_db_ok, where D = ref_ops and E = demo_env and H = demo_host and
        fault = None and input = demo_open]
    unfolding demo_opens by simp
  have "fst (openShift ref_ops demo_env demo_host (Some after_cash) demo_open empty_db) = Inl (JsError ''Fault: after_cash'')"
    by (simp add: openShift_def Let_def demo_open_valid empty_db_def
      bindA_def catchA_def transaction_def tableA_def faultA_def t_add_def t_get_def t_conflict_def)
  then show "openShift ref_ops demo_env demo_host (Some after_cash) demo_open empty_db =
      (Inl (JsError ''Fault: after_cash''), empty_db)"
    using open_shift_all_or_nothing [OF empty_db_ok, where D = ref_ops and E = demo_env and H = demo_host and
        fault = "Some after_cash" and input = demo_open]
    by (auto split: prod.splits)
qed

theorem one_active_shift_per_context_witness:
  "openShift ref_ops demo_env demo_host None demo_open demo_db =
     (Inl (ShiftOpenError ACTIVE_SHIFT_ALREADY_EXISTS), demo_db)"
  using one_active_shift_per_context [OF empty_db_ok demo_opens demo_open_valid] by blast

lemma demo_db_ok: "db_ok demo_db"
  by (simp add: db_ok_def demo_db_def empty_db_def t_ok_def)

lemma demo_ledger_of_shift: "ledger_ok (map movement_dto [demo_opening])"
  using demo_amount
  by (simp add: ledger_ok_def amount_ok_def movement_dto_def demo_opening_def opening_balance_def demo_open_def Let_def)

lemma demo_begins: "\<exists>p s'. beginShiftClosing ref_ops demo_env (sh_shift_id demo_shift) ''100'' demo_auth ''dev''
    ''2026-08-23'' demo_db = (Inr p, s')"
proof -
  have auth: "assertOfflineAuthorization demo_env demo_auth ''2026-08-23'' = Inr ()"
    and cash: "parseNonNegativeActualCash ref_ops (JStr ''100'') = Inr ''100''" by code_simp+
  have perm: "''shift.close'' \<in> set (au_permissions demo_auth)" by (simp add: demo_auth_def)
  have own: "own_active_shift demo_auth ''dev'' (sh_shift_id demo_shift) demo_db = (Inr demo_shift, demo_db)"
    by (simp add: own_active_shift_Inr demo_db_def demo_shift_def opened_shift_def demo_open_def demo_auth_def Let_def)
  have open': "sh_status demo_shift = OPEN" by (simp add: demo_shift_def opened_shift_def Let_def)
  have moves: "sortBy mv_occurred_at (filter (\<lambda>m. mv_shift_id m = sh_shift_id demo_shift) (db_cash_movements demo_db)) =
      [demo_opening]"
    by (simp add: sortBy_def sort_by_def demo_db_def demo_opening_def demo_shift_def opened_shift_def opening_balance_def Let_def)
  have "list_ex (\<lambda>m. mv_movement_type m = OPENING_BALANCE) [demo_opening]"
    by (simp add: demo_opening_def opening_balance_def Let_def)
  note preview = ref.preview_text [OF demo_ledger_of_shift this demo_amount]
  have ok: "t_ok shifts_schema (db_shifts demo_db)" using demo_db_ok by (simp add: db_ok_def)
  show ?thesis
    using moves preview
    by (simp add: beginShiftClosing_def bindA_def auth cash perm own open' lockCount_def mark_started [OF ok]
        getMovementsForShift_def)
qed


theorem preview_agrees_with_ledger_witness:
  "\<exists>p r. calculateClosingPreview ref_ops [demo_opening] ''100'' ''100'' = Inr p \<and>
     calculateShiftClosing ref_ops (map movement_dto [demo_opening]) ''100'' = Inr r \<and>
     cp_expected_cash p = sc_expected_cash r"
proof -
  have "list_ex (\<lambda>m. mv_movement_type m = OPENING_BALANCE) [demo_opening]"
    by (simp add: demo_opening_def opening_balance_def Let_def)
  from preview_agrees_with_ledger [OF ref.decimal_library_axioms demo_ledger_of_shift this demo_amount]
  show ?thesis by blast
qed

end
