(* ===== verification/Sales.thy ===== *)
theory Sales
  imports Shifts
begin

text \<open>
  Completing a sale, \<open>packages/local-db/src/sales-manager.ts\<close>: the cart is validated again line by line,
  the totals are recomputed, the tender is checked, and one transaction stores the sale, its items, the
  payment, the stock and cash movements, the audit event and the outbox command. A repeated command
  returns the first result. The cart line is the domain's (the interface the manager declares is a
  selection of its fields). The lemmas show that the stored amounts balance, that the command is
  idempotent and atomic, and what each table gains.
\<close>

section \<open>Error codes and input\<close>

definition SHIFT_REQUIRED :: string where "SHIFT_REQUIRED = ''SHIFT_REQUIRED''"
definition SALE_SHIFT_CONTEXT_MISMATCH :: string where
  "SALE_SHIFT_CONTEXT_MISMATCH = ''SALE_SHIFT_CONTEXT_MISMATCH''"
definition SALE_TERMINAL_REQUIRED :: string where "SALE_TERMINAL_REQUIRED = ''SALE_TERMINAL_REQUIRED''"
definition EMPTY_CART :: string where "EMPTY_CART = ''EMPTY_CART''"
definition SALE_CART_INTEGRITY_INVALID :: string where
  "SALE_CART_INTEGRITY_INVALID = ''SALE_CART_INTEGRITY_INVALID''"
definition SALE_NUMERIC_BOUNDARY_INVALID :: string where
  "SALE_NUMERIC_BOUNDARY_INVALID = ''SALE_NUMERIC_BOUNDARY_INVALID''"
definition SALE_UNIT_CONVERSION_INVALID :: string where
  "SALE_UNIT_CONVERSION_INVALID = ''SALE_UNIT_CONVERSION_INVALID''"
definition PAYMENT_INSUFFICIENT :: string where "PAYMENT_INSUFFICIENT = ''PAYMENT_INSUFFICIENT''"
definition IDEMPOTENCY_KEY_REUSE_ERROR :: string where
  "IDEMPOTENCY_KEY_REUSE_ERROR = ''IDEMPOTENCY_KEY_REUSE_ERROR''"
definition SALE_PERMISSION_DENIED :: string where "SALE_PERMISSION_DENIED = ''SALE_PERMISSION_DENIED''"
definition SALE_AUTHORIZATION_EXPIRED :: string where
  "SALE_AUTHORIZATION_EXPIRED = ''SALE_AUTHORIZATION_EXPIRED''"

record CompleteSaleInput =
  ci_auth :: AuthContextResponse
  ci_device_id :: string
  ci_command_id :: string
  ci_occurred_at :: string
  ci_cart :: Cart
  ci_amount_tendered :: string

datatype SaleFaultPoint =
  sale_after_transaction | sale_after_items | sale_after_payment | sale_after_stock | sale_after_cash |
  sale_after_audit | sale_before_outbox

record NormalizedSaleLine =
  nl_line :: CartLine
  nl_quantity :: QuantityValue
  nl_unit_price :: MoneyValue
  nl_line_total :: MoneyValue
  nl_conversion_factor :: DecimalValue
  nl_base_quantity :: QuantityValue
  nl_base_unit_price :: MoneyValue
  nl_tier_unit_price :: MoneyValue
  nl_tier_min_qty :: "QuantityValue option"
  nl_promotion_value :: "DecimalValue option"
  nl_promotion_discount :: MoneyValue
  nl_promotion_discount_total :: MoneyValue
  nl_tier_line_total :: MoneyValue

record SaleTotals =
  to_subtotal :: MoneyValue
  to_promotion_discount_total :: MoneyValue
  to_grand_total :: MoneyValue

section \<open>Authorization\<close>

definition requiredPermissions :: "string list" where
  "requiredPermissions = [''workspace.pos.access'', ''pos.use'', ''transaction.create'',
     ''transaction.complete'', ''payment.record'']"

definition authorizeSale :: "js_env \<Rightarrow> CompleteSaleInput \<Rightarrow> unit result" where
  "authorizeSale E input =
     (let auth = ci_auth input in
      bindE (throwUnless (list_all (\<lambda>perm. perm \<in> set (au_permissions auth)) requiredPermissions)
               (CompleteSaleError SALE_PERMISSION_DENIED)) (\<lambda>_.
      bindE (throwIf (au_offline_valid_until auth = '''' \<or> ci_occurred_at input = '''')
               (CompleteSaleError SALE_AUTHORIZATION_EXPIRED)) (\<lambda>_.
      bindE (case (dateParse E (au_offline_valid_until auth), dateParse E (ci_occurred_at input)) of
               (Some validUntilMs, Some occurredAtMs) \<Rightarrow>
                 throwIf (validUntilMs < occurredAtMs \<or> issued_after E auth occurredAtMs)
                   (CompleteSaleError SALE_AUTHORIZATION_EXPIRED)
             | _ \<Rightarrow> Inl (CompleteSaleError SALE_AUTHORIZATION_EXPIRED)) (\<lambda>_.
      bindE (throwIf (ca_business_id (ci_cart input) \<noteq> au_business_id auth)
               (CompleteSaleError SALE_CART_INTEGRITY_INVALID)) (\<lambda>_.
      throwIf (ca_lines (ci_cart input) = []) (CompleteSaleError EMPTY_CART))))))"

section \<open>Validating a line again\<close>

text \<open>\<open>a || b\<close> of two checks that may throw.\<close>

definition orE :: "bool result \<Rightarrow> bool result \<Rightarrow> bool result" where
  "orE a b = bindE a (\<lambda>x. if x then Inr True else b)"

definition notE :: "bool result \<Rightarrow> bool result" where
  "notE a = bindE a (\<lambda>x. Inr (\<not> x))"

definition belowZero :: "'d decimal_ops \<Rightarrow> string \<Rightarrow> bool result" where
  "belowZero D m = bindE (parseMoney D ''0'') (\<lambda>z. bindE (moneyCompare D m z) (\<lambda>c. Inr (c < 0)))"

definition notAboveZero :: "'d decimal_ops \<Rightarrow> string \<Rightarrow> bool result" where
  "notAboveZero D m = bindE (parseMoney D ''0'') (\<lambda>z. bindE (moneyCompare D m z) (\<lambda>c. Inr (c \<le> 0)))"

text \<open>\<open>try { ... } catch { throw new CompleteSaleError(..., code) }\<close>\<close>

definition orFail :: "string \<Rightarrow> 'a result \<Rightarrow> 'a result" where
  "orFail code m = catchE m (\<lambda>_. Inl (CompleteSaleError code))"

definition refuseIf :: "bool result \<Rightarrow> js_error \<Rightarrow> unit result" where
  "refuseIf c e = bindE c (\<lambda>b. throwIf b e)"

definition saleQuantity :: "'d decimal_ops \<Rightarrow> CartLine \<Rightarrow> QuantityValue result" where
  "saleQuantity D line =
     bindE (orFail SALE_CART_INTEGRITY_INVALID (
        bindE (parseQuantity D (cl_quantity line)) (\<lambda>q.
        bindE (refuseIf (notAboveZero D q) (CompleteSaleError SALE_CART_INTEGRITY_INVALID)) (\<lambda>_.
        Inr q)))) (\<lambda>q.
     bindE (refuseIf (notE (fitsPrecisionScale D q (JSInt 20) (JSInt 6)))
              (CompleteSaleError SALE_NUMERIC_BOUNDARY_INVALID)) (\<lambda>_.
     Inr q))"

definition saleUnitPrice :: "'d decimal_ops \<Rightarrow> CartLine \<Rightarrow> MoneyValue result" where
  "saleUnitPrice D line =
     bindE (orFail SALE_CART_INTEGRITY_INVALID (
        bindE (parseMoney D (cl_unit_price line)) (\<lambda>p.
        bindE (refuseIf (belowZero D p) (CompleteSaleError SALE_CART_INTEGRITY_INVALID)) (\<lambda>_.
        Inr p)))) (\<lambda>p.
     bindE (refuseIf (notE (fitsPrecisionScale D p (JSInt 20) (JSInt 4)))
              (CompleteSaleError SALE_NUMERIC_BOUNDARY_INVALID)) (\<lambda>_.
     Inr p))"

definition salePricingLayers ::
  "'d decimal_ops \<Rightarrow> CartLine \<Rightarrow> MoneyValue \<Rightarrow> (MoneyValue \<times> MoneyValue \<times> MoneyValue) result" where
  "salePricingLayers D line unitPrice =
     bindE (orFail SALE_CART_INTEGRITY_INVALID (
        bindE (parseMoney D (cl_base_unit_price line)) (\<lambda>base.
        bindE (parseMoney D (cl_tier_unit_price line)) (\<lambda>tier.
        bindE (parseMoney D (cl_promotion_discount line)) (\<lambda>promo.
        bindE (refuseIf (orE (belowZero D base) (orE (belowZero D tier) (orE (belowZero D promo)
                 (orE (bindE (moneyCompare D promo tier) (\<lambda>c. Inr (c > 0)))
                      (bindE (moneySubtract D tier promo) (\<lambda>d. Inr (d \<noteq> unitPrice)))))))
                 (JsError ''pricing layer mismatch'')) (\<lambda>_.
        Inr (base, tier, promo))))))) (\<lambda>(base, tier, promo).
     bindE (refuseIf (orE (notE (fitsPrecisionScale D base (JSInt 20) (JSInt 4)))
                     (orE (notE (fitsPrecisionScale D tier (JSInt 20) (JSInt 4)))
                          (notE (fitsPrecisionScale D promo (JSInt 20) (JSInt 4)))))
              (CompleteSaleError SALE_NUMERIC_BOUNDARY_INVALID)) (\<lambda>_.
     Inr (base, tier, promo)))"

definition saleTierMinQty :: "'d decimal_ops \<Rightarrow> CartLine \<Rightarrow> QuantityValue \<Rightarrow> QuantityValue option result" where
  "saleTierMinQty D line quantity =
     bindE (throwIf ((cl_tier_id line \<noteq> None \<or> cl_tier_code line \<noteq> None \<or> cl_tier_min_qty line \<noteq> None) \<and>
                     (cl_tier_id line = None \<or> cl_tier_code line = None \<or> cl_tier_min_qty line = None))
              (CompleteSaleError SALE_CART_INTEGRITY_INVALID)) (\<lambda>_.
     case cl_tier_min_qty line of
       None \<Rightarrow> Inr None
     | Some m \<Rightarrow> orFail SALE_CART_INTEGRITY_INVALID (
         bindE (parseQuantity D m) (\<lambda>q.
         bindE (refuseIf (orE (notAboveZero D q) (orE (bindE (quantityCompare D q quantity) (\<lambda>c. Inr (c > 0)))
                  (notE (fitsPrecisionScale D q (JSInt 20) (JSInt 6)))))
                  (JsError ''invalid tier minimum'')) (\<lambda>_.
         Inr (Some q)))))"

definition salePromotionValue :: "'d decimal_ops \<Rightarrow> CartLine \<Rightarrow> MoneyValue \<Rightarrow> DecimalValue option result" where
  "salePromotionValue D line promo =
     (let hasPromotion = (cl_promotion_id line \<noteq> None) in
      bindE (if hasPromotion \<noteq> (cl_promotion_type line \<noteq> None) \<or>
                hasPromotion \<noteq> (cl_promotion_value line \<noteq> None) then Inr True
             else if hasPromotion then Inr False
             else bindE (parseMoney D ''0'') (\<lambda>z. bindE (moneyCompare D promo z) (\<lambda>c. Inr (c \<noteq> 0)))) (\<lambda>bad.
      bindE (throwIf bad (CompleteSaleError SALE_CART_INTEGRITY_INVALID)) (\<lambda>_.
      case cl_promotion_value line of
        None \<Rightarrow> Inr None
      | Some v \<Rightarrow> orFail SALE_CART_INTEGRITY_INVALID (
          bindE (parseDecimal D v) (\<lambda>d.
          bindE (refuseIf (orE (belowZero D d) (notE (fitsPrecisionScale D d (JSInt 20) (JSInt 4))))
                   (JsError ''invalid promotion value'')) (\<lambda>_.
          Inr (Some d)))))))"

definition saleConversionFactor :: "'d decimal_ops \<Rightarrow> CartLine \<Rightarrow> DecimalValue result" where
  "saleConversionFactor D line =
     bindE (orFail SALE_UNIT_CONVERSION_INVALID (
        bindE (parseDecimal D (cl_conversion_factor line)) (\<lambda>f.
        bindE (refuseIf (notAboveZero D f) (CompleteSaleError SALE_UNIT_CONVERSION_INVALID)) (\<lambda>_.
        Inr f)))) (\<lambda>f.
     bindE (refuseIf (notE (fitsPrecisionScale D f (JSInt 20) (JSInt 8)))
              (CompleteSaleError SALE_NUMERIC_BOUNDARY_INVALID)) (\<lambda>_.
     Inr f))"

definition boundary :: "'d decimal_ops \<Rightarrow> string \<Rightarrow> int \<Rightarrow> unit result" where
  "boundary D v scale =
     refuseIf (notE (fitsPrecisionScale D v (JSInt 20) (JSInt scale)))
       (CompleteSaleError SALE_NUMERIC_BOUNDARY_INVALID)"

text \<open>One round of the loop over the cart: the normalised line and the running totals.\<close>

definition normalizeLine ::
  "'d decimal_ops \<Rightarrow> js_env \<Rightarrow> SaleTotals \<Rightarrow> CartLine \<Rightarrow> (NormalizedSaleLine \<times> SaleTotals) result" where
  "normalizeLine D E totals line =
     bindE (saleQuantity D line) (\<lambda>quantity.
     bindE (saleUnitPrice D line) (\<lambda>unitPrice.
     bindE (salePricingLayers D line unitPrice) (\<lambda>(base, tier, promo).
     bindE (saleTierMinQty D line quantity) (\<lambda>tierMinQty.
     bindE (salePromotionValue D line promo) (\<lambda>promotionValue.
     bindE (throwIf (dateParse E (cl_pricing_resolved_at line) = None \<or>
                     (cl_pricing_time_status line \<noteq> TRUSTED \<and> cl_pricing_time_status line \<noteq> CLOCK_UNTRUSTED))
              (CompleteSaleError SALE_CART_INTEGRITY_INVALID)) (\<lambda>_.
     bindE (saleConversionFactor D line) (\<lambda>factor.
     bindE (multiplyMoneyByQuantity D unitPrice quantity) (\<lambda>expectedLineTotal.
     bindE (parseMoney D (cl_line_total line)) (\<lambda>lineTotal.
     bindE (throwIf (expectedLineTotal \<noteq> lineTotal) (CompleteSaleError SALE_CART_INTEGRITY_INVALID)) (\<lambda>_.
     bindE (boundary D expectedLineTotal 4) (\<lambda>_.
     bindE (multiplyQuantityByFactor D quantity factor) (\<lambda>baseQuantity.
     bindE (boundary D baseQuantity 6) (\<lambda>_.
     bindE (multiplyMoneyByQuantity D tier quantity) (\<lambda>tierLineTotal.
     bindE (multiplyMoneyByQuantity D promo quantity) (\<lambda>promotionDiscountTotal.
     bindE (moneyAdd D (to_subtotal totals) tierLineTotal) (\<lambda>subtotal.
     bindE (moneyAdd D (to_promotion_discount_total totals) promotionDiscountTotal) (\<lambda>promoTotal.
     bindE (moneyAdd D (to_grand_total totals) expectedLineTotal) (\<lambda>grandTotal.
     bindE (boundary D grandTotal 4) (\<lambda>_.
     Inr (\<lparr>nl_line = line, nl_quantity = quantity, nl_unit_price = unitPrice,
            nl_line_total = expectedLineTotal, nl_conversion_factor = factor,
            nl_base_quantity = baseQuantity, nl_base_unit_price = base, nl_tier_unit_price = tier,
            nl_tier_min_qty = tierMinQty, nl_promotion_value = promotionValue,
            nl_promotion_discount = promo, nl_promotion_discount_total = promotionDiscountTotal,
            nl_tier_line_total = tierLineTotal\<rparr>,
          \<lparr>to_subtotal = subtotal, to_promotion_discount_total = promoTotal, to_grand_total = grandTotal\<rparr>
         ))))))))))))))))))))"

definition normalizeStep ::
  "'d decimal_ops \<Rightarrow> js_env \<Rightarrow> NormalizedSaleLine list \<times> SaleTotals \<Rightarrow> CartLine \<Rightarrow>
   (NormalizedSaleLine list \<times> SaleTotals) result" where
  "normalizeStep D E acc line =
     bindE (normalizeLine D E (snd acc) line) (\<lambda>(nl, totals). Inr (fst acc @ [nl], totals))"

definition normalizeCart ::
  "'d decimal_ops \<Rightarrow> js_env \<Rightarrow> Cart \<Rightarrow> (NormalizedSaleLine list \<times> SaleTotals) result" where
  "normalizeCart D E cart =
     bindE (parseMoney D ''0'') (\<lambda>zero.
     foldE (normalizeStep D E)
       ([], \<lparr>to_subtotal = zero, to_promotion_discount_total = zero, to_grand_total = zero\<rparr>)
       (ca_lines cart))"

section \<open>The tender\<close>

definition saleTender ::
  "'d decimal_ops \<Rightarrow> string \<Rightarrow> MoneyValue \<Rightarrow> (MoneyValue \<times> MoneyValue) result" where
  "saleTender D amountTendered grandTotal =
     bindE (orFail SALE_CART_INTEGRITY_INVALID (
        bindE (parseMoney D amountTendered) (\<lambda>t.
        bindE (refuseIf (belowZero D t) (CompleteSaleError SALE_CART_INTEGRITY_INVALID)) (\<lambda>_.
        Inr t)))) (\<lambda>tendered.
     bindE (moneyCompare D tendered grandTotal) (\<lambda>c.
     bindE (throwIf (c < 0) (CompleteSaleError PAYMENT_INSUFFICIENT)) (\<lambda>_.
     bindE (moneySubtract D tendered grandTotal) (\<lambda>changeDue.
     bindE (boundary D tendered 4) (\<lambda>_.
     bindE (boundary D changeDue 4) (\<lambda>_.
     bindE (boundary D grandTotal 4) (\<lambda>_.
     Inr (tendered, changeDue))))))))"

section \<open>The request fingerprint\<close>

definition promotion_type_text :: "PublishedPromotionType \<Rightarrow> string" where
  "promotion_type_text t = (case t of FIXED_PRICE \<Rightarrow> ''FIXED_PRICE'' | PERCENT_DISCOUNT \<Rightarrow> ''PERCENT_DISCOUNT''
     | FIXED_DISCOUNT \<Rightarrow> ''FIXED_DISCOUNT'' | UnsupportedPromotionType s \<Rightarrow> s)"

definition time_status_text :: "PricingTimeStatus \<Rightarrow> string" where
  "time_status_text t = (case t of TRUSTED \<Rightarrow> ''TRUSTED'' | CLOCK_UNTRUSTED \<Rightarrow> ''CLOCK_UNTRUSTED''
     | UnknownTimeStatus s \<Rightarrow> s)"

definition fingerprint_line :: "NormalizedSaleLine \<Rightarrow> json" where
  "fingerprint_line l = (let c = nl_line l in JObj [
     (''product_id'', JStr (cl_product_id c)), (''product_unit_id'', JStr (cl_product_unit_id c)),
     (''product_name'', JStr (cl_product_name c)), (''variant_name'', JStr (cl_variant_name c)),
     (''unit_code'', JStr (cl_unit_code c)), (''sku'', JStr (cl_sku c)),
     (''quantity'', JStr (nl_quantity l)), (''unit_price'', JStr (nl_unit_price l)),
     (''base_unit_price'', JStr (nl_base_unit_price l)), (''tier_id'', jstr_opt (cl_tier_id c)),
     (''tier_code'', jstr_opt (cl_tier_code c)), (''tier_min_qty'', jstr_opt (nl_tier_min_qty l)),
     (''tier_unit_price'', JStr (nl_tier_unit_price l)), (''promotion_id'', jstr_opt (cl_promotion_id c)),
     (''promotion_type'', jstr_opt (map_option promotion_type_text (cl_promotion_type c))),
     (''promotion_value'', jstr_opt (nl_promotion_value l)),
     (''promotion_discount'', JStr (nl_promotion_discount l)),
     (''pricing_resolved_at'', JStr (cl_pricing_resolved_at c)),
     (''pricing_time_status'', JStr (time_status_text (cl_pricing_time_status c))),
     (''line_total'', JStr (nl_line_total l)), (''conversion_factor'', JStr (nl_conversion_factor l)),
     (''track_inventory'', JBool (cl_track_inventory c)),
     (''price_version_id'', JStr (cl_price_version_id c)),
     (''price_effective_from'', JStr (cl_price_effective_from c))])"

definition requestFingerprint ::
  "CompleteSaleInput \<Rightarrow> NormalizedSaleLine list \<Rightarrow> MoneyValue \<Rightarrow> string" where
  "requestFingerprint input ls tendered = (let auth = ci_auth input in json_stringify (JObj [
     (''business_id'', JStr (au_business_id auth)), (''user_id'', JStr (au_user_id auth)),
     (''authorization_version'', JNum (au_authorization_version auth)),
     (''location_id'', JStr (au_default_location_id auth)), (''device_id'', JStr (ci_device_id input)),
     (''occurred_at'', JStr (ci_occurred_at input)),
     (''cart'', JObj [(''business_id'', JStr (ca_business_id (ci_cart input)))]),
     (''lines'', JArr (map fingerprint_line ls)), (''amount_tendered'', JStr tendered)]))"

section \<open>The rows of a sale\<close>

definition sale_transaction ::
  "host_calls \<Rightarrow> CompleteSaleInput \<Rightarrow> LocalShiftRecord \<Rightarrow> string \<Rightarrow> SaleTotals \<Rightarrow> MoneyValue \<Rightarrow>
   LocalCompletedTransaction" where
  "sale_transaction H input shift terminal totals changeDue = (let auth = ci_auth input in \<lparr>
     tr_transaction_id = h_uuid H 0, tr_command_id = ci_command_id input,
     tr_business_id = au_business_id auth, tr_location_id = au_default_location_id auth,
     tr_terminal_id = terminal, tr_device_id = ci_device_id input, tr_shift_id = sh_shift_id shift,
     tr_transaction_number = ''TRX-'' @ h_uuid H 0, tr_status = ''COMPLETED'',
     tr_sync_status = SYNC_PENDING, tr_customer_id = None, tr_subtotal = to_subtotal totals,
     tr_promotion_discount_total = to_promotion_discount_total totals, tr_line_discount_total = ''0.0000'',
     tr_transaction_discount_total = ''0.0000'', tr_tax_total = ''0.0000'',
     tr_grand_total = to_grand_total totals, tr_total_paid = to_grand_total totals,
     tr_change_amount = changeDue, tr_cost_status = ''COST_PENDING'', tr_created_by = au_user_id auth,
     tr_authorization_version = au_authorization_version auth, tr_occurred_at = ci_occurred_at input,
     tr_completed_at = ci_occurred_at input, tr_created_at = ci_occurred_at input,
     tr_correlation_id = h_uuid H 1\<rparr>)"

definition sale_item ::
  "host_calls \<Rightarrow> CompleteSaleInput \<Rightarrow> string \<Rightarrow> int \<Rightarrow> NormalizedSaleLine \<Rightarrow> LocalCompletedTransactionItem" where
  "sale_item H input itemId lineIndex l = (let c = nl_line l in \<lparr>
     ti_transaction_item_id = itemId, ti_transaction_id = h_uuid H 0, ti_line_index = lineIndex,
     ti_product_id = cl_product_id c, ti_product_unit_id = cl_product_unit_id c,
     ti_product_name_snapshot = cl_product_name c, ti_sku_snapshot = cl_sku c,
     ti_unit_code_snapshot = cl_unit_code c, ti_unit_name_snapshot = cl_variant_name c,
     ti_conversion_snapshot = nl_conversion_factor l, ti_quantity = nl_quantity l,
     ti_base_quantity = nl_base_quantity l, ti_price_version_id_snapshot = cl_price_version_id c,
     ti_price_effective_from_snapshot = cl_price_effective_from c,
     ti_pricing_resolved_at_snapshot = cl_pricing_resolved_at c,
     ti_pricing_time_status_snapshot = cl_pricing_time_status c,
     ti_base_unit_price_snapshot = nl_base_unit_price l, ti_tier_id_snapshot = cl_tier_id c,
     ti_tier_code_snapshot = cl_tier_code c, ti_tier_min_qty_snapshot = nl_tier_min_qty l,
     ti_tier_unit_price_snapshot = nl_tier_unit_price l, ti_promotion_id = cl_promotion_id c,
     ti_promotion_type_snapshot = cl_promotion_type c, ti_promotion_value_snapshot = nl_promotion_value l,
     ti_promotion_discount_snapshot = nl_promotion_discount l,
     ti_manual_line_discount_snapshot = ''0.0000'', ti_transaction_discount_allocation = ''0.0000'',
     ti_final_unit_price_snapshot = nl_unit_price l, ti_line_total = nl_line_total l,
     ti_tax_mode_snapshot = ''NO_PPN'', ti_tax_rate_snapshot = ''0.0000'', ti_tax_amount_snapshot = ''0.0000'',
     ti_cost_unit_snapshot = None, ti_cost_status = ''COST_PENDING'',
     ti_track_inventory_snapshot = cl_track_inventory c, ti_created_at = ci_occurred_at input\<rparr>)"

definition sale_stock_movement ::
  "host_calls \<Rightarrow> CompleteSaleInput \<Rightarrow> string \<Rightarrow> string \<Rightarrow> NormalizedSaleLine \<Rightarrow> QuantityValue \<Rightarrow>
   LocalSaleStockMovement" where
  "sale_stock_movement H input stockId itemId l delta = (let c = nl_line l; auth = ci_auth input in \<lparr>
     sm_stock_movement_id = stockId, sm_business_id = au_business_id auth,
     sm_location_id = au_default_location_id auth, sm_product_id = cl_product_id c,
     sm_movement_type = ''SALE'', sm_base_quantity_delta = delta, sm_source_unit_id = cl_product_unit_id c,
     sm_source_quantity = nl_quantity l, sm_conversion_snapshot = nl_conversion_factor l,
     sm_source_type = ''SALE_TRANSACTION'', sm_source_id = h_uuid H 0, sm_source_line_id = itemId,
     sm_occurred_at = ci_occurred_at input, sm_actor_user_id = au_user_id auth,
     sm_device_id = ci_device_id input, sm_correlation_id = h_uuid H 1\<rparr>)"

text \<open>
  The loop that builds items and stock movements. \<open>n\<close> counts the UUIDs drawn so far: one per item and,
  for a tracked product, one more for the stock movement.
\<close>

fun sale_rows ::
  "'d decimal_ops \<Rightarrow> host_calls \<Rightarrow> CompleteSaleInput \<Rightarrow> nat \<Rightarrow> int \<Rightarrow> NormalizedSaleLine list \<Rightarrow>
   (LocalCompletedTransactionItem list \<times> LocalSaleStockMovement list \<times> nat) result" where
  "sale_rows D H input n lineIndex [] = Inr ([], [], n)"
| "sale_rows D H input n lineIndex (l # ls) =
     (let item = sale_item H input (h_uuid H n) lineIndex l in
      if cl_track_inventory (nl_line l) then
        bindE (quantityNegate D (nl_base_quantity l)) (\<lambda>delta.
        bindE (sale_rows D H input (n + 2) (lineIndex + 1) ls) (\<lambda>(items, stock, m).
        Inr (item # items, sale_stock_movement H input (h_uuid H (n + 1)) (h_uuid H n) l delta # stock, m)))
      else
        bindE (sale_rows D H input (n + 1) (lineIndex + 1) ls) (\<lambda>(items, stock, m).
        Inr (item # items, stock, m)))"

definition sale_payment ::
  "host_calls \<Rightarrow> CompleteSaleInput \<Rightarrow> string \<Rightarrow> SaleTotals \<Rightarrow> MoneyValue \<Rightarrow> MoneyValue \<Rightarrow> LocalCompletedPayment" where
  "sale_payment H input paymentId totals tendered changeDue = (let auth = ci_auth input in \<lparr>
     py_payment_id = paymentId, py_business_id = au_business_id auth, py_transaction_id = h_uuid H 0,
     py_method_code = ''CASH'', py_amount = to_grand_total totals, py_amount_tendered = tendered,
     py_change_amount = changeDue, py_status = ''COMPLETED'', py_confirmation_type = ''CASH_CONFIRMED'',
     py_external_reference = None, py_received_at = ci_occurred_at input,
     py_completed_at = ci_occurred_at input, py_recorded_by = au_user_id auth,
     py_device_id = ci_device_id input, py_correlation_id = h_uuid H 1\<rparr>)"

definition sale_cash_movement ::
  "host_calls \<Rightarrow> CompleteSaleInput \<Rightarrow> string \<Rightarrow> LocalShiftRecord \<Rightarrow> SaleTotals \<Rightarrow> LocalCashMovementRecord" where
  "sale_cash_movement H input cashId shift totals = (let auth = ci_auth input in \<lparr>
     mv_id = cashId, mv_shift_id = sh_shift_id shift, mv_business_id = au_business_id auth,
     mv_location_id = au_default_location_id auth, mv_movement_type = CASH_SALE, mv_direction = IN,
     mv_amount = to_grand_total totals, mv_source_type = ''SALE_TRANSACTION'', mv_source_id = h_uuid H 0,
     mv_reason_code = None, mv_notes = None, mv_occurred_at = ci_occurred_at input,
     mv_actor_user_id = au_user_id auth, mv_correlation_id = Some (h_uuid H 1)\<rparr>)"

definition sale_completed_event ::
  "host_calls \<Rightarrow> CompleteSaleInput \<Rightarrow> string \<Rightarrow> SaleTotals \<Rightarrow> LocalAuditEventRecord" where
  "sale_completed_event H input auditId totals = (let auth = ci_auth input in \<lparr>
     ae_id = auditId, ae_business_id = au_business_id auth,
     ae_location_id = Some (au_default_location_id auth), ae_actor_type = ''USER'',
     ae_actor_user_id = Some (au_user_id auth), ae_actor_role_snapshot = au_primary_role auth,
     ae_action = ''TRANSACTION_COMPLETED'', ae_entity_type = ''SALES_TRANSACTION'',
     ae_entity_id = h_uuid H 0, ae_occurred_at = ci_occurred_at input, ae_recorded_at = h_now H 0,
     ae_device_id = Some (ci_device_id input), ae_session_id = None, ae_reason = None,
     ae_before_data = JNull,
     ae_after_data = JObj [(''status'', JStr ''COMPLETED''), (''transaction_number'', JStr (''TRX-'' @ h_uuid H 0)),
       (''grand_total'', JStr (to_grand_total totals)), (''payment_method'', JStr ''CASH'')],
     ae_correlation_id = Some (h_uuid H 1),
     ae_authorization_version = Some (au_authorization_version auth), ae_sync_status = SYNC_PENDING\<rparr>)"

section \<open>The outbox payload\<close>

definition transaction_json :: "LocalCompletedTransaction \<Rightarrow> json" where
  "transaction_json t = JObj [
     (''transaction_id'', JStr (tr_transaction_id t)), (''command_id'', JStr (tr_command_id t)),
     (''business_id'', JStr (tr_business_id t)), (''location_id'', JStr (tr_location_id t)),
     (''terminal_id'', JStr (tr_terminal_id t)), (''device_id'', JStr (tr_device_id t)),
     (''shift_id'', JStr (tr_shift_id t)), (''transaction_number'', JStr (tr_transaction_number t)),
     (''status'', JStr (tr_status t)), (''sync_status'', JStr (sync_status_text (tr_sync_status t))),
     (''customer_id'', jstr_opt (tr_customer_id t)), (''subtotal'', JStr (tr_subtotal t)),
     (''promotion_discount_total'', JStr (tr_promotion_discount_total t)),
     (''line_discount_total'', JStr (tr_line_discount_total t)),
     (''transaction_discount_total'', JStr (tr_transaction_discount_total t)),
     (''tax_total'', JStr (tr_tax_total t)), (''grand_total'', JStr (tr_grand_total t)),
     (''total_paid'', JStr (tr_total_paid t)), (''change_amount'', JStr (tr_change_amount t)),
     (''cost_status'', JStr (tr_cost_status t)), (''created_by'', JStr (tr_created_by t)),
     (''authorization_version'', JNum (tr_authorization_version t)),
     (''occurred_at'', JStr (tr_occurred_at t)), (''completed_at'', JStr (tr_completed_at t)),
     (''created_at'', JStr (tr_created_at t)), (''correlation_id'', JStr (tr_correlation_id t))]"

definition item_json :: "LocalCompletedTransactionItem \<Rightarrow> json" where
  "item_json i = JObj [
     (''transaction_item_id'', JStr (ti_transaction_item_id i)), (''transaction_id'', JStr (ti_transaction_id i)),
     (''line_index'', JNum (ti_line_index i)), (''product_id'', JStr (ti_product_id i)),
     (''product_unit_id'', JStr (ti_product_unit_id i)),
     (''product_name_snapshot'', JStr (ti_product_name_snapshot i)), (''sku_snapshot'', JStr (ti_sku_snapshot i)),
     (''unit_code_snapshot'', JStr (ti_unit_code_snapshot i)),
     (''unit_name_snapshot'', JStr (ti_unit_name_snapshot i)),
     (''conversion_snapshot'', JStr (ti_conversion_snapshot i)), (''quantity'', JStr (ti_quantity i)),
     (''base_quantity'', JStr (ti_base_quantity i)),
     (''price_version_id_snapshot'', JStr (ti_price_version_id_snapshot i)),
     (''price_effective_from_snapshot'', JStr (ti_price_effective_from_snapshot i)),
     (''pricing_resolved_at_snapshot'', JStr (ti_pricing_resolved_at_snapshot i)),
     (''pricing_time_status_snapshot'', JStr (time_status_text (ti_pricing_time_status_snapshot i))),
     (''base_unit_price_snapshot'', JStr (ti_base_unit_price_snapshot i)),
     (''tier_id_snapshot'', jstr_opt (ti_tier_id_snapshot i)),
     (''tier_code_snapshot'', jstr_opt (ti_tier_code_snapshot i)),
     (''tier_min_qty_snapshot'', jstr_opt (ti_tier_min_qty_snapshot i)),
     (''tier_unit_price_snapshot'', JStr (ti_tier_unit_price_snapshot i)),
     (''promotion_id'', jstr_opt (ti_promotion_id i)),
     (''promotion_type_snapshot'', jstr_opt (map_option promotion_type_text (ti_promotion_type_snapshot i))),
     (''promotion_value_snapshot'', jstr_opt (ti_promotion_value_snapshot i)),
     (''promotion_discount_snapshot'', JStr (ti_promotion_discount_snapshot i)),
     (''manual_line_discount_snapshot'', JStr (ti_manual_line_discount_snapshot i)),
     (''transaction_discount_allocation'', JStr (ti_transaction_discount_allocation i)),
     (''final_unit_price_snapshot'', JStr (ti_final_unit_price_snapshot i)),
     (''line_total'', JStr (ti_line_total i)), (''tax_mode_snapshot'', JStr (ti_tax_mode_snapshot i)),
     (''tax_rate_snapshot'', JStr (ti_tax_rate_snapshot i)),
     (''tax_amount_snapshot'', JStr (ti_tax_amount_snapshot i)),
     (''cost_unit_snapshot'', jstr_opt (ti_cost_unit_snapshot i)), (''cost_status'', JStr (ti_cost_status i)),
     (''track_inventory_snapshot'', JBool (ti_track_inventory_snapshot i)),
     (''created_at'', JStr (ti_created_at i))]"

definition payment_json :: "LocalCompletedPayment \<Rightarrow> json" where
  "payment_json p = JObj [
     (''payment_id'', JStr (py_payment_id p)), (''business_id'', JStr (py_business_id p)),
     (''transaction_id'', JStr (py_transaction_id p)), (''method_code'', JStr (py_method_code p)),
     (''amount'', JStr (py_amount p)), (''amount_tendered'', JStr (py_amount_tendered p)),
     (''change_amount'', JStr (py_change_amount p)), (''status'', JStr (py_status p)),
     (''confirmation_type'', JStr (py_confirmation_type p)),
     (''external_reference'', jstr_opt (py_external_reference p)), (''received_at'', JStr (py_received_at p)),
     (''completed_at'', JStr (py_completed_at p)), (''recorded_by'', JStr (py_recorded_by p)),
     (''device_id'', JStr (py_device_id p)), (''correlation_id'', JStr (py_correlation_id p))]"

definition stock_json :: "LocalSaleStockMovement \<Rightarrow> json" where
  "stock_json m = JObj [
     (''stock_movement_id'', JStr (sm_stock_movement_id m)), (''business_id'', JStr (sm_business_id m)),
     (''location_id'', JStr (sm_location_id m)), (''product_id'', JStr (sm_product_id m)),
     (''movement_type'', JStr (sm_movement_type m)),
     (''base_quantity_delta'', JStr (sm_base_quantity_delta m)),
     (''source_unit_id'', JStr (sm_source_unit_id m)), (''source_quantity'', JStr (sm_source_quantity m)),
     (''conversion_snapshot'', JStr (sm_conversion_snapshot m)), (''source_type'', JStr (sm_source_type m)),
     (''source_id'', JStr (sm_source_id m)), (''source_line_id'', JStr (sm_source_line_id m)),
     (''occurred_at'', JStr (sm_occurred_at m)), (''actor_user_id'', JStr (sm_actor_user_id m)),
     (''device_id'', JStr (sm_device_id m)), (''correlation_id'', JStr (sm_correlation_id m))]"

definition sale_payload ::
  "LocalCompletedTransaction \<Rightarrow> LocalCompletedTransactionItem list \<Rightarrow> LocalCompletedPayment \<Rightarrow>
   LocalSaleStockMovement list \<Rightarrow> LocalCashMovementRecord \<Rightarrow> LocalAuditEventRecord \<Rightarrow> string" where
  "sale_payload t items p stock cash audit = json_stringify (JObj [
     (''payload_version'', JNum 1), (''transaction'', transaction_json t),
     (''items'', JArr (map item_json items)), (''payments'', JArr [payment_json p]),
     (''stock_movements'', JArr (map stock_json stock)),
     (''cash_movements'', JArr [JObj (movement_members cash)]), (''audit_events'', JArr [audit_json audit])])"

section \<open>Completing the sale\<close>

text \<open>The prior result of a command, when its fingerprint is the same.\<close>

definition priorResult :: "CompleteSaleInput \<Rightarrow> string \<Rightarrow> LocalOutboxRecord \<Rightarrow> string db_act" where
  "priorResult input fingerprint existingOutbox =
     (if ob_request_fingerprint existingOutbox = fingerprint then
        bindA (readA (\<lambda>s. find (\<lambda>t. tr_command_id t = ci_command_id input) (db_transactions s))) (\<lambda>existingTx.
        case existingTx of None \<Rightarrow> throwA (JsError ''TypeError'') | Some t \<Rightarrow> retA (tr_transaction_id t))
      else throwA (CompleteSaleError IDEMPOTENCY_KEY_REUSE_ERROR))"

definition findActiveShift :: "CompleteSaleInput \<Rightarrow> LocalShiftRecord list \<Rightarrow> LocalShiftRecord result" where
  "findActiveShift input rows =
     (let auth = ci_auth input; shifts = filter (\<lambda>s. sh_business_id s = au_business_id auth) rows in
      case find (\<lambda>s. sh_status s = OPEN \<and> sh_location_id s = au_default_location_id auth \<and>
                     sh_device_id s = ci_device_id input \<and> sh_cashier_user_id s = au_user_id auth) shifts of
        Some s \<Rightarrow> Inr s
      | None \<Rightarrow>
          (case find (\<lambda>s. sh_status s = OPEN \<and> sh_device_id s = ci_device_id input) shifts of
             Some _ \<Rightarrow> Inl (CompleteSaleError SALE_SHIFT_CONTEXT_MISMATCH)
           | None \<Rightarrow> Inl (CompleteSaleError SHIFT_REQUIRED)))"

definition saleTerminal :: "LocalShiftRecord \<Rightarrow> string result" where
  "saleTerminal shift =
     (case sh_terminal_id shift of
        None \<Rightarrow> Inl (CompleteSaleError SALE_TERMINAL_REQUIRED)
      | Some t \<Rightarrow> if t = '''' then Inl (CompleteSaleError SALE_TERMINAL_REQUIRED) else Inr t)"

definition storeStock :: "LocalSaleStockMovement list \<Rightarrow> unit db_act" where
  "storeStock stock =
     (if stock = [] then retA () else
      tableA db_stock_movements db_stock_movements_update (t_bulkAdd stock_movements_schema stock))"

definition sale_outbox ::
  "host_calls \<Rightarrow> CompleteSaleInput \<Rightarrow> string \<Rightarrow> string \<Rightarrow> string \<Rightarrow> LocalOutboxRecord" where
  "sale_outbox H input outboxId payload fingerprint =
     new_outbox (ci_auth input) outboxId (ci_command_id input) (h_uuid H 0) ''sales.complete''
       (ci_device_id input) (h_uuid H 1) (ci_occurred_at input) payload fingerprint (h_now H 1)"

text \<open>The writes after the items are built, in the order of the source, with its fault points.\<close>

definition storeRows ::
  "host_calls \<Rightarrow> SaleFaultPoint option \<Rightarrow> CompleteSaleInput \<Rightarrow> string \<Rightarrow> LocalCompletedTransaction \<Rightarrow>
   LocalCompletedTransactionItem list \<Rightarrow> LocalSaleStockMovement list \<Rightarrow> LocalCompletedPayment \<Rightarrow>
   LocalCashMovementRecord \<Rightarrow> LocalAuditEventRecord \<Rightarrow> string \<Rightarrow> string db_act" where
  "storeRows H fault input fingerprint tx items stock payment cash audit outboxId =
     bindA (tableA db_transaction_items db_transaction_items_update
              (t_bulkAdd transaction_items_schema items)) (\<lambda>_.
     bindA (faultA fault sale_after_items ''Fault: after_items'') (\<lambda>_.
     bindA (tableA db_payments db_payments_update (t_add payments_schema payment)) (\<lambda>_.
     bindA (faultA fault sale_after_payment ''Fault: after_payment'') (\<lambda>_.
     bindA (storeStock stock) (\<lambda>_.
     bindA (faultA fault sale_after_stock ''Fault: after_stock'') (\<lambda>_.
     bindA (tableA db_cash_movements db_cash_movements_update (t_add cash_movements_schema cash)) (\<lambda>_.
     bindA (faultA fault sale_after_cash ''Fault: after_cash'') (\<lambda>_.
     bindA (tableA db_audit_events db_audit_events_update (t_add audit_events_schema audit)) (\<lambda>_.
     bindA (faultA fault sale_after_audit ''Fault: after_audit'') (\<lambda>_.
     bindA (faultA fault sale_before_outbox ''Fault: before_outbox'') (\<lambda>_.
     bindA (tableA db_outbox db_outbox_update (t_add outbox_schema
              (sale_outbox H input outboxId (sale_payload tx items payment stock cash audit) fingerprint))) (\<lambda>_.
     retA (h_uuid H 0)))))))))))))"

definition storeSale ::
  "'d decimal_ops \<Rightarrow> host_calls \<Rightarrow> SaleFaultPoint option \<Rightarrow> CompleteSaleInput \<Rightarrow> string \<Rightarrow>
   NormalizedSaleLine list \<Rightarrow> SaleTotals \<Rightarrow> MoneyValue \<Rightarrow> MoneyValue \<Rightarrow> LocalShiftRecord \<Rightarrow> string \<Rightarrow> string db_act" where
  "storeSale D H fault input fingerprint ls totals tendered changeDue shift terminal =
     (let tx = sale_transaction H input shift terminal totals changeDue in
      bindA (tableA db_transactions db_transactions_update (t_add transactions_schema tx)) (\<lambda>_.
      bindA (faultA fault sale_after_transaction ''Fault: after_transaction'') (\<lambda>_.
      bindA (liftA (sale_rows D H input 2 0 ls)) (\<lambda>(items, stock, n).
      storeRows H fault input fingerprint tx items stock
        (sale_payment H input (h_uuid H n) totals tendered changeDue)
        (sale_cash_movement H input (h_uuid H (n + 1)) shift totals)
        (sale_completed_event H input (h_uuid H (n + 2)) totals) (h_uuid H (n + 3))))))"

definition saleTransaction ::
  "'d decimal_ops \<Rightarrow> host_calls \<Rightarrow> SaleFaultPoint option \<Rightarrow> CompleteSaleInput \<Rightarrow> string \<Rightarrow>
   NormalizedSaleLine list \<Rightarrow> SaleTotals \<Rightarrow> MoneyValue \<Rightarrow> MoneyValue \<Rightarrow> string db_act" where
  "saleTransaction D H fault input fingerprint ls totals tendered changeDue =
     transaction (
       bindA (readA (\<lambda>s. find (\<lambda>r. ob_command_id r = ci_command_id input) (db_outbox s))) (\<lambda>existingOutbox.
       case existingOutbox of
         Some r \<Rightarrow> priorResult input fingerprint r
       | None \<Rightarrow>
           bindA (readA db_shifts) (\<lambda>shifts.
           bindA (liftA (findActiveShift input shifts)) (\<lambda>shift.
           bindA (liftA (saleTerminal shift)) (\<lambda>terminal.
           storeSale D H fault input fingerprint ls totals tendered changeDue shift terminal)))))"

definition completeSale ::
  "'d decimal_ops \<Rightarrow> js_env \<Rightarrow> host_calls \<Rightarrow> SaleFaultPoint option \<Rightarrow> CompleteSaleInput \<Rightarrow> string db_act" where
  "completeSale D E H fault input =
     bindA (liftA (authorizeSale E input)) (\<lambda>_.
     bindA (liftA (normalizeCart D E (ci_cart input))) (\<lambda>(ls, totals).
     bindA (liftA (saleTender D (ci_amount_tendered input) (to_grand_total totals))) (\<lambda>(tendered, changeDue).
     let fingerprint = requestFingerprint input ls tendered in
     catchA (saleTransaction D H fault input fingerprint ls totals tendered changeDue)
       (\<lambda>err. if err = DexieError ''ConstraintError'' then
           bindA (readA (\<lambda>s. find (\<lambda>r. ob_command_id r = ci_command_id input) (db_outbox s))) (\<lambda>existingOutbox.
           case existingOutbox of
             Some r \<Rightarrow> priorResult input fingerprint r
           | None \<Rightarrow> throwA err)
         else throwA err))))"

section \<open>Reading sales back\<close>

record CompletedSaleAggregate =
  ag_transaction :: LocalCompletedTransaction
  ag_items :: "LocalCompletedTransactionItem list"
  ag_payments :: "LocalCompletedPayment list"
  ag_stock_movements :: "LocalSaleStockMovement list"
  ag_cash_movements :: "LocalCashMovementRecord list"
  ag_audit_events :: "LocalAuditEventRecord list"

definition getCompletedSale :: "string \<Rightarrow> CompletedSaleAggregate db_act" where
  "getCompletedSale transactionId =
     bindA (readA (\<lambda>s. t_get transactions_schema transactionId (db_transactions s))) (\<lambda>found.
     case found of
       None \<Rightarrow> throwA (JsError ''Transaction not found or not completed'')
     | Some t \<Rightarrow>
         if tr_status t \<noteq> ''COMPLETED'' then throwA (JsError ''Transaction not found or not completed'')
         else readA (\<lambda>s. \<lparr>
           ag_transaction = t,
           ag_items = sort_by (\<lambda>a b. ti_line_index a - ti_line_index b)
             (filter (\<lambda>i. ti_transaction_id i = transactionId) (db_transaction_items s)),
           ag_payments = filter (\<lambda>p. py_transaction_id p = transactionId) (db_payments s),
           ag_stock_movements = filter (\<lambda>m. sm_source_id m = transactionId) (db_stock_movements s),
           ag_cash_movements = filter (\<lambda>m. mv_source_id m = transactionId \<and> mv_source_type m = ''SALE_TRANSACTION'')
             (db_cash_movements s),
           ag_audit_events = sortBy ae_occurred_at
             (filter (\<lambda>a. ae_business_id a = tr_business_id t \<and> ae_entity_type a = ''SALES_TRANSACTION'' \<and>
                          ae_entity_id a = transactionId) (db_audit_events s))\<rparr>))"

definition getCompletedSaleByCommandId :: "string \<Rightarrow> CompletedSaleAggregate db_act" where
  "getCompletedSaleByCommandId commandId =
     bindA (readA (\<lambda>s. find (\<lambda>t. tr_command_id t = commandId) (db_transactions s))) (\<lambda>found.
     case found of
       None \<Rightarrow> throwA (JsError ''Transaction not found or not completed'')
     | Some t \<Rightarrow> getCompletedSale (tr_transaction_id t))"

definition listCompletedTransactions ::
  "js_env \<Rightarrow> string \<Rightarrow> js_number option \<Rightarrow> LocalCompletedTransaction list db_act" where
  "listCompletedTransactions E businessId limitArg =
     (let limit = (case limitArg of None \<Rightarrow> JSInt 100 | Some l \<Rightarrow> l) in
      bindA (liftA (throwIf (\<not> isSafeInteger limit \<or> js_int limit \<le> 0) (JsError ''TypeError''))) (\<lambda>_.
      readA (\<lambda>s. take (nat (js_int limit))
        (sort_by (\<lambda>l r. localeCompare E (tr_occurred_at r) (tr_occurred_at l))
          (filter (\<lambda>t. tr_business_id t = businessId \<and> tr_status t = ''COMPLETED'') (db_transactions s))))))"

section \<open>What a completed sale wrote\<close>

lemma sale_fault_none: "\<lbrakk>(f :: SaleFaultPoint option) \<noteq> Some sale_after_transaction; f \<noteq> Some sale_after_items;
    f \<noteq> Some sale_after_payment; f \<noteq> Some sale_after_stock; f \<noteq> Some sale_after_cash;
    f \<noteq> Some sale_after_audit; f \<noteq> Some sale_before_outbox\<rbrakk> \<Longrightarrow> f = None"
proof (cases f)
  case (Some p)
  moreover assume "f \<noteq> Some sale_after_transaction" "f \<noteq> Some sale_after_items" "f \<noteq> Some sale_after_payment"
    "f \<noteq> Some sale_after_stock" "f \<noteq> Some sale_after_cash" "f \<noteq> Some sale_after_audit"
    "f \<noteq> Some sale_before_outbox"
  ultimately show ?thesis by (cases p) simp_all
qed simp

lemma bulkAdd_Nil: "t_bulkAdd S [] t = Inr t"
  by (simp add: t_bulkAdd_def)

lemma storeStock_Inr: "storeStock stock s = (Inr u, s') \<longleftrightarrow>
    (\<exists>t. t_bulkAdd stock_movements_schema stock (db_stock_movements s) = Inr t \<and> s' = s\<lparr>db_stock_movements := t\<rparr>)"
  by (cases "stock = []") (auto simp: storeStock_def result_simps bulkAdd_Nil)

lemma storeRows_Inr:
  assumes "storeRows H fault input fp tx items stock payment cash audit oid s = (Inr r, s')"
  shows "fault \<noteq> Some sale_after_items \<and> fault \<noteq> Some sale_after_payment \<and> fault \<noteq> Some sale_after_stock \<and>
    fault \<noteq> Some sale_after_cash \<and> fault \<noteq> Some sale_after_audit \<and> fault \<noteq> Some sale_before_outbox \<and>
    r = h_uuid H 0 \<and> (\<exists>t2 t3 t4 t5 t6 t7.
    t_bulkAdd transaction_items_schema items (db_transaction_items s) = Inr t2 \<and>
    t_add payments_schema payment (db_payments s) = Inr t3 \<and>
    t_bulkAdd stock_movements_schema stock (db_stock_movements s) = Inr t4 \<and>
    t_add cash_movements_schema cash (db_cash_movements s) = Inr t5 \<and>
    t_add audit_events_schema audit (db_audit_events s) = Inr t6 \<and>
    t_add outbox_schema (sale_outbox H input oid (sale_payload tx items payment stock cash audit) fp) (db_outbox s) = Inr t7 \<and>
    s' = s\<lparr>db_transaction_items := t2, db_payments := t3, db_stock_movements := t4,
      db_cash_movements := t5, db_audit_events := t6, db_outbox := t7\<rparr>)"
  using assms unfolding storeRows_def
  by (clarsimp simp: bindA_eq_Inr tableA_eq_Inr faultA_eq storeStock_Inr simp del: schema_defs)

lemma storeSale_Inr:
  assumes "storeSale D H fault input fp ls totals tendered change shift terminal s = (Inr r, s')"
  shows "fault = None \<and> r = h_uuid H 0 \<and> (\<exists>items stock n t1 t2 t3 t4 t5 t6 t7 payload.
    sale_rows D H input 2 0 ls = Inr (items, stock, n) \<and>
    t_add transactions_schema (sale_transaction H input shift terminal totals change) (db_transactions s) = Inr t1 \<and>
    t_bulkAdd transaction_items_schema items (db_transaction_items s) = Inr t2 \<and>
    t_add payments_schema (sale_payment H input (h_uuid H n) totals tendered change) (db_payments s) = Inr t3 \<and>
    t_bulkAdd stock_movements_schema stock (db_stock_movements s) = Inr t4 \<and>
    t_add cash_movements_schema (sale_cash_movement H input (h_uuid H (n + 1)) shift totals) (db_cash_movements s) = Inr t5 \<and>
    t_add audit_events_schema (sale_completed_event H input (h_uuid H (n + 2)) totals) (db_audit_events s) = Inr t6 \<and>
    t_add outbox_schema (sale_outbox H input (h_uuid H (n + 3)) payload fp) (db_outbox s) = Inr t7 \<and>
    s' = s\<lparr>db_transactions := t1, db_transaction_items := t2, db_payments := t3, db_stock_movements := t4,
      db_cash_movements := t5, db_audit_events := t6, db_outbox := t7\<rparr>)"
proof -
  obtain items stock n t1 where rows: "sale_rows D H input 2 0 ls = Inr (items, stock, n)"
    and t1: "t_add transactions_schema (sale_transaction H input shift terminal totals change) (db_transactions s) = Inr t1"
    and f: "fault \<noteq> Some sale_after_transaction"
    and st: "storeRows H fault input fp (sale_transaction H input shift terminal totals change) items stock
        (sale_payment H input (h_uuid H n) totals tendered change)
        (sale_cash_movement H input (h_uuid H (n + 1)) shift totals)
        (sale_completed_event H input (h_uuid H (n + 2)) totals) (h_uuid H (n + 3)) (s\<lparr>db_transactions := t1\<rparr>) = (Inr r, s')"
    using assms by (auto simp: storeSale_def Let_def bindA_eq_Inr tableA_eq_Inr faultA_eq simp del: schema_defs)
  show ?thesis
    using storeRows_Inr [OF st] rows t1 f sale_fault_none [of fault] by (simp del: schema_defs) metis
qed

lemma priorResult_readonly: "priorResult input fp r s = (res, s') \<Longrightarrow> s' = s"
  by (auto simp: priorResult_def bindA_eq split: if_splits option.splits)

lemma saleTransaction_Inl:
  "saleTransaction D H fault input fp ls totals tendered change s = (Inl e, s') \<Longrightarrow> s' = s"
  by (simp add: saleTransaction_def transaction_eq_Inl)

lemma completeSale_Inl:
  assumes "completeSale D E H fault input s = (Inl e, s')"
  shows "s' = s"
  using assms
  by (auto simp: completeSale_def Let_def result_simps dest!: priorResult_readonly saleTransaction_Inl
      split: if_splits option.splits)

lemma priorResult_Inr:
  "priorResult input fp r s = (Inr tid, s') \<longleftrightarrow> s' = s \<and> ob_request_fingerprint r = fp \<and>
     (\<exists>t. find (\<lambda>t. tr_command_id t = ci_command_id input) (db_transactions s) = Some t \<and> tid = tr_transaction_id t)"
  by (auto simp: priorResult_def result_simps split: option.splits if_splits)

text \<open>The two ways a sale succeeds: the command was completed before, or it is stored now.\<close>

lemma completeSale_Inr:
  assumes "completeSale D E H fault input s = (Inr tid, s')"
  shows "\<exists>ls totals tendered change. authorizeSale E input = Inr () \<and>
    normalizeCart D E (ci_cart input) = Inr (ls, totals) \<and>
    saleTender D (ci_amount_tendered input) (to_grand_total totals) = Inr (tendered, change) \<and>
    ((\<exists>r. find (\<lambda>r. ob_command_id r = ci_command_id input) (db_outbox s) = Some r \<and>
        ob_request_fingerprint r = requestFingerprint input ls tendered \<and> s' = s \<and>
        (\<exists>t. find (\<lambda>t. tr_command_id t = ci_command_id input) (db_transactions s) = Some t \<and> tid = tr_transaction_id t)) \<or>
     (find (\<lambda>r. ob_command_id r = ci_command_id input) (db_outbox s) = None \<and>
      (\<exists>shift terminal. findActiveShift input (db_shifts s) = Inr shift \<and> saleTerminal shift = Inr terminal \<and>
        storeSale D H fault input (requestFingerprint input ls tendered) ls totals tendered change shift terminal s =
          (Inr tid, s'))))"
proof -
  obtain ls totals tendered change where pre: "authorizeSale E input = Inr ()"
    "normalizeCart D E (ci_cart input) = Inr (ls, totals)"
    "saleTender D (ci_amount_tendered input) (to_grand_total totals) = Inr (tendered, change)"
    and tx: "saleTransaction D H fault input (requestFingerprint input ls tendered) ls totals tendered change s = (Inr tid, s') \<or>
      (\<exists>s1 r. (\<exists>e. saleTransaction D H fault input (requestFingerprint input ls tendered) ls totals tendered change s = (Inl e, s1)) \<and>
         find (\<lambda>r. ob_command_id r = ci_command_id input) (db_outbox s1) = Some r \<and>
         priorResult input (requestFingerprint input ls tendered) r s1 = (Inr tid, s'))"
    using assms
    by (auto simp: completeSale_def Let_def result_simps split: if_splits option.splits)
  have "(\<exists>r. find (\<lambda>r. ob_command_id r = ci_command_id input) (db_outbox s) = Some r \<and>
        priorResult input (requestFingerprint input ls tendered) r s = (Inr tid, s')) \<or>
     (find (\<lambda>r. ob_command_id r = ci_command_id input) (db_outbox s) = None \<and>
      (\<exists>shift terminal. findActiveShift input (db_shifts s) = Inr shift \<and> saleTerminal shift = Inr terminal \<and>
        storeSale D H fault input (requestFingerprint input ls tendered) ls totals tendered change shift terminal s =
          (Inr tid, s')))"
    using tx
  proof
    assume "saleTransaction D H fault input (requestFingerprint input ls tendered) ls totals tendered change s = (Inr tid, s')"
    then show ?thesis
      by (auto simp: saleTransaction_def result_simps split: option.splits)
  qed (use saleTransaction_Inl in blast)
  then show ?thesis using pre unfolding priorResult_Inr by blast
qed

section \<open>The amounts of a normalised cart\<close>

lemma orFail_Inr [result_simps]: "orFail code m = Inr x \<longleftrightarrow> m = Inr x"
  by (auto simp: orFail_def result_simps)

lemma refuseIf_Inr [result_simps]: "refuseIf c e = Inr u \<longleftrightarrow> c = Inr False"
  by (auto simp: refuseIf_def result_simps)

lemma orE_False [result_simps]: "orE a b = Inr False \<longleftrightarrow> a = Inr False \<and> b = Inr False"
  by (auto simp: orE_def result_simps)

lemma notE_False [result_simps]: "notE a = Inr False \<longleftrightarrow> a = Inr True"
  by (auto simp: notE_def result_simps)

lemma normalizeStep_Inr: "normalizeStep D E acc c = Inr (ls, t) \<longleftrightarrow>
    (\<exists>l. normalizeLine D E (snd acc) c = Inr (l, t) \<and> ls = fst acc @ [l])"
  by (auto simp: normalizeStep_def bindE_eq_Inr)

text \<open>What the checks leave of a line: every amount in its range and the layers consistent.\<close>

definition nl_ok :: "NormalizedSaleLine \<Rightarrow> bool" where
  "nl_ok l = (qty_ok (nl_quantity l) \<and> money_ok (nl_unit_price l) \<and> money_ok (nl_base_unit_price l) \<and>
     money_ok (nl_tier_unit_price l) \<and> money_ok (nl_promotion_discount l) \<and> money_ok (nl_line_total l) \<and>
     dec_value (nl_unit_price l) = dec_value (nl_tier_unit_price l) - dec_value (nl_promotion_discount l) \<and>
     dec_value (nl_line_total l) = dec_value (nl_unit_price l) * dec_value (nl_quantity l) \<and>
     qty_ok (nl_base_quantity l) \<and>
     dec_value (nl_base_quantity l) = dec_value (nl_quantity l) * dec_value (nl_conversion_factor l))"

definition nl_same :: "NormalizedSaleLine \<Rightarrow> bool" where
  "nl_same l = (dec_value (nl_quantity l) = dec_value (cl_quantity (nl_line l)) \<and>
     dec_value (nl_unit_price l) = dec_value (cl_unit_price (nl_line l)) \<and>
     dec_value (nl_conversion_factor l) = dec_value (cl_conversion_factor (nl_line l)))"

definition layer_sum :: "(NormalizedSaleLine \<Rightarrow> string) \<Rightarrow> NormalizedSaleLine list \<Rightarrow> rat" where
  "layer_sum f ls = (\<Sum>l\<leftarrow>ls. dec_value (f l) * dec_value (nl_quantity l))"

context decimal_library
begin

lemma belowZero_text: "canonical m \<Longrightarrow> belowZero D m = Inr (dec_value m < 0)"
  by (simp add: belowZero_def)

lemma notAboveZero_text: "canonical m \<Longrightarrow> notAboveZero D m = Inr (dec_value m \<le> 0)"
  by (simp add: notAboveZero_def)

lemma boundary_text:
  "canonical v \<Longrightarrow> boundary D v 4 = Inr u \<longleftrightarrow> scaled 4 20 (dec_value v)"
  "canonical v \<Longrightarrow> boundary D v 6 = Inr u \<longleftrightarrow> scaled 6 20 (dec_value v)"
  by (simp_all add: boundary_def result_simps fits_20_text canonical_syntax)

lemma saleQuantity_Inr: "saleQuantity D line = Inr q \<Longrightarrow> qty_ok q \<and> dec_value q = dec_value (cl_quantity line)"
  by (auto simp: saleQuantity_def result_simps money_family parse_Inr notAboveZero_text fits_20_text
      canonical_syntax qty_ok_def)

lemma saleUnitPrice_Inr: "saleUnitPrice D line = Inr p \<Longrightarrow> money_ok p \<and> dec_value p = dec_value (cl_unit_price line)"
  by (auto simp: saleUnitPrice_def result_simps parse_Inr belowZero_text fits_20_text canonical_syntax money_ok_def)

lemma salePricingLayers_Inr:
  assumes "salePricingLayers D line u = Inr (b, t, p)"
  shows "money_ok b \<and> money_ok t \<and> money_ok p \<and> canonical u \<and> dec_value u = dec_value t - dec_value p"
proof -
  have c: "canonical b" "canonical t" "canonical p"
    and layers: "0 \<le> dec_value b" "0 \<le> dec_value t" "0 \<le> dec_value p" "moneySubtract D t p = Inr u"
    and fits: "scaled 4 20 (dec_value b)" "scaled 4 20 (dec_value t)" "scaled 4 20 (dec_value p)"
    using assms
    by (auto simp: salePricingLayers_def result_simps parse_Inr belowZero_text fits_20_text canonical_syntax)
  have "sig80 (dec_value t - dec_value p)" using scaled_sig80 [OF scaled_diff [OF fits(2,3)]] by simp
  then have "u = dec_text (dec_value t - dec_value p)" "decimal_fraction (dec_value t - dec_value p)"
    using subtract_text [of t p] c layers(4) by (simp_all add: canonical_syntax)
  then show ?thesis using c layers fits by (simp add: money_ok_def)
qed

lemma saleConversionFactor_Inr: "saleConversionFactor D line = Inr f \<Longrightarrow>
    canonical f \<and> 0 < dec_value f \<and> scaled 8 20 (dec_value f) \<and> dec_value f = dec_value (cl_conversion_factor line)"
  by (auto simp: saleConversionFactor_def result_simps money_family parse_Inr notAboveZero_text fits_20_text
      canonical_syntax)

lemma normalizeLine_Inr:
  assumes "normalizeLine D E totals line = Inr (l, totals')"
  shows "nl_ok l \<and> nl_same l \<and> nl_line l = line \<and>
    (\<exists>tl pl. multiplyMoneyByQuantity D (nl_tier_unit_price l) (nl_quantity l) = Inr tl \<and>
      multiplyMoneyByQuantity D (nl_promotion_discount l) (nl_quantity l) = Inr pl \<and>
      moneyAdd D (to_subtotal totals) tl = Inr (to_subtotal totals') \<and>
      moneyAdd D (to_promotion_discount_total totals) pl = Inr (to_promotion_discount_total totals') \<and>
      moneyAdd D (to_grand_total totals) (nl_line_total l) = Inr (to_grand_total totals')) \<and>
    boundary D (to_grand_total totals') 4 = Inr ()"
proof -
  obtain q u b t p f lt bq where
    q: "saleQuantity D line = Inr q" and u: "saleUnitPrice D line = Inr u"
    and layers: "salePricingLayers D line u = Inr (b, t, p)" and f: "saleConversionFactor D line = Inr f"
    and lt: "multiplyMoneyByQuantity D u q = Inr lt" "boundary D lt 4 = Inr ()"
    and bq: "multiplyQuantityByFactor D q f = Inr bq" "boundary D bq 6 = Inr ()"
    and l: "nl_line l = line" "nl_quantity l = q" "nl_unit_price l = u" "nl_line_total l = lt"
      "nl_conversion_factor l = f" "nl_base_quantity l = bq" "nl_base_unit_price l = b"
      "nl_tier_unit_price l = t" "nl_promotion_discount l = p"
    and rest: "(\<exists>tl pl. multiplyMoneyByQuantity D t q = Inr tl \<and> multiplyMoneyByQuantity D p q = Inr pl \<and>
      moneyAdd D (to_subtotal totals) tl = Inr (to_subtotal totals') \<and>
      moneyAdd D (to_promotion_discount_total totals) pl = Inr (to_promotion_discount_total totals') \<and>
      moneyAdd D (to_grand_total totals) lt = Inr (to_grand_total totals')) \<and>
      boundary D (to_grand_total totals') 4 = Inr ()"
    using assms unfolding normalizeLine_def
    by (clarsimp simp: bindE_eq_Inr throwIf_eq_Inr split: prod.splits)
  have qok: "qty_ok q" and uok: "money_ok u" using saleQuantity_Inr [OF q] saleUnitPrice_Inr [OF u] by simp_all
  note lay = salePricingLayers_Inr [OF layers]
  have fac: "canonical f" "0 < dec_value f" "scaled 8 20 (dec_value f)"
    using saleConversionFactor_Inr [OF f] by (metis, metis, metis)
  have lt': "lt = dec_text (dec_value u * dec_value q)" "decimal_fraction (dec_value u * dec_value q)"
    using product_text [OF uok qok] lt(1) by simp_all
  then have "money_ok lt" "dec_value lt = dec_value u * dec_value q"
    using lt(2) boundary_text(1) [of lt] uok qok by (simp_all add: money_ok_def qty_ok_def)
  moreover have "scaled 14 40 (dec_value q * dec_value f)"
    using scaled_mult [of 6 20 "dec_value q" 8 20 "dec_value f"] fac qok by (simp add: qty_ok_def)
  then have bq': "bq = dec_text (dec_value q * dec_value f)" "decimal_fraction (dec_value q * dec_value f)"
    using multiply_text [of q f] scaled_sig80 bq(1) fac qok
    by (auto simp: money_family canonical_syntax qty_ok_def)
  then have "qty_ok bq" "dec_value bq = dec_value q * dec_value f"
    using bq(2) boundary_text(2) [of bq] fac qok by (simp_all add: qty_ok_def)
  ultimately show ?thesis
    using qok uok lay rest l saleQuantity_Inr [OF q] saleUnitPrice_Inr [OF u] saleConversionFactor_Inr [OF f]
    by (simp add: nl_ok_def nl_same_def)
qed

lemma layer_scaled:
  assumes "\<forall>l \<in> set ls. nl_ok l" "length ls \<le> 10 ^ 30" "\<And>l. nl_ok l \<Longrightarrow> money_ok (f l)"
  shows "scaled 10 70 (layer_sum f ls)"
proof -
  have "scaled 10 40 (dec_value (f l) * dec_value (nl_quantity l))" if "nl_ok l" for l
    using product_text(2) [of "f l" "nl_quantity l"] assms(3) [OF that] that [unfolded nl_ok_def] by blast
  then show ?thesis
    unfolding layer_sum_def
    using scaled_sum [of ls 10 40 "\<lambda>l. dec_value (f l) * dec_value (nl_quantity l)" 30] assms(1,2) by simp
qed

lemma normalize_fold:
  assumes "foldE (normalizeStep D E)
      ([], \<lparr>to_subtotal = ''0'', to_promotion_discount_total = ''0'', to_grand_total = ''0''\<rparr>) cs = Inr (ls, totals)"
    "length cs \<le> 10 ^ 30"
  shows "map nl_line ls = cs \<and> (\<forall>l \<in> set ls. nl_ok l) \<and> (\<forall>l \<in> set ls. nl_same l) \<and>
    totals = \<lparr>to_subtotal = dec_text (layer_sum nl_tier_unit_price ls),
      to_promotion_discount_total = dec_text (layer_sum nl_promotion_discount ls),
      to_grand_total = dec_text (layer_sum nl_unit_price ls)\<rparr> \<and>
    (ls \<noteq> [] \<longrightarrow> scaled 4 20 (layer_sum nl_unit_price ls))"
  using assms
proof (induction cs arbitrary: ls totals rule: rev_induct)
  case Nil
  then show ?case by (simp add: layer_sum_def)
next
  case (snoc c cs)
  obtain ls0 t0 l where
    pre: "foldE (normalizeStep D E)
      ([], \<lparr>to_subtotal = ''0'', to_promotion_discount_total = ''0'', to_grand_total = ''0''\<rparr>) cs = Inr (ls0, t0)"
    and l: "normalizeLine D E t0 c = Inr (l, totals)" "ls = ls0 @ [l]"
    using snoc.prems(1) by (auto simp: foldE_append bindE_eq_Inr normalizeStep_Inr)
  have IH: "map nl_line ls0 = cs" "\<forall>l \<in> set ls0. nl_ok l"
    "t0 = \<lparr>to_subtotal = dec_text (layer_sum nl_tier_unit_price ls0),
      to_promotion_discount_total = dec_text (layer_sum nl_promotion_discount ls0),
      to_grand_total = dec_text (layer_sum nl_unit_price ls0)\<rparr>"
    "\<forall>l \<in> set ls0. nl_same l"
    using snoc.IH [OF pre] snoc.prems(2) by simp_all
  note n = normalizeLine_Inr [OF l(1)]
  have len: "length ls0 \<le> 10 ^ 30" using snoc.prems(2) IH(1) by (metis length_map length_append le_add1 le_trans)
  have sum70: "scaled 10 70 (layer_sum f ls0)" if "\<And>l. nl_ok l \<Longrightarrow> money_ok (f l)" for f
    using layer_scaled [OF IH(2) len that] .
  have add: "moneyAdd D (dec_text (layer_sum f ls0)) (dec_text (dec_value (f l) * dec_value (nl_quantity l))) =
      Inr (dec_text (layer_sum f (ls0 @ [l])))" if "\<And>l. nl_ok l \<Longrightarrow> money_ok (f l)" for f
    using add_text_text [OF sum70 [OF that] scaled_mono_digits [OF product_text(2), of "f l" "nl_quantity l" 70]] that n
    by (simp add: layer_sum_def nl_ok_def)
  have total: "nl_line_total l = dec_text (dec_value (nl_unit_price l) * dec_value (nl_quantity l))"
    using n by (metis nl_ok_def dec_text_value money_okD(1))
  have eqs: "to_subtotal totals = dec_text (layer_sum nl_tier_unit_price ls)"
    "to_promotion_discount_total totals = dec_text (layer_sum nl_promotion_discount ls)"
    "to_grand_total totals = dec_text (layer_sum nl_unit_price ls)"
    using n add [of nl_tier_unit_price] add [of nl_promotion_discount] add [of nl_unit_price] total
      product_text(1) [of "nl_tier_unit_price l" "nl_quantity l"]
      product_text(1) [of "nl_promotion_discount l" "nl_quantity l"]
    by (auto simp: IH(3) l(2) nl_ok_def)
  have frac: "decimal_fraction (layer_sum nl_unit_price ls)"
  proof -
    have "scaled 10 70 (dec_value (nl_unit_price l) * dec_value (nl_quantity l))"
      using scaled_mono_digits [OF product_text(2), of "nl_unit_price l" "nl_quantity l" 70] n by (simp add: nl_ok_def)
    from scaled_add [OF sum70 this] show ?thesis
      by (auto simp: l(2) layer_sum_def nl_ok_def intro: scaled_fraction)
  qed
  then have "scaled 4 20 (layer_sum nl_unit_price ls)"
    using n boundary_text(1) [of "to_grand_total totals"] by (simp add: eqs(3))
  then show ?case using IH(1,2,4) n l(2) eqs by simp
qed

lemma normalizeCart_Inr:
  assumes "normalizeCart D E cart = Inr (ls, totals)" "length (ca_lines cart) \<le> 10 ^ 30" "ca_lines cart \<noteq> []"
  shows "map nl_line ls = ca_lines cart" "\<forall>l \<in> set ls. nl_ok l"
    "money_ok (to_grand_total totals)" "to_grand_total totals = dec_text (layer_sum nl_unit_price ls)"
    "dec_value (to_grand_total totals) = layer_sum nl_unit_price ls"
    "to_subtotal totals = dec_text (layer_sum nl_tier_unit_price ls)"
    "to_promotion_discount_total totals = dec_text (layer_sum nl_promotion_discount ls)"
    "\<forall>l \<in> set ls. nl_same l"
proof -
  have f: "map nl_line ls = ca_lines cart" "\<forall>l \<in> set ls. nl_ok l"
    "totals = \<lparr>to_subtotal = dec_text (layer_sum nl_tier_unit_price ls),
      to_promotion_discount_total = dec_text (layer_sum nl_promotion_discount ls),
      to_grand_total = dec_text (layer_sum nl_unit_price ls)\<rparr>"
    "ls \<noteq> [] \<longrightarrow> scaled 4 20 (layer_sum nl_unit_price ls)" "\<forall>l \<in> set ls. nl_same l"
    using normalize_fold [of E "ca_lines cart" ls totals] assms(1,2) by (simp_all add: normalizeCart_def)
  then show "map nl_line ls = ca_lines cart" "\<forall>l \<in> set ls. nl_ok l"
    "to_grand_total totals = dec_text (layer_sum nl_unit_price ls)"
    "to_subtotal totals = dec_text (layer_sum nl_tier_unit_price ls)"
    "to_promotion_discount_total totals = dec_text (layer_sum nl_promotion_discount ls)"
    "\<forall>l \<in> set ls. nl_same l" by simp_all
  have sc: "scaled 4 20 (layer_sum nl_unit_price ls)" using f(1,4) assms(3) by auto
  then show val: "dec_value (to_grand_total totals) = layer_sum nl_unit_price ls" using f(3) by simp
  have "0 \<le> layer_sum nl_unit_price ls"
    unfolding layer_sum_def using f(2) by (intro sum_list_nonneg) (auto simp: nl_ok_def money_ok_def qty_ok_def)
  then show "money_ok (to_grand_total totals)" using sc val f(3) by (simp add: money_ok_def)
qed

lemma layer_totals:
  assumes "normalizeCart D E cart = Inr (ls, totals)" "length (ca_lines cart) \<le> 10 ^ 30" "ca_lines cart \<noteq> []"
  shows "dec_value (to_grand_total totals) = dec_value (to_subtotal totals) - dec_value (to_promotion_discount_total totals)"
proof -
  note n = normalizeCart_Inr [OF assms]
  have len: "length ls \<le> 10 ^ 30" using n(1) assms(2) by (metis length_map)
  have frac: "decimal_fraction (layer_sum f ls)" if "\<And>l. nl_ok l \<Longrightarrow> money_ok (f l)" for f
    using scaled_fraction [OF layer_scaled [OF n(2) len that]] .
  have "layer_sum nl_unit_price ls = layer_sum nl_tier_unit_price ls - layer_sum nl_promotion_discount ls"
    unfolding layer_sum_def sum_list_subtractf [symmetric] using n(2)
    by (intro arg_cong [of _ _ sum_list] map_cong) (auto simp: nl_ok_def left_diff_distrib)
  then show ?thesis using n(5-7) frac [of nl_tier_unit_price] frac [of nl_promotion_discount] by (simp add: nl_ok_def)
qed

lemma saleTender_Inr:
  assumes "saleTender D a g = Inr (t, c)" "money_ok g"
  shows "money_ok t \<and> money_ok c \<and> dec_value t = dec_value a \<and> dec_value c = dec_value t - dec_value g"
proof -
  have t: "canonical t" "0 \<le> dec_value t" "dec_value t = dec_value a" "dec_value g \<le> dec_value t"
    "moneySubtract D t g = Inr c" "scaled 4 20 (dec_value t)" "boundary D c 4 = Inr ()"
    using assms
    by (auto simp: saleTender_def result_simps parse_Inr belowZero_text boundary_text(1) not_less money_ok_def)
  then have "c = dec_text (dec_value t - dec_value g)" "decimal_fraction (dec_value t - dec_value g)"
    using subtract_text [of t g] scaled_sig80 [OF scaled_diff [OF t(6) money_okD(3) [OF assms(2)]]] assms(2)
    by (simp_all add: canonical_syntax money_ok_def)
  then show ?thesis using t boundary_text(1) [of c] by (simp add: money_ok_def)
qed

end

section \<open>The rows in the database\<close>

lemma storeSale_rows:
  assumes "db_ok s" "storeSale D H fault input fp ls totals tendered change shift terminal s = (Inr tid, s')"
  shows "fault = None \<and> tid = h_uuid H 0 \<and> db_ok s' \<and> (\<exists>items stock n payload.
    sale_rows D H input 2 0 ls = Inr (items, stock, n) \<and>
    set (db_transactions s') = insert (sale_transaction H input shift terminal totals change) (set (db_transactions s)) \<and>
    set (db_transaction_items s') = set (db_transaction_items s) \<union> set items \<and>
    set (db_payments s') = insert (sale_payment H input (h_uuid H n) totals tendered change) (set (db_payments s)) \<and>
    set (db_stock_movements s') = set (db_stock_movements s) \<union> set stock \<and>
    set (db_cash_movements s') =
      insert (sale_cash_movement H input (h_uuid H (n + 1)) shift totals) (set (db_cash_movements s)) \<and>
    set (db_audit_events s') = insert (sale_completed_event H input (h_uuid H (n + 2)) totals) (set (db_audit_events s)) \<and>
    set (db_outbox s') = insert (sale_outbox H input (h_uuid H (n + 3)) payload fp) (set (db_outbox s)) \<and>
    db_shifts s' = db_shifts s \<and> db_shift_closing_snapshots s' = db_shift_closing_snapshots s)"
proof -
  note ok = assms(1) [unfolded db_ok_def]
  from storeSale_Inr [OF assms(2)] obtain items stock n t1 t2 t3 t4 t5 t6 t7 payload where
    x: "fault = None" "tid = h_uuid H 0" "sale_rows D H input 2 0 ls = Inr (items, stock, n)"
    and t: "t_add transactions_schema (sale_transaction H input shift terminal totals change) (db_transactions s) = Inr t1"
    "t_bulkAdd transaction_items_schema items (db_transaction_items s) = Inr t2"
    "t_add payments_schema (sale_payment H input (h_uuid H n) totals tendered change) (db_payments s) = Inr t3"
    "t_bulkAdd stock_movements_schema stock (db_stock_movements s) = Inr t4"
    "t_add cash_movements_schema (sale_cash_movement H input (h_uuid H (n + 1)) shift totals) (db_cash_movements s) = Inr t5"
    "t_add audit_events_schema (sale_completed_event H input (h_uuid H (n + 2)) totals) (db_audit_events s) = Inr t6"
    "t_add outbox_schema (sale_outbox H input (h_uuid H (n + 3)) payload fp) (db_outbox s) = Inr t7"
    and s': "s' = s\<lparr>db_transactions := t1, db_transaction_items := t2, db_payments := t3, db_stock_movements := t4,
      db_cash_movements := t5, db_audit_events := t6, db_outbox := t7\<rparr>"
    by blast
  have oks: "t_ok transactions_schema (db_transactions s)" "t_ok transaction_items_schema (db_transaction_items s)"
    "t_ok payments_schema (db_payments s)" "t_ok stock_movements_schema (db_stock_movements s)"
    "t_ok cash_movements_schema (db_cash_movements s)" "t_ok audit_events_schema (db_audit_events s)"
    "t_ok outbox_schema (db_outbox s)"
    using ok by (simp_all del: schema_defs)
  note rows = tbl.add_Inr [OF oks(1) t(1)] bulkAdd_Inr [OF t(2) oks(2)] tbl.add_Inr [OF oks(3) t(3)]
    bulkAdd_Inr [OF t(4) oks(4)] tbl.add_Inr [OF oks(5) t(5)] tbl.add_Inr [OF oks(6) t(6)] tbl.add_Inr [OF oks(7) t(7)]
  have "db_ok s'" using rows ok by (simp add: s' db_ok_def del: schema_defs)
  moreover have "set (db_transactions s') = insert (sale_transaction H input shift terminal totals change) (set (db_transactions s)) \<and>
    set (db_transaction_items s') = set (db_transaction_items s) \<union> set items \<and>
    set (db_payments s') = insert (sale_payment H input (h_uuid H n) totals tendered change) (set (db_payments s)) \<and>
    set (db_stock_movements s') = set (db_stock_movements s) \<union> set stock \<and>
    set (db_cash_movements s') =
      insert (sale_cash_movement H input (h_uuid H (n + 1)) shift totals) (set (db_cash_movements s)) \<and>
    set (db_audit_events s') = insert (sale_completed_event H input (h_uuid H (n + 2)) totals) (set (db_audit_events s)) \<and>
    set (db_outbox s') = insert (sale_outbox H input (h_uuid H (n + 3)) payload fp) (set (db_outbox s)) \<and>
    db_shifts s' = db_shifts s \<and> db_shift_closing_snapshots s' = db_shift_closing_snapshots s"
    using rows by (simp add: s' del: schema_defs)
  ultimately show ?thesis using x by blast
qed

text \<open>Looking a command up finds its only row.\<close>

lemma find_command:
  assumes "t_ok outbox_schema (db_outbox s)" "r \<in> set (db_outbox s)" "ob_command_id r = k"
  shows "find (\<lambda>r. ob_command_id r = k) (db_outbox s) = Some r"
proof -
  obtain x where x: "find (\<lambda>r. ob_command_id r = k) (db_outbox s) = Some x"
    using assms(2,3) by (metis (mono_tags, lifting) find_None_iff not_None_eq)
  then have "x = r"
    using tbl.unique_index [OF assms(1), of "\<lambda>r. Some [ob_command_id r]" x r] find_SomeD [OF x] assms(2,3) by simp
  then show ?thesis using x by simp
qed

lemma find_sale:
  assumes "t_ok transactions_schema (db_transactions s)" "t \<in> set (db_transactions s)" "tr_command_id t = k"
  shows "find (\<lambda>t. tr_command_id t = k) (db_transactions s) = Some t"
proof -
  obtain x where x: "find (\<lambda>t. tr_command_id t = k) (db_transactions s) = Some x"
    using assms(2,3) by (metis (mono_tags, lifting) find_None_iff not_None_eq)
  then have "x = t"
    using tbl.unique_index [OF assms(1), of "\<lambda>r. Some [tr_command_id r]" x t] find_SomeD [OF x] assms(2,3) by simp
  then show ?thesis using x by simp
qed

text \<open>Once the command and its sale are stored, completing it again only reads.\<close>

lemma completeSale_again:
  assumes "authorizeSale E input = Inr ()" "normalizeCart D E (ci_cart input) = Inr (ls, totals)"
    "saleTender D (ci_amount_tendered input) (to_grand_total totals) = Inr (tendered, change)"
    "find (\<lambda>r. ob_command_id r = ci_command_id input) (db_outbox s) = Some r"
  shows "completeSale D E H fault input s =
    (if ob_request_fingerprint r \<noteq> requestFingerprint input ls tendered
     then (Inl (CompleteSaleError IDEMPOTENCY_KEY_REUSE_ERROR), s)
     else case find (\<lambda>t. tr_command_id t = ci_command_id input) (db_transactions s) of
       None \<Rightarrow> (Inl (JsError ''TypeError''), s) | Some t \<Rightarrow> (Inr (tr_transaction_id t), s))"
  using assms
  by (simp add: completeSale_def Let_def bindA_def catchA_def saleTransaction_def transaction_def priorResult_def
      split: option.splits)

lemma sale_rows_facts:
  assumes "sale_rows D H input n i ls = Inr (items, stock, m)"
  shows "map ti_line_total items = map nl_line_total ls \<and> map ti_base_quantity items = map nl_base_quantity ls \<and>
    (\<forall>it \<in> set items. ti_transaction_id it = h_uuid H 0) \<and>
    (\<forall>st \<in> set stock. sm_source_id st = h_uuid H 0 \<and> sm_source_type st = ''SALE_TRANSACTION'' \<and>
       (\<exists>it \<in> set items. ti_transaction_item_id it = sm_source_line_id st))"
  using assms
proof (induction ls arbitrary: n i items stock m)
  case (Cons l ls)
  show ?case
  proof (cases "cl_track_inventory (nl_line l)")
    case True
    then obtain d items' stock' where r: "sale_rows D H input (n + 2) (i + 1) ls = Inr (items', stock', m)"
      "items = sale_item H input (h_uuid H n) i l # items'"
      "stock = sale_stock_movement H input (h_uuid H (n + 1)) (h_uuid H n) l d # stock'"
      using Cons.prems by (auto simp: Let_def bindE_eq_Inr)
    show ?thesis using Cons.IH [OF r(1)] unfolding r(2,3)
      by (auto simp: sale_item_def sale_stock_movement_def Let_def)
  next
    case False
    then obtain items' where r: "sale_rows D H input (n + 1) (i + 1) ls = Inr (items', stock, m)"
      "items = sale_item H input (h_uuid H n) i l # items'"
      using Cons.prems by (auto simp: Let_def bindE_eq_Inr)
    show ?thesis using Cons.IH [OF r(1)] unfolding r(2) by (auto simp: sale_item_def Let_def)
  qed
qed simp

context decimal_library
begin

lemma sale_rows_stock:
  assumes "sale_rows D H input n i ls = Inr (items, stock, m)" "\<forall>l \<in> set ls. nl_ok l"
  shows "(\<Sum>st\<leftarrow>stock. dec_value (sm_base_quantity_delta st)) =
    - (\<Sum>l\<leftarrow>filter (\<lambda>l. cl_track_inventory (nl_line l)) ls.
         dec_value (nl_quantity l) * dec_value (nl_conversion_factor l))"
  using assms
proof (induction ls arbitrary: n i items stock m)
  case (Cons l ls)
  show ?case
  proof (cases "cl_track_inventory (nl_line l)")
    case True
    then obtain d items' stock' where r: "sale_rows D H input (n + 2) (i + 1) ls = Inr (items', stock', m)"
      "quantityNegate D (nl_base_quantity l) = Inr d"
      "stock = sale_stock_movement H input (h_uuid H (n + 1)) (h_uuid H n) l d # stock'"
      using Cons.prems by (auto simp: Let_def bindE_eq_Inr)
    have "decimal_fraction (- dec_value (nl_base_quantity l))"
      using Cons.prems(2) by (auto simp: nl_ok_def qty_ok_def intro: scaled_fraction)
    then have "dec_value d = - (dec_value (nl_quantity l) * dec_value (nl_conversion_factor l))"
      using r(2) negate_text [of "nl_base_quantity l"] Cons.prems(2)
      by (auto simp: money_family nl_ok_def qty_ok_def canonical_syntax)
    then show ?thesis using Cons.IH [OF r(1)] Cons.prems(2) True
      by (simp add: r(3) sale_stock_movement_def Let_def)
  next
    case False
    then obtain items' where "sale_rows D H input (n + 1) (i + 1) ls = Inr (items', stock, m)"
      using Cons.prems by (auto simp: Let_def bindE_eq_Inr)
    then show ?thesis using Cons.IH Cons.prems(2) False by simp
  qed
qed simp

end

section \<open>Properties\<close>

text \<open>
  C1. Completing a sale is all or nothing. On any failure, the injected faults included, the database is
  as before. On success either the command had been completed before and nothing changes, or exactly the
  sale, its items, payment, stock and cash movements, audit event and outbox command are added, and the
  constraints of the database still hold.
\<close>

theorem sale_all_or_nothing:
  assumes "db_ok s"
  shows "case completeSale D E H fault input s of
      (Inl e, s') \<Rightarrow> s' = s
    | (Inr tid, s') \<Rightarrow> db_ok s' \<and>
        ((s' = s \<and> (\<exists>t \<in> set (db_transactions s). tr_command_id t = ci_command_id input \<and> tr_transaction_id t = tid)) \<or>
         (fault = None \<and> tid = h_uuid H 0 \<and>
          (\<exists>ls totals tendered change shift terminal items stock n payload.
            normalizeCart D E (ci_cart input) = Inr (ls, totals) \<and>
            saleTender D (ci_amount_tendered input) (to_grand_total totals) = Inr (tendered, change) \<and>
            findActiveShift input (db_shifts s) = Inr shift \<and> saleTerminal shift = Inr terminal \<and>
            sale_rows D H input 2 0 ls = Inr (items, stock, n) \<and>
            set (db_transactions s') = insert (sale_transaction H input shift terminal totals change) (set (db_transactions s)) \<and>
            set (db_transaction_items s') = set (db_transaction_items s) \<union> set items \<and>
            set (db_payments s') = insert (sale_payment H input (h_uuid H n) totals tendered change) (set (db_payments s)) \<and>
            set (db_stock_movements s') = set (db_stock_movements s) \<union> set stock \<and>
            set (db_cash_movements s') =
              insert (sale_cash_movement H input (h_uuid H (n + 1)) shift totals) (set (db_cash_movements s)) \<and>
            set (db_audit_events s') = insert (sale_completed_event H input (h_uuid H (n + 2)) totals) (set (db_audit_events s)) \<and>
            set (db_outbox s') =
              insert (sale_outbox H input (h_uuid H (n + 3)) payload (requestFingerprint input ls tendered)) (set (db_outbox s)) \<and>
            db_shifts s' = db_shifts s \<and> db_shift_closing_snapshots s' = db_shift_closing_snapshots s)))"
proof -
  obtain r s' where run: "completeSale D E H fault input s = (r, s')" by fastforce
  show ?thesis
  proof (cases r)
    case (Inl e)
    then show ?thesis using completeSale_Inl [of D E H fault input s e s'] run by simp
  next
    case (Inr tid)
    from completeSale_Inr [OF run [unfolded Inr]] obtain ls totals tendered change where
      pre: "normalizeCart D E (ci_cart input) = Inr (ls, totals)"
        "saleTender D (ci_amount_tendered input) (to_grand_total totals) = Inr (tendered, change)"
      and cases: "(s' = s \<and> (\<exists>t. find (\<lambda>t. tr_command_id t = ci_command_id input) (db_transactions s) = Some t \<and>
            tid = tr_transaction_id t)) \<or>
        (\<exists>shift terminal. findActiveShift input (db_shifts s) = Inr shift \<and> saleTerminal shift = Inr terminal \<and>
          storeSale D H fault input (requestFingerprint input ls tendered) ls totals tendered change shift terminal s = (Inr tid, s'))"
      by blast
    from cases show ?thesis
    proof
      assume "s' = s \<and> (\<exists>t. find (\<lambda>t. tr_command_id t = ci_command_id input) (db_transactions s) = Some t \<and>
          tid = tr_transaction_id t)"
      then show ?thesis using assms Inr run by (auto dest: find_SomeD)
    next
      assume "\<exists>shift terminal. findActiveShift input (db_shifts s) = Inr shift \<and> saleTerminal shift = Inr terminal \<and>
          storeSale D H fault input (requestFingerprint input ls tendered) ls totals tendered change shift terminal s = (Inr tid, s')"
      then obtain shift terminal where st: "findActiveShift input (db_shifts s) = Inr shift" "saleTerminal shift = Inr terminal"
        "storeSale D H fault input (requestFingerprint input ls tendered) ls totals tendered change shift terminal s = (Inr tid, s')"
        by blast
      show ?thesis
        unfolding run Inr prod.case sum.case
        using storeSale_rows [OF assms st(3)] st(1,2) pre by blast
    qed
  qed
qed

text \<open>What the database holds of a command after it completed: its outbox row and its sale.\<close>

lemma completed_command:
  assumes "db_ok s" "completeSale D E H fault input s = (Inr tid, s')"
  obtains ls totals tendered change r t where "authorizeSale E input = Inr ()"
    "normalizeCart D E (ci_cart input) = Inr (ls, totals)"
    "saleTender D (ci_amount_tendered input) (to_grand_total totals) = Inr (tendered, change)"
    "find (\<lambda>r. ob_command_id r = ci_command_id input) (db_outbox s') = Some r"
    "ob_request_fingerprint r = requestFingerprint input ls tendered"
    "find (\<lambda>t. tr_command_id t = ci_command_id input) (db_transactions s') = Some t" "tr_transaction_id t = tid"
proof -
  from completeSale_Inr [OF assms(2)] obtain ls totals tendered change where
    pre: "authorizeSale E input = Inr ()" "normalizeCart D E (ci_cart input) = Inr (ls, totals)"
      "saleTender D (ci_amount_tendered input) (to_grand_total totals) = Inr (tendered, change)"
    and cases: "(\<exists>r. find (\<lambda>r. ob_command_id r = ci_command_id input) (db_outbox s) = Some r \<and>
        ob_request_fingerprint r = requestFingerprint input ls tendered \<and> s' = s \<and>
        (\<exists>t. find (\<lambda>t. tr_command_id t = ci_command_id input) (db_transactions s) = Some t \<and> tid = tr_transaction_id t)) \<or>
      (\<exists>shift terminal. storeSale D H fault input (requestFingerprint input ls tendered) ls totals tendered change
        shift terminal s = (Inr tid, s'))"
    by blast
  from cases show thesis
  proof
    assume "\<exists>shift terminal. storeSale D H fault input (requestFingerprint input ls tendered) ls totals tendered change
        shift terminal s = (Inr tid, s')"
    then obtain shift terminal where "storeSale D H fault input (requestFingerprint input ls tendered) ls totals
        tendered change shift terminal s = (Inr tid, s')" by blast
    from storeSale_rows [OF assms(1) this] obtain n payload where
      rows: "db_ok s'" "tid = h_uuid H 0"
        "sale_transaction H input shift terminal totals change \<in> set (db_transactions s')"
        "sale_outbox H input (h_uuid H (n + 3)) payload (requestFingerprint input ls tendered) \<in> set (db_outbox s')"
      by (elim conjE exE) (metis insertI1)
    have ok: "t_ok outbox_schema (db_outbox s')" "t_ok transactions_schema (db_transactions s')"
      using rows(1) by (simp_all add: db_ok_def del: schema_defs)
    show thesis
      using that [OF pre find_command [OF ok(1) rows(4)] _ find_sale [OF ok(2) rows(3)]] rows(2)
      by (simp add: sale_outbox_def new_outbox_def sale_transaction_def Let_def)
  qed (use pre that in blast)
qed

text \<open>
  C3. A completed command is idempotent: sent again, whatever host and fault point, it returns the same
  transaction id and leaves the database unchanged.
\<close>

theorem sale_command_idempotent:
  assumes "db_ok s" "completeSale D E H fault input s = (Inr tid, s')"
  shows "completeSale D E H' fault' input s' = (Inr tid, s')"
  using assms
proof (rule completed_command)
  fix ls totals tendered change r t
  assume "authorizeSale E input = Inr ()" "normalizeCart D E (ci_cart input) = Inr (ls, totals)"
    "saleTender D (ci_amount_tendered input) (to_grand_total totals) = Inr (tendered, change)"
    "find (\<lambda>r. ob_command_id r = ci_command_id input) (db_outbox s') = Some r"
    "ob_request_fingerprint r = requestFingerprint input ls tendered"
    "find (\<lambda>t. tr_command_id t = ci_command_id input) (db_transactions s') = Some t" "tr_transaction_id t = tid"
  then show ?thesis by (simp add: completeSale_again)
qed

text \<open>
  A command id cannot be used for a second sale: another valid request under the id of a completed
  command is answered with the first transaction when its fingerprint is the same, and refused with
  \<open>IDEMPOTENCY_KEY_REUSE_ERROR\<close> otherwise; the database does not change.
\<close>

theorem sale_key_reuse_refused:
  assumes "db_ok s" "completeSale D E H fault input s = (Inr tid, s')"
    "normalizeCart D E (ci_cart input) = Inr (ls, totals)"
    "saleTender D (ci_amount_tendered input) (to_grand_total totals) = Inr (tendered, change)"
    "ci_command_id input' = ci_command_id input" "authorizeSale E input' = Inr ()"
    "normalizeCart D E (ci_cart input') = Inr (ls', totals')"
    "saleTender D (ci_amount_tendered input') (to_grand_total totals') = Inr (tendered', change')"
  shows "completeSale D E H' fault' input' s' =
    (if requestFingerprint input' ls' tendered' = requestFingerprint input ls tendered then Inr tid
     else Inl (CompleteSaleError IDEMPOTENCY_KEY_REUSE_ERROR), s')"
  using assms(1,2)
proof (rule completed_command)
  fix ls1 totals1 tendered1 change1 r t
  assume pre: "normalizeCart D E (ci_cart input) = Inr (ls1, totals1)"
    "saleTender D (ci_amount_tendered input) (to_grand_total totals1) = Inr (tendered1, change1)"
    and r: "find (\<lambda>r. ob_command_id r = ci_command_id input) (db_outbox s') = Some r"
    "ob_request_fingerprint r = requestFingerprint input ls1 tendered1"
    "find (\<lambda>t. tr_command_id t = ci_command_id input) (db_transactions s') = Some t" "tr_transaction_id t = tid"
  have "ls1 = ls" "tendered1 = tendered" using pre assms(3,4) by simp_all
  then show ?thesis
    using completeSale_again [OF assms(6-8), of s' r H' fault'] r assms(5) by simp
qed

text \<open>
  C2. The money of a sale balances. The grand total is the sum of unit price times quantity over the cart
  and equals subtotal minus promotion discount; payment and cash movement carry exactly that amount; what
  was tendered is that amount plus the change, and every stored amount is a non-negative NUMERIC(20,4).
\<close>

theorem sale_amounts_balance:
  assumes "decimal_library D V W" "db_ok s" "length (ca_lines (ci_cart input)) \<le> 10 ^ 30"
    "completeSale D E H fault input s = (Inr tid, s')" "s' \<noteq> s"
  shows "\<exists>t \<in> set (db_transactions s'). \<exists>p \<in> set (db_payments s'). \<exists>m \<in> set (db_cash_movements s').
    tr_transaction_id t = tid \<and> py_transaction_id p = tid \<and> mv_source_id m = tid \<and>
    mv_movement_type m = CASH_SALE \<and> mv_shift_id m = tr_shift_id t \<and>
    dec_value (tr_grand_total t) =
      (\<Sum>l\<leftarrow>ca_lines (ci_cart input). dec_value (cl_unit_price l) * dec_value (cl_quantity l)) \<and>
    dec_value (tr_grand_total t) = dec_value (tr_subtotal t) - dec_value (tr_promotion_discount_total t) \<and>
    py_amount p = tr_grand_total t \<and> mv_amount m = tr_grand_total t \<and>
    dec_value (py_amount_tendered p) = dec_value (ci_amount_tendered input) \<and>
    dec_value (py_amount_tendered p) = dec_value (py_amount p) + dec_value (py_change_amount p) \<and>
    money_ok (tr_grand_total t) \<and> money_ok (py_amount_tendered p) \<and> money_ok (py_change_amount p)"
proof -
  from completeSale_Inr [OF assms(4)] assms(5) obtain ls totals tendered change shift terminal where
    pre: "authorizeSale E input = Inr ()" "normalizeCart D E (ci_cart input) = Inr (ls, totals)"
      "saleTender D (ci_amount_tendered input) (to_grand_total totals) = Inr (tendered, change)"
    and st: "storeSale D H fault input (requestFingerprint input ls tendered) ls totals tendered change shift terminal s = (Inr tid, s')"
    by blast
  have ne: "ca_lines (ci_cart input) \<noteq> []" using pre(1) by (auto simp: authorizeSale_def Let_def result_simps)
  note cart = decimal_library.normalizeCart_Inr [OF assms(1) pre(2) assms(3) ne]
  note tender = decimal_library.saleTender_Inr [OF assms(1) pre(3) cart(3)]
  have "dec_value (to_grand_total totals) =
      (\<Sum>l\<leftarrow>ca_lines (ci_cart input). dec_value (cl_unit_price l) * dec_value (cl_quantity l))"
    unfolding cart(5) layer_sum_def cart(1) [symmetric] map_map using cart(8)
    by (intro arg_cong [of _ _ sum_list] map_cong) (simp_all add: nl_same_def)
  moreover have "dec_value (to_grand_total totals) =
      dec_value (to_subtotal totals) - dec_value (to_promotion_discount_total totals)"
    using decimal_library.layer_totals [OF assms(1) pre(2) assms(3) ne] .
  moreover from storeSale_rows [OF assms(2) st] obtain n where
    rows: "tid = h_uuid H 0"
      "sale_transaction H input shift terminal totals change \<in> set (db_transactions s')"
      "sale_payment H input (h_uuid H n) totals tendered change \<in> set (db_payments s')"
      "sale_cash_movement H input (h_uuid H (n + 1)) shift totals \<in> set (db_cash_movements s')"
    by (elim conjE exE) (metis insertI1)
  ultimately show ?thesis
    using tender cart(3)
    by (intro bexI [OF _ rows(2)] bexI [OF _ rows(3)] bexI [OF _ rows(4)])
      (simp add: sale_transaction_def sale_payment_def sale_cash_movement_def rows(1) Let_def)
qed


section \<open>A concrete sale\<close>

definition demo_sale :: CompleteSaleInput where
  "demo_sale = \<lparr>ci_auth = demo_auth, ci_device_id = ''dev'', ci_command_id = ''cmd-sale'',
     ci_occurred_at = ''2026-08-23'', ci_cart = demo_cart, ci_amount_tendered = ''500''\<rparr>"

definition demo_sale_host :: host_calls where
  "demo_sale_host = \<lparr>h_uuid = (\<lambda>n. CHR ''s'' # nat_digits n), h_now = demo_now\<rparr>"

lemma demo_sale_checks:
  "authorizeSale demo_env demo_sale = Inr ()"
  "authorizeSale demo_env (demo_sale\<lparr>ci_amount_tendered := ''600''\<rparr>) = Inr ()"
  by code_simp+

definition demo_lines :: "NormalizedSaleLine list" where
  "demo_lines = [\<lparr>nl_line = demo_cart_line, nl_quantity = ''6'', nl_unit_price = ''81'', nl_line_total = ''486'',
     nl_conversion_factor = ''1'', nl_base_quantity = ''6'', nl_base_unit_price = ''100'', nl_tier_unit_price = ''90'',
     nl_tier_min_qty = Some ''5'', nl_promotion_value = Some ''10'', nl_promotion_discount = ''9'',
     nl_promotion_discount_total = ''54'', nl_tier_line_total = ''540''\<rparr>]"

definition demo_totals :: SaleTotals where
  "demo_totals = \<lparr>to_subtotal = ''540'', to_promotion_discount_total = ''54'', to_grand_total = ''486''\<rparr>"

lemma demo_normalized: "normalizeCart ref_ops demo_env demo_cart = Inr (demo_lines, demo_totals)"
  by code_simp

lemma demo_tender:
  "saleTender ref_ops ''500'' (to_grand_total demo_totals) = Inr (''500'', ''14'')"
  "saleTender ref_ops ''600'' (to_grand_total demo_totals) = Inr (''600'', ''114'')"
  by code_simp+

lemma demo_line:
  "length demo_lines = 1" "cl_track_inventory (nl_line (hd demo_lines))"
  "\<not> isl (quantityNegate ref_ops (nl_base_quantity (hd demo_lines)))"
  by code_simp+

lemma demo_fingerprints:
  "requestFingerprint (demo_sale\<lparr>ci_amount_tendered := ''600''\<rparr>) demo_lines ''600'' \<noteq>
   requestFingerprint demo_sale demo_lines ''500''"
proof -
  have "json_quote ''600'' \<noteq> json_quote ''500''" by code_simp
  then show ?thesis by (simp add: requestFingerprint_def demo_sale_def Let_def)
qed

lemma demo_digits: "nat_digits 0 = ''0''" "nat_digits 2 = ''2''" "nat_digits 3 = ''3''" "nat_digits 4 = ''4''"
  by code_simp+

lemma demo_sale_rows: "\<exists>item movement. sale_rows ref_ops demo_sale_host demo_sale 2 0 demo_lines = Inr ([item], [movement], 4)"
proof -
  obtain l where l: "demo_lines = [l]" using demo_line(1) by (auto simp: length_Suc_conv)
  obtain d where "quantityNegate ref_ops (nl_base_quantity l) = Inr d"
    using demo_line(3) by (cases "quantityNegate ref_ops (nl_base_quantity l)") (auto simp: l)
  then show ?thesis using demo_line(2) by (simp add: l Let_def)
qed

lemma demo_active_shift: "findActiveShift demo_sale (db_shifts demo_db) = Inr demo_shift" "saleTerminal demo_shift = Inr ''T1''"
  by (simp_all add: findActiveShift_def saleTerminal_def Let_def demo_db_def demo_shift_def opened_shift_def demo_open_def
      demo_auth_def demo_sale_def)

lemma demo_completes:
  obtains s' where "completeSale ref_ops demo_env demo_sale_host None demo_sale demo_db = (Inr (h_uuid demo_sale_host 0), s')"
    "s' \<noteq> demo_db"
proof -
  obtain item movement where rows: "sale_rows ref_ops demo_sale_host demo_sale 2 0 demo_lines = Inr ([item], [movement], 4)"
    using demo_sale_rows by blast
  have new: "find (\<lambda>r. ob_command_id r = ''cmd-sale'') (db_outbox demo_db) = None"
    by (simp add: demo_db_def open_shift_outbox_def new_outbox_def demo_open_def demo_host_def nat_digits.simps Let_def)
  let ?st = "storeSale ref_ops demo_sale_host None demo_sale (requestFingerprint demo_sale demo_lines ''500'') demo_lines
    demo_totals ''500'' ''14'' demo_shift ''T1'' demo_db"
  have "fst ?st = Inr (h_uuid demo_sale_host 0) \<and> db_transactions (snd ?st) \<noteq> []"
    unfolding storeSale_def storeRows_def storeStock_def rows Let_def
    by (simp add: bindA_def faultA_def tableA_def t_bulkAdd_def t_add_def
      t_get_def t_conflict_def demo_db_def empty_db_def demo_opening_def opening_balance_def sale_cash_movement_def
      sale_completed_event_def shift_opened_event_def sale_outbox_def open_shift_outbox_def new_outbox_def demo_host_def
      demo_sale_host_def demo_sale_def demo_open_def demo_digits Let_def)
  then obtain s' where st: "?st = (Inr (h_uuid demo_sale_host 0), s')" "db_transactions s' \<noteq> []"
    by (metis prod.collapse)
  have "completeSale ref_ops demo_env demo_sale_host None demo_sale demo_db = (Inr (h_uuid demo_sale_host 0), s')"
    using st(1) demo_tender(1) demo_normalized demo_sale_checks(1) new demo_active_shift
    by (simp add: completeSale_def saleTransaction_def bindA_def catchA_def transaction_def Let_def demo_sale_def)
  moreover have "s' \<noteq> demo_db" using st(2) by (auto simp: demo_db_def empty_db_def)
  ultimately show thesis by (rule that)
qed

theorem sale_all_or_nothing_witness:
  "\<exists>s'. completeSale ref_ops demo_env demo_sale_host None demo_sale demo_db = (Inr (h_uuid demo_sale_host 0), s') \<and> db_ok s'"
proof -
  obtain s' where "completeSale ref_ops demo_env demo_sale_host None demo_sale demo_db = (Inr (h_uuid demo_sale_host 0), s')"
    using demo_completes by blast
  with sale_all_or_nothing [OF demo_db_ok, where D = ref_ops and E = demo_env and H = demo_sale_host and
      fault = None and input = demo_sale] show ?thesis by auto
qed

theorem sale_command_idempotent_witness:
  "\<exists>s'. completeSale ref_ops demo_env demo_sale_host None demo_sale demo_db = (Inr (h_uuid demo_sale_host 0), s') \<and>
     completeSale ref_ops demo_env demo_host (Some sale_after_audit) demo_sale s' = (Inr (h_uuid demo_sale_host 0), s')"
proof -
  obtain s' where s': "completeSale ref_ops demo_env demo_sale_host None demo_sale demo_db = (Inr (h_uuid demo_sale_host 0), s')"
    using demo_completes by blast
  show ?thesis using s' sale_command_idempotent [OF demo_db_ok s'] by blast
qed

theorem sale_key_reuse_refused_witness:
  "\<exists>s'. completeSale ref_ops demo_env demo_sale_host None demo_sale demo_db = (Inr (h_uuid demo_sale_host 0), s') \<and>
     completeSale ref_ops demo_env demo_host None (demo_sale\<lparr>ci_amount_tendered := ''600''\<rparr>) s' =
       (Inl (CompleteSaleError IDEMPOTENCY_KEY_REUSE_ERROR), s')"
proof -
  obtain s' where s': "completeSale ref_ops demo_env demo_sale_host None demo_sale demo_db = (Inr (h_uuid demo_sale_host 0), s')"
    using demo_completes by blast
  have n: "normalizeCart ref_ops demo_env (ci_cart demo_sale) = Inr (demo_lines, demo_totals)"
    "saleTender ref_ops (ci_amount_tendered demo_sale) (to_grand_total demo_totals) = Inr (''500'', ''14'')"
    and n': "normalizeCart ref_ops demo_env (ci_cart (demo_sale\<lparr>ci_amount_tendered := ''600''\<rparr>)) = Inr (demo_lines, demo_totals)"
    "saleTender ref_ops (ci_amount_tendered (demo_sale\<lparr>ci_amount_tendered := ''600''\<rparr>)) (to_grand_total demo_totals) =
       Inr (''600'', ''114'')"
    using demo_normalized demo_tender by (simp_all add: demo_sale_def)
  have "ci_command_id (demo_sale\<lparr>ci_amount_tendered := ''600''\<rparr>) = ci_command_id demo_sale" by simp
  from sale_key_reuse_refused [OF demo_db_ok s' n this demo_sale_checks(2) n'] demo_fingerprints s' show ?thesis by auto
qed

theorem sale_amounts_balance_witness:
  "\<exists>s' t. completeSale ref_ops demo_env demo_sale_host None demo_sale demo_db = (Inr (h_uuid demo_sale_host 0), s') \<and>
     t \<in> set (db_transactions s') \<and> dec_value (tr_grand_total t) = 486"
proof -
  obtain s' where s': "completeSale ref_ops demo_env demo_sale_host None demo_sale demo_db = (Inr (h_uuid demo_sale_host 0), s')"
    "s' \<noteq> demo_db" using demo_completes by blast
  have "length (ca_lines demo_cart) = 1"
    "(\<Sum>l\<leftarrow>ca_lines demo_cart. dec_value (cl_unit_price l) * dec_value (cl_quantity l)) = 486" by code_simp+
  then have "length (ca_lines (ci_cart demo_sale)) \<le> 10 ^ 30"
    "(\<Sum>l\<leftarrow>ca_lines (ci_cart demo_sale). dec_value (cl_unit_price l) * dec_value (cl_quantity l)) = 486"
    by (simp_all add: demo_sale_def)
  with sale_amounts_balance [OF ref.decimal_library_axioms demo_db_ok _ s'] s'(1) show ?thesis by metis
qed

end
