(* ===== verification/Json_Parse.thy ===== *)
theory Json_Parse
  imports Js_Json
begin

text \<open>
  \<open>JSON.parse\<close> (RFC 8259, ECMA-262) as the program uses it: on the error texts of the outbox and, on the
  other side of the wire, on its payloads. A reader is a partial function to a value and the rest of the
  text. Values nest, so the reader of values carries fuel; \<open>json_parse\<close> gives it twice the length of the
  text, and \<open>p_value_enough\<close> shows that no fuel reads more. A numeral whose value is a safe integer is
  that integer, any other keeps its text (\<open>JFrac\<close>); the rounding of a longer fraction to an integer is
  not modelled. The characters of the model are the code
  units below 256; an escape of a larger unit is read as the last of them, which no text of the program
  contains.
\<close>

section \<open>The reader\<close>

definition is_ws :: "char \<Rightarrow> bool" where
  "is_ws c = (c \<in> {CHR 0x20, CHR 0x09, CHR 0x0A, CHR 0x0D})"

definition skip_ws :: "string \<Rightarrow> string" where
  "skip_ws s = dropWhile is_ws s"

definition expect :: "string \<Rightarrow> string \<Rightarrow> string option" where
  "expect w s = (if take (length w) s = w then Some (drop (length w) s) else None)"

definition hex_digit :: "char \<Rightarrow> nat option" where
  "hex_digit h =
     (let n = of_char h :: nat in
      if 48 \<le> n \<and> n \<le> 57 then Some (n - 48)
      else if 97 \<le> n \<and> n \<le> 102 then Some (n - 87)
      else if 65 \<le> n \<and> n \<le> 70 then Some (n - 55)
      else None)"

fun read_hex :: "nat \<Rightarrow> nat \<Rightarrow> string \<Rightarrow> (nat \<times> string) option" where
  "read_hex 0 acc s = Some (acc, s)"
| "read_hex (Suc k) acc [] = None"
| "read_hex (Suc k) acc (h # s) =
     (case hex_digit h of None \<Rightarrow> None | Some d \<Rightarrow> read_hex k (16 * acc + d) s)"

text \<open>One code unit of a string literal; control characters must be escaped.\<close>

definition read_unit :: "string \<Rightarrow> (char \<times> string) option" where
  "read_unit s =
     (case s of
        [] \<Rightarrow> None
      | c # r \<Rightarrow>
          if (of_char c :: nat) < 32 \<or> c = CHR 0x22 then None
          else if c \<noteq> CHR 0x5C then Some (c, r)
          else case r of
              [] \<Rightarrow> None
            | d # t \<Rightarrow>
                if d = CHR 0x22 \<or> d = CHR 0x5C \<or> d = CHR 0x2F then Some (d, t)
                else if d = CHR ''b'' then Some (char_of (8::nat), t)
                else if d = CHR ''t'' then Some (char_of (9::nat), t)
                else if d = CHR ''n'' then Some (char_of (10::nat), t)
                else if d = CHR ''f'' then Some (char_of (12::nat), t)
                else if d = CHR ''r'' then Some (char_of (13::nat), t)
                else if d = CHR ''u'' then
                  map_option (\<lambda>(n, q). (char_of (min n 255), q)) (read_hex 4 0 t)
                else None)"

lemma read_hex_shorter: "read_hex k acc s = Some (n, r) \<Longrightarrow> length r + k = length s"
  by (induction k acc s rule: read_hex.induct) (auto split: option.splits)

lemma read_unit_shorter: "read_unit s = Some (c, r) \<Longrightarrow> length r < length s"
  by (auto simp: read_unit_def split: list.splits if_splits dest!: read_hex_shorter)

function read_chars :: "string \<Rightarrow> (string \<times> string) option" where
  "read_chars s =
     (if take 1 s = [CHR 0x22] then Some ([], tl s)
      else case read_unit s of
          None \<Rightarrow> None
        | Some (c, r) \<Rightarrow> map_option (\<lambda>(t, q). (c # t, q)) (read_chars r))"
  by auto
termination
  by (relation "measure length") (auto dest: read_unit_shorter)

declare read_chars.simps [simp del]

definition read_digits :: "string \<Rightarrow> (string \<times> string) option" where
  "read_digits s =
     (let d = takeWhile is_digit s in if d = [] then None else Some (d, dropWhile is_digit s))"

definition read_frac :: "string \<Rightarrow> (string \<times> string) option" where
  "read_frac s =
     (case expect ''.'' s of
        None \<Rightarrow> Some ([], s)
      | Some r \<Rightarrow> map_option (\<lambda>(d, q). (''.'' @ d, q)) (read_digits r))"

text \<open>The exponent part: its text and its value.\<close>

definition read_exp :: "string \<Rightarrow> (string \<times> int \<times> string) option" where
  "read_exp s =
     (if take 1 s \<in> {''e'', ''E''} then
        let sg = (if take 1 (tl s) \<in> {''+'', ''-''} then take 1 (tl s) else []) in
        map_option (\<lambda>(d, q). (take 1 s @ sg @ d, (if sg = ''-'' then - int (digits_val d) else int (digits_val d)), q))
          (read_digits (drop (length sg) (tl s)))
      else Some ([], 0, s))"

text \<open>The value of a numeral when it is an integer: mantissa times a power of ten.\<close>

definition integer_value :: "nat \<Rightarrow> int \<Rightarrow> nat option" where
  "integer_value m k =
     (if m = 0 then Some 0
      else if k \<ge> 0 then Some (m * 10 ^ nat k)
      else if m mod 10 ^ nat (- k) = 0 then Some (m div 10 ^ nat (- k)) else None)"

definition number_json :: "string \<Rightarrow> string \<Rightarrow> string \<Rightarrow> string \<Rightarrow> int \<Rightarrow> json" where
  "number_json sg ds fr ext ex =
     (case integer_value (digits_val (ds @ tl fr)) (ex - int (length (tl fr))) of
        Some n \<Rightarrow> if n \<le> 2 ^ 53 - 1 then JNum (if sg = [] then int n else - int n) else JFrac (sg @ ds @ fr @ ext)
      | None \<Rightarrow> JFrac (sg @ ds @ fr @ ext))"

definition read_number :: "string \<Rightarrow> (json \<times> string) option" where
  "read_number s =
     (let sg = (if take 1 s = ''-'' then ''-'' else []) in
      case read_digits (drop (length sg) s) of
        None \<Rightarrow> None
      | Some (ds, r) \<Rightarrow>
          if \<not> plain_int ds then None
          else case read_frac r of
              None \<Rightarrow> None
            | Some (fr, r1) \<Rightarrow>
                map_option (\<lambda>(ext, ex, r2). (number_json sg ds fr ext ex, r2)) (read_exp r1))"

definition read_word :: "string \<Rightarrow> (json \<times> string) option" where
  "read_word s =
     (case expect ''null'' s of
        Some r \<Rightarrow> Some (JNull, r)
      | None \<Rightarrow> (case expect ''true'' s of
          Some r \<Rightarrow> Some (JBool True, r)
        | None \<Rightarrow> (case expect ''false'' s of
            Some r \<Rightarrow> Some (JBool False, r)
          | None \<Rightarrow> read_number s)))"

fun p_value :: "nat \<Rightarrow> string \<Rightarrow> (json \<times> string) option"
  and p_elems :: "nat \<Rightarrow> string \<Rightarrow> (json list \<times> string) option"
  and p_members :: "nat \<Rightarrow> string \<Rightarrow> ((string \<times> json) list \<times> string) option" where
  "p_value 0 s = None"
| "p_value (Suc n) s0 =
     (let s = skip_ws s0 in
      case expect [CHR 0x22] s of
        Some r \<Rightarrow> map_option (\<lambda>(t, q). (JStr t, q)) (read_chars r)
      | None \<Rightarrow> (case expect ''['' s of
          Some r \<Rightarrow> (case expect '']'' (skip_ws r) of
              Some q \<Rightarrow> Some (JArr [], q)
            | None \<Rightarrow> map_option (\<lambda>(vs, q). (JArr vs, q)) (p_elems n r))
        | None \<Rightarrow> (case expect ''{'' s of
            Some r \<Rightarrow> (case expect ''}'' (skip_ws r) of
                Some q \<Rightarrow> Some (JObj [], q)
              | None \<Rightarrow> map_option (\<lambda>(ms, q). (JObj ms, q)) (p_members n r))
          | None \<Rightarrow> read_word s)))"
| "p_elems 0 s = None"
| "p_elems (Suc n) s =
     (case p_value n s of
        None \<Rightarrow> None
      | Some (v, r) \<Rightarrow> (case expect '','' (skip_ws r) of
          Some q \<Rightarrow> map_option (\<lambda>(vs, q'). (v # vs, q')) (p_elems n q)
        | None \<Rightarrow> map_option (\<lambda>q. ([v], q)) (expect '']'' (skip_ws r))))"
| "p_members 0 s = None"
| "p_members (Suc n) s =
     (case expect [CHR 0x22] (skip_ws s) of
        None \<Rightarrow> None
      | Some r0 \<Rightarrow> (case read_chars r0 of
          None \<Rightarrow> None
        | Some (k, r1) \<Rightarrow> (case expect '':'' (skip_ws r1) of
            None \<Rightarrow> None
          | Some r2 \<Rightarrow> (case p_value n r2 of
              None \<Rightarrow> None
            | Some (v, r) \<Rightarrow> (case expect '','' (skip_ws r) of
                Some q \<Rightarrow> map_option (\<lambda>(ms, q'). ((k, v) # ms, q')) (p_members n q)
              | None \<Rightarrow> map_option (\<lambda>q. ([(k, v)], q)) (expect ''}'' (skip_ws r)))))))"

definition json_parse :: "string \<Rightarrow> json option" where
  "json_parse s =
     (case p_value (2 * length s) s of
        None \<Rightarrow> None
      | Some (v, r) \<Rightarrow> if skip_ws r = [] then Some v else None)"

text \<open>Reading a property of a parsed object: of members with the same name the last one counts.\<close>

definition jget :: "(string \<times> json) list \<Rightarrow> string \<Rightarrow> json option" where
  "jget ms k = map_of (rev ms) k"

section \<open>The fuel is enough\<close>

lemma skip_ws_le: "length (skip_ws s) \<le> length s"
  by (simp add: skip_ws_def length_dropWhile_le)

lemma expect_Some: "expect w s = Some r \<longleftrightarrow> s = w @ r"
  by (auto simp: expect_def) (metis append_take_drop_id)

lemma read_chars_quote [simp]: "read_chars (CHR 0x22 # r) = Some ([], r)"
  by (subst read_chars.simps) simp

lemma read_chars_unit:
  assumes "read_unit s = Some (c, r)"
  shows "read_chars s = map_option (\<lambda>(t, q). (c # t, q)) (read_chars r)"
proof -
  have "take 1 s \<noteq> [CHR 0x22]" using assms by (cases s) (auto simp: read_unit_def)
  then show ?thesis using assms by (subst read_chars.simps) simp
qed

lemma read_chars_shorter: "read_chars s = Some (t, r) \<Longrightarrow> length r < length s"
proof (induction s arbitrary: t r rule: read_chars.induct)
  case (1 s)
  show ?case
  proof (cases "take 1 s = [CHR 0x22]")
    case True
    then have "s = CHR 0x22 # tl s" by (cases s) simp_all
    then show ?thesis using 1(2) by (metis lessI length_Cons option.inject prod.inject read_chars_quote)
  next
    case False
    with 1(2) obtain c q u where q: "read_unit s = Some (c, q)" "read_chars q = Some (u, r)"
      by (auto simp: read_chars.simps [of s] split: option.splits)
    then show ?thesis using 1(1) [OF False q(1) refl q(2)] read_unit_shorter [OF q(1)] by simp
  qed
qed

lemma read_digits_shorter: "read_digits s = Some (d, r) \<Longrightarrow> length r < length s"
proof -
  assume "read_digits s = Some (d, r)"
  then have "s = d @ r" "d \<noteq> []" by (auto simp: read_digits_def Let_def split: if_splits)
  then show ?thesis by simp
qed

lemma read_frac_shorter: "read_frac s = Some (d, r) \<Longrightarrow> length r \<le> length s"
  by (auto simp: read_frac_def expect_Some split: option.splits dest!: read_digits_shorter)

lemma read_exp_shorter: "read_exp s = Some (d, x, r) \<Longrightarrow> length r \<le> length s"
  by (auto simp: read_exp_def Let_def split: if_splits dest!: read_digits_shorter)

lemma read_word_shorter: "read_word s = Some (v, r) \<Longrightarrow> length r < length s"
  by (auto simp: read_word_def read_number_def expect_Some Let_def split: option.splits if_splits
      dest!: read_digits_shorter read_frac_shorter read_exp_shorter)

text \<open>How a value is read: without recursion, or as the elements of an array or the members of an object.\<close>

lemma p_value_cases:
  assumes "p_value (Suc n) s0 = Some (v, r)"
  obtains
    (arr) q us where "expect [CHR 0x22] (skip_ws s0) = None" "expect ''['' (skip_ws s0) = Some q"
      "expect '']'' (skip_ws q) = None" "p_elems n q = Some (us, r)" "v = JArr us"
  | (obj) q us where "expect [CHR 0x22] (skip_ws s0) = None" "expect ''['' (skip_ws s0) = None"
      "expect ''{'' (skip_ws s0) = Some q" "expect ''}'' (skip_ws q) = None" "p_members n q = Some (us, r)" "v = JObj us"
  | (fixed) "\<forall>m. p_value (Suc m) s0 = Some (v, r)" "length r < length (skip_ws s0)"
proof (cases "expect [CHR 0x22] (skip_ws s0)")
  case (Some q)
  then obtain t where "read_chars q = Some (t, r)" using assms by auto
  then have "length r < length (skip_ws s0)" using read_chars_shorter [of q t r] Some by (simp add: expect_Some)
  then show ?thesis using fixed assms Some by simp
next
  case None
  note n1 = this
  show ?thesis
  proof (cases "expect ''['' (skip_ws s0)")
    case (Some q)
    show ?thesis
    proof (cases "expect '']'' (skip_ws q)")
      case None
      then show ?thesis using arr assms n1 Some by auto
    next
      case (Some t)
      then have "length t < length q" using skip_ws_le [of q] by (simp add: expect_Some)
      then show ?thesis using fixed assms n1 Some \<open>expect ''['' (skip_ws s0) = Some q\<close> by (auto simp: expect_Some)
    qed
  next
    case None
    note n2 = this
    show ?thesis
    proof (cases "expect ''{'' (skip_ws s0)")
      case (Some q)
      show ?thesis
      proof (cases "expect ''}'' (skip_ws q)")
        case None
        then show ?thesis using obj assms n1 n2 Some by auto
      next
        case (Some t)
        then have "length t < length q" using skip_ws_le [of q] by (simp add: expect_Some)
        then show ?thesis using fixed assms n1 n2 Some \<open>expect ''{'' (skip_ws s0) = Some q\<close> by (auto simp: expect_Some)
      qed
    next
      case None
      then have "read_word (skip_ws s0) = Some (v, r)" using assms n1 n2 by simp
      then show ?thesis using fixed read_word_shorter n1 n2 None by simp
    qed
  qed
qed

text \<open>
  A reader of values that succeeds with some fuel succeeds, with the same result, with any fuel of at
  least twice the length of the text it reads.
\<close>

lemma p_fuel:
  "p_value n s = Some (v, r) \<Longrightarrow> length r < length s \<and>
     (\<forall>m \<ge> 2 * (length s - length r) - 1. p_value m s = Some (v, r))"
  "p_elems n s = Some (vs, r) \<Longrightarrow> length r < length s \<and>
     (\<forall>m \<ge> 2 * (length s - length r) - 1. p_elems m s = Some (vs, r))"
  "p_members n s = Some (ms, r) \<Longrightarrow> length r < length s \<and>
     (\<forall>m \<ge> 2 * (length s - length r) - 1. p_members m s = Some (ms, r))"
proof (induction n s and n s and n s arbitrary: v r and vs r and ms r rule: p_value_p_elems_p_members.induct)
  case (2 n s0)
  note le = skip_ws_le [of s0]
  from 2(3) show ?case
  proof (cases rule: p_value_cases)
    case (arr q us)
    note IH = 2(2) [OF refl arr(1,2,3) arr(4)]
    have len: "length q < length s0" using arr(2) le by (simp add: expect_Some)
    have "p_value m s0 = Some (v, r)" if m: "m \<ge> 2 * (length s0 - length r) - 1" for m
    proof -
      obtain k where k: "m = Suc k" "k \<ge> 2 * (length q - length r) - 1" using m IH len by (cases m) auto
      then have "p_elems k q = Some (us, r)" using IH by blast
      then show ?thesis using arr k by simp
    qed
    then show ?thesis using IH len by auto
  next
    case (obj q us)
    note IH = 2(1) [OF refl obj(1,2,3,4) obj(5)]
    have len: "length q < length s0" using obj(3) le by (simp add: expect_Some)
    have "p_value m s0 = Some (v, r)" if m: "m \<ge> 2 * (length s0 - length r) - 1" for m
    proof -
      obtain k where k: "m = Suc k" "k \<ge> 2 * (length q - length r) - 1" using m IH len by (cases m) auto
      then have "p_members k q = Some (us, r)" using IH by blast
      then show ?thesis using obj k by simp
    qed
    then show ?thesis using IH len by auto
  next
    case fixed
    have "p_value m s0 = Some (v, r)" if m: "m \<ge> 2 * (length s0 - length r) - 1" for m
      using m fixed le by (cases m) auto
    then show ?thesis using fixed le by auto
  qed
next
  case (4 n s)
  from 4(3) obtain v r1 where v: "p_value n s = Some (v, r1)" by (auto split: option.splits)
  note IH = 4(1) [OF v]
  show ?case
  proof (cases "expect '','' (skip_ws r1)")
    case None
    then have q: "expect '']'' (skip_ws r1) = Some r" "vs = [v]" using 4(3) v by auto
    have len: "length r < length r1" using q(1) skip_ws_le [of r1] by (simp add: expect_Some)
    have "p_elems m s = Some (vs, r)" if m: "m \<ge> 2 * (length s - length r) - 1" for m
    proof -
      obtain k where k: "m = Suc k" "k \<ge> 2 * (length s - length r1) - 1" using m IH len by (cases m) auto
      then have "p_value k s = Some (v, r1)" using IH by blast
      then show ?thesis using None q k by simp
    qed
    then show ?thesis using IH len by auto
  next
    case (Some q)
    then obtain us where us: "p_elems n q = Some (us, r)" "vs = v # us" using 4(3) v by (auto split: option.splits)
    note IH2 = 4(2) [OF v refl Some us(1)]
    have len: "length q < length r1" using Some skip_ws_le [of r1] by (simp add: expect_Some)
    have "p_elems m s = Some (vs, r)" if m: "m \<ge> 2 * (length s - length r) - 1" for m
    proof -
      obtain k where k: "m = Suc k" "k \<ge> 2 * (length s - length r1) - 1" "k \<ge> 2 * (length q - length r) - 1"
        using m IH IH2 len by (cases m) auto
      then have "p_value k s = Some (v, r1)" "p_elems k q = Some (us, r)" using IH IH2 by blast+
      then show ?thesis using Some us k by simp
    qed
    then show ?thesis using IH IH2 len by auto
  qed
next
  case (6 n s)
  from 6(3) obtain r0 k r1 r2 v r3 where pre: "expect [CHR 0x22] (skip_ws s) = Some r0" "read_chars r0 = Some (k, r1)"
      "expect '':'' (skip_ws r1) = Some r2" and v: "p_value n r2 = Some (v, r3)"
    by (auto split: option.splits)
  note IH = 6(1) [OF pre(1,2) refl pre(3) v]
  have len0: "length r2 < length s" using pre read_chars_shorter [OF pre(2)] skip_ws_le [of s] skip_ws_le [of r1]
    by (simp add: expect_Some)
  show ?case
  proof (cases "expect '','' (skip_ws r3)")
    case None
    then have q: "expect ''}'' (skip_ws r3) = Some r" "ms = [(k, v)]" using 6(3) pre v by auto
    have len: "length r < length r3" using q(1) skip_ws_le [of r3] by (simp add: expect_Some)
    have "p_members m s = Some (ms, r)" if m: "m \<ge> 2 * (length s - length r) - 1" for m
    proof -
      obtain j where j: "m = Suc j" "j \<ge> 2 * (length r2 - length r3) - 1" using m IH len len0 by (cases m) auto
      then have "p_value j r2 = Some (v, r3)" using IH by blast
      then show ?thesis using None q j pre by simp
    qed
    then show ?thesis using IH len len0 by auto
  next
    case (Some q)
    then obtain us where us: "p_members n q = Some (us, r)" "ms = (k, v) # us" using 6(3) pre v by (auto split: option.splits)
    note IH2 = 6(2) [OF pre(1,2) refl pre(3) v refl Some us(1)]
    have len: "length q < length r3" using Some skip_ws_le [of r3] by (simp add: expect_Some)
    have "p_members m s = Some (ms, r)" if m: "m \<ge> 2 * (length s - length r) - 1" for m
    proof -
      obtain j where j: "m = Suc j" "j \<ge> 2 * (length r2 - length r3) - 1" "j \<ge> 2 * (length q - length r) - 1"
        using m IH IH2 len len0 by (cases m) auto
      then have "p_value j r2 = Some (v, r3)" "p_members j q = Some (us, r)" using IH IH2 by blast+
      then show ?thesis using Some us j pre by simp
    qed
    then show ?thesis using IH IH2 len len0 by auto
  qed
qed simp_all

corollary p_value_enough:
  assumes "p_value n s = Some (v, r)"
  shows "p_value (2 * length s) s = Some (v, r)"
proof -
  have "2 * (length s - length r) - 1 \<le> 2 * length s" by simp
  then show ?thesis using p_fuel(1) [OF assms] by blast
qed

section \<open>Reading back what was written\<close>

text \<open>The values \<open>JSON.stringify\<close> writes without loss: numbers are safe integers.\<close>

fun json_ok :: "json \<Rightarrow> bool" where
  "json_ok (JNum i) = (\<bar>i\<bar> \<le> 2 ^ 53 - 1)"
| "json_ok (JFrac t) = False"
| "json_ok (JArr xs) = (\<forall>x \<in> set xs. json_ok x)"
| "json_ok (JObj ms) = (\<forall>m \<in> set ms. json_ok (snd m))"
| "json_ok _ = True"

lemma hex_digit_char: "d < 16 \<Longrightarrow> hex_digit (hex_char d) = Some d"
  by (simp add: hex_digit_def hex_char_def Let_def)

lemma read_hex_chars:
  assumes "a < 16" "b < 16"
  shows "read_hex 4 0 (CHR ''0'' # CHR ''0'' # hex_char a # hex_char b # r) = Some (16 * a + b, r)"
proof -
  have "hex_digit CHR ''0'' = Some 0" by code_simp
  moreover have "read_hex 4 = read_hex (Suc (Suc (Suc (Suc 0))))" by (simp add: eval_nat_numeral)
  ultimately show ?thesis using assms by (simp add: hex_digit_char)
qed

lemma read_unit_escape: "read_unit (json_escape c @ r) = Some (c, r)"
proof -
  define n where "n = (of_char c :: nat)"
  have c: "c = char_of n" by (simp add: n_def)
  have small: "(of_char CHR 0x5C :: nat) = 92" "(of_char CHR 0x22 :: nat) = 34" by code_simp+
  consider "n \<in> {34, 92, 8, 9, 10, 12, 13}" | "n < 32" "n \<notin> {8, 9, 10, 12, 13}"
    | "32 \<le> n" "n \<noteq> 34" "n \<noteq> 92" by fastforce
  then show ?thesis
  proof cases
    case 1
    then show ?thesis
      by (elim insertE emptyE)
        (simp_all add: json_escape_def read_unit_def small flip: n_def, simp_all add: c char_of_def bit_Suc_0_iff)
  next
    case 2
    then have "json_escape c = [CHR 0x5C, CHR ''u'', CHR ''0'', CHR ''0'', hex_char (n div 16), hex_char (n mod 16)]"
      by (simp add: json_escape_def flip: n_def)
    moreover have "n div 16 < 16" "n mod 16 < 16" "min (16 * (n div 16) + n mod 16) 255 = n" using 2 by simp_all
    ultimately show ?thesis
      by (simp add: read_unit_def small read_hex_chars c)
  next
    case 3
    then have e: "json_escape c = [c]" by (simp add: json_escape_def flip: n_def)
    have "c \<noteq> CHR 0x22" "c \<noteq> CHR 0x5C" using 3 n_def small by auto
    then show ?thesis using 3 by (simp add: e read_unit_def flip: n_def)
  qed
qed

lemma read_chars_escapes: "read_chars (concat (map json_escape t) @ CHR 0x22 # r) = Some (t, r)"
  by (induction t) (simp_all add: read_chars_unit [OF read_unit_escape])

text \<open>What follows a value inside a larger text.\<close>

definition delim :: "string \<Rightarrow> bool" where
  "delim r = (r = [] \<or> hd r \<in> {CHR '','', CHR '']'', CHR ''}''})"

lemma expect_Cons: "expect (a # w) (b # s) = (if a = b then expect w s else None)"
  by (simp add: expect_def)

lemma expect_Nil [simp]: "expect [] s = Some s"
  by (simp add: expect_def)

lemma skip_ws_Cons [simp]: "\<not> is_ws c \<Longrightarrow> skip_ws (c # s) = c # s"
  by (simp add: skip_ws_def)

lemma not_ws [simp]: "\<not> is_ws CHR '',''" "\<not> is_ws CHR '']''" "\<not> is_ws CHR ''}''" "\<not> is_ws CHR '':''"
  "\<not> is_ws CHR ''[''" "\<not> is_ws CHR ''{''" "\<not> is_ws CHR 0x22" "\<not> is_ws CHR ''-''" "\<not> is_ws CHR ''n''"
  "\<not> is_ws CHR ''t''" "\<not> is_ws CHR ''f''"
  by (simp_all add: is_ws_def)

lemma plain_int_nat_digits [simp]: "plain_int (nat_digits n)"
  using nat_digits_hd [of n] by (cases "n = 0") (simp_all add: plain_int_def nat_digits_0)

lemma digit_not: "is_digit c \<Longrightarrow> c \<notin> {CHR 0x22, CHR ''['', CHR ''{'', CHR ''n'', CHR ''t'', CHR ''f'', CHR ''-'', CHR '']'',
    CHR ''}'', CHR 0x20, CHR 0x09, CHR 0x0A, CHR 0x0D}"
  by (auto simp: is_digit_def)

lemma int_text_head:
  "\<exists>c cs. int_text i = c # cs \<and> \<not> is_ws c \<and> c \<notin> {CHR 0x22, CHR ''['', CHR ''{'', CHR ''n'', CHR ''t'', CHR ''f'', CHR '']'', CHR ''}''}"
proof (cases "i < 0")
  case True
  then show ?thesis by (simp add: int_text_def)
next
  case False
  have "plain_int (nat_digits (nat i))" by simp
  then obtain c cs where c: "nat_digits (nat i) = c # cs" "is_digit c" unfolding plain_int_def by (cases "nat_digits (nat i)") auto
  then show ?thesis using digit_not [OF c(2)] False by (auto simp: int_text_def is_ws_def)
qed

lemma read_number_int:
  assumes "\<bar>i\<bar> \<le> 2 ^ 53 - 1" "delim r"
  shows "read_number (int_text i @ r) = Some (JNum i, r)"
proof -
  have stop: "r = [] \<or> \<not> is_digit (hd r)" using assms(2) by (auto simp: delim_def is_digit_def)
  have digits: "read_digits (nat_digits n @ r) = Some (nat_digits n, r)" for n
  proof -
    have "plain_int (nat_digits n)" by simp
    then have d: "\<forall>c \<in> set (nat_digits n). is_digit c" by (simp add: plain_int_def list_all_iff)
    have "takeWhile is_digit r = []" "dropWhile is_digit r = r" using stop by (cases r; simp)+
    then have "takeWhile is_digit (nat_digits n @ r) = nat_digits n" "dropWhile is_digit (nat_digits n @ r) = r"
      using d by simp_all
    then show ?thesis by (simp add: read_digits_def Let_def)
  qed
  have rest: "read_frac r = Some ([], r)" "read_exp r = Some ([], 0, r)"
    using assms(2) by (cases r; auto simp: delim_def read_frac_def read_exp_def expect_def)+
  show ?thesis
  proof (cases "i < 0")
    case True
    then show ?thesis using assms(1) digits [of "nat (- i)"] rest
      by (simp add: read_number_def int_text_def number_json_def integer_value_def Let_def nat_le_iff)
  next
    case False
    have "plain_int (nat_digits (nat i))" by simp
    then have "take 1 (nat_digits (nat i) @ r) \<noteq> ''-''"
      unfolding plain_int_def by (cases "nat_digits (nat i)") (auto simp: is_digit_def)
    then show ?thesis using assms(1) digits [of "nat i"] rest False
      by (simp add: read_number_def int_text_def number_json_def integer_value_def nat_le_iff)
  qed
qed

lemma read_word_int:
  assumes "\<bar>i\<bar> \<le> 2 ^ 53 - 1" "delim r"
  shows "read_word (int_text i @ r) = Some (JNum i, r)"
proof -
  obtain c cs where "int_text i = c # cs" "c \<noteq> CHR ''n''" "c \<noteq> CHR ''t''" "c \<noteq> CHR ''f''"
    using int_text_head [of i] by auto
  then show ?thesis using read_number_int [OF assms] by (simp add: read_word_def expect_Cons)
qed

lemma stringify_head:
  assumes "json_ok j"
  shows "\<exists>c cs. json_stringify j = c # cs \<and> \<not> is_ws c \<and> c \<noteq> CHR '']'' \<and> c \<noteq> CHR ''}''"
proof (cases j)
  case (JNum i)
  then show ?thesis using int_text_head [of i] by auto
qed (use assms in \<open>auto simp: json_quote_def\<close>)

lemma p_elems_stringify:
  assumes "\<And>x r n. x \<in> set xs \<Longrightarrow> delim r \<Longrightarrow> 2 * length (json_stringify x) \<le> n \<Longrightarrow>
      p_value n (json_stringify x @ r) = Some (x, r)"
    and "xs \<noteq> []" "2 * length (join_with '','' (map json_stringify xs)) + 1 \<le> n"
  shows "p_elems n (join_with '','' (map json_stringify xs) @ CHR '']'' # r) = Some (xs, r)"
  using assms
proof (induction xs arbitrary: n)
  case (Cons x xs)
  obtain k where n: "n = Suc k" using Cons.prems(3) by (cases n) auto
  show ?case
  proof (cases xs)
    case Nil
    then have "p_value k (json_stringify x @ CHR '']'' # r) = Some (x, CHR '']'' # r)"
      using Cons.prems n by (simp add: delim_def)
    then show ?thesis by (simp add: n Nil expect_Cons)
  next
    case (Cons y ys)
    let ?t = "join_with '','' (map json_stringify xs) @ CHR '']'' # r"
    have "p_value k (json_stringify x @ CHR '','' # ?t) = Some (x, CHR '','' # ?t)"
      using Cons.prems n Cons by (simp add: delim_def)
    moreover have "p_elems k ?t = Some (xs, r)" using Cons.prems n Cons by (intro Cons.IH) auto
    ultimately show ?thesis by (simp add: n Cons expect_Cons)
  qed
qed simp

lemma p_members_stringify:
  assumes "\<And>m r n. m \<in> set ms \<Longrightarrow> delim r \<Longrightarrow> 2 * length (json_stringify (snd m)) \<le> n \<Longrightarrow>
      p_value n (json_stringify (snd m) @ r) = Some (snd m, r)"
    and "ms \<noteq> []"
    and "2 * length (join_with '','' (map (\<lambda>(k, v). json_quote k @ '':'' @ json_stringify v) ms)) + 1 \<le> n"
  shows "p_members n (join_with '','' (map (\<lambda>(k, v). json_quote k @ '':'' @ json_stringify v) ms) @ CHR ''}'' # r) =
    Some (ms, r)"
  using assms
proof (induction ms arbitrary: n)
  case (Cons m ms)
  obtain j where n: "n = Suc j" using Cons.prems(3) by (cases n) auto
  obtain k v where m: "m = (k, v)" by fastforce
  have key: "read_chars (concat (map json_escape k) @ CHR 0x22 # t) = Some (k, t)" for t by (rule read_chars_escapes)
  show ?case
  proof (cases ms)
    case Nil
    then have "p_value j (json_stringify v @ CHR ''}'' # r) = Some (v, CHR ''}'' # r)"
      using Cons.prems(1) [of m "CHR ''}'' # r" j] Cons.prems(3) n m by (simp add: delim_def)
    then show ?thesis by (simp add: n m Nil expect_Cons json_quote_def key)
  next
    case (Cons y ys)
    let ?t = "join_with '','' (map (\<lambda>(k, v). json_quote k @ '':'' @ json_stringify v) ms) @ CHR ''}'' # r"
    have "p_value j (json_stringify v @ CHR '','' # ?t) = Some (v, CHR '','' # ?t)"
      using Cons.prems(1) [of m "CHR '','' # ?t" j] Cons.prems(3) n m Cons by (simp add: delim_def)
    moreover have "p_members j ?t = Some (ms, r)"
      using Cons.prems n m Cons by (intro Cons.IH) (auto simp del: split_paired_All)
    ultimately show ?thesis by (simp add: n m Cons expect_Cons json_quote_def key)
  qed
qed simp

lemma p_value_stringify:
  "json_ok j \<Longrightarrow> delim r \<Longrightarrow> 2 * length (json_stringify j) \<le> n \<Longrightarrow> p_value n (json_stringify j @ r) = Some (j, r)"
proof (induction j arbitrary: r n)
  case (JNum i)
  obtain c cs where c: "int_text i = c # cs" "\<not> is_ws c" "c \<noteq> CHR 0x22" "c \<noteq> CHR ''[''" "c \<noteq> CHR ''{''"
    using int_text_head [of i] by auto
  obtain k where "n = Suc k" using JNum c by (cases n) auto
  then show ?case using read_word_int [of i r] JNum c by (simp add: expect_Cons)
next
  case (JStr s)
  obtain k where "n = Suc k" using JStr by (cases n) (auto simp: json_quote_def)
  then show ?case by (simp add: json_quote_def expect_Cons read_chars_escapes)
next
  case (JArr xs)
  obtain k where n: "n = Suc k" using JArr by (cases n) auto
  show ?case
  proof (cases "xs = []")
    case True
    then show ?thesis using n by (simp add: expect_Cons)
  next
    case False
    let ?t = "join_with '','' (map json_stringify xs) @ CHR '']'' # r"
    have "p_elems k ?t = Some (xs, r)"
      using JArr False n by (intro p_elems_stringify) auto
    moreover obtain c cs where "?t = c # cs" "\<not> is_ws c" "c \<noteq> CHR '']''"
      using stringify_head [of "hd xs"] JArr.prems(1) False by (cases xs; cases "tl xs") auto
    ultimately show ?thesis by (simp add: n expect_Cons)
  qed
next
  case (JObj ms)
  obtain k where n: "n = Suc k" using JObj by (cases n) auto
  show ?case
  proof (cases "ms = []")
    case True
    then show ?thesis using n by (simp add: expect_Cons)
  next
    case False
    let ?t = "join_with '','' (map (\<lambda>(k, v). json_quote k @ '':'' @ json_stringify v) ms) @ CHR ''}'' # r"
    have "p_members k ?t = Some (ms, r)"
    proof (rule p_members_stringify)
      fix m r n
      assume "m \<in> set ms" "delim r" "2 * length (json_stringify (snd m)) \<le> n"
      moreover have "snd m \<in> Basic_BNFs.snds m" by (simp add: Basic_BNFs.snds.simps)
      ultimately show "p_value n (json_stringify (snd m) @ r) = Some (snd m, r)"
        using JObj.IH [of m "snd m" r n] JObj.prems(1) by simp
    qed (use JObj False n in auto)
    moreover obtain cs where "?t = CHR 0x22 # cs" using False by (cases ms; cases "tl ms") (auto simp: json_quote_def)
    ultimately show ?thesis by (simp add: n expect_Cons)
  qed
next
  case JNull
  obtain k where "n = Suc k" using JNull by (cases n) auto
  then show ?case by (simp add: expect_Cons read_word_def)
next
  case (JBool b)
  obtain k where "n = Suc k" using JBool by (cases n) (auto split: if_splits)
  then show ?case by (simp add: expect_Cons read_word_def)
qed simp

text \<open>What \<open>JSON.stringify\<close> writes, \<open>JSON.parse\<close> reads back.\<close>

lemma parse_stringify: "json_ok j \<Longrightarrow> json_parse (json_stringify j) = Some j"
  using p_value_stringify [of j "[]"] by (simp add: json_parse_def delim_def skip_ws_def)

end
