(* ===== verification/Sync_Store.thy ===== *)
theory Sync_Store
  imports Shifts Json_Parse
begin

text \<open>
  The persistence port of synchronisation, \<open>packages/local-db/src/sync-store.ts\<close>: the outbox (claiming
  a batch under a lease, settling it, its summary), the change feed (applying a page of projection
  changes under a cursor), the bootstrap snapshot, the sync state and the conflicts. Every method of the
  class \<open>PosSyncStore\<close> is a definition here. The lemmas
  show which rows a method may change, that a lease excludes a second one, that the cursor only moves
  forward by whole pages, and that a snapshot replaces exactly the rows of its business.
\<close>

section \<open>Error codes, inputs\<close>

definition SYNC_CURSOR_MISMATCH :: string where "SYNC_CURSOR_MISMATCH = ''SYNC_CURSOR_MISMATCH''"
definition SYNC_OUTBOX_LEASE_MISMATCH :: string where
  "SYNC_OUTBOX_LEASE_MISMATCH = ''SYNC_OUTBOX_LEASE_MISMATCH''"
definition SYNC_INVALID_INPUT :: string where "SYNC_INVALID_INPUT = ''SYNC_INVALID_INPUT''"

abbreviation invalid_input :: js_error where
  "invalid_input \<equiv> LocalSyncStoreError SYNC_INVALID_INPUT"

record LocalOutboxSummary =
  su_pending :: nat
  su_sending :: nat
  su_failed_retryable :: nat
  su_requires_review :: nat
  su_unresolved :: nat

datatype LocalOpaqueProjectionEntityType = et_promotion | et_payment_method | et_stock_balance | et_authorization

datatype ChangeType = UPSERT | DEACTIVATE | INVALIDATE

datatype LocalSyncProjectionChange =
    ProductChange string ChangeType LocalPosProduct
  | ProductUnitChange string ChangeType LocalPosProductUnit
  | BarcodeChange string ChangeType LocalPosBarcode
  | PublishedPriceChange string ChangeType LocalPublishedRetailPriceRecord
  | OpaqueChange string LocalOpaqueProjectionEntityType ChangeType LocalOpaqueProjectionRecord

record ClaimOutboxBatchInput =
  cm_business_id :: string
  cm_lease_owner :: string
  cm_claimed_at :: string
  cm_lease_expires_at :: string
  cm_limit :: "js_number option"

datatype Disposition = DISP_ACCEPTED | DISP_ACCEPTED_WITH_REVIEW | DISP_FAILED_RETRYABLE | DISP_REQUIRES_REVIEW

record SettleOutboxCommand =
  so_command_id :: string
  so_disposition :: Disposition
  so_error :: "string option"
  so_next_attempt_at :: "string option"

record ApplyProjectionPageInput =
  pg_business_id :: string
  pg_device_id :: string
  pg_expected_cursor :: string
  pg_next_cursor :: string
  pg_bootstrap_version :: int
  pg_server_time :: string
  pg_applied_at :: string
  pg_changes :: "LocalSyncProjectionChange list"
  pg_observed_events :: "LocalObservedSyncEventRecord list option"

record LocalBootstrapOpaqueProjection =
  bo_entity_type :: LocalOpaqueProjectionEntityType
  bo_value :: LocalOpaqueProjectionRecord

record ApplyBootstrapSnapshotInput =
  bs_business_id :: string
  bs_device_id :: string
  bs_bootstrap_version :: int
  bs_cursor :: string
  bs_server_time :: string
  bs_applied_at :: string
  bs_products :: "LocalPosProduct list"
  bs_product_units :: "LocalPosProductUnit list"
  bs_barcodes :: "LocalPosBarcode list"
  bs_published_retail_prices :: "LocalPublishedRetailPriceRecord list"
  bs_opaque_projections :: "LocalBootstrapOpaqueProjection list"

section \<open>Validation\<close>

definition assertLimit :: "js_number \<Rightarrow> unit result" where
  "assertLimit limit = throwIf (\<not> isSafeInteger limit \<or> js_int limit \<le> 0) invalid_input"

definition parseTimestamp :: "js_env \<Rightarrow> string \<Rightarrow> int result" where
  "parseTimestamp E value = (case dateParse E value of None \<Rightarrow> Inl invalid_input | Some t \<Rightarrow> Inr t)"

definition CLOCK_TRUST_TOLERANCE_MS :: int where
  "CLOCK_TRUST_TOLERANCE_MS = 5 * 60 * 1000"

definition deriveClockMetadata :: "js_env \<Rightarrow> string \<Rightarrow> string \<Rightarrow> (int \<times> PricingTimeStatus) result" where
  "deriveClockMetadata E serverTime appliedAt =
     bindE (parseTimestamp E serverTime) (\<lambda>server.
     bindE (parseTimestamp E appliedAt) (\<lambda>applied.
     let clockOffset = server - applied in
     Inr (clockOffset, if \<bar>clockOffset\<bar> \<le> CLOCK_TRUST_TOLERANCE_MS then TRUSTED else CLOCK_UNTRUSTED)))"

text \<open>\<open>/^(?:0|[1-9][0-9]*)$/\<close> is \<open>plain_int\<close>; the \<open>BigInt\<close> of such a text is its decimal value.\<close>

definition parseCursor :: "string \<Rightarrow> nat result" where
  "parseCursor value = (if plain_int value then Inr (digits_val value) else Inl invalid_input)"

definition assertUniqueKeys :: "string list \<Rightarrow> unit result" where
  "assertUniqueKeys values = throwIf (card (set values) \<noteq> length values) invalid_input"

definition buildSyncContextKey :: "string \<Rightarrow> string \<Rightarrow> string" where
  "buildSyncContextKey businessId deviceId = json_strings [businessId, deviceId]"

definition buildOpaqueProjectionKey :: "string \<Rightarrow> string \<Rightarrow> string" where
  "buildOpaqueProjectionKey businessId entityId = json_strings [businessId, entityId]"

text \<open>The table \<open>projectionStoreName\<close> selects: how to read it and how to write it.\<close>

fun projectionStore :: "LocalOpaqueProjectionEntityType \<Rightarrow> pos_db \<Rightarrow> LocalOpaqueProjectionRecord list" where
  "projectionStore et_promotion = db_promotions"
| "projectionStore et_payment_method = db_payment_methods"
| "projectionStore et_stock_balance = db_stock_balances"
| "projectionStore et_authorization = db_authorization_cache"

fun projectionStore_update ::
  "LocalOpaqueProjectionEntityType \<Rightarrow>
   (LocalOpaqueProjectionRecord list \<Rightarrow> LocalOpaqueProjectionRecord list) \<Rightarrow> pos_db \<Rightarrow> pos_db" where
  "projectionStore_update et_promotion = db_promotions_update"
| "projectionStore_update et_payment_method = db_payment_methods_update"
| "projectionStore_update et_stock_balance = db_stock_balances_update"
| "projectionStore_update et_authorization = db_authorization_cache_update"

section \<open>Reading the outbox\<close>

definition getOutboxCommand :: "string \<Rightarrow> LocalOutboxRecord option db_act" where
  "getOutboxCommand commandId = readA (\<lambda>s. find (\<lambda>r. ob_command_id r = commandId) (db_outbox s))"

definition listPendingOutbox :: "string \<Rightarrow> js_number option \<Rightarrow> LocalOutboxRecord list db_act" where
  "listPendingOutbox businessId limitArg =
     (let limit = (case limitArg of None \<Rightarrow> JSInt 50 | Some l \<Rightarrow> l) in
      bindA (liftA (assertLimit limit)) (\<lambda>_.
      readA (\<lambda>s. take (nat (js_int limit))
        (sortBy ob_created_at
          (filter (\<lambda>r. ob_business_id r = businessId \<and> ob_status r = PENDING) (db_outbox s))))))"

definition countStatus :: "LocalOutboxSummary \<Rightarrow> LocalOutboxRecord \<Rightarrow> LocalOutboxSummary" where
  "countStatus summary record =
     (case ob_status record of
        PENDING \<Rightarrow> summary\<lparr>su_pending := su_pending summary + 1\<rparr>
      | SENDING \<Rightarrow> summary\<lparr>su_sending := su_sending summary + 1\<rparr>
      | FAILED_RETRYABLE \<Rightarrow> summary\<lparr>su_failed_retryable := su_failed_retryable summary + 1\<rparr>
      | REQUIRES_REVIEW \<Rightarrow> summary\<lparr>su_requires_review := su_requires_review summary + 1\<rparr>
      | ACCEPTED \<Rightarrow> summary)"

definition getOutboxSummary :: "string \<Rightarrow> LocalOutboxSummary db_act" where
  "getOutboxSummary businessId =
     readA (\<lambda>s.
       let records = filter (\<lambda>r. ob_business_id r = businessId) (db_outbox s);
           summary = foldl countStatus \<lparr>su_pending = 0, su_sending = 0, su_failed_retryable = 0,
                       su_requires_review = 0, su_unresolved = 0\<rparr> records in
       summary\<lparr>su_unresolved := su_pending summary + su_sending summary + su_failed_retryable summary +
         su_requires_review summary\<rparr>)"

section \<open>Reopening what was refused for lack of authority\<close>

text \<open>
  \<open>String(value)\<close> of a value that was read from JSON. A number is given by its text, which is none of the
  codes it is compared with.
\<close>

fun js_String :: "json \<Rightarrow> string" where
  "js_String JNull = ''null''"
| "js_String (JBool b) = (if b then ''true'' else ''false'')"
| "js_String (JNum i) = int_text i"
| "js_String (JFrac t) = t"
| "js_String (JStr s) = s"
| "js_String (JArr xs) = join_with '','' (map (\<lambda>x. if x = JNull then '''' else js_String x) xs)"
| "js_String (JObj ms) = ''[object Object]''"

definition recoverableCodes :: "string set" where
  "recoverableCodes = {''SESSION_INVALID'', ''DEVICE_REVOKED'', ''MEMBERSHIP_INACTIVE'', ''PERMISSION_DENIED''}"

text \<open>The callback of \<open>filter\<close>. An error text that is no JSON is not recoverable.\<close>

definition recoverable :: "LocalOutboxRecord \<Rightarrow> bool" where
  "recoverable record =
     (if ob_status record \<noteq> REQUIRES_REVIEW \<or> ob_offline_authorization record = None then False
      else case ob_last_error record of
          None \<Rightarrow> False
        | Some e \<Rightarrow> (case json_parse e of
              Some (JObj ms) \<Rightarrow>
                (case jget ms ''code'' of None \<Rightarrow> ''undefined'' | Some v \<Rightarrow> js_String v) \<in> recoverableCodes
            | _ \<Rightarrow> False))"

definition retryRow :: "LocalOutboxRecord \<Rightarrow> LocalOutboxRecord" where
  "retryRow record = record\<lparr>ob_last_error := None, ob_lease_expires_at := None, ob_lease_owner := None,
     ob_next_attempt_at := None, ob_status := PENDING\<rparr>"

definition authorizeRecoveryRetry :: "string \<Rightarrow> nat db_act" where
  "authorizeRecoveryRetry businessId =
     transaction (
       bindA (readA (\<lambda>s. filter recoverable (filter (\<lambda>r. ob_business_id r = businessId) (db_outbox s)))) (\<lambda>records.
       bindA (forA (\<lambda>record. tableA db_outbox db_outbox_update
                (t_update outbox_schema (ob_outbox_id record) retryRow)) records) (\<lambda>_.
       retA (length records))))"

section \<open>Claiming a batch\<close>

text \<open>The callback of \<open>filter\<close>; a stored timestamp that is no date makes it throw.\<close>

definition claimable :: "js_env \<Rightarrow> int \<Rightarrow> LocalOutboxRecord \<Rightarrow> bool result" where
  "claimable E claimedAt record =
     (case ob_status record of
        PENDING \<Rightarrow> Inr True
      | FAILED_RETRYABLE \<Rightarrow>
          (case ob_next_attempt_at record of
             None \<Rightarrow> Inr True
           | Some t \<Rightarrow> bindE (parseTimestamp E t) (\<lambda>due. Inr (due \<le> claimedAt)))
      | SENDING \<Rightarrow>
          (case ob_lease_expires_at record of
             None \<Rightarrow> Inr False
           | Some t \<Rightarrow> bindE (parseTimestamp E t) (\<lambda>due. Inr (due \<le> claimedAt)))
      | _ \<Rightarrow> Inr False)"

fun filterE :: "('a \<Rightarrow> bool result) \<Rightarrow> 'a list \<Rightarrow> 'a list result" where
  "filterE p [] = Inr []"
| "filterE p (x # xs) =
     bindE (p x) (\<lambda>b. bindE (filterE p xs) (\<lambda>ys. Inr (if b then x # ys else ys)))"

definition claimRow :: "ClaimOutboxBatchInput \<Rightarrow> LocalOutboxRecord \<Rightarrow> LocalOutboxRecord" where
  "claimRow input record = record\<lparr>
     ob_attempt_count := ob_attempt_count record + 1, ob_last_attempt_at := Some (cm_claimed_at input),
     ob_lease_owner := Some (cm_lease_owner input),
     ob_lease_expires_at := Some (cm_lease_expires_at input), ob_status := SENDING\<rparr>"

definition claimOutboxBatch :: "js_env \<Rightarrow> ClaimOutboxBatchInput \<Rightarrow> LocalOutboxRecord list db_act" where
  "claimOutboxBatch E input =
     (let limit = (case cm_limit input of None \<Rightarrow> JSInt 50 | Some l \<Rightarrow> l) in
      bindA (liftA (assertLimit limit)) (\<lambda>_.
      bindA (liftA (parseTimestamp E (cm_claimed_at input))) (\<lambda>claimedAt.
      bindA (liftA (parseTimestamp E (cm_lease_expires_at input))) (\<lambda>leaseExpiresAt.
      bindA (liftA (throwIf (leaseExpiresAt \<le> claimedAt \<or> cm_lease_owner input = '''') invalid_input)) (\<lambda>_.
      transaction (
        bindA (readA (\<lambda>s. filter (\<lambda>r. ob_business_id r = cm_business_id input) (db_outbox s))) (\<lambda>rows.
        bindA (liftA (filterE (claimable E claimedAt) rows)) (\<lambda>candidates.
        let claimed = map (claimRow input) (take (nat (js_int limit))
              (sort_by (\<lambda>l r. localeCompare E (ob_created_at l) (ob_created_at r)) candidates)) in
        bindA (if claimed = [] then retA ()
               else tableA db_outbox db_outbox_update (t_bulkPut outbox_schema claimed)) (\<lambda>_.
        retA claimed)))))))))"

section \<open>Settling a batch\<close>

text \<open>The checks before the transaction: no command twice, a retry has its time.\<close>

definition checkSettlement :: "js_env \<Rightarrow> string set \<Rightarrow> SettleOutboxCommand \<Rightarrow> string set result" where
  "checkSettlement E commandIds settlement =
     bindE (throwIf (so_command_id settlement \<in> commandIds) invalid_input) (\<lambda>_.
     bindE (if so_disposition settlement = DISP_FAILED_RETRYABLE then
              case so_next_attempt_at settlement of
                None \<Rightarrow> Inl invalid_input
              | Some t \<Rightarrow> bindE (parseTimestamp E t) (\<lambda>_. Inr ())
            else Inr ()) (\<lambda>_.
     Inr (insert (so_command_id settlement) commandIds)))"

definition settledStatus :: "Disposition \<Rightarrow> LocalOutboxStatus" where
  "settledStatus d =
     (let accepted = (d = DISP_ACCEPTED \<or> d = DISP_ACCEPTED_WITH_REVIEW);
          requiresReview = (d = DISP_ACCEPTED_WITH_REVIEW \<or> d = DISP_REQUIRES_REVIEW) in
      if accepted then ACCEPTED else if requiresReview then REQUIRES_REVIEW else FAILED_RETRYABLE)"

definition aggregateSyncStatus :: "Disposition \<Rightarrow> LocalSyncStatus" where
  "aggregateSyncStatus d =
     (if d = DISP_ACCEPTED_WITH_REVIEW \<or> d = DISP_REQUIRES_REVIEW then SYNC_REQUIRES_REVIEW else SYNC_SYNCED)"

definition settleRow :: "SettleOutboxCommand \<Rightarrow> LocalOutboxRecord \<Rightarrow> LocalOutboxRecord" where
  "settleRow settlement record = record\<lparr>
     ob_last_error := so_error settlement, ob_lease_expires_at := None, ob_lease_owner := None,
     ob_next_attempt_at :=
       (if so_disposition settlement = DISP_FAILED_RETRYABLE then so_next_attempt_at settlement else None),
     ob_status := settledStatus (so_disposition settlement)\<rparr>"

definition markAggregates :: "LocalSyncStatus \<Rightarrow> LocalOutboxRecord \<Rightarrow> unit db_act" where
  "markAggregates status record =
     bindA (tableA db_transactions db_transactions_update
       (t_modify transactions_schema (\<lambda>t. tr_command_id t = ob_command_id record)
         (\<lambda>t. t\<lparr>tr_sync_status := status\<rparr>))) (\<lambda>_.
     bindA (tableA db_shifts db_shifts_update
       (t_modify shifts_schema (\<lambda>t. sh_shift_id t = ob_business_event_id record)
         (\<lambda>t. t\<lparr>sh_sync_status := status\<rparr>))) (\<lambda>_.
     tableA db_audit_events db_audit_events_update
       (t_modify audit_events_schema (\<lambda>t. ae_correlation_id t = Some (ob_correlation_id record))
         (\<lambda>t. t\<lparr>ae_sync_status := status\<rparr>))))"

definition settleOne :: "string \<Rightarrow> SettleOutboxCommand \<Rightarrow> unit db_act" where
  "settleOne leaseOwner settlement =
     bindA (readA (\<lambda>s. find (\<lambda>r. ob_command_id r = so_command_id settlement) (db_outbox s))) (\<lambda>found.
     case found of
       None \<Rightarrow> throwA (LocalSyncStoreError SYNC_OUTBOX_LEASE_MISMATCH)
     | Some record \<Rightarrow>
         if ob_status record \<noteq> SENDING \<or> ob_lease_owner record \<noteq> Some leaseOwner
         then throwA (LocalSyncStoreError SYNC_OUTBOX_LEASE_MISMATCH)
         else
           bindA (tableA db_outbox db_outbox_update
             (t_update outbox_schema (ob_outbox_id record) (settleRow settlement))) (\<lambda>_.
           if so_disposition settlement \<noteq> DISP_FAILED_RETRYABLE
           then markAggregates (aggregateSyncStatus (so_disposition settlement)) record
           else retA ()))"

definition settleOutboxBatch :: "js_env \<Rightarrow> string \<Rightarrow> SettleOutboxCommand list \<Rightarrow> unit db_act" where
  "settleOutboxBatch E leaseOwner settlements =
     bindA (liftA (foldE (checkSettlement E) {} settlements)) (\<lambda>_.
     transaction (forA (settleOne leaseOwner) settlements))"

section \<open>Sync state, projections, conflicts\<close>

definition getState :: "string \<Rightarrow> string \<Rightarrow> LocalSyncStateRecord option db_act" where
  "getState businessId deviceId =
     readA (\<lambda>s. t_get sync_state_schema (buildSyncContextKey businessId deviceId) (db_sync_state s))"

definition getOpaqueProjection ::
  "LocalOpaqueProjectionEntityType \<Rightarrow> string \<Rightarrow> string \<Rightarrow> LocalOpaqueProjectionRecord option db_act" where
  "getOpaqueProjection entityType businessId entityId =
     readA (\<lambda>s. t_get opaque_schema (buildOpaqueProjectionKey businessId entityId) (projectionStore entityType s))"

text \<open>Only \<open>applyProjectionPage\<close> writes observed events, and it checks that the sequence is a cursor text.\<close>

definition cmpSequence :: "string \<Rightarrow> string \<Rightarrow> int" where
  "cmpSequence l r =
     (if digits_val l < digits_val r then - 1 else if digits_val r < digits_val l then 1 else 0)"

definition listObservedEvents :: "string \<Rightarrow> string \<Rightarrow> LocalObservedSyncEventRecord list db_act" where
  "listObservedEvents businessId entityType =
     readA (\<lambda>s. sort_by (\<lambda>l r. cmpSequence (oe_sequence l) (oe_sequence r))
       (filter (\<lambda>e. oe_business_id e = businessId \<and> oe_entity_type e = entityType) (db_sync_observed_events s)))"

definition putState :: "js_env \<Rightarrow> LocalSyncStateRecord \<Rightarrow> unit db_act" where
  "putState E state =
     bindA (liftA (parseCursor (st_cursor state))) (\<lambda>_.
     bindA (liftA (parseTimestamp E (st_server_time state))) (\<lambda>_.
     bindA (liftA (parseTimestamp E (st_updated_at state))) (\<lambda>_.
     bindA (liftA (throwIf (\<not> isFinite (st_clock_offset_ms state)) invalid_input)) (\<lambda>_.
     bindA (liftA (throwIf (st_context_key state \<noteq> buildSyncContextKey (st_business_id state) (st_device_id state))
                     invalid_input)) (\<lambda>_.
     tableA db_sync_state db_sync_state_update (t_put sync_state_schema state))))))"

definition recordConflict :: "LocalSyncConflictRecord \<Rightarrow> unit db_act" where
  "recordConflict conflict =
     tableA db_sync_conflicts db_sync_conflicts_update (t_add sync_conflicts_schema conflict)"

definition listUnresolvedConflicts :: "string \<Rightarrow> LocalSyncConflictRecord list db_act" where
  "listUnresolvedConflicts businessId =
     readA (\<lambda>s. sortBy cf_created_at
       (filter (\<lambda>c. cf_business_id c = businessId \<and> cf_status c = ''UNRESOLVED'') (db_sync_conflicts s)))"

definition sync_state_row ::
  "string \<Rightarrow> string \<Rightarrow> string \<Rightarrow> int \<Rightarrow> string \<Rightarrow> int \<times> PricingTimeStatus \<Rightarrow> string \<Rightarrow> LocalSyncStateRecord" where
  "sync_state_row businessId deviceId cursor version serverTime clock appliedAt = \<lparr>
     st_context_key = buildSyncContextKey businessId deviceId, st_business_id = businessId,
     st_device_id = deviceId, st_cursor = cursor, st_bootstrap_version = version,
     st_server_time = serverTime, st_clock_offset_ms = JSInt (fst clock),
     st_clock_trust_status = snd clock, st_updated_at = appliedAt\<rparr>"


section \<open>The bootstrap snapshot\<close>

definition validateSnapshot :: "js_env \<Rightarrow> ApplyBootstrapSnapshotInput \<Rightarrow> (int \<times> PricingTimeStatus) result" where
  "validateSnapshot E input =
     (let business = bs_business_id input;
          productIdSet = set (map pd_id (bs_products input));
          unitIdSet = set (map pu_id (bs_product_units input)) in
      bindE (parseCursor (bs_cursor input)) (\<lambda>_.
      bindE (parseTimestamp E (bs_server_time input)) (\<lambda>_.
      bindE (parseTimestamp E (bs_applied_at input)) (\<lambda>_.
      bindE (deriveClockMetadata E (bs_server_time input) (bs_applied_at input)) (\<lambda>clock.
      bindE (assertUniqueKeys (map pd_id (bs_products input))) (\<lambda>_.
      bindE (assertUniqueKeys (map pu_id (bs_product_units input))) (\<lambda>_.
      bindE (assertUniqueKeys (map bc_id (bs_barcodes input))) (\<lambda>_.
      bindE (assertUniqueKeys (map lp_price_version_id (bs_published_retail_prices input))) (\<lambda>_.
      bindE (throwIf (list_ex (\<lambda>p. pd_business_id p \<noteq> business) (bs_products input)) invalid_input) (\<lambda>_.
      bindE (throwIf (list_ex (\<lambda>u. pu_business_id u \<noteq> business \<or> pu_product_id u \<notin> productIdSet)
                        (bs_product_units input)) invalid_input) (\<lambda>_.
      bindE (throwIf (list_ex (\<lambda>b. bc_business_id b \<noteq> business \<or> bc_product_unit_id b \<notin> unitIdSet)
                        (bs_barcodes input)) invalid_input) (\<lambda>_.
      bindE (throwIf (list_ex (\<lambda>p. lp_business_id p \<noteq> business \<or> lp_product_unit_id p \<notin> unitIdSet)
                        (bs_published_retail_prices input)) invalid_input) (\<lambda>_.
      bindE (throwIf (list_ex (\<lambda>p. op_business_id (bo_value p) \<noteq> business \<or>
                          op_key (bo_value p) \<noteq> buildOpaqueProjectionKey business (op_entity_id (bo_value p)))
                        (bs_opaque_projections input)) invalid_input) (\<lambda>_.
      Inr clock))))))))))))))"

text \<open>
  Deleting the rows of the business that the snapshot does not list, and storing the listed ones:
  \<open>bulkDelete\<close> of the stale keys, then \<open>bulkPut\<close>, which is skipped for an empty list.
\<close>

definition deleteStale ::
  "'r schema \<Rightarrow> ('r \<Rightarrow> string) \<Rightarrow> string \<Rightarrow> string set \<Rightarrow> 'r list \<Rightarrow> 'r list result" where
  "deleteStale S businessOf business keep t =
     Inr (t_bulkDelete S
       (map (sch_key S) (filter (\<lambda>r. sch_key S r \<notin> keep) (filter (\<lambda>r. businessOf r = business) t))) t)"

definition putListed :: "'r schema \<Rightarrow> 'r list \<Rightarrow> 'r list \<Rightarrow> 'r list result" where
  "putListed S rs t = (if rs = [] then Inr t else t_bulkPut S rs t)"

definition replaceProjections ::
  "ApplyBootstrapSnapshotInput \<Rightarrow> LocalOpaqueProjectionEntityType \<Rightarrow> unit db_act" where
  "replaceProjections input entityType =
     (let incoming = map bo_value (filter (\<lambda>p. bo_entity_type p = entityType) (bs_opaque_projections input)) in
      bindA (liftA (assertUniqueKeys (map op_key incoming))) (\<lambda>_.
      bindA (tableA (projectionStore entityType) (projectionStore_update entityType)
               (deleteStale opaque_schema op_business_id (bs_business_id input) (set (map op_key incoming)))) (\<lambda>_.
      tableA (projectionStore entityType) (projectionStore_update entityType) (putListed opaque_schema incoming))))"

definition replaceCatalog :: "ApplyBootstrapSnapshotInput \<Rightarrow> unit db_act" where
  "replaceCatalog input =
     (let business = bs_business_id input in
      bindA (tableA db_barcodes db_barcodes_update
        (deleteStale barcodes_schema bc_business_id business (set (map bc_id (bs_barcodes input))))) (\<lambda>_.
      bindA (tableA db_published_retail_prices db_published_retail_prices_update
        (deleteStale published_retail_prices_schema lp_business_id business
          (set (map lp_price_version_id (bs_published_retail_prices input))))) (\<lambda>_.
      bindA (tableA db_product_units db_product_units_update
        (deleteStale product_units_schema pu_business_id business (set (map pu_id (bs_product_units input))))) (\<lambda>_.
      bindA (tableA db_products db_products_update
        (deleteStale products_schema pd_business_id business (set (map pd_id (bs_products input))))) (\<lambda>_.
      bindA (tableA db_products db_products_update (putListed products_schema (bs_products input))) (\<lambda>_.
      bindA (tableA db_product_units db_product_units_update
        (putListed product_units_schema (bs_product_units input))) (\<lambda>_.
      bindA (tableA db_barcodes db_barcodes_update (putListed barcodes_schema (bs_barcodes input))) (\<lambda>_.
      tableA db_published_retail_prices db_published_retail_prices_update
        (putListed published_retail_prices_schema (bs_published_retail_prices input))))))))))"

definition putBootstrapState :: "ApplyBootstrapSnapshotInput \<Rightarrow> int \<times> PricingTimeStatus \<Rightarrow> unit db_act" where
  "putBootstrapState input clock =
     bindA (tableA db_catalog_bootstrap_state db_catalog_bootstrap_state_update
       (t_put catalog_bootstrap_state_schema \<lparr>cb_business_id = bs_business_id input,
          cb_bootstrap_version = bs_bootstrap_version input, cb_server_time = bs_server_time input\<rparr>)) (\<lambda>_.
     bindA (tableA db_pricing_bootstrap_state db_pricing_bootstrap_state_update
       (t_put pricing_bootstrap_state_schema \<lparr>pb_business_id = bs_business_id input,
          pb_bootstrap_version = bs_bootstrap_version input, pb_server_time = bs_server_time input,
          pb_applied_at = bs_applied_at input, pb_clock_offset_ms = JSInt (fst clock),
          pb_clock_trust_status = snd clock\<rparr>)) (\<lambda>_.
     tableA db_sync_state db_sync_state_update (t_put sync_state_schema
       (sync_state_row (bs_business_id input) (bs_device_id input) (bs_cursor input)
         (bs_bootstrap_version input) (bs_server_time input) clock (bs_applied_at input)))))"

definition applyBootstrapSnapshot :: "js_env \<Rightarrow> ApplyBootstrapSnapshotInput \<Rightarrow> unit db_act" where
  "applyBootstrapSnapshot E input =
     bindA (liftA (validateSnapshot E input)) (\<lambda>clock.
     transaction (
       bindA (replaceCatalog input) (\<lambda>_.
       bindA (forA (replaceProjections input) [et_promotion, et_payment_method, et_stock_balance, et_authorization]) (\<lambda>_.
       putBootstrapState input clock))))"

section \<open>A page of the change feed\<close>

fun change_sequence :: "LocalSyncProjectionChange \<Rightarrow> string" where
  "change_sequence (ProductChange s _ _) = s"
| "change_sequence (ProductUnitChange s _ _) = s"
| "change_sequence (BarcodeChange s _ _) = s"
| "change_sequence (PublishedPriceChange s _ _) = s"
| "change_sequence (OpaqueChange s _ _ _) = s"

fun change_business :: "LocalSyncProjectionChange \<Rightarrow> string" where
  "change_business (ProductChange _ _ v) = pd_business_id v"
| "change_business (ProductUnitChange _ _ v) = pu_business_id v"
| "change_business (BarcodeChange _ _ v) = bc_business_id v"
| "change_business (PublishedPriceChange _ _ v) = lp_business_id v"
| "change_business (OpaqueChange _ _ _ v) = op_business_id v"

text \<open>The \<open>switch\<close> over the entity type of a change.\<close>

fun storeChange :: "ApplyProjectionPageInput \<Rightarrow> LocalSyncProjectionChange \<Rightarrow> unit db_act" where
  "storeChange input (ProductChange _ ct v) =
     bindA (liftA (throwIf (ct = DEACTIVATE \<and> pd_status v \<noteq> INACTIVE) invalid_input)) (\<lambda>_.
     tableA db_products db_products_update (t_put products_schema v))"
| "storeChange input (ProductUnitChange _ ct v) =
     bindA (liftA (throwIf (ct = DEACTIVATE \<and> pu_status v \<noteq> INACTIVE) invalid_input)) (\<lambda>_.
     tableA db_product_units db_product_units_update (t_put product_units_schema v))"
| "storeChange input (BarcodeChange _ ct v) =
     bindA (liftA (throwIf (ct = DEACTIVATE \<and> bc_status v \<noteq> INACTIVE) invalid_input)) (\<lambda>_.
     tableA db_barcodes db_barcodes_update (t_put barcodes_schema v))"
| "storeChange input (PublishedPriceChange _ ct v) =
     tableA db_published_retail_prices db_published_retail_prices_update (t_put published_retail_prices_schema v)"
| "storeChange input (OpaqueChange _ et ct v) =
     bindA (liftA (throwIf (op_key v \<noteq> buildOpaqueProjectionKey (pg_business_id input) (op_entity_id v))
                     invalid_input)) (\<lambda>_.
     tableA (projectionStore et) (projectionStore_update et) (t_put opaque_schema v))"

definition inPage :: "nat \<Rightarrow> nat \<Rightarrow> string \<Rightarrow> unit result" where
  "inPage expectedCursor nextCursor seq =
     bindE (parseCursor seq) (\<lambda>n. throwIf (n \<le> expectedCursor \<or> n > nextCursor) invalid_input)"

definition applyChange ::
  "ApplyProjectionPageInput \<Rightarrow> nat \<Rightarrow> nat \<Rightarrow> LocalSyncProjectionChange \<Rightarrow> unit db_act" where
  "applyChange input expectedCursor nextCursor change =
     bindA (liftA (inPage expectedCursor nextCursor (change_sequence change))) (\<lambda>_.
     bindA (liftA (throwIf (change_business change \<noteq> pg_business_id input) invalid_input)) (\<lambda>_.
     storeChange input change))"

definition observeEvent ::
  "ApplyProjectionPageInput \<Rightarrow> nat \<Rightarrow> nat \<Rightarrow> LocalObservedSyncEventRecord \<Rightarrow> unit db_act" where
  "observeEvent input expectedCursor nextCursor event =
     bindA (liftA (inPage expectedCursor nextCursor (oe_sequence event))) (\<lambda>_.
     bindA (liftA (throwIf (oe_business_id event \<noteq> pg_business_id input) invalid_input)) (\<lambda>_.
     tableA db_sync_observed_events db_sync_observed_events_update (t_put sync_observed_events_schema event)))"

definition observed_events :: "ApplyProjectionPageInput \<Rightarrow> LocalObservedSyncEventRecord list" where
  "observed_events input = (case pg_observed_events input of None \<Rightarrow> [] | Some es \<Rightarrow> es)"

definition applyProjectionPage :: "js_env \<Rightarrow> ApplyProjectionPageInput \<Rightarrow> unit db_act" where
  "applyProjectionPage E input =
     bindA (liftA (parseCursor (pg_expected_cursor input))) (\<lambda>expectedCursor.
     bindA (liftA (parseCursor (pg_next_cursor input))) (\<lambda>nextCursor.
     bindA (liftA (throwIf (nextCursor < expectedCursor) invalid_input)) (\<lambda>_.
     bindA (liftA (parseTimestamp E (pg_server_time input))) (\<lambda>_.
     bindA (liftA (parseTimestamp E (pg_applied_at input))) (\<lambda>_.
     bindA (liftA (deriveClockMetadata E (pg_server_time input) (pg_applied_at input))) (\<lambda>clock.
     bindA (liftA (assertUniqueKeys (map change_sequence (pg_changes input) @
                                     map oe_sequence (observed_events input)))) (\<lambda>_.
     transaction (
       bindA (readA (\<lambda>s. t_get sync_state_schema
                (buildSyncContextKey (pg_business_id input) (pg_device_id input)) (db_sync_state s))) (\<lambda>currentState.
       let currentCursor = (case currentState of None \<Rightarrow> ''0'' | Some st \<Rightarrow> st_cursor st) in
       bindA (liftA (throwIf (currentCursor \<noteq> pg_expected_cursor input)
                       (LocalSyncStoreError SYNC_CURSOR_MISMATCH))) (\<lambda>_.
       bindA (forA (applyChange input expectedCursor nextCursor) (pg_changes input)) (\<lambda>_.
       bindA (forA (observeEvent input expectedCursor nextCursor) (observed_events input)) (\<lambda>_.
       tableA db_sync_state db_sync_state_update (t_put sync_state_schema
         (sync_state_row (pg_business_id input) (pg_device_id input) (pg_next_cursor input)
           (pg_bootstrap_version input) (pg_server_time input) clock (pg_applied_at input)))))))))))))))"


section \<open>The outbox\<close>

lemma filterE_Inr [result_simps]:
  "filterE p xs = Inr ys \<longleftrightarrow> (\<forall>x \<in> set xs. \<exists>b. p x = Inr b) \<and> ys = filter (\<lambda>x. p x = Inr True) xs"
proof (induction xs arbitrary: ys)
  case (Cons x xs)
  show ?case
  proof (cases "p x")
    case (Inr b)
    then show ?thesis using Cons.IH by (cases b) (auto simp: bindE_eq_Inr)
  qed simp
qed auto

lemma foldE_map: "foldE f s (map g xs) = foldE (\<lambda>s x. f s (g x)) s xs"
  by (induction xs arbitrary: s) simp_all

lemma outbox_updates_keep [simp]:
  "keeps_keys outbox_schema (claimRow input)" "keeps_keys outbox_schema (settleRow st)"
  "keeps_keys outbox_schema retryRow"
  by (simp_all add: keeps_keys_def claimRow_def settleRow_def retryRow_def)

lemma aggregate_updates_keep [simp]:
  "keeps_keys transactions_schema (\<lambda>t. t\<lparr>tr_sync_status := status\<rparr>)"
  "keeps_keys shifts_schema (\<lambda>t. t\<lparr>sh_sync_status := status\<rparr>)"
  "keeps_keys audit_events_schema (\<lambda>t. t\<lparr>ae_sync_status := status\<rparr>)"
  by (simp_all add: keeps_keys_def)

lemma distinct_keys: "t_ok S t \<Longrightarrow> distinct (map (sch_key S) t)"
proof -
  assume "t_ok S t"
  then have "sorted_wrt (<) (map (sch_key S) t)" by (simp add: t_ok_def sorted_wrt_map)
  then show ?thesis by (simp add: strict_sorted_iff)
qed

lemma bulkPut_rewritten:
  assumes "t_ok S t" "keeps_keys S f" "set rs \<subseteq> set t" "distinct (map (sch_key S) rs)"
  shows "t_bulkPut S (map f rs) t = Inr (map (\<lambda>x. if x \<in> set rs then f x else x) t)"
    "t_ok S (map (\<lambda>x. if x \<in> set rs then f x else x) t)"
  using modify_fold [OF assms] by (simp_all add: t_bulkPut_def foldE_map)

text \<open>The rows a claim takes: the first ones, in the order of creation, among those that are due.\<close>

definition due_rows :: "js_env \<Rightarrow> ClaimOutboxBatchInput \<Rightarrow> int \<Rightarrow> pos_db \<Rightarrow> LocalOutboxRecord list" where
  "due_rows E input claimedAt s =
     sort_by (\<lambda>l r. localeCompare E (ob_created_at l) (ob_created_at r))
       (filter (\<lambda>r. claimable E claimedAt r = Inr True)
         (filter (\<lambda>r. ob_business_id r = cm_business_id input) (db_outbox s)))"

definition batch_limit :: "ClaimOutboxBatchInput \<Rightarrow> nat" where
  "batch_limit input = nat (js_int (case cm_limit input of None \<Rightarrow> JSInt 50 | Some l \<Rightarrow> l))"

lemma due_rows_set: "set (due_rows E input t s) =
    {r \<in> set (db_outbox s). ob_business_id r = cm_business_id input \<and> claimable E t r = Inr True}"
  by (auto simp: due_rows_def)

lemma distinct_map_insert_by:
  "distinct (map f (insert_by cmp x xs)) \<longleftrightarrow> f x \<notin> f ` set xs \<and> distinct (map f xs)"
  by (induction xs) auto

lemma distinct_map_sort_by [simp]: "distinct (map f (sort_by cmp xs)) \<longleftrightarrow> distinct (map f xs)"
  by (induction xs) (auto simp: distinct_map_insert_by)

lemma claimOutboxBatch_Inr:
  assumes "claimOutboxBatch E input s = (Inr claimed, s')" "t_ok outbox_schema (db_outbox s)"
  shows "\<exists>claimedAt expires. dateParse E (cm_claimed_at input) = Some claimedAt \<and>
    dateParse E (cm_lease_expires_at input) = Some expires \<and> claimedAt < expires \<and> cm_lease_owner input \<noteq> '''' \<and>
    (let chosen = take (batch_limit input) (due_rows E input claimedAt s) in
     claimed = map (claimRow input) chosen \<and>
     s' = s\<lparr>db_outbox := map (\<lambda>r. if r \<in> set chosen then claimRow input r else r) (db_outbox s)\<rparr>)"
proof -
  from assms(1) obtain claimedAt expires where
    t: "dateParse E (cm_claimed_at input) = Some claimedAt" "dateParse E (cm_lease_expires_at input) = Some expires"
      "claimedAt < expires" "cm_lease_owner input \<noteq> ''''"
    and c: "claimed = map (claimRow input) (take (batch_limit input) (due_rows E input claimedAt s))"
    and put: "(if claimed = [] then retA ()
      else tableA db_outbox db_outbox_update (t_bulkPut outbox_schema claimed)) s = (Inr (), s')"
    unfolding claimOutboxBatch_def due_rows_def batch_limit_def
    by (auto simp: Let_def result_simps parseTimestamp_def split: option.splits if_splits simp del: schema_defs)
  let ?ch = "take (batch_limit input) (due_rows E input claimedAt s)"
  have sub: "set ?ch \<subseteq> set (db_outbox s)" using set_take_subset [of "batch_limit input" "due_rows E input claimedAt s"]
    by (auto simp: due_rows_set)
  have "distinct (map (sch_key outbox_schema) (due_rows E input claimedAt s))"
    using distinct_keys [OF assms(2)] by (simp add: due_rows_def distinct_map_filter del: schema_defs)
  then have dist: "distinct (map (sch_key outbox_schema) ?ch)" by (simp add: take_map [symmetric] del: schema_defs)
  have "s' = s\<lparr>db_outbox := map (\<lambda>r. if r \<in> set ?ch then claimRow input r else r) (db_outbox s)\<rparr>"
  proof (cases "?ch = []")
    case True
    then have "s' = s" using put c by auto
    moreover have "r \<notin> set ?ch" for r using True by (metis empty_iff list.set(1))
    ultimately show ?thesis by simp
  next
    case False
    then show ?thesis
      using put c bulkPut_rewritten(1) [OF assms(2) outbox_updates_keep(1) [of input] sub dist]
      by (auto simp: tableA_def simp del: schema_defs)
  qed
  then show ?thesis using t c unfolding Let_def by blast
qed

lemma claim_ok:
  assumes "t_ok outbox_schema (db_outbox s)"
  shows "t_ok outbox_schema (map (\<lambda>r. if r \<in> set (take n (due_rows E input t s)) then claimRow input r else r) (db_outbox s))"
proof -
  let ?p = "\<lambda>r. r \<in> set (take n (due_rows E input t s))"
  show ?thesis using modify_keeps(2) [OF assms outbox_updates_keep(1), of ?p input] .
qed

text \<open>When a row may be sent at an instant: it is pending, its retry time has come, or the lease of an earlier sender has run out.\<close>

definition due_at :: "js_env \<Rightarrow> int \<Rightarrow> LocalOutboxRecord \<Rightarrow> bool" where
  "due_at E now r = (ob_status r = PENDING \<or>
     ob_status r = FAILED_RETRYABLE \<and> (\<forall>d. ob_next_attempt_at r = Some d \<longrightarrow> (\<exists>t. dateParse E d = Some t \<and> t \<le> now)) \<or>
     ob_status r = SENDING \<and> (\<exists>d t. ob_lease_expires_at r = Some d \<and> dateParse E d = Some t \<and> t \<le> now))"

lemma claimable_due: "claimable E now r = Inr True \<longleftrightarrow> due_at E now r"
  by (auto simp: claimable_def due_at_def parseTimestamp_def bindE_eq_Inr split: LocalOutboxStatus.splits option.splits)

text \<open>
  C7. Claiming a batch takes rows of the business that are pending, due for a retry or whose lease has run out, and no
  others: at most the limit of them, and all of them unless the limit is reached. A claimed row becomes \<open>SENDING\<close> under the
  new lease with one more attempt and is otherwise unchanged, and every other row stays as it is. While the lease runs nobody
  else can claim one of them.
\<close>

theorem claim_is_exclusive:
  assumes "db_ok s" "claimOutboxBatch E input s = (Inr claimed, s')"
  shows "db_ok s' \<and> length claimed \<le> batch_limit input \<and>
    (\<exists>now. dateParse E (cm_claimed_at input) = Some now \<and>
       (\<forall>r \<in> set claimed. r \<in> set (db_outbox s') \<and>
          (\<exists>r0 \<in> set (db_outbox s). ob_business_id r0 = cm_business_id input \<and> due_at E now r0 \<and>
             r = r0\<lparr>ob_attempt_count := ob_attempt_count r0 + 1, ob_last_attempt_at := Some (cm_claimed_at input),
               ob_lease_owner := Some (cm_lease_owner input), ob_lease_expires_at := Some (cm_lease_expires_at input),
               ob_status := SENDING\<rparr>)) \<and>
       (\<forall>r0 \<in> set (db_outbox s). ob_business_id r0 = cm_business_id input \<and> due_at E now r0 \<longrightarrow>
          ob_command_id r0 \<in> ob_command_id ` set claimed \<or> length claimed = batch_limit input)) \<and>
    (\<forall>r \<in> set (db_outbox s') - set claimed. r \<in> set (db_outbox s)) \<and>
    map ob_command_id (db_outbox s') = map ob_command_id (db_outbox s) \<and>
    (\<forall>input2 claimed2 s2 t2 expires. dateParse E (cm_lease_expires_at input) = Some expires \<longrightarrow>
       dateParse E (cm_claimed_at input2) = Some t2 \<longrightarrow> t2 < expires \<longrightarrow>
       claimOutboxBatch E input2 s' = (Inr claimed2, s2) \<longrightarrow>
       ob_command_id ` set claimed2 \<inter> ob_command_id ` set claimed = {})"
proof -
  have ok: "t_ok outbox_schema (db_outbox s)" using assms(1) by (simp add: db_ok_def)
  from claimOutboxBatch_Inr [OF assms(2) ok] obtain t0 expires chosen where
    t0: "dateParse E (cm_claimed_at input) = Some t0" and lease: "dateParse E (cm_lease_expires_at input) = Some expires"
    and ch: "chosen = take (batch_limit input) (due_rows E input t0 s)"
    and c: "claimed = map (claimRow input) chosen"
    and s': "s' = s\<lparr>db_outbox := map (\<lambda>r. if r \<in> set chosen then claimRow input r else r) (db_outbox s)\<rparr>"
    unfolding Let_def by blast
  have ok': "t_ok outbox_schema (db_outbox s')" using claim_ok [OF ok] by (simp add: s' ch del: schema_defs)
  have sub: "set chosen \<subseteq> set (due_rows E input t0 s)" unfolding ch by (rule set_take_subset)
  have in_s': "claimRow input r \<in> set (db_outbox s')" if "r \<in> set chosen" for r
    using that sub by (auto simp: s' due_rows_set intro!: rev_image_eqI [of r])
  have disjoint: "ob_command_id ` set claimed2 \<inter> ob_command_id ` set claimed = {}"
    if t2: "dateParse E (cm_claimed_at input2) = Some t2" "t2 < expires" and
      run: "claimOutboxBatch E input2 s' = (Inr claimed2, s2)" for input2 claimed2 s2 t2
  proof (rule ccontr)
    assume "ob_command_id ` set claimed2 \<inter> ob_command_id ` set claimed \<noteq> {}"
    then obtain a b where ab: "a \<in> set claimed" "b \<in> set claimed2" "ob_command_id a = ob_command_id b" by force
    from claimOutboxBatch_Inr [OF run ok'] t2(1) obtain ch2 where
      ch2: "set ch2 \<subseteq> set (due_rows E input2 t2 s')" "claimed2 = map (claimRow input2) ch2"
      unfolding Let_def by (metis option.inject set_take_subset)
    from ab(2) ch2 obtain r2 where r2: "r2 \<in> set (db_outbox s')" "claimable E t2 r2 = Inr True" "b = claimRow input2 r2"
      by (auto simp: due_rows_set)
    obtain r where r: "r \<in> set chosen" "a = claimRow input r" using ab(1) c by auto
    have "a \<in> set (db_outbox s')" using in_s' r by simp
    moreover have "ob_command_id r2 = ob_command_id a" using r2(3) ab(3) by (simp add: claimRow_def)
    ultimately have "r2 = a"
      using tbl.unique_index [OF ok', of "\<lambda>r. Some [ob_command_id r]" r2 a] r2(1) by simp
    moreover have "claimable E t2 (claimRow input r) = Inr (expires \<le> t2)"
      using lease by (simp add: claimable_def claimRow_def parseTimestamp_def)
    ultimately show False using r2(2) r(2) t2(2) by simp
  qed
  have "db_ok s'" using assms(1) ok' by (simp add: db_ok_def s' del: schema_defs)
  moreover have "length claimed \<le> batch_limit input" by (simp add: c ch)
  moreover have "r \<in> set (db_outbox s') \<and>
      (\<exists>r0 \<in> set (db_outbox s). ob_business_id r0 = cm_business_id input \<and> due_at E t0 r0 \<and> r = claimRow input r0)"
    if "r \<in> set claimed" for r
    using that in_s' sub by (auto simp: c due_rows_set claimable_due)
  moreover have "ob_command_id r0 \<in> ob_command_id ` set claimed \<or> length claimed = batch_limit input"
    if r0: "r0 \<in> set (db_outbox s)" "ob_business_id r0 = cm_business_id input" "due_at E t0 r0" for r0
  proof (cases "length (due_rows E input t0 s) \<le> batch_limit input")
    case True
    then have "r0 \<in> set chosen" using r0 by (simp add: ch due_rows_set claimable_due)
    then have "claimRow input r0 \<in> set claimed" by (simp add: c)
    then show ?thesis using image_eqI [of "ob_command_id r0" ob_command_id "claimRow input r0"] by (simp add: claimRow_def)
  qed (simp add: c ch)
  moreover have "\<forall>r \<in> set (db_outbox s') - set claimed. r \<in> set (db_outbox s)" by (auto simp: s' c)
  moreover have "map ob_command_id (db_outbox s') = map ob_command_id (db_outbox s)" by (simp add: s' claimRow_def)
  ultimately show ?thesis using disjoint lease t0 unfolding claimRow_def by auto
qed


text \<open>
  Claims are fair: when \<open>localeCompare\<close> orders the timestamps, a row that is due and was left out is
  not older than any row that was taken, and it is left out only when the batch is full.
\<close>

theorem claim_oldest_first:
  assumes "db_ok s" "claimOutboxBatch E input s = (Inr claimed, s')" "comparator (localeCompare E) UNIV"
    "dateParse E (cm_claimed_at input) = Some now" "r \<in> set (db_outbox s)"
    "ob_business_id r = cm_business_id input" "claimable E now r = Inr True"
  shows "claimRow input r \<in> set claimed \<or>
    (length claimed = batch_limit input \<and>
     (\<forall>c \<in> set claimed. localeCompare E (ob_created_at c) (ob_created_at r) \<le> 0))"
proof -
  have ok: "t_ok outbox_schema (db_outbox s)" using assms(1) by (simp add: db_ok_def)
  let ?cmp = "\<lambda>l r. localeCompare E (ob_created_at l) (ob_created_at r)" and ?n = "batch_limit input"
  let ?due = "due_rows E input now s"
  have c: "claimed = map (claimRow input) (take ?n ?due)"
    using claimOutboxBatch_Inr [OF assms(2) ok] assms(4) unfolding Let_def by auto
  have "comparator ?cmp UNIV"
    using comparator.antisym [OF assms(3)] comparator.trans [OF assms(3)] by unfold_locales blast+
  then have sorted: "sorted_wrt (\<lambda>a b. ?cmp a b \<le> 0) ?due"
    unfolding due_rows_def by (rule comparator.sorted_sort_by) simp
  have "r \<in> set (take ?n ?due @ drop ?n ?due)" using assms(5-7) by (simp add: due_rows_set)
  then consider "r \<in> set (take ?n ?due)" | "r \<in> set (drop ?n ?due)" unfolding set_append by blast
  then show ?thesis
  proof cases
    case 1
    then show ?thesis by (simp add: c)
  next
    case 2
    have "sorted_wrt (\<lambda>a b. ?cmp a b \<le> 0) (take ?n ?due @ drop ?n ?due)" using sorted by simp
    then have "?cmp a r \<le> 0" if "a \<in> set (take ?n ?due)" for a
      using 2 that unfolding sorted_wrt_append by blast
    then have "\<forall>c \<in> set claimed. ?cmp c r \<le> 0" by (auto simp: c claimRow_def)
    moreover have "?n < length ?due" using 2 by (metis drop_eq_Nil empty_iff list.set(1) not_le)
    then have "length claimed = ?n" by (simp add: c)
    ultimately show ?thesis by blast
  qed
qed

section \<open>Settling\<close>

lemma markAggregates_run:
  assumes "db_ok s"
  shows "\<exists>s'. markAggregates status record s = (Inr (), s') \<and> db_ok s' \<and> db_outbox s' = db_outbox s \<and>
    map (\<lambda>t. t\<lparr>tr_sync_status := SYNC_PENDING\<rparr>) (db_transactions s') =
      map (\<lambda>t. t\<lparr>tr_sync_status := SYNC_PENDING\<rparr>) (db_transactions s) \<and>
    map (\<lambda>t. t\<lparr>sh_sync_status := SYNC_PENDING\<rparr>) (db_shifts s') =
      map (\<lambda>t. t\<lparr>sh_sync_status := SYNC_PENDING\<rparr>) (db_shifts s) \<and>
    map (\<lambda>t. t\<lparr>ae_sync_status := SYNC_PENDING\<rparr>) (db_audit_events s') =
      map (\<lambda>t. t\<lparr>ae_sync_status := SYNC_PENDING\<rparr>) (db_audit_events s) \<and>
    s' = s\<lparr>db_transactions := db_transactions s', db_shifts := db_shifts s', db_audit_events := db_audit_events s'\<rparr>"
proof -
  have ok: "t_ok transactions_schema (db_transactions s)" "t_ok shifts_schema (db_shifts s)"
    "t_ok audit_events_schema (db_audit_events s)"
    using assms by (simp_all add: db_ok_def del: schema_defs)
  let ?t = "map (\<lambda>t. if tr_command_id t = ob_command_id record then t\<lparr>tr_sync_status := status\<rparr> else t) (db_transactions s)"
    and ?h = "map (\<lambda>t. if sh_shift_id t = ob_business_event_id record then t\<lparr>sh_sync_status := status\<rparr> else t) (db_shifts s)"
    and ?a = "map (\<lambda>t. if ae_correlation_id t = Some (ob_correlation_id record) then t\<lparr>ae_sync_status := status\<rparr> else t)
      (db_audit_events s)"
  note m = modify_keeps [OF ok(1) aggregate_updates_keep(1)] modify_keeps [OF ok(2) aggregate_updates_keep(2)]
    modify_keeps [OF ok(3) aggregate_updates_keep(3)]
  have run: "markAggregates status record s = (Inr (), s\<lparr>db_transactions := ?t, db_shifts := ?h, db_audit_events := ?a\<rparr>)"
    by (simp add: markAggregates_def bindA_def tableA_def m(1,3,5) del: schema_defs)
  moreover have "db_ok (s\<lparr>db_transactions := ?t, db_shifts := ?h, db_audit_events := ?a\<rparr>)"
    using assms m(2,4,6) by (simp add: db_ok_def del: schema_defs)
  ultimately show ?thesis by simp
qed

lemma settleOne_Inr:
  assumes "db_ok s" "settleOne owner st s = (Inr u, s')"
  shows "db_ok s' \<and> (\<exists>r \<in> set (db_outbox s). ob_command_id r = so_command_id st \<and> ob_status r = SENDING \<and>
      ob_lease_owner r = Some owner) \<and>
    db_outbox s' = map (\<lambda>r. if ob_command_id r = so_command_id st then settleRow st r else r) (db_outbox s)"
proof -
  have ok: "t_ok outbox_schema (db_outbox s)" using assms(1) by (simp add: db_ok_def)
  obtain r s1 where r: "find (\<lambda>r. ob_command_id r = so_command_id st) (db_outbox s) = Some r"
      "ob_status r = SENDING" "ob_lease_owner r = Some owner"
    and up: "tableA db_outbox db_outbox_update (t_update outbox_schema (ob_outbox_id r) (settleRow st)) s = (Inr (), s1)"
    and rest: "(if so_disposition st \<noteq> DISP_FAILED_RETRYABLE
      then markAggregates (aggregateSyncStatus (so_disposition st)) r else retA ()) s1 = (Inr (), s')"
    using assms(2) unfolding settleOne_def
    by (auto simp: result_simps split: option.splits if_splits simp del: schema_defs)
  have in_s: "r \<in> set (db_outbox s)" "ob_command_id r = so_command_id st" using find_SomeD [OF r(1)] by simp_all
  have same: "ob_outbox_id x = ob_outbox_id r \<longleftrightarrow> ob_command_id x = so_command_id st" if "x \<in> set (db_outbox s)" for x
    using tbl.unique_index [OF ok, of "\<lambda>r. Some [ob_command_id r]" x r] tbl.key_determines_row [OF ok, of x r] that in_s
    by auto
  have map_eq: "map (\<lambda>x. if ob_outbox_id x = ob_outbox_id r then settleRow st x else x) (db_outbox s) =
      map (\<lambda>x. if ob_command_id x = so_command_id st then settleRow st x else x) (db_outbox s)"
    using same by (intro map_cong) simp_all
  have s1: "s1 = s\<lparr>db_outbox := map (\<lambda>x. if ob_command_id x = so_command_id st then settleRow st x else x) (db_outbox s)\<rparr>"
    using up update_keeps(1) [OF ok outbox_updates_keep(2), of "ob_outbox_id r" st] map_eq by (auto simp: tableA_def)
  have "t_ok outbox_schema (db_outbox s1)"
    using update_keeps(2) [OF ok outbox_updates_keep(2), of "ob_outbox_id r" st] map_eq by (simp add: s1)
  then have "db_ok s1" using assms(1) by (simp add: db_ok_def s1 del: schema_defs)
  then have "db_ok s' \<and> db_outbox s' = db_outbox s1"
    using rest markAggregates_run [of s1 "aggregateSyncStatus (so_disposition st)" r] by (auto split: if_splits)
  then show ?thesis using in_s r(2,3) by (auto simp: s1)
qed

definition settled :: "SettleOutboxCommand list \<Rightarrow> LocalOutboxRecord \<Rightarrow> LocalOutboxRecord" where
  "settled ss r = (case find (\<lambda>st. so_command_id st = ob_command_id r) ss of None \<Rightarrow> r | Some st \<Rightarrow> settleRow st r)"

lemma settleAll_Inr:
  assumes "db_ok s" "forA (settleOne owner) ss s = (Inr u, s')" "distinct (map so_command_id ss)"
  shows "db_ok s' \<and> db_outbox s' = map (settled ss) (db_outbox s) \<and>
    (\<forall>st \<in> set ss. \<exists>r \<in> set (db_outbox s). ob_command_id r = so_command_id st \<and> ob_status r = SENDING \<and>
      ob_lease_owner r = Some owner)"
  using assms
proof (induction ss arbitrary: s)
  case Nil
  then show ?case by (simp add: settled_def)
next
  case (Cons st ss)
  obtain s1 where s1: "settleOne owner st s = (Inr (), s1)" "forA (settleOne owner) ss s1 = (Inr u, s')"
    using Cons.prems(2) by (auto simp: bindA_eq_Inr)
  note one = settleOne_Inr [OF Cons.prems(1) s1(1)]
  have IH: "db_ok s'" "db_outbox s' = map (settled ss) (db_outbox s1)"
    "\<forall>st \<in> set ss. \<exists>r \<in> set (db_outbox s1). ob_command_id r = so_command_id st \<and> ob_status r = SENDING \<and>
      ob_lease_owner r = Some owner"
    using Cons.IH [OF _ s1(2)] one Cons.prems(3) by simp_all
  have moved: "ob_status (settleRow st r) \<noteq> SENDING" for r by (simp add: settleRow_def settledStatus_def Let_def)
  have "set (db_outbox s1) \<subseteq> set (db_outbox s) \<union> range (settleRow st)" using one by auto
  then have in_s: "r \<in> set (db_outbox s)" if "r \<in> set (db_outbox s1)" "ob_status r = SENDING" for r
    using that moved by auto
  have "find (\<lambda>x. so_command_id x = so_command_id st) ss = None"
    using Cons.prems(3) by (auto simp: find_None_iff image_iff)
  then have "settled ss (if ob_command_id r = so_command_id st then settleRow st r else r) = settled (st # ss) r" for r
    by (auto simp: settled_def settleRow_def)
  then have "db_outbox s' = map (settled (st # ss)) (db_outbox s)" using IH(2) one by simp
  moreover have "\<exists>r \<in> set (db_outbox s). ob_command_id r = so_command_id x \<and> ob_status r = SENDING \<and>
      ob_lease_owner r = Some owner" if "x \<in> set ss" for x
    using IH(3) in_s that by blast
  ultimately show ?case using IH(1) one by simp
qed

lemma check_distinct:
  "foldE (checkSettlement E) seen ss = Inr ids \<Longrightarrow> distinct (map so_command_id ss) \<and> seen \<inter> so_command_id ` set ss = {}"
proof (induction ss arbitrary: seen)
  case (Cons st ss)
  then obtain seen' where "checkSettlement E seen st = Inr seen'" "foldE (checkSettlement E) seen' ss = Inr ids"
    by (auto simp: bindE_eq_Inr)
  moreover from this(1) have "so_command_id st \<notin> seen" "seen' = insert (so_command_id st) seen"
    by (auto simp: checkSettlement_def result_simps split: if_splits)
  ultimately show ?case using Cons.IH [of seen'] by auto
qed simp

text \<open>
  C8. Settling is all or nothing and only for the holder of the lease: a failure changes nothing; on
  success every settled command was \<open>SENDING\<close> under this lease, takes the status of its disposition and
  gives the lease up, and every other row of the outbox stays as it is.
\<close>

theorem settle_by_lease_owner:
  assumes "db_ok s"
  shows "case settleOutboxBatch E owner ss s of
      (Inl e, s') \<Rightarrow> s' = s
    | (Inr u, s') \<Rightarrow> db_ok s' \<and> distinct (map so_command_id ss) \<and>
        (\<forall>st \<in> set ss. \<exists>r \<in> set (db_outbox s). ob_command_id r = so_command_id st \<and> ob_status r = SENDING \<and>
           ob_lease_owner r = Some owner) \<and>
        db_outbox s' = map (\<lambda>r. case find (\<lambda>st. so_command_id st = ob_command_id r) ss of
           None \<Rightarrow> r | Some st \<Rightarrow> settleRow st r) (db_outbox s)"
proof -
  obtain r s' where run: "settleOutboxBatch E owner ss s = (r, s')" by fastforce
  show ?thesis
  proof (cases r)
    case (Inl e)
    then have "s' = s" using run by (auto simp: settleOutboxBatch_def bindA_eq_Inl transaction_eq_Inl)
    then show ?thesis unfolding run Inl by simp
  next
    case (Inr u)
    then obtain ids where ids: "foldE (checkSettlement E) {} ss = Inr ids" "forA (settleOne owner) ss s = (Inr u, s')"
      using run by (auto simp: settleOutboxBatch_def result_simps)
    show ?thesis
      using settleAll_Inr [OF assms ids(2)] check_distinct [OF ids(1)] unfolding run Inr settled_def [abs_def] by simp
  qed
qed

text \<open>
  The outbox summary counts: per status the rows of the business in it, and as unresolved exactly the
  rows that are not accepted.
\<close>

theorem outbox_summary_counts:
  "getOutboxSummary b s = (Inr \<lparr>
     su_pending = length (filter (\<lambda>r. ob_business_id r = b \<and> ob_status r = PENDING) (db_outbox s)),
     su_sending = length (filter (\<lambda>r. ob_business_id r = b \<and> ob_status r = SENDING) (db_outbox s)),
     su_failed_retryable = length (filter (\<lambda>r. ob_business_id r = b \<and> ob_status r = FAILED_RETRYABLE) (db_outbox s)),
     su_requires_review = length (filter (\<lambda>r. ob_business_id r = b \<and> ob_status r = REQUIRES_REVIEW) (db_outbox s)),
     su_unresolved = length (filter (\<lambda>r. ob_business_id r = b \<and> ob_status r \<noteq> ACCEPTED) (db_outbox s))\<rparr>, s)"
proof -
  have fold: "foldl countStatus z rs = z\<lparr>
      su_pending := su_pending z + length (filter (\<lambda>r. ob_status r = PENDING) rs),
      su_sending := su_sending z + length (filter (\<lambda>r. ob_status r = SENDING) rs),
      su_failed_retryable := su_failed_retryable z + length (filter (\<lambda>r. ob_status r = FAILED_RETRYABLE) rs),
      su_requires_review := su_requires_review z + length (filter (\<lambda>r. ob_status r = REQUIRES_REVIEW) rs)\<rparr>" for z rs
    by (induction rs arbitrary: z) (auto simp: countStatus_def split: LocalOutboxStatus.splits)
  have all: "length (filter (\<lambda>r. ob_status r = PENDING) rs) + length (filter (\<lambda>r. ob_status r = SENDING) rs) +
      length (filter (\<lambda>r. ob_status r = FAILED_RETRYABLE) rs) + length (filter (\<lambda>r. ob_status r = REQUIRES_REVIEW) rs) =
      length (filter (\<lambda>r. ob_status r \<noteq> ACCEPTED) rs)" for rs
  proof (induction rs)
    case (Cons r rs)
    then show ?case by (cases "ob_status r") simp_all
  qed simp
  show ?thesis using all [of "filter (\<lambda>r. ob_business_id r = b) (db_outbox s)"]
    by (simp add: getOutboxSummary_def Let_def fold conj_commute)
qed


section \<open>Recovery\<close>

lemma retry_rows:
  assumes "t_ok outbox_schema (db_outbox s)" "distinct (map ob_outbox_id rs)"
  shows "forA (\<lambda>r. tableA db_outbox db_outbox_update (t_update outbox_schema (ob_outbox_id r) retryRow)) rs s =
      (Inr (), s\<lparr>db_outbox := map (\<lambda>x. if ob_outbox_id x \<in> ob_outbox_id ` set rs then retryRow x else x) (db_outbox s)\<rparr>) \<and>
    t_ok outbox_schema (map (\<lambda>x. if ob_outbox_id x \<in> ob_outbox_id ` set rs then retryRow x else x) (db_outbox s))"
  using assms
proof (induction rs arbitrary: s)
  case (Cons r rs)
  define up where "up = map (\<lambda>x. if ob_outbox_id x = ob_outbox_id r then retryRow x else x) (db_outbox s)"
  note keep = update_keeps [OF Cons.prems(1) outbox_updates_keep(3), of "ob_outbox_id r"]
  have run: "tableA db_outbox db_outbox_update (t_update outbox_schema (ob_outbox_id r) retryRow) s =
      (Inr (), s\<lparr>db_outbox := up\<rparr>)" and ok: "t_ok outbox_schema up"
    using keep by (simp_all add: tableA_def up_def)
  have fresh: "ob_outbox_id r \<notin> ob_outbox_id ` set rs" using Cons.prems(2) by simp
  then have maps: "map (\<lambda>x. if ob_outbox_id x \<in> ob_outbox_id ` set (r # rs) then retryRow x else x) (db_outbox s) =
      map (\<lambda>x. if ob_outbox_id x \<in> ob_outbox_id ` set rs then retryRow x else x) up"
    by (auto simp: retryRow_def up_def)
  show ?case unfolding maps using run ok Cons.IH [of "s\<lparr>db_outbox := up\<rparr>"] Cons.prems(2)
    by (simp add: bindA_def del: schema_defs)
qed simp

text \<open>
  Recovery reopens exactly the rows of the business that wait for review because of an authority
  error and carry an offline grant: they are pending again, without error or lease; every other row (in
  particular a rejected or conflicting command) stays as it is, and the count of reopened rows is
  returned. A second recovery finds nothing.
\<close>

theorem recovery_reopens_authority_errors:
  assumes "db_ok s"
  shows "\<exists>s'. authorizeRecoveryRetry b s =
      (Inr (length (filter (\<lambda>r. ob_business_id r = b \<and> recoverable r) (db_outbox s))), s') \<and>
    s' = s\<lparr>db_outbox := map (\<lambda>r. if ob_business_id r = b \<and> recoverable r then retryRow r else r) (db_outbox s)\<rparr> \<and>
    db_ok s' \<and> authorizeRecoveryRetry b s' = (Inr 0, s')"
proof -
  have main: "authorizeRecoveryRetry b t =
      (Inr (length (filter (\<lambda>r. ob_business_id r = b \<and> recoverable r) (db_outbox t))),
       t\<lparr>db_outbox := map (\<lambda>r. if ob_business_id r = b \<and> recoverable r then retryRow r else r) (db_outbox t)\<rparr>) \<and>
     db_ok (t\<lparr>db_outbox := map (\<lambda>r. if ob_business_id r = b \<and> recoverable r then retryRow r else r) (db_outbox t)\<rparr>)"
    if t: "db_ok t" for t
  proof -
    have ok: "t_ok outbox_schema (db_outbox t)" using t by (simp add: db_ok_def)
    let ?rs = "filter recoverable (filter (\<lambda>r. ob_business_id r = b) (db_outbox t))"
    have dist: "distinct (map ob_outbox_id ?rs)" using distinct_keys [OF ok] by (simp add: distinct_map_filter)
    have same: "map (\<lambda>x. if ob_outbox_id x \<in> ob_outbox_id ` set ?rs then retryRow x else x) (db_outbox t) =
        map (\<lambda>r. if ob_business_id r = b \<and> recoverable r then retryRow r else r) (db_outbox t)"
      using tbl.key_determines_row [OF ok] by (intro map_cong) auto
    note rows = retry_rows [OF ok dist, unfolded same]
    then have "db_ok (t\<lparr>db_outbox := map (\<lambda>r. if ob_business_id r = b \<and> recoverable r then retryRow r else r) (db_outbox t)\<rparr>)"
      using t by (simp add: db_ok_def del: schema_defs)
    then show ?thesis using rows
      by (simp add: authorizeRecoveryRetry_def bindA_def transaction_def conj_commute)
  qed
  define s' where "s' = s\<lparr>db_outbox := map (\<lambda>r. if ob_business_id r = b \<and> recoverable r then retryRow r else r) (db_outbox s)\<rparr>"
  note first = main [OF assms, folded s'_def]
  have "\<not> recoverable (retryRow r)" for r by (simp add: recoverable_def retryRow_def)
  then have none: "\<forall>r \<in> set (db_outbox s'). \<not> (ob_business_id r = b \<and> recoverable r)" by (auto simp: s'_def)
  have "filter (\<lambda>r. ob_business_id r = b \<and> recoverable r) (db_outbox s') = []"
    using none by (simp add: filter_empty_conv)
  moreover have "map (\<lambda>r. if ob_business_id r = b \<and> recoverable r then retryRow r else r) (db_outbox s') = db_outbox s'"
    by (rule map_idI) (use none in auto)
  ultimately have "authorizeRecoveryRetry b s' = (Inr 0, s')" using main [OF first [THEN conjunct2]] by simp
  then show ?thesis using first s'_def by blast
qed

section \<open>The change feed\<close>

text \<open>The constraints of the tables the feed writes.\<close>

definition feed_ok :: "pos_db \<Rightarrow> bool" where
  "feed_ok s = (t_ok products_schema (db_products s) \<and> t_ok product_units_schema (db_product_units s) \<and>
     t_ok barcodes_schema (db_barcodes s) \<and> t_ok published_retail_prices_schema (db_published_retail_prices s) \<and>
     (\<forall>et. t_ok opaque_schema (projectionStore et s)) \<and>
     t_ok catalog_bootstrap_state_schema (db_catalog_bootstrap_state s) \<and>
     t_ok pricing_bootstrap_state_schema (db_pricing_bootstrap_state s) \<and>
     t_ok sync_state_schema (db_sync_state s) \<and> t_ok sync_observed_events_schema (db_sync_observed_events s))"

definition cursor_of :: "string \<Rightarrow> string \<Rightarrow> pos_db \<Rightarrow> string" where
  "cursor_of b d s = (case t_get sync_state_schema (buildSyncContextKey b d) (db_sync_state s) of
     None \<Rightarrow> ''0'' | Some st \<Rightarrow> st_cursor st)"

text \<open>
  The abstract view of the feed's tables: one finite map from entity kind and key to the stored value. A
  change is an update of the map at its own key.
\<close>

datatype feed_kind = KProduct | KUnit | KBarcode | KPrice | KOpaque LocalOpaqueProjectionEntityType

datatype feed_value =
    FProduct LocalPosProduct | FUnit LocalPosProductUnit | FBarcode LocalPosBarcode
  | FPrice LocalPublishedRetailPriceRecord | FOpaque LocalOpaqueProjectionRecord

definition feed_view :: "pos_db \<Rightarrow> feed_kind \<times> string \<Rightarrow> feed_value option" where
  "feed_view s kk = (case kk of (kind, k) \<Rightarrow> (case kind of
       KProduct \<Rightarrow> map_option FProduct (t_get products_schema k (db_products s))
     | KUnit \<Rightarrow> map_option FUnit (t_get product_units_schema k (db_product_units s))
     | KBarcode \<Rightarrow> map_option FBarcode (t_get barcodes_schema k (db_barcodes s))
     | KPrice \<Rightarrow> map_option FPrice (t_get published_retail_prices_schema k (db_published_retail_prices s))
     | KOpaque et \<Rightarrow> map_option FOpaque (t_get opaque_schema k (projectionStore et s))))"

fun change_key :: "LocalSyncProjectionChange \<Rightarrow> feed_kind \<times> string" where
  "change_key (ProductChange _ _ v) = (KProduct, pd_id v)"
| "change_key (ProductUnitChange _ _ v) = (KUnit, pu_id v)"
| "change_key (BarcodeChange _ _ v) = (KBarcode, bc_id v)"
| "change_key (PublishedPriceChange _ _ v) = (KPrice, lp_price_version_id v)"
| "change_key (OpaqueChange _ et _ v) = (KOpaque et, op_key v)"

fun change_value :: "LocalSyncProjectionChange \<Rightarrow> feed_value" where
  "change_value (ProductChange _ _ v) = FProduct v"
| "change_value (ProductUnitChange _ _ v) = FUnit v"
| "change_value (BarcodeChange _ _ v) = FBarcode v"
| "change_value (PublishedPriceChange _ _ v) = FPrice v"
| "change_value (OpaqueChange _ _ _ v) = FOpaque v"

lemma projectionStore_update_same [simp]:
  "projectionStore et (projectionStore_update et f s) = f (projectionStore et s)"
  by (cases et) simp_all

lemma projectionStore_update_other:
  "et' \<noteq> et \<Longrightarrow> projectionStore et' (projectionStore_update et f s) = projectionStore et' s"
  by (cases et; cases et') simp_all

lemma projectionStore_update_frame [simp]:
  "db_products (projectionStore_update et f s) = db_products s"
  "db_product_units (projectionStore_update et f s) = db_product_units s"
  "db_barcodes (projectionStore_update et f s) = db_barcodes s"
  "db_published_retail_prices (projectionStore_update et f s) = db_published_retail_prices s"
  "db_catalog_bootstrap_state (projectionStore_update et f s) = db_catalog_bootstrap_state s"
  "db_pricing_bootstrap_state (projectionStore_update et f s) = db_pricing_bootstrap_state s"
  "db_sync_state (projectionStore_update et f s) = db_sync_state s"
  "db_sync_observed_events (projectionStore_update et f s) = db_sync_observed_events s"
  by (cases et; simp)+

lemma projectionStore_frame [simp]:
  "projectionStore et (s\<lparr>db_products := a\<rparr>) = projectionStore et s"
  "projectionStore et (s\<lparr>db_product_units := b\<rparr>) = projectionStore et s"
  "projectionStore et (s\<lparr>db_barcodes := c\<rparr>) = projectionStore et s"
  "projectionStore et (s\<lparr>db_published_retail_prices := d\<rparr>) = projectionStore et s"
  "projectionStore et (s\<lparr>db_sync_state := e\<rparr>) = projectionStore et s"
  "projectionStore et (s\<lparr>db_sync_observed_events := f\<rparr>) = projectionStore et s"
  "projectionStore et (s\<lparr>db_catalog_bootstrap_state := g\<rparr>) = projectionStore et s"
  "projectionStore et (s\<lparr>db_pricing_bootstrap_state := h\<rparr>) = projectionStore et s"
  by (cases et; simp)+

lemma get_put_table:
  "t_ok S t \<Longrightarrow> t_put S r t = Inr t' \<Longrightarrow> t_get S k t' = (if k = sch_key S r then Some r else t_get S k t)"
  by (rule tbl.get_put)

text \<open>Storing a change refines the update of the abstract map, keeps the constraints and leaves the rest alone.\<close>

lemma storeChange_refines:
  assumes "feed_ok s" "storeChange input c s = (Inr u, s')"
  shows "feed_ok s' \<and> feed_view s' = (feed_view s)(change_key c \<mapsto> change_value c) \<and>
    db_sync_state s' = db_sync_state s \<and> db_sync_observed_events s' = db_sync_observed_events s"
proof (cases c)
  case (ProductChange q ct v)
  with assms(2) obtain t where t: "t_put products_schema v (db_products s) = Inr t" "s' = s\<lparr>db_products := t\<rparr>"
    by (auto simp: result_simps simp del: schema_defs)
  have ok: "t_ok products_schema (db_products s)" using assms(1) by (simp add: feed_ok_def del: schema_defs)
  show ?thesis
    using assms(1) tbl.put_Inr [OF ok t(1)] get_put_table [OF ok t(1)] ProductChange
    by (auto simp: feed_ok_def feed_view_def t(2) fun_eq_iff simp del: schema_defs split: feed_kind.splits)
      (simp_all add: products_schema_def)
next
  case (ProductUnitChange q ct v)
  with assms(2) obtain t where t: "t_put product_units_schema v (db_product_units s) = Inr t" "s' = s\<lparr>db_product_units := t\<rparr>"
    by (auto simp: result_simps simp del: schema_defs)
  have ok: "t_ok product_units_schema (db_product_units s)" using assms(1) by (simp add: feed_ok_def del: schema_defs)
  show ?thesis
    using assms(1) tbl.put_Inr [OF ok t(1)] get_put_table [OF ok t(1)] ProductUnitChange
    by (auto simp: feed_ok_def feed_view_def t(2) fun_eq_iff simp del: schema_defs split: feed_kind.splits)
      (simp_all add: product_units_schema_def)
next
  case (BarcodeChange q ct v)
  with assms(2) obtain t where t: "t_put barcodes_schema v (db_barcodes s) = Inr t" "s' = s\<lparr>db_barcodes := t\<rparr>"
    by (auto simp: result_simps simp del: schema_defs)
  have ok: "t_ok barcodes_schema (db_barcodes s)" using assms(1) by (simp add: feed_ok_def del: schema_defs)
  show ?thesis
    using assms(1) tbl.put_Inr [OF ok t(1)] get_put_table [OF ok t(1)] BarcodeChange
    by (auto simp: feed_ok_def feed_view_def t(2) fun_eq_iff simp del: schema_defs split: feed_kind.splits)
      (simp_all add: barcodes_schema_def)
next
  case (PublishedPriceChange q ct v)
  with assms(2) obtain t where t: "t_put published_retail_prices_schema v (db_published_retail_prices s) = Inr t"
      "s' = s\<lparr>db_published_retail_prices := t\<rparr>"
    by (auto simp: result_simps simp del: schema_defs)
  have ok: "t_ok published_retail_prices_schema (db_published_retail_prices s)"
    using assms(1) by (simp add: feed_ok_def del: schema_defs)
  show ?thesis
    using assms(1) tbl.put_Inr [OF ok t(1)] get_put_table [OF ok t(1)] PublishedPriceChange
    by (auto simp: feed_ok_def feed_view_def t(2) fun_eq_iff simp del: schema_defs split: feed_kind.splits)
      (simp_all add: published_retail_prices_schema_def)
next
  case (OpaqueChange q et ct v)
  with assms(2) obtain t where t: "t_put opaque_schema v (projectionStore et s) = Inr t"
      "s' = projectionStore_update et (\<lambda>_. t) s"
    by (auto simp: result_simps simp del: schema_defs)
  have ok: "t_ok opaque_schema (projectionStore et s)" using assms(1) by (simp add: feed_ok_def del: schema_defs)
  have st: "projectionStore et' s' = (if et' = et then t else projectionStore et' s)" for et'
    by (simp add: t(2) projectionStore_update_other)
  have frame: "db_products s' = db_products s" "db_product_units s' = db_product_units s" "db_barcodes s' = db_barcodes s"
    "db_published_retail_prices s' = db_published_retail_prices s"
    "db_catalog_bootstrap_state s' = db_catalog_bootstrap_state s"
    "db_pricing_bootstrap_state s' = db_pricing_bootstrap_state s" "db_sync_state s' = db_sync_state s"
    "db_sync_observed_events s' = db_sync_observed_events s"
    by (simp_all add: t(2))
  have "feed_view s' kk = ((feed_view s)(change_key c \<mapsto> change_value c)) kk" for kk
  proof -
    obtain kind k where kk: "kk = (kind, k)" by fastforce
    have "t_get opaque_schema k t = (if k = op_key v then Some v else t_get opaque_schema k (projectionStore et s))" for k
      using get_put_table [OF ok t(1)] by simp
    then show ?thesis using OpaqueChange
      by (cases kind) (simp_all add: kk feed_view_def st frame del: schema_defs)
  qed
  moreover have "feed_ok s'" using assms(1) tbl.put_Inr [OF ok t(1)] by (simp add: feed_ok_def st frame del: schema_defs)
  ultimately show ?thesis using frame by (simp add: fun_eq_iff)
qed


lemma forA_Inr_invariant:
  assumes "forA f xs s = (Inr u, s')" "P s"
    and "\<And>x s s' u. x \<in> set xs \<Longrightarrow> P s \<Longrightarrow> f x s = (Inr u, s') \<Longrightarrow> P s'"
  shows "P s'"
  using assms
proof (induction xs arbitrary: s)
  case (Cons x xs)
  then obtain s1 where s1: "f x s = (Inr (), s1)" "forA f xs s1 = (Inr u, s')" by (auto simp: bindA_eq_Inr)
  have "P s1" by (rule Cons.prems(3) [OF _ Cons.prems(2) s1(1)]) simp
  then show ?case by (rule Cons.IH [OF s1(2)]) (rule Cons.prems(3), simp_all)
qed simp

lemma inPage_Inr: "inPage a b q = Inr u \<longleftrightarrow> plain_int q \<and> a < digits_val q \<and> digits_val q \<le> b"
  by (auto simp: inPage_def parseCursor_def result_simps split: if_splits)

lemma applyChanges_refines:
  assumes "feed_ok s" "forA (applyChange input a b) cs s = (Inr u, s')"
  shows "feed_ok s' \<and>
    feed_view s' = foldl (\<lambda>m c. m(change_key c \<mapsto> change_value c)) (feed_view s) cs \<and>
    db_sync_state s' = db_sync_state s \<and> db_sync_observed_events s' = db_sync_observed_events s \<and>
    (\<forall>c \<in> set cs. a < digits_val (change_sequence c) \<and> digits_val (change_sequence c) \<le> b \<and>
      change_business c = pg_business_id input)"
  using assms
proof (induction cs arbitrary: s)
  case (Cons c cs)
  obtain s1 where s1: "applyChange input a b c s = (Inr (), s1)" "forA (applyChange input a b) cs s1 = (Inr u, s')"
    using Cons.prems(2) by (auto simp: bindA_eq_Inr)
  then have c: "a < digits_val (change_sequence c)" "digits_val (change_sequence c) \<le> b"
    "change_business c = pg_business_id input" "storeChange input c s = (Inr (), s1)"
    by (auto simp: applyChange_def result_simps inPage_Inr)
  show ?case using storeChange_refines [OF Cons.prems(1) c(4)] Cons.IH [OF _ s1(2)] c(1-3) by simp
qed simp

lemma observeEvents_frame:
  assumes "feed_ok s" "forA (observeEvent input a b) es s = (Inr u, s')"
  shows "feed_ok s' \<and> feed_view s' = feed_view s \<and> db_sync_state s' = db_sync_state s"
proof (rule forA_Inr_invariant [OF assms(2), where P = "\<lambda>t. feed_ok t \<and> feed_view t = feed_view s \<and> db_sync_state t = db_sync_state s"])
  fix e t t' u
  assume t: "feed_ok t \<and> feed_view t = feed_view s \<and> db_sync_state t = db_sync_state s" "observeEvent input a b e t = (Inr u, t')"
  then obtain o' where o': "t_put sync_observed_events_schema e (db_sync_observed_events t) = Inr o'"
      "t' = t\<lparr>db_sync_observed_events := o'\<rparr>"
    by (auto simp: observeEvent_def result_simps simp del: schema_defs)
  have fo: "feed_ok t" using t(1) by blast
  then have "t_ok sync_observed_events_schema (db_sync_observed_events t)" by (simp add: feed_ok_def del: schema_defs)
  from tbl.put_Inr [OF this o'(1)] fo have "feed_ok t'" by (simp add: feed_ok_def o'(2) del: schema_defs)
  moreover have "feed_view t' = feed_view t" by (simp add: feed_view_def o'(2) fun_eq_iff split: feed_kind.split)
  ultimately show "feed_ok t' \<and> feed_view t' = feed_view s \<and> db_sync_state t' = db_sync_state s"
    using t(1) by (simp add: o'(2))
qed (use assms(1) in simp)

definition page_state_row :: "js_env \<Rightarrow> ApplyProjectionPageInput \<Rightarrow> int \<times> PricingTimeStatus \<Rightarrow> LocalSyncStateRecord" where
  "page_state_row E input clock =
     sync_state_row (pg_business_id input) (pg_device_id input) (pg_next_cursor input)
       (pg_bootstrap_version input) (pg_server_time input) clock (pg_applied_at input)"

lemma applyProjectionPage_Inl: "applyProjectionPage E input s = (Inl e, s') \<Longrightarrow> s' = s"
  by (auto simp: applyProjectionPage_def bindA_eq_Inl transaction_eq_Inl)

lemma applyProjectionPage_Inr:
  assumes "applyProjectionPage E input s = (Inr u, s')"
  obtains a b clock s1 s2 where "parseCursor (pg_expected_cursor input) = Inr a" "parseCursor (pg_next_cursor input) = Inr b"
    "a \<le> b" "deriveClockMetadata E (pg_server_time input) (pg_applied_at input) = Inr clock"
    "cursor_of (pg_business_id input) (pg_device_id input) s = pg_expected_cursor input"
    "forA (applyChange input a b) (pg_changes input) s = (Inr (), s1)"
    "forA (observeEvent input a b) (observed_events input) s1 = (Inr (), s2)"
    "tableA db_sync_state db_sync_state_update (t_put sync_state_schema (page_state_row E input clock)) s2 = (Inr u, s')"
proof -
  have "\<exists>a b clock s1 s2. parseCursor (pg_expected_cursor input) = Inr a \<and> parseCursor (pg_next_cursor input) = Inr b \<and>
    a \<le> b \<and> deriveClockMetadata E (pg_server_time input) (pg_applied_at input) = Inr clock \<and>
    cursor_of (pg_business_id input) (pg_device_id input) s = pg_expected_cursor input \<and>
    forA (applyChange input a b) (pg_changes input) s = (Inr (), s1) \<and>
    forA (observeEvent input a b) (observed_events input) s1 = (Inr (), s2) \<and>
    tableA db_sync_state db_sync_state_update (t_put sync_state_schema (page_state_row E input clock)) s2 = (Inr u, s')"
    using assms unfolding applyProjectionPage_def page_state_row_def cursor_of_def
    by (auto simp: bindA_eq_Inr transaction_eq_Inr throwIf_eq_Inr Let_def not_less simp del: schema_defs)
  then show thesis using that by blast
qed

lemma context_key_inj: "buildSyncContextKey b d = buildSyncContextKey b' d' \<longleftrightarrow> b = b' \<and> d = d'"
  by (simp add: buildSyncContextKey_def)

lemma page_effect:
  assumes "feed_ok s" "applyProjectionPage E input s = (Inr u, s')"
  shows "feed_ok s' \<and> digits_val (pg_expected_cursor input) \<le> digits_val (pg_next_cursor input) \<and>
    cursor_of (pg_business_id input) (pg_device_id input) s = pg_expected_cursor input \<and>
    cursor_of (pg_business_id input) (pg_device_id input) s' = pg_next_cursor input \<and>
    (\<forall>b d. (b, d) \<noteq> (pg_business_id input, pg_device_id input) \<longrightarrow> cursor_of b d s' = cursor_of b d s) \<and>
    feed_view s' = foldl (\<lambda>m c. m(change_key c \<mapsto> change_value c)) (feed_view s) (pg_changes input) \<and>
    (\<forall>c \<in> set (pg_changes input). digits_val (pg_expected_cursor input) < digits_val (change_sequence c) \<and>
      digits_val (change_sequence c) \<le> digits_val (pg_next_cursor input) \<and>
      change_business c = pg_business_id input)"
  using assms(2)
proof (rule applyProjectionPage_Inr)
  fix a b clock s1 s2
  assume p: "parseCursor (pg_expected_cursor input) = Inr a" "parseCursor (pg_next_cursor input) = Inr b" "a \<le> b"
    and cur: "cursor_of (pg_business_id input) (pg_device_id input) s = pg_expected_cursor input"
    and s1: "forA (applyChange input a b) (pg_changes input) s = (Inr (), s1)"
    and s2: "forA (observeEvent input a b) (observed_events input) s1 = (Inr (), s2)"
    and st: "tableA db_sync_state db_sync_state_update (t_put sync_state_schema (page_state_row E input clock)) s2 = (Inr u, s')"
  have ab: "a = digits_val (pg_expected_cursor input)" "b = digits_val (pg_next_cursor input)"
    using p by (auto simp: parseCursor_def split: if_splits)
  note c = applyChanges_refines [OF assms(1) s1]
  note e = observeEvents_frame [OF conjunct1 [OF c] s2]
  obtain t where t: "t_put sync_state_schema (page_state_row E input clock) (db_sync_state s2) = Inr t"
      "s' = s2\<lparr>db_sync_state := t\<rparr>"
    using st by (auto simp: tableA_eq_Inr simp del: schema_defs)
  have fo: "feed_ok s2" using e by blast
  then have ok: "t_ok sync_state_schema (db_sync_state s2)" by (simp add: feed_ok_def del: schema_defs)
  have get: "t_get sync_state_schema k t = (if k = buildSyncContextKey (pg_business_id input) (pg_device_id input)
      then Some (page_state_row E input clock) else t_get sync_state_schema k (db_sync_state s))" for k
    using get_put_table [OF ok t(1)] e c by (simp add: page_state_row_def sync_state_row_def)
  have "feed_ok s'" using fo tbl.put_Inr [OF ok t(1)] by (simp add: feed_ok_def t(2) del: schema_defs)
  moreover have "feed_view s' = feed_view s2" by (simp add: feed_view_def t(2) fun_eq_iff split: feed_kind.split)
  moreover have "cursor_of (pg_business_id input) (pg_device_id input) s' = pg_next_cursor input"
    by (simp add: cursor_of_def t(2) get page_state_row_def sync_state_row_def del: schema_defs)
  moreover have "cursor_of x y s' = cursor_of x y s" if "(x, y) \<noteq> (pg_business_id input, pg_device_id input)" for x y
    using that by (auto simp: cursor_of_def t(2) get context_key_inj simp del: schema_defs)
  ultimately show ?thesis using c e cur p(3) ab by simp
qed


text \<open>
  C5. A page refines the abstract feed: seen as one map from entity and key to value, the tables after the
  page are the tables before it updated change by change in the order of the page; every change lies in
  the page's cursor range and belongs to its business.
\<close>

theorem page_refines_map_updates:
  assumes "feed_ok s" "applyProjectionPage E input s = (Inr u, s')"
  shows "feed_view s' = foldl (\<lambda>m c. m(change_key c \<mapsto> change_value c)) (feed_view s) (pg_changes input) \<and>
    (\<forall>c \<in> set (pg_changes input). digits_val (pg_expected_cursor input) < digits_val (change_sequence c) \<and>
      digits_val (change_sequence c) \<le> digits_val (pg_next_cursor input) \<and>
      change_business c = pg_business_id input)"
  using page_effect [OF assms] by blast


section \<open>The snapshot\<close>

lemma bulkPut_set:
  assumes "t_bulkPut S rs t = Inr t'" "t_ok S t" "distinct (map (sch_key S) rs)"
  shows "t_ok S t'" "set t' = {x \<in> set t. sch_key S x \<notin> sch_key S ` set rs} \<union> set rs"
proof -
  note b = bulkPut_Inr [OF assms(1,2)]
  show ok: "t_ok S t'" using b by blast
  have rs: "set rs \<subseteq> set t'" using b assms(3) by blast
  have "x \<in> set rs" if x: "x \<in> set t'" "sch_key S x \<in> sch_key S ` set rs" for x
  proof -
    obtain r where r: "r \<in> set rs" "sch_key S x = sch_key S r" using x(2) by blast
    then have "x = r" using tbl.key_determines_row [OF ok x(1) _ r(2)] rs by blast
    then show ?thesis using r(1) by simp
  qed
  moreover have "set t' \<subseteq> set t \<union> set rs" "{x \<in> set t. sch_key S x \<notin> sch_key S ` set rs} \<subseteq> set t'" using b by blast+
  ultimately show "set t' = {x \<in> set t. sch_key S x \<notin> sch_key S ` set rs} \<union> set rs" using rs by blast
qed

text \<open>Deleting the stale rows and storing the listed ones replaces the rows of one business.\<close>

definition replaced_by :: "'r schema \<Rightarrow> ('r \<Rightarrow> string) \<Rightarrow> string \<Rightarrow> 'r list \<Rightarrow> 'r list \<Rightarrow> 'r list \<Rightarrow> bool" where
  "replaced_by S businessOf b rs t t' = (t_ok S t' \<and>
     {x \<in> set t'. businessOf x = b} = set rs \<and>
     {x \<in> set t'. businessOf x \<noteq> b} = {x \<in> set t. businessOf x \<noteq> b \<and> sch_key S x \<notin> sch_key S ` set rs})"

lemma replace_table:
  assumes "t_ok S t" "deleteStale S businessOf b (sch_key S ` set rs) t = Inr t1" "putListed S rs t1 = Inr t'"
    "distinct (map (sch_key S) rs)" "\<forall>r \<in> set rs. businessOf r = b"
  shows "replaced_by S businessOf b rs t t'"
proof -
  have t1: "t_ok S t1" "set t1 = {x \<in> set t. businessOf x = b \<longrightarrow> sch_key S x \<in> sch_key S ` set rs}"
  proof -
    let ?stale = "filter (\<lambda>r. sch_key S r \<notin> sch_key S ` set rs) (filter (\<lambda>r. businessOf r = b) t)"
    have del: "t1 = t_bulkDelete S (map (sch_key S) ?stale) t" using assms(2) by (simp add: deleteStale_def)
    then show "t_ok S t1" using bulkDelete_ok [OF assms(1)] by simp
    have "sch_key S x \<in> sch_key S ` set ?stale \<longleftrightarrow> x \<in> set ?stale" if "x \<in> set t" for x
      using tbl.key_determines_row [OF assms(1) that] by (auto simp: image_iff)
    then show "set t1 = {x \<in> set t. businessOf x = b \<longrightarrow> sch_key S x \<in> sch_key S ` set rs}"
      unfolding del t_bulkDelete_def set_filter set_map by auto
  qed
  have "t_ok S t' \<and> set t' = {x \<in> set t1. sch_key S x \<notin> sch_key S ` set rs} \<union> set rs"
  proof (cases "rs = []")
    case True
    then show ?thesis using assms(3) t1 by (auto simp: putListed_def)
  next
    case False
    then show ?thesis using bulkPut_set [OF _ t1(1) assms(4)] assms(3) by (simp add: putListed_def)
  qed
  then show ?thesis unfolding replaced_by_def using assms(5) t1(2) by blast
qed

lemma unique_keys_Inr: "assertUniqueKeys ks = Inr u \<longleftrightarrow> distinct ks"
  by (auto simp: assertUniqueKeys_def result_simps distinct_card card_distinct)

text \<open>The parts of a valid snapshot that the replacement relies on.\<close>

lemma validateSnapshot_Inr:
  assumes "validateSnapshot E input = Inr clock"
  shows "distinct (map pd_id (bs_products input))" "distinct (map pu_id (bs_product_units input))"
    "distinct (map bc_id (bs_barcodes input))" "distinct (map lp_price_version_id (bs_published_retail_prices input))"
    "\<forall>p \<in> set (bs_products input). pd_business_id p = bs_business_id input"
    "\<forall>u \<in> set (bs_product_units input). pu_business_id u = bs_business_id input \<and>
       pu_product_id u \<in> pd_id ` set (bs_products input)"
    "\<forall>x \<in> set (bs_barcodes input). bc_business_id x = bs_business_id input \<and>
       bc_product_unit_id x \<in> pu_id ` set (bs_product_units input)"
    "\<forall>x \<in> set (bs_published_retail_prices input). lp_business_id x = bs_business_id input \<and>
       lp_product_unit_id x \<in> pu_id ` set (bs_product_units input)"
    "\<forall>x \<in> set (bs_opaque_projections input). op_business_id (bo_value x) = bs_business_id input"
    "plain_int (bs_cursor input)"
    "\<forall>x \<in> set (bs_opaque_projections input). op_key (bo_value x) = buildOpaqueProjectionKey (bs_business_id input) (op_entity_id (bo_value x))"
  using assms unfolding validateSnapshot_def Let_def
  by (auto simp: bindE_eq_Inr throwIf_eq_Inr unique_keys_Inr list_ex_iff parseCursor_def split: if_splits)

text \<open>The business's part of the catalog and of a projection after a snapshot.\<close>

definition catalog_replaced :: "ApplyBootstrapSnapshotInput \<Rightarrow> pos_db \<Rightarrow> pos_db \<Rightarrow> bool" where
  "catalog_replaced input s s' = (
     replaced_by products_schema pd_business_id (bs_business_id input) (bs_products input)
       (db_products s) (db_products s') \<and>
     replaced_by product_units_schema pu_business_id (bs_business_id input) (bs_product_units input)
       (db_product_units s) (db_product_units s') \<and>
     replaced_by barcodes_schema bc_business_id (bs_business_id input) (bs_barcodes input)
       (db_barcodes s) (db_barcodes s') \<and>
     replaced_by published_retail_prices_schema lp_business_id (bs_business_id input)
       (bs_published_retail_prices input) (db_published_retail_prices s) (db_published_retail_prices s'))"

definition listed :: "ApplyBootstrapSnapshotInput \<Rightarrow> LocalOpaqueProjectionEntityType \<Rightarrow> LocalOpaqueProjectionRecord list" where
  "listed input et = map bo_value (filter (\<lambda>p. bo_entity_type p = et) (bs_opaque_projections input))"

lemma replaceCatalog_Inr:
  assumes "feed_ok s" "validateSnapshot E input = Inr clock" "replaceCatalog input s = (Inr u, s')"
  shows "catalog_replaced input s s'" "projectionStore et s' = projectionStore et s"
    "db_catalog_bootstrap_state s' = db_catalog_bootstrap_state s" "db_sync_state s' = db_sync_state s"
    "db_pricing_bootstrap_state s' = db_pricing_bootstrap_state s"
    "db_sync_observed_events s' = db_sync_observed_events s"
proof -
  note v = validateSnapshot_Inr [OF assms(2)]
  have img: "sch_key products_schema ` set (bs_products input) = set (map pd_id (bs_products input))"
    "sch_key product_units_schema ` set (bs_product_units input) = set (map pu_id (bs_product_units input))"
    "sch_key barcodes_schema ` set (bs_barcodes input) = set (map bc_id (bs_barcodes input))"
    "sch_key published_retail_prices_schema ` set (bs_published_retail_prices input) =
       set (map lp_price_version_id (bs_published_retail_prices input))"
    by simp_all
  from assms(3) obtain b1 p1 u1 d1 d2 u2 b2 p2 where
    del: "deleteStale barcodes_schema bc_business_id (bs_business_id input) (set (map bc_id (bs_barcodes input))) (db_barcodes s) = Inr b1"
    "deleteStale published_retail_prices_schema lp_business_id (bs_business_id input)
       (set (map lp_price_version_id (bs_published_retail_prices input))) (db_published_retail_prices s) = Inr p1"
    "deleteStale product_units_schema pu_business_id (bs_business_id input) (set (map pu_id (bs_product_units input))) (db_product_units s) = Inr u1"
    "deleteStale products_schema pd_business_id (bs_business_id input) (set (map pd_id (bs_products input))) (db_products s) = Inr d1"
    and put: "putListed products_schema (bs_products input) d1 = Inr d2"
    "putListed product_units_schema (bs_product_units input) u1 = Inr u2"
    "putListed barcodes_schema (bs_barcodes input) b1 = Inr b2"
    "putListed published_retail_prices_schema (bs_published_retail_prices input) p1 = Inr p2"
    and s': "s' = s\<lparr>db_barcodes := b2, db_published_retail_prices := p2, db_product_units := u2, db_products := d2\<rparr>"
    unfolding replaceCatalog_def Let_def
    by (clarsimp simp: bindA_eq_Inr tableA_eq_Inr simp del: schema_defs)
  have ok: "t_ok products_schema (db_products s)" "t_ok product_units_schema (db_product_units s)"
    "t_ok barcodes_schema (db_barcodes s)" "t_ok published_retail_prices_schema (db_published_retail_prices s)"
    using assms(1) by (simp_all add: feed_ok_def del: schema_defs)
  have "replaced_by products_schema pd_business_id (bs_business_id input) (bs_products input) (db_products s) d2"
    by (rule replace_table [OF ok(1) _ put(1)]) (use del(4) v(1,5) img(1) in simp_all)
  moreover have "replaced_by product_units_schema pu_business_id (bs_business_id input) (bs_product_units input)
      (db_product_units s) u2"
    by (rule replace_table [OF ok(2) _ put(2)]) (use del(3) v(2,6) img(2) in simp_all)
  moreover have "replaced_by barcodes_schema bc_business_id (bs_business_id input) (bs_barcodes input) (db_barcodes s) b2"
    by (rule replace_table [OF ok(3) _ put(3)]) (use del(1) v(3,7) img(3) in simp_all)
  moreover have "replaced_by published_retail_prices_schema lp_business_id (bs_business_id input)
      (bs_published_retail_prices input) (db_published_retail_prices s) p2"
    by (rule replace_table [OF ok(4) _ put(4)]) (use del(2) v(4,8) img(4) in simp_all)
  ultimately show "catalog_replaced input s s'" unfolding catalog_replaced_def s' by simp
  show "projectionStore et s' = projectionStore et s" "db_catalog_bootstrap_state s' = db_catalog_bootstrap_state s"
    "db_sync_state s' = db_sync_state s" "db_pricing_bootstrap_state s' = db_pricing_bootstrap_state s"
    "db_sync_observed_events s' = db_sync_observed_events s"
    by (simp_all add: s')
qed


lemma replaceProjections_Inr:
  assumes "t_ok opaque_schema (projectionStore et s)" "validateSnapshot E input = Inr clock"
    "replaceProjections input et s = (Inr u, s')"
  shows "\<exists>t. s' = projectionStore_update et (\<lambda>_. t) s \<and>
    replaced_by opaque_schema op_business_id (bs_business_id input) (listed input et) (projectionStore et s) t"
proof -
  from assms(3) obtain t1 t where d: "distinct (map op_key (listed input et))"
    and del: "deleteStale opaque_schema op_business_id (bs_business_id input) (set (map op_key (listed input et)))
      (projectionStore et s) = Inr t1"
    and put: "putListed opaque_schema (listed input et) t1 = Inr t"
    and s': "s' = projectionStore_update et (\<lambda>_. t) (projectionStore_update et (\<lambda>_. t1) s)"
    unfolding replaceProjections_def listed_def Let_def
    by (auto simp: bindA_eq_Inr tableA_eq_Inr unique_keys_Inr simp del: schema_defs)
  have "s' = projectionStore_update et (\<lambda>_. t) s" unfolding s' by (cases et) simp_all
  moreover have "replaced_by opaque_schema op_business_id (bs_business_id input) (listed input et) (projectionStore et s) t"
  proof (rule replace_table [OF assms(1) _ put])
    show "deleteStale opaque_schema op_business_id (bs_business_id input) (sch_key opaque_schema ` set (listed input et))
        (projectionStore et s) = Inr t1"
      using del by (simp only: set_map opaque_schema_def schema.simps)
    show "distinct (map (sch_key opaque_schema) (listed input et))" using d by simp
    show "\<forall>r \<in> set (listed input et). op_business_id r = bs_business_id input"
      using validateSnapshot_Inr(9) [OF assms(2)] by (auto simp: listed_def)
  qed
  ultimately show ?thesis by blast
qed

text \<open>What a replacement of projections leaves alone.\<close>

definition same_but_projections :: "pos_db \<Rightarrow> pos_db \<Rightarrow> bool" where
  "same_but_projections s s' = (db_products s' = db_products s \<and> db_product_units s' = db_product_units s \<and>
     db_barcodes s' = db_barcodes s \<and> db_published_retail_prices s' = db_published_retail_prices s \<and>
     db_catalog_bootstrap_state s' = db_catalog_bootstrap_state s \<and>
     db_pricing_bootstrap_state s' = db_pricing_bootstrap_state s \<and> db_sync_state s' = db_sync_state s \<and>
     db_sync_observed_events s' = db_sync_observed_events s)"

lemma replaceAll_Inr:
  assumes "\<forall>et. t_ok opaque_schema (projectionStore et s)" "validateSnapshot E input = Inr clock"
    "forA (replaceProjections input) ets s = (Inr u, s')" "distinct ets"
  shows "same_but_projections s s' \<and> (\<forall>et. if et \<in> set ets
      then replaced_by opaque_schema op_business_id (bs_business_id input) (listed input et) (projectionStore et s) (projectionStore et s')
      else projectionStore et s' = projectionStore et s)"
  using assms
proof (induction ets arbitrary: s)
  case Nil
  then show ?case by (simp add: same_but_projections_def)
next
  case (Cons et ets)
  obtain s1 where s1: "replaceProjections input et s = (Inr (), s1)" "forA (replaceProjections input) ets s1 = (Inr u, s')"
    using Cons.prems(3) by (auto simp: bindA_eq_Inr)
  obtain t where t: "s1 = projectionStore_update et (\<lambda>_. t) s"
    "replaced_by opaque_schema op_business_id (bs_business_id input) (listed input et) (projectionStore et s) t"
    using replaceProjections_Inr [OF spec [OF Cons.prems(1)] Cons.prems(2) s1(1)] by blast
  have st: "projectionStore et' s1 = (if et' = et then t else projectionStore et' s)" for et'
    by (simp add: t(1) projectionStore_update_other)
  have "\<forall>et'. t_ok opaque_schema (projectionStore et' s1)"
    using Cons.prems(1) t(2) by (auto simp: st replaced_by_def simp del: schema_defs)
  note IH = Cons.IH [OF this Cons.prems(2) s1(2)]
  have "same_but_projections s s1" by (simp add: same_but_projections_def t(1))
  then have "same_but_projections s s'" using IH Cons.prems(4) by (simp add: same_but_projections_def)
  moreover have "if et' \<in> set (et # ets)
      then replaced_by opaque_schema op_business_id (bs_business_id input) (listed input et') (projectionStore et' s) (projectionStore et' s')
      else projectionStore et' s' = projectionStore et' s" for et'
    using IH Cons.prems(4) t(2) by (auto simp: st simp del: schema_defs split: if_splits)
  ultimately show ?case by blast
qed

lemma replaced_feed_ok:
  assumes "feed_ok s" "validateSnapshot E input = Inr clock" "replaceCatalog input s = (Inr (), s1)"
    "forA (replaceProjections input) [et_promotion, et_payment_method, et_stock_balance, et_authorization] s1 = (Inr (), s2)"
  shows "feed_ok s2"
proof -
  note c = replaceCatalog_Inr(1) [OF assms(1-3)] and st1 = replaceCatalog_Inr(2) [OF assms(1-3)]
    and others = replaceCatalog_Inr(3-6) [OF assms(1-3)]
  have "\<forall>et. t_ok opaque_schema (projectionStore et s1)" using assms(1) by (simp add: st1 feed_ok_def del: schema_defs)
  note all = replaceAll_Inr [OF this assms(2,4)]
  have same: "same_but_projections s1 s2" using all by simp
  have "et \<in> set [et_promotion, et_payment_method, et_stock_balance, et_authorization]" for et by (cases et) simp_all
  then have "replaced_by opaque_schema op_business_id (bs_business_id input) (listed input et)
      (projectionStore et s1) (projectionStore et s2)" for et
    using all by (metis (full_types, lifting) distinct_length_2_or_more distinct_singleton
        LocalOpaqueProjectionEntityType.distinct)
  then show ?thesis using assms(1) same c unfolding feed_ok_def
    by (simp add: same_but_projections_def others catalog_replaced_def replaced_by_def del: schema_defs)
qed

lemma putBootstrapState_Inr:
  assumes "feed_ok s" "putBootstrapState input clock s = (Inr u, s')"
  shows "feed_ok s' \<and> cursor_of (bs_business_id input) (bs_device_id input) s' = bs_cursor input \<and>
    db_products s' = db_products s \<and> db_product_units s' = db_product_units s \<and> db_barcodes s' = db_barcodes s \<and>
    db_published_retail_prices s' = db_published_retail_prices s \<and> projectionStore et s' = projectionStore et s"
proof -
  let ?r = "sync_state_row (bs_business_id input) (bs_device_id input) (bs_cursor input)
         (bs_bootstrap_version input) (bs_server_time input) clock (bs_applied_at input)"
  from assms(2) obtain c p y c1 p1 where
    c: "t_put catalog_bootstrap_state_schema c1 (db_catalog_bootstrap_state s) = Inr c"
    and p: "t_put pricing_bootstrap_state_schema p1 (db_pricing_bootstrap_state s) = Inr p"
    and y: "t_put sync_state_schema ?r (db_sync_state s) = Inr y"
    and s': "s' = s\<lparr>db_catalog_bootstrap_state := c, db_pricing_bootstrap_state := p, db_sync_state := y\<rparr>"
    unfolding putBootstrapState_def by (clarsimp simp: bindA_eq_Inr tableA_eq_Inr simp del: schema_defs)
  have ok: "t_ok catalog_bootstrap_state_schema (db_catalog_bootstrap_state s)"
    "t_ok pricing_bootstrap_state_schema (db_pricing_bootstrap_state s)" "t_ok sync_state_schema (db_sync_state s)"
    using assms(1) by (simp_all add: feed_ok_def del: schema_defs)
  have "feed_ok s'"
    using assms(1) tbl.put_Inr [OF ok(1) c] tbl.put_Inr [OF ok(2) p] tbl.put_Inr [OF ok(3) y]
    by (simp add: feed_ok_def s' del: schema_defs)
  moreover have "t_get sync_state_schema (buildSyncContextKey (bs_business_id input) (bs_device_id input)) y = Some ?r"
    using get_put_table [OF ok(3) y] by (simp add: sync_state_row_def)
  then have "cursor_of (bs_business_id input) (bs_device_id input) s' = bs_cursor input"
    by (simp add: cursor_of_def s' sync_state_row_def del: schema_defs)
  ultimately show ?thesis by (simp add: s')
qed

text \<open>
  C9. A bootstrap snapshot replaces one business and nothing else: a failure changes nothing; on success
  the business's products, units, barcodes, prices and projections are exactly the ones of the snapshot,
  the rows of other businesses stay (unless the snapshot reuses their key), the cursor is the
  snapshot's, every projection is stored under the key of its entity, and the catalog of the business has no dangling
  reference: the unit of every barcode and of every price, and the product of every unit, are in the snapshot.
\<close>

theorem snapshot_replaces_business:
  assumes "feed_ok s"
  shows "case applyBootstrapSnapshot E input s of
      (Inl e, s') \<Rightarrow> s' = s
    | (Inr u, s') \<Rightarrow> feed_ok s' \<and> catalog_replaced input s s' \<and>
        (\<forall>et. replaced_by opaque_schema op_business_id (bs_business_id input) (listed input et)
           (projectionStore et s) (projectionStore et s')) \<and>
        cursor_of (bs_business_id input) (bs_device_id input) s' = bs_cursor input \<and>
        (\<forall>x \<in> set (db_barcodes s'). bc_business_id x = bs_business_id input \<longrightarrow>
           (\<exists>y \<in> set (db_product_units s'). pu_id y = bc_product_unit_id x \<and> pu_business_id y = bs_business_id input)) \<and>
        (\<forall>x \<in> set (db_product_units s'). pu_business_id x = bs_business_id input \<longrightarrow>
           (\<exists>y \<in> set (db_products s'). pd_id y = pu_product_id x \<and> pd_business_id y = bs_business_id input)) \<and>
        (\<forall>x \<in> set (db_published_retail_prices s'). lp_business_id x = bs_business_id input \<longrightarrow>
           (\<exists>y \<in> set (db_product_units s'). pu_id y = lp_product_unit_id x \<and> pu_business_id y = bs_business_id input)) \<and>
        (\<forall>et. \<forall>x \<in> set (projectionStore et s'). op_business_id x = bs_business_id input \<longrightarrow>
           op_key x = buildOpaqueProjectionKey (bs_business_id input) (op_entity_id x))"
proof -
  obtain r s' where run: "applyBootstrapSnapshot E input s = (r, s')" by fastforce
  show ?thesis
  proof (cases r)
    case (Inl e)
    then have "s' = s" using run by (auto simp: applyBootstrapSnapshot_def bindA_eq_Inl transaction_eq_Inl)
    then show ?thesis unfolding run Inl by simp
  next
    case (Inr u)
    let ?ets = "[et_promotion, et_payment_method, et_stock_balance, et_authorization]"
    obtain clock s1 s2 where v: "validateSnapshot E input = Inr clock" and s1: "replaceCatalog input s = (Inr (), s1)"
      and s2: "forA (replaceProjections input) ?ets s1 = (Inr (), s2)" and s3: "putBootstrapState input clock s2 = (Inr u, s')"
      using run Inr unfolding applyBootstrapSnapshot_def
      by (clarsimp simp: bindA_eq_Inr transaction_eq_Inr simp del: forA.simps)
    note c = replaceCatalog_Inr(1) [OF assms v s1] and st1 = replaceCatalog_Inr(2) [OF assms v s1]
    have "\<forall>et. t_ok opaque_schema (projectionStore et s1)" using assms by (simp add: st1 feed_ok_def del: schema_defs)
    note all = replaceAll_Inr [OF this v s2]
    have same: "same_but_projections s1 s2" using all by simp
    have "et \<in> set ?ets" for et by (cases et) simp_all
    then have rep: "replaced_by opaque_schema op_business_id (bs_business_id input) (listed input et)
        (projectionStore et s) (projectionStore et s2)" for et
      using all unfolding st1 by (metis (full_types, lifting) distinct_length_2_or_more distinct_singleton
          LocalOpaqueProjectionEntityType.distinct)
    have "feed_ok s2" by (rule replaced_feed_ok [OF assms v s1 s2])
    note p = putBootstrapState_Inr [OF this s3]
    have c': "catalog_replaced input s s'" using c same p by (simp add: catalog_replaced_def same_but_projections_def)
    have rows: "{x \<in> set (db_products s'). pd_business_id x = bs_business_id input} = set (bs_products input)"
      "{x \<in> set (db_product_units s'). pu_business_id x = bs_business_id input} = set (bs_product_units input)"
      "{x \<in> set (db_barcodes s'). bc_business_id x = bs_business_id input} = set (bs_barcodes input)"
      "{x \<in> set (db_published_retail_prices s'). lp_business_id x = bs_business_id input} = set (bs_published_retail_prices input)"
      using c' by (simp_all add: catalog_replaced_def replaced_by_def del: schema_defs)
    have "\<exists>y \<in> set (db_product_units s'). pu_id y = bc_product_unit_id x \<and> pu_business_id y = bs_business_id input"
      if "x \<in> set (db_barcodes s')" "bc_business_id x = bs_business_id input" for x
    proof -
      have "x \<in> set (bs_barcodes input)" using that rows(3) by blast
      then obtain y where "y \<in> set (bs_product_units input)" "pu_id y = bc_product_unit_id x"
        using validateSnapshot_Inr(7) [OF v] by auto
      then show ?thesis using rows(2) by blast
    qed
    moreover have "\<exists>y \<in> set (db_products s'). pd_id y = pu_product_id x \<and> pd_business_id y = bs_business_id input"
      if "x \<in> set (db_product_units s')" "pu_business_id x = bs_business_id input" for x
    proof -
      have "x \<in> set (bs_product_units input)" using that rows(2) by blast
      then obtain y where "y \<in> set (bs_products input)" "pd_id y = pu_product_id x"
        using validateSnapshot_Inr(6) [OF v] by auto
      then show ?thesis using rows(1) by blast
    qed
    moreover have "\<exists>y \<in> set (db_product_units s'). pu_id y = lp_product_unit_id x \<and> pu_business_id y = bs_business_id input"
      if "x \<in> set (db_published_retail_prices s')" "lp_business_id x = bs_business_id input" for x
    proof -
      have "x \<in> set (bs_published_retail_prices input)" using that rows(4) by blast
      then obtain y where "y \<in> set (bs_product_units input)" "pu_id y = lp_product_unit_id x"
        using validateSnapshot_Inr(8) [OF v] by auto
      then show ?thesis using rows(2) by blast
    qed
    moreover have "op_key x = buildOpaqueProjectionKey (bs_business_id input) (op_entity_id x)"
      if "x \<in> set (projectionStore et s')" "op_business_id x = bs_business_id input" for x et
    proof -
      have "projectionStore et s' = projectionStore et s2" using p by simp
      then have "x \<in> {x \<in> set (projectionStore et s2). op_business_id x = bs_business_id input}" using that by simp
      also have "\<dots> = set (listed input et)" using rep [of et] unfolding replaced_by_def by (elim conjE)
      finally have "x \<in> set (listed input et)" .
      then show ?thesis using validateSnapshot_Inr(11) [OF v] by (auto simp: listed_def)
    qed
    ultimately show ?thesis unfolding run Inr using p c' rep by simp
  qed
qed

section \<open>A concrete feed\<close>

text \<open>The till of theory \<open>Shifts\<close> sends its first command and applies its first page.\<close>

definition demo_claim :: ClaimOutboxBatchInput where
  "demo_claim = \<lparr>cm_business_id = ''B'', cm_lease_owner = ''w'', cm_claimed_at = ''2026-08-23'',
     cm_lease_expires_at = ''2026-09-01'', cm_limit = None\<rparr>"

definition demo_row :: LocalOutboxRecord where "demo_row = open_shift_outbox demo_host demo_open"

definition demo_sending :: pos_db where
  "demo_sending = demo_db\<lparr>db_outbox := [claimRow demo_claim demo_row]\<rparr>"

definition demo_settle :: SettleOutboxCommand where
  "demo_settle = \<lparr>so_command_id = ob_command_id demo_row, so_disposition = DISP_ACCEPTED, so_error = None,
     so_next_attempt_at = None\<rparr>"

lemma demo_row_facts: "ob_business_id demo_row = ''B''" "ob_status demo_row = PENDING" "db_outbox demo_db = [demo_row]"
    "ob_outbox_id demo_row = ''4''" "ob_command_id demo_row = ''0''" "ob_created_at demo_row = ''2026-08-23''"
proof -
  have "nat_digits 4 = ''4''" "nat_digits 0 = ''0''" by code_simp+
  then show "ob_business_id demo_row = ''B''" "ob_status demo_row = PENDING" "db_outbox demo_db = [demo_row]"
    "ob_outbox_id demo_row = ''4''" "ob_command_id demo_row = ''0''" "ob_created_at demo_row = ''2026-08-23''"
    by (simp_all add: demo_row_def open_shift_outbox_def new_outbox_def demo_open_def demo_auth_def demo_db_def
        demo_host_def demo_now_def Let_def)
qed

lemma demo_limit: "assertLimit (JSInt 50) = Inr ()" "assertLimit (JSInt 1) = Inr ()"
  by code_simp+

lemmas demo_run = bindA_def transaction_def tableA_def t_bulkPut_def t_put_def t_conflict_def t_get_def sort_by_def
  parseTimestamp_def demo_limit demo_env_def claimable_def claimRow_def js_int_def

lemma demo_claims: "claimOutboxBatch demo_env demo_claim demo_db = (Inr [claimRow demo_claim demo_row], demo_sending)"
  by (simp add: claimOutboxBatch_def Let_def demo_claim_def demo_sending_def demo_row_facts demo_run)

lemma demo_claims_again:
  "claimOutboxBatch demo_env (demo_claim\<lparr>cm_lease_owner := ''v''\<rparr>) demo_sending = (Inr [], demo_sending)"
  by (simp add: claimOutboxBatch_def Let_def demo_claim_def demo_sending_def demo_row_facts demo_run)

theorem claim_is_exclusive_witness:
  "claimOutboxBatch demo_env demo_claim demo_db = (Inr [claimRow demo_claim demo_row], demo_sending) \<and>
   db_ok demo_sending \<and> ob_command_id ` set [] \<inter> ob_command_id ` set [claimRow demo_claim demo_row] = {}"
proof -
  note c = claim_is_exclusive [OF demo_db_ok demo_claims]
  have "dateParse demo_env (cm_lease_expires_at demo_claim) = Some 1788220800000"
    "dateParse demo_env (cm_claimed_at (demo_claim\<lparr>cm_lease_owner := ''v''\<rparr>)) = Some 1787443200000"
    by (simp_all add: demo_claim_def demo_env_def)
  with c demo_claims_again have "ob_command_id ` set [] \<inter> ob_command_id ` set [claimRow demo_claim demo_row] = {}"
    by fastforce
  with c demo_claims show ?thesis by blast
qed

definition demo_later :: LocalOutboxRecord where
  "demo_later = demo_row\<lparr>ob_outbox_id := ''3'', ob_command_id := ''later'', ob_created_at := ''2026-09-01''\<rparr>"

lemma demo_comparator: "comparator (localeCompare demo_env) UNIV"
  by unfold_locales (auto simp: demo_env_def split: if_splits)

lemma demo_claims_one:
  "claimOutboxBatch demo_env (demo_claim\<lparr>cm_limit := Some (JSInt 1)\<rparr>) (demo_db\<lparr>db_outbox := [demo_later, demo_row]\<rparr>) =
     (Inr [claimRow demo_claim demo_row], demo_db\<lparr>db_outbox := [demo_later, claimRow demo_claim demo_row]\<rparr>)"
  by (simp add: claimOutboxBatch_def Let_def demo_claim_def demo_row_facts demo_later_def demo_run)

theorem claim_oldest_first_witness:
  "claimOutboxBatch demo_env (demo_claim\<lparr>cm_limit := Some (JSInt 1)\<rparr>) (demo_db\<lparr>db_outbox := [demo_later, demo_row]\<rparr>) =
     (Inr [claimRow demo_claim demo_row], demo_db\<lparr>db_outbox := [demo_later, claimRow demo_claim demo_row]\<rparr>) \<and>
   localeCompare demo_env (ob_created_at demo_row) (ob_created_at demo_later) \<le> 0"
proof -
  have ok: "db_ok (demo_db\<lparr>db_outbox := [demo_later, demo_row]\<rparr>)"
    using demo_db_ok by (simp add: db_ok_def t_ok_def demo_later_def demo_row_facts)
  have "ob_outbox_id (claimRow (demo_claim\<lparr>cm_limit := Some (JSInt 1)\<rparr>) demo_later) \<noteq>
      ob_outbox_id (claimRow demo_claim demo_row)"
    by (simp add: claimRow_def demo_later_def demo_row_facts)
  then have "claimRow (demo_claim\<lparr>cm_limit := Some (JSInt 1)\<rparr>) demo_later \<noteq> claimRow demo_claim demo_row" by fastforce
  moreover note claim_oldest_first [OF ok demo_claims_one demo_comparator, of 1787443200000 demo_later]
  ultimately show ?thesis using demo_claims_one
    by (simp add: demo_claim_def demo_later_def demo_row_facts claimable_def demo_env_def claimRow_def)
qed

lemma demo_sending_ok: "db_ok demo_sending"
  using demo_db_ok by (simp add: db_ok_def t_ok_def demo_sending_def)

lemma demo_settles: "\<exists>s'. settleOutboxBatch demo_env ''w'' [demo_settle] demo_sending = (Inr (), s')"
proof -
  let ?s1 = "demo_sending\<lparr>db_outbox := [settleRow demo_settle (claimRow demo_claim demo_row)]\<rparr>"
  have ok: "t_ok outbox_schema (db_outbox demo_sending)" using demo_sending_ok by (simp add: db_ok_def del: schema_defs)
  have "t_update outbox_schema ''4'' (settleRow demo_settle) (db_outbox demo_sending) =
      Inr [settleRow demo_settle (claimRow demo_claim demo_row)]"
    using update_keeps(1) [OF ok outbox_updates_keep(2)]
    by (simp add: demo_sending_def claimRow_def demo_row_facts)
  moreover have "db_ok ?s1" using demo_sending_ok by (simp add: db_ok_def t_ok_def)
  then obtain s' where "markAggregates SYNC_SYNCED (claimRow demo_claim demo_row) ?s1 = (Inr (), s')"
    using markAggregates_run by blast
  ultimately have "settleOne ''w'' demo_settle demo_sending = (Inr (), s')"
    by (simp add: settleOne_def bindA_def tableA_def demo_sending_def demo_settle_def claimRow_def demo_claim_def
        demo_row_facts aggregateSyncStatus_def del: schema_defs)
  then show ?thesis
    by (simp add: settleOutboxBatch_def checkSettlement_def demo_settle_def bindA_def transaction_def)
qed

theorem settle_by_lease_owner_witness:
  "\<exists>s'. settleOutboxBatch demo_env ''w'' [demo_settle] demo_sending = (Inr (), s') \<and>
     db_outbox s' = [settleRow demo_settle (claimRow demo_claim demo_row)] \<and>
     ob_status (hd (db_outbox s')) = ACCEPTED"
proof -
  obtain s' where s': "settleOutboxBatch demo_env ''w'' [demo_settle] demo_sending = (Inr (), s')"
    using demo_settles by blast
  have "db_outbox s' = [settleRow demo_settle (claimRow demo_claim demo_row)]"
    using settle_by_lease_owner [OF demo_sending_ok, where E = demo_env and owner = "''w''" and ss = "[demo_settle]"] unfolding s'
    by (simp add: demo_sending_def demo_settle_def claimRow_def demo_row_facts)
  then show ?thesis using s' by (simp add: settleRow_def demo_settle_def settledStatus_def)
qed

definition demo_grant :: OfflineAuthorizationGrant where
  "demo_grant = \<lparr>og_key_id = ''x'', og_session_id = ''x'', og_device_id = ''x'', og_terminal_id = ''x'', og_issued_at
     = ''x'', og_offline_valid_until = ''x'', og_user_id = ''x'', og_business_id = ''x'', og_primary_role
     = ''x'', og_permissions = [], og_authorization_version = 1, og_default_location_id = ''x'',
     og_signature = ''x''\<rparr>"

definition demo_refused :: LocalOutboxRecord where
  "demo_refused = demo_row\<lparr>ob_status := REQUIRES_REVIEW, ob_offline_authorization := Some demo_grant,
     ob_last_error := Some (json_stringify (JObj [(''code'', JStr ''DEVICE_REVOKED'')]))\<rparr>"

lemma demo_recoverable: "recoverable demo_refused"
proof -
  have "json_parse (json_stringify (JObj [(''code'', JStr ''DEVICE_REVOKED'')])) = Some (JObj [(''code'', JStr ''DEVICE_REVOKED'')])"
    by (rule parse_stringify) simp
  then show ?thesis by (simp add: recoverable_def demo_refused_def recoverableCodes_def jget_def)
qed

theorem recovery_reopens_authority_errors_witness:
  "authorizeRecoveryRetry ''B'' (demo_db\<lparr>db_outbox := [demo_refused]\<rparr>) =
     (Inr 1, demo_db\<lparr>db_outbox := [retryRow demo_refused]\<rparr>)"
proof -
  have "db_ok (demo_db\<lparr>db_outbox := [demo_refused]\<rparr>)" using demo_db_ok by (simp add: db_ok_def t_ok_def)
  from recovery_reopens_authority_errors [OF this, of "''B''"] show ?thesis
    using demo_recoverable by (simp add: demo_refused_def demo_row_facts)
qed

definition demo_product :: LocalPosProduct where
  "demo_product = \<lparr>pd_id = ''p'', pd_business_id = ''B'', pd_sku = ''S'', pd_name = ''Rice'', pd_base_unit_code = ''KG'',
     pd_track_inventory = True, pd_status = ACTIVE, pd_version = ''1'', pd_updated_at = ''2026-08-01''\<rparr>"

definition demo_unit :: LocalPosProductUnit where
  "demo_unit = \<lparr>pu_id = ''u'', pu_business_id = ''B'', pu_product_id = ''p'', pu_unit_code = ''KG'',
     pu_display_name = ''Kilo'', pu_conversion_factor = ''1'', pu_can_sell = True, pu_can_purchase = True,
     pu_allow_decimal_qty = True, pu_status = ACTIVE, pu_version = ''1'', pu_updated_at = ''2026-08-01''\<rparr>"

definition demo_page :: ApplyProjectionPageInput where
  "demo_page = \<lparr>pg_business_id = ''B'', pg_device_id = ''dev'', pg_expected_cursor = ''0'', pg_next_cursor = ''2'',
     pg_bootstrap_version = 1, pg_server_time = ''2026-08-23'', pg_applied_at = ''2026-08-23'',
     pg_changes = [ProductChange ''1'' UPSERT demo_product, ProductUnitChange ''2'' UPSERT demo_unit],
     pg_observed_events = None\<rparr>"

lemma feed_ok_empty: "feed_ok empty_db"
proof -
  have "t_ok opaque_schema (projectionStore et empty_db)" for et by (cases et) (simp_all add: t_ok_def empty_db_def)
  then show ?thesis by (simp add: feed_ok_def t_ok_def empty_db_def)
qed

lemma demo_page_runs: "\<exists>s'. applyProjectionPage demo_env demo_page empty_db = (Inr (), s')"
proof -
  have cursors: "parseCursor ''0'' = Inr 0" "parseCursor ''1'' = Inr 1" "parseCursor ''2'' = Inr 2" by code_simp+
  show ?thesis
    by (simp add: applyProjectionPage_def demo_page_def cursors deriveClockMetadata_def Let_def assertUniqueKeys_def
      observed_events_def applyChange_def inPage_def demo_run empty_db_def demo_product_def demo_unit_def)
qed


theorem page_refines_map_updates_witness:
  "\<exists>s'. applyProjectionPage demo_env demo_page empty_db = (Inr (), s') \<and>
     feed_view s' (KProduct, ''p'') = Some (FProduct demo_product) \<and>
     feed_view s' (KUnit, ''u'') = Some (FUnit demo_unit)"
proof -
  obtain s' where s': "applyProjectionPage demo_env demo_page empty_db = (Inr (), s')" using demo_page_runs by blast
  have "pg_changes demo_page = [ProductChange ''1'' UPSERT demo_product, ProductUnitChange ''2'' UPSERT demo_unit]"
    "pd_id demo_product = ''p''" "pu_id demo_unit = ''u''"
    by (simp_all add: demo_page_def demo_product_def demo_unit_def)
  then show ?thesis using s' page_refines_map_updates [OF feed_ok_empty s'] by simp
qed

definition demo_snapshot :: ApplyBootstrapSnapshotInput where
  "demo_snapshot = \<lparr>bs_business_id = ''B'', bs_device_id = ''dev'', bs_bootstrap_version = 1, bs_cursor = ''7'',
     bs_server_time = ''2026-08-23'', bs_applied_at = ''2026-08-23'', bs_products = [demo_product],
     bs_product_units = [demo_unit], bs_barcodes = [], bs_published_retail_prices = [], bs_opaque_projections = []\<rparr>"

lemma demo_snapshot_runs: "\<exists>s'. applyBootstrapSnapshot demo_env demo_snapshot empty_db = (Inr (), s')"
proof -
  have cursors: "parseCursor ''7'' = Inr 7" by code_simp
  show ?thesis
    by (simp add: applyBootstrapSnapshot_def validateSnapshot_def demo_snapshot_def cursors deriveClockMetadata_def Let_def
        assertUniqueKeys_def replaceCatalog_def replaceProjections_def putBootstrapState_def deleteStale_def putListed_def
        t_bulkDelete_def demo_run empty_db_def demo_product_def demo_unit_def)
qed

theorem snapshot_replaces_business_witness:
  "\<exists>s'. applyBootstrapSnapshot demo_env demo_snapshot empty_db = (Inr (), s') \<and> feed_ok s' \<and>
     cursor_of ''B'' ''dev'' s' = ''7''"
proof -
  obtain s' where s': "applyBootstrapSnapshot demo_env demo_snapshot empty_db = (Inr (), s')"
    using demo_snapshot_runs by blast
  have "bs_business_id demo_snapshot = ''B''" "bs_device_id demo_snapshot = ''dev''" "bs_cursor demo_snapshot = ''7''"
    by (simp_all add: demo_snapshot_def)
  then show ?thesis using s' snapshot_replaces_business [OF feed_ok_empty, where E = demo_env and input = demo_snapshot] by simp
qed

end
