(* ===== verification/Sync_Client.thy ===== *)
theory Sync_Client
  imports Pos_Db
begin

text \<open>
  The synchronisation client, \<open>packages/sync-client/src\<close>: what it exchanges (\<open>types.ts\<close> and
  \<open>packages/contracts/src/sync.ts\<close>), the classification of failures and the exponential backoff
  (\<open>retry.ts\<close>), and the orchestrator (\<open>orchestrator.ts\<close>): pushing claimed commands one by one, pulling
  pages until there are no more, acknowledging the cursor. The server behind the gateway is a parameter,
  by call; so is the clock. The persistence boundary \<open>LocalSyncStore\<close> is a record of operations, its
  documented contract is the locale \<open>local_sync_store\<close>, and what the orchestrator guarantees on top of
  any such store is proved there. Theory \<open>Sync_Adapter\<close> interprets the locale on the POS store.
\<close>

section \<open>What is exchanged\<close>

record SyncWarning =
  sw_code :: string
  sw_message :: "string option"
  sw_severity :: "string option"

datatype SyncRejectedStatus =
    REJECTED_VALIDATION | REJECTED_PERMISSION | REJECTED_CONFLICT | REJECTED_ONLINE_REQUIRED
  | REJECTED_RETRYABLE | REJECTED_FINAL

datatype SyncAcceptedStatus = AC_ACCEPTED | AC_ACCEPTED_WITH_REVIEW

record AcceptedSyncCommand =
  ac_command_id :: string
  ac_status :: SyncAcceptedStatus
  ac_warnings :: "SyncWarning list"

record RejectedSyncCommand =
  rj_command_id :: string
  rj_status :: SyncRejectedStatus
  rj_error_code :: string
  rj_message :: string

record SyncPushBatchResult =
  rb_accepted :: "AcceptedSyncCommand list"
  rb_rejected :: "RejectedSyncCommand list"

record SyncPushCommand =
  wc_command_id :: uuid
  wc_command_type :: string
  wc_occurred_at :: iso_time
  wc_location_id :: "uuid option"
  wc_device_id :: uuid
  wc_authorization_version :: int
  wc_offline_authorization :: "OfflineAuthorizationGrant option"
  wc_correlation_id :: uuid
  wc_payload :: json

record LocalSyncCommand = SyncPushCommand +
  lc_business_id :: uuid
  lc_attempt_count :: int

record SyncPushRequest =
  rq_batch_id :: uuid
  rq_client_schema_version :: int
  rq_commands :: "SyncPushCommand list"

record SyncPullRequest =
  pq_device_id :: uuid
  pq_cursor :: string
  pq_limit :: js_number

datatype SyncChangeType = CH_UPSERT | CH_DEACTIVATE | CH_EVENT | CH_INVALIDATE

record SyncPullChange =
  pc_sequence :: string
  pc_entity_type :: string
  pc_entity_id :: uuid
  pc_change_type :: SyncChangeType
  pc_entity_version :: "string option"
  pc_occurred_at :: iso_time
  pc_payload :: json

record SyncPullResponse =
  pl_changes :: "SyncPullChange list"
  pl_next_cursor :: string
  pl_has_more :: bool
  pl_server_time :: iso_time

record SyncAckRequest =
  ak_device_id :: uuid
  ak_last_applied_sequence :: string

text \<open>The authorization of a bootstrap is kept as the object the code reads and as its JSON members.\<close>

record SyncBootstrapResponse =
  bt_bootstrap_version :: js_number
  bt_server_time :: iso_time
  bt_business :: json
  bt_location :: json
  bt_terminal :: json
  bt_authorization :: AuthContextResponse
  bt_authorization_members :: "(string \<times> json) list"
  bt_settings :: json
  bt_products :: "json list"
  bt_product_units :: "json list"
  bt_barcodes :: "json list"
  bt_published_price_versions :: "json list"
  bt_published_price_tiers :: "json list"
  bt_promotions :: "json list"
  bt_payment_methods :: "json list"
  bt_stock_balances :: "json list"
  bt_sync_cursor :: string

text \<open>The server: its answer to each call of a run. A rejected promise is \<open>Inl\<close>.\<close>

record SyncGateway =
  gw_bootstrap :: "SyncBootstrapResponse result"
  gw_push :: "nat \<Rightarrow> SyncPushRequest \<Rightarrow> SyncPushBatchResult result"
  gw_pull :: "nat \<Rightarrow> SyncPullRequest \<Rightarrow> SyncPullResponse result"
  gw_ack :: "SyncAckRequest \<Rightarrow> unit result"

record SyncStoreContext =
  cx_business_id :: uuid
  cx_device_id :: uuid

record ClaimPushCandidatesInput = SyncStoreContext +
  cp_limit :: js_number
  cp_claimed_at :: iso_time
  cp_lease_expires_at :: iso_time

datatype LocalCommandResolution =
    RES_ACCEPTED iso_time
  | RES_ACCEPTED_WITH_REVIEW iso_time "SyncWarning list"
  | RES_FAILED_RETRYABLE iso_time string string iso_time
  | RES_REQUIRES_REVIEW iso_time string string

record 's LocalSyncStore =
  ls_claimPushCandidates :: "ClaimPushCandidatesInput \<Rightarrow> ('s, LocalSyncCommand list) act"
  ls_resolveCommandAtomically :: "uuid \<Rightarrow> LocalCommandResolution \<Rightarrow> ('s, unit) act"
  ls_getPullCursor :: "SyncStoreContext \<Rightarrow> ('s, string) act"
  ls_applyPullAtomically :: "SyncStoreContext \<Rightarrow> SyncPullResponse \<Rightarrow> ('s, unit) act"
  ls_applyBootstrapAtomically :: "SyncStoreContext \<Rightarrow> SyncBootstrapResponse \<Rightarrow> ('s, unit) act"

datatype FailureDisposition = FD_FAILED_RETRYABLE | FD_REQUIRES_REVIEW

record SyncOperationFailure =
  sf_disposition :: FailureDisposition
  sf_error_code :: string
  sf_message :: string
  sf_retry_after_ms :: "rat option"

record PushRunResult =
  ps_claimed :: nat
  ps_accepted :: nat
  ps_accepted_with_review :: nat
  ps_failed_retryable :: nat
  ps_requires_review :: nat

datatype AckRunResult = ACKED | ACK_FAILED SyncOperationFailure

record PullRun =
  ru_applied_pages :: nat
  ru_applied_changes :: nat
  ru_cursor :: string

datatype PullRunResult = PullRunSuccess PullRun bool AckRunResult | PullRunFailure PullRun SyncOperationFailure

section \<open>Failures and retries\<close>

record FailureClassification =
  fc_retryable :: bool
  fc_errorCode :: string
  fc_message :: string
  fc_minimumDelayMs :: "rat option"

record BackoffInput =
  bi_attemptCount :: int
  bi_failure :: FailureClassification

record RetryPolicy =
  rp_classify :: "js_error \<Rightarrow> FailureClassification"
  rp_backoff :: "BackoffInput \<Rightarrow> rat"

abbreviation SyncProtocolError :: "string \<Rightarrow> js_error" where
  "SyncProtocolError message \<equiv> SyncTransportError ''PROTOCOL'' message"

definition isHttpStatusRetryable :: "int \<Rightarrow> bool" where
  "isHttpStatusRetryable status = (status = 408 \<or> status = 425 \<or> status = 429 \<or> status \<ge> 500)"

text \<open>
  The message of an error of another component is not part of the model; \<open>M\<close> supplies it.
  \<open>ProjectionRequiresBootstrapError\<close> is a \<open>SyncProtocolError\<close>.
\<close>

fun classifySyncFailure :: "(js_error \<Rightarrow> string) \<Rightarrow> js_error \<Rightarrow> FailureClassification" where
  "classifySyncFailure M (SyncHttpError status code message serverRetryable retryAfterMs) =
     \<lparr>fc_retryable = (case serverRetryable of None \<Rightarrow> isHttpStatusRetryable status | Some b \<Rightarrow> b),
      fc_errorCode = code, fc_message = message, fc_minimumDelayMs = retryAfterMs\<rparr>"
| "classifySyncFailure M (SyncTransportError kind message) =
     \<lparr>fc_retryable = (kind = ''NETWORK''),
      fc_errorCode = (if kind = ''NETWORK'' then ''NETWORK_UNKNOWN_RESULT'' else ''SYNC_PROTOCOL_ERROR''),
      fc_message = message, fc_minimumDelayMs = None\<rparr>"
| "classifySyncFailure M (ProjectionRequiresBootstrapError message) =
     \<lparr>fc_retryable = False, fc_errorCode = ''SYNC_PROTOCOL_ERROR'', fc_message = message, fc_minimumDelayMs = None\<rparr>"
| "classifySyncFailure M error =
     \<lparr>fc_retryable = False, fc_errorCode = ''SYNC_CLIENT_ERROR'', fc_message = M error, fc_minimumDelayMs = None\<rparr>"

record ExponentialBackoffOptions =
  eb_baseDelayMs :: "js_number option"
  eb_maxDelayMs :: "js_number option"

fun js_rat :: "js_number \<Rightarrow> rat" where
  "js_rat (JSInt i) = of_int i"
| "js_rat (JSFrac q) = q"
| "js_rat JSNotFinite = 0"

definition exponentialDelay :: "rat \<Rightarrow> rat \<Rightarrow> BackoffInput \<Rightarrow> rat" where
  "exponentialDelay baseDelayMs maxDelayMs input =
     (let safeAttempt = max 1 (bi_attemptCount input) in
      max (min maxDelayMs (baseDelayMs * 2 ^ nat (min 30 (safeAttempt - 1))))
          (case fc_minimumDelayMs (bi_failure input) of None \<Rightarrow> 0 | Some d \<Rightarrow> d))"

definition createExponentialBackoff :: "ExponentialBackoffOptions \<Rightarrow> (BackoffInput \<Rightarrow> rat) result" where
  "createExponentialBackoff options =
     (let baseDelayMs = (case eb_baseDelayMs options of None \<Rightarrow> JSInt 1000 | Some n \<Rightarrow> n);
          maxDelayMs = (case eb_maxDelayMs options of None \<Rightarrow> JSInt 60000 | Some n \<Rightarrow> n) in
      bindE (throwIf (\<not> isFinite baseDelayMs \<or> js_rat baseDelayMs < 0)
        (JsError ''baseDelayMs must be a finite non-negative number.'')) (\<lambda>_.
      bindE (throwIf (\<not> isFinite maxDelayMs \<or> js_rat maxDelayMs < js_rat baseDelayMs)
        (JsError ''maxDelayMs must be finite and at least baseDelayMs.'')) (\<lambda>_.
      Inr (exponentialDelay (js_rat baseDelayMs) (js_rat maxDelayMs)))))"

definition defaultRetryPolicy :: "(js_error \<Rightarrow> string) \<Rightarrow> RetryPolicy" where
  "defaultRetryPolicy M =
     \<lparr>rp_classify = classifySyncFailure M,
      rp_backoff = (case createExponentialBackoff \<lparr>eb_baseDelayMs = None, eb_maxDelayMs = None\<rparr> of
         Inl e \<Rightarrow> (\<lambda>_. 0) | Inr b \<Rightarrow> b)\<rparr>"

section \<open>The orchestrator\<close>

record 's SyncOrchestratorOptions =
  oo_gateway :: SyncGateway
  oo_store :: "'s LocalSyncStore"
  oo_businessId :: uuid
  oo_deviceId :: uuid
  oo_clientSchemaVersion :: int
  oo_retryPolicy :: "RetryPolicy option"
  oo_now :: "nat \<Rightarrow> iso_time"
  oo_pushClaimLimit :: "js_number option"
  oo_pullLimit :: "js_number option"
  oo_maxPullPages :: "js_number option"
  oo_claimLeaseMs :: "js_number option"

record 's SyncOrchestrator =
  or_options :: "'s SyncOrchestratorOptions"
  or_retryPolicy :: RetryPolicy
  or_pushClaimLimit :: js_number
  or_pullLimit :: js_number
  or_maxPullPages :: js_number
  or_claimLeaseMs :: js_number

definition positive_finite :: "js_number \<Rightarrow> bool" where
  "positive_finite n = (isFinite n \<and> 0 < js_rat n)"

definition newSyncOrchestrator ::
  "(js_error \<Rightarrow> string) \<Rightarrow> 's SyncOrchestratorOptions \<Rightarrow> 's SyncOrchestrator result" where
  "newSyncOrchestrator M options =
     bindE (throwIf (js_trim (oo_businessId options) = '''') (JsError ''businessId is required.'')) (\<lambda>_.
     bindE (throwIf (js_trim (oo_deviceId options) = '''') (JsError ''deviceId is required.'')) (\<lambda>_.
     let orch = \<lparr>or_options = options,
           or_retryPolicy = (case oo_retryPolicy options of None \<Rightarrow> defaultRetryPolicy M | Some p \<Rightarrow> p),
           or_pushClaimLimit = (case oo_pushClaimLimit options of None \<Rightarrow> JSInt 25 | Some n \<Rightarrow> n),
           or_pullLimit = (case oo_pullLimit options of None \<Rightarrow> JSInt 500 | Some n \<Rightarrow> n),
           or_maxPullPages = (case oo_maxPullPages options of None \<Rightarrow> JSInt 100 | Some n \<Rightarrow> n),
           or_claimLeaseMs = (case oo_claimLeaseMs options of None \<Rightarrow> JSInt 60000 | Some n \<Rightarrow> n)\<rparr> in
     bindE (foldE (\<lambda>_ (name, n). throwIf (\<not> positive_finite n)
              (JsError (name @ '' must be a positive finite number.''))) ()
              [(''pushClaimLimit'', or_pushClaimLimit orch), (''pullLimit'', or_pullLimit orch),
               (''maxPullPages'', or_maxPullPages orch), (''claimLeaseMs'', or_claimLeaseMs orch)]) (\<lambda>_.
     Inr orch)))"

definition storeContext :: "'s SyncOrchestrator \<Rightarrow> SyncStoreContext" where
  "storeContext orch =
     \<lparr>cx_business_id = oo_businessId (or_options orch), cx_device_id = oo_deviceId (or_options orch)\<rparr>"

abbreviation store_of :: "'s SyncOrchestrator \<Rightarrow> 's LocalSyncStore" where
  "store_of orch \<equiv> oo_store (or_options orch)"

abbreviation gateway_of :: "'s SyncOrchestrator \<Rightarrow> SyncGateway" where
  "gateway_of orch \<equiv> oo_gateway (or_options orch)"

text \<open>
  \<open>new Date(t + ms).toISOString()\<close>: a \<open>RangeError\<close> outside of the range of times; the fraction of a
  millisecond is cut off.
\<close>

definition trunc_rat :: "rat \<Rightarrow> int" where
  "trunc_rat q = (if 0 \<le> q then \<lfloor>q\<rfloor> else \<lceil>q\<rceil>)"

definition addMilliseconds :: "js_env \<Rightarrow> string \<Rightarrow> rat \<Rightarrow> string result" where
  "addMilliseconds E ts milliseconds =
     (case dateParse E ts of
        None \<Rightarrow> Inl (JsError ''Invalid time value'')
      | Some t \<Rightarrow>
          let u = of_int t + milliseconds in
          if \<bar>u\<bar> > 8640000000000000 then Inl (JsError ''Invalid time value'')
          else Inr (toISOString E (trunc_rat u)))"

definition commandForWire :: "LocalSyncCommand \<Rightarrow> SyncPushCommand" where
  "commandForWire command = \<lparr>wc_command_id = wc_command_id command, wc_command_type = wc_command_type command,
     wc_occurred_at = wc_occurred_at command, wc_location_id = wc_location_id command,
     wc_device_id = wc_device_id command, wc_authorization_version = wc_authorization_version command,
     wc_offline_authorization = wc_offline_authorization command, wc_correlation_id = wc_correlation_id command,
     wc_payload = wc_payload command\<rparr>"

definition findCommandResult ::
  "SyncPushBatchResult \<Rightarrow> uuid \<Rightarrow> (RejectedSyncCommand + AcceptedSyncCommand) result" where
  "findCommandResult res commandId =
     (case (find (\<lambda>e. ac_command_id e = commandId) (rb_accepted res),
            find (\<lambda>e. rj_command_id e = commandId) (rb_rejected res)) of
        (Some a, None) \<Rightarrow> Inr (Inr a)
      | (None, Some r) \<Rightarrow> Inr (Inl r)
      | _ \<Rightarrow> Inl (SyncProtocolError
          (''Push response must contain exactly one result for command '' @ commandId @ ''.'')))"

definition emptyPushResult :: "nat \<Rightarrow> PushRunResult" where
  "emptyPushResult claimed = \<lparr>ps_claimed = claimed, ps_accepted = 0, ps_accepted_with_review = 0,
     ps_failed_retryable = 0, ps_requires_review = 0\<rparr>"

definition bootstrap :: "'s SyncOrchestrator \<Rightarrow> ('s, unit) act" where
  "bootstrap orch =
     bindA (liftA (gw_bootstrap (gateway_of orch))) (\<lambda>response.
     bindA (liftA (throwIf (au_business_id (bt_authorization response) \<noteq> oo_businessId (or_options orch))
              (SyncProtocolError ''Bootstrap authorization belongs to a different business.''))) (\<lambda>_.
     ls_applyBootstrapAtomically (store_of orch) (storeContext orch) response))"

definition operationFailure :: "'s SyncOrchestrator \<Rightarrow> js_error \<Rightarrow> int \<Rightarrow> SyncOperationFailure" where
  "operationFailure orch error attemptCount =
     (let classification = rp_classify (or_retryPolicy orch) error in
      if \<not> fc_retryable classification then
        \<lparr>sf_disposition = FD_REQUIRES_REVIEW, sf_error_code = fc_errorCode classification,
         sf_message = fc_message classification, sf_retry_after_ms = None\<rparr>
      else
        \<lparr>sf_disposition = FD_FAILED_RETRYABLE, sf_error_code = fc_errorCode classification,
         sf_message = fc_message classification,
         sf_retry_after_ms = Some (rp_backoff (or_retryPolicy orch)
           \<lparr>bi_attemptCount = attemptCount, bi_failure = classification\<rparr>)\<rparr>)"

definition persistFailure ::
  "js_env \<Rightarrow> 's SyncOrchestrator \<Rightarrow> LocalSyncCommand \<Rightarrow> js_error \<Rightarrow> iso_time \<Rightarrow> ('s, FailureDisposition) act" where
  "persistFailure E orch command error resolvedAt =
     (let failure = operationFailure orch error (lc_attempt_count command) in
      bindA (if sf_disposition failure = FD_FAILED_RETRYABLE then
               bindA (liftA (addMilliseconds E resolvedAt
                        (case sf_retry_after_ms failure of None \<Rightarrow> 0 | Some d \<Rightarrow> d))) (\<lambda>next_attempt_at.
               retA (RES_FAILED_RETRYABLE resolvedAt (sf_error_code failure) (sf_message failure) next_attempt_at))
             else retA (RES_REQUIRES_REVIEW resolvedAt (sf_error_code failure) (sf_message failure))) (\<lambda>resolution.
      bindA (ls_resolveCommandAtomically (store_of orch) (wc_command_id command) resolution) (\<lambda>_.
      retA (sf_disposition failure))))"

definition countFailure :: "FailureDisposition \<Rightarrow> PushRunResult \<Rightarrow> PushRunResult" where
  "countFailure state counts =
     (if state = FD_FAILED_RETRYABLE then counts\<lparr>ps_failed_retryable := ps_failed_retryable counts + 1\<rparr>
      else counts\<lparr>ps_requires_review := ps_requires_review counts + 1\<rparr>)"

text \<open>
  One round of the loop over the claimed commands. Every branch reads the clock once, so the reading of
  round \<open>i\<close> is \<open>oo_now (i + 1)\<close>; the reading \<open>oo_now 0\<close> is the time of the claim.
\<close>

definition pushCommand ::
  "js_env \<Rightarrow> 's SyncOrchestrator \<Rightarrow> nat \<Rightarrow> LocalSyncCommand \<Rightarrow> PushRunResult \<Rightarrow> ('s, PushRunResult) act" where
  "pushCommand E orch i command counts =
     (let options = or_options orch; resolvedAt = oo_now options (i + 1);
          resolve = ls_resolveCommandAtomically (store_of orch) (wc_command_id command);
          fail = (\<lambda>error. bindA (persistFailure E orch command error resolvedAt) (\<lambda>state.
                    retA (countFailure state counts))) in
      if lc_business_id command \<noteq> oo_businessId options \<or> wc_device_id command \<noteq> oo_deviceId options then
        bindA (resolve (RES_REQUIRES_REVIEW resolvedAt ''OUTBOX_CONTEXT_MISMATCH''
                 ''Outbox command belongs to a different business or device.'')) (\<lambda>_.
        retA (counts\<lparr>ps_requires_review := ps_requires_review counts + 1\<rparr>))
      else
        (case gw_push (gateway_of orch) i \<lparr>rq_batch_id = wc_command_id command,
             rq_client_schema_version = oo_clientSchemaVersion options, rq_commands = [commandForWire command]\<rparr> of
           Inl error \<Rightarrow> fail error
         | Inr batchResult \<Rightarrow>
             (case findCommandResult batchResult (wc_command_id command) of
                Inl error \<Rightarrow> fail error
              | Inr (Inr accepted) \<Rightarrow>
                  if ac_status accepted = AC_ACCEPTED_WITH_REVIEW then
                    bindA (resolve (RES_ACCEPTED_WITH_REVIEW resolvedAt (ac_warnings accepted))) (\<lambda>_.
                    retA (counts\<lparr>ps_accepted_with_review := ps_accepted_with_review counts + 1\<rparr>))
                  else
                    bindA (resolve (RES_ACCEPTED resolvedAt)) (\<lambda>_.
                    retA (counts\<lparr>ps_accepted := ps_accepted counts + 1\<rparr>))
              | Inr (Inl rejected) \<Rightarrow>
                  if rj_status rejected = REJECTED_RETRYABLE then
                    let classification = \<lparr>fc_retryable = True, fc_errorCode = rj_error_code rejected,
                          fc_message = rj_message rejected, fc_minimumDelayMs = None\<rparr>;
                        delay = rp_backoff (or_retryPolicy orch)
                          \<lparr>bi_attemptCount = lc_attempt_count command, bi_failure = classification\<rparr> in
                    bindA (liftA (addMilliseconds E resolvedAt delay)) (\<lambda>next_attempt_at.
                    bindA (resolve (RES_FAILED_RETRYABLE resolvedAt (rj_error_code rejected)
                             (rj_message rejected) next_attempt_at)) (\<lambda>_.
                    retA (counts\<lparr>ps_failed_retryable := ps_failed_retryable counts + 1\<rparr>)))
                  else
                    bindA (resolve (RES_REQUIRES_REVIEW resolvedAt (rj_error_code rejected) (rj_message rejected))) (\<lambda>_.
                    retA (counts\<lparr>ps_requires_review := ps_requires_review counts + 1\<rparr>)))))"

fun pushCommands ::
  "js_env \<Rightarrow> 's SyncOrchestrator \<Rightarrow> nat \<Rightarrow> LocalSyncCommand list \<Rightarrow> PushRunResult \<Rightarrow> ('s, PushRunResult) act" where
  "pushCommands E orch i [] counts = retA counts"
| "pushCommands E orch i (c # cs) counts =
     bindA (pushCommand E orch i c counts) (\<lambda>counts'. pushCommands E orch (i + 1) cs counts')"

definition pushPending :: "js_env \<Rightarrow> 's SyncOrchestrator \<Rightarrow> ('s, PushRunResult) act" where
  "pushPending E orch =
     (let claimedAt = oo_now (or_options orch) 0 in
      bindA (liftA (addMilliseconds E claimedAt (js_rat (or_claimLeaseMs orch)))) (\<lambda>leaseExpiresAt.
      bindA (ls_claimPushCandidates (store_of orch)
               \<lparr>cx_business_id = oo_businessId (or_options orch), cx_device_id = oo_deviceId (or_options orch),
                cp_limit = or_pushClaimLimit orch, cp_claimed_at = claimedAt,
                cp_lease_expires_at = leaseExpiresAt\<rparr>) (\<lambda>commands.
      pushCommands E orch 0 commands (emptyPushResult (length commands)))))"

definition ack :: "'s SyncOrchestrator \<Rightarrow> string \<Rightarrow> AckRunResult" where
  "ack orch cursor =
     (case gw_ack (gateway_of orch) \<lparr>ak_device_id = oo_deviceId (or_options orch), ak_last_applied_sequence = cursor\<rparr> of
        Inl error \<Rightarrow> ACK_FAILED (operationFailure orch error 1)
      | Inr _ \<Rightarrow> ACKED)"

text \<open>The loop over the pages: the pages left, the page number, the run so far and \<open>hasMore\<close>.\<close>

fun pullPages ::
  "'s SyncOrchestrator \<Rightarrow> nat \<Rightarrow> nat \<Rightarrow> PullRun \<Rightarrow> bool \<Rightarrow> ('s, PullRunResult) act" where
  "pullPages orch 0 page run hasMore = retA (PullRunSuccess run hasMore (ack orch (ru_cursor run)))"
| "pullPages orch (Suc left) page run hasMore =
     (let cursor = ru_cursor run in
      case gw_pull (gateway_of orch) page \<lparr>pq_device_id = oo_deviceId (or_options orch), pq_cursor = cursor,
             pq_limit = or_pullLimit orch\<rparr> of
        Inl error \<Rightarrow> retA (PullRunFailure run (operationFailure orch error 1))
      | Inr response \<Rightarrow>
          if pl_has_more response \<and> pl_next_cursor response = cursor then
            retA (PullRunFailure run (operationFailure orch
              (SyncProtocolError ''Pull response with more pages did not advance its cursor.'') 1))
          else
            bindA (catchA
              (bindA (ls_applyPullAtomically (store_of orch) (storeContext orch) response) (\<lambda>_. retA None))
              (\<lambda>error. retA (Some (PullRunFailure run (operationFailure orch error 1))))) (\<lambda>failed.
            case failed of
              Some f \<Rightarrow> retA f
            | None \<Rightarrow>
                let run' = \<lparr>ru_applied_pages = ru_applied_pages run + 1,
                      ru_applied_changes = ru_applied_changes run + length (pl_changes response),
                      ru_cursor = pl_next_cursor response\<rparr> in
                if \<not> pl_has_more response
                then retA (PullRunSuccess run' False (ack orch (ru_cursor run')))
                else pullPages orch left (page + 1) run' True))"

text \<open>How often \<open>for (page = 0; page < maxPullPages; page += 1)\<close> can run.\<close>

definition page_bound :: "js_number \<Rightarrow> nat" where
  "page_bound n = nat \<lceil>js_rat n\<rceil>"

definition pullAvailable :: "'s SyncOrchestrator \<Rightarrow> ('s, PullRunResult) act" where
  "pullAvailable orch =
     bindA (ls_getPullCursor (store_of orch) (storeContext orch)) (\<lambda>cursor.
     pullPages orch (page_bound (or_maxPullPages orch)) 0
       \<lparr>ru_applied_pages = 0, ru_applied_changes = 0, ru_cursor = cursor\<rparr> False)"

definition synchronize :: "js_env \<Rightarrow> 's SyncOrchestrator \<Rightarrow> ('s, PushRunResult \<times> PullRunResult) act" where
  "synchronize E orch =
     bindA (pushPending E orch) (\<lambda>push.
     bindA (pullAvailable orch) (\<lambda>pull.
     retA (push, pull)))"

section \<open>Bounds of the backoff\<close>

lemma backoff_Inr:
  assumes "createExponentialBackoff options = Inr b"
  obtains base cap where "0 \<le> base" "base \<le> cap" "b = exponentialDelay base cap"
    "base = js_rat (case eb_baseDelayMs options of None \<Rightarrow> JSInt 1000 | Some n \<Rightarrow> n)"
    "cap = js_rat (case eb_maxDelayMs options of None \<Rightarrow> JSInt 60000 | Some n \<Rightarrow> n)"
  using assms unfolding createExponentialBackoff_def Let_def
  by (auto simp: bindE_eq_Inr throwIf_eq_Inr not_less)

lemma delay_between:
  assumes "0 \<le> base" "base \<le> cap"
  shows "base \<le> exponentialDelay base cap input"
    "exponentialDelay base cap input \<le>
       max cap (case fc_minimumDelayMs (bi_failure input) of None \<Rightarrow> 0 | Some d \<Rightarrow> d)"
proof -
  let ?p = "(2::rat) ^ nat (min 30 (max 1 (bi_attemptCount input) - 1))"
  have "base * 1 \<le> base * ?p" using assms(1) by (intro mult_left_mono) simp_all
  then show "base \<le> exponentialDelay base cap input"
    using assms by (simp add: exponentialDelay_def Let_def max.coboundedI1)
  show "exponentialDelay base cap input \<le>
      max cap (case fc_minimumDelayMs (bi_failure input) of None \<Rightarrow> 0 | Some d \<Rightarrow> d)"
    by (simp add: exponentialDelay_def Let_def max.coboundedI1 max.coboundedI2)
qed

lemma delay_mono:
  assumes "0 \<le> base" "m \<le> n"
  shows "exponentialDelay base cap \<lparr>bi_attemptCount = m, bi_failure = f\<rparr> \<le>
    exponentialDelay base cap \<lparr>bi_attemptCount = n, bi_failure = f\<rparr>"
proof -
  have "nat (min 30 (max 1 m - 1)) \<le> nat (min 30 (max 1 n - 1))" using assms(2) by linarith
  then have "(2::rat) ^ nat (min 30 (max 1 m - 1)) \<le> 2 ^ nat (min 30 (max 1 n - 1))"
    by (intro power_increasing) simp_all
  then have "base * 2 ^ nat (min 30 (max 1 m - 1)) \<le> base * 2 ^ nat (min 30 (max 1 n - 1))"
    using assms(1) by (rule mult_left_mono)
  then show ?thesis unfolding exponentialDelay_def Let_def
    by (intro max.mono min.mono) (simp_all only: BackoffInput.simps order_refl)
qed

text \<open>
  C23. The delay before a retry is bounded: never below the base delay, never above the maximal delay
  unless the server asked for more, never below what the server asked for, and it does not decrease with
  the attempts.
\<close>

theorem backoff_bounds:
  assumes "createExponentialBackoff options = Inr b"
  shows "js_rat (case eb_baseDelayMs options of None \<Rightarrow> JSInt 1000 | Some n \<Rightarrow> n) \<le> b input \<and>
    b input \<le> max (js_rat (case eb_maxDelayMs options of None \<Rightarrow> JSInt 60000 | Some n \<Rightarrow> n))
      (case fc_minimumDelayMs (bi_failure input) of None \<Rightarrow> 0 | Some d \<Rightarrow> d) \<and>
    (case fc_minimumDelayMs (bi_failure input) of None \<Rightarrow> 0 | Some d \<Rightarrow> d) \<le> b input \<and>
    (\<forall>n. bi_attemptCount input \<le> n \<longrightarrow> b input \<le> b (input\<lparr>bi_attemptCount := n\<rparr>))"
proof -
  obtain base cap where o: "0 \<le> base" "base \<le> cap" "b = exponentialDelay base cap"
    "base = js_rat (case eb_baseDelayMs options of None \<Rightarrow> JSInt 1000 | Some n \<Rightarrow> n)"
    "cap = js_rat (case eb_maxDelayMs options of None \<Rightarrow> JSInt 60000 | Some n \<Rightarrow> n)"
    using backoff_Inr [OF assms] .
  have "b input \<le> b (input\<lparr>bi_attemptCount := n\<rparr>)" if "bi_attemptCount input \<le> n" for n
    using delay_mono [OF o(1) that, of cap "bi_failure input"] o(3) by (cases input) simp
  moreover have "(case fc_minimumDelayMs (bi_failure input) of None \<Rightarrow> 0 | Some d \<Rightarrow> d) \<le> b input"
    by (simp add: o(3) exponentialDelay_def Let_def)
  ultimately show ?thesis using delay_between [OF o(1,2), of input] o(3-5) by simp
qed

theorem backoff_bounds_witness:
  "\<exists>b. createExponentialBackoff \<lparr>eb_baseDelayMs = None, eb_maxDelayMs = Some (JSInt 8000)\<rparr> = Inr b \<and>
     1000 \<le> b \<lparr>bi_attemptCount = 7, bi_failure = \<lparr>fc_retryable = True, fc_errorCode = ''X'', fc_message = ''m'',
                fc_minimumDelayMs = None\<rparr>\<rparr> \<and>
     b \<lparr>bi_attemptCount = 7, bi_failure = \<lparr>fc_retryable = True, fc_errorCode = ''X'', fc_message = ''m'',
                fc_minimumDelayMs = None\<rparr>\<rparr> \<le> 8000"
proof -
  have "\<exists>b. createExponentialBackoff \<lparr>eb_baseDelayMs = None, eb_maxDelayMs = Some (JSInt 8000)\<rparr> = Inr b"
    by (simp add: createExponentialBackoff_def Let_def isFinite_def)
  then obtain b where b: "createExponentialBackoff \<lparr>eb_baseDelayMs = None, eb_maxDelayMs = Some (JSInt 8000)\<rparr> = Inr b"
    by blast
  from backoff_bounds [OF b, of "\<lparr>bi_attemptCount = 7, bi_failure = \<lparr>fc_retryable = True, fc_errorCode = ''X'',
      fc_message = ''m'', fc_minimumDelayMs = None\<rparr>\<rparr>"] b show ?thesis by auto
qed

section \<open>Times\<close>

text \<open>What \<open>Date\<close> documents: the ISO text of a time in range is read back as that time.\<close>

definition iso_ok :: "js_env \<Rightarrow> bool" where
  "iso_ok E = (\<forall>t. \<bar>t\<bar> \<le> 8640000000000000 \<longrightarrow> dateParse E (toISOString E t) = Some t)"

lemma trunc_rat_abs: "\<bar>q\<bar> \<le> of_int n \<Longrightarrow> \<bar>trunc_rat q\<bar> \<le> n"
  by (auto simp: trunc_rat_def abs_le_iff floor_le_iff ceiling_le_iff le_floor_iff le_ceiling_iff; linarith)

lemma addMilliseconds_ok:
  assumes "iso_ok E" "dateParse E ts = Some t" "\<bar>t\<bar> \<le> 8 * 10 ^ 15" "\<bar>d\<bar> \<le> 10 ^ 14"
  shows "\<exists>u v. addMilliseconds E ts d = Inr u \<and> dateParse E u = Some v"
proof -
  let ?u = "of_int t + d"
  have "\<bar>?u\<bar> \<le> \<bar>of_int t\<bar> + \<bar>d\<bar>" by (rule abs_triangle_ineq)
  moreover have "of_int \<bar>t\<bar> \<le> (of_int (8 * 10 ^ 15) :: rat)" using assms(3) by (simp only: of_int_le_iff)
  then have "\<bar>of_int t :: rat\<bar> \<le> 8 * 10 ^ 15" by simp
  ultimately have "\<bar>?u\<bar> \<le> 8 * 10 ^ 15 + 10 ^ 14" using assms(4) by linarith
  also have "\<dots> \<le> (8640000000000000 :: rat)" by simp
  finally have u: "\<bar>?u\<bar> \<le> 8640000000000000" .
  then have "\<bar>trunc_rat ?u\<bar> \<le> 8640000000000000" using trunc_rat_abs [of ?u 8640000000000000] by simp
  then have "dateParse E (toISOString E (trunc_rat ?u)) = Some (trunc_rat ?u)" using assms(1) by (simp add: iso_ok_def)
  then show ?thesis using assms(2) u by (simp add: addMilliseconds_def Let_def not_less)
qed

section \<open>The contract of the store\<close>

text \<open>
  What \<open>LocalSyncStore\<close> documents: a claim leases what it returns, a leased command can be resolved and
  is then no longer leased, pulling and bootstrapping move the cursor together with the data or change
  nothing, and they preserve the business records and the outbox. \<open>held\<close> are the commands under this
  client's lease, \<open>records\<close> the business records.
\<close>

definition resolution_ok :: "js_env \<Rightarrow> LocalCommandResolution \<Rightarrow> bool" where
  "resolution_ok E r = (case r of RES_FAILED_RETRYABLE _ _ _ t \<Rightarrow> dateParse E t \<noteq> None | _ \<Rightarrow> True)"

locale local_sync_store =
  fixes store :: "'s LocalSyncStore" and E :: js_env and inv :: "'s \<Rightarrow> bool"
    and held :: "'s \<Rightarrow> uuid set" and cursor :: "SyncStoreContext \<Rightarrow> 's \<Rightarrow> string"
    and records :: "'s \<Rightarrow> 'b"
  assumes claim: "inv s \<Longrightarrow> ls_claimPushCandidates store input s = (Inr cmds, s') \<Longrightarrow>
      inv s' \<and> distinct (map wc_command_id cmds) \<and> held s' = held s \<union> wc_command_id ` set cmds"
    and resolve: "inv s \<Longrightarrow> k \<in> held s \<Longrightarrow> resolution_ok E r \<Longrightarrow>
      \<exists>s'. ls_resolveCommandAtomically store k r s = (Inr (), s') \<and> inv s' \<and> held s' = held s - {k}"
    and get_cursor: "ls_getPullCursor store cx s = (Inr (cursor cx s), s)"
    and pull_Inr: "inv s \<Longrightarrow> ls_applyPullAtomically store cx response s = (Inr u, s') \<Longrightarrow>
      inv s' \<and> held s' = held s \<and> records s' = records s \<and> cursor cx s' = pl_next_cursor response"
    and pull_Inl: "ls_applyPullAtomically store cx response s = (Inl e, s') \<Longrightarrow> s' = s"
    and boot_Inr: "inv s \<Longrightarrow> ls_applyBootstrapAtomically store cx boot s = (Inr u, s') \<Longrightarrow>
      inv s' \<and> held s' = held s \<and> records s' = records s \<and> cursor cx s' = bt_sync_cursor boot"
    and boot_Inl: "ls_applyBootstrapAtomically store cx boot s = (Inl e, s') \<Longrightarrow> s' = s"

text \<open>
  The retry times of a run can be computed: the clock reads times far enough from the end of time, and
  the delays for the failures the server can cause are bounded.
\<close>

definition push_errors :: "'s SyncOrchestrator \<Rightarrow> js_error set" where
  "push_errors orch = {e. (\<exists>i rq. gw_push (gateway_of orch) i rq = Inl e) \<or> (\<exists>m. e = SyncProtocolError m)}"

definition timely :: "js_env \<Rightarrow> 's SyncOrchestrator \<Rightarrow> bool" where
  "timely E orch = (iso_ok E \<and>
     (\<forall>i. \<exists>t. dateParse E (oo_now (or_options orch) i) = Some t \<and> \<bar>t\<bar> \<le> 8 * 10 ^ 15) \<and>
     (\<forall>n. \<forall>e \<in> push_errors orch. \<bar>rp_backoff (or_retryPolicy orch)
        \<lparr>bi_attemptCount = n, bi_failure = rp_classify (or_retryPolicy orch) e\<rparr>\<bar> \<le> 10 ^ 14) \<and>
     (\<forall>n code m. \<bar>rp_backoff (or_retryPolicy orch) \<lparr>bi_attemptCount = n, bi_failure =
        \<lparr>fc_retryable = True, fc_errorCode = code, fc_message = m, fc_minimumDelayMs = None\<rparr>\<rparr>\<bar> \<le> 10 ^ 14))"

definition settled_total :: "PushRunResult \<Rightarrow> nat" where
  "settled_total c = ps_accepted c + ps_accepted_with_review c + ps_failed_retryable c + ps_requires_review c"

fun run_of :: "PullRunResult \<Rightarrow> PullRun" where
  "run_of (PullRunSuccess run _ _) = run"
| "run_of (PullRunFailure run _) = run"

context local_sync_store
begin

lemma persistFailure_total:
  assumes "store_of orch = store" "timely E orch" "inv s" "wc_command_id c \<in> held s" "e \<in> push_errors orch"
  shows "\<exists>d s'. persistFailure E orch c e (oo_now (or_options orch) i) s = (Inr d, s') \<and> inv s' \<and>
    held s' = held s - {wc_command_id c}"
proof -
  let ?now = "oo_now (or_options orch) i" and ?f = "operationFailure orch e (lc_attempt_count c)"
  obtain t where t: "dateParse E ?now = Some t" "\<bar>t\<bar> \<le> 8 * 10 ^ 15" "iso_ok E"
    using assms(2) unfolding timely_def by blast
  show ?thesis
  proof (cases "sf_disposition ?f = FD_FAILED_RETRYABLE")
    case True
    then obtain d where d: "sf_retry_after_ms ?f = Some d" "\<bar>d\<bar> \<le> 10 ^ 14"
      using assms(2,5) by (auto simp: operationFailure_def Let_def timely_def split: if_splits)
    obtain u v where u: "addMilliseconds E ?now d = Inr u" "dateParse E u = Some v"
      using addMilliseconds_ok [OF t(3) t(1,2) d(2)] by blast
    let ?r = "RES_FAILED_RETRYABLE ?now (sf_error_code ?f) (sf_message ?f) u"
    obtain s' where "ls_resolveCommandAtomically store (wc_command_id c) ?r s = (Inr (), s')" "inv s'"
      "held s' = held s - {wc_command_id c}"
      using resolve [OF assms(3,4), of ?r] u(2) by (auto simp: resolution_ok_def)
    then show ?thesis using True d u assms(1) by (simp add: persistFailure_def Let_def bindA_def)
  next
    case False
    let ?r = "RES_REQUIRES_REVIEW ?now (sf_error_code ?f) (sf_message ?f)"
    obtain s' where "ls_resolveCommandAtomically store (wc_command_id c) ?r s = (Inr (), s')" "inv s'"
      "held s' = held s - {wc_command_id c}"
      using resolve [OF assms(3,4), of ?r] by (auto simp: resolution_ok_def)
    then show ?thesis using False assms(1) by (simp add: persistFailure_def Let_def bindA_def)
  qed
qed

lemma countFailure_total: "settled_total (countFailure d c) = settled_total c + 1" "ps_claimed (countFailure d c) = ps_claimed c"
  by (simp_all add: countFailure_def settled_total_def)

lemma pushCommand_total:
  assumes "store_of orch = store" "timely E orch" "inv s" "wc_command_id c \<in> held s"
  shows "\<exists>counts' s'. pushCommand E orch i c counts s = (Inr counts', s') \<and> inv s' \<and>
    held s' = held s - {wc_command_id c} \<and> ps_claimed counts' = ps_claimed counts \<and>
    settled_total counts' = settled_total counts + 1"
proof -
  let ?o = "or_options orch" and ?now = "oo_now (or_options orch) (i + 1)"
  let ?rq = "\<lparr>rq_batch_id = wc_command_id c, rq_client_schema_version = oo_clientSchemaVersion ?o,
      rq_commands = [commandForWire c]\<rparr>"
  have ok: "\<exists>s'. ls_resolveCommandAtomically store (wc_command_id c) r s = (Inr (), s') \<and> inv s' \<and>
      held s' = held s - {wc_command_id c}" if "resolution_ok E r" for r
    using resolve [OF assms(3,4) that] .
  have fail: "\<exists>d s'. persistFailure E orch c e ?now s = (Inr d, s') \<and> inv s' \<and> held s' = held s - {wc_command_id c}"
    if "e \<in> push_errors orch" for e
    using persistFailure_total [OF assms that] .
  show ?thesis
  proof (cases "lc_business_id c \<noteq> oo_businessId ?o \<or> wc_device_id c \<noteq> oo_deviceId ?o")
    case True
    then show ?thesis
      using ok [of "RES_REQUIRES_REVIEW ?now ''OUTBOX_CONTEXT_MISMATCH''
          ''Outbox command belongs to a different business or device.''"] assms(1)
      by (auto simp: pushCommand_def Let_def bindA_def settled_total_def resolution_ok_def)
  next
    case False
    note same = False
    show ?thesis
    proof (cases "gw_push (gateway_of orch) i ?rq")
      case (Inl e)
      then have "e \<in> push_errors orch" by (auto simp: push_errors_def)
      from fail [OF this] show ?thesis using same Inl
        by (auto simp: pushCommand_def Let_def bindA_def countFailure_total)
    next
      case (Inr res)
      note res = this
      show ?thesis
      proof (cases "findCommandResult res (wc_command_id c)")
        case (Inl e)
        then have "e \<in> push_errors orch" by (auto simp: findCommandResult_def push_errors_def split: option.splits)
        from fail [OF this] show ?thesis using same res Inl
          by (auto simp: pushCommand_def Let_def bindA_def countFailure_total)
      next
        case (Inr outcome)
        show ?thesis
        proof (cases outcome)
          case (Inr a)
          then show ?thesis
            using ok [of "RES_ACCEPTED_WITH_REVIEW ?now (ac_warnings a)"] ok [of "RES_ACCEPTED ?now"] same res
              \<open>findCommandResult res (wc_command_id c) = Inr outcome\<close> assms(1)
            by (auto simp: pushCommand_def Let_def bindA_def settled_total_def resolution_ok_def)
        next
          case (Inl rj)
          note rj = this
          show ?thesis
          proof (cases "rj_status rj = REJECTED_RETRYABLE")
            case True
            let ?d = "rp_backoff (or_retryPolicy orch) \<lparr>bi_attemptCount = lc_attempt_count c, bi_failure =
              \<lparr>fc_retryable = True, fc_errorCode = rj_error_code rj, fc_message = rj_message rj, fc_minimumDelayMs = None\<rparr>\<rparr>"
            obtain t where t: "dateParse E ?now = Some t" "\<bar>t\<bar> \<le> 8 * 10 ^ 15" "iso_ok E" "\<bar>?d\<bar> \<le> 10 ^ 14"
              using assms(2) unfolding timely_def by blast
            obtain u v where "addMilliseconds E ?now ?d = Inr u" "dateParse E u = Some v"
              using addMilliseconds_ok [OF t(3) t(1,2,4)] by blast
            then show ?thesis
              using ok [of "RES_FAILED_RETRYABLE ?now (rj_error_code rj) (rj_message rj) u"] same res rj True
                \<open>findCommandResult res (wc_command_id c) = Inr outcome\<close> assms(1)
              by (auto simp: pushCommand_def Let_def bindA_def settled_total_def resolution_ok_def)
          next
            case False
            then show ?thesis
              using ok [of "RES_REQUIRES_REVIEW ?now (rj_error_code rj) (rj_message rj)"] same res rj
                \<open>findCommandResult res (wc_command_id c) = Inr outcome\<close> assms(1)
              by (auto simp: pushCommand_def Let_def bindA_def settled_total_def resolution_ok_def)
          qed
        qed
      qed
    qed
  qed
qed

lemma pushCommands_total:
  assumes "store_of orch = store" "timely E orch" "inv s" "wc_command_id ` set cs \<subseteq> held s"
    "distinct (map wc_command_id cs)"
  shows "\<exists>counts' s'. pushCommands E orch i cs counts s = (Inr counts', s') \<and> inv s' \<and>
    held s' = held s - wc_command_id ` set cs \<and> ps_claimed counts' = ps_claimed counts \<and>
    settled_total counts' = settled_total counts + length cs"
  using assms(3-5)
proof (induction cs arbitrary: i counts s)
  case (Cons c cs)
  obtain c1 s1 where one: "pushCommand E orch i c counts s = (Inr c1, s1)" "inv s1" "held s1 = held s - {wc_command_id c}"
    "ps_claimed c1 = ps_claimed counts" "settled_total c1 = settled_total counts + 1"
    using pushCommand_total [OF assms(1,2) Cons.prems(1), of c i counts] Cons.prems(2) by auto
  have "wc_command_id c \<notin> wc_command_id ` set cs" using Cons.prems(3) by simp
  then have "wc_command_id ` set cs \<subseteq> held s1" using Cons.prems(2) unfolding one(3) list.set image_insert by blast
  from Cons.IH [OF one(2) this, of "i + 1" c1] Cons.prems(3) obtain c2 s2 where
    "pushCommands E orch (i + 1) cs c1 s1 = (Inr c2, s2)" "inv s2" "held s2 = held s1 - wc_command_id ` set cs"
    "ps_claimed c2 = ps_claimed c1" "settled_total c2 = settled_total c1 + length cs" by auto
  then show ?case using one by (auto simp: bindA_def)
qed simp

text \<open>A push that could claim resolves everything it claimed.\<close>

lemma push_resolves_all:
  assumes "store_of orch = store" "timely E orch" "inv s"
    "addMilliseconds E (oo_now (or_options orch) 0) (js_rat (or_claimLeaseMs orch)) = Inr expires"
    "ls_claimPushCandidates store \<lparr>cx_business_id = oo_businessId (or_options orch),
        cx_device_id = oo_deviceId (or_options orch), cp_limit = or_pushClaimLimit orch,
        cp_claimed_at = oo_now (or_options orch) 0, cp_lease_expires_at = expires\<rparr> s = (Inr cmds, s1)"
  shows "\<exists>counts s'. pushPending E orch s = (Inr counts, s') \<and> inv s' \<and>
    held s' = held s - wc_command_id ` set cmds \<and> ps_claimed counts = length cmds \<and>
    settled_total counts = length cmds"
proof -
  note c = claim [OF assms(3,5)]
  have "wc_command_id ` set cmds \<subseteq> held s1" "inv s1" "distinct (map wc_command_id cmds)" using c by auto
  from pushCommands_total [OF assms(1,2) this(2,1,3), of 0 "emptyPushResult (length cmds)"] obtain counts s' where
    "pushCommands E orch 0 cmds (emptyPushResult (length cmds)) s1 = (Inr counts, s')" "inv s'"
    "held s' = held s1 - wc_command_id ` set cmds" "ps_claimed counts = length cmds" "settled_total counts = length cmds"
    by (auto simp: emptyPushResult_def settled_total_def)
  then show ?thesis using assms(1,4,5) c by (auto simp: pushPending_def Let_def bindA_def)
qed

text \<open>A pull always returns, and what it reports as its cursor is the stored cursor.\<close>

lemma pullPages_total:
  assumes "store_of orch = store" "inv s" "ru_cursor run = cursor (storeContext orch) s"
  shows "\<exists>res s'. pullPages orch left page run hasMore s = (Inr res, s') \<and> inv s' \<and> held s' = held s \<and> records s' = records s \<and>
    ru_cursor (run_of res) = cursor (storeContext orch) s' \<and>
    ru_applied_pages (run_of res) \<le> ru_applied_pages run + left"
  using assms(2,3)
proof (induction left arbitrary: page run hasMore s)
  case (Suc left)
  let ?rq = "\<lparr>pq_device_id = oo_deviceId (or_options orch), pq_cursor = ru_cursor run, pq_limit = or_pullLimit orch\<rparr>"
  show ?case
  proof (cases "gw_pull (gateway_of orch) page ?rq")
    case (Inl e)
    then show ?thesis using Suc.prems by simp
  next
    case (Inr response)
    note resp = this
    show ?thesis
    proof (cases "pl_has_more response \<and> pl_next_cursor response = ru_cursor run")
      case True
      then show ?thesis using Suc.prems Inr by simp
    next
      case False
      obtain r s1 where ap: "ls_applyPullAtomically store (storeContext orch) response s = (r, s1)" by fastforce
      show ?thesis
      proof (cases r)
        case (Inl e)
        then have "s1 = s" using pull_Inl ap by blast
        then show ?thesis using Suc.prems resp False ap Inl assms(1) by (simp add: Let_def bindA_def catchA_def)
      next
        case (Inr u)
        note p = pull_Inr [OF Suc.prems(1) ap [unfolded Inr]]
        let ?run = "\<lparr>ru_applied_pages = ru_applied_pages run + 1,
          ru_applied_changes = ru_applied_changes run + length (pl_changes response), ru_cursor = pl_next_cursor response\<rparr>"
        have step: "pullPages orch (Suc left) page run hasMore s =
            (if \<not> pl_has_more response then retA (PullRunSuccess ?run False (ack orch (ru_cursor ?run)))
             else pullPages orch left (page + 1) ?run True) s1"
          using resp False ap Inr assms(1) by (auto simp: Let_def bindA_def catchA_def)
        show ?thesis
        proof (cases "pl_has_more response")
          case True
          have "ru_cursor ?run = cursor (storeContext orch) s1" using p by simp
          from Suc.IH [OF conjunct1 [OF p] this, of "page + 1" True] show ?thesis
            unfolding step using True p by auto
        next
          case False
          then show ?thesis unfolding step using p by simp
        qed
      qed
    qed
  qed
qed simp

text \<open>A bootstrap is all or nothing and for the right business only.\<close>

lemma bootstrap_safe:
  assumes "store_of orch = store" "inv s" "bootstrap orch s = (r, s')"
  shows "case r of Inl e \<Rightarrow> s' = s
    | Inr u \<Rightarrow> inv s' \<and> held s' = held s \<and> records s' = records s \<and>
        (\<exists>boot. gw_bootstrap (gateway_of orch) = Inr boot \<and> cursor (storeContext orch) s' = bt_sync_cursor boot \<and>
           au_business_id (bt_authorization boot) = oo_businessId (or_options orch))"
proof (cases r)
  case (Inl e)
  have "s' = s" using assms(1,3) Inl boot_Inl by (auto simp: bootstrap_def bindA_eq_Inl)
  then show ?thesis using Inl by simp
next
  case (Inr u)
  obtain boot where boot: "gw_bootstrap (gateway_of orch) = Inr boot"
    "au_business_id (bt_authorization boot) = oo_businessId (or_options orch)"
    and ap: "ls_applyBootstrapAtomically store (storeContext orch) boot s = (Inr u, s')"
    using assms(1,3) Inr by (auto simp: bootstrap_def bindA_eq_Inr throwIf_eq_Inr)
  show ?thesis using boot_Inr [OF assms(2) ap] boot Inr by simp
qed

lemma pull_total:
  assumes "store_of orch = store" "inv s"
  shows "\<exists>res s'. pullAvailable orch s = (Inr res, s') \<and> inv s' \<and> held s' = held s \<and> records s' = records s \<and>
    ru_cursor (run_of res) = cursor (storeContext orch) s' \<and>
    ru_applied_pages (run_of res) \<le> page_bound (or_maxPullPages orch)"
  using pullPages_total [OF assms, of "\<lparr>ru_applied_pages = 0, ru_applied_changes = 0,
      ru_cursor = cursor (storeContext orch) s\<rparr>" "page_bound (or_maxPullPages orch)" 0 False] assms(1)
  by (simp add: pullAvailable_def get_cursor bindA_def)

end

section \<open>The default policy\<close>

lemma default_backoff: "rp_backoff (defaultRetryPolicy M) = exponentialDelay 1000 60000"
  by (simp add: defaultRetryPolicy_def createExponentialBackoff_def Let_def isFinite_def)

text \<open>With the default policy the retry times exist when no \<open>Retry-After\<close> exceeds three thousand years.\<close>

lemma timely_default:
  assumes "iso_ok E" "or_retryPolicy orch = defaultRetryPolicy M"
    "\<forall>i. \<exists>t. dateParse E (oo_now (or_options orch) i) = Some t \<and> \<bar>t\<bar> \<le> 8 * 10 ^ 15"
    "\<forall>i rq st code m b d. gw_push (gateway_of orch) i rq = Inl (SyncHttpError st code m b (Some d)) \<longrightarrow> d \<le> 10 ^ 14"
  shows "timely E orch"
proof -
  have bound: "\<bar>rp_backoff (defaultRetryPolicy M) \<lparr>bi_attemptCount = n, bi_failure = f\<rparr>\<bar> \<le> 10 ^ 14"
    if "\<And>d. fc_minimumDelayMs f = Some d \<Longrightarrow> d \<le> 10 ^ 14" for n f
  proof -
    let ?i = "\<lparr>bi_attemptCount = n, bi_failure = f\<rparr>"
    have "max 60000 (case fc_minimumDelayMs f of None \<Rightarrow> 0 | Some d \<Rightarrow> d) \<le> (10 ^ 14 :: rat)"
      using that by (auto split: option.splits)
    moreover have "0 \<le> exponentialDelay 1000 60000 ?i" "exponentialDelay 1000 60000 ?i \<le>
        max 60000 (case fc_minimumDelayMs f of None \<Rightarrow> 0 | Some d \<Rightarrow> d)"
      using delay_between [of 1000 60000 ?i] by simp_all
    ultimately show ?thesis unfolding default_backoff by linarith
  qed
  have "d \<le> 10 ^ 14" if "e \<in> push_errors orch" "fc_minimumDelayMs (classifySyncFailure M e) = Some d" for e d
    using that assms(4) by (cases e) (auto simp: push_errors_def)
  then have "\<bar>rp_backoff (defaultRetryPolicy M)
      \<lparr>bi_attemptCount = n, bi_failure = rp_classify (defaultRetryPolicy M) e\<rparr>\<bar> \<le> 10 ^ 14"
    if "e \<in> push_errors orch" for e n
    using bound [of "classifySyncFailure M e" n] that by (simp add: defaultRetryPolicy_def)
  moreover have "\<bar>rp_backoff (defaultRetryPolicy M) \<lparr>bi_attemptCount = n, bi_failure = \<lparr>fc_retryable = True,
      fc_errorCode = code, fc_message = m, fc_minimumDelayMs = None\<rparr>\<rparr>\<bar> \<le> 10 ^ 14" for n code m
    by (rule bound) simp
  ultimately show ?thesis unfolding timely_def using assms(1-3) by simp
qed

end
