(* ===== verification/Sync_Adapter.thy ===== *)
theory Sync_Adapter
  imports Sync_Store Sync_Client
begin

text \<open>
  The POS side of synchronisation, \<open>apps/pos/src/runtime/sync-store-adapter.ts\<close>: reading the server's
  untyped rows (\<open>unknown\<close>, here \<open>json\<close>) into the local rows, and the class \<open>PosLocalSyncStoreAdapter\<close>,
  which implements \<open>LocalSyncStore\<close> on \<open>PosSyncStore\<close>. The adapter is an interpretation of the contract
  \<open>local_sync_store\<close>, so what theory \<open>Sync_Client\<close> proves of the orchestrator holds for the POS.
\<close>

section \<open>Reading fields\<close>

type_synonym members = "(string \<times> json) list"

fun isRecord :: "json \<Rightarrow> bool" where
  "isRecord (JObj ms) = True"
| "isRecord _ = False"

definition record_of :: "json \<Rightarrow> string \<Rightarrow> members result" where
  "record_of value field =
     (case value of JObj ms \<Rightarrow> Inr ms | _ \<Rightarrow> Inl (SyncProtocolError (field @ '' harus berupa objek.'')))"

definition stringField :: "members \<Rightarrow> string \<Rightarrow> string result" where
  "stringField value k =
     (case jget value k of
        Some (JStr s) \<Rightarrow>
          if js_trim s = '''' then Inl (SyncProtocolError (k @ '' harus berupa string non-kosong.'')) else Inr s
      | _ \<Rightarrow> Inl (SyncProtocolError (k @ '' harus berupa string non-kosong.'')))"

definition booleanField :: "members \<Rightarrow> string \<Rightarrow> bool result" where
  "booleanField value k =
     (case jget value k of Some (JBool b) \<Rightarrow> Inr b | _ \<Rightarrow> Inl (SyncProtocolError (k @ '' harus berupa boolean.'')))"

definition integerField :: "members \<Rightarrow> string \<Rightarrow> js_number result" where
  "integerField value k =
     (case jget value k of
        Some (JNum i) \<Rightarrow>
          if isSafeInteger (JSInt i) then Inr (JSInt i)
          else Inl (SyncProtocolError (k @ '' harus berupa integer aman.''))
      | _ \<Rightarrow> Inl (SyncProtocolError (k @ '' harus berupa integer aman.'')))"

definition nullableStringField :: "members \<Rightarrow> string \<Rightarrow> string option result" where
  "nullableStringField value k =
     (case jget value k of
        Some JNull \<Rightarrow> Inr None
      | Some (JStr s) \<Rightarrow> Inr (Some s)
      | _ \<Rightarrow> Inl (SyncProtocolError (k @ '' harus string atau null.'')))"

definition timestampField :: "js_env \<Rightarrow> members \<Rightarrow> string \<Rightarrow> string result" where
  "timestampField E value k =
     bindE (stringField value k) (\<lambda>field.
     bindE (throwIf (dateParse E field = None) (SyncProtocolError (k @ '' harus berupa timestamp yang valid.''))) (\<lambda>_.
     Inr field))"

fun is_protocol_error :: "js_error \<Rightarrow> bool" where
  "is_protocol_error (SyncTransportError kind _) = (kind = ''PROTOCOL'')"
| "is_protocol_error (ProjectionRequiresBootstrapError _) = True"
| "is_protocol_error _ = False"

definition stockQuantityField :: "'d decimal_ops \<Rightarrow> members \<Rightarrow> string \<Rightarrow> string result" where
  "stockQuantityField D value k =
     bindE (stringField value k) (\<lambda>field.
     bindE (catchE
       (bindE (parseQuantity D field) (\<lambda>q.
        bindE (fitsPrecisionScale D q (JSInt 20) (JSInt 6)) (\<lambda>fits.
        throwIf (\<not> fits) (SyncProtocolError (k @ '' melebihi NUMERIC(20,6).'')))))
       (\<lambda>error. if is_protocol_error error then Inl error
                 else Inl (SyncProtocolError (k @ '' harus berupa string quantity desimal.'')))) (\<lambda>_.
     Inr field))"

definition enumField :: "members \<Rightarrow> string \<Rightarrow> string list \<Rightarrow> string result" where
  "enumField value k allowed =
     bindE (stringField value k) (\<lambda>field.
     bindE (throwIf (field \<notin> set allowed) (SyncProtocolError (k @ '' tidak dikenal.''))) (\<lambda>_.
     Inr field))"

text \<open>The fallback is given as the text \<open>String(fallback)\<close>.\<close>

definition optionalVersion :: "js_env \<Rightarrow> members \<Rightarrow> string option \<Rightarrow> string option" where
  "optionalVersion E value fallback =
     (case jget value ''version'' of
        Some (JStr s) \<Rightarrow> Some s
      | Some (JNum i) \<Rightarrow> Some (int_text i)
      | Some (JFrac t) \<Rightarrow> Some (numberText E t)
      | _ \<Rightarrow> fallback)"

section \<open>Reading rows\<close>

definition row_status :: "string \<Rightarrow> RowStatus" where
  "row_status s = (if s = ''ACTIVE'' then ACTIVE else INACTIVE)"

definition parseProduct :: "json \<Rightarrow> uuid \<Rightarrow> LocalPosProduct result" where
  "parseProduct value businessId =
     bindE (record_of value ''product'') (\<lambda>row.
     bindE (stringField row ''id'') (\<lambda>rid.
     bindE (stringField row ''sku'') (\<lambda>sku.
     bindE (stringField row ''name'') (\<lambda>name.
     bindE (stringField row ''base_unit_code'') (\<lambda>base.
     bindE (booleanField row ''track_inventory'') (\<lambda>track.
     bindE (enumField row ''status'' [''ACTIVE'', ''INACTIVE'']) (\<lambda>status.
     bindE (stringField row ''version'') (\<lambda>version.
     bindE (stringField row ''updated_at'') (\<lambda>updated.
     Inr \<lparr>pd_id = rid, pd_business_id = businessId, pd_sku = sku, pd_name = name, pd_base_unit_code = base,
       pd_track_inventory = track, pd_status = row_status status, pd_version = version, pd_updated_at = updated\<rparr>)))))))))"

definition parseProductUnit :: "json \<Rightarrow> uuid \<Rightarrow> LocalPosProductUnit result" where
  "parseProductUnit value businessId =
     bindE (record_of value ''product_unit'') (\<lambda>row.
     bindE (stringField row ''id'') (\<lambda>rid.
     bindE (stringField row ''product_id'') (\<lambda>product_id.
     bindE (stringField row ''unit_code'') (\<lambda>unit_code.
     bindE (stringField row ''display_name'') (\<lambda>display.
     bindE (stringField row ''conversion_factor'') (\<lambda>factor.
     bindE (booleanField row ''can_sell'') (\<lambda>can_sell.
     bindE (booleanField row ''can_purchase'') (\<lambda>can_purchase.
     bindE (booleanField row ''allow_decimal_qty'') (\<lambda>allow.
     bindE (enumField row ''status'' [''ACTIVE'', ''INACTIVE'']) (\<lambda>status.
     bindE (stringField row ''version'') (\<lambda>version.
     bindE (stringField row ''updated_at'') (\<lambda>updated.
     Inr \<lparr>pu_id = rid, pu_business_id = businessId, pu_product_id = product_id, pu_unit_code = unit_code,
       pu_display_name = display, pu_conversion_factor = factor, pu_can_sell = can_sell,
       pu_can_purchase = can_purchase, pu_allow_decimal_qty = allow, pu_status = row_status status,
       pu_version = version, pu_updated_at = updated\<rparr>))))))))))))"

definition parseBarcode :: "json \<Rightarrow> uuid \<Rightarrow> LocalPosBarcode result" where
  "parseBarcode value businessId =
     bindE (record_of value ''barcode'') (\<lambda>row.
     bindE (stringField row ''id'') (\<lambda>rid.
     bindE (stringField row ''product_unit_id'') (\<lambda>unit_id.
     bindE (stringField row ''barcode'') (\<lambda>barcode.
     bindE (booleanField row ''is_internal'') (\<lambda>internal.
     bindE (enumField row ''status'' [''ACTIVE'', ''INACTIVE'']) (\<lambda>status.
     bindE (nullableStringField row ''deactivated_at'') (\<lambda>deactivated.
     Inr \<lparr>bc_id = rid, bc_business_id = businessId, bc_product_unit_id = unit_id, bc_barcode = barcode,
       bc_is_internal = internal, bc_status = row_status status, bc_deactivated_at = deactivated\<rparr>)))))))"

definition parsePriceTier :: "json \<Rightarrow> uuid \<Rightarrow> PublishedPriceTier result" where
  "parsePriceTier value priceVersionId =
     bindE (record_of value ''published_price_tier'') (\<lambda>row.
     bindE (stringField row ''price_version_id'') (\<lambda>pv.
     bindE (throwIf (pv \<noteq> priceVersionId) (SyncProtocolError ''Tier harga tidak cocok dengan Price Version.'')) (\<lambda>_.
     bindE (stringField row ''id'') (\<lambda>tier_id.
     bindE (stringField row ''tier_code'') (\<lambda>tier_code.
     bindE (stringField row ''min_qty'') (\<lambda>min_qty.
     bindE (stringField row ''unit_price'') (\<lambda>unit_price.
     bindE (integerField row ''sort_order'') (\<lambda>sort_order.
     Inr \<lparr>pt_tier_id = tier_id, pt_tier_code = tier_code, pt_min_qty = min_qty, pt_unit_price = unit_price,
       pt_sort_order = sort_order\<rparr>))))))))"

definition retail_tier :: "uuid \<Rightarrow> string \<Rightarrow> PublishedPriceTier" where
  "retail_tier priceVersionId unitPrice = \<lparr>pt_tier_id = priceVersionId @ '':RETAIL'', pt_tier_code = ''RETAIL'',
     pt_min_qty = ''1'', pt_unit_price = unitPrice, pt_sort_order = JSInt 0\<rparr>"

definition parsePrice :: "json \<Rightarrow> uuid \<Rightarrow> json list \<Rightarrow> LocalPublishedRetailPriceRecord result" where
  "parsePrice value businessId separateTiers =
     bindE (record_of value ''published_retail_price'') (\<lambda>row.
     bindE (stringField row ''price_version_id'') (\<lambda>priceVersionId.
     let nestedTiers = (case jget row ''tiers'' of Some (JArr ts) \<Rightarrow> ts | _ \<Rightarrow> separateTiers) in
     bindE (mapE (\<lambda>tier. parsePriceTier tier priceVersionId) nestedTiers) (\<lambda>tiers0.
     bindE (stringField row ''unit_price'') (\<lambda>unitPrice.
     let tiers = (if tiers0 = [] then [retail_tier priceVersionId unitPrice] else tiers0) in
     bindE (stringField row ''product_unit_id'') (\<lambda>unit_id.
     bindE (stringField row ''effective_from'') (\<lambda>from.
     bindE (nullableStringField row ''effective_to'') (\<lambda>to.
     bindE (if jget row ''status'' = None then Inr ''ACTIVE''
            else enumField row ''status'' [''ACTIVE'', ''SCHEDULED'']) (\<lambda>status.
     Inr \<lparr>lp_price_version_id = priceVersionId, lp_business_id = businessId, lp_product_unit_id = unit_id,
       lp_unit_price = unitPrice, lp_effective_from = from, lp_effective_to = to,
       lp_status = (if status = ''ACTIVE'' then PRICE_ACTIVE else PRICE_SCHEDULED), lp_tiers = tiers\<rparr>))))))))"

section \<open>Projections\<close>

fun entity_name :: "LocalOpaqueProjectionEntityType \<Rightarrow> string" where
  "entity_name et_promotion = ''promotion''"
| "entity_name et_payment_method = ''payment_method''"
| "entity_name et_stock_balance = ''stock_balance''"
| "entity_name et_authorization = ''authorization''"

text \<open>The version goes through \<open>Number\<close> and back to a text.\<close>

definition opaqueProjection ::
  "js_env \<Rightarrow> LocalOpaqueProjectionEntityType \<Rightarrow> json \<Rightarrow> uuid \<Rightarrow> uuid \<Rightarrow> string option \<Rightarrow> iso_time \<Rightarrow>
   LocalBootstrapOpaqueProjection result" where
  "opaqueProjection E entityType value businessId entityId version updatedAt =
     bindE (record_of value (entity_name entityType)) (\<lambda>payload.
     Inr \<lparr>bo_entity_type = entityType, bo_value = \<lparr>op_key = buildOpaqueProjectionKey businessId entityId,
       op_business_id = businessId, op_entity_id = entityId,
       op_entity_version = optionalVersion E payload (map_option (numberText E) version),
       op_payload = payload, op_updated_at = updatedAt\<rparr>\<rparr>)"

definition stockBalanceProjection ::
  "'d decimal_ops \<Rightarrow> js_env \<Rightarrow> json \<Rightarrow> uuid \<Rightarrow> uuid option \<Rightarrow> uuid option \<Rightarrow> LocalBootstrapOpaqueProjection result" where
  "stockBalanceProjection D E value businessId expectedProductId expectedLocationId =
     bindE (record_of value ''stock_balance'') (\<lambda>row.
     bindE (stringField row ''business_id'') (\<lambda>payloadBusinessId.
     bindE (stringField row ''location_id'') (\<lambda>locationId.
     bindE (stringField row ''product_id'') (\<lambda>productId.
     bindE (throwIf (payloadBusinessId \<noteq> businessId \<or>
              expectedProductId \<noteq> None \<and> Some productId \<noteq> expectedProductId \<or>
              expectedLocationId \<noteq> None \<and> Some locationId \<noteq> expectedLocationId)
              (SyncProtocolError ''Stock Balance melintasi konteks Business, lokasi, atau produk.'')) (\<lambda>_.
     bindE (timestampField E row ''updated_at'') (\<lambda>updatedAt.
     bindE (stockQuantityField D row ''base_quantity'') (\<lambda>quantity.
     bindE (nullableStringField row ''last_movement_id'') (\<lambda>lastMovement.
     opaqueProjection E et_stock_balance
       (JObj [(''base_quantity'', JStr quantity), (''business_id'', JStr payloadBusinessId),
         (''last_movement_id'', jstr_opt lastMovement), (''location_id'', JStr locationId),
         (''product_id'', JStr productId), (''updated_at'', JStr updatedAt)])
       businessId productId None updatedAt))))))))"

definition string_or :: "string \<Rightarrow> json option \<Rightarrow> string" where
  "string_or d v = (case v of Some (JStr s) \<Rightarrow> s | _ \<Rightarrow> d)"

text \<open>The helper \<open>append\<close> of \<open>bootstrapOpaqueRows\<close>, for one value.\<close>

definition appendRow ::
  "js_env \<Rightarrow> SyncBootstrapResponse \<Rightarrow> uuid \<Rightarrow> LocalOpaqueProjectionEntityType \<Rightarrow> string \<Rightarrow> json \<Rightarrow>
   LocalBootstrapOpaqueProjection result" where
  "appendRow E response businessId entityType idKey value =
     bindE (record_of value (entity_name entityType)) (\<lambda>row.
     bindE (stringField row idKey) (\<lambda>entityId.
     opaqueProjection E entityType (JObj row) businessId entityId (optionalVersion E row None)
       (string_or (bt_server_time response) (jget row ''updated_at''))))"

definition bootstrapOpaqueRows ::
  "'d decimal_ops \<Rightarrow> js_env \<Rightarrow> SyncBootstrapResponse \<Rightarrow> uuid \<Rightarrow> LocalBootstrapOpaqueProjection list result" where
  "bootstrapOpaqueRows D E response businessId =
     bindE (mapE (appendRow E response businessId et_promotion ''id'') (bt_promotions response)) (\<lambda>promotions.
     bindE (mapE (appendRow E response businessId et_payment_method ''id'') (bt_payment_methods response)) (\<lambda>methods.
     bindE (record_of (bt_location response) ''location'') (\<lambda>location.
     bindE (stringField location ''id'') (\<lambda>bootstrapLocationId.
     bindE (mapE (\<lambda>v. stockBalanceProjection D E v businessId None (Some bootstrapLocationId))
              (bt_stock_balances response)) (\<lambda>stock.
     bindE (opaqueProjection E et_authorization (JObj (bt_authorization_members response)) businessId
              (au_user_id (bt_authorization response))
              (Some (int_text (au_authorization_version (bt_authorization response)))) (bt_server_time response)) (\<lambda>authorization.
     Inr (promotions @ methods @ stock @ [authorization])))))))"

section \<open>The operational context\<close>

record PosBusinessContext =
  bz_id :: uuid
  bz_name :: string
  bz_currency_code :: string
  bz_timezone :: string

record PosPlaceContext =
  pk_id :: uuid
  pk_code :: string
  pk_name :: string

record PosPaymentMethodContext =
  pm_id :: uuid
  pm_code :: string
  pm_name :: string
  pm_is_cash :: bool
  pm_offline_allowed :: bool

record PosOperationalContext =
  oc_auth :: AuthContextResponse
  oc_business :: PosBusinessContext
  oc_location :: PosPlaceContext
  oc_terminal :: PosPlaceContext
  oc_language :: string
  oc_receipt_width :: string
  oc_payment_methods :: "PosPaymentMethodContext list"
  oc_source :: string

definition parsePlace :: "members \<Rightarrow> PosPlaceContext result" where
  "parsePlace row =
     bindE (stringField row ''id'') (\<lambda>rid.
     bindE (stringField row ''code'') (\<lambda>code.
     bindE (stringField row ''name'') (\<lambda>name.
     Inr \<lparr>pk_id = rid, pk_code = code, pk_name = name\<rparr>)))"

definition parsePaymentMethod :: "json \<Rightarrow> PosPaymentMethodContext result" where
  "parsePaymentMethod value =
     bindE (record_of value ''payment_method'') (\<lambda>row.
     bindE (stringField row ''id'') (\<lambda>rid.
     bindE (stringField row ''code'') (\<lambda>code.
     bindE (stringField row ''name'') (\<lambda>name.
     bindE (booleanField row ''is_cash'') (\<lambda>is_cash.
     bindE (booleanField row ''offline_allowed'') (\<lambda>offline.
     Inr \<lparr>pm_id = rid, pm_code = code, pm_name = name, pm_is_cash = is_cash, pm_offline_allowed = offline\<rparr>))))))"

definition parseOperationalContext :: "SyncBootstrapResponse \<Rightarrow> PosOperationalContext result" where
  "parseOperationalContext response =
     bindE (record_of (bt_business response) ''business'') (\<lambda>business.
     bindE (record_of (bt_location response) ''location'') (\<lambda>location.
     bindE (record_of (bt_terminal response) ''terminal'') (\<lambda>terminal.
     bindE (record_of (bt_settings response) ''settings'') (\<lambda>settings.
     bindE (stringField business ''id'') (\<lambda>businessId.
     bindE (throwIf (au_business_id (bt_authorization response) \<noteq> businessId)
              (SyncProtocolError ''Business bootstrap tidak cocok dengan konteks izin.'')) (\<lambda>_.
     bindE (stringField location ''id'') (\<lambda>locationId.
     bindE (throwIf (au_default_location_id (bt_authorization response) \<noteq> locationId)
              (SyncProtocolError ''Lokasi bootstrap tidak cocok dengan konteks izin.'')) (\<lambda>_.
     let receiptWidth = jget settings ''receipt_width'' in
     bindE (throwIf (receiptWidth \<noteq> Some (JStr ''58mm'') \<and> receiptWidth \<noteq> Some (JStr ''80mm''))
              (SyncProtocolError ''Lebar struk bootstrap tidak didukung.'')) (\<lambda>_.
     bindE (stringField business ''name'') (\<lambda>name.
     bindE (stringField business ''currency_code'') (\<lambda>currency.
     bindE (stringField business ''timezone'') (\<lambda>timezone.
     bindE (parsePlace location) (\<lambda>loc.
     bindE (parsePlace terminal) (\<lambda>term.
     bindE (stringField settings ''language'') (\<lambda>language.
     bindE (mapE parsePaymentMethod (bt_payment_methods response)) (\<lambda>methods.
     Inr \<lparr>oc_auth = bt_authorization response,
       oc_business = \<lparr>bz_id = businessId, bz_name = name, bz_currency_code = currency, bz_timezone = timezone\<rparr>,
       oc_location = loc, oc_terminal = term, oc_language = language,
       oc_receipt_width = string_or '''' receiptWidth, oc_payment_methods = methods, oc_source = ''ONLINE''\<rparr>))))))))))))))))"

section \<open>Changes of the feed\<close>

text \<open>The unchecked cast of the change type; an \<open>EVENT\<close> takes the other branch of \<open>applyPullAtomically\<close>.\<close>

fun change_type :: "SyncChangeType \<Rightarrow> ChangeType" where
  "change_type CH_UPSERT = UPSERT"
| "change_type CH_DEACTIVATE = DEACTIVATE"
| "change_type _ = INVALIDATE"

definition withIdentity :: "js_env \<Rightarrow> SyncPullChange \<Rightarrow> members \<Rightarrow> members" where
  "withIdentity E change payload = payload @
     [(''id'', JStr (string_or (pc_entity_id change) (jget payload ''id''))),
      (''version'', JStr (case optionalVersion E payload (pc_entity_version change) of None \<Rightarrow> ''1'' | Some v \<Rightarrow> v)),
      (''updated_at'', JStr (string_or (pc_occurred_at change) (jget payload ''updated_at'')))]"

definition opaque_entity :: "string \<Rightarrow> LocalOpaqueProjectionEntityType option" where
  "opaque_entity s = map_of [(''promotion'', et_promotion), (''payment_method'', et_payment_method),
     (''authorization'', et_authorization)] s"

definition projectionValue ::
  "'d decimal_ops \<Rightarrow> js_env \<Rightarrow> SyncPullChange \<Rightarrow> uuid \<Rightarrow> LocalSyncProjectionChange result" where
  "projectionValue D E change businessId =
     bindE (record_of (pc_payload change) (pc_entity_type change @ '' payload'')) (\<lambda>payload.
     let row = JObj (withIdentity E change payload); sq = pc_sequence change; ct = change_type (pc_change_type change) in
     if pc_entity_type change = ''product'' then
       bindE (parseProduct row businessId) (\<lambda>v. Inr (ProductChange sq ct v))
     else if pc_entity_type change = ''product_unit'' then
       bindE (parseProductUnit row businessId) (\<lambda>v. Inr (ProductUnitChange sq ct v))
     else if pc_entity_type change = ''barcode'' then
       bindE (parseBarcode row businessId) (\<lambda>v. Inr (BarcodeChange sq ct v))
     else if pc_entity_type change = ''published_retail_price'' then
       bindE (parsePrice (JObj payload) businessId []) (\<lambda>v. Inr (PublishedPriceChange sq ct v))
     else if pc_entity_type change = ''stock_balance'' then
       bindE (throwIf (pc_change_type change \<noteq> CH_UPSERT)
                (SyncProtocolError ''Stock Balance incremental harus berupa UPSERT projection.'')) (\<lambda>_.
       bindE (stockBalanceProjection D E (JObj payload) businessId (Some (pc_entity_id change)) None) (\<lambda>p.
       Inr (OpaqueChange sq et_stock_balance UPSERT (bo_value p))))
     else
       (case opaque_entity (pc_entity_type change) of
          Some et \<Rightarrow>
            bindE (opaqueProjection E et (JObj payload) businessId (pc_entity_id change)
                     (pc_entity_version change) (pc_occurred_at change)) (\<lambda>p.
            Inr (OpaqueChange sq et ct (bo_value p)))
        | None \<Rightarrow> Inl (SyncProtocolError
            (''Tipe projection '' @ pc_entity_type change @ '' belum didukung POS.''))))"

definition observedEvent :: "SyncPullChange \<Rightarrow> uuid \<Rightarrow> LocalObservedSyncEventRecord result" where
  "observedEvent change businessId =
     bindE (throwIf (pc_entity_type change \<notin> {''sales_transaction'', ''cash_shift'', ''cash_movement''})
              (SyncProtocolError (''Tipe event '' @ pc_entity_type change @ '' belum didukung POS.''))) (\<lambda>_.
     Inr \<lparr>oe_sequence = pc_sequence change, oe_business_id = businessId, oe_entity_type = pc_entity_type change,
       oe_entity_id = pc_entity_id change, oe_occurred_at = pc_occurred_at change, oe_payload = pc_payload change\<rparr>)"

section \<open>The adapter\<close>

text \<open>
  The object: the database it wraps and \<open>#latestBootstrap\<close>. The clock is read once when a response is
  applied; \<open>ah_pull\<close> and \<open>ah_boot\<close> are these readings.
\<close>

record adapter_state =
  ad_db :: pos_db
  ad_latestBootstrap :: "PosOperationalContext option"

record adapter_host =
  ah_pull :: "SyncPullResponse \<Rightarrow> iso_time"
  ah_boot :: "SyncBootstrapResponse \<Rightarrow> iso_time"

definition onDb :: "'a db_act \<Rightarrow> (adapter_state, 'a) act" where
  "onDb m st = (case m (ad_db st) of (r, s') \<Rightarrow> (r, st\<lparr>ad_db := s'\<rparr>))"

definition getLatestBootstrapContext :: "(adapter_state, PosOperationalContext option) act" where
  "getLatestBootstrapContext = readA ad_latestBootstrap"

definition leaseOwner :: "uuid \<Rightarrow> string" where
  "leaseOwner deviceId = ''pos-runtime:'' @ deviceId"

definition localSyncCommand :: "LocalOutboxRecord \<Rightarrow> LocalSyncCommand result" where
  "localSyncCommand entry =
     (case json_parse (ob_payload entry) of
        None \<Rightarrow> Inl (JsError ''SyntaxError'')
      | Some payload \<Rightarrow> Inr \<lparr>wc_command_id = ob_command_id entry, wc_command_type = ob_command_type entry,
          wc_occurred_at = ob_occurred_at entry, wc_location_id = ob_location_id entry,
          wc_device_id = ob_device_id entry, wc_authorization_version = ob_authorization_version entry,
          wc_offline_authorization = ob_offline_authorization entry, wc_correlation_id = ob_correlation_id entry,
          wc_payload = payload, lc_business_id = ob_business_id entry, lc_attempt_count = ob_attempt_count entry\<rparr>)"

definition claimPushCandidates ::
  "js_env \<Rightarrow> uuid \<Rightarrow> ClaimPushCandidatesInput \<Rightarrow> (adapter_state, LocalSyncCommand list) act" where
  "claimPushCandidates E deviceId input =
     bindA (onDb (claimOutboxBatch E \<lparr>cm_business_id = cx_business_id input, cm_lease_owner = leaseOwner deviceId,
              cm_claimed_at = cp_claimed_at input, cm_lease_expires_at = cp_lease_expires_at input,
              cm_limit = Some (cp_limit input)\<rparr>)) (\<lambda>records.
     liftA (mapE localSyncCommand records))"

definition warning_json :: "SyncWarning \<Rightarrow> json" where
  "warning_json w = JObj ([(''code'', JStr (sw_code w))] @
     (case sw_message w of None \<Rightarrow> [] | Some m \<Rightarrow> [(''message'', JStr m)]) @
     (case sw_severity w of None \<Rightarrow> [] | Some m \<Rightarrow> [(''severity'', JStr m)]))"

fun resolution_error :: "LocalCommandResolution \<Rightarrow> string option" where
  "resolution_error (RES_ACCEPTED _) = None"
| "resolution_error (RES_ACCEPTED_WITH_REVIEW _ warnings) =
     Some (json_stringify (JObj [(''warnings'', JArr (map warning_json warnings))]))"
| "resolution_error (RES_FAILED_RETRYABLE _ code message _) =
     Some (json_stringify (JObj [(''code'', JStr code), (''message'', JStr message)]))"
| "resolution_error (RES_REQUIRES_REVIEW _ code message) =
     Some (json_stringify (JObj [(''code'', JStr code), (''message'', JStr message)]))"

fun resolution_state :: "LocalCommandResolution \<Rightarrow> Disposition" where
  "resolution_state (RES_ACCEPTED _) = DISP_ACCEPTED"
| "resolution_state (RES_ACCEPTED_WITH_REVIEW _ _) = DISP_ACCEPTED_WITH_REVIEW"
| "resolution_state (RES_FAILED_RETRYABLE _ _ _ _) = DISP_FAILED_RETRYABLE"
| "resolution_state (RES_REQUIRES_REVIEW _ _ _) = DISP_REQUIRES_REVIEW"

fun resolution_next :: "LocalCommandResolution \<Rightarrow> iso_time option" where
  "resolution_next (RES_FAILED_RETRYABLE _ _ _ t) = Some t"
| "resolution_next _ = None"

definition settlement_of :: "uuid \<Rightarrow> LocalCommandResolution \<Rightarrow> SettleOutboxCommand" where
  "settlement_of commandId resolution = \<lparr>so_command_id = commandId, so_disposition = resolution_state resolution,
     so_error = resolution_error resolution, so_next_attempt_at = resolution_next resolution\<rparr>"

definition resolveCommandAtomically ::
  "js_env \<Rightarrow> uuid \<Rightarrow> uuid \<Rightarrow> LocalCommandResolution \<Rightarrow> (adapter_state, unit) act" where
  "resolveCommandAtomically E deviceId commandId resolution =
     onDb (settleOutboxBatch E (leaseOwner deviceId) [settlement_of commandId resolution])"

definition getPullCursor :: "SyncStoreContext \<Rightarrow> (adapter_state, string) act" where
  "getPullCursor cx =
     bindA (onDb (getState (cx_business_id cx) (cx_device_id cx))) (\<lambda>state.
     retA (case state of None \<Rightarrow> ''0'' | Some st \<Rightarrow> st_cursor st))"

text \<open>\<open>===\<close> on properties of parsed rows: objects of different rows are different.\<close>

definition strict_eq :: "js_env \<Rightarrow> json option \<Rightarrow> json option \<Rightarrow> bool" where
  "strict_eq E u v = (case u of
     None \<Rightarrow> v = None
   | Some (JStr a) \<Rightarrow> v = Some (JStr a)
   | Some (JNum a) \<Rightarrow> v = Some (JNum a)
   | Some (JFrac a) \<Rightarrow> (case v of Some (JFrac b) \<Rightarrow> numberText E a = numberText E b | _ \<Rightarrow> False)
   | Some (JBool a) \<Rightarrow> v = Some (JBool a)
   | Some JNull \<Rightarrow> v = Some JNull
   | _ \<Rightarrow> False)"

definition tierOf :: "js_env \<Rightarrow> json \<Rightarrow> json \<Rightarrow> bool result" where
  "tierOf E value tier =
     bindE (record_of tier ''published_price_tier'') (\<lambda>row.
     bindE (record_of value ''published_retail_price'') (\<lambda>price.
     Inr (strict_eq E (jget row ''price_version_id'') (jget price ''price_version_id''))))"

definition bootstrapPrice :: "js_env \<Rightarrow> SyncBootstrapResponse \<Rightarrow> uuid \<Rightarrow> json \<Rightarrow> LocalPublishedRetailPriceRecord result" where
  "bootstrapPrice E response businessId value =
     bindE (filterE (tierOf E value) (bt_published_price_tiers response)) (\<lambda>tiers.
     parsePrice value businessId tiers)"

definition bootstrapSnapshot ::
  "'d decimal_ops \<Rightarrow> js_env \<Rightarrow> adapter_host \<Rightarrow> SyncStoreContext \<Rightarrow> SyncBootstrapResponse \<Rightarrow>
   ApplyBootstrapSnapshotInput result" where
  "bootstrapSnapshot D E H cx response =
     (let business = cx_business_id cx in
      bindE (mapE (\<lambda>v. parseProduct v business) (bt_products response)) (\<lambda>products.
      bindE (mapE (\<lambda>v. parseProductUnit v business) (bt_product_units response)) (\<lambda>units.
      bindE (mapE (\<lambda>v. parseBarcode v business) (bt_barcodes response)) (\<lambda>barcodes.
      bindE (mapE (bootstrapPrice E response business) (bt_published_price_versions response)) (\<lambda>prices.
      bindE (bootstrapOpaqueRows D E response business) (\<lambda>opaque.
      Inr \<lparr>bs_business_id = business, bs_device_id = cx_device_id cx, bs_bootstrap_version = 1,
        bs_cursor = bt_sync_cursor response, bs_server_time = bt_server_time response,
        bs_applied_at = ah_boot H response, bs_products = products, bs_product_units = units,
        bs_barcodes = barcodes, bs_published_retail_prices = prices, bs_opaque_projections = opaque\<rparr>))))))"

definition applyBootstrapAtomically ::
  "'d decimal_ops \<Rightarrow> js_env \<Rightarrow> adapter_host \<Rightarrow> SyncStoreContext \<Rightarrow> SyncBootstrapResponse \<Rightarrow> (adapter_state, unit) act" where
  "applyBootstrapAtomically D E H cx response =
     bindA (liftA (throwIf (bt_bootstrap_version response \<noteq> JSInt 1)
              (SyncProtocolError ''Versi bootstrap POS belum didukung.''))) (\<lambda>_.
     bindA (liftA (parseOperationalContext response)) (\<lambda>operational.
     bindA (liftA (throwIf (bz_id (oc_business operational) \<noteq> cx_business_id cx)
              (SyncProtocolError ''Bootstrap melintasi Business aktif.''))) (\<lambda>_.
     bindA (liftA (bootstrapSnapshot D E H cx response)) (\<lambda>input.
     bindA (onDb (applyBootstrapSnapshot E input)) (\<lambda>_ st.
     (Inr (), st\<lparr>ad_latestBootstrap := Some operational\<rparr>))))))"

text \<open>One round of the loop over the changes of a page.\<close>

definition sortChange ::
  "'d decimal_ops \<Rightarrow> js_env \<Rightarrow> uuid \<Rightarrow> LocalSyncProjectionChange list \<times> LocalObservedSyncEventRecord list \<Rightarrow>
   SyncPullChange \<Rightarrow> (LocalSyncProjectionChange list \<times> LocalObservedSyncEventRecord list) result" where
  "sortChange D E business acc change =
     (if pc_change_type change = CH_EVENT
      then bindE (observedEvent change business) (\<lambda>e. Inr (fst acc, snd acc @ [e]))
      else bindE (projectionValue D E change business) (\<lambda>p. Inr (fst acc @ [p], snd acc)))"

definition bootstrap_entities :: "string set" where
  "bootstrap_entities =
     {''product'', ''product_unit'', ''barcode'', ''published_retail_price'', ''stock_movement'', ''customer_return''}"

definition sortChanges ::
  "'d decimal_ops \<Rightarrow> js_env \<Rightarrow> uuid \<Rightarrow> SyncPullResponse \<Rightarrow>
   (LocalSyncProjectionChange list \<times> LocalObservedSyncEventRecord list) result" where
  "sortChanges D E business response =
     catchE (foldE (sortChange D E business) ([], []) (pl_changes response))
       (\<lambda>error. if is_protocol_error error \<and>
             list_ex (\<lambda>change. pc_entity_type change \<in> bootstrap_entities) (pl_changes response)
           then Inl (ProjectionRequiresBootstrapError
                  ''Projection incremental tidak lengkap; bootstrap atomik diperlukan.'')
           else Inl error)"

text \<open>The argument of \<open>applyProjectionPage\<close>.\<close>

definition pageInput ::
  "adapter_host \<Rightarrow> SyncStoreContext \<Rightarrow> SyncPullResponse \<Rightarrow> LocalSyncStateRecord option \<Rightarrow>
   LocalSyncProjectionChange list \<times> LocalObservedSyncEventRecord list \<Rightarrow> ApplyProjectionPageInput" where
  "pageInput H cx response state changes = \<lparr>pg_business_id = cx_business_id cx, pg_device_id = cx_device_id cx,
     pg_expected_cursor = (case state of None \<Rightarrow> ''0'' | Some st \<Rightarrow> st_cursor st),
     pg_next_cursor = pl_next_cursor response,
     pg_bootstrap_version = (case state of None \<Rightarrow> 1 | Some st \<Rightarrow> st_bootstrap_version st),
     pg_server_time = pl_server_time response, pg_applied_at = ah_pull H response,
     pg_changes = fst changes, pg_observed_events = Some (snd changes)\<rparr>"

definition applyPullAtomically ::
  "'d decimal_ops \<Rightarrow> js_env \<Rightarrow> adapter_host \<Rightarrow> SyncStoreContext \<Rightarrow> SyncPullResponse \<Rightarrow> (adapter_state, unit) act" where
  "applyPullAtomically D E H cx response =
     bindA (liftA (sortChanges D E (cx_business_id cx) response)) (\<lambda>changes.
     bindA (onDb (getState (cx_business_id cx) (cx_device_id cx))) (\<lambda>state.
     onDb (applyProjectionPage E (pageInput H cx response state changes))))"

definition adapter :: "'d decimal_ops \<Rightarrow> js_env \<Rightarrow> adapter_host \<Rightarrow> uuid \<Rightarrow> adapter_state LocalSyncStore" where
  "adapter D E H deviceId = \<lparr>ls_claimPushCandidates = claimPushCandidates E deviceId,
     ls_resolveCommandAtomically = resolveCommandAtomically E deviceId, ls_getPullCursor = getPullCursor,
     ls_applyPullAtomically = applyPullAtomically D E H, ls_applyBootstrapAtomically = applyBootstrapAtomically D E H\<rparr>"

section \<open>What synchronisation leaves alone\<close>

text \<open>The books of the till: the rows it wrote itself, the outbox included.\<close>

definition books ::
  "pos_db \<Rightarrow> (LocalShiftRecord list \<times> LocalCashMovementRecord list \<times> LocalShiftClosingSnapshotRecord list) \<times>
     (LocalAuditEventRecord list \<times> LocalOutboxRecord list \<times> LocalCompletedTransaction list) \<times>
     (LocalCompletedTransactionItem list \<times> LocalCompletedPayment list \<times> LocalSaleStockMovement list)" where
  "books s = ((db_shifts s, db_cash_movements s, db_shift_closing_snapshots s),
     (db_audit_events s, db_outbox s, db_transactions s),
     (db_transaction_items s, db_payments s, db_stock_movements s))"

lemma books_ok: "books s' = books s \<Longrightarrow> db_ok s' = db_ok s"
  by (simp add: books_def db_ok_def del: schema_defs)

lemma books_frame [simp]:
  "books (db_products_update f1 s) = books s" "books (db_product_units_update f2 s) = books s"
  "books (db_barcodes_update f3 s) = books s" "books (db_published_retail_prices_update f4 s) = books s"
  "books (db_catalog_bootstrap_state_update f5 s) = books s" "books (db_pricing_bootstrap_state_update f6 s) = books s"
  "books (db_sync_state_update f7 s) = books s" "books (db_sync_observed_events_update f8 s) = books s"
  "books (db_promotions_update f9 s) = books s" "books (db_payment_methods_update f9 s) = books s"
  "books (db_stock_balances_update f9 s) = books s" "books (db_authorization_cache_update f9 s) = books s"
  "books (projectionStore_update et f9 s) = books s"
  by (cases et; simp add: books_def)+

lemma books_storeChange: "storeChange input c s = (Inr u, s') \<Longrightarrow> books s' = books s"
  by (cases c) (auto simp: result_simps simp del: schema_defs)

lemma page_keeps_books:
  assumes "applyProjectionPage E input s = (Inr u, s')"
  shows "books s' = books s"
  using assms
proof (rule applyProjectionPage_Inr)
  fix a b clock s1 s2
  assume s1: "forA (applyChange input a b) (pg_changes input) s = (Inr (), s1)"
    and s2: "forA (observeEvent input a b) (observed_events input) s1 = (Inr (), s2)"
    and s3: "tableA db_sync_state db_sync_state_update (t_put sync_state_schema (page_state_row E input clock)) s2 = (Inr u, s')"
  have "books s1 = books s"
    by (rule forA_Inr_invariant [OF s1]) (auto simp: applyChange_def result_simps dest: books_storeChange)
  moreover have "books s2 = books s1"
    by (rule forA_Inr_invariant [OF s2]) (auto simp: observeEvent_def result_simps simp del: schema_defs)
  moreover have "books s' = books s2" using s3 by (auto simp: tableA_eq_Inr simp del: schema_defs)
  ultimately show ?thesis by simp
qed

lemma snapshot_keeps_books:
  assumes "applyBootstrapSnapshot E input s = (Inr u, s')"
  shows "books s' = books s"
proof -
  let ?ets = "[et_promotion, et_payment_method, et_stock_balance, et_authorization]"
  obtain clock s1 s2 where s1: "replaceCatalog input s = (Inr (), s1)"
    and s2: "forA (replaceProjections input) ?ets s1 = (Inr (), s2)" and s3: "putBootstrapState input clock s2 = (Inr u, s')"
    using assms unfolding applyBootstrapSnapshot_def by (clarsimp simp: bindA_eq_Inr transaction_eq_Inr simp del: forA.simps)
  have "books s1 = books s" using s1 unfolding replaceCatalog_def
    by (auto simp: bindA_eq_Inr tableA_eq_Inr Let_def simp del: schema_defs)
  moreover have "books s2 = books s1"
    by (rule forA_Inr_invariant [OF s2]) (auto simp: replaceProjections_def bindA_eq_Inr tableA_eq_Inr Let_def simp del: schema_defs)
  moreover have "books s' = books s2" using s3 unfolding putBootstrapState_def
    by (auto simp: bindA_eq_Inr tableA_eq_Inr simp del: schema_defs)
  ultimately show ?thesis by simp
qed

section \<open>The adapter keeps the contract\<close>

lemma onDb_eq: "onDb m st = (r, st') \<longleftrightarrow> (\<exists>s'. m (ad_db st) = (r, s') \<and> st' = st\<lparr>ad_db := s'\<rparr>)"
  by (auto simp: onDb_def split: prod.splits)

definition held_by :: "string \<Rightarrow> pos_db \<Rightarrow> uuid set" where
  "held_by owner s = ob_command_id ` {r \<in> set (db_outbox s). ob_status r = SENDING \<and> ob_lease_owner r = Some owner}"

definition adapter_ok :: "adapter_state \<Rightarrow> bool" where
  "adapter_ok st = (db_ok (ad_db st) \<and> feed_ok (ad_db st))"

lemma feed_ok_outbox [simp]: "feed_ok (s\<lparr>db_outbox := a\<rparr>) = feed_ok s"
proof -
  have "projectionStore et (s\<lparr>db_outbox := a\<rparr>) = projectionStore et s" for et by (cases et) simp_all
  then show ?thesis by (simp add: feed_ok_def del: schema_defs)
qed

lemma feed_ok_aggregates [simp]:
  "feed_ok (s\<lparr>db_transactions := a\<rparr>) = feed_ok s" "feed_ok (s\<lparr>db_shifts := b\<rparr>) = feed_ok s"
  "feed_ok (s\<lparr>db_audit_events := c\<rparr>) = feed_ok s"
proof -
  have "projectionStore et (s\<lparr>db_transactions := a\<rparr>) = projectionStore et s"
    "projectionStore et (s\<lparr>db_shifts := b\<rparr>) = projectionStore et s"
    "projectionStore et (s\<lparr>db_audit_events := c\<rparr>) = projectionStore et s" for et by (cases et; simp)+
  then show "feed_ok (s\<lparr>db_transactions := a\<rparr>) = feed_ok s" "feed_ok (s\<lparr>db_shifts := b\<rparr>) = feed_ok s"
    "feed_ok (s\<lparr>db_audit_events := c\<rparr>) = feed_ok s" by (simp_all add: feed_ok_def del: schema_defs)
qed

lemma held_by_map:
  assumes "\<And>r. ob_command_id (F r) = ob_command_id r"
  shows "held_by owner (s\<lparr>db_outbox := map F (db_outbox s)\<rparr>) =
    ob_command_id ` {r \<in> set (db_outbox s). ob_status (F r) = SENDING \<and> ob_lease_owner (F r) = Some owner}"
proof -
  let ?P = "\<lambda>r. ob_status r = SENDING \<and> ob_lease_owner r = Some owner"
  have "{r \<in> F ` set (db_outbox s). ?P r} = F ` {r \<in> set (db_outbox s). ?P (F r)}" by blast
  then show ?thesis by (simp add: held_by_def image_image assms)
qed

lemma claim_holds:
  assumes "db_ok s" "claimOutboxBatch E input s = (Inr claimed, s')"
  shows "db_ok s' \<and> feed_ok s' = feed_ok s \<and> distinct (map ob_command_id claimed) \<and>
    held_by (cm_lease_owner input) s' = held_by (cm_lease_owner input) s \<union> ob_command_id ` set claimed"
proof -
  have ok: "t_ok outbox_schema (db_outbox s)" using assms(1) by (simp add: db_ok_def)
  from claimOutboxBatch_Inr [OF assms(2) ok] obtain t0 chosen where
    ch: "chosen = take (batch_limit input) (due_rows E input t0 s)" and c: "claimed = map (claimRow input) chosen"
    and s': "s' = s\<lparr>db_outbox := map (\<lambda>r. if r \<in> set chosen then claimRow input r else r) (db_outbox s)\<rparr>"
    unfolding Let_def by blast
  have sub: "set chosen \<subseteq> set (db_outbox s)"
    using set_take_subset [of "batch_limit input" "due_rows E input t0 s"] unfolding ch by (auto simp: due_rows_set)
  have ids: "ob_command_id (claimRow input r) = ob_command_id r" for r by (simp add: claimRow_def)
  have row: "ob_status (claimRow input r) = SENDING" "ob_lease_owner (claimRow input r) = Some (cm_lease_owner input)" for r
    by (simp_all add: claimRow_def)
  have "db_ok s'" using assms(1) claim_ok [OF ok] by (simp add: db_ok_def s' ch del: schema_defs)
  moreover have "inj_on ob_command_id (set (db_outbox s))"
    using tbl.unique_index [OF ok, of "\<lambda>r. Some [ob_command_id r]"] by (auto intro: inj_onI)
  moreover have "distinct (map ob_outbox_id (due_rows E input t0 s))"
    using distinct_keys [OF ok] by (simp add: due_rows_def distinct_map_filter)
  then have "distinct chosen" unfolding ch distinct_map by (simp add: distinct_take)
  ultimately have "distinct (map ob_command_id claimed)"
    using sub by (simp add: c distinct_map comp_def ids inj_on_subset)
  moreover have "held_by (cm_lease_owner input) s' = held_by (cm_lease_owner input) s \<union> ob_command_id ` set claimed"
  proof -
    let ?F = "\<lambda>r. if r \<in> set chosen then claimRow input r else r"
    have "{r \<in> set (db_outbox s). ob_status (?F r) = SENDING \<and> ob_lease_owner (?F r) = Some (cm_lease_owner input)} =
        {r \<in> set (db_outbox s). ob_status r = SENDING \<and> ob_lease_owner r = Some (cm_lease_owner input)} \<union> set chosen"
      using sub row by auto
    moreover have "held_by (cm_lease_owner input) s' = ob_command_id `
        {r \<in> set (db_outbox s). ob_status (?F r) = SENDING \<and> ob_lease_owner (?F r) = Some (cm_lease_owner input)}"
      unfolding s' by (rule held_by_map) (simp add: ids)
    ultimately show ?thesis by (simp add: held_by_def image_Un c image_image ids)
  qed
  ultimately show ?thesis using \<open>db_ok s'\<close> by (simp add: s')
qed

lemma settle_releases:
  assumes "db_ok s" "k \<in> held_by owner s" "so_command_id st = k"
    "so_disposition st = DISP_FAILED_RETRYABLE \<longrightarrow> (\<exists>t v. so_next_attempt_at st = Some t \<and> dateParse E t = Some v)"
  shows "\<exists>s'. settleOutboxBatch E owner [st] s = (Inr (), s') \<and> db_ok s' \<and> feed_ok s' = feed_ok s \<and>
    db_sync_state s' = db_sync_state s \<and> held_by owner s' = held_by owner s - {k}"
proof -
  have ok: "t_ok outbox_schema (db_outbox s)" using assms(1) by (simp add: db_ok_def)
  obtain r where r: "r \<in> set (db_outbox s)" "ob_command_id r = k" "ob_status r = SENDING" "ob_lease_owner r = Some owner"
    using assms(2) by (auto simp: held_by_def)
  have uniq: "x = r" if "x \<in> set (db_outbox s)" "ob_command_id x = k" for x
    using tbl.unique_index [OF ok, of "\<lambda>r. Some [ob_command_id r]" x r] that r by simp
  have "find (\<lambda>x. ob_command_id x = k) (db_outbox s) \<noteq> None" using r(1,2) unfolding find_None_iff by blast
  then obtain x where x: "find (\<lambda>x. ob_command_id x = k) (db_outbox s) = Some x" by blast
  have found: "find (\<lambda>x. ob_command_id x = k) (db_outbox s) = Some r" using x uniq find_SomeD [OF x] by simp
  let ?s1 = "s\<lparr>db_outbox := map (\<lambda>x. if ob_outbox_id x = ob_outbox_id r then settleRow st x else x) (db_outbox s)\<rparr>"
  have up: "tableA db_outbox db_outbox_update (t_update outbox_schema (ob_outbox_id r) (settleRow st)) s = (Inr (), ?s1)"
    "t_ok outbox_schema (db_outbox ?s1)"
    using update_keeps [OF ok outbox_updates_keep(2), of "ob_outbox_id r" st] by (simp_all add: tableA_def)
  have ok1: "db_ok ?s1" using assms(1) up(2) by (simp add: db_ok_def del: schema_defs)
  obtain s2 where s2: "markAggregates (aggregateSyncStatus (so_disposition st)) r ?s1 = (Inr (), s2)" and ok2: "db_ok s2"
    and eq: "s2 = ?s1\<lparr>db_transactions := db_transactions s2, db_shifts := db_shifts s2, db_audit_events := db_audit_events s2\<rparr>"
    using markAggregates_run [OF ok1, of "aggregateSyncStatus (so_disposition st)" r] by (elim exE conjE) (rule that)
  then obtain t h e where s2eq: "s2 = ?s1\<lparr>db_transactions := t, db_shifts := h, db_audit_events := e\<rparr>" by blast
  have rest: "db_outbox s2 = db_outbox ?s1" "feed_ok s2 = feed_ok s" "db_sync_state s2 = db_sync_state s"
    unfolding s2eq by simp_all
  define s' where "s' = (if so_disposition st \<noteq> DISP_FAILED_RETRYABLE then s2 else ?s1)"
  have "settleOne owner st s = (Inr (), s')"
    using found r(3,4) up(1) s2 assms(3) by (simp add: settleOne_def bindA_def s'_def del: schema_defs)
  moreover have "checkSettlement E {} st = Inr {k}" using assms(3,4)
    by (auto simp: checkSettlement_def parseTimestamp_def)
  ultimately have run: "settleOutboxBatch E owner [st] s = (Inr (), s')"
    by (simp add: settleOutboxBatch_def bindA_def transaction_def)
  have same: "db_outbox s' = db_outbox ?s1" "feed_ok s' = feed_ok s" "db_sync_state s' = db_sync_state s" "db_ok s'"
    using ok1 ok2 rest by (simp_all add: s'_def)
  let ?F = "\<lambda>x. if ob_outbox_id x = ob_outbox_id r then settleRow st x else x"
  have "held_by owner s' = held_by owner ?s1" by (simp add: held_by_def same(1))
  also have "\<dots> = ob_command_id ` {x \<in> set (db_outbox s). ob_status (?F x) = SENDING \<and> ob_lease_owner (?F x) = Some owner}"
    by (rule held_by_map) (simp add: settleRow_def)
  also have "\<dots> = held_by owner s - {k}"
  proof -
    have "ob_outbox_id x = ob_outbox_id r \<longleftrightarrow> ob_command_id x = k" if "x \<in> set (db_outbox s)" for x
      using that uniq [of x] r tbl.key_determines_row [OF ok, of x r] by auto
    then have "{x \<in> set (db_outbox s). ob_status (?F x) = SENDING \<and> ob_lease_owner (?F x) = Some owner} =
        {x \<in> set (db_outbox s). ob_status x = SENDING \<and> ob_lease_owner x = Some owner \<and> ob_command_id x \<noteq> k}"
      by (auto simp: settleRow_def)
    then show ?thesis by (auto simp: held_by_def)
  qed
  finally show ?thesis using run same by blast
qed

lemma apply_pull_Inr:
  assumes "adapter_ok st" "applyPullAtomically D E H cx response st = (Inr u, st')"
  shows "adapter_ok st' \<and> books (ad_db st') = books (ad_db st) \<and>
    cursor_of (cx_business_id cx) (cx_device_id cx) (ad_db st') = pl_next_cursor response"
proof -
  obtain state changes s' where
    run: "applyProjectionPage E (pageInput H cx response state changes) (ad_db st) = (Inr u, s')"
    and st': "st' = st\<lparr>ad_db := s'\<rparr>"
    using assms(2) unfolding applyPullAtomically_def
    by (clarsimp simp: bindA_eq_Inr onDb_eq getState_def simp del: schema_defs)
  have "feed_ok (ad_db st)" using assms(1) by (simp add: adapter_ok_def)
  note eff = page_effect [OF this run]
  have "cursor_of (cx_business_id cx) (cx_device_id cx) s' = pl_next_cursor response"
    using eff [THEN conjunct2, THEN conjunct2, THEN conjunct2, THEN conjunct1] by (simp add: pageInput_def)
  then show ?thesis using assms(1) page_keeps_books [OF run] books_ok [OF page_keeps_books [OF run]] conjunct1 [OF eff]
    by (simp add: st' adapter_ok_def)
qed

lemma apply_pull_Inl: "applyPullAtomically D E H cx response st = (Inl e, st') \<Longrightarrow> st' = st"
  unfolding applyPullAtomically_def
  by (auto simp: bindA_eq_Inl onDb_eq getState_def simp del: schema_defs dest!: applyProjectionPage_Inl)

lemma snapshot_effect:
  assumes "feed_ok s" "applyBootstrapSnapshot E input s = (Inr u, s')"
  shows "feed_ok s' \<and> cursor_of (bs_business_id input) (bs_device_id input) s' = bs_cursor input"
proof -
  let ?ets = "[et_promotion, et_payment_method, et_stock_balance, et_authorization]"
  obtain clock s1 s2 where v: "validateSnapshot E input = Inr clock" and s1: "replaceCatalog input s = (Inr (), s1)"
    and s2: "forA (replaceProjections input) ?ets s1 = (Inr (), s2)" and s3: "putBootstrapState input clock s2 = (Inr u, s')"
    using assms(2) unfolding applyBootstrapSnapshot_def
    by (clarsimp simp: bindA_eq_Inr transaction_eq_Inr simp del: forA.simps)
  show ?thesis using putBootstrapState_Inr [OF replaced_feed_ok [OF assms(1) v s1 s2] s3] by blast
qed

lemma apply_bootstrap_Inr:
  assumes "adapter_ok st" "applyBootstrapAtomically D E H cx boot st = (Inr u, st')"
  shows "adapter_ok st' \<and> books (ad_db st') = books (ad_db st) \<and>
    cursor_of (cx_business_id cx) (cx_device_id cx) (ad_db st') = bt_sync_cursor boot"
proof -
  obtain input op s' where sn: "bootstrapSnapshot D E H cx boot = Inr input"
    and run: "applyBootstrapSnapshot E input (ad_db st) = (Inr (), s')"
    and st': "st' = st\<lparr>ad_db := s', ad_latestBootstrap := Some op\<rparr>"
    using assms(2) unfolding applyBootstrapAtomically_def by (clarsimp simp: bindA_eq_Inr onDb_eq)
  have i: "bs_business_id input = cx_business_id cx" "bs_device_id input = cx_device_id cx" "bs_cursor input = bt_sync_cursor boot"
    using sn unfolding bootstrapSnapshot_def by (auto simp: bindE_eq_Inr Let_def)
  have "feed_ok (ad_db st)" using assms(1) by (simp add: adapter_ok_def)
  from snapshot_effect [OF this run] show ?thesis
    using assms(1) i snapshot_keeps_books [OF run] books_ok [OF snapshot_keeps_books [OF run]]
    by (simp add: st' adapter_ok_def)
qed

lemma apply_bootstrap_Inl: "applyBootstrapAtomically D E H cx boot st = (Inl e, st') \<Longrightarrow> st' = st"
  unfolding applyBootstrapAtomically_def applyBootstrapSnapshot_def
  by (auto simp: bindA_eq_Inl onDb_eq transaction_eq_Inl)

lemma mapE_command_ids: "mapE localSyncCommand rs = Inr cmds \<Longrightarrow> map wc_command_id cmds = map ob_command_id rs"
  by (induction rs arbitrary: cmds) (auto simp: bindE_eq_Inr localSyncCommand_def split: option.splits)

lemma books_held: "books s' = books s \<Longrightarrow> held_by owner s' = held_by owner s"
  by (simp add: books_def held_by_def)

interpretation pos: local_sync_store "adapter D E H dev" E adapter_ok "\<lambda>st. held_by (leaseOwner dev) (ad_db st)"
  "\<lambda>cx st. cursor_of (cx_business_id cx) (cx_device_id cx) (ad_db st)" "\<lambda>st. books (ad_db st)"
  for D E H dev
proof unfold_locales
  fix st st' input cmds
  assume ok: "adapter_ok st" and run: "ls_claimPushCandidates (adapter D E H dev) input st = (Inr cmds, st')"
  obtain rs s' where rs: "claimOutboxBatch E \<lparr>cm_business_id = cx_business_id input, cm_lease_owner = leaseOwner dev,
      cm_claimed_at = cp_claimed_at input, cm_lease_expires_at = cp_lease_expires_at input,
      cm_limit = Some (cp_limit input)\<rparr> (ad_db st) = (Inr rs, s')" "st' = st\<lparr>ad_db := s'\<rparr>" "mapE localSyncCommand rs = Inr cmds"
    using run by (auto simp: adapter_def claimPushCandidates_def bindA_eq_Inr onDb_eq)
  have "wc_command_id ` set cmds = ob_command_id ` set rs" using mapE_command_ids [OF rs(3)] by (metis list.set_map)
  moreover have "db_ok (ad_db st)" using ok by (simp add: adapter_ok_def)
  from claim_holds [OF this rs(1)] have c: "db_ok s'" "feed_ok s' = feed_ok (ad_db st)" "distinct (map ob_command_id rs)"
    "held_by (leaseOwner dev) s' = held_by (leaseOwner dev) (ad_db st) \<union> ob_command_id ` set rs" by simp_all
  ultimately show "adapter_ok st' \<and> distinct (map wc_command_id cmds) \<and>
      held_by (leaseOwner dev) (ad_db st') = held_by (leaseOwner dev) (ad_db st) \<union> wc_command_id ` set cmds"
    using ok mapE_command_ids [OF rs(3)] by (simp add: rs(2) adapter_ok_def)
next
  fix st k r
  assume ok: "adapter_ok st" and k: "k \<in> held_by (leaseOwner dev) (ad_db st)" and r: "resolution_ok E r"
  have "so_disposition (settlement_of k r) = DISP_FAILED_RETRYABLE \<longrightarrow>
      (\<exists>t v. so_next_attempt_at (settlement_of k r) = Some t \<and> dateParse E t = Some v)"
    using r by (cases r) (auto simp: resolution_ok_def settlement_of_def)
  moreover have "db_ok (ad_db st)" using ok by (simp add: adapter_ok_def)
  ultimately obtain s' where "settleOutboxBatch E (leaseOwner dev) [settlement_of k r] (ad_db st) = (Inr (), s')"
    "db_ok s'" "feed_ok s' = feed_ok (ad_db st)" "held_by (leaseOwner dev) s' = held_by (leaseOwner dev) (ad_db st) - {k}"
    using settle_releases [of "ad_db st" k "leaseOwner dev" "settlement_of k r" E] k by (auto simp: settlement_of_def)
  then show "\<exists>st'. ls_resolveCommandAtomically (adapter D E H dev) k r st = (Inr (), st') \<and> adapter_ok st' \<and>
      held_by (leaseOwner dev) (ad_db st') = held_by (leaseOwner dev) (ad_db st) - {k}"
    using ok by (auto simp: adapter_def resolveCommandAtomically_def onDb_def adapter_ok_def)
next
  fix cx st
  show "ls_getPullCursor (adapter D E H dev) cx st = (Inr (cursor_of (cx_business_id cx) (cx_device_id cx) (ad_db st)), st)"
    by (simp add: adapter_def getPullCursor_def bindA_def onDb_def getState_def cursor_of_def del: schema_defs)
next
  fix st st' cx response u
  assume ok: "adapter_ok st" and "ls_applyPullAtomically (adapter D E H dev) cx response st = (Inr u, st')"
  then have "applyPullAtomically D E H cx response st = (Inr u, st')" by (simp add: adapter_def)
  note eff = apply_pull_Inr [OF ok this]
  show "adapter_ok st' \<and>
      held_by (leaseOwner dev) (ad_db st') = held_by (leaseOwner dev) (ad_db st) \<and> books (ad_db st') = books (ad_db st) \<and>
      cursor_of (cx_business_id cx) (cx_device_id cx) (ad_db st') = pl_next_cursor response"
    using eff books_held [of "ad_db st'" "ad_db st" "leaseOwner dev"] by blast
next
  fix st st' cx response e
  assume "ls_applyPullAtomically (adapter D E H dev) cx response st = (Inl e, st')"
  then show "st' = st" by (auto simp: adapter_def dest: apply_pull_Inl)
next
  fix st st' cx boot u
  assume ok: "adapter_ok st" and "ls_applyBootstrapAtomically (adapter D E H dev) cx boot st = (Inr u, st')"
  then have "applyBootstrapAtomically D E H cx boot st = (Inr u, st')" by (simp add: adapter_def)
  note eff = apply_bootstrap_Inr [OF ok this]
  show "adapter_ok st' \<and>
      held_by (leaseOwner dev) (ad_db st') = held_by (leaseOwner dev) (ad_db st) \<and> books (ad_db st') = books (ad_db st) \<and>
      cursor_of (cx_business_id cx) (cx_device_id cx) (ad_db st') = bt_sync_cursor boot"
    using eff books_held [of "ad_db st'" "ad_db st" "leaseOwner dev"] by blast
next
  fix st st' cx boot e
  assume "ls_applyBootstrapAtomically (adapter D E H dev) cx boot st = (Inl e, st')"
  then show "st' = st" by (auto simp: adapter_def dest: apply_bootstrap_Inl)
qed

section \<open>Properties\<close>

text \<open>
  C4. Pushing always finishes what it started: once the claim succeeded, \<open>pushPending\<close> returns whatever
  the server answers (acceptance, rejection, network failure, malformed response), every claimed command
  is counted exactly once as accepted, accepted with review, retryable or for review, and none of them is
  left sending under this device's lease.
\<close>

theorem push_settles_every_claim:
  assumes "adapter_ok st" "oo_store (or_options orch) = adapter D E H dev" "or_retryPolicy orch = defaultRetryPolicy M"
    "iso_ok E" "\<forall>i. \<exists>t. dateParse E (oo_now (or_options orch) i) = Some t \<and> \<bar>t\<bar> \<le> 8 * 10 ^ 15"
    "\<forall>i rq status code m b d. gw_push (oo_gateway (or_options orch)) i rq =
       Inl (SyncHttpError status code m b (Some d)) \<longrightarrow> d \<le> 10 ^ 14"
    "addMilliseconds E (oo_now (or_options orch) 0) (js_rat (or_claimLeaseMs orch)) = Inr expires"
    "claimPushCandidates E dev \<lparr>cx_business_id = oo_businessId (or_options orch),
        cx_device_id = oo_deviceId (or_options orch), cp_limit = or_pushClaimLimit orch,
        cp_claimed_at = oo_now (or_options orch) 0, cp_lease_expires_at = expires\<rparr> st = (Inr cmds, st1)"
  shows "\<exists>counts st'. pushPending E orch st = (Inr counts, st') \<and> adapter_ok st' \<and> ps_claimed counts = length cmds \<and>
    ps_accepted counts + ps_accepted_with_review counts + ps_failed_retryable counts + ps_requires_review counts = length cmds \<and>
    held_by (leaseOwner dev) (ad_db st') = held_by (leaseOwner dev) (ad_db st) - wc_command_id ` set cmds"
proof -
  have "timely E orch" using timely_default [OF assms(4,3,5,6)] .
  moreover have "ls_claimPushCandidates (adapter D E H dev) \<lparr>cx_business_id = oo_businessId (or_options orch),
        cx_device_id = oo_deviceId (or_options orch), cp_limit = or_pushClaimLimit orch,
        cp_claimed_at = oo_now (or_options orch) 0, cp_lease_expires_at = expires\<rparr> st = (Inr cmds, st1)"
    using assms(8) by (simp add: adapter_def)
  ultimately show ?thesis
    using pos.push_resolves_all [OF assms(2) _ assms(1,7)] by (auto simp: settled_total_def)
qed

text \<open>
  C10. Pulling terminates and is honest about its progress: after at most \<open>maxPullPages\<close> pages it returns,
  whatever the server sends; the cursor it reports, on success and on failure, is the cursor stored in the
  database; and it never touches the till's own records.
\<close>

theorem pull_reports_stored_cursor:
  assumes "adapter_ok st" "oo_store (or_options orch) = adapter D E H dev"
  shows "\<exists>res st'. pullAvailable orch st = (Inr res, st') \<and> adapter_ok st' \<and>
    ru_cursor (run_of res) = cursor_of (oo_businessId (or_options orch)) (oo_deviceId (or_options orch)) (ad_db st') \<and>
    ru_applied_pages (run_of res) \<le> page_bound (or_maxPullPages orch) \<and> books (ad_db st') = books (ad_db st)"
  using pos.pull_total [OF assms(2,1)] by (auto simp: storeContext_def)

text \<open>
  C11. A bootstrap never costs a sale: it is refused without any change, or it installs the snapshot of the
  right business and its cursor; in both cases the till's records and its outbox are as before.
\<close>

theorem bootstrap_preserves_books:
  assumes "adapter_ok st" "oo_store (or_options orch) = adapter D E H dev"
  shows "case bootstrap orch st of
      (Inl e, st') \<Rightarrow> st' = st
    | (Inr u, st') \<Rightarrow> adapter_ok st' \<and> books (ad_db st') = books (ad_db st) \<and>
        (\<exists>boot. gw_bootstrap (oo_gateway (or_options orch)) = Inr boot \<and>
           au_business_id (bt_authorization boot) = oo_businessId (or_options orch) \<and>
           cursor_of (oo_businessId (or_options orch)) (oo_deviceId (or_options orch)) (ad_db st') = bt_sync_cursor boot)"
proof -
  obtain r st' where run: "bootstrap orch st = (r, st')" by fastforce
  from pos.bootstrap_safe [OF assms(2,1) run] show ?thesis unfolding run
    by (cases r) (auto simp: storeContext_def)
qed

text \<open>
  C12. The reason of a refusal survives the round trip through the outbox: a command that was resolved for
  review is reopened by recovery exactly when the server's code is one of the authority codes and the
  command carries an offline grant.
\<close>

theorem refusal_recoverable_iff_authority:
  "recoverable (settleRow (settlement_of k (RES_REQUIRES_REVIEW t code message)) record) \<longleftrightarrow>
     ob_offline_authorization record \<noteq> None \<and>
     code \<in> {''SESSION_INVALID'', ''DEVICE_REVOKED'', ''MEMBERSHIP_INACTIVE'', ''PERMISSION_DENIED''}"
proof -
  let ?j = "JObj [(''code'', JStr code), (''message'', JStr message)]"
  have "json_parse (json_stringify ?j) = Some ?j" by (rule parse_stringify) simp
  then show ?thesis
    by (simp add: recoverable_def settleRow_def settlement_of_def settledStatus_def recoverableCodes_def jget_def)
qed

section \<open>A concrete run\<close>

text \<open>Times are written as their number of milliseconds, which is read back.\<close>

definition sync_env :: js_env where
  "sync_env = demo_env\<lparr>dateParse := \<lambda>s. case json_parse s of Some (JNum i) \<Rightarrow> Some i | _ \<Rightarrow> None,
     toISOString := int_text\<rparr>"

lemma iso_ok_sync_env: "iso_ok sync_env"
proof -
  have "json_parse (int_text t) = Some (JNum t)" if "\<bar>t\<bar> \<le> 8640000000000000" for t
    using parse_stringify [of "JNum t"] that by simp
  then show ?thesis by (simp add: iso_ok_def sync_env_def)
qed

definition sync_gateway :: SyncGateway where
  "sync_gateway = \<lparr>gw_bootstrap = Inl (SyncTransportError ''NETWORK'' ''offline''),
     gw_push = (\<lambda>_ rq. Inr \<lparr>rb_accepted = [\<lparr>ac_command_id = rq_batch_id rq, ac_status = AC_ACCEPTED, ac_warnings = []\<rparr>],
       rb_rejected = []\<rparr>),
     gw_pull = (\<lambda>_ rq. Inr \<lparr>pl_changes = [], pl_next_cursor = ''5'', pl_has_more = False, pl_server_time = ''0''\<rparr>),
     gw_ack = (\<lambda>_. Inr ())\<rparr>"

definition sync_host :: adapter_host where
  "sync_host = \<lparr>ah_pull = (\<lambda>_. ''0''), ah_boot = (\<lambda>_. ''0'')\<rparr>"

definition sync_orch :: "adapter_state SyncOrchestrator" where
  "sync_orch = \<lparr>or_options = \<lparr>oo_gateway = sync_gateway, oo_store = adapter ref_ops sync_env sync_host ''dev'',
       oo_businessId = ''B'', oo_deviceId = ''dev'', oo_clientSchemaVersion = 1, oo_retryPolicy = None,
       oo_now = (\<lambda>_. ''0''), oo_pushClaimLimit = None, oo_pullLimit = None, oo_maxPullPages = None,
       oo_claimLeaseMs = None\<rparr>,
     or_retryPolicy = defaultRetryPolicy (\<lambda>_. []), or_pushClaimLimit = JSInt 25, or_pullLimit = JSInt 500,
     or_maxPullPages = JSInt 100, or_claimLeaseMs = JSInt 60000\<rparr>"

definition sync_state0 :: adapter_state where
  "sync_state0 = \<lparr>ad_db = demo_db\<lparr>db_outbox := [demo_row\<lparr>ob_payload := ''{}''\<rparr>]\<rparr>, ad_latestBootstrap = None\<rparr>"

lemma sync_state0_ok: "adapter_ok sync_state0"
proof -
  have "feed_ok demo_db"
  proof -
    have "t_ok opaque_schema (projectionStore et demo_db)" for et
      by (cases et) (simp_all add: t_ok_def demo_db_def empty_db_def)
    then show ?thesis by (simp add: feed_ok_def t_ok_def demo_db_def empty_db_def)
  qed
  then show ?thesis using demo_db_ok by (simp add: adapter_ok_def sync_state0_def db_ok_def t_ok_def)
qed

lemma sync_zero: "dateParse sync_env ''0'' = Some 0" "dateParse sync_env (int_text 60000) = Some 60000"
proof -
  have "int_text 0 = ''0''" by (simp add: int_text_def nat_digits_0)
  then have "json_parse ''0'' = Some (JNum 0)" using parse_stringify [of "JNum 0"] by simp
  then show "dateParse sync_env ''0'' = Some 0" by (simp add: sync_env_def)
  show "dateParse sync_env (int_text 60000) = Some 60000"
    using iso_ok_sync_env by (simp add: iso_ok_def sync_env_def)
qed

lemma sync_claims:
  "\<exists>c st1. claimPushCandidates sync_env ''dev'' \<lparr>cx_business_id = ''B'', cx_device_id = ''dev'', cp_limit = JSInt 25,
     cp_claimed_at = ''0'', cp_lease_expires_at = int_text 60000\<rparr> sync_state0 = (Inr [c], st1) \<and> wc_command_id c = ''0''"
proof -
  have "assertLimit (JSInt 25) = Inr ()" by code_simp
  moreover have "json_parse ''{}'' = Some (JObj [])" using parse_stringify [of "JObj []"] by simp
  ultimately show ?thesis
    by (simp add: claimPushCandidates_def claimOutboxBatch_def onDb_def bindA_def transaction_def tableA_def
      parseTimestamp_def sync_zero Let_def sync_state0_def demo_row_facts claimable_def sort_by_def
      localSyncCommand_def claimRow_def leaseOwner_def js_int_def t_bulkPut_def t_put_def t_conflict_def)
qed

theorem push_settles_every_claim_witness:
  "\<exists>counts st'. pushPending sync_env sync_orch sync_state0 = (Inr counts, st') \<and> ps_claimed counts = 1 \<and>
     ps_accepted counts + ps_accepted_with_review counts + ps_failed_retryable counts + ps_requires_review counts = 1 \<and>
     ''0'' \<notin> held_by (leaseOwner ''dev'') (ad_db st')"
proof -
  obtain c st1 where c: "claimPushCandidates sync_env ''dev'' \<lparr>cx_business_id = ''B'', cx_device_id = ''dev'',
      cp_limit = JSInt 25, cp_claimed_at = ''0'', cp_lease_expires_at = int_text 60000\<rparr> sync_state0 = (Inr [c], st1)"
    "wc_command_id c = ''0''" using sync_claims by blast
  have o: "oo_store (or_options sync_orch) = adapter ref_ops sync_env sync_host ''dev''"
    "or_retryPolicy sync_orch = defaultRetryPolicy (\<lambda>_. [])"
    "\<forall>i. \<exists>t. dateParse sync_env (oo_now (or_options sync_orch) i) = Some t \<and> \<bar>t\<bar> \<le> 8 * 10 ^ 15"
    "\<forall>i rq status code m b d. gw_push (oo_gateway (or_options sync_orch)) i rq =
       Inl (SyncHttpError status code m b (Some d)) \<longrightarrow> d \<le> 10 ^ 14"
    "addMilliseconds sync_env (oo_now (or_options sync_orch) 0) (js_rat (or_claimLeaseMs sync_orch)) = Inr (int_text 60000)"
    "claimPushCandidates sync_env ''dev'' \<lparr>cx_business_id = oo_businessId (or_options sync_orch),
        cx_device_id = oo_deviceId (or_options sync_orch), cp_limit = or_pushClaimLimit sync_orch,
        cp_claimed_at = oo_now (or_options sync_orch) 0, cp_lease_expires_at = int_text 60000\<rparr> sync_state0 = (Inr [c], st1)"
    using c(1) by (simp_all add: sync_orch_def sync_gateway_def sync_zero addMilliseconds_def trunc_rat_def)
      (simp add: sync_env_def)
  from push_settles_every_claim [OF sync_state0_ok o(1,2) iso_ok_sync_env o(3-6)] c(2) show ?thesis by auto
qed

theorem pull_reports_stored_cursor_witness:
  "\<exists>res st'. pullAvailable sync_orch sync_state0 = (Inr res, st') \<and> ru_cursor (run_of res) = cursor_of ''B'' ''dev'' (ad_db st') \<and>
     ru_applied_pages (run_of res) \<le> 100"
proof -
  have "oo_store (or_options sync_orch) = adapter ref_ops sync_env sync_host ''dev''"
    "oo_businessId (or_options sync_orch) = ''B''" "oo_deviceId (or_options sync_orch) = ''dev''"
    "page_bound (or_maxPullPages sync_orch) = 100" by (simp_all add: sync_orch_def page_bound_def)
  with pull_reports_stored_cursor [OF sync_state0_ok this(1)] show ?thesis by auto
qed

theorem bootstrap_preserves_books_witness: "snd (bootstrap sync_orch sync_state0) = sync_state0"
proof -
  have "oo_store (or_options sync_orch) = adapter ref_ops sync_env sync_host ''dev''" by (simp add: sync_orch_def)
  from bootstrap_preserves_books [OF sync_state0_ok this] show ?thesis
    by (simp add: bootstrap_def bindA_def sync_orch_def sync_gateway_def)
qed

end
