(* ===== verification/Catalog_Cache.thy ===== *)
theory Catalog_Cache
  imports Sync_Store Sync_Client
begin

text \<open>
  The caches the till sells from: \<open>packages/local-db/src/catalog-cache.ts\<close> (products, units, barcodes),
  \<open>packages/local-db/src/pricing-cache.ts\<close> (published prices, promotions, the time prices are looked up
  at) and the reader of \<open>packages/local-db/src/audit-store.ts\<close>. What a snapshot checks at run time is
  modelled unchecked: a status is any text, and a field tested with \<open>typeof\<close> is any JSON value. Fields
  carry a prefix (\<open>kp_\<close>, \<open>ku_\<close>, \<open>kb_\<close>, \<open>ks_\<close> the catalog snapshot, \<open>xs_\<close> the price snapshot, \<open>tc_\<close> the
  time context). The lemmas show that a bootstrap happens once and entirely or not at all, that what it
  stores is referentially sound, and which price and promotions are in force.
\<close>

section \<open>Snapshots\<close>

record PosCatalogBootstrapProduct =
  kp_id :: string
  kp_sku :: string
  kp_name :: string
  kp_base_unit_code :: string
  kp_track_inventory :: bool
  kp_status :: string
  kp_version :: string
  kp_updated_at :: string

record PosCatalogBootstrapProductUnit =
  ku_id :: string
  ku_product_id :: string
  ku_unit_code :: string
  ku_display_name :: string
  ku_conversion_factor :: json
  ku_can_sell :: bool
  ku_can_purchase :: bool
  ku_allow_decimal_qty :: bool
  ku_status :: string
  ku_version :: string
  ku_updated_at :: string

record PosCatalogBootstrapBarcode =
  kb_id :: string
  kb_product_unit_id :: string
  kb_barcode :: json
  kb_is_internal :: bool
  kb_status :: string
  kb_deactivated_at :: "string option"

record PosCatalogBootstrapSnapshot =
  ks_bootstrap_version :: json
  ks_business_id :: string
  ks_server_time :: string
  ks_products :: "PosCatalogBootstrapProduct list"
  ks_product_units :: "PosCatalogBootstrapProductUnit list"
  ks_barcodes :: "PosCatalogBootstrapBarcode list"

text \<open>A row of the price snapshot is the members of a JSON object; a missing member is \<open>undefined\<close>.\<close>

record PosPublishedRetailPriceBootstrapSnapshot =
  xs_bootstrap_version :: json
  xs_business_id :: json
  xs_server_time :: json
  xs_prices :: "(string \<times> json) list list"

section \<open>The catalog cache\<close>

definition getCatalogBootstrapState :: "string \<Rightarrow> LocalCatalogBootstrapState option db_act" where
  "getCatalogBootstrapState businessId =
     readA (\<lambda>s. t_get catalog_bootstrap_state_schema businessId (db_catalog_bootstrap_state s))"

definition listProducts :: "string \<Rightarrow> LocalPosProduct list db_act" where
  "listProducts businessId = readA (\<lambda>s. filter (\<lambda>p. pd_business_id p = businessId) (db_products s))"

definition listProductUnits :: "string \<Rightarrow> string option \<Rightarrow> LocalPosProductUnit list db_act" where
  "listProductUnits businessId productId =
     (case productId of
        Some p \<Rightarrow> readA (\<lambda>s. filter (\<lambda>u. pu_business_id u = businessId \<and> pu_product_id u = p) (db_product_units s))
      | None \<Rightarrow> readA (\<lambda>s. filter (\<lambda>u. pu_business_id u = businessId) (db_product_units s)))"

definition listBarcodes :: "string \<Rightarrow> string option \<Rightarrow> LocalPosBarcode list db_act" where
  "listBarcodes businessId productUnitId =
     (case productUnitId of
        Some u \<Rightarrow> readA (\<lambda>s. filter (\<lambda>b. bc_business_id b = businessId \<and> bc_product_unit_id b = u) (db_barcodes s))
      | None \<Rightarrow> readA (\<lambda>s. filter (\<lambda>b. bc_business_id b = businessId) (db_barcodes s)))"

definition known_status :: "string \<Rightarrow> bool" where
  "known_status status = (status = ''ACTIVE'' \<or> status = ''INACTIVE'')"

definition checkProduct :: "string list \<Rightarrow> PosCatalogBootstrapProduct \<Rightarrow> string list result" where
  "checkProduct productIds p =
     bindE (throwIf (kp_id p \<in> set productIds) (JsError ''Duplicate Product ID'')) (\<lambda>_.
     bindE (throwUnless (known_status (kp_status p)) (JsError ''Invalid Product.status'')) (\<lambda>_.
     Inr (kp_id p # productIds)))"

definition checkProductUnit ::
  "string list \<Rightarrow> string list \<Rightarrow> PosCatalogBootstrapProductUnit \<Rightarrow> string list result" where
  "checkProductUnit productIds productUnitIds u =
     bindE (throwIf (ku_id u \<in> set productUnitIds) (JsError ''Duplicate ProductUnit ID'')) (\<lambda>_.
     bindE (throwUnless (ku_product_id u \<in> set productIds) (JsError ''Dangling ProductUnit.product_id'')) (\<lambda>_.
     bindE (throwUnless (known_status (ku_status u)) (JsError ''Invalid ProductUnit.status'')) (\<lambda>_.
     case ku_conversion_factor u of
       JStr _ \<Rightarrow> Inr (ku_id u # productUnitIds)
     | _ \<Rightarrow> Inl (JsError ''ProductUnit.conversion_factor must be a string''))))"

definition checkBarcode ::
  "string list \<Rightarrow> string list \<times> string list \<Rightarrow> PosCatalogBootstrapBarcode \<Rightarrow> (string list \<times> string list) result" where
  "checkBarcode productUnitIds st b =
     (case st of (barcodeIds, activeBarcodes) \<Rightarrow>
      bindE (throwIf (kb_id b \<in> set barcodeIds) (JsError ''Duplicate Barcode ID'')) (\<lambda>_.
      bindE (throwUnless (kb_product_unit_id b \<in> set productUnitIds)
               (JsError ''Dangling Barcode.product_unit_id'')) (\<lambda>_.
      bindE (throwUnless (known_status (kb_status b)) (JsError ''Invalid Barcode.status'')) (\<lambda>_.
      case kb_barcode b of
        JStr barcode \<Rightarrow>
          if kb_status b = ''ACTIVE'' then
            bindE (throwIf (barcode \<in> set activeBarcodes)
                     (JsError ''Duplicate ACTIVE barcode for same business'')) (\<lambda>_.
            Inr (kb_id b # barcodeIds, barcode # activeBarcodes))
          else Inr (kb_id b # barcodeIds, activeBarcodes)
      | _ \<Rightarrow> Inl (JsError ''Barcode must be a string'')))))"

definition validateCatalogSnapshot :: "PosCatalogBootstrapSnapshot \<Rightarrow> unit result" where
  "validateCatalogSnapshot snapshot =
     bindE (throwUnless (ks_bootstrap_version snapshot = JNum 1) (JsError ''Unsupported bootstrap version'')) (\<lambda>_.
     bindE (throwIf (ks_business_id snapshot = '''') (JsError ''business_id is required'')) (\<lambda>_.
     bindE (foldE checkProduct [] (ks_products snapshot)) (\<lambda>productIds.
     bindE (foldE (checkProductUnit productIds) [] (ks_product_units snapshot)) (\<lambda>productUnitIds.
     bindE (foldE (checkBarcode productUnitIds) ([], []) (ks_barcodes snapshot)) (\<lambda>_.
     Inr ())))))"

text \<open>The rows that are stored. The texts are the checked ones.\<close>

definition row_status :: "string \<Rightarrow> RowStatus" where
  "row_status status = (if status = ''ACTIVE'' then ACTIVE else INACTIVE)"

definition json_text :: "json \<Rightarrow> string" where
  "json_text j = (case j of JStr t \<Rightarrow> t | _ \<Rightarrow> '''')"

definition product_row :: "string \<Rightarrow> PosCatalogBootstrapProduct \<Rightarrow> LocalPosProduct" where
  "product_row businessId p = \<lparr>pd_id = kp_id p, pd_business_id = businessId, pd_sku = kp_sku p,
     pd_name = kp_name p, pd_base_unit_code = kp_base_unit_code p,
     pd_track_inventory = kp_track_inventory p, pd_status = row_status (kp_status p),
     pd_version = kp_version p, pd_updated_at = kp_updated_at p\<rparr>"

definition unit_row :: "string \<Rightarrow> PosCatalogBootstrapProductUnit \<Rightarrow> LocalPosProductUnit" where
  "unit_row businessId u = \<lparr>pu_id = ku_id u, pu_business_id = businessId, pu_product_id = ku_product_id u,
     pu_unit_code = ku_unit_code u, pu_display_name = ku_display_name u,
     pu_conversion_factor = json_text (ku_conversion_factor u), pu_can_sell = ku_can_sell u,
     pu_can_purchase = ku_can_purchase u, pu_allow_decimal_qty = ku_allow_decimal_qty u,
     pu_status = row_status (ku_status u), pu_version = ku_version u, pu_updated_at = ku_updated_at u\<rparr>"

definition barcode_row :: "string \<Rightarrow> PosCatalogBootstrapBarcode \<Rightarrow> LocalPosBarcode" where
  "barcode_row businessId b = \<lparr>bc_id = kb_id b, bc_business_id = businessId,
     bc_product_unit_id = kb_product_unit_id b, bc_barcode = json_text (kb_barcode b),
     bc_is_internal = kb_is_internal b, bc_status = row_status (kb_status b),
     bc_deactivated_at = kb_deactivated_at b\<rparr>"

definition catalog_state_row :: "PosCatalogBootstrapSnapshot \<Rightarrow> LocalCatalogBootstrapState" where
  "catalog_state_row snapshot = \<lparr>cb_business_id = ks_business_id snapshot, cb_bootstrap_version = 1,
     cb_server_time = ks_server_time snapshot\<rparr>"

definition catalog_applyInitialBootstrap :: "PosCatalogBootstrapSnapshot \<Rightarrow> unit db_act" where
  "catalog_applyInitialBootstrap snapshot =
     bindA (liftA (validateCatalogSnapshot snapshot)) (\<lambda>_.
     let businessId = ks_business_id snapshot in
     transaction (
       bindA (getCatalogBootstrapState businessId) (\<lambda>existing.
       bindA (liftA (throwIf (existing \<noteq> None) CatalogAlreadyBootstrapped)) (\<lambda>_.
       bindA (tableA db_products db_products_update
                (t_bulkAdd products_schema (map (product_row businessId) (ks_products snapshot)))) (\<lambda>_.
       bindA (tableA db_product_units db_product_units_update
                (t_bulkAdd product_units_schema (map (unit_row businessId) (ks_product_units snapshot)))) (\<lambda>_.
       bindA (tableA db_barcodes db_barcodes_update
                (t_bulkAdd barcodes_schema (map (barcode_row businessId) (ks_barcodes snapshot)))) (\<lambda>_.
       tableA db_catalog_bootstrap_state db_catalog_bootstrap_state_update
         (t_add catalog_bootstrap_state_schema (catalog_state_row snapshot)))))))))"

section \<open>The pricing cache\<close>

definition PRICING_ALREADY_BOOTSTRAPPED :: string where
  "PRICING_ALREADY_BOOTSTRAPPED = ''PRICING_ALREADY_BOOTSTRAPPED''"

text \<open>A \<open>PricingBootstrapError\<close> without a code.\<close>

abbreviation bad_prices :: js_error where
  "bad_prices \<equiv> PricingBootstrapError ''''"

record LocalPricingTimeContext =
  tc_resolved_at :: string
  tc_status :: PricingTimeStatus

text \<open>\<open>typeof value === "string"\<close> gives the text; \<open>timeOf\<close> is \<open>new Date(value).getTime()\<close> of a text.\<close>

definition asString :: "json option \<Rightarrow> string option" where
  "asString v = (case v of Some (JStr t) \<Rightarrow> Some t | _ \<Rightarrow> None)"

definition validTimestamp :: "js_env \<Rightarrow> json option \<Rightarrow> bool" where
  "validTimestamp E v = (case asString v of None \<Rightarrow> False | Some t \<Rightarrow> dateParse E t \<noteq> None)"

definition clockMetadata :: "js_env \<Rightarrow> string \<Rightarrow> string \<Rightarrow> js_number \<times> PricingTimeStatus" where
  "clockMetadata E serverTime appliedAt =
     (case (dateParse E serverTime, dateParse E appliedAt) of
        (Some server, Some applied) \<Rightarrow>
          (JSInt (server - applied),
           if \<bar>server - applied\<bar> \<le> 5 * 60 * 1000 then TRUSTED else CLOCK_UNTRUSTED)
      | _ \<Rightarrow> (JSNotFinite, CLOCK_UNTRUSTED))"

definition retail_tier :: "string \<Rightarrow> string \<Rightarrow> PublishedPriceTier" where
  "retail_tier priceVersionId unitPrice = \<lparr>pt_tier_id = priceVersionId @ '':RETAIL'',
     pt_tier_code = ''RETAIL'', pt_min_qty = ''1'', pt_unit_price = unitPrice, pt_sort_order = JSInt 0\<rparr>"

text \<open>\<open>effective_to\<close>: null is an open end, a text that parses is an end, everything else is refused.\<close>

definition priceEnd :: "js_env \<Rightarrow> json option \<Rightarrow> string option result" where
  "priceEnd E v =
     (if v = Some JNull then Inr None
      else if validTimestamp E v then Inr (asString v) else Inl bad_prices)"

definition nonEmptyString :: "json option \<Rightarrow> string result" where
  "nonEmptyString v = (case asString v of None \<Rightarrow> Inl bad_prices
     | Some t \<Rightarrow> if t = '''' then Inl bad_prices else Inr t)"

definition price_row :: "string \<Rightarrow> string \<Rightarrow> string \<Rightarrow> string \<Rightarrow> string \<Rightarrow> string option \<Rightarrow> LocalPublishedRetailPriceRecord" where
  "price_row business version unitId unitPrice effectiveFrom effectiveTo =
     \<lparr>lp_price_version_id = version, lp_business_id = business, lp_product_unit_id = unitId,
      lp_unit_price = unitPrice, lp_effective_from = effectiveFrom, lp_effective_to = effectiveTo,
      lp_status = PRICE_ACTIVE, lp_tiers = [retail_tier version unitPrice]\<rparr>"

definition checkPriceRow ::
  "'d decimal_ops \<Rightarrow> js_env \<Rightarrow> string \<Rightarrow> LocalPosProductUnit list \<Rightarrow>
   string list \<times> string list \<times> LocalPublishedRetailPriceRecord list \<Rightarrow> (string \<times> json) list \<Rightarrow>
   (string list \<times> string list \<times> LocalPublishedRetailPriceRecord list) result" where
  "checkPriceRow D E business units st price =
     (case st of (versionSet, unitSet, toInsert) \<Rightarrow>
      bindE (nonEmptyString (jget price ''price_version_id'')) (\<lambda>version.
      bindE (nonEmptyString (jget price ''product_unit_id'')) (\<lambda>unitId.
      bindE (case asString (jget price ''unit_price'') of None \<Rightarrow> Inl bad_prices | Some t \<Rightarrow> Inr t) (\<lambda>unitPrice.
      bindE (throwIf (version \<in> set versionSet) bad_prices) (\<lambda>_.
      bindE (throwIf (unitId \<in> set unitSet) bad_prices) (\<lambda>_.
      bindE (catchE (parseMoney D unitPrice) (\<lambda>_. Inl bad_prices)) (\<lambda>_.
      bindE (throwUnless (validTimestamp E (jget price ''effective_from'')) bad_prices) (\<lambda>_.
      bindE (priceEnd E (jget price ''effective_to'')) (\<lambda>effectiveTo.
      let effectiveFrom = the (asString (jget price ''effective_from'')) in
      bindE (throwIf (effectiveTo \<noteq> None \<and>
               the (dateParse E (the effectiveTo)) \<le> the (dateParse E effectiveFrom)) bad_prices) (\<lambda>_.
      bindE (throwIf (case t_get product_units_schema unitId units of None \<Rightarrow> True
               | Some pu \<Rightarrow> pu_business_id pu \<noteq> business) bad_prices) (\<lambda>_.
      Inr (version # versionSet, unitId # unitSet,
           toInsert @ [price_row business version unitId unitPrice effectiveFrom effectiveTo]))))))))))))"

text \<open>\<open>now\<close> is the clock reading of \<open>new Date()\<close>. A \<open>null\<close> snapshot is \<open>None\<close>.\<close>

definition pricing_applyInitialBootstrap ::
  "'d decimal_ops \<Rightarrow> js_env \<Rightarrow> int \<Rightarrow> PosPublishedRetailPriceBootstrapSnapshot option \<Rightarrow> unit db_act" where
  "pricing_applyInitialBootstrap D E now snapshotArg =
     (case snapshotArg of None \<Rightarrow> throwA bad_prices | Some snapshot \<Rightarrow>
      bindA (liftA (throwIf (xs_bootstrap_version snapshot \<noteq> JNum 1) bad_prices)) (\<lambda>_.
      bindA (liftA (nonEmptyString (Some (xs_business_id snapshot)))) (\<lambda>business_id.
      bindA (liftA (throwUnless (validTimestamp E (Some (xs_server_time snapshot))) bad_prices)) (\<lambda>_.
      let server_time = json_text (xs_server_time snapshot); appliedAt = toISOString E now;
          clock = clockMetadata E server_time appliedAt in
      transaction (
        bindA (readA (\<lambda>s. t_get pricing_bootstrap_state_schema business_id (db_pricing_bootstrap_state s))) (\<lambda>existingState.
        bindA (liftA (throwIf (existingState \<noteq> None) (PricingBootstrapError PRICING_ALREADY_BOOTSTRAPPED))) (\<lambda>_.
        bindA (readA db_product_units) (\<lambda>units.
        bindA (liftA (foldE (checkPriceRow D E business_id units) ([], [], []) (xs_prices snapshot))) (\<lambda>(_, _, toInsert).
        bindA (if toInsert \<noteq> []
               then tableA db_published_retail_prices db_published_retail_prices_update
                      (t_bulkAdd published_retail_prices_schema toInsert)
               else retA ()) (\<lambda>_.
        tableA db_pricing_bootstrap_state db_pricing_bootstrap_state_update
          (t_add pricing_bootstrap_state_schema
            \<lparr>pb_business_id = business_id, pb_bootstrap_version = 1, pb_server_time = server_time,
             pb_applied_at = appliedAt, pb_clock_offset_ms = fst clock, pb_clock_trust_status = snd clock\<rparr>)))))))))))"

definition getPricingBootstrapState :: "string \<Rightarrow> LocalPricingBootstrapState option db_act" where
  "getPricingBootstrapState businessId =
     readA (\<lambda>s. t_get pricing_bootstrap_state_schema businessId (db_pricing_bootstrap_state s))"

text \<open>
  The clock the server last confirmed: server time, trust and offset of the newest sync state of the
  business, or of the price bootstrap when it never synchronised.
\<close>

definition selectedClock :: "js_env \<Rightarrow> string \<Rightarrow> pos_db \<Rightarrow> (string \<times> PricingTimeStatus \<times> js_number) option" where
  "selectedClock E businessId s =
     (let syncStates = filter (\<lambda>r. st_business_id r = businessId) (db_sync_state s) in
      case sort_by (\<lambda>left right. localeCompare E (st_updated_at right) (st_updated_at left)) syncStates of
        state # _ \<Rightarrow> Some (st_server_time state, st_clock_trust_status state, st_clock_offset_ms state)
      | [] \<Rightarrow> map_option (\<lambda>b. (pb_server_time b, pb_clock_trust_status b, pb_clock_offset_ms b))
                (t_get pricing_bootstrap_state_schema businessId (db_pricing_bootstrap_state s)))"

definition shiftedNow :: "js_env \<Rightarrow> int \<Rightarrow> js_number \<Rightarrow> string result" where
  "shiftedNow E now offset =
     (let t = of_int now + (if isFinite offset then js_rat offset else 0) in
      if \<bar>t\<bar> > 8640000000000000 then Inl (JsError ''Invalid time value'')
      else Inr (toISOString E (trunc_rat t)))"

definition getPricingTimeContext :: "js_env \<Rightarrow> int \<Rightarrow> string \<Rightarrow> LocalPricingTimeContext db_act" where
  "getPricingTimeContext E now businessId =
     bindA (readA (selectedClock E businessId)) (\<lambda>selected.
     case selected of
       None \<Rightarrow> retA \<lparr>tc_resolved_at = toISOString E now, tc_status = CLOCK_UNTRUSTED\<rparr>
     | Some (server_time, trust, offset) \<Rightarrow>
         (case dateParse E server_time of
            None \<Rightarrow> retA \<lparr>tc_resolved_at = toISOString E now, tc_status = CLOCK_UNTRUSTED\<rparr>
          | Some server \<Rightarrow>
              if trust = TRUSTED then
                bindA (liftA (shiftedNow E now offset)) (\<lambda>resolved_at.
                retA \<lparr>tc_resolved_at = resolved_at, tc_status = TRUSTED\<rparr>)
              else retA \<lparr>tc_resolved_at = toISOString E server, tc_status = CLOCK_UNTRUSTED\<rparr>))"

text \<open>A comparison with \<open>NaN\<close> (a text that is no time) is false.\<close>

definition priceInForce :: "js_env \<Rightarrow> int option \<Rightarrow> LocalPublishedRetailPriceRecord \<Rightarrow> bool" where
  "priceInForce E asOf record =
     ((lp_status record = PRICE_ACTIVE \<or> lp_status record = PRICE_SCHEDULED) \<and>
      (case (dateParse E (lp_effective_from record), asOf) of
         (Some start, Some t) \<Rightarrow> start \<le> t \<and>
           (case lp_effective_to record of None \<Rightarrow> True
            | Some e \<Rightarrow> (case dateParse E e of None \<Rightarrow> False | Some ends \<Rightarrow> t < ends))
       | _ \<Rightarrow> False))"

definition newerPrice ::
  "js_env \<Rightarrow> LocalPublishedRetailPriceRecord \<Rightarrow> LocalPublishedRetailPriceRecord \<Rightarrow> int" where
  "newerPrice E left right =
     (let c = localeCompare E (lp_effective_from right) (lp_effective_from left) in
      if c \<noteq> 0 then c else localeCompare E (lp_price_version_id left) (lp_price_version_id right))"

definition getPublishedRetailPrice ::
  "js_env \<Rightarrow> int \<Rightarrow> string \<Rightarrow> string \<Rightarrow> LocalPublishedRetailPriceRecord option db_act" where
  "getPublishedRetailPrice E now businessId productUnitId =
     bindA (readA (\<lambda>s. filter (\<lambda>r. lp_business_id r = businessId \<and> lp_product_unit_id r = productUnitId)
                          (db_published_retail_prices s))) (\<lambda>records.
     bindA (getPricingTimeContext E now businessId) (\<lambda>time.
     let asOf = dateParse E (tc_resolved_at time) in
     retA (case sort_by (newerPrice E) (filter (priceInForce E asOf) records) of [] \<Rightarrow> None | r # _ \<Rightarrow> Some r)))"

definition listPublishedRetailPrices :: "string \<Rightarrow> LocalPublishedRetailPriceRecord list db_act" where
  "listPublishedRetailPrices businessId =
     readA (\<lambda>s. filter (\<lambda>r. lp_business_id r = businessId) (db_published_retail_prices s))"

definition promotionType :: "json option \<Rightarrow> PublishedPromotionType option" where
  "promotionType v =
     (case asString v of
        None \<Rightarrow> None
      | Some t \<Rightarrow> if t = ''FIXED_PRICE'' then Some FIXED_PRICE
                  else if t = ''PERCENT_DISCOUNT'' then Some PERCENT_DISCOUNT
                  else if t = ''FIXED_DISCOUNT'' then Some FIXED_DISCOUNT else None)"

definition safePriority :: "json option \<Rightarrow> js_number option" where
  "safePriority v = (case v of Some (JNum i) \<Rightarrow> if isSafeInteger (JSInt i) then Some (JSInt i) else None | _ \<Rightarrow> None)"

definition parses :: "'a result \<Rightarrow> bool" where
  "parses r = (case r of Inl _ \<Rightarrow> False | Inr _ \<Rightarrow> True)"

text \<open>The body of the loop: the promotion a stored payload gives, \<open>None\<close> where the loop continues.\<close>

definition applicablePromotion ::
  "'d decimal_ops \<Rightarrow> js_env \<Rightarrow> int option \<Rightarrow> string \<Rightarrow> (string \<times> json) list \<Rightarrow> PublishedPromotion option" where
  "applicablePromotion D E asOf productUnitId row =
     (if jget row ''product_unit_id'' \<noteq> Some (JStr productUnitId) then None
      else if jget row ''status'' \<noteq> Some (JStr ''ACTIVE'') \<and> jget row ''status'' \<noteq> Some (JStr ''SCHEDULED'') then None
      else case (asString (jget row ''id''), promotionType (jget row ''promotion_type''),
                 asString (jget row ''value''), asString (jget row ''min_qty''),
                 safePriority (jget row ''priority'')) of
        (Some rowId, Some promotion_type, Some val, Some min_qty, Some priority) \<Rightarrow>
          if \<not> validTimestamp E (jget row ''effective_from'') \<or> \<not> validTimestamp E (jget row ''effective_to'') \<or>
             \<not> validTimestamp E (jget row ''created_at'') then None
          else
            (let effective_from = the (asString (jget row ''effective_from''));
                 effective_to = the (asString (jget row ''effective_to'')) in
             if asOf \<noteq> None \<and> (the (dateParse E effective_from) > the asOf \<or> the asOf \<ge> the (dateParse E effective_to))
             then None
             else if \<not> parses (parseMoney D val) \<or> \<not> parses (parseQuantity D min_qty) then None
             else Some \<lparr>pp_promotion_id = rowId, pp_promotion_type = promotion_type, pp_value = val,
                    pp_min_qty = min_qty, pp_priority = priority, pp_effective_from = effective_from,
                    pp_effective_to = effective_to, pp_created_at = the (asString (jget row ''created_at''))\<rparr>)
      | _ \<Rightarrow> None)"

definition listApplicablePromotions ::
  "'d decimal_ops \<Rightarrow> js_env \<Rightarrow> int \<Rightarrow> string \<Rightarrow> string \<Rightarrow> PublishedPromotion list db_act" where
  "listApplicablePromotions D E now businessId productUnitId =
     bindA (getPricingTimeContext E now businessId) (\<lambda>time.
     let asOf = dateParse E (tc_resolved_at time) in
     bindA (readA (\<lambda>s. filter (\<lambda>r. op_business_id r = businessId) (db_promotions s))) (\<lambda>records.
     retA (List.map_filter (\<lambda>r. applicablePromotion D E asOf productUnitId (op_payload r)) records)))"

section \<open>The audit store\<close>

definition getEventsForEntity ::
  "js_env \<Rightarrow> string \<Rightarrow> string \<Rightarrow> string \<Rightarrow> LocalAuditEventRecord list db_act" where
  "getEventsForEntity E businessId entityType entityId =
     readA (\<lambda>s. sort_by (\<lambda>left right. localeCompare E (ae_occurred_at left) (ae_occurred_at right))
       (filter (\<lambda>e. ae_business_id e = businessId \<and> ae_entity_type e = entityType \<and> ae_entity_id e = entityId)
          (db_audit_events s)))"

section \<open>What the checks of a snapshot give\<close>

lemma checkProducts_Inr:
  "foldE checkProduct ids ps = Inr ids' \<Longrightarrow> set ids' = set ids \<union> kp_id ` set ps"
  by (induction ps arbitrary: ids) (auto simp: checkProduct_def result_simps)

lemma checkProductUnits_Inr:
  "foldE (checkProductUnit pids) uids us = Inr uids' \<Longrightarrow>
     set uids' = set uids \<union> ku_id ` set us \<and> ku_product_id ` set us \<subseteq> set pids"
  by (induction us arbitrary: uids) (auto simp: checkProductUnit_def result_simps split: json.splits)

definition active_texts :: "PosCatalogBootstrapBarcode list \<Rightarrow> string list" where
  "active_texts bs = map (json_text \<circ> kb_barcode) (filter (\<lambda>b. kb_status b = ''ACTIVE'') bs)"

lemma checkBarcodes_Inr:
  "foldE (checkBarcode uids) (bids, act) bs = Inr st \<Longrightarrow>
     kb_product_unit_id ` set bs \<subseteq> set uids \<and> distinct (active_texts bs) \<and> set (active_texts bs) \<inter> set act = {}"
proof (induction bs arbitrary: bids act)
  case (Cons b bs)
  then obtain bids' act' where st: "checkBarcode uids (bids, act) b = Inr (bids', act')"
    "foldE (checkBarcode uids) (bids', act') bs = Inr st" by (auto simp: bindE_eq_Inr)
  note IH = Cons.IH [OF st(2)]
  from st(1) show ?case using IH
    by (auto simp: checkBarcode_def active_texts_def json_text_def result_simps split: json.splits if_splits)
qed (simp add: active_texts_def)

lemma validateCatalog_Inr:
  assumes "validateCatalogSnapshot snap = Inr u"
  shows "ku_product_id ` set (ks_product_units snap) \<subseteq> kp_id ` set (ks_products snap)"
    and "kb_product_unit_id ` set (ks_barcodes snap) \<subseteq> ku_id ` set (ks_product_units snap)"
    and "distinct (active_texts (ks_barcodes snap))"
proof -
  from assms obtain pids uids st where
    "foldE checkProduct [] (ks_products snap) = Inr pids"
    "foldE (checkProductUnit pids) [] (ks_product_units snap) = Inr uids"
    "foldE (checkBarcode uids) ([], []) (ks_barcodes snap) = Inr st"
    by (auto simp: validateCatalogSnapshot_def result_simps)
  from checkProducts_Inr [OF this(1)] checkProductUnits_Inr [OF this(2)] checkBarcodes_Inr [OF this(3)]
  show "ku_product_id ` set (ks_product_units snap) \<subseteq> kp_id ` set (ks_products snap)"
    "kb_product_unit_id ` set (ks_barcodes snap) \<subseteq> ku_id ` set (ks_product_units snap)"
    "distinct (active_texts (ks_barcodes snap))" by auto
qed

lemma active_rows: "map bc_barcode (filter (\<lambda>b. bc_status b = ACTIVE) (map (barcode_row b) bs)) = active_texts bs"
  by (induction bs) (auto simp: active_texts_def barcode_row_def row_status_def)

lemma row_keys [simp]:
  "pd_id (product_row b p) = kp_id p" "pu_id (unit_row b u) = ku_id u" "pu_product_id (unit_row b u) = ku_product_id u"
  "bc_id (barcode_row b c) = kb_id c" "bc_product_unit_id (barcode_row b c) = kb_product_unit_id c"
  by (simp_all add: product_row_def unit_row_def barcode_row_def)

section \<open>Bootstrapping once\<close>

text \<open>A bulk insertion into one table, and an insertion of one row, as the two caches use them.\<close>

lemma add_rows:
  assumes "tableA rd wr (t_bulkAdd S rs) s = (Inr u, s')" "t_ok S (rd s)"
  obtains t where "s' = wr (\<lambda>_. t) s" "t_ok S t" "set t = set (rd s) \<union> set rs"
  using assms bulkAdd_Inr [OF _ assms(2)] by (auto simp: tableA_eq_Inr)

lemma add_row:
  assumes "tableA rd wr (t_add S r) s = (Inr u, s')" "t_ok S (rd s)"
  obtains t where "s' = wr (\<lambda>_. t) s" "t_ok S t" "set t = insert r (set (rd s))" "t_get S (sch_key S r) t = Some r"
  using assms tbl.add_Inr [OF assms(2)] tbl.get_add [OF assms(2)] by (auto simp: tableA_eq_Inr)

lemma projectionStore_catalog [simp]:
  "projectionStore et (db_products_update f s) = projectionStore et s"
  "projectionStore et (db_product_units_update g s) = projectionStore et s"
  "projectionStore et (db_barcodes_update h s) = projectionStore et s"
  "projectionStore et (db_catalog_bootstrap_state_update i s) = projectionStore et s"
  "projectionStore et (db_published_retail_prices_update j s) = projectionStore et s"
  "projectionStore et (db_pricing_bootstrap_state_update k s) = projectionStore et s"
  by (cases et; simp)+

lemma catalogBootstrap_Inr:
  assumes "feed_ok s" "catalog_applyInitialBootstrap snap s = (Inr u, s')"
  obtains ps us bs st where "validateCatalogSnapshot snap = Inr ()"
    "s' = s\<lparr>db_products := ps, db_product_units := us, db_barcodes := bs, db_catalog_bootstrap_state := st\<rparr>"
    "t_ok products_schema ps" "set ps = set (db_products s) \<union> product_row (ks_business_id snap) ` set (ks_products snap)"
    "t_ok product_units_schema us"
    "set us = set (db_product_units s) \<union> unit_row (ks_business_id snap) ` set (ks_product_units snap)"
    "t_ok barcodes_schema bs" "set bs = set (db_barcodes s) \<union> barcode_row (ks_business_id snap) ` set (ks_barcodes snap)"
    "t_ok catalog_bootstrap_state_schema st"
    "t_get catalog_bootstrap_state_schema (ks_business_id snap) st = Some (catalog_state_row snap)"
proof -
  note ok = assms(1) [unfolded feed_ok_def]
  from assms(2) obtain s1 s2 s3 where v: "validateCatalogSnapshot snap = Inr ()"
    and 1: "tableA db_products db_products_update
      (t_bulkAdd products_schema (map (product_row (ks_business_id snap)) (ks_products snap))) s = (Inr (), s1)"
    and 2: "tableA db_product_units db_product_units_update
      (t_bulkAdd product_units_schema (map (unit_row (ks_business_id snap)) (ks_product_units snap))) s1 = (Inr (), s2)"
    and 3: "tableA db_barcodes db_barcodes_update
      (t_bulkAdd barcodes_schema (map (barcode_row (ks_business_id snap)) (ks_barcodes snap))) s2 = (Inr (), s3)"
    and 4: "tableA db_catalog_bootstrap_state db_catalog_bootstrap_state_update
      (t_add catalog_bootstrap_state_schema (catalog_state_row snap)) s3 = (Inr (), s')"
    by (auto simp: catalog_applyInitialBootstrap_def getCatalogBootstrapState_def Let_def bindA_eq_Inr
        transaction_eq_Inr throwIf_eq_Inr simp del: schema_defs)
  from 1 ok obtain ps where ps: "s1 = db_products_update (\<lambda>_. ps) s" "t_ok products_schema ps"
    "set ps = set (db_products s) \<union> product_row (ks_business_id snap) ` set (ks_products snap)"
    by (elim add_rows) (simp_all del: schema_defs)
  from 2 ok ps(1) obtain us where us: "s2 = db_product_units_update (\<lambda>_. us) s1" "t_ok product_units_schema us"
    "set us = set (db_product_units s) \<union> unit_row (ks_business_id snap) ` set (ks_product_units snap)"
    by (elim add_rows) (simp_all del: schema_defs)
  from 3 ok ps(1) us(1) obtain bs where bs: "s3 = db_barcodes_update (\<lambda>_. bs) s2" "t_ok barcodes_schema bs"
    "set bs = set (db_barcodes s) \<union> barcode_row (ks_business_id snap) ` set (ks_barcodes snap)"
    by (elim add_rows) (simp_all del: schema_defs)
  have "sch_key catalog_bootstrap_state_schema (catalog_state_row snap) = ks_business_id snap"
    by (simp add: catalog_state_row_def)
  with 4 ok ps(1) us(1) bs(1) obtain st where st: "s' = db_catalog_bootstrap_state_update (\<lambda>_. st) s3"
    "t_ok catalog_bootstrap_state_schema st"
    "t_get catalog_bootstrap_state_schema (ks_business_id snap) st = Some (catalog_state_row snap)"
    by (elim add_row) (simp_all del: schema_defs)
  show thesis
    by (rule that [where ps = ps and us = us and bs = bs and st = st])
      (simp_all add: v ps us bs st del: schema_defs)
qed

lemma catalogBootstrap_Inl: "catalog_applyInitialBootstrap snap s = (Inl e, s') \<Longrightarrow> s' = s"
  by (auto simp: catalog_applyInitialBootstrap_def Let_def bindA_eq_Inl transaction_eq_Inl)

text \<open>
  C29. The catalog is bootstrapped once, entirely or not at all. A refused snapshot changes nothing. An accepted
  one adds exactly its rows, every stored unit names a product and every stored barcode a unit of the
  snapshot, no two of its active barcodes are the same text, the constraints of the tables still hold, and
  any later snapshot of the business that is well formed is refused as already bootstrapped.
\<close>

theorem catalog_bootstrap_once:
  assumes "feed_ok s"
  shows "case catalog_applyInitialBootstrap snap s of
      (Inl e, s') \<Rightarrow> s' = s
    | (Inr u, s') \<Rightarrow> feed_ok s' \<and>
        set (db_products s') = set (db_products s) \<union> product_row (ks_business_id snap) ` set (ks_products snap) \<and>
        set (db_product_units s') = set (db_product_units s) \<union> unit_row (ks_business_id snap) ` set (ks_product_units snap) \<and>
        set (db_barcodes s') = set (db_barcodes s) \<union> barcode_row (ks_business_id snap) ` set (ks_barcodes snap) \<and>
        pu_product_id ` set (map (unit_row (ks_business_id snap)) (ks_product_units snap)) \<subseteq> pd_id ` set (db_products s') \<and>
        bc_product_unit_id ` set (map (barcode_row (ks_business_id snap)) (ks_barcodes snap)) \<subseteq> pu_id ` set (db_product_units s') \<and>
        distinct (map bc_barcode (filter (\<lambda>b. bc_status b = ACTIVE) (map (barcode_row (ks_business_id snap)) (ks_barcodes snap)))) \<and>
        (\<forall>snap2. ks_business_id snap2 = ks_business_id snap \<longrightarrow> validateCatalogSnapshot snap2 = Inr () \<longrightarrow>
           catalog_applyInitialBootstrap snap2 s' = (Inl CatalogAlreadyBootstrapped, s'))"
proof -
  obtain r s' where run: "catalog_applyInitialBootstrap snap s = (r, s')" by fastforce
  show ?thesis
  proof (cases r)
    case (Inl e)
    then show ?thesis using run catalogBootstrap_Inl [of snap s e s'] by simp
  next
    case (Inr u)
    from assms run [unfolded Inr] obtain ps us bs st where v: "validateCatalogSnapshot snap = Inr ()"
      and s': "s' = s\<lparr>db_products := ps, db_product_units := us, db_barcodes := bs, db_catalog_bootstrap_state := st\<rparr>"
      and ok: "t_ok products_schema ps" "t_ok product_units_schema us" "t_ok barcodes_schema bs"
        "t_ok catalog_bootstrap_state_schema st"
      and set: "set ps = set (db_products s) \<union> product_row (ks_business_id snap) ` set (ks_products snap)"
        "set us = set (db_product_units s) \<union> unit_row (ks_business_id snap) ` set (ks_product_units snap)"
        "set bs = set (db_barcodes s) \<union> barcode_row (ks_business_id snap) ` set (ks_barcodes snap)"
      and get: "t_get catalog_bootstrap_state_schema (ks_business_id snap) st = Some (catalog_state_row snap)"
      by (rule catalogBootstrap_Inr)
    have "feed_ok s'" using assms ok by (simp add: feed_ok_def s' del: schema_defs)
    moreover have "pu_product_id ` set (map (unit_row (ks_business_id snap)) (ks_product_units snap)) \<subseteq> pd_id ` set (db_products s')"
      using validateCatalog_Inr(1) [OF v] by (simp add: s' set image_Un image_image row_keys le_supI2)
    moreover have "bc_product_unit_id ` set (map (barcode_row (ks_business_id snap)) (ks_barcodes snap)) \<subseteq> pu_id ` set (db_product_units s')"
      using validateCatalog_Inr(2) [OF v] by (simp add: s' set image_Un image_image row_keys le_supI2)
    moreover have "set (db_products s') = set (db_products s) \<union> product_row (ks_business_id snap) ` set (ks_products snap)"
      "set (db_product_units s') = set (db_product_units s) \<union> unit_row (ks_business_id snap) ` set (ks_product_units snap)"
      "set (db_barcodes s') = set (db_barcodes s) \<union> barcode_row (ks_business_id snap) ` set (ks_barcodes snap)"
      by (simp_all add: s' set)
    moreover have "catalog_applyInitialBootstrap snap2 s' = (Inl CatalogAlreadyBootstrapped, s')"
      if "ks_business_id snap2 = ks_business_id snap" "validateCatalogSnapshot snap2 = Inr ()" for snap2
      using get that by (simp add: catalog_applyInitialBootstrap_def getCatalogBootstrapState_def Let_def s'
          transaction_def bindA_def del: schema_defs)
    ultimately show ?thesis unfolding run Inr active_rows prod.case sum.case
      using validateCatalog_Inr(3) [OF v] by blast
  qed
qed

section \<open>Bootstrapping prices\<close>

text \<open>What a stored price of the snapshot satisfies.\<close>

definition price_sound ::
  "'d decimal_ops \<Rightarrow> js_env \<Rightarrow> string \<Rightarrow> LocalPosProductUnit list \<Rightarrow> LocalPublishedRetailPriceRecord \<Rightarrow> bool" where
  "price_sound D E business units r =
     (lp_business_id r = business \<and> lp_price_version_id r \<noteq> '''' \<and>
      (\<exists>pu \<in> set units. pu_id pu = lp_product_unit_id r \<and> pu_business_id pu = business) \<and>
      parses (parseMoney D (lp_unit_price r)) \<and>
      (\<exists>start. dateParse E (lp_effective_from r) = Some start \<and>
         (case lp_effective_to r of None \<Rightarrow> True | Some e \<Rightarrow> (\<exists>ends. dateParse E e = Some ends \<and> start < ends))) \<and>
      lp_tiers r = [retail_tier (lp_price_version_id r) (lp_unit_price r)])"

lemma checkPriceRow_Inr:
  assumes "checkPriceRow D E b units (versions, unitIds, acc) row = Inr st'"
  obtains r where "st' = (lp_price_version_id r # versions, lp_product_unit_id r # unitIds, acc @ [r])"
    "price_sound D E b units r" "lp_price_version_id r \<notin> set versions" "lp_product_unit_id r \<notin> set unitIds"
proof -
  from assms obtain v u p f e q start where
    v: "nonEmptyString (jget row ''price_version_id'') = Inr v" "v \<notin> set versions"
    and u: "u \<notin> set unitIds" "\<not> (case t_get product_units_schema u units of None \<Rightarrow> True | Some pu \<Rightarrow> pu_business_id pu \<noteq> b)"
    and p: "parseMoney D p = Inr q" and f: "dateParse E f = Some start"
    and e: "priceEnd E (jget row ''effective_to'') = Inr e"
      "\<not> (e \<noteq> None \<and> the (dateParse E (the e)) \<le> the (dateParse E f))"
    and st': "st' = (v # versions, u # unitIds, acc @ [price_row b v u p f e])"
    by (auto simp: checkPriceRow_def result_simps Let_def validTimestamp_def
        simp del: schema_defs split: option.splits)
  have "v \<noteq> ''''" using v(1) by (auto simp: nonEmptyString_def split: option.splits if_splits)
  moreover have "\<exists>pu \<in> set units. pu_id pu = u \<and> pu_business_id pu = b"
    using u(2) by (auto simp: t_get_def dest!: find_SomeD split: option.splits)
  moreover have "dateParse E w \<noteq> None" if "e = Some w" for w
    using e(1) that by (auto simp: priceEnd_def validTimestamp_def split: if_splits option.splits)
  ultimately have "price_sound D E b units (price_row b v u p f e)"
    using p f e(2) by (cases e) (auto simp: price_sound_def price_row_def parses_def)
  then show thesis using that [of "price_row b v u p f e"] v(2) u(1) by (simp add: st' price_row_def)
qed

lemma checkPriceRows_Inr:
  "foldE (checkPriceRow D E b units) (vs, us, acc) rows = Inr st' \<Longrightarrow>
   \<exists>new. snd (snd st') = acc @ new \<and> length new = length rows \<and> list_all (price_sound D E b units) new \<and>
     distinct (map lp_product_unit_id new) \<and> set (map lp_product_unit_id new) \<inter> set us = {}"
proof (induction rows arbitrary: vs us acc)
  case (Cons row rows)
  then obtain st1 where "checkPriceRow D E b units (vs, us, acc) row = Inr st1"
    and rest: "foldE (checkPriceRow D E b units) st1 rows = Inr st'" by (auto simp: bindE_eq_Inr)
  from this(1) obtain r where r: "st1 = (lp_price_version_id r # vs, lp_product_unit_id r # us, acc @ [r])"
    "price_sound D E b units r" "lp_product_unit_id r \<notin> set us" by (rule checkPriceRow_Inr)
  from Cons.IH [OF rest [unfolded r(1)]] obtain new where "snd (snd st') = (acc @ [r]) @ new" "length new = length rows"
    "list_all (price_sound D E b units) new" "distinct (map lp_product_unit_id new)"
    "set (map lp_product_unit_id new) \<inter> set (lp_product_unit_id r # us) = {}" by blast
  then show ?case using r(2,3) by (intro exI [of _ "r # new"]) auto
qed auto

lemma pricingBootstrap_Inl: "pricing_applyInitialBootstrap D E now snap s = (Inl e, s') \<Longrightarrow> s' = s"
  by (auto simp: pricing_applyInitialBootstrap_def Let_def bindA_eq_Inl transaction_eq_Inl split: option.splits)

lemma pricingBootstrap_Inr:
  assumes "feed_ok s" "pricing_applyInitialBootstrap D E now snapArg s = (Inr u, s')"
  obtains snap b new prices states st where "snapArg = Some snap" "xs_business_id snap = JStr b"
    "s' = s\<lparr>db_published_retail_prices := prices, db_pricing_bootstrap_state := states\<rparr>"
    "t_ok published_retail_prices_schema prices" "set prices = set (db_published_retail_prices s) \<union> set new"
    "length new = length (xs_prices snap)" "list_all (price_sound D E b (db_product_units s)) new"
    "distinct (map lp_product_unit_id new)"
    "t_ok pricing_bootstrap_state_schema states" "t_get pricing_bootstrap_state_schema b states = Some st"
proof -
  note ok = assms(1) [unfolded feed_ok_def]
  from assms(2) obtain snap b vs us new s1 st where snap: "snapArg = Some snap" "xs_business_id snap = JStr b"
    and rows: "foldE (checkPriceRow D E b (db_product_units s)) ([], [], []) (xs_prices snap) = Inr (vs, us, new)"
    and 1: "(if new \<noteq> [] then tableA db_published_retail_prices db_published_retail_prices_update
          (t_bulkAdd published_retail_prices_schema new) else retA ()) s = (Inr (), s1)"
    and 2: "tableA db_pricing_bootstrap_state db_pricing_bootstrap_state_update (t_add pricing_bootstrap_state_schema st) s1 = (Inr (), s')"
      "pb_business_id st = b"
    by (auto simp: pricing_applyInitialBootstrap_def Let_def bindA_eq_Inr transaction_eq_Inr throwIf_eq_Inr
        nonEmptyString_def asString_def simp del: schema_defs split: option.splits json.splits if_splits)
  obtain prices where prices: "s1 = db_published_retail_prices_update (\<lambda>_. prices) s"
    "t_ok published_retail_prices_schema prices" "set prices = set (db_published_retail_prices s) \<union> set new"
  proof (cases "new = []")
    case True
    then show thesis using that [of "db_published_retail_prices s"] 1 ok by simp
  next
    case False
    then have "tableA db_published_retail_prices db_published_retail_prices_update
        (t_bulkAdd published_retail_prices_schema new) s = (Inr (), s1)" using 1 by simp
    then show thesis using that ok by (elim add_rows) (simp_all del: schema_defs)
  qed
  have "sch_key pricing_bootstrap_state_schema st = b" using 2(2) by simp
  with 2(1) ok prices(1) obtain states where "s' = db_pricing_bootstrap_state_update (\<lambda>_. states) s1"
    "t_ok pricing_bootstrap_state_schema states" "t_get pricing_bootstrap_state_schema b states = Some st"
    by (elim add_row) (simp_all del: schema_defs)
  with prices snap checkPriceRows_Inr [OF rows] show thesis
    by (intro that [where snap = snap and b = b and prices = prices and states = states and new = new and st = st])
      (simp_all del: schema_defs)
qed

text \<open>
  Prices are bootstrapped once, entirely or not at all. A refused snapshot changes nothing. An accepted one
  stores one row per price of the snapshot, at most one per unit, each for a unit of the business, with an
  amount that parses and a period that is not empty, and a second snapshot of the business is refused with
  \<open>PRICING_ALREADY_BOOTSTRAPPED\<close>.
\<close>

theorem price_bootstrap_once:
  assumes "feed_ok s"
  shows "case pricing_applyInitialBootstrap D E now (Some snap) s of
      (Inl e, s') \<Rightarrow> s' = s
    | (Inr u, s') \<Rightarrow> feed_ok s' \<and> db_product_units s' = db_product_units s \<and>
        (\<exists>b new. xs_business_id snap = JStr b \<and> length new = length (xs_prices snap) \<and>
          set (db_published_retail_prices s') = set (db_published_retail_prices s) \<union> set new \<and>
          list_all (price_sound D E b (db_product_units s)) new \<and> distinct (map lp_product_unit_id new)) \<and>
        (\<forall>now2. pricing_applyInitialBootstrap D E now2 (Some snap) s' =
           (Inl (PricingBootstrapError PRICING_ALREADY_BOOTSTRAPPED), s'))"
proof -
  obtain r s' where run: "pricing_applyInitialBootstrap D E now (Some snap) s = (r, s')" by fastforce
  show ?thesis
  proof (cases r)
    case (Inl e)
    then show ?thesis using run pricingBootstrap_Inl [of D E now "Some snap" s e s'] by simp
  next
    case (Inr u)
    from pricingBootstrap_Inr [OF assms run [unfolded Inr]] obtain b new prices states st where
      b: "xs_business_id snap = JStr b"
      and s': "s' = s\<lparr>db_published_retail_prices := prices, db_pricing_bootstrap_state := states\<rparr>"
      and ok: "t_ok published_retail_prices_schema prices" "t_ok pricing_bootstrap_state_schema states"
      and new: "set prices = set (db_published_retail_prices s) \<union> set new" "length new = length (xs_prices snap)"
        "list_all (price_sound D E b (db_product_units s)) new" "distinct (map lp_product_unit_id new)"
      and get: "t_get pricing_bootstrap_state_schema b states = Some st"
      by (metis option.inject)
    have "feed_ok s'" using assms ok by (simp add: feed_ok_def s' del: schema_defs)
    moreover have "pricing_applyInitialBootstrap D E now2 (Some snap) s' =
        (Inl (PricingBootstrapError PRICING_ALREADY_BOOTSTRAPPED), s')" for now2
      using run [unfolded Inr] get by (auto simp: pricing_applyInitialBootstrap_def Let_def bindA_def s' b
          transaction_def nonEmptyString_def asString_def throwIf_def throwUnless_def simp del: schema_defs split: if_splits)
    ultimately show ?thesis unfolding run Inr prod.case sum.case using b new s' by auto
  qed
qed

section \<open>The price in force\<close>

lemma getPricingTimeContext_readonly: "readonly (getPricingTimeContext E now b)"
  unfolding getPricingTimeContext_def by (intro readonly_bindA) (auto intro!: readonly_bindA split: option.split)

text \<open>Comparators compose: by a key, in reverse, and one after the other.\<close>

lemma comparator_image: "comparator c UNIV \<Longrightarrow> comparator (\<lambda>x y. c (f x) (f y)) UNIV"
  unfolding comparator_def by blast

lemma comparator_reverse: "comparator c UNIV \<Longrightarrow> comparator (\<lambda>x y. c y x) UNIV"
  unfolding comparator_def by blast

lemma comparator_lex:
  assumes "comparator c UNIV" "comparator d UNIV"
  shows "comparator (\<lambda>x y. if c x y \<noteq> 0 then c x y else d x y) UNIV"
proof -
  note c = comparator.antisym [OF assms(1) UNIV_I UNIV_I] comparator.trans [OF assms(1) UNIV_I UNIV_I UNIV_I]
  note d = comparator.antisym [OF assms(2) UNIV_I UNIV_I] comparator.trans [OF assms(2) UNIV_I UNIV_I UNIV_I]
  have le: "(if c x y \<noteq> 0 then c x y else d x y) \<le> 0 \<longleftrightarrow> c x y < 0 \<or> c x y = 0 \<and> d x y \<le> 0" for x y by auto
  show ?thesis
  proof
    fix x y
    show "0 < (if c x y \<noteq> 0 then c x y else d x y) \<longleftrightarrow> (if c y x \<noteq> 0 then c y x else d y x) < 0"
      using c(1) [of x y] c(1) [of y x] d(1) [of x y] by auto
  next
    fix x y z
    assume "(if c x y \<noteq> 0 then c x y else d x y) \<le> 0" "(if c y z \<noteq> 0 then c y z else d y z) \<le> 0"
    then show "(if c x z \<noteq> 0 then c x z else d x z) \<le> 0" unfolding le
      using c(2) [of x y z] c(2) [of z x y] c(2) [of y z x] d(2) [of x y z]
        c(1) [of x z] c(1) [of z x] c(1) [of x y] c(1) [of y x] c(1) [of y z] c(1) [of z y] by auto
  qed
qed

lemma newerPrice_comparator:
  assumes "comparator (localeCompare E) UNIV"
  shows "comparator (newerPrice E) UNIV"
  using comparator_lex [OF comparator_reverse [OF comparator_image [OF assms, of lp_effective_from]]
      comparator_image [OF assms, of lp_price_version_id]]
  by (simp add: newerPrice_def [abs_def] Let_def)


text \<open>
  Times are within the range of \<open>Date\<close>, and the text of a time parses to it.
\<close>

definition date_ok :: "js_env \<Rightarrow> bool" where
  "date_ok E = (iso_ok E \<and> (\<forall>v t. dateParse E v = Some t \<longrightarrow> \<bar>t\<bar> \<le> 8640000000000000))"

text \<open>
  The instant prices are taken at: the device clock corrected by the confirmed offset when the clock is
  trusted, the last time the server confirmed when it is not, and the bare device clock before any contact.
\<close>

definition pricing_instant :: "js_env \<Rightarrow> int \<Rightarrow> string \<Rightarrow> pos_db \<Rightarrow> int" where
  "pricing_instant E now b s =
     (case selectedClock E b s of
        None \<Rightarrow> now
      | Some (server_time, trust, offset) \<Rightarrow>
          (case dateParse E server_time of
             None \<Rightarrow> now
           | Some server \<Rightarrow> if trust = TRUSTED
               then trunc_rat (of_int now + (if isFinite offset then js_rat offset else 0)) else server))"

lemma pricingTime_instant:
  assumes "date_ok E" "\<bar>now\<bar> \<le> 8640000000000000" "getPricingTimeContext E now b s = (Inr time, s')"
  shows "dateParse E (tc_resolved_at time) = Some (pricing_instant E now b s)"
proof -
  have iso: "dateParse E (toISOString E t) = Some t" if "\<bar>t\<bar> \<le> 8640000000000000" for t
    using assms(1) that by (simp add: date_ok_def iso_ok_def)
  have "dateParse E r = Some (trunc_rat (of_int now + (if isFinite off then js_rat off else 0)))"
    if r: "shiftedNow E now off = Inr r" for off r
  proof -
    let ?t = "of_int now + (if isFinite off then js_rat off else 0) :: rat"
    from r have "\<bar>?t\<bar> \<le> 8640000000000000" "r = toISOString E (trunc_rat ?t)"
      by (simp_all add: shiftedNow_def Let_def split: if_splits)
    then show ?thesis using iso trunc_rat_abs [of ?t 8640000000000000] by simp
  qed
  moreover have "\<bar>t\<bar> \<le> 8640000000000000" if "dateParse E v = Some t" for v t
    using assms(1) that by (auto simp: date_ok_def)
  ultimately show ?thesis using assms(3) iso [OF assms(2)] iso
    by (auto simp: getPricingTimeContext_def pricing_instant_def result_simps split: option.splits if_splits)
qed

text \<open>When a published price may be asked: from the start of its period until just before its end, if it has one.\<close>

definition sells_at :: "js_env \<Rightarrow> int \<Rightarrow> LocalPublishedRetailPriceRecord \<Rightarrow> bool" where
  "sells_at E t r = ((\<exists>start. dateParse E (lp_effective_from r) = Some start \<and> start \<le> t) \<and>
     (\<forall>e. lp_effective_to r = Some e \<longrightarrow> (\<exists>ends. dateParse E e = Some ends \<and> t < ends)))"

lemma priceInForce_sells: "priceInForce E (Some t) r \<longleftrightarrow> sells_at E t r"
  by (cases "lp_status r") (auto simp: priceInForce_def sells_at_def split: option.splits)

text \<open>
  Texts of one ISO format compare as the instants they denote, a documented property of the format; the code relies on it
  when it sorts prices by their text.
\<close>

definition chronological :: "js_env \<Rightarrow> string set \<Rightarrow> bool" where
  "chronological E texts = (\<forall>v \<in> texts. \<forall>w \<in> texts. \<forall>a b. dateParse E v = Some a \<longrightarrow> dateParse E w = Some b \<longrightarrow>
     (localeCompare E v w \<le> 0 \<longleftrightarrow> a \<le> b))"

text \<open>
  C28. The price the till sells at is the published one: it belongs to the unit and the pricing instant lies in its period,
  an ended or a future price is never returned; of the prices whose period contains the instant it is the one that started
  last, when their texts compare as the instants they denote, and of two that start together the smaller version id wins;
  nothing is returned only when no price of the unit sells at that instant. Reading changes nothing.
\<close>

theorem published_price_in_force:
  assumes "comparator (localeCompare E) UNIV" "date_ok E" "\<bar>now\<bar> \<le> 8640000000000000"
    "getPublishedRetailPrice E now b unit s = (Inr res, s')"
  shows "s' = s \<and>
    (let valid = {r \<in> set (db_published_retail_prices s). lp_business_id r = b \<and> lp_product_unit_id r = unit \<and>
                    sells_at E (pricing_instant E now b s) r} in
     case res of None \<Rightarrow> valid = {}
     | Some r \<Rightarrow> r \<in> valid \<and>
         (\<forall>x \<in> valid. localeCompare E (lp_effective_from x) (lp_effective_from r) \<le> 0 \<and>
            (localeCompare E (lp_effective_from x) (lp_effective_from r) = 0 \<longrightarrow>
             localeCompare E (lp_price_version_id r) (lp_price_version_id x) \<le> 0)) \<and>
         (chronological E (lp_effective_from ` valid) \<longrightarrow>
            (\<forall>x \<in> valid. the (dateParse E (lp_effective_from x)) \<le> the (dateParse E (lp_effective_from r)))))"
proof -
  from assms(4) obtain time where time: "getPricingTimeContext E now b s = (Inr time, s')"
    and res: "res = (case sort_by (newerPrice E) (filter (priceInForce E (dateParse E (tc_resolved_at time)))
        (filter (\<lambda>r. lp_business_id r = b \<and> lp_product_unit_id r = unit) (db_published_retail_prices s)))
        of [] \<Rightarrow> None | r # _ \<Rightarrow> Some r)"
    by (auto simp: getPublishedRetailPrice_def Let_def bindA_eq_Inr)
  have "s' = s" using getPricingTimeContext_readonly [of E now b] time by (metis readonly_def snd_conv)
  note asOf = pricingTime_instant [OF assms(2,3) time]
  let ?xs = "filter (priceInForce E (Some (pricing_instant E now b s)))
        (filter (\<lambda>r. lp_business_id r = b \<and> lp_product_unit_id r = unit) (db_published_retail_prices s))"
  have res: "res = (case sort_by (newerPrice E) ?xs of [] \<Rightarrow> None | r # _ \<Rightarrow> Some r)" using res asOf by simp
  have le: "localeCompare E (lp_effective_from x) (lp_effective_from r) \<le> 0 \<and>
      (localeCompare E (lp_effective_from x) (lp_effective_from r) = 0 \<longrightarrow>
       localeCompare E (lp_price_version_id r) (lp_price_version_id x) \<le> 0)" if "newerPrice E r x \<le> 0" for r x
    using that by (auto simp: newerPrice_def Let_def split: if_splits)
  show ?thesis
  proof (cases "sort_by (newerPrice E) ?xs")
    case Nil
    then have "?xs = []" by (metis length_0_conv length_sort_by)
    then show ?thesis using Nil res \<open>s' = s\<close> by (auto simp: Let_def filter_empty_conv priceInForce_sells)
  next
    case (Cons r rs)
    then have "r \<in> set ?xs" by (metis list.set_intros(1) set_sort_by)
    moreover have "newerPrice E r x \<le> 0" if "x \<in> set ?xs" for x
      using comparator.sort_by_hd_least [OF newerPrice_comparator [OF assms(1)] _ Cons that] by simp
    moreover have valid: "set ?xs = {r \<in> set (db_published_retail_prices s). lp_business_id r = b \<and> lp_product_unit_id r = unit \<and>
        sells_at E (pricing_instant E now b s) r}" by (auto simp: priceInForce_sells)
    ultimately have least: "r \<in> set ?xs" "\<forall>x \<in> set ?xs. localeCompare E (lp_effective_from x) (lp_effective_from r) \<le> 0 \<and>
        (localeCompare E (lp_effective_from x) (lp_effective_from r) = 0 \<longrightarrow>
         localeCompare E (lp_price_version_id r) (lp_price_version_id x) \<le> 0)" using le by blast+
    have "the (dateParse E (lp_effective_from x)) \<le> the (dateParse E (lp_effective_from r))"
      if chron: "chronological E (lp_effective_from ` set ?xs)" and x: "x \<in> set ?xs" for x
    proof -
      have dated: "\<exists>a. dateParse E (lp_effective_from y) = Some a" if "y \<in> set ?xs" for y
        using that by (auto simp: priceInForce_sells sells_at_def)
      obtain a c where "dateParse E (lp_effective_from x) = Some a" "dateParse E (lp_effective_from r) = Some c"
        using dated [OF x] dated [OF least(1)] by blast
      moreover have "localeCompare E (lp_effective_from x) (lp_effective_from r) \<le> 0" using least(2) x by blast
      ultimately show ?thesis using chron x least(1) unfolding chronological_def by (auto simp del: set_filter)
    qed
    then show ?thesis using Cons res \<open>s' = s\<close> least unfolding Let_def valid by auto
  qed
qed

section \<open>A stocked till\<close>

definition iso_env :: js_env where
  "iso_env = demo_env\<lparr>dateParse := \<lambda>v. case json_parse v of
       Some (JNum i) \<Rightarrow> if \<bar>i\<bar> \<le> 8640000000000000 then Some i else None | _ \<Rightarrow> None,
     toISOString := int_text\<rparr>"

lemma iso_env_date: "\<bar>t\<bar> \<le> 8640000000000000 \<Longrightarrow> dateParse iso_env (int_text t) = Some t"
  using parse_stringify [of "JNum t"] by (simp add: iso_env_def)

lemma iso_env_ISO: "toISOString iso_env t = int_text t"
  by (simp add: iso_env_def)

lemma iso_env_ok: "date_ok iso_env"
  using iso_env_date by (auto simp: date_ok_def iso_ok_def iso_env_def split: option.splits json.splits if_splits)

lemma iso_env_comparator: "comparator (localeCompare iso_env) UNIV"
  using demo_comparator by (simp add: iso_env_def)

definition demo_catalog :: PosCatalogBootstrapSnapshot where
  "demo_catalog = \<lparr>ks_bootstrap_version = JNum 1, ks_business_id = ''B'', ks_server_time = ''1000'',
     ks_products = [\<lparr>kp_id = ''P'', kp_sku = ''S-1'', kp_name = ''Kopi'', kp_base_unit_code = ''PCS'',
       kp_track_inventory = True, kp_status = ''ACTIVE'', kp_version = ''1'', kp_updated_at = ''1000''\<rparr>],
     ks_product_units = [\<lparr>ku_id = ''U'', ku_product_id = ''P'', ku_unit_code = ''PCS'', ku_display_name = ''Pcs'',
       ku_conversion_factor = JStr ''1'', ku_can_sell = True, ku_can_purchase = True, ku_allow_decimal_qty = False,
       ku_status = ''ACTIVE'', ku_version = ''1'', ku_updated_at = ''1000''\<rparr>],
     ks_barcodes = [\<lparr>kb_id = ''C'', kb_product_unit_id = ''U'', kb_barcode = JStr ''899'', kb_is_internal = False,
       kb_status = ''ACTIVE'', kb_deactivated_at = None\<rparr>]\<rparr>"

definition demo_prices :: PosPublishedRetailPriceBootstrapSnapshot where
  "demo_prices = \<lparr>xs_bootstrap_version = JNum 1, xs_business_id = JStr ''B'', xs_server_time = JStr (int_text 1000),
     xs_prices = [[(''price_version_id'', JStr ''V''), (''product_unit_id'', JStr ''U''), (''unit_price'', JStr ''12.5''),
       (''effective_from'', JStr (int_text 500)), (''effective_to'', JNull)]]\<rparr>"

definition demo_shelves :: pos_db where
  "demo_shelves = empty_db\<lparr>db_products := map (product_row ''B'') (ks_products demo_catalog),
     db_product_units := map (unit_row ''B'') (ks_product_units demo_catalog),
     db_barcodes := map (barcode_row ''B'') (ks_barcodes demo_catalog),
     db_catalog_bootstrap_state := [catalog_state_row demo_catalog]\<rparr>"

definition demo_price :: LocalPublishedRetailPriceRecord where
  "demo_price = price_row ''B'' ''V'' ''U'' ''12.5'' (int_text 500) None"

definition demo_stocked :: pos_db where
  "demo_stocked = demo_shelves\<lparr>db_published_retail_prices := [demo_price],
     db_pricing_bootstrap_state := [\<lparr>pb_business_id = ''B'', pb_bootstrap_version = 1, pb_server_time = int_text 1000,
       pb_applied_at = int_text 2000, pb_clock_offset_ms = JSInt (- 1000), pb_clock_trust_status = TRUSTED\<rparr>]\<rparr>"

lemma demo_catalog_runs: "catalog_applyInitialBootstrap demo_catalog empty_db = (Inr (), demo_shelves)"
  by code_simp

theorem catalog_bootstrap_once_witness:
  "catalog_applyInitialBootstrap demo_catalog empty_db = (Inr (), demo_shelves) \<and>
   catalog_applyInitialBootstrap demo_catalog demo_shelves = (Inl CatalogAlreadyBootstrapped, demo_shelves)"
proof -
  have "validateCatalogSnapshot demo_catalog = Inr ()" by code_simp
  then show ?thesis
    using catalog_bootstrap_once [OF feed_ok_empty, of demo_catalog] demo_catalog_runs by simp
qed

lemma demo_shelves_ok: "feed_ok demo_shelves"
  using feed_ok_empty by (simp add: feed_ok_def demo_shelves_def demo_catalog_def t_ok_def)

lemma demo_prices_run:
  "pricing_applyInitialBootstrap ref_ops iso_env 2000 (Some demo_prices) demo_shelves = (Inr (), demo_stocked)"
proof -
  have m: "parses (parseMoney ref_ops ''12.5'')" by code_simp
  then obtain q where "parseMoney ref_ops ''12.5'' = Inr q" by (auto simp: parses_def split: sum.splits)
  then show ?thesis
    by (simp add: Let_def iso_env_ISO pricing_applyInitialBootstrap_def demo_prices_def demo_shelves_def demo_stocked_def demo_catalog_def
        nonEmptyString_def asString_def validTimestamp_def clockMetadata_def iso_env_date bindA_def transaction_def
        checkPriceRow_def priceEnd_def jget_def tableA_def t_get_def t_add_def t_bulkAdd_def t_conflict_def
        empty_db_def json_text_def demo_price_def unit_row_def)
qed

lemma demo_stocked_ok: "feed_ok demo_stocked"
  using demo_shelves_ok by (simp add: feed_ok_def demo_stocked_def t_ok_def)

theorem price_bootstrap_once_witness:
  "pricing_applyInitialBootstrap ref_ops iso_env 2000 (Some demo_prices) demo_shelves = (Inr (), demo_stocked) \<and>
   pricing_applyInitialBootstrap ref_ops iso_env 3000 (Some demo_prices) demo_stocked =
     (Inl (PricingBootstrapError PRICING_ALREADY_BOOTSTRAPPED), demo_stocked)"
  using price_bootstrap_once [OF demo_shelves_ok, where D = ref_ops and E = iso_env and now = 2000 and snap = demo_prices]
    demo_prices_run by simp

lemma demo_clock: "selectedClock iso_env ''B'' demo_stocked = Some (int_text 1000, TRUSTED, JSInt (- 1000))"
  by (simp add: selectedClock_def demo_stocked_def demo_shelves_def empty_db_def t_get_def)

lemma demo_time: "getPricingTimeContext iso_env 2000 ''B'' demo_stocked =
    (Inr \<lparr>tc_resolved_at = int_text 1000, tc_status = TRUSTED\<rparr>, demo_stocked)"
  by (simp add: getPricingTimeContext_def demo_clock bindA_def iso_env_date shiftedNow_def isFinite_def trunc_rat_def iso_env_ISO)

lemma demo_price_read: "getPublishedRetailPrice iso_env 2000 ''B'' ''U'' demo_stocked = (Inr (Some demo_price), demo_stocked)"
proof -
  have "db_published_retail_prices demo_stocked = [demo_price]" by (simp add: demo_stocked_def)
  then show ?thesis
    by (simp add: getPublishedRetailPrice_def bindA_def demo_time iso_env_date demo_price_def price_row_def priceInForce_def)
qed

text \<open>A unit with an ended price, the current one and a future one.\<close>

definition demo_history :: pos_db where
  "demo_history = demo_stocked\<lparr>db_published_retail_prices :=
     [demo_price\<lparr>lp_price_version_id := ''old'', lp_effective_from := ''100'', lp_effective_to := Some ''900''\<rparr>, demo_price,
      demo_price\<lparr>lp_price_version_id := ''next'', lp_effective_from := ''5000''\<rparr>]\<rparr>"

lemma demo_history_clock: "selectedClock iso_env ''B'' demo_history = Some (int_text 1000, TRUSTED, JSInt (- 1000))"
  by (simp add: demo_history_def selectedClock_def demo_stocked_def demo_shelves_def empty_db_def t_get_def)

lemma demo_history_read: "getPublishedRetailPrice iso_env 2000 ''B'' ''U'' demo_history = (Inr (Some demo_price), demo_history)"
proof -
  have time: "getPricingTimeContext iso_env 2000 ''B'' demo_history = (Inr \<lparr>tc_resolved_at = int_text 1000, tc_status = TRUSTED\<rparr>, demo_history)"
    by (simp add: getPricingTimeContext_def demo_history_clock bindA_def iso_env_date shiftedNow_def isFinite_def trunc_rat_def iso_env_ISO)
  have "int_text 100 = ''100''" "int_text 900 = ''900''" "int_text 5000 = ''5000''" by code_simp+
  then have dates: "dateParse iso_env ''100'' = Some 100" "dateParse iso_env ''900'' = Some 900" "dateParse iso_env ''5000'' = Some 5000"
    using iso_env_date [of 100] iso_env_date [of 900] iso_env_date [of 5000] by simp_all
  have rows: "db_published_retail_prices demo_history =
     [demo_price\<lparr>lp_price_version_id := ''old'', lp_effective_from := ''100'', lp_effective_to := Some ''900''\<rparr>, demo_price,
      demo_price\<lparr>lp_price_version_id := ''next'', lp_effective_from := ''5000''\<rparr>]" by (simp add: demo_history_def)
  show ?thesis
    by (simp add: getPublishedRetailPrice_def bindA_def time iso_env_date dates rows) (simp add: iso_env_date dates demo_price_def price_row_def priceInForce_def)
qed

theorem published_price_in_force_witness:
  "getPublishedRetailPrice iso_env 2000 ''B'' ''U'' demo_history = (Inr (Some demo_price), demo_history) \<and>
   pricing_instant iso_env 2000 ''B'' demo_history = 1000 \<and> sells_at iso_env 1000 demo_price"
proof -
  have now: "pricing_instant iso_env 2000 ''B'' demo_history = 1000"
    by (simp add: pricing_instant_def demo_history_clock iso_env_date isFinite_def trunc_rat_def)
  then show ?thesis
    using published_price_in_force [OF iso_env_comparator iso_env_ok _ demo_history_read] demo_history_read
    by (simp add: Let_def)
qed

end
