(* ===== verification/Product_Lookup.thy ===== *)
theory Product_Lookup
  imports Catalog_Cache
begin

text \<open>
  Finding what the cashier scanned or typed, \<open>packages/local-db/src/product-lookup.ts\<close>: by barcode, by SKU
  and by a free text. The result is the record the cart takes (\<open>LookupResultBoundary\<close> of theory \<open>Cart\<close>,
  structurally \<open>ProductLookupResult\<close>). Every method of \<open>PosProductLookup\<close> is a definition here. A lookup
  reads the device clock once per question to the pricing cache; \<open>clock i\<close> is the reading of the \<open>i\<close>-th. The
  lemmas show that whatever is found is sellable, priced and well formed for the cart, that an identifier
  finds its own product, and what a search returns.
\<close>

section \<open>Lookups\<close>

definition PRODUCT_NOT_FOUND :: string where "PRODUCT_NOT_FOUND = ''PRODUCT_NOT_FOUND''"
definition AMBIGUOUS_IDENTIFIER :: string where "AMBIGUOUS_IDENTIFIER = ''AMBIGUOUS_IDENTIFIER''"
definition NO_PUBLISHED_PRICE :: string where "NO_PUBLISHED_PRICE = ''NO_PUBLISHED_PRICE''"
definition INVALID_LOOKUP_INPUT :: string where "INVALID_LOOKUP_INPUT = ''INVALID_LOOKUP_INPUT''"

definition validateInput :: "string \<Rightarrow> unit result" where
  "validateInput input = throwIf (input = '''' \<or> js_trim input = '''') (ProductLookupError INVALID_LOOKUP_INPUT)"

definition sellable :: "LocalPosProductUnit \<Rightarrow> bool" where
  "sellable u = (pu_status u = ACTIVE \<and> pu_can_sell u)"

definition sellableUnits :: "string \<Rightarrow> string \<Rightarrow> LocalPosProductUnit list db_act" where
  "sellableUnits businessId productId =
     readA (\<lambda>s. filter sellable
       (filter (\<lambda>u. pu_business_id u = businessId \<and> pu_product_id u = productId) (db_product_units s)))"

text \<open>An option argument that is absent or empty is falsy.\<close>

definition truthy :: "string option \<Rightarrow> bool" where
  "truthy v = (v \<noteq> None \<and> v \<noteq> Some '''')"

definition reportBarcode :: "string \<Rightarrow> string \<Rightarrow> string option \<Rightarrow> string option db_act" where
  "reportBarcode businessId unitId explicitBarcode =
     (if truthy explicitBarcode then retA explicitBarcode
      else bindA (readA (\<lambda>s. filter (\<lambda>b. bc_business_id b = businessId \<and> bc_product_unit_id b = unitId)
                               (db_barcodes s))) (\<lambda>activeBarcodes.
           retA (case find (\<lambda>b. bc_status b = ACTIVE) activeBarcodes of
             None \<Rightarrow> explicitBarcode | Some active \<Rightarrow> Some (bc_barcode active))))"

definition lookup_result ::
  "string \<Rightarrow> LocalPosProduct \<Rightarrow> LocalPosProductUnit \<Rightarrow> LocalPublishedRetailPriceRecord \<Rightarrow>
   LocalPricingTimeContext \<Rightarrow> PublishedPromotion list \<Rightarrow> string option \<Rightarrow> LookupResultBoundary" where
  "lookup_result businessId product unit price pricingTime promotions reportedBarcode = \<lparr>
     lr_business_id = businessId, lr_product_id = pd_id product, lr_product_unit_id = pu_id unit,
     lr_product_name = pd_name product, lr_variant_name = pu_display_name unit, lr_sku = pd_sku product,
     lr_barcode = reportedBarcode, lr_unit_price = lp_unit_price price,
     lr_price_effective_from = lp_effective_from price, lr_unit_code = pu_unit_code unit,
     lr_allow_decimal_qty = pu_allow_decimal_qty unit, lr_price_version_id = lp_price_version_id price,
     lr_conversion_factor = pu_conversion_factor unit, lr_track_inventory = pd_track_inventory product,
     lr_price_tiers = (if lp_tiers price \<noteq> [] then lp_tiers price
                       else [retail_tier (lp_price_version_id price) (lp_unit_price price)]),
     lr_promotions = promotions, lr_pricing_resolved_at = tc_resolved_at pricingTime,
     lr_pricing_time_status = tc_status pricingTime\<rparr>"

definition resolveSellableUnit ::
  "'d decimal_ops \<Rightarrow> js_env \<Rightarrow> (nat \<Rightarrow> int) \<Rightarrow> string \<Rightarrow> LocalPosProduct \<Rightarrow> string option \<Rightarrow> string option \<Rightarrow>
   LookupResultBoundary db_act" where
  "resolveSellableUnit D E clock businessId product explicitUnitId explicitBarcode =
     bindA (liftA (throwUnless (pd_status product = ACTIVE) (ProductLookupError PRODUCT_NOT_FOUND))) (\<lambda>_.
     bindA (sellableUnits businessId (pd_id product)) (\<lambda>all.
     let units = (if truthy explicitUnitId then filter (\<lambda>u. Some (pu_id u) = explicitUnitId) all else all) in
     case units of
       [] \<Rightarrow> throwA (ProductLookupError PRODUCT_NOT_FOUND)
     | _ # _ # _ \<Rightarrow> throwA (ProductLookupError AMBIGUOUS_IDENTIFIER)
     | [unit] \<Rightarrow>
         bindA (getPublishedRetailPrice E (clock 0) businessId (pu_id unit)) (\<lambda>found.
         case found of
           None \<Rightarrow> throwA (ProductLookupError NO_PUBLISHED_PRICE)
         | Some price \<Rightarrow>
             bindA (getPricingTimeContext E (clock 1) businessId) (\<lambda>pricingTime.
             bindA (listApplicablePromotions D E (clock 2) businessId (pu_id unit)) (\<lambda>promotions.
             bindA (reportBarcode businessId (pu_id unit) explicitBarcode) (\<lambda>reportedBarcode.
             retA (lookup_result businessId product unit price pricingTime promotions reportedBarcode)))))))"

definition findByBarcode ::
  "'d decimal_ops \<Rightarrow> js_env \<Rightarrow> (nat \<Rightarrow> int) \<Rightarrow> string \<Rightarrow> string \<Rightarrow> LookupResultBoundary db_act" where
  "findByBarcode D E clock businessId barcode =
     bindA (liftA (validateInput barcode)) (\<lambda>_.
     bindA (readA (\<lambda>s. filter (\<lambda>b. bc_status b = ACTIVE)
              (filter (\<lambda>b. bc_business_id b = businessId \<and> bc_barcode b = barcode) (db_barcodes s)))) (\<lambda>activeBarcodes.
     case activeBarcodes of
       [] \<Rightarrow> throwA (ProductLookupError PRODUCT_NOT_FOUND)
     | _ # _ # _ \<Rightarrow> throwA (ProductLookupError AMBIGUOUS_IDENTIFIER)
     | [b] \<Rightarrow>
         bindA (readA (\<lambda>s. t_get product_units_schema (bc_product_unit_id b) (db_product_units s))) (\<lambda>foundUnit.
         case foundUnit of
           None \<Rightarrow> throwA (ProductLookupError PRODUCT_NOT_FOUND)
         | Some unit \<Rightarrow>
             if pu_business_id unit \<noteq> businessId then throwA (ProductLookupError PRODUCT_NOT_FOUND)
             else bindA (readA (\<lambda>s. t_get products_schema (pu_product_id unit) (db_products s))) (\<lambda>foundProduct.
                  case foundProduct of
                    None \<Rightarrow> throwA (ProductLookupError PRODUCT_NOT_FOUND)
                  | Some product \<Rightarrow>
                      if pd_business_id product \<noteq> businessId then throwA (ProductLookupError PRODUCT_NOT_FOUND)
                      else resolveSellableUnit D E clock businessId product (Some (pu_id unit)) (Some barcode)))))"

definition findBySku ::
  "'d decimal_ops \<Rightarrow> js_env \<Rightarrow> (nat \<Rightarrow> int) \<Rightarrow> string \<Rightarrow> string \<Rightarrow> LookupResultBoundary db_act" where
  "findBySku D E clock businessId sku =
     bindA (liftA (validateInput sku)) (\<lambda>_.
     bindA (readA (\<lambda>s. filter (\<lambda>p. pd_status p = ACTIVE)
              (filter (\<lambda>p. pd_business_id p = businessId \<and> pd_sku p = sku) (db_products s)))) (\<lambda>activeProducts.
     case activeProducts of
       [] \<Rightarrow> throwA (ProductLookupError PRODUCT_NOT_FOUND)
     | _ # _ # _ \<Rightarrow> throwA (ProductLookupError AMBIGUOUS_IDENTIFIER)
     | [product] \<Rightarrow> resolveSellableUnit D E clock businessId product None None))"

section \<open>Search\<close>

text \<open>
  The state of the two loops: the results so far, the units seen, and the number of resolutions tried, which
  selects the clock readings of the next one.
\<close>

record search_state =
  se_results :: "LookupResultBoundary list"
  se_seenUnitIds :: "string list"
  se_tried :: nat

definition tryResolve ::
  "'d decimal_ops \<Rightarrow> js_env \<Rightarrow> (nat \<Rightarrow> nat \<Rightarrow> int) \<Rightarrow> string \<Rightarrow> LocalPosProduct \<Rightarrow> string \<Rightarrow> string option \<Rightarrow>
   search_state \<Rightarrow> search_state db_act" where
  "tryResolve D E clocks businessId product unitId barcode st =
     (let st' = st\<lparr>se_tried := se_tried st + 1\<rparr> in
      catchA (
        bindA (resolveSellableUnit D E (clocks (se_tried st)) businessId product (Some unitId) barcode) (\<lambda>res.
        retA (st'\<lparr>se_results := se_results st @ [res], se_seenUnitIds := unitId # se_seenUnitIds st\<rparr>)))
       (\<lambda>_. retA st'))"

fun foldA :: "('a \<Rightarrow> 'b \<Rightarrow> ('s, 'a) act) \<Rightarrow> 'a \<Rightarrow> 'b list \<Rightarrow> ('s, 'a) act" where
  "foldA f a [] = retA a"
| "foldA f a (x # xs) = bindA (f a x) (\<lambda>a'. foldA f a' xs)"

definition searchUnit ::
  "'d decimal_ops \<Rightarrow> js_env \<Rightarrow> (nat \<Rightarrow> nat \<Rightarrow> int) \<Rightarrow> string \<Rightarrow> LocalPosProduct \<Rightarrow> search_state \<Rightarrow>
   LocalPosProductUnit \<Rightarrow> search_state db_act" where
  "searchUnit D E clocks businessId p st u =
     (if pu_id u \<notin> set (se_seenUnitIds st) then tryResolve D E clocks businessId p (pu_id u) None st
      else retA st)"

definition searchProduct ::
  "'d decimal_ops \<Rightarrow> js_env \<Rightarrow> (nat \<Rightarrow> nat \<Rightarrow> int) \<Rightarrow> string \<Rightarrow> search_state \<Rightarrow> LocalPosProduct \<Rightarrow>
   search_state db_act" where
  "searchProduct D E clocks businessId st p =
     bindA (sellableUnits businessId (pd_id p)) (\<lambda>units. foldA (searchUnit D E clocks businessId p) st units)"

definition searchBarcode ::
  "'d decimal_ops \<Rightarrow> js_env \<Rightarrow> (nat \<Rightarrow> nat \<Rightarrow> int) \<Rightarrow> string \<Rightarrow> search_state \<Rightarrow> LocalPosBarcode \<Rightarrow>
   search_state db_act" where
  "searchBarcode D E clocks businessId st b =
     (if bc_product_unit_id b \<in> set (se_seenUnitIds st) then retA st
      else
        bindA (readA (\<lambda>s. t_get product_units_schema (bc_product_unit_id b) (db_product_units s))) (\<lambda>foundUnit.
        case foundUnit of
          None \<Rightarrow> retA st
        | Some u \<Rightarrow>
            if \<not> sellable u then retA st
            else bindA (readA (\<lambda>s. t_get products_schema (pu_product_id u) (db_products s))) (\<lambda>foundProduct.
                 case foundProduct of
                   None \<Rightarrow> retA st
                 | Some p \<Rightarrow> if pd_status p = ACTIVE
                     then tryResolve D E clocks businessId p (pu_id u) (Some (bc_barcode b)) st else retA st)))"

definition exactMatch :: "string \<Rightarrow> LookupResultBoundary \<Rightarrow> bool" where
  "exactMatch query r = (lr_barcode r = Some (js_trim query) \<or> lr_sku r = js_trim query)"

definition compareResults :: "js_env \<Rightarrow> string \<Rightarrow> LookupResultBoundary \<Rightarrow> LookupResultBoundary \<Rightarrow> int" where
  "compareResults E query a b =
     (if exactMatch query a \<and> \<not> exactMatch query b then - 1
      else if \<not> exactMatch query a \<and> exactMatch query b then 1
      else let nameCompare = localeCompare E (lr_product_name a) (lr_product_name b) in
           if nameCompare \<noteq> 0 then nameCompare else localeCompare E (lr_variant_name a) (lr_variant_name b))"

definition searchProducts ::
  "'d decimal_ops \<Rightarrow> js_env \<Rightarrow> (nat \<Rightarrow> nat \<Rightarrow> int) \<Rightarrow> string \<Rightarrow> string \<Rightarrow> LookupResultBoundary list db_act" where
  "searchProducts D E clocks businessId query =
     bindA (liftA (validateInput query)) (\<lambda>_.
     let q = js_toLowerCase (js_trim query) in
     bindA (readA (\<lambda>s. filter (\<lambda>p. js_includes (js_toLowerCase (pd_name p)) q \<or> js_includes (js_toLowerCase (pd_sku p)) q)
              (filter (\<lambda>p. pd_status p = ACTIVE)
                (filter (\<lambda>p. pd_business_id p = businessId) (db_products s))))) (\<lambda>matchedProducts.
     bindA (readA (\<lambda>s. filter (\<lambda>b. bc_status b = ACTIVE \<and> js_includes (js_toLowerCase (bc_barcode b)) q)
              (filter (\<lambda>b. bc_business_id b = businessId) (db_barcodes s)))) (\<lambda>matchedBarcodes.
     bindA (foldA (searchProduct D E clocks businessId)
              \<lparr>se_results = [], se_seenUnitIds = [], se_tried = 0\<rparr> matchedProducts) (\<lambda>st.
     bindA (foldA (searchBarcode D E clocks businessId) st matchedBarcodes) (\<lambda>st'.
     retA (take 50 (sort_by (compareResults E query) (se_results st'))))))))"

section \<open>What a lookup gives\<close>

lemma readonlyD: "readonly m \<Longrightarrow> m s = (r, s') \<Longrightarrow> s' = s"
  by (metis readonly_def snd_conv)

lemma pricing_readonly:
  "readonly (getPublishedRetailPrice E now b u)" "readonly (listApplicablePromotions D E now b u)"
  by (auto simp: getPublishedRetailPrice_def listApplicablePromotions_def Let_def
      intro!: readonly_bindA getPricingTimeContext_readonly)

lemma reportBarcode_readonly: "readonly (reportBarcode b u e)"
  by (auto simp: reportBarcode_def intro!: readonly_bindA)

lemma resolveSellableUnit_readonly: "readonly (resolveSellableUnit D E clock b p eu eb)"
  unfolding resolveSellableUnit_def sellableUnits_def Let_def
  by (intro readonly_bindA readonly_simps)
    (auto intro!: readonly_bindA getPricingTimeContext_readonly pricing_readonly reportBarcode_readonly
      split: list.split option.split)

text \<open>What the resolver of prices needs of a promotion: a supported type, and fields that parse.\<close>

definition promotion_ok :: "'d decimal_ops \<Rightarrow> js_env \<Rightarrow> PublishedPromotion \<Rightarrow> bool" where
  "promotion_ok D E p =
     (pp_promotion_type p \<in> {FIXED_PRICE, PERCENT_DISCOUNT, FIXED_DISCOUNT} \<and> isSafeInteger (pp_priority p) \<and>
      parses (parseMoney D (pp_value p)) \<and> parses (parseQuantity D (pp_min_qty p)) \<and>
      dateParse E (pp_effective_from p) \<noteq> None \<and> dateParse E (pp_effective_to p) \<noteq> None \<and>
      dateParse E (pp_created_at p) \<noteq> None)"

lemma applicablePromotion_ok:
  assumes "applicablePromotion D E asOf u row = Some p"
  shows "promotion_ok D E p"
proof -
  have date: "dateParse E (the (asString v)) \<noteq> None" if "validTimestamp E v" for v
    using that by (auto simp: validTimestamp_def split: option.splits)
  have types: "promotionType v = Some t \<Longrightarrow> t \<in> {FIXED_PRICE, PERCENT_DISCOUNT, FIXED_DISCOUNT}" for v t
    by (auto simp: promotionType_def split: option.splits if_splits)
  have priority: "safePriority v = Some n \<Longrightarrow> isSafeInteger n" for v n
    by (auto simp: safePriority_def split: option.splits json.splits if_splits)
  show ?thesis using assms date
    by (auto simp: applicablePromotion_def promotion_ok_def Let_def dest: types priority split: if_splits option.splits)
qed

lemma listApplicablePromotions_ok:
  assumes "listApplicablePromotions D E now b u s = (Inr ps, s')"
  shows "list_all (promotion_ok D E) ps"
  using assms applicablePromotion_ok
  by (auto simp: listApplicablePromotions_def Let_def result_simps list_all_iff List.map_filter_def; fastforce)

text \<open>
  A result that can go into the cart: an active product of the database, an active sellable unit of it in the
  business, a stored price of that unit that is in force, at least one tier, and usable promotions.
\<close>

definition offer_ok :: "'d decimal_ops \<Rightarrow> js_env \<Rightarrow> pos_db \<Rightarrow> string \<Rightarrow> LookupResultBoundary \<Rightarrow> bool" where
  "offer_ok D E s b r =
     (lr_business_id r = b \<and>
      (\<exists>p \<in> set (db_products s). \<exists>u \<in> set (db_product_units s). \<exists>v \<in> set (db_published_retail_prices s).
         pd_status p = ACTIVE \<and> sellable u \<and> pu_business_id u = b \<and> pu_product_id u = pd_id p \<and>
         lp_business_id v = b \<and> lp_product_unit_id v = pu_id u \<and> (\<exists>t. priceInForce E t v) \<and>
         lr_product_id r = pd_id p \<and> lr_product_name r = pd_name p \<and> lr_sku r = pd_sku p \<and>
         lr_track_inventory r = pd_track_inventory p \<and> lr_product_unit_id r = pu_id u \<and>
         lr_unit_code r = pu_unit_code u \<and> lr_conversion_factor r = pu_conversion_factor u \<and>
         lr_allow_decimal_qty r = pu_allow_decimal_qty u \<and> lr_price_version_id r = lp_price_version_id v \<and>
         lr_unit_price r = lp_unit_price v \<and> lr_price_effective_from r = lp_effective_from v) \<and>
      lr_price_tiers r \<noteq> [] \<and> list_all (promotion_ok D E) (lr_promotions r) \<and>
      lr_pricing_time_status r \<in> {TRUSTED, CLOCK_UNTRUSTED})"

lemma timeContext_status:
  "getPricingTimeContext E now b s = (Inr time, s') \<Longrightarrow> tc_status time \<in> {TRUSTED, CLOCK_UNTRUSTED}"
  by (auto simp: getPricingTimeContext_def result_simps split: option.splits if_splits)

lemma getPublishedRetailPrice_Some:
  assumes "getPublishedRetailPrice E now b u s = (Inr (Some v), s')"
  shows "v \<in> set (db_published_retail_prices s) \<and> lp_business_id v = b \<and> lp_product_unit_id v = u \<and> (\<exists>t. priceInForce E t v)"
proof -
  let ?xs = "\<lambda>t. sort_by (newerPrice E) (filter (priceInForce E t)
      (filter (\<lambda>r. lp_business_id r = b \<and> lp_product_unit_id r = u) (db_published_retail_prices s)))"
  from assms obtain t where "(case ?xs t of [] \<Rightarrow> None | r # _ \<Rightarrow> Some r) = Some v"
    by (auto simp: getPublishedRetailPrice_def Let_def bindA_eq_Inr simp del: filter_filter)
  then obtain rest where "?xs t = v # rest" by (cases "?xs t") auto
  from arg_cong [OF this, of set] show ?thesis by auto
qed

text \<open>The steps of a successful resolution.\<close>

lemma resolveSellableUnit_parts:
  assumes "resolveSellableUnit D E clock b p eu eb s = (Inr r, s')"
  obtains u price time promos bc where "s' = s" "pd_status p = ACTIVE" "u \<in> set (db_product_units s)" "sellable u"
    "pu_business_id u = b" "pu_product_id u = pd_id p" "truthy eu \<longrightarrow> eu = Some (pu_id u)"
    "getPublishedRetailPrice E (clock 0) b (pu_id u) s = (Inr (Some price), s)"
    "getPricingTimeContext E (clock 1) b s = (Inr time, s)"
    "listApplicablePromotions D E (clock 2) b (pu_id u) s = (Inr promos, s)"
    "reportBarcode b (pu_id u) eb s = (Inr bc, s)" "r = lookup_result b p u price time promos bc"
proof -
  have s': "s' = s" using readonlyD [OF resolveSellableUnit_readonly assms] .
  from assms obtain u price time promos bc s1 s2 s3 where p: "pd_status p = ACTIVE"
    and one: "(if truthy eu then filter (\<lambda>u. Some (pu_id u) = eu) (filter sellable
        (filter (\<lambda>u. pu_business_id u = b \<and> pu_product_id u = pd_id p) (db_product_units s)))
      else filter sellable (filter (\<lambda>u. pu_business_id u = b \<and> pu_product_id u = pd_id p) (db_product_units s))) = [u]"
    and price: "getPublishedRetailPrice E (clock 0) b (pu_id u) s = (Inr (Some price), s1)"
    and time: "getPricingTimeContext E (clock 1) b s1 = (Inr time, s2)"
    and promos: "listApplicablePromotions D E (clock 2) b (pu_id u) s2 = (Inr promos, s3)"
    and bc: "reportBarcode b (pu_id u) eb s3 = (Inr bc, s')"
    and r: "r = lookup_result b p u price time promos bc"
    unfolding resolveSellableUnit_def sellableUnits_def Let_def bindA_eq_Inr
    by (auto simp: bindA_eq_Inr throwUnless_eq_Inr simp del: filter_filter One_nat_def split: list.splits option.splits)
  have "u \<in> set [u]" by simp
  then have u: "u \<in> set (db_product_units s)" "sellable u" "pu_business_id u = b" "pu_product_id u = pd_id p"
    "truthy eu \<longrightarrow> eu = Some (pu_id u)" unfolding one [symmetric] by (auto split: if_splits)
  have same: "s1 = s" "s2 = s1" "s3 = s2"
    using pricing_readonly(1) [THEN readonlyD, OF price] getPricingTimeContext_readonly [THEN readonlyD, OF time]
      pricing_readonly(2) [THEN readonlyD, OF promos] by auto
  show thesis using that [OF s' p u] price time promos bc r unfolding same s' by blast
qed

lemma resolveSellableUnit_Inr:
  assumes "resolveSellableUnit D E clock b p eu eb s = (Inr r, s')"
  obtains u where "s' = s" "u \<in> set (db_product_units s)" "pu_product_id u = pd_id p" "pu_business_id u = b"
    "truthy eu \<longrightarrow> eu = Some (pu_id u)" "lr_product_unit_id r = pu_id u"
    "lr_product_id r = pd_id p" "lr_product_name r = pd_name p" "lr_sku r = pd_sku p"
    "truthy eb \<longrightarrow> lr_barcode r = eb" "p \<in> set (db_products s) \<longrightarrow> offer_ok D E s b r"
proof -
  obtain u price time promos bc where parts: "s' = s" "pd_status p = ACTIVE" "u \<in> set (db_product_units s)" "sellable u"
    "pu_business_id u = b" "pu_product_id u = pd_id p" "truthy eu \<longrightarrow> eu = Some (pu_id u)"
    and price: "getPublishedRetailPrice E (clock 0) b (pu_id u) s = (Inr (Some price), s)"
    and time: "getPricingTimeContext E (clock 1) b s = (Inr time, s)"
    and promos: "listApplicablePromotions D E (clock 2) b (pu_id u) s = (Inr promos, s)"
    and bc: "reportBarcode b (pu_id u) eb s = (Inr bc, s)" and r: "r = lookup_result b p u price time promos bc"
    using assms by (rule resolveSellableUnit_parts)
  have "offer_ok D E s b r" if "p \<in> set (db_products s)"
    unfolding offer_ok_def r
    using that parts getPublishedRetailPrice_Some [OF price] timeContext_status [OF time] listApplicablePromotions_ok [OF promos]
    by (auto simp: lookup_result_def intro!: bexI [of _ p] bexI [of _ u] bexI [of _ price])
  moreover have "truthy eb \<longrightarrow> lr_barcode r = eb" using bc by (auto simp: r lookup_result_def reportBarcode_def)
  ultimately show thesis using that [of u] parts by (simp add: r lookup_result_def)
qed

text \<open>
  An offer that is current: its price is the stored price of its unit that sells at the pricing instant, with the tiers of
  that price; it is stamped with the pricing instant; and its promotions are exactly those stored for the business and this
  very unit, active or scheduled, with a known type, an amount and a quantity that parse, an integral priority and a period
  that contains the pricing instant, field by field. The three readings of the device clock are those of the price, of the
  stamp and of the promotions.
\<close>

definition promotion_current ::
  "'d decimal_ops \<Rightarrow> js_env \<Rightarrow> int \<Rightarrow> string \<Rightarrow> (string \<times> json) list \<Rightarrow> PublishedPromotion \<Rightarrow> bool" where
  "promotion_current D E t unit row q = (
     jget row ''product_unit_id'' = Some (JStr unit) \<and>
     jget row ''status'' \<in> {Some (JStr ''ACTIVE''), Some (JStr ''SCHEDULED'')} \<and>
     (jget row ''promotion_type'', pp_promotion_type q) \<in> {(Some (JStr ''FIXED_PRICE''), FIXED_PRICE),
       (Some (JStr ''PERCENT_DISCOUNT''), PERCENT_DISCOUNT), (Some (JStr ''FIXED_DISCOUNT''), FIXED_DISCOUNT)} \<and>
     jget row ''id'' = Some (JStr (pp_promotion_id q)) \<and>
     jget row ''value'' = Some (JStr (pp_value q)) \<and> (\<exists>m. parseMoney D (pp_value q) = Inr m) \<and>
     jget row ''min_qty'' = Some (JStr (pp_min_qty q)) \<and> (\<exists>m. parseQuantity D (pp_min_qty q) = Inr m) \<and>
     (\<exists>i. jget row ''priority'' = Some (JNum i) \<and> pp_priority q = JSInt i \<and> \<bar>i\<bar> \<le> 9007199254740991) \<and>
     jget row ''created_at'' = Some (JStr (pp_created_at q)) \<and> dateParse E (pp_created_at q) \<noteq> None \<and>
     jget row ''effective_from'' = Some (JStr (pp_effective_from q)) \<and>
     jget row ''effective_to'' = Some (JStr (pp_effective_to q)) \<and>
     (\<exists>start ends. dateParse E (pp_effective_from q) = Some start \<and> dateParse E (pp_effective_to q) = Some ends \<and>
        start \<le> t \<and> t < ends))"

definition offer_current ::
  "'d decimal_ops \<Rightarrow> js_env \<Rightarrow> (nat \<Rightarrow> int) \<Rightarrow> string \<Rightarrow> pos_db \<Rightarrow> LookupResultBoundary \<Rightarrow> bool" where
  "offer_current D E clock b s r = ((\<exists>v \<in> set (db_published_retail_prices s). lp_business_id v = b \<and>
       lp_product_unit_id v = lr_product_unit_id r \<and> sells_at E (pricing_instant E (clock 0) b s) v \<and>
       lr_price_version_id r = lp_price_version_id v \<and> lr_unit_price r = lp_unit_price v \<and>
       (lp_tiers v \<noteq> [] \<longrightarrow> lr_price_tiers r = lp_tiers v)) \<and>
     dateParse E (lr_pricing_resolved_at r) = Some (pricing_instant E (clock 1) b s) \<and>
     (\<forall>q. q \<in> set (lr_promotions r) \<longleftrightarrow> (\<exists>row \<in> set (db_promotions s). op_business_id row = b \<and>
        promotion_current D E (pricing_instant E (clock 2) b s) (lr_product_unit_id r) (op_payload row) q)))"

lemma asString_Some: "asString v = Some t \<longleftrightarrow> v = Some (JStr t)"
  by (auto simp: asString_def split: option.splits json.splits)

lemma asString_JStr [simp]: "asString (Some (JStr t)) = Some t"
  by (simp add: asString_Some)

lemma validTimestamp_date: "validTimestamp E v \<Longrightarrow> \<exists>w t. v = Some (JStr w) \<and> dateParse E w = Some t"
  by (auto simp: validTimestamp_def asString_Some split: option.splits)

lemma map_filter_set: "y \<in> set (List.map_filter f xs) \<longleftrightarrow> (\<exists>x \<in> set xs. f x = Some y)"
  by (force simp: List.map_filter_def)

lemma parses_Inr: "parses x \<longleftrightarrow> (\<exists>y. x = Inr y)"
  by (simp add: parses_def split: sum.split)

lemma promotionType_Some: "promotionType v = Some k \<longleftrightarrow> (v, k) \<in> {(Some (JStr ''FIXED_PRICE''), FIXED_PRICE),
    (Some (JStr ''PERCENT_DISCOUNT''), PERCENT_DISCOUNT), (Some (JStr ''FIXED_DISCOUNT''), FIXED_DISCOUNT)}"
  by (auto simp: promotionType_def asString_Some split: option.splits if_splits)

lemma safePriority_Some: "safePriority v = Some n \<longleftrightarrow> (\<exists>i. v = Some (JNum i) \<and> n = JSInt i \<and> \<bar>i\<bar> \<le> 9007199254740991)"
  by (auto simp: safePriority_def isSafeInteger_def split: option.splits json.splits if_splits)

lemma validTimestamp_iff: "validTimestamp E v \<longleftrightarrow> (\<exists>w. v = Some (JStr w) \<and> dateParse E w \<noteq> None)"
  by (auto simp: validTimestamp_def asString_Some split: option.splits)

lemma applicablePromotion_current:
  "applicablePromotion D E (Some t) unit row = Some q \<longleftrightarrow> promotion_current D E t unit row q"
proof
  assume "applicablePromotion D E (Some t) unit row = Some q"
  then show "promotion_current D E t unit row q"
    by (auto simp: applicablePromotion_def promotion_current_def Let_def asString_Some promotionType_Some safePriority_Some
        validTimestamp_iff parses_Inr split: if_splits option.splits)
next
  assume q: "promotion_current D E t unit row q"
  then have "promotionType (jget row ''promotion_type'') = Some (pp_promotion_type q)" "safePriority (jget row ''priority'') = Some (pp_priority q)"
    "validTimestamp E (jget row ''effective_from'')" "validTimestamp E (jget row ''effective_to'')" "validTimestamp E (jget row ''created_at'')"
    "parses (parseMoney D (pp_value q))" "parses (parseQuantity D (pp_min_qty q))"
    by (auto simp: promotion_current_def promotionType_Some safePriority_Some validTimestamp_iff parses_Inr)
  then show "applicablePromotion D E (Some t) unit row = Some q"
    using q by (auto simp: applicablePromotion_def promotion_current_def)
qed

lemma first_sorted: "(case sort_by c xs of [] \<Rightarrow> None | r # _ \<Rightarrow> Some r) = Some x \<Longrightarrow> x \<in> set xs"
  by (metis list.case_eq_if list.set_sel(1) option.discI option.inject set_sort_by)

lemma resolveSellableUnit_current:
  assumes "date_ok E" "\<And>i. \<bar>clock i\<bar> \<le> 8640000000000000" "resolveSellableUnit D E clock b p eu eb s = (Inr r, s')"
  shows "offer_current D E clock b s r"
proof -
  obtain u price time promos bc where
    price: "getPublishedRetailPrice E (clock 0) b (pu_id u) s = (Inr (Some price), s)"
    and time: "getPricingTimeContext E (clock 1) b s = (Inr time, s)"
    and promos: "listApplicablePromotions D E (clock 2) b (pu_id u) s = (Inr promos, s)"
    and r: "r = lookup_result b p u price time promos bc"
    using assms(3) by (rule resolveSellableUnit_parts)
  note instant = pricingTime_instant [OF assms(1,2)]
  obtain now s1 where now: "getPricingTimeContext E (clock 0) b s = (Inr now, s1)"
    "(case sort_by (newerPrice E) (filter (priceInForce E (dateParse E (tc_resolved_at now)))
       (filter (\<lambda>r. lp_business_id r = b \<and> lp_product_unit_id r = pu_id u) (db_published_retail_prices s)))
       of [] \<Rightarrow> None | r # _ \<Rightarrow> Some r) = Some price"
    using price by (auto simp: getPublishedRetailPrice_def Let_def bindA_eq_Inr simp del: filter_filter)
  from first_sorted [OF now(2)] have sells: "price \<in> set (db_published_retail_prices s)" "lp_business_id price = b" "lp_product_unit_id price = pu_id u"
    "sells_at E (pricing_instant E (clock 0) b s) price"
    unfolding instant [OF now(1)] by (auto simp: priceInForce_sells)
  obtain later s2 where later: "getPricingTimeContext E (clock 2) b s = (Inr later, s2)"
    and ps: "promos = List.map_filter (\<lambda>r. applicablePromotion D E (dateParse E (tc_resolved_at later)) (pu_id u) (op_payload r))
      (filter (\<lambda>r. op_business_id r = b) (db_promotions s2))"
    using promos by (auto simp: listApplicablePromotions_def Let_def bindA_eq_Inr)
  have "s2 = s" using readonlyD [OF getPricingTimeContext_readonly later] .
  have "q \<in> set promos \<longleftrightarrow> (\<exists>row \<in> set (db_promotions s). op_business_id row = b \<and>
      promotion_current D E (pricing_instant E (clock 2) b s) (pu_id u) (op_payload row) q)" for q
    unfolding ps instant [OF later] \<open>s2 = s\<close> by (auto simp: map_filter_set applicablePromotion_current)
  then show ?thesis
    using sells instant [OF time] unfolding offer_current_def r by (auto simp: lookup_result_def intro!: bexI [of _ price])
qed

section \<open>Scanning and typing an identifier\<close>

text \<open>
  C26. What the till finds is well formed for the cart. A barcode finds the unit of the one active barcode row
  with that text and reports the barcode; a SKU finds the one active product with it. The result is an active
  product with an active sellable unit of the business; its price is a stored price of that unit whose period contains the
  pricing instant, with its tiers; and its promotions are exactly the stored ones of that unit whose period contains the
  pricing instant, whose type is supported and whose fields parse. The database is only read.
\<close>

theorem lookup_well_formed:
  assumes "feed_ok s" "date_ok E" "\<And>i. \<bar>clock i\<bar> \<le> 8640000000000000"
  shows "(findByBarcode D E clock b code s = (Inr r, s') \<longrightarrow> s' = s \<and> offer_ok D E s b r \<and> offer_current D E clock b s r \<and>
      lr_barcode r = Some code \<and>
      (\<exists>c. filter (\<lambda>c. bc_business_id c = b \<and> bc_barcode c = code \<and> bc_status c = ACTIVE) (db_barcodes s) = [c] \<and>
           (bc_product_unit_id c \<noteq> '''' \<longrightarrow> lr_product_unit_id r = bc_product_unit_id c))) \<and>
    (findBySku D E clock b sku s = (Inr r, s') \<longrightarrow> s' = s \<and> offer_ok D E s b r \<and> offer_current D E clock b s r \<and>
      lr_sku r = sku \<and>
      (\<exists>p. filter (\<lambda>p. pd_business_id p = b \<and> pd_sku p = sku \<and> pd_status p = ACTIVE) (db_products s) = [p] \<and>
           lr_product_id r = pd_id p))"
proof (rule conjI; rule impI)
  have get: "t_get products_schema k (db_products s) = Some p \<Longrightarrow> p \<in> set (db_products s)" for k p
    using assms(1) by (auto simp: t_get_def dest: find_SomeD)
  assume "findByBarcode D E clock b code s = (Inr r, s')"
  then obtain c u p where c: "filter (\<lambda>c. bc_status c = ACTIVE) (filter (\<lambda>c. bc_business_id c = b \<and> bc_barcode c = code) (db_barcodes s)) = [c]"
    and code: "validateInput code = Inr ()"
    and u: "t_get product_units_schema (bc_product_unit_id c) (db_product_units s) = Some u"
    and p: "t_get products_schema (pu_product_id u) (db_products s) = Some p"
    and run: "resolveSellableUnit D E clock b p (Some (pu_id u)) (Some code) s = (Inr r, s')"
    unfolding findByBarcode_def bindA_eq_Inr
    by (auto simp: bindA_eq_Inr simp del: filter_filter schema_defs split: list.splits option.splits if_splits)
  have id: "pu_id u = bc_product_unit_id c" using u by (auto simp: t_get_def dest: find_SomeD)
  have "code \<noteq> ''''" using code by (auto simp: validateInput_def throwIf_eq_Inr)
  then have "truthy (Some code)" by (simp add: truthy_def)
  with run get [OF p] show "s' = s \<and> offer_ok D E s b r \<and> offer_current D E clock b s r \<and> lr_barcode r = Some code \<and>
      (\<exists>c. filter (\<lambda>c. bc_business_id c = b \<and> bc_barcode c = code \<and> bc_status c = ACTIVE) (db_barcodes s) = [c] \<and>
           (bc_product_unit_id c \<noteq> '''' \<longrightarrow> lr_product_unit_id r = bc_product_unit_id c))"
    using c id resolveSellableUnit_current [OF assms(2,3) run] by (elim resolveSellableUnit_Inr) (auto simp: truthy_def conj_assoc)
next
  assume "findBySku D E clock b sku s = (Inr r, s')"
  then obtain p where c: "filter (\<lambda>p. pd_status p = ACTIVE) (filter (\<lambda>p. pd_business_id p = b \<and> pd_sku p = sku) (db_products s)) = [p]"
    and run: "resolveSellableUnit D E clock b p None None s = (Inr r, s')"
    unfolding findBySku_def bindA_eq_Inr
    by (auto simp: bindA_eq_Inr simp del: filter_filter schema_defs split: list.splits option.splits if_splits)
  have "p \<in> set [p]" by simp
  then have p: "p \<in> set (db_products s)" "pd_sku p = sku" unfolding c [symmetric] by auto
  from run p show "s' = s \<and> offer_ok D E s b r \<and> offer_current D E clock b s r \<and> lr_sku r = sku \<and>
      (\<exists>p. filter (\<lambda>p. pd_business_id p = b \<and> pd_sku p = sku \<and> pd_status p = ACTIVE) (db_products s) = [p] \<and>
           lr_product_id r = pd_id p)"
    using c resolveSellableUnit_current [OF assms(2,3) run] by (elim resolveSellableUnit_Inr) (auto simp: conj_assoc)
qed

section \<open>Searching\<close>

lemma foldA_total:
  assumes "P a" "\<And>a x. x \<in> set xs \<Longrightarrow> P a \<Longrightarrow> \<exists>a'. f a x s = (Inr a', s) \<and> P a'"
  shows "\<exists>a'. foldA f a xs s = (Inr a', s) \<and> P a'"
  using assms
proof (induction xs arbitrary: a)
  case (Cons x xs)
  from Cons.prems(2) [of x a] Cons.prems(1) obtain a' where "f a x s = (Inr a', s)" "P a'" by auto
  moreover from Cons.IH [OF this(2)] Cons.prems(2) have "\<exists>a''. foldA f a' xs s = (Inr a'', s) \<and> P a''" by auto
  ultimately show ?case by (auto simp: bindA_def)
qed simp

text \<open>The texts a search looks at, and the invariant of its loops.\<close>

definition search_match :: "pos_db \<Rightarrow> string \<Rightarrow> string \<Rightarrow> LookupResultBoundary \<Rightarrow> bool" where
  "search_match s b query r =
     (let q = js_toLowerCase (js_trim query) in
      js_includes (js_toLowerCase (lr_product_name r)) q \<or> js_includes (js_toLowerCase (lr_sku r)) q \<or>
      (\<exists>c \<in> set (db_barcodes s). bc_business_id c = b \<and> bc_status c = ACTIVE \<and>
         js_includes (js_toLowerCase (bc_barcode c)) q \<and> bc_product_unit_id c = lr_product_unit_id r))"

definition search_inv :: "(LookupResultBoundary \<Rightarrow> bool) \<Rightarrow> search_state \<Rightarrow> bool" where
  "search_inv Q st = (distinct (map lr_product_unit_id (se_results st)) \<and>
     set (se_seenUnitIds st) = lr_product_unit_id ` set (se_results st) \<and> list_all Q (se_results st))"

lemma tryResolve_total:
  assumes "search_inv Q st" "u \<notin> set (se_seenUnitIds st)"
    and "\<And>r s'. resolveSellableUnit D E (clocks (se_tried st)) b p (Some u) bc s = (Inr r, s') \<Longrightarrow>
           lr_product_unit_id r = u \<and> Q r"
  shows "\<exists>st'. tryResolve D E clocks b p u bc st s = (Inr st', s) \<and> search_inv Q st'"
proof -
  obtain x s' where run: "resolveSellableUnit D E (clocks (se_tried st)) b p (Some u) bc s = (x, s')" by fastforce
  have "s' = s" using readonlyD [OF resolveSellableUnit_readonly run] .
  then show ?thesis using run assms
    by (cases x) (auto simp: tryResolve_def Let_def catchA_def bindA_def search_inv_def)
qed

lemma searchProduct_total:
  assumes "search_inv Q st" "'''' \<notin> pu_id ` set (db_product_units s)" "p \<in> set (db_products s)"
    and "\<And>r. offer_ok D E s b r \<Longrightarrow> lr_product_name r = pd_name p \<Longrightarrow> lr_sku r = pd_sku p \<Longrightarrow> Q r"
  shows "\<exists>st'. searchProduct D E clocks b st p s = (Inr st', s) \<and> search_inv Q st'"
proof -
  let ?us = "filter sellable (filter (\<lambda>u. pu_business_id u = b \<and> pu_product_id u = pd_id p) (db_product_units s))"
  have "\<exists>st'. searchUnit D E clocks b p st u s = (Inr st', s) \<and> search_inv Q st'"
    if "u \<in> set ?us" "search_inv Q st" for st u
  proof (cases "pu_id u \<in> set (se_seenUnitIds st)")
    case False
    have "truthy (Some (pu_id u))" using that(1) assms(2) by (auto simp: truthy_def image_iff)
    then have "lr_product_unit_id r = pu_id u \<and> Q r"
      if "resolveSellableUnit D E (clocks (se_tried st)) b p (Some (pu_id u)) None s = (Inr r, s')" for r s'
      using that assms(3,4) by (elim resolveSellableUnit_Inr) auto
    from tryResolve_total [OF that(2) False this] show ?thesis using False by (simp add: searchUnit_def)
  qed (use that in \<open>simp add: searchUnit_def\<close>)
  then show ?thesis using foldA_total [of "search_inv Q" st ?us "searchUnit D E clocks b p" s] assms(1)
    by (auto simp: searchProduct_def sellableUnits_def bindA_def simp del: filter_filter)
qed

lemma searchBarcode_total:
  assumes "search_inv Q st" "'''' \<notin> pu_id ` set (db_product_units s)"
    and "\<And>r. offer_ok D E s b r \<Longrightarrow> lr_product_unit_id r = bc_product_unit_id c \<Longrightarrow> Q r"
  shows "\<exists>st'. searchBarcode D E clocks b st c s = (Inr st', s) \<and> search_inv Q st'"
proof -
  have "\<exists>st'. tryResolve D E clocks b p (pu_id u) (Some (bc_barcode c)) st s = (Inr st', s) \<and> search_inv Q st'"
    if u: "t_get product_units_schema (bc_product_unit_id c) (db_product_units s) = Some u"
      and p: "t_get products_schema (pu_product_id u) (db_products s) = Some p"
      and new: "bc_product_unit_id c \<notin> set (se_seenUnitIds st)" for u p
  proof -
    have in_s: "u \<in> set (db_product_units s)" "pu_id u = bc_product_unit_id c" "p \<in> set (db_products s)"
      using u p by (auto simp: t_get_def dest: find_SomeD)
    have "truthy (Some (pu_id u))" using in_s(1) assms(2) by (auto simp: truthy_def image_iff)
    then have "lr_product_unit_id r = pu_id u \<and> Q r"
      if "resolveSellableUnit D E (clocks (se_tried st)) b p (Some (pu_id u)) (Some (bc_barcode c)) s = (Inr r, s')" for r s'
      using that in_s assms(3) by (elim resolveSellableUnit_Inr) auto
    then show ?thesis by (rule tryResolve_total [OF assms(1) new [folded in_s(2)]])
  qed
  then show ?thesis using assms(1)
    by (auto simp: searchBarcode_def bindA_def simp del: schema_defs split: option.split)
qed

lemma compareResults_comparator:
  assumes "comparator (localeCompare E) UNIV"
  shows "comparator (compareResults E query) UNIV"
proof -
  let ?exact = "\<lambda>a b. if exactMatch query a = exactMatch query b then 0 else if exactMatch query a then - 1 else 1 :: int"
  have "comparator ?exact UNIV" by unfold_locales (auto split: if_splits)
  moreover have "comparator (\<lambda>a b. localeCompare E (lr_product_name a) (lr_product_name b)) UNIV"
    "comparator (\<lambda>a b. localeCompare E (lr_variant_name a) (lr_variant_name b)) UNIV"
    using assms by (rule comparator_image)+
  ultimately have "comparator (\<lambda>a b. if ?exact a b \<noteq> 0 then ?exact a b else
      if localeCompare E (lr_product_name a) (lr_product_name b) \<noteq> 0
      then localeCompare E (lr_product_name a) (lr_product_name b)
      else localeCompare E (lr_variant_name a) (lr_variant_name b)) UNIV"
    by (intro comparator_lex)
  also have "(\<lambda>a b. if ?exact a b \<noteq> 0 then ?exact a b else
      if localeCompare E (lr_product_name a) (lr_product_name b) \<noteq> 0
      then localeCompare E (lr_product_name a) (lr_product_name b)
      else localeCompare E (lr_variant_name a) (lr_variant_name b)) = compareResults E query"
    by (auto simp: fun_eq_iff compareResults_def Let_def)
  finally show ?thesis .
qed

text \<open>
  C27. A search that is not blank always answers, without writing: at most fifty results, none twice for the
  same unit, each of them well formed for the cart and matching the query in its name, its SKU or an active
  barcode of its unit, and the results whose barcode or SKU is the query itself come first.
\<close>

theorem search_results:
  assumes "comparator (localeCompare E) UNIV" "js_trim query \<noteq> ''''" "'''' \<notin> pu_id ` set (db_product_units s)"
  shows "\<exists>rs. searchProducts D E clocks b query s = (Inr rs, s) \<and> length rs \<le> 50 \<and>
    distinct (map lr_product_unit_id rs) \<and>
    list_all (\<lambda>r. offer_ok D E s b r \<and> search_match s b query r) rs \<and>
    sorted_wrt (\<lambda>x y. exactMatch query y \<longrightarrow> exactMatch query x) rs"
proof -
  let ?q = "js_toLowerCase (js_trim query)" and ?Q = "\<lambda>r. offer_ok D E s b r \<and> search_match s b query r"
  let ?ps = "filter (\<lambda>p. js_includes (js_toLowerCase (pd_name p)) ?q \<or> js_includes (js_toLowerCase (pd_sku p)) ?q)
      (filter (\<lambda>p. pd_status p = ACTIVE) (filter (\<lambda>p. pd_business_id p = b) (db_products s)))"
  let ?cs = "filter (\<lambda>c. bc_status c = ACTIVE \<and> js_includes (js_toLowerCase (bc_barcode c)) ?q)
      (filter (\<lambda>c. bc_business_id c = b) (db_barcodes s))"
  let ?st0 = "\<lparr>se_results = [], se_seenUnitIds = [], se_tried = 0\<rparr>"
  have "\<exists>st'. searchProduct D E clocks b st p s = (Inr st', s) \<and> search_inv ?Q st'"
    if "p \<in> set ?ps" "search_inv ?Q st" for st p
    using that by (intro searchProduct_total [OF that(2) assms(3)]) (auto simp: search_match_def Let_def)
  moreover have "search_inv ?Q ?st0" by (simp add: search_inv_def)
  ultimately obtain st where st: "foldA (searchProduct D E clocks b) ?st0 ?ps s = (Inr st, s)" "search_inv ?Q st"
    using foldA_total [of "search_inv ?Q" ?st0 ?ps "searchProduct D E clocks b" s] by blast
  have "\<exists>st'. searchBarcode D E clocks b st c s = (Inr st', s) \<and> search_inv ?Q st'"
    if "c \<in> set ?cs" "search_inv ?Q st" for st c
    using that by (intro searchBarcode_total [OF that(2) assms(3)]) (auto simp: search_match_def Let_def)
  then obtain st' where st': "foldA (searchBarcode D E clocks b) st ?cs s = (Inr st', s)" "search_inv ?Q st'"
    using foldA_total [of "search_inv ?Q" st ?cs "searchBarcode D E clocks b" s] st(2) by blast
  let ?sorted = "sort_by (compareResults E query) (se_results st')"
  have "query \<noteq> ''''" using assms(2) by (auto simp: js_trim_def)
  then have "searchProducts D E clocks b query s = (Inr (take 50 ?sorted), s)"
    using assms(2) st(1) st'(1)
    by (simp add: searchProducts_def validateInput_def Let_def bindA_def del: filter_filter)
  moreover have "distinct (map lr_product_unit_id ?sorted)"
    using st'(2) by (simp add: search_inv_def distinct_map_sort_by)
  then have "distinct (map lr_product_unit_id (take 50 ?sorted))" by (simp flip: take_map)
  moreover have "list_all ?Q (take 50 ?sorted)"
    using st'(2) by (auto simp: search_inv_def list_all_iff dest!: in_set_takeD)
  moreover have "sorted_wrt (\<lambda>x y. compareResults E query x y \<le> 0) (take 50 ?sorted)"
    using comparator.sorted_sort_by [OF compareResults_comparator [OF assms(1)]] by (intro sorted_wrt_take) simp
  then have "sorted_wrt (\<lambda>x y. exactMatch query y \<longrightarrow> exactMatch query x) (take 50 ?sorted)"
    by (rule sorted_wrt_mono_rel [rotated]) (auto simp: compareResults_def split: if_splits)
  ultimately show ?thesis by auto
qed

section \<open>Witnesses\<close>

definition demo_offer :: LookupResultBoundary where
  "demo_offer = lookup_result ''B'' (hd (db_products demo_stocked)) (hd (db_product_units demo_stocked)) demo_price
     \<lparr>tc_resolved_at = int_text 1000, tc_status = TRUSTED\<rparr> [] (Some ''899'')"

lemma demo_tables:
  "db_products demo_stocked = [product_row ''B'' (hd (ks_products demo_catalog))]"
  "db_product_units demo_stocked = [unit_row ''B'' (hd (ks_product_units demo_catalog))]"
  "db_barcodes demo_stocked = [barcode_row ''B'' (hd (ks_barcodes demo_catalog))]" "db_promotions demo_stocked = []"
  by (simp_all add: demo_stocked_def demo_shelves_def demo_catalog_def empty_db_def)

lemma demo_promotions: "listApplicablePromotions ref_ops iso_env 2000 ''B'' ''U'' demo_stocked = (Inr [], demo_stocked)"
  by (simp add: listApplicablePromotions_def Let_def bindA_def demo_time demo_tables List.map_filter_def)

lemma demo_resolve:
  "truthy eu \<longrightarrow> eu = Some ''U'' \<Longrightarrow> eb = None \<or> eb = Some ''899'' \<Longrightarrow>
   resolveSellableUnit ref_ops iso_env (\<lambda>_. 2000) ''B'' (hd (db_products demo_stocked)) eu eb demo_stocked =
     (Inr demo_offer, demo_stocked)"
  by (auto simp: resolveSellableUnit_def bindA_def sellableUnits_def demo_offer_def demo_price_read demo_time demo_promotions
      reportBarcode_def truthy_def demo_tables product_row_def unit_row_def barcode_row_def row_status_def
      demo_catalog_def sellable_def json_text_def)

lemma demo_scan: "findByBarcode ref_ops iso_env (\<lambda>_. 2000) ''B'' ''899'' demo_stocked = (Inr demo_offer, demo_stocked)"
proof -
  have v: "validateInput ''899'' = Inr ()" by code_simp
  show ?thesis using demo_resolve [of "Some ''U''" "Some ''899''"]
    by (simp add: findByBarcode_def v bindA_def t_get_def demo_tables product_row_def unit_row_def barcode_row_def
        row_status_def demo_catalog_def json_text_def)
qed

theorem lookup_well_formed_witness:
  "findByBarcode ref_ops iso_env (\<lambda>_. 2000) ''B'' ''899'' demo_stocked = (Inr demo_offer, demo_stocked) \<and>
   offer_ok ref_ops iso_env demo_stocked ''B'' demo_offer \<and> offer_current ref_ops iso_env (\<lambda>_. 2000) ''B'' demo_stocked demo_offer"
  using lookup_well_formed [OF demo_stocked_ok iso_env_ok, where D = ref_ops and clock = "\<lambda>_. 2000"
      and b = "''B''" and code = "''899''" and r = demo_offer and s' = demo_stocked] demo_scan by auto

theorem search_results_witness:
  "\<exists>rs. searchProducts ref_ops iso_env (\<lambda>_ _. 2000) ''B'' ''kopi'' demo_stocked = (Inr rs, demo_stocked) \<and> length rs \<le> 50"
proof -
  have "js_trim ''kopi'' \<noteq> ''''" by code_simp
  moreover have "'''' \<notin> pu_id ` set (db_product_units demo_stocked)" by (simp add: demo_tables unit_row_def demo_catalog_def)
  ultimately show ?thesis using search_results [OF iso_env_comparator] by blast
qed

end
