(* ===== verification/Http_Gateway.thy ===== *)
theory Http_Gateway
  imports Json_Parse Sync_Client
begin

text \<open>
  The transport of synchronisation, \<open>packages/sync-client/src/http-gateway.ts\<close>: the headers and the body
  of every request, and the decoding of every response, as an instance of the gateway the orchestrator of
  theory \<open>Sync_Client\<close> calls. \<open>fetch\<close> is a parameter, by call; so are the auth provider, the URL functions of the
  host, \<open>Number\<close> of a header text, the clock and the fresh request ids. The type assertion at the end of
  \<open>decodeAuthContext\<close> is the parameter \<open>hg_asAuth\<close>: the checked members seen as the declared interface. Header names are
  compared without case, as \<open>Headers\<close> does. The lemmas show that no response, however malformed, makes the
  gateway fail with anything but a transport, protocol or HTTP error, and what a decoded response satisfies.
\<close>

section \<open>Requests and responses\<close>

definition SYNC_BOOTSTRAP_PATH :: string where "SYNC_BOOTSTRAP_PATH = ''/api/v1/sync/bootstrap''"
definition SYNC_PUSH_PATH :: string where "SYNC_PUSH_PATH = ''/api/v1/sync/push''"
definition SYNC_RECOVERY_PUSH_PATH :: string where "SYNC_RECOVERY_PUSH_PATH = ''/api/v1/sync/recovery-push''"
definition SYNC_PULL_PATH :: string where "SYNC_PULL_PATH = ''/api/v1/sync/pull''"
definition SYNC_ACK_PATH :: string where "SYNC_ACK_PATH = ''/api/v1/sync/ack''"

type_synonym headers = "(string \<times> string) list"

definition sameName :: "string \<Rightarrow> string \<Rightarrow> bool" where
  "sameName a b = (js_toLowerCase a = js_toLowerCase b)"

definition header_set :: "string \<Rightarrow> string \<Rightarrow> headers \<Rightarrow> headers" where
  "header_set name v hs = filter (\<lambda>(n, _). \<not> sameName n name) hs @ [(name, v)]"

definition header_get :: "string \<Rightarrow> headers \<Rightarrow> string option" where
  "header_get name hs = map_option snd (find (\<lambda>(n, _). sameName n name) hs)"

record HttpRequest =
  hq_method :: string
  hq_url :: string
  hq_headers :: headers
  hq_credentials :: string
  hq_body :: "string option"

record HttpResponse =
  hr_status :: int
  hr_retryAfter :: "string option"
  hr_body :: string

record SyncRequestAuth =
  ra_headers :: headers
  ra_credentials :: "string option"

record HttpSyncGatewayOptions =
  hg_baseUrl :: string
  hg_client :: string
  hg_clientVersion :: string
  hg_clientSchemaVersion :: int
  hg_deviceId :: string
  hg_recoveryReason :: "string option"
  hg_authProvider :: "SyncRequestAuth result"
  hg_fetch :: "nat \<Rightarrow> HttpRequest \<Rightarrow> HttpResponse option"
  hg_requestId :: "nat \<Rightarrow> string"
  hg_url :: "string \<Rightarrow> string \<Rightarrow> string"
  hg_setParam :: "string \<Rightarrow> string \<Rightarrow> string \<Rightarrow> string"
  hg_numberText :: "js_number \<Rightarrow> string"
  hg_Number :: "string \<Rightarrow> js_number"
  hg_now :: int
  hg_asAuth :: "(string \<times> json) list \<Rightarrow> AuthContextResponse"

section \<open>Authentication\<close>

definition createBearerAuthProvider :: "string result \<Rightarrow> SyncRequestAuth result" where
  "createBearerAuthProvider getAccessToken =
     bindE getAccessToken (\<lambda>accessToken.
     bindE (throwIf (js_trim accessToken = '''') (JsError ''The current bearer session token is empty.'')) (\<lambda>_.
     Inr \<lparr>ra_headers = [(''Authorization'', ''Bearer '' @ accessToken)], ra_credentials = None\<rparr>))"

definition createCookieSessionAuthProvider :: "SyncRequestAuth result" where
  "createCookieSessionAuthProvider = Inr \<lparr>ra_headers = [], ra_credentials = Some ''include''\<rparr>"

section \<open>Decoding\<close>

abbreviation protocol :: "string \<Rightarrow> 'a result" where
  "protocol message \<equiv> Inl (SyncProtocolError message)"

definition isStringArray :: "json option \<Rightarrow> string list option" where
  "isStringArray v = (case v of
     Some (JArr xs) \<Rightarrow> those (map (\<lambda>x. case x of JStr t \<Rightarrow> Some t | _ \<Rightarrow> None) xs)
   | _ \<Rightarrow> None)"

definition requiredString :: "(string \<times> json) list \<Rightarrow> string \<Rightarrow> string result" where
  "requiredString record key = (case jget record key of
     Some (JStr v) \<Rightarrow> Inr v
   | _ \<Rightarrow> protocol (''Expected response field '' @ key @ '' to be a string.''))"

definition optionalString :: "(string \<times> json) list \<Rightarrow> string \<Rightarrow> string option result" where
  "optionalString record key = (case jget record key of
     None \<Rightarrow> Inr None
   | Some JNull \<Rightarrow> Inr None
   | Some (JStr v) \<Rightarrow> Inr (Some v)
   | _ \<Rightarrow> protocol (''Expected response field '' @ key @ '' to be a string.''))"

definition decodeWarning :: "json \<Rightarrow> SyncWarning result" where
  "decodeWarning j = (case j of
     JObj entry \<Rightarrow>
       bindE (optionalString entry ''message'') (\<lambda>message.
       bindE (optionalString entry ''severity'') (\<lambda>severity.
       bindE (requiredString entry ''code'') (\<lambda>code.
       Inr \<lparr>sw_code = code, sw_message = message, sw_severity = severity\<rparr>)))
   | _ \<Rightarrow> protocol ''Expected command warning to be an object.'')"

definition decodeWarnings :: "json option \<Rightarrow> SyncWarning list result" where
  "decodeWarnings v = (case v of
     None \<Rightarrow> Inr []
   | Some (JArr xs) \<Rightarrow> mapE decodeWarning xs
   | _ \<Rightarrow> protocol ''Expected command warnings to be an array.'')"

definition rejectedStatus :: "string \<Rightarrow> SyncRejectedStatus option" where
  "rejectedStatus status = map_of [(''REJECTED_VALIDATION'', REJECTED_VALIDATION),
     (''REJECTED_PERMISSION'', REJECTED_PERMISSION), (''REJECTED_CONFLICT'', REJECTED_CONFLICT),
     (''REJECTED_ONLINE_REQUIRED'', REJECTED_ONLINE_REQUIRED), (''REJECTED_RETRYABLE'', REJECTED_RETRYABLE),
     (''REJECTED_FINAL'', REJECTED_FINAL)] status"

definition inferRejectedStatus :: "string \<Rightarrow> SyncRejectedStatus" where
  "inferRejectedStatus errorCode = (case rejectedStatus errorCode of
     Some status \<Rightarrow> status
   | None \<Rightarrow>
       if errorCode \<in> {''TEMPORARY_UNAVAILABLE'', ''RATE_LIMITED'', ''PROVIDER_TEMPORARY_FAILURE''} then REJECTED_RETRYABLE
       else if errorCode \<in> {''PERMISSION_DENIED'', ''UNAUTHENTICATED''} then REJECTED_PERMISSION
       else if errorCode = ''ONLINE_REQUIRED'' then REJECTED_ONLINE_REQUIRED
       else if errorCode \<in> {''VERSION_CONFLICT'', ''BUSINESS_CONFLICT'', ''IDEMPOTENCY_KEY_REUSE_ERROR''} then REJECTED_CONFLICT
       else if errorCode \<in> {''VALIDATION_ERROR'', ''ENTITY_NOT_FOUND'', ''RETURN_QTY_EXCEEDED''} then REJECTED_VALIDATION
       else REJECTED_FINAL)"

text \<open>The bodies of the two loops over a push response: what has been accepted and rejected so far.\<close>

definition currentEntry :: "SyncPushBatchResult \<Rightarrow> json \<Rightarrow> SyncPushBatchResult result" where
  "currentEntry acc j = (case j of
     JObj entry \<Rightarrow>
       bindE (requiredString entry ''command_id'') (\<lambda>commandId.
       bindE (requiredString entry ''error_code'') (\<lambda>errorCode.
       bindE (requiredString entry ''message'') (\<lambda>message.
       Inr (if errorCode = ''ACCEPTED_WITH_REVIEW''
            then acc\<lparr>rb_accepted := rb_accepted acc @ [\<lparr>ac_command_id = commandId, ac_status = AC_ACCEPTED_WITH_REVIEW,
                   ac_warnings = [\<lparr>sw_code = errorCode, sw_message = Some message, sw_severity = None\<rparr>]\<rparr>]\<rparr>
            else acc\<lparr>rb_rejected := rb_rejected acc @ [\<lparr>rj_command_id = commandId,
                   rj_status = inferRejectedStatus errorCode, rj_error_code = errorCode, rj_message = message\<rparr>]\<rparr>))))
   | _ \<Rightarrow> protocol ''Invalid rejected command response.'')"

definition normalizeCurrentPushResponse :: "(string \<times> json) list \<Rightarrow> SyncPushBatchResult result" where
  "normalizeCurrentPushResponse body =
     (case (isStringArray (jget body ''accepted_commands''), jget body ''rejected_commands'') of
        (Some acceptedCommands, Some (JArr rejectedCommands)) \<Rightarrow>
          foldE currentEntry
            \<lparr>rb_accepted = map (\<lambda>commandId. \<lparr>ac_command_id = commandId, ac_status = AC_ACCEPTED, ac_warnings = []\<rparr>) acceptedCommands,
             rb_rejected = []\<rparr> rejectedCommands
      | _ \<Rightarrow> protocol ''Invalid current sync push response shape.'')"

definition richEntry :: "SyncPushBatchResult \<Rightarrow> json \<Rightarrow> SyncPushBatchResult result" where
  "richEntry acc j = (case j of
     JObj entry \<Rightarrow>
       bindE (requiredString entry ''command_id'') (\<lambda>commandId.
       bindE (requiredString entry ''status'') (\<lambda>status.
       if status = ''ACCEPTED'' \<or> status = ''ACCEPTED_WITH_REVIEW'' then
         bindE (decodeWarnings (jget entry ''warnings'')) (\<lambda>warnings.
         Inr (acc\<lparr>rb_accepted := rb_accepted acc @ [\<lparr>ac_command_id = commandId,
           ac_status = (if status = ''ACCEPTED'' then AC_ACCEPTED else AC_ACCEPTED_WITH_REVIEW), ac_warnings = warnings\<rparr>]\<rparr>))
       else case rejectedStatus status of
         None \<Rightarrow> protocol (''Unknown command result status: '' @ status @ ''.'')
       | Some rejected \<Rightarrow>
           let error = (case jget entry ''error'' of Some (JObj e) \<Rightarrow> e | _ \<Rightarrow> entry) in
           bindE (optionalString error ''code'') (\<lambda>code.
           bindE (optionalString error ''message'') (\<lambda>message.
           Inr (acc\<lparr>rb_rejected := rb_rejected acc @ [\<lparr>rj_command_id = commandId, rj_status = rejected,
             rj_error_code = (case code of None \<Rightarrow> status | Some c \<Rightarrow> c),
             rj_message = (case message of None \<Rightarrow> ''Command was rejected.'' | Some m \<Rightarrow> m)\<rparr>]\<rparr>)))))
   | _ \<Rightarrow> protocol ''Invalid command result entry.'')"

definition normalizeRichPushResponse :: "(string \<times> json) list \<Rightarrow> SyncPushBatchResult result" where
  "normalizeRichPushResponse body = (case jget body ''results'' of
     Some (JArr results) \<Rightarrow> foldE richEntry \<lparr>rb_accepted = [], rb_rejected = []\<rparr> results
   | _ \<Rightarrow> protocol ''Invalid rich sync push response shape.'')"

definition decodePushResponse :: "json \<Rightarrow> SyncPushBatchResult result" where
  "decodePushResponse j = (case j of
     JObj body \<Rightarrow> if jget body ''results'' \<noteq> None then normalizeRichPushResponse body
                  else normalizeCurrentPushResponse body
   | _ \<Rightarrow> protocol ''Sync push response must be an object.'')"

definition isJString :: "json option \<Rightarrow> bool" where
  "isJString v = (case v of Some (JStr _) \<Rightarrow> True | _ \<Rightarrow> False)"

definition isJNumber :: "json option \<Rightarrow> bool" where
  "isJNumber v = (case v of Some (JNum _) \<Rightarrow> True | Some (JFrac _) \<Rightarrow> True | _ \<Rightarrow> False)"

definition decodeAuthContext ::
  "((string \<times> json) list \<Rightarrow> AuthContextResponse) \<Rightarrow> json option \<Rightarrow> (AuthContextResponse \<times> (string \<times> json) list) result" where
  "decodeAuthContext asAuth v =
     (case v of
        Some (JObj members) \<Rightarrow>
          (case (jget members ''user'', jget members ''membership'') of
             (Some (JObj user), Some (JObj membership)) \<Rightarrow>
               if isJString (jget user ''id'') \<and> isJString (jget user ''display_name'') \<and>
                  isJString (jget membership ''business_id'') \<and> jget membership ''status'' = Some (JStr ''ACTIVE'') \<and>
                  isJString (jget members ''primary_role'') \<and> isStringArray (jget members ''permissions'') \<noteq> None \<and>
                  isJNumber (jget members ''authorization_version'') \<and> isJString (jget members ''offline_valid_until'') \<and>
                  isJString (jget members ''default_location_id'') \<and> isJString (jget members ''server_time'')
               then Inr (asAuth members, members)
               else protocol ''Invalid authorization bootstrap projection.''
           | _ \<Rightarrow> protocol ''Invalid authorization bootstrap projection.'')
      | _ \<Rightarrow> protocol ''Invalid authorization bootstrap projection.'')"

definition requiredArray :: "(string \<times> json) list \<Rightarrow> string \<Rightarrow> json list result" where
  "requiredArray record key = (case jget record key of
     Some (JArr xs) \<Rightarrow> Inr xs
   | _ \<Rightarrow> protocol (''Expected bootstrap field '' @ key @ '' to be an array.''))"

text \<open>A member that is absent is read as \<open>undefined\<close>; the projections treat it as null.\<close>

definition member :: "(string \<times> json) list \<Rightarrow> string \<Rightarrow> json" where
  "member record key = (case jget record key of None \<Rightarrow> JNull | Some v \<Rightarrow> v)"

fun js_of_json :: "(string \<Rightarrow> js_number) \<Rightarrow> json \<Rightarrow> js_number" where
  "js_of_json N (JNum i) = JSInt i"
| "js_of_json N (JFrac t) = N t"
| "js_of_json N _ = JSNotFinite"

definition decodeBootstrapResponse ::
  "HttpSyncGatewayOptions \<Rightarrow> json \<Rightarrow> SyncBootstrapResponse result" where
  "decodeBootstrapResponse opts j = (case j of
     JObj v \<Rightarrow>
       bindE (requiredArray v ''products'') (\<lambda>products.
       bindE (requiredArray v ''product_units'') (\<lambda>product_units.
       bindE (requiredArray v ''barcodes'') (\<lambda>barcodes.
       bindE (requiredArray v ''published_price_versions'') (\<lambda>versions.
       bindE (requiredArray v ''published_price_tiers'') (\<lambda>tiers.
       bindE (requiredArray v ''promotions'') (\<lambda>promotions.
       bindE (requiredArray v ''payment_methods'') (\<lambda>methods.
       bindE (requiredArray v ''stock_balances'') (\<lambda>balances.
       bindE (throwUnless (isJNumber (jget v ''bootstrap_version''))
                (SyncProtocolError ''Expected bootstrap_version to be a number.'')) (\<lambda>_.
       bindE (requiredString v ''server_time'') (\<lambda>server_time.
       bindE (decodeAuthContext (hg_asAuth opts) (jget v ''authorization'')) (\<lambda>(authorization, members).
       bindE (requiredString v ''sync_cursor'') (\<lambda>sync_cursor.
       Inr \<lparr>bt_bootstrap_version = js_of_json (hg_Number opts) (member v ''bootstrap_version''), bt_server_time = server_time,
            bt_business = member v ''business'', bt_location = member v ''location'', bt_terminal = member v ''terminal'',
            bt_authorization = authorization, bt_authorization_members = members, bt_settings = member v ''settings'',
            bt_products = products, bt_product_units = product_units, bt_barcodes = barcodes,
            bt_published_price_versions = versions, bt_published_price_tiers = tiers, bt_promotions = promotions,
            bt_payment_methods = methods, bt_stock_balances = balances, bt_sync_cursor = sync_cursor\<rparr>))))))))))))
   | _ \<Rightarrow> protocol ''Bootstrap response must be an object.'')"

definition pullChangeType :: "string \<Rightarrow> SyncChangeType option" where
  "pullChangeType t = map_of [(''UPSERT'', CH_UPSERT), (''DEACTIVATE'', CH_DEACTIVATE), (''EVENT'', CH_EVENT),
     (''INVALIDATE'', CH_INVALIDATE)] t"

definition decodeEntityVersion :: "json option \<Rightarrow> string option result" where
  "decodeEntityVersion v = (case v of
     Some JNull \<Rightarrow> Inr None
   | Some (JStr t) \<Rightarrow> if plain_int t then Inr (Some t)
       else protocol ''Pull entity_version must be an unsigned decimal string or null.''
   | _ \<Rightarrow> protocol ''Pull entity_version must be an unsigned decimal string or null.'')"

definition decodePullChange :: "json \<Rightarrow> SyncPullChange result" where
  "decodePullChange j = (case j of
     JObj v \<Rightarrow>
       bindE (requiredString v ''change_type'') (\<lambda>changeText.
       case pullChangeType changeText of
         None \<Rightarrow> protocol (''Unknown pull change type: '' @ changeText @ ''.'')
       | Some changeType \<Rightarrow>
           bindE (decodeEntityVersion (jget v ''entity_version'')) (\<lambda>entityVersion.
           bindE (requiredString v ''sequence'') (\<lambda>sequence.
           bindE (requiredString v ''entity_type'') (\<lambda>entity_type.
           bindE (requiredString v ''entity_id'') (\<lambda>entity_id.
           bindE (requiredString v ''occurred_at'') (\<lambda>occurred_at.
           Inr \<lparr>pc_sequence = sequence, pc_entity_type = entity_type, pc_entity_id = entity_id,
                pc_change_type = changeType, pc_entity_version = entityVersion, pc_occurred_at = occurred_at,
                pc_payload = member v ''payload''\<rparr>))))))
   | _ \<Rightarrow> protocol ''Pull change must be an object.'')"

definition decodePullResponse :: "json \<Rightarrow> SyncPullResponse result" where
  "decodePullResponse j = (case j of
     JObj v \<Rightarrow>
       (case jget v ''changes'' of
          Some (JArr changes) \<Rightarrow>
            (case jget v ''has_more'' of
               Some (JBool has_more) \<Rightarrow>
                 bindE (mapE decodePullChange changes) (\<lambda>decoded.
                 bindE (requiredString v ''next_cursor'') (\<lambda>next_cursor.
                 bindE (requiredString v ''server_time'') (\<lambda>server_time.
                 Inr \<lparr>pl_changes = decoded, pl_next_cursor = next_cursor, pl_has_more = has_more,
                      pl_server_time = server_time\<rparr>)))
             | _ \<Rightarrow> protocol ''Expected has_more to be a boolean.'')
        | _ \<Rightarrow> protocol ''Invalid sync pull response.'')
   | _ \<Rightarrow> protocol ''Invalid sync pull response.'')"

section \<open>Failures\<close>

definition parseRetryAfter :: "js_env \<Rightarrow> HttpSyncGatewayOptions \<Rightarrow> string option \<Rightarrow> rat option" where
  "parseRetryAfter E opts v = (case v of
     None \<Rightarrow> None
   | Some t \<Rightarrow>
       let seconds = hg_Number opts t in
       if isFinite seconds \<and> 0 \<le> js_rat seconds then Some (js_rat seconds * 1000)
       else map_option (\<lambda>timestamp. of_int (max 0 (timestamp - hg_now opts))) (dateParse E t))"

definition readResponseJson :: "HttpResponse \<Rightarrow> json result" where
  "readResponseJson response = (case json_parse (hr_body response) of
     None \<Rightarrow> protocol ''Sync endpoint returned invalid JSON.'' | Some j \<Rightarrow> Inr j)"

definition throwHttpError :: "js_env \<Rightarrow> HttpSyncGatewayOptions \<Rightarrow> HttpResponse \<Rightarrow> 'a result" where
  "throwHttpError E opts response =
     (let status = hr_status response;
          error = (case json_parse (hr_body response) of
            Some (JObj body) \<Rightarrow> (case jget body ''error'' of Some (JObj e) \<Rightarrow> Some e | _ \<Rightarrow> None)
          | _ \<Rightarrow> None);
          defaultCode = ''HTTP_'' @ int_text status;
          defaultMessage = ''Sync request failed with HTTP '' @ int_text status @ ''.'' in
      bindE (case error of None \<Rightarrow> Inr None | Some e \<Rightarrow> optionalString e ''code'') (\<lambda>code.
      bindE (case error of None \<Rightarrow> Inr None | Some e \<Rightarrow> optionalString e ''message'') (\<lambda>message.
      let serverRetryable = (case error of None \<Rightarrow> None
            | Some e \<Rightarrow> (case jget e ''retryable'' of Some (JBool b) \<Rightarrow> Some b | _ \<Rightarrow> None)) in
      Inl (SyncHttpError status (case code of None \<Rightarrow> defaultCode | Some c \<Rightarrow> c)
        (case message of None \<Rightarrow> defaultMessage | Some m \<Rightarrow> m) serverRetryable
        (parseRetryAfter E opts (hr_retryAfter response))))))"

definition response_ok :: "HttpResponse \<Rightarrow> bool" where
  "response_ok response = (200 \<le> hr_status response \<and> hr_status response \<le> 299)"

section \<open>The gateway\<close>

definition newHttpSyncGateway :: "HttpSyncGatewayOptions \<Rightarrow> HttpSyncGatewayOptions result" where
  "newHttpSyncGateway opts =
     bindE (throwIf (js_trim (hg_baseUrl opts) = '''') (JsError ''baseUrl is required.'')) (\<lambda>_.
     bindE (throwIf (js_trim (hg_deviceId opts) = '''') (JsError ''deviceId is required.'')) (\<lambda>_.
     bindE (case hg_recoveryReason opts of
              None \<Rightarrow> Inr ()
            | Some given \<Rightarrow>
                let reason = js_trim given in
                bindE (throwIf (hg_client opts \<noteq> ''backoffice'')
                  (JsError ''Recovery import must use an independent backoffice approver.'')) (\<lambda>_.
                throwIf (length reason < 10 \<or> length reason > 500)
                  (JsError ''Recovery approval reason is out of range.''))) (\<lambda>_.
     Inr (opts\<lparr>hg_baseUrl := (if hg_baseUrl opts \<noteq> '''' \<and> last (hg_baseUrl opts) = CHR ''/''
            then hg_baseUrl opts else hg_baseUrl opts @ ''/'')\<rparr>))))"

definition request_headers :: "HttpSyncGatewayOptions \<Rightarrow> nat \<Rightarrow> SyncRequestAuth \<Rightarrow> headers \<Rightarrow> string option \<Rightarrow> headers" where
  "request_headers opts i auth extra body =
     (let common = fold (\<lambda>(n, v). header_set n v)
            [(''Accept'', ''application/json''), (''X-Kastur-Client'', hg_client opts),
             (''X-Kastur-Client-Version'', hg_clientVersion opts),
             (''X-Kastur-Schema-Version'', int_text (hg_clientSchemaVersion opts)),
             (''X-Kastur-Device-Id'', hg_deviceId opts), (''X-Request-Id'', hg_requestId opts i)] (ra_headers auth);
          typed = (if body \<noteq> None then header_set ''Content-Type'' ''application/json'' common else common) in
      fold (\<lambda>(n, v). header_set n v) extra typed)"

definition http_request ::
  "HttpSyncGatewayOptions \<Rightarrow> nat \<Rightarrow> string \<Rightarrow> string \<Rightarrow> headers \<Rightarrow> string option \<Rightarrow> HttpResponse result" where
  "http_request opts i method path extra body =
     bindE (hg_authProvider opts) (\<lambda>auth.
     case hg_fetch opts i \<lparr>hq_method = method, hq_url = hg_url opts path (hg_baseUrl opts),
            hq_headers = request_headers opts i auth extra body,
            hq_credentials = (case ra_credentials auth of None \<Rightarrow> ''same-origin'' | Some c \<Rightarrow> c), hq_body = body\<rparr> of
       None \<Rightarrow> Inl (SyncTransportError ''NETWORK''
                 ''Sync request outcome is unknown because the network request failed.'')
     | Some response \<Rightarrow> Inr response)"

definition assertDevice :: "HttpSyncGatewayOptions \<Rightarrow> string \<Rightarrow> unit result" where
  "assertDevice opts deviceId =
     throwIf (deviceId \<noteq> hg_deviceId opts) (SyncProtocolError ''Sync request device does not match gateway device.'')"

definition gateway_bootstrap :: "js_env \<Rightarrow> HttpSyncGatewayOptions \<Rightarrow> SyncBootstrapResponse result" where
  "gateway_bootstrap E opts =
     bindE (http_request opts 0 ''GET'' SYNC_BOOTSTRAP_PATH [] None) (\<lambda>response.
     if \<not> response_ok response then throwHttpError E opts response
     else bindE (readResponseJson response) (decodeBootstrapResponse opts))"

text \<open>\<open>JSON.stringify\<close> of a request: members that are \<open>undefined\<close> are left out.\<close>

definition grant_json :: "OfflineAuthorizationGrant \<Rightarrow> json" where
  "grant_json g = JObj [(''schema_version'', JNum 1), (''algorithm'', JStr ''ECDSA_P256_SHA256''),
     (''key_id'', JStr (og_key_id g)), (''session_id'', JStr (og_session_id g)), (''device_id'', JStr (og_device_id g)),
     (''terminal_id'', JStr (og_terminal_id g)), (''issued_at'', JStr (og_issued_at g)),
     (''offline_valid_until'', JStr (og_offline_valid_until g)),
     (''authorization'', JObj [(''user_id'', JStr (og_user_id g)), (''business_id'', JStr (og_business_id g)),
        (''primary_role'', JStr (og_primary_role g)), (''permissions'', JArr (map JStr (og_permissions g))),
        (''authorization_version'', JNum (og_authorization_version g)),
        (''default_location_id'', JStr (og_default_location_id g))]),
     (''signature'', JStr (og_signature g))]"

definition command_json :: "SyncPushCommand \<Rightarrow> json" where
  "command_json c = JObj ([(''command_id'', JStr (wc_command_id c)), (''command_type'', JStr (wc_command_type c)),
     (''occurred_at'', JStr (wc_occurred_at c))] @
     (case wc_location_id c of None \<Rightarrow> [] | Some l \<Rightarrow> [(''location_id'', JStr l)]) @
     [(''device_id'', JStr (wc_device_id c)), (''authorization_version'', JNum (wc_authorization_version c))] @
     (case wc_offline_authorization c of None \<Rightarrow> [] | Some g \<Rightarrow> [(''offline_authorization'', grant_json g)]) @
     [(''correlation_id'', JStr (wc_correlation_id c)), (''payload'', wc_payload c)])"

definition push_body :: "HttpSyncGatewayOptions \<Rightarrow> SyncPushRequest \<Rightarrow> json" where
  "push_body opts request = JObj ([(''batch_id'', JStr (rq_batch_id request)),
     (''client_schema_version'', JNum (rq_client_schema_version request)),
     (''commands'', JArr (map command_json (rq_commands request)))] @
     (case hg_recoveryReason opts of None \<Rightarrow> [] | Some r \<Rightarrow> [(''recovery_reason'', JStr (js_trim r))]))"

definition gateway_push ::
  "js_env \<Rightarrow> HttpSyncGatewayOptions \<Rightarrow> nat \<Rightarrow> SyncPushRequest \<Rightarrow> SyncPushBatchResult result" where
  "gateway_push E opts i request =
     bindE (mapE (\<lambda>command. assertDevice opts (wc_device_id command)) (rq_commands request)) (\<lambda>_.
     let idempotencyKey = (case rq_commands request of [c] \<Rightarrow> wc_command_id c | _ \<Rightarrow> rq_batch_id request) in
     bindE (http_request opts i ''POST''
              (if hg_recoveryReason opts = None then SYNC_PUSH_PATH else SYNC_RECOVERY_PUSH_PATH)
              [(''Idempotency-Key'', idempotencyKey)] (Some (json_stringify (push_body opts request)))) (\<lambda>response.
     if \<not> response_ok response then throwHttpError E opts response
     else bindE (readResponseJson response) decodePushResponse))"

definition gateway_pull ::
  "js_env \<Rightarrow> HttpSyncGatewayOptions \<Rightarrow> nat \<Rightarrow> SyncPullRequest \<Rightarrow> SyncPullResponse result" where
  "gateway_pull E opts i request =
     bindE (assertDevice opts (pq_device_id request)) (\<lambda>_.
     let url = hg_setParam opts ''limit'' (hg_numberText opts (pq_limit request))
                 (hg_setParam opts ''cursor'' (pq_cursor request) (hg_url opts SYNC_PULL_PATH (hg_baseUrl opts))) in
     bindE (http_request opts i ''GET'' url [] None) (\<lambda>response.
     if \<not> response_ok response then throwHttpError E opts response
     else bindE (readResponseJson response) decodePullResponse))"

definition gateway_ack :: "js_env \<Rightarrow> HttpSyncGatewayOptions \<Rightarrow> SyncAckRequest \<Rightarrow> unit result" where
  "gateway_ack E opts request =
     bindE (assertDevice opts (ak_device_id request)) (\<lambda>_.
     bindE (http_request opts 0 ''POST'' SYNC_ACK_PATH []
              (Some (json_stringify (JObj [(''device_id'', JStr (ak_device_id request)),
                 (''last_applied_sequence'', JStr (ak_last_applied_sequence request))])))) (\<lambda>response.
     if \<not> response_ok response then throwHttpError E opts response else Inr ()))"

text \<open>The gateway as the orchestrator sees it.\<close>

definition HttpSyncGateway :: "js_env \<Rightarrow> HttpSyncGatewayOptions \<Rightarrow> SyncGateway" where
  "HttpSyncGateway E opts = \<lparr>gw_bootstrap = gateway_bootstrap E opts, gw_push = gateway_push E opts,
     gw_pull = gateway_pull E opts, gw_ack = gateway_ack E opts\<rparr>"

section \<open>Failures are transport failures\<close>

text \<open>A computation whose only failures are protocol errors: every decoder of a response.\<close>

definition decoding :: "'a result \<Rightarrow> bool" where
  "decoding r = (\<forall>e. r = Inl e \<longrightarrow> (\<exists>m. e = SyncProtocolError m))"

named_theorems decoding_intros \<open>computations that fail only with protocol errors\<close>

lemma decoding_simps [simp]: "decoding (Inr x)" "decoding (Inl e) \<longleftrightarrow> (\<exists>m. e = SyncProtocolError m)"
  by (simp_all add: decoding_def)

lemma decoding_bindE [decoding_intros]: "decoding m \<Longrightarrow> (\<And>x. decoding (f x)) \<Longrightarrow> decoding (bindE m f)"
  by (auto simp: decoding_def bindE_eq_Inl)

lemma decoding_throw [decoding_intros]:
  "decoding (throwIf c (SyncProtocolError m))" "decoding (throwUnless c (SyncProtocolError m))"
  by (simp_all add: throwIf_def throwUnless_def)

lemma decoding_mapE [decoding_intros]: "(\<And>x. decoding (f x)) \<Longrightarrow> decoding (mapE f xs)"
  by (induction xs) (auto intro!: decoding_intros)

lemma decoding_foldE [decoding_intros]: "(\<And>a x. decoding (f a x)) \<Longrightarrow> decoding (foldE f a xs)"
  by (induction xs arbitrary: a) (auto intro!: decoding_intros)

lemma decoding_fields [decoding_intros]:
  "decoding (requiredString r k)" "decoding (optionalString r k)" "decoding (requiredArray r k)"
  by (auto simp: requiredString_def optionalString_def requiredArray_def split: option.split json.split)

lemma decoding_warnings [decoding_intros]: "decoding (decodeWarnings v)"
  by (auto simp: decodeWarnings_def decodeWarning_def intro!: decoding_intros split: option.split json.split)

lemma decoding_push [decoding_intros]: "decoding (decodePushResponse j)"
  by (auto simp: decodePushResponse_def normalizeRichPushResponse_def normalizeCurrentPushResponse_def richEntry_def
      currentEntry_def Let_def intro!: decoding_intros split: option.split json.split)

lemma decoding_auth [decoding_intros]: "decoding (decodeAuthContext A v)"
  by (auto simp: decodeAuthContext_def split: option.split json.split)

lemma decoding_bootstrap [decoding_intros]: "decoding (decodeBootstrapResponse opts j)"
  by (auto simp: decodeBootstrapResponse_def intro!: decoding_intros split: json.split prod.split)

lemma decoding_pull [decoding_intros]: "decoding (decodePullResponse j)"
  by (auto simp: decodePullResponse_def decodePullChange_def decodeEntityVersion_def
      intro!: decoding_intros split: option.split json.split)

lemma decoding_read [decoding_intros]: "decoding (readResponseJson r)" "decoding (assertDevice opts d)"
  by (auto simp: readResponseJson_def assertDevice_def intro!: decoding_intros split: option.split)

text \<open>
  The errors of a whole call: those, a network failure, or the HTTP error of a response that was received, whose
  delay is the one of its \<open>Retry-After\<close> header.
\<close>

definition call_error :: "js_env \<Rightarrow> HttpSyncGatewayOptions \<Rightarrow> js_error \<Rightarrow> bool" where
  "call_error E opts e = (case e of
     SyncTransportError k _ \<Rightarrow> k = ''NETWORK'' \<or> k = ''PROTOCOL''
   | SyncHttpError status _ _ _ d \<Rightarrow> \<not> (200 \<le> status \<and> status \<le> 299) \<and> (\<exists>header. d = parseRetryAfter E opts header)
   | _ \<Rightarrow> False)"

definition calling :: "js_env \<Rightarrow> HttpSyncGatewayOptions \<Rightarrow> 'a result \<Rightarrow> bool" where
  "calling E opts r = (\<forall>e. r = Inl e \<longrightarrow> call_error E opts e)"

lemma decoding_calling: "decoding r \<Longrightarrow> calling E opts r"
  by (auto simp: decoding_def calling_def call_error_def)

lemma calling_bindE: "calling E opts m \<Longrightarrow> (\<And>x. calling E opts (f x)) \<Longrightarrow> calling E opts (bindE m f)"
  by (auto simp: calling_def bindE_eq_Inl)

lemma calling_throwHttpError:
  assumes "\<not> response_ok r"
  shows "calling E opts (throwHttpError E opts r)"
proof -
  have opt: "calling E opts (case err of None \<Rightarrow> Inr None | Some e \<Rightarrow> optionalString e k)" for err k
    by (auto intro!: decoding_calling decoding_intros split: option.split)
  have "calling E opts (Inl (SyncHttpError (hr_status r) c m b (parseRetryAfter E opts h)))" for c m b h
    using assms by (auto simp: calling_def call_error_def response_ok_def)
  then show ?thesis unfolding throwHttpError_def Let_def by (intro calling_bindE opt)
qed

lemma calling_request: "hg_authProvider opts = Inr auth \<Longrightarrow> calling E opts (http_request opts i method path extra body)"
  by (auto simp: http_request_def calling_def call_error_def split: option.split)

lemma gateway_calling:
  assumes "hg_authProvider opts = Inr auth"
  shows "calling E opts (gateway_bootstrap E opts)" "calling E opts (gateway_push E opts i rq)"
    "calling E opts (gateway_pull E opts i pq)" "calling E opts (gateway_ack E opts ak)"
proof -
  have devices: "calling E opts (mapE (\<lambda>c. assertDevice opts (wc_device_id c)) cs)" for cs
    by (intro decoding_calling decoding_intros)
  note calls = calling_bindE calling_request [OF assms] calling_throwHttpError devices
    decoding_push [THEN decoding_calling] decoding_pull [THEN decoding_calling]
    decoding_bootstrap [THEN decoding_calling] decoding_read [THEN decoding_calling]
  show "calling E opts (gateway_bootstrap E opts)"
    unfolding gateway_bootstrap_def by (auto intro!: calls)
  show "calling E opts (gateway_push E opts i rq)"
    unfolding gateway_push_def Let_def by (auto intro!: calls)
  show "calling E opts (gateway_pull E opts i pq)"
    unfolding gateway_pull_def Let_def by (auto intro!: calls)
  show "calling E opts (gateway_ack E opts ak)"
    unfolding gateway_ack_def by (auto intro!: calls decoding_calling [of "Inr ()"])
qed

section \<open>Properties\<close>

text \<open>What the store may rely on in a decoded page: versions are unsigned decimal texts.\<close>

definition pull_typed :: "SyncPullResponse \<Rightarrow> bool" where
  "pull_typed r = list_all (\<lambda>c. case pc_entity_version c of None \<Rightarrow> True | Some v \<Rightarrow> plain_int v) (pl_changes r)"

lemma decodePullResponse_typed:
  assumes "decodePullResponse j = Inr r"
  shows "pull_typed r"
proof -
  have change: "case pc_entity_version c of None \<Rightarrow> True | Some v \<Rightarrow> plain_int v" if "decodePullChange x = Inr c" for x c
    using that by (auto simp: decodePullChange_def decodeEntityVersion_def bindE_eq_Inr
        split: json.splits option.splits if_splits)
  from assms obtain xs where "mapE decodePullChange xs = Inr (pl_changes r)"
    by (auto simp: decodePullResponse_def bindE_eq_Inr split: json.splits option.splits)
  then show ?thesis unfolding pull_typed_def list_all_iff
    using change mapE_Inr_nth [of decodePullChange xs "pl_changes r"] mapE_Inr_length [of decodePullChange xs "pl_changes r"]
    by (metis in_set_conv_nth)
qed

text \<open>
  C25. Whatever the server answers, the gateway fails only in the ways the retry policy knows: a network
  failure, a protocol error, or the HTTP error of a response whose status is no success, with the delay of its
  \<open>Retry-After\<close> header. A page it returns carries only unsigned decimal versions.
\<close>

theorem gateway_answers_typed:
  assumes "hg_authProvider opts = Inr auth"
  shows "(\<forall>e. gateway_push E opts i rq = Inl e \<longrightarrow> call_error E opts e) \<and>
    (\<forall>e. gateway_pull E opts i pq = Inl e \<longrightarrow> call_error E opts e) \<and>
    (\<forall>e. gateway_bootstrap E opts = Inl e \<longrightarrow> call_error E opts e) \<and>
    (\<forall>e. gateway_ack E opts ak = Inl e \<longrightarrow> call_error E opts e) \<and>
    (\<forall>r. gateway_pull E opts i pq = Inr r \<longrightarrow> pull_typed r)"
proof -
  have "pull_typed r" if "gateway_pull E opts i pq = Inr r" for r
  proof -
    have "throwHttpError E opts x \<noteq> Inr r" for x
      by (auto simp: throwHttpError_def Let_def bindE_eq_Inr)
    then show ?thesis using that
      by (auto simp: gateway_pull_def Let_def bindE_eq_Inr dest: decodePullResponse_typed split: if_splits)
  qed
  then show ?thesis using gateway_calling [OF assms] unfolding calling_def by blast
qed

lemma header_get_set: "header_get n (header_set m v hs) = (if sameName m n then Some v else header_get n hs)"
proof (cases "sameName m n")
  case True
  then have "find (\<lambda>(x, _). sameName x n) (filter (\<lambda>(x, _). \<not> sameName x m) hs) = None"
    by (auto simp: find_None_iff sameName_def)
  then show ?thesis using True by (simp add: header_get_def header_set_def find_append)
next
  case False
  then have "find (\<lambda>(x, _). sameName x n) (filter (\<lambda>(x, _). \<not> sameName x m) hs) = find (\<lambda>(x, _). sameName x n) hs"
    by (induction hs) (auto simp: sameName_def)
  then show ?thesis using False by (simp add: header_get_def header_set_def find_append split: option.split)
qed

lemma distinct_names:
  "\<not> sameName ''X-Request-Id'' ''X-Kastur-Device-Id''" "\<not> sameName ''Content-Type'' ''X-Kastur-Device-Id''"
  "\<not> sameName ''Idempotency-Key'' ''X-Kastur-Device-Id''"
  by code_simp+

text \<open>
  What a JSON value must hold to stand for a grant and for a command: each member under its name in the protocol, an optional
  one only when there is one.
\<close>

definition has_texts :: "(string \<times> json) list \<Rightarrow> (string \<times> string) list \<Rightarrow> bool" where
  "has_texts ms kvs = (\<forall>(k, v) \<in> set kvs. jget ms k = Some (JStr v))"

definition grant_form :: "OfflineAuthorizationGrant \<Rightarrow> json \<Rightarrow> bool" where
  "grant_form g j = (\<exists>ms auth. j = JObj ms \<and> jget ms ''schema_version'' = Some (JNum 1) \<and>
     has_texts ms [(''algorithm'', ''ECDSA_P256_SHA256''), (''key_id'', og_key_id g), (''session_id'', og_session_id g),
       (''device_id'', og_device_id g), (''terminal_id'', og_terminal_id g), (''issued_at'', og_issued_at g),
       (''offline_valid_until'', og_offline_valid_until g), (''signature'', og_signature g)] \<and>
     jget ms ''authorization'' = Some (JObj auth) \<and>
     has_texts auth [(''user_id'', og_user_id g), (''business_id'', og_business_id g), (''primary_role'', og_primary_role g),
       (''default_location_id'', og_default_location_id g)] \<and>
     jget auth ''permissions'' = Some (JArr (map JStr (og_permissions g))) \<and>
     jget auth ''authorization_version'' = Some (JNum (og_authorization_version g)))"

definition command_form :: "SyncPushCommand \<Rightarrow> json \<Rightarrow> bool" where
  "command_form c j = (\<exists>ms. j = JObj ms \<and>
     has_texts ms [(''command_id'', wc_command_id c), (''command_type'', wc_command_type c), (''occurred_at'', wc_occurred_at c),
       (''device_id'', wc_device_id c), (''correlation_id'', wc_correlation_id c)] \<and>
     jget ms ''authorization_version'' = Some (JNum (wc_authorization_version c)) \<and>
     jget ms ''payload'' = Some (wc_payload c) \<and>
     (case wc_location_id c of None \<Rightarrow> jget ms ''location_id'' = None | Some l \<Rightarrow> jget ms ''location_id'' = Some (JStr l)) \<and>
     (case wc_offline_authorization c of None \<Rightarrow> jget ms ''offline_authorization'' = None
      | Some g \<Rightarrow> \<exists>k. jget ms ''offline_authorization'' = Some k \<and> grant_form g k))"

lemma grant_json_form: "grant_form g (grant_json g)"
  by (simp add: grant_form_def grant_json_def has_texts_def jget_def)

lemma command_json_form: "command_form c (command_json c)"
  by (cases "wc_location_id c"; cases "wc_offline_authorization c")
    (simp_all add: command_form_def command_json_def has_texts_def jget_def grant_json_form)

text \<open>
  C24. What leaves the till with a batch, of one command or many: one POST to the push path (to the recovery path with a
  reason), under the idempotency key of the command when it is alone and of the batch otherwise, whatever headers the session
  adds, naming this device. Its body is the text of a JSON object that holds the batch id, the schema version, the trimmed
  reason if there is one, and the commands in order, each with all its members and its grant; so a repetition is the same
  request to the server. A batch with a command of another device is refused and nothing is sent.
\<close>

theorem push_on_the_wire:
  assumes "hg_authProvider opts = Inr auth" "json_ok (push_body opts rq)"
  shows "((\<forall>c \<in> set (rq_commands rq). wc_device_id c = hg_deviceId opts) \<longrightarrow>
      (\<exists>q body ms js. gateway_push E opts i rq =
         (case hg_fetch opts i q of
            None \<Rightarrow> Inl (SyncTransportError ''NETWORK'' ''Sync request outcome is unknown because the network request failed.'')
          | Some r \<Rightarrow> if response_ok r then bindE (readResponseJson r) decodePushResponse else throwHttpError E opts r) \<and>
         hq_method q = ''POST'' \<and>
         hq_url q = hg_url opts (if hg_recoveryReason opts = None then SYNC_PUSH_PATH else SYNC_RECOVERY_PUSH_PATH) (hg_baseUrl opts) \<and>
         header_get ''Idempotency-Key'' (hq_headers q) =
           Some (if length (rq_commands rq) = 1 then wc_command_id (hd (rq_commands rq)) else rq_batch_id rq) \<and>
         header_get ''X-Kastur-Device-Id'' (hq_headers q) = Some (hg_deviceId opts) \<and>
         hq_body q = Some body \<and> json_parse body = Some (JObj ms) \<and>
         jget ms ''batch_id'' = Some (JStr (rq_batch_id rq)) \<and>
         jget ms ''client_schema_version'' = Some (JNum (rq_client_schema_version rq)) \<and>
         jget ms ''recovery_reason'' = map_option (\<lambda>reason. JStr (js_trim reason)) (hg_recoveryReason opts) \<and>
         jget ms ''commands'' = Some (JArr js) \<and> list_all2 command_form (rq_commands rq) js)) \<and>
    ((\<exists>c \<in> set (rq_commands rq). wc_device_id c \<noteq> hg_deviceId opts) \<longrightarrow>
      gateway_push E opts i rq = Inl (SyncProtocolError ''Sync request device does not match gateway device.''))"
proof (intro conjI impI)
  let ?path = "if hg_recoveryReason opts = None then SYNC_PUSH_PATH else SYNC_RECOVERY_PUSH_PATH"
  let ?body = "json_stringify (push_body opts rq)"
  let ?key = "case rq_commands rq of [c] \<Rightarrow> wc_command_id c | _ \<Rightarrow> rq_batch_id rq"
  let ?q = "\<lparr>hq_method = ''POST'', hq_url = hg_url opts ?path (hg_baseUrl opts),
     hq_headers = request_headers opts i auth [(''Idempotency-Key'', ?key)] (Some ?body),
     hq_credentials = (case ra_credentials auth of None \<Rightarrow> ''same-origin'' | Some x \<Rightarrow> x), hq_body = Some ?body\<rparr>"
  have headers: "header_get ''Idempotency-Key'' (hq_headers ?q) = Some ?key"
    "header_get ''X-Kastur-Device-Id'' (hq_headers ?q) = Some (hg_deviceId opts)"
    by (simp_all add: request_headers_def Let_def header_get_set distinct_names) (simp_all add: sameName_def)
  have key: "?key = (if length (rq_commands rq) = 1 then wc_command_id (hd (rq_commands rq)) else rq_batch_id rq)"
    by (auto split: list.split)
  assume devices: "\<forall>c \<in> set (rq_commands rq). wc_device_id c = hg_deviceId opts"
  have "\<exists>us. mapE (\<lambda>command. assertDevice opts (wc_device_id command)) cs = Inr us"
    if "\<forall>c \<in> set cs. wc_device_id c = hg_deviceId opts" for cs
    using that by (induction cs) (auto simp: assertDevice_def)
  then obtain us where "mapE (\<lambda>command. assertDevice opts (wc_device_id command)) (rq_commands rq) = Inr us" using devices by blast
  then have run: "gateway_push E opts i rq =
         (case hg_fetch opts i ?q of
            None \<Rightarrow> Inl (SyncTransportError ''NETWORK'' ''Sync request outcome is unknown because the network request failed.'')
          | Some r \<Rightarrow> if response_ok r then bindE (readResponseJson r) decodePushResponse else throwHttpError E opts r)"
    using assms(1) by (simp add: gateway_push_def http_request_def Let_def split: option.split)
  obtain ms where ms: "push_body opts rq = JObj ms" "jget ms ''batch_id'' = Some (JStr (rq_batch_id rq))"
    "jget ms ''client_schema_version'' = Some (JNum (rq_client_schema_version rq))"
    "jget ms ''recovery_reason'' = map_option (\<lambda>reason. JStr (js_trim reason)) (hg_recoveryReason opts)"
    "jget ms ''commands'' = Some (JArr (map command_json (rq_commands rq)))"
    by (cases "hg_recoveryReason opts") (simp_all add: push_body_def jget_def)
  have parsed: "json_parse ?body = Some (JObj ms)" using parse_stringify [OF assms(2)] unfolding ms(1) .
  have forms: "list_all2 command_form (rq_commands rq) (map command_json (rq_commands rq))"
    by (simp add: list_all2_map2 list_all2_same command_json_form)
  show "\<exists>q body ms js. gateway_push E opts i rq =
         (case hg_fetch opts i q of
            None \<Rightarrow> Inl (SyncTransportError ''NETWORK'' ''Sync request outcome is unknown because the network request failed.'')
          | Some r \<Rightarrow> if response_ok r then bindE (readResponseJson r) decodePushResponse else throwHttpError E opts r) \<and>
         hq_method q = ''POST'' \<and>
         hq_url q = hg_url opts ?path (hg_baseUrl opts) \<and>
         header_get ''Idempotency-Key'' (hq_headers q) =
           Some (if length (rq_commands rq) = 1 then wc_command_id (hd (rq_commands rq)) else rq_batch_id rq) \<and>
         header_get ''X-Kastur-Device-Id'' (hq_headers q) = Some (hg_deviceId opts) \<and>
         hq_body q = Some body \<and> json_parse body = Some (JObj ms) \<and>
         jget ms ''batch_id'' = Some (JStr (rq_batch_id rq)) \<and>
         jget ms ''client_schema_version'' = Some (JNum (rq_client_schema_version rq)) \<and>
         jget ms ''recovery_reason'' = map_option (\<lambda>reason. JStr (js_trim reason)) (hg_recoveryReason opts) \<and>
         jget ms ''commands'' = Some (JArr js) \<and> list_all2 command_form (rq_commands rq) js"
    by (intro exI [of _ ?q] exI [of _ ?body] exI [of _ ms] exI [of _ "map command_json (rq_commands rq)"] conjI)
      (rule run trans [OF headers(1) arg_cong [OF key, of Some]] headers(2) parsed ms(2-5) forms | simp only: HttpRequest.simps)+
next
  have refused: "mapE (\<lambda>command. assertDevice opts (wc_device_id command)) cs =
      Inl (SyncProtocolError ''Sync request device does not match gateway device.'')"
    if "\<exists>c \<in> set cs. wc_device_id c \<noteq> hg_deviceId opts" for cs
    using that by (induction cs) (auto simp: assertDevice_def throwIf_def)
  assume "\<exists>c \<in> set (rq_commands rq). wc_device_id c \<noteq> hg_deviceId opts"
  from refused [OF this] show "gateway_push E opts i rq = Inl (SyncProtocolError ''Sync request device does not match gateway device.'')"
    by (simp add: gateway_push_def)
qed

section \<open>Witnesses\<close>

definition demo_page_json :: json where
  "demo_page_json = JObj [(''changes'', JArr [JObj [(''sequence'', JStr ''5''), (''entity_type'', JStr ''promotion''),
       (''entity_id'', JStr ''p''), (''change_type'', JStr ''UPSERT''), (''entity_version'', JStr ''7''),
       (''occurred_at'', JStr ''2026-08-23''), (''payload'', JNull)]]),
     (''has_more'', JBool False), (''next_cursor'', JStr ''5''), (''server_time'', JStr ''2026-08-23'')]"

text \<open>A server that answers every request with that page.\<close>

definition demo_http :: HttpSyncGatewayOptions where
  "demo_http = \<lparr>hg_baseUrl = ''/'', hg_client = ''pos'', hg_clientVersion = ''1'', hg_clientSchemaVersion = 1,
     hg_deviceId = ''dev'', hg_recoveryReason = None, hg_authProvider = createBearerAuthProvider (Inr ''tok''),
     hg_fetch = (\<lambda>_ _. Some \<lparr>hr_status = 200, hr_retryAfter = None, hr_body = json_stringify demo_page_json\<rparr>),
     hg_requestId = (\<lambda>_. ''r''), hg_url = (\<lambda>p b. b @ p), hg_setParam = (\<lambda>n v u. u @ n @ v),
     hg_numberText = (\<lambda>_. ''100''), hg_Number = (\<lambda>_. JSNotFinite), hg_now = 0,
     hg_asAuth = (\<lambda>_. \<lparr>au_user_id = '''', au_business_id = '''', au_primary_role = None, au_permissions = [],
       au_authorization_version = 1, au_offline_valid_until = '''', au_default_location_id = '''',
       au_offline_authorization = None\<rparr>)\<rparr>"

definition demo_pull_change :: SyncPullChange where
  "demo_pull_change = \<lparr>pc_sequence = ''5'', pc_entity_type = ''promotion'', pc_entity_id = ''p'',
     pc_change_type = CH_UPSERT, pc_entity_version = Some ''7'', pc_occurred_at = ''2026-08-23'', pc_payload = JNull\<rparr>"

definition demo_pull_answer :: SyncPullResponse where
  "demo_pull_answer = \<lparr>pl_changes = [demo_pull_change], pl_next_cursor = ''5'', pl_has_more = False,
     pl_server_time = ''2026-08-23''\<rparr>"

lemma demo_http_auth: "hg_authProvider demo_http = Inr \<lparr>ra_headers = [(''Authorization'', ''Bearer tok'')], ra_credentials = None\<rparr>"
  by code_simp

lemma demo_http_pull:
  "gateway_pull E demo_http 0 \<lparr>pq_device_id = ''dev'', pq_cursor = ''0'', pq_limit = JSInt 100\<rparr> = Inr demo_pull_answer"
proof -
  have "json_ok demo_page_json" by (simp add: demo_page_json_def)
  then have "json_parse (json_stringify demo_page_json) = Some demo_page_json" by (rule parse_stringify)
  moreover have "decodePullResponse demo_page_json = Inr demo_pull_answer" by code_simp
  ultimately show ?thesis
    by (simp add: gateway_pull_def http_request_def demo_http_auth assertDevice_def)
      (simp add: demo_http_def readResponseJson_def response_ok_def)
qed

theorem gateway_answers_typed_witness:
  "gateway_pull demo_env demo_http 0 \<lparr>pq_device_id = ''dev'', pq_cursor = ''0'', pq_limit = JSInt 100\<rparr> = Inr demo_pull_answer \<and>
   pull_typed demo_pull_answer"
  using gateway_answers_typed [OF demo_http_auth] demo_http_pull by blast

definition demo_push :: SyncPushRequest where
  "demo_push = \<lparr>rq_batch_id = ''c1'', rq_client_schema_version = 1, rq_commands = [\<lparr>wc_command_id = ''c1'',
     wc_command_type = ''sales.complete'', wc_occurred_at = ''2026-08-23'', wc_location_id = Some ''L'',
     wc_device_id = ''dev'', wc_authorization_version = 1, wc_offline_authorization = None, wc_correlation_id = ''k'',
     wc_payload = JObj []\<rparr>]\<rparr>"

definition demo_second :: SyncPushCommand where
  "demo_second = \<lparr>wc_command_id = ''c2'', wc_command_type = ''shift.close'', wc_occurred_at = ''2026-08-23'', wc_location_id = None,
     wc_device_id = ''dev'', wc_authorization_version = 1, wc_offline_authorization = None, wc_correlation_id = ''k'',
     wc_payload = JObj []\<rparr>"

definition demo_batch :: SyncPushRequest where
  "demo_batch = demo_push\<lparr>rq_batch_id := ''b'', rq_commands := rq_commands demo_push @ [demo_second]\<rparr>"

theorem push_on_the_wire_witness:
  "\<exists>(q :: HttpRequest) body ms js. hq_method q = ''POST'' \<and> header_get ''Idempotency-Key'' (hq_headers q) = Some ''b'' \<and>
     hq_body q = Some body \<and> json_parse body = Some (JObj ms) \<and> jget ms ''commands'' = Some (JArr js) \<and>
     list_all2 command_form (rq_commands demo_batch) js"
proof -
  have ok: "json_ok (push_body demo_http demo_batch)"
    by (simp add: push_body_def demo_push_def demo_batch_def demo_second_def command_json_def demo_http_def)
  have batch: "\<forall>c \<in> set (rq_commands demo_batch). wc_device_id c = hg_deviceId demo_http" "length (rq_commands demo_batch) = 2"
    "rq_batch_id demo_batch = ''b''"
    by (simp_all add: demo_batch_def demo_push_def demo_second_def demo_http_def)
  from push_on_the_wire [OF demo_http_auth ok, of demo_env 0] batch show ?thesis by auto
qed

end
