(* ===== verification/Api_Http.thy ===== *)
theory Api_Http
  imports Http_Gateway
begin

text \<open>
  The edge of the server, \<open>apps/api/src/http.ts\<close>, \<open>validation.ts\<close> and \<open>operational-values.ts\<close>: the readers of
  untrusted values, the error every failure becomes, the reading of a request body and the headers of a
  response. A value of type \<open>unknown\<close> is a \<open>json option\<close>, \<open>None\<close> being \<open>undefined\<close>. The lemmas say what an
  accepted value looks like, and that a refusal is always a typed error of the interface.
\<close>

named_theorems api_simps \<open>what the readers of the server accept\<close>

section \<open>validation.ts\<close>

definition validationError :: "string \<Rightarrow> string \<Rightarrow> js_error" where
  "validationError field message =
     ApiError 400 ''VALIDATION_ERROR'' (field @ '' '' @ message @ ''.'') [(''field'', field)]"

definition objectValue :: "json option \<Rightarrow> string \<Rightarrow> (string \<times> json) list result" where
  "objectValue v field = (case v of
     Some (JObj ms) \<Rightarrow> Inr ms | _ \<Rightarrow> Inl (validationError field ''harus berupa objek''))"

definition arrayValue :: "json option \<Rightarrow> string \<Rightarrow> json list result" where
  "arrayValue v field = (case v of
     Some (JArr xs) \<Rightarrow> Inr xs | _ \<Rightarrow> Inl (validationError field ''harus berupa array''))"

definition stringValue :: "json option \<Rightarrow> string \<Rightarrow> string result" where
  "stringValue v field = (case v of
     Some (JStr s) \<Rightarrow> if s = [] then Inl (validationError field ''wajib berupa teks'') else Inr s
   | _ \<Rightarrow> Inl (validationError field ''wajib berupa teks''))"

definition nullableStringValue :: "json option \<Rightarrow> string \<Rightarrow> string option result" where
  "nullableStringValue v field =
     (if v = None \<or> v = Some JNull then Inr None else bindE (stringValue v field) (\<lambda>s. Inr (Some s)))"

definition booleanValue :: "json option \<Rightarrow> string \<Rightarrow> bool result" where
  "booleanValue v field = (case v of
     Some (JBool b) \<Rightarrow> Inr b | _ \<Rightarrow> Inl (validationError field ''wajib berupa boolean''))"

definition integerValue :: "json option \<Rightarrow> string \<Rightarrow> int \<Rightarrow> int result" where
  "integerValue v field minimum =
     (let bad = Inl (validationError field (''wajib bilangan bulat minimal '' @ int_text minimum)) in
      case v of
        Some (JNum i) \<Rightarrow> if \<not> isSafeInteger (JSInt i) \<or> i < minimum then bad else Inr i
      | _ \<Rightarrow> bad)"

text \<open>The pattern of a UUID: the admissible version digits are the parameter.\<close>

definition is_hex :: "char \<Rightarrow> bool" where
  "is_hex c = (hex_digit c \<noteq> None)"

definition uuid_pattern :: "string \<Rightarrow> (char \<Rightarrow> bool) list" where
  "uuid_pattern versions =
     replicate 8 is_hex @ [\<lambda>c. c = CHR ''-''] @ replicate 4 is_hex @ [\<lambda>c. c = CHR ''-''] @
     [\<lambda>c. c \<in> set versions] @ replicate 3 is_hex @ [\<lambda>c. c = CHR ''-''] @
     [\<lambda>c. char_toLower c \<in> set ''89ab''] @ replicate 3 is_hex @ [\<lambda>c. c = CHR ''-''] @ replicate 12 is_hex"

definition matches :: "(char \<Rightarrow> bool) list \<Rightarrow> string \<Rightarrow> bool" where
  "matches ps s = list_all2 (\<lambda>p c. p c) ps s"

definition is_uuid :: "string \<Rightarrow> bool" where
  "is_uuid s = matches (uuid_pattern ''12345678'') s"

definition uuidValue :: "json option \<Rightarrow> string \<Rightarrow> string result" where
  "uuidValue v field =
     bindE (stringValue v field) (\<lambda>text.
     bindE (throwIf (\<not> is_uuid text) (validationError field ''harus berupa UUID'')) (\<lambda>_. Inr text))"

definition timestampValue :: "js_env \<Rightarrow> json option \<Rightarrow> string \<Rightarrow> string result" where
  "timestampValue E v field =
     bindE (stringValue v field) (\<lambda>text.
     case dateParse E text of
       None \<Rightarrow> Inl (validationError field ''harus berupa timestamp ISO yang valid'')
     | Some t \<Rightarrow> Inr (toISOString E t))"

definition enumValue :: "json option \<Rightarrow> string \<Rightarrow> string list \<Rightarrow> string result" where
  "enumValue v field allowed =
     (let bad = Inl (validationError field (''harus salah satu dari '' @ join_with '', '' allowed)) in
      case v of Some (JStr s) \<Rightarrow> if s \<in> set allowed then Inr s else bad | _ \<Rightarrow> bad)"

section \<open>http.ts\<close>

definition MAX_JSON_REQUEST_BYTES :: nat where "MAX_JSON_REQUEST_BYTES = 1048576"

definition jsonHeaders :: headers where
  "jsonHeaders =
    [(''access-control-allow-headers'',
      ''content-type, authorization, idempotency-key, x-kastur-client, x-kastur-client-version, x-kastur-schema-version, x-kastur-device-id, x-kastur-setup-token, x-kastur-terminal-id, x-terminal-id, x-request-id''),
     (''access-control-allow-methods'', ''GET, POST, PUT, DELETE, PATCH, OPTIONS''),
     (''access-control-allow-origin'', ''*''),
     (''cache-control'', ''no-store''),
     (''content-security-policy'', concat [''default-src '', [CHR 0x27], ''none'', [CHR 0x27], ''; base-uri '', [CHR 0x27],
        ''none'', [CHR 0x27], ''; frame-ancestors '', [CHR 0x27], ''none'', [CHR 0x27]]),
     (''content-type'', ''application/json; charset=utf-8''),
     (''cross-origin-resource-policy'', ''cross-origin''),
     (''permissions-policy'', ''camera=(), microphone=(), geolocation=()''),
     (''referrer-policy'', ''no-referrer''),
     (''x-content-type-options'', ''nosniff''),
     (''x-frame-options'', ''DENY'')]"

fun split_on :: "char \<Rightarrow> string \<Rightarrow> string list" where
  "split_on d [] = [[]]"
| "split_on d (c # s) =
     (if c = d then [] # split_on d s
      else case split_on d s of [] \<Rightarrow> [[c]] | w # ws \<Rightarrow> (c # w) # ws)"

text \<open>\<open>/^https?:\/\/(localhost|127\.0\.0\.1|\[::1\])(:\d+)?$/iu\<close>\<close>

definition port_or_end :: "string \<Rightarrow> bool" where
  "port_or_end s = (s = [] \<or> (take 1 s = '':'' \<and> tl s \<noteq> [] \<and> list_all is_digit (tl s)))"

definition localOrigin :: "string \<Rightarrow> bool" where
  "localOrigin origin =
     (let s = js_toLowerCase origin in
      list_ex (\<lambda>scheme. list_ex (\<lambda>host.
        js_startsWith s (scheme @ host) \<and> port_or_end (drop (length (scheme @ host)) s))
        [''localhost'', ''127.0.0.1'', ''[::1]'']) [''http://'', ''https://''])"

definition resolveCorsOrigin :: "headers \<Rightarrow> string option \<Rightarrow> string option" where
  "resolveCorsOrigin request allowed = (case header_get ''origin'' request of
     None \<Rightarrow> None
   | Some origin \<Rightarrow>
       if origin = [] then None
       else case allowed of
         None \<Rightarrow> Some origin
       | Some config \<Rightarrow>
           if js_trim config = [] then Some origin
           else
             let origins = filter (\<lambda>s. s \<noteq> []) (map (\<lambda>s. js_toLowerCase (js_trim s)) (split_on (CHR '','') config)) in
             if js_toLowerCase origin \<in> set origins \<or> ''*'' \<in> set origins then Some origin
             else if localOrigin origin then Some origin
             else None)"

record ApiResponse =
  ar_status :: int
  ar_headers :: headers
  ar_body :: json

definition header_delete :: "string \<Rightarrow> headers \<Rightarrow> headers" where
  "header_delete name hs = filter (\<lambda>(n, _). \<not> sameName n name) hs"

text \<open>\<open>json(data, init, options)\<close>; the request headers and the configured origins are the options.\<close>

definition api_json :: "json \<Rightarrow> int \<Rightarrow> headers \<Rightarrow> (headers \<times> string option) option \<Rightarrow> ApiResponse" where
  "api_json d status init options =
     (let hs = foldl (\<lambda>h (name, v). if header_get name h = None then header_set name v h else h) init jsonHeaders;
          hs' = (case options of
             None \<Rightarrow> hs
           | Some (request, allowed) \<Rightarrow>
               (case resolveCorsOrigin request allowed of
                  Some origin \<Rightarrow> header_set ''vary'' ''Origin'' (header_set ''access-control-allow-credentials'' ''true''
                    (header_set ''access-control-allow-origin'' origin hs))
                | None \<Rightarrow> header_delete ''access-control-allow-credentials'' (header_delete ''access-control-allow-origin'' hs)))
      in \<lparr>ar_status = status, ar_headers = hs', ar_body = d\<rparr>)"

definition normalizeApiError :: "js_error \<Rightarrow> js_error" where
  "normalizeApiError e = (case e of
     ApiError status code message details \<Rightarrow> e
   | DatabaseError code constr \<Rightarrow>
       (let details = (case constr of None \<Rightarrow> [] | Some c \<Rightarrow> [(''constraint'', c)]) in
        if code = ''23505'' then ApiError 409 ''DOMAIN_UNIQUE_CONFLICT'' ''Data bisnis dengan identitas yang sama sudah ada.'' details
        else if code = ''23503'' then ApiError 409 ''DOMAIN_REFERENCE_CONFLICT'' ''Referensi data bisnis tidak valid atau sudah berubah.'' details
        else if code = ''23P01'' then ApiError 409 ''DOMAIN_OVERLAP_CONFLICT''
          ''Periode authoritative bertumpang tindih dengan data yang sudah ada.'' details
        else if code = ''23502'' \<or> code = ''23514'' then ApiError 409 ''DOMAIN_CONSTRAINT_CONFLICT''
          ''Invariant data bisnis tidak terpenuhi.'' details
        else if code = ''40001'' \<or> code = ''40P01'' then ApiError 503 ''DATABASE_RETRY_REQUIRED''
          ''Transaksi bersamaan belum dapat diselesaikan; command aman untuk dicoba ulang.'' []
        else ApiError 500 ''INTERNAL_ERROR'' ''Terjadi kesalahan internal.'' [])
   | _ \<Rightarrow> ApiError 500 ''INTERNAL_ERROR'' ''Terjadi kesalahan internal.'' [])"

definition api_status :: "js_error \<Rightarrow> int" where
  "api_status e = (case e of ApiError status _ _ _ \<Rightarrow> status | _ \<Rightarrow> 500)"

definition api_code :: "js_error \<Rightarrow> string" where
  "api_code e = (case e of ApiError _ code _ _ \<Rightarrow> code | _ \<Rightarrow> ''INTERNAL_ERROR'')"

definition api_message :: "js_error \<Rightarrow> string" where
  "api_message e = (case e of ApiError _ _ message _ \<Rightarrow> message | _ \<Rightarrow> [])"

definition errorResponse :: "js_error \<Rightarrow> (headers \<times> string option) option \<Rightarrow> ApiResponse" where
  "errorResponse e options = (case normalizeApiError e of
     ApiError status code message details \<Rightarrow>
       api_json (JObj [(''error'', JObj ([(''code'', JStr code)] @
           (if details = [] then [] else [(''details'', JObj (map (\<lambda>(k, v). (k, JStr v)) details))]) @
           [(''message'', JStr message)]))]) status [] options
   | _ \<Rightarrow> api_json JNull 500 [] options)"

text \<open>The bytes of a text in UTF-8: a code unit from 128 to 255 takes two.\<close>

definition utf8_length :: "string \<Rightarrow> nat" where
  "utf8_length s = sum_list (map (\<lambda>c. if (of_char c :: nat) < 128 then 1 else 2) s)"

definition all_digits :: "string \<Rightarrow> bool" where
  "all_digits s = (s \<noteq> [] \<and> list_all is_digit s)"

definition readJsonObject :: "HttpRequest \<Rightarrow> (string \<times> json) list result" where
  "readJsonObject request =
     (let contentType = (case header_get ''content-type'' (hq_headers request) of None \<Rightarrow> [] | Some t \<Rightarrow> t);
          tooLarge = ApiError 413 ''REQUEST_TOO_LARGE'' ''Payload melebihi batas 1 MiB.'' [];
          body = (case hq_body request of None \<Rightarrow> [] | Some b \<Rightarrow> b) in
      bindE (throwUnless (js_includes (js_toLowerCase contentType) ''application/json'')
               (ApiError 415 ''CONTENT_TYPE_REQUIRED'' ''Gunakan application/json.'' [])) (\<lambda>_.
      bindE (case header_get ''content-length'' (hq_headers request) of
               None \<Rightarrow> Inr ()
             | Some declared \<Rightarrow>
                 throwIf (all_digits declared \<and> isSafeInteger (JSInt (int (digits_val declared))) \<and>
                          digits_val declared > MAX_JSON_REQUEST_BYTES) tooLarge) (\<lambda>_.
      bindE (throwIf (utf8_length body > MAX_JSON_REQUEST_BYTES) tooLarge) (\<lambda>_.
      case json_parse body of
        None \<Rightarrow> Inl (ApiError 400 ''INVALID_JSON'' ''Payload JSON tidak valid.'' [])
      | Some (JObj ms) \<Rightarrow> Inr ms
      | Some _ \<Rightarrow> Inl (ApiError 400 ''INVALID_REQUEST'' ''Payload harus berupa objek JSON.'' [])))))"

definition requireString :: "json option \<Rightarrow> string \<Rightarrow> string result" where
  "requireString v field =
     (let bad = Inl (ApiError 400 ''VALIDATION_ERROR'' (field @ '' wajib diisi.'') [(''field'', field)]) in
      case v of Some (JStr s) \<Rightarrow> if js_trim s = [] then bad else Inr s | _ \<Rightarrow> bad)"

definition parsePositiveInteger :: "string option \<Rightarrow> nat \<Rightarrow> nat \<Rightarrow> nat result" where
  "parsePositiveInteger v fallback maximum = (case v of
     None \<Rightarrow> Inr fallback
   | Some s \<Rightarrow>
       if s = [] then Inr fallback
       else if \<not> all_digits s then Inl (ApiError 400 ''VALIDATION_ERROR'' ''Nilai harus bilangan bulat positif.'' [])
       else let parsed = digits_val s in
         if \<not> isSafeInteger (JSInt (int parsed)) \<or> parsed < 1 \<or> parsed > maximum
         then Inl (ApiError 400 ''VALIDATION_ERROR'' (''Nilai harus berada antara 1 dan '' @ nat_digits maximum @ ''.'') [])
         else Inr parsed)"

section \<open>operational-values.ts\<close>

definition decimalValue ::
  "'d decimal_ops \<Rightarrow> json option \<Rightarrow> string \<Rightarrow> bool \<Rightarrow> int \<Rightarrow> int \<Rightarrow> DecimalValue result" where
  "decimalValue D v field allowZero prec scale =
     bindE (stringValue v field) (\<lambda>text.
     catchE
       (bindE (parseDecimal D text) (\<lambda>parsed.
        bindE (decimalCompare D parsed ''0'') (\<lambda>comparison.
        bindE (fitsPrecisionScale D parsed (JSInt prec) (JSInt scale)) (\<lambda>fits.
        bindE (throwIf (\<not> fits \<or> comparison < 0 \<or> (comparison = 0 \<and> \<not> allowZero))
                 (validationError field ((if allowZero then ''harus non-negatif'' else ''harus positif'') @
                    '' dan sesuai NUMERIC('' @ int_text prec @ '','' @ int_text scale @ '')''))) (\<lambda>_.
        Inr parsed)))))
       (\<lambda>e. case e of ApiError _ _ _ _ \<Rightarrow> Inl e | _ \<Rightarrow> Inl (validationError field ''bukan string desimal yang valid'')))"

definition nullableDecimalValue ::
  "'d decimal_ops \<Rightarrow> json option \<Rightarrow> string \<Rightarrow> bool \<Rightarrow> int \<Rightarrow> int \<Rightarrow> DecimalValue option result" where
  "nullableDecimalValue D v field allowZero prec scale =
     (if v = None \<or> v = Some JNull then Inr None
      else bindE (decimalValue D v field allowZero prec scale) (\<lambda>d. Inr (Some d)))"

section \<open>What the readers accept and how they refuse\<close>

lemma objectValue_Inr [api_simps]: "objectValue v f = Inr ms \<longleftrightarrow> v = Some (JObj ms)"
  by (auto simp: objectValue_def split: option.splits json.splits)

lemma arrayValue_Inr [api_simps]: "arrayValue v f = Inr xs \<longleftrightarrow> v = Some (JArr xs)"
  by (auto simp: arrayValue_def split: option.splits json.splits)

lemma stringValue_Inr [api_simps]: "stringValue v f = Inr s \<longleftrightarrow> v = Some (JStr s) \<and> s \<noteq> []"
  by (auto simp: stringValue_def split: option.splits json.splits)

lemma nullableStringValue_Inr [api_simps]:
  "nullableStringValue v f = Inr r \<longleftrightarrow>
     (case r of None \<Rightarrow> v = None \<or> v = Some JNull | Some s \<Rightarrow> v = Some (JStr s) \<and> s \<noteq> [])"
  by (auto simp: nullableStringValue_def bindE_eq_Inr stringValue_Inr split: option.splits)

lemma integerValue_Inr [api_simps]:
  "integerValue v f m = Inr i \<longleftrightarrow> v = Some (JNum i) \<and> \<bar>i\<bar> \<le> 9007199254740991 \<and> m \<le> i"
  by (auto simp: integerValue_def Let_def isSafeInteger_def split: option.splits json.splits)

lemma is_uuid_length: "is_uuid s \<Longrightarrow> length s = 36"
  by (auto simp: is_uuid_def matches_def uuid_pattern_def dest!: list_all2_lengthD)

lemma is_uuid_ne: "is_uuid s \<Longrightarrow> s \<noteq> []"
  using is_uuid_length by force

lemma uuidValue_Inr [api_simps]: "uuidValue v f = Inr s \<longleftrightarrow> v = Some (JStr s) \<and> is_uuid s"
  by (auto simp: uuidValue_def bindE_eq_Inr stringValue_Inr throwIf_eq_Inr dest: is_uuid_ne)

lemma timestampValue_Inr [api_simps]:
  "timestampValue E v f = Inr t \<longleftrightarrow>
     (\<exists>s u. v = Some (JStr s) \<and> s \<noteq> [] \<and> dateParse E s = Some u \<and> t = toISOString E u)"
  by (auto simp: timestampValue_def bindE_eq_Inr stringValue_Inr split: option.splits)

lemma enumValue_Inr [api_simps]: "enumValue v f xs = Inr s \<longleftrightarrow> v = Some (JStr s) \<and> s \<in> set xs"
  by (auto simp: enumValue_def Let_def split: option.splits json.splits)

lemma readJsonObject_Inr:
  "readJsonObject rq = Inr ms \<Longrightarrow> \<exists>b. hq_body rq = Some b \<and> json_parse b = Some (JObj ms)"
proof -
  have "json_parse [] = None" by (simp add: json_parse_def)
  moreover assume "readJsonObject rq = Inr ms"
  ultimately show ?thesis
    by (auto simp: readJsonObject_def Let_def bindE_eq_Inr split: option.splits json.splits)
qed

text \<open>A failure the interface knows: a status, a code and a message.\<close>

definition is_api :: "js_error \<Rightarrow> bool" where
  "is_api e = (case e of ApiError status _ _ _ \<Rightarrow> 400 \<le> status \<and> status \<le> 599 | _ \<Rightarrow> False)"

definition refusing :: "'a result \<Rightarrow> bool" where
  "refusing r = (case r of Inl e \<Rightarrow> is_api e | Inr _ \<Rightarrow> True)"

named_theorems refusing_intros \<open>computations that fail with errors of the interface only\<close>

lemma refusing_simps [simp]: "refusing (Inr x)" "refusing (Inl e) \<longleftrightarrow> is_api e"
  by (simp_all add: refusing_def)

lemma is_api_simps [simp]: "is_api (ApiError st c m d) \<longleftrightarrow> 400 \<le> st \<and> st \<le> 599" "is_api (validationError f m')"
  by (simp_all add: is_api_def validationError_def)

lemma refusing_bindE [refusing_intros]: "refusing m \<Longrightarrow> (\<And>x. refusing (f x)) \<Longrightarrow> refusing (bindE m f)"
  by (cases m) simp_all

lemma refusing_throw [refusing_intros]:
  "is_api e \<Longrightarrow> refusing (throwIf c e)" "is_api e \<Longrightarrow> refusing (throwUnless c e)"
  by (simp_all add: throwIf_def throwUnless_def)

lemma refusing_mapE [refusing_intros]: "(\<And>x. refusing (f x)) \<Longrightarrow> refusing (mapE f xs)"
  by (induction xs) (simp_all add: refusing_bindE)

lemma refusing_foldE [refusing_intros]: "(\<And>a x. refusing (f a x)) \<Longrightarrow> refusing (foldE f a xs)"
  by (induction xs arbitrary: a) (simp_all add: refusing_bindE)

lemma refusing_readers [refusing_intros]:
  "refusing (objectValue v f)" "refusing (arrayValue v f)" "refusing (stringValue v f)"
  "refusing (booleanValue v f)" "refusing (integerValue v f m)" "refusing (enumValue v f xs)"
  by (simp_all add: objectValue_def arrayValue_def stringValue_def booleanValue_def integerValue_def enumValue_def Let_def
      split: option.split json.split)

lemma refusing_texts [refusing_intros]:
  "refusing (nullableStringValue v f)" "refusing (uuidValue v f)" "refusing (timestampValue E v f)"
  by (auto simp: nullableStringValue_def uuidValue_def timestampValue_def intro!: refusing_intros split: option.split)

lemma refusing_body [refusing_intros]: "refusing (readJsonObject rq)" "refusing (parsePositiveInteger p d m)"
  by (auto simp: readJsonObject_def parsePositiveInteger_def Let_def intro!: refusing_intros split: option.split json.split)

lemma numeric_failures:
  "parseDecimal D t = Inl e \<Longrightarrow> \<exists>c. e = NumericError c" "decimalCompare D x y = Inl e \<Longrightarrow> \<exists>c. e = NumericError c"
  "fitsPrecisionScale D x p s = Inl e \<Longrightarrow> \<exists>c. e = NumericError c" "parseMoney D t = Inl e \<Longrightarrow> \<exists>c. e = NumericError c"
  "moneyCompare D x y = Inl e \<Longrightarrow> \<exists>c. e = NumericError c"
  by (auto simp: parseDecimal_def decimalCompare_def fitsPrecisionScale_def fromStringSafe_def parseMoney_def moneyCompare_def
      validatePrecisionScaleConfiguration_def Let_def bindE_eq_Inl throwIf_eq_Inl split: if_splits)

lemma refusing_catch_numeric:
  assumes "\<And>e. m = Inl e \<Longrightarrow> is_api e \<or> (\<exists>c. e = NumericError c)" and "is_api g"
  shows "refusing (catchE m (\<lambda>e. case e of ApiError _ _ _ _ \<Rightarrow> Inl e | _ \<Rightarrow> Inl g))"
  using assms by (cases m) (auto split: js_error.split)

lemma refusing_decimal [refusing_intros]:
  "refusing (decimalValue D v f z p s)" "refusing (nullableDecimalValue D v f z p s)"
proof -
  show d: "refusing (decimalValue D v f z p s)" for v f z p s
    unfolding decimalValue_def
    by (intro refusing_intros refusing_catch_numeric)
      (auto simp: bindE_eq_Inl throwIf_eq_Inl dest: numeric_failures)
  show "refusing (nullableDecimalValue D v f z p s)"
    by (simp add: nullableDecimalValue_def refusing_bindE d)
qed

lemma normalizeApiError_api: "(\<And>st c m d. e = ApiError st c m d \<Longrightarrow> 400 \<le> st \<and> st \<le> 599) \<Longrightarrow> is_api (normalizeApiError e)"
  by (auto simp: normalizeApiError_def Let_def split: js_error.split)

end
