(* ===== verification/Api_Db.thy ===== *)
theory Api_Db
  imports Api_Http
begin

text \<open>
  The tables of the server that the modelled commands read and write, as \<open>database/migrations\<close> declares
  them, and the request database of \<open>apps/api/src/database.ts\<close>. A table is the list of its rows; a statement of the source is
  a function of the tables it names. A column of type UUID holds the canonical lower case text
  (\<open>pg_uuid\<close>); a time column of the sessions holds the instant, any other time column the text that was
  written. A method runs in the monad of theory \<open>Store\<close>. A transaction that throws, or
  whose \<open>COMMIT\<close> fails, leaves the tables as they were; the numbers its statements drew from a sequence are not given
  back, as PostgreSQL documents. Transactions are serial; the foreign keys to the rows of the session context,
  which the context was read from, are not modelled.
\<close>

definition pg_uuid :: "string \<Rightarrow> string" where
  "pg_uuid s = js_toLowerCase s"

section \<open>Rows\<close>

record TerminalRow =
  te_id :: string
  te_business_id :: string
  te_location_id :: string
  te_code :: string
  te_name :: string
  te_status :: string

record LocationRow =
  lo_id :: string
  lo_business_id :: string
  lo_is_default :: bool
  lo_created_at :: int
  lo_status :: string

record UserRow =
  us_id :: string
  us_display_name :: string
  us_email :: "string option"
  us_status :: string

record MembershipRow =
  me_id :: string
  me_business_id :: string
  me_user_id :: string
  me_status :: string

record RoleRow =
  ro_id :: string
  ro_business_id :: "string option"
  ro_code :: string
  ro_status :: string

record MembershipRoleRow =
  mr_membership_id :: string
  mr_role_id :: string
  mr_is_primary :: bool

record PermissionOverrideRow =
  po_membership_id :: string
  po_permission_id :: string
  po_effect :: string

record DeviceRow =
  dv_id :: string
  dv_business_id :: string
  dv_device_key :: string
  dv_name :: "string option"
  dv_status :: string
  dv_last_seen_at :: "int option"
  dv_revoked_at :: "int option"

record SessionTableRow =
  se_id :: string
  se_user_id :: string
  se_business_id :: string
  se_device_id :: "string option"
  se_session_secret_hash :: string
  se_issued_at :: int
  se_expires_at :: int
  se_revoked_at :: "int option"
  se_last_seen_at :: "int option"

record IdempotencyRow =
  ir_business_id :: string
  ir_idempotency_key :: string
  ir_command_type :: string
  ir_request_hash :: string
  ir_status :: string
  ir_response_payload :: "json option"

record ChangeFeedRow =
  cf_sequence :: nat
  cf_business_id :: string
  cf_location_id :: "string option"
  cf_entity_type :: string
  cf_entity_id :: string
  cf_change_type :: string
  cf_entity_version :: "string option"
  cf_payload :: json
  cf_occurred_at :: string
  cf_correlation_id :: string

record AuditEventRow =
  av_id :: string
  av_business_id :: string
  av_location_id :: "string option"
  av_actor_user_id :: string
  av_actor_role :: "string option"
  av_action :: string
  av_entity_type :: string
  av_entity_id :: string
  av_occurred_at :: string
  av_device_id :: "string option"
  av_session_id :: string
  av_reason :: "string option"
  av_before_data :: "json option"
  av_after_data :: "json option"
  av_correlation_id :: string
  av_authorization_version :: int

record DeviceSyncStateRow =
  ds_business_id :: string
  ds_device_id :: string
  ds_last_ack_sequence :: nat
  ds_last_pull_at :: int
  ds_last_success_at :: int
  ds_updated_at :: int

section \<open>The database\<close>

record ApiDb =
  db_terminals :: "TerminalRow list"
  db_locations :: "LocationRow list"
  db_users :: "UserRow list"
  db_memberships :: "MembershipRow list"
  db_authorization_versions :: "(string \<times> int) list"
  db_roles :: "RoleRow list"
  db_membership_roles :: "MembershipRoleRow list"
  db_permissions :: "(string \<times> string) list"
  db_role_permissions :: "(string \<times> string) list"
  db_permission_overrides :: "PermissionOverrideRow list"
  db_devices :: "DeviceRow list"
  db_sessions :: "SessionTableRow list"
  db_idempotency_records :: "IdempotencyRow list"
  db_change_feed :: "ChangeFeedRow list"
  db_sequence :: nat
  db_audit_events :: "AuditEventRow list"
  db_device_sync_states :: "DeviceSyncStateRow list"

text \<open>
  What a request draws from its host: the clock (\<open>CURRENT_TIMESTAMP\<close> and \<open>new Date()\<close> of the request), the
  fresh UUIDs of a command by call, SHA-256 of a text as lower case hexadecimal digits, the value a \<open>JSONB\<close>
  column gives back for a value written to it, and whether the database refuses to commit a state.
\<close>

record 'db api_host =
  sv_now :: int
  sv_uuid :: "string \<Rightarrow> nat \<Rightarrow> string"
  sv_sha256 :: "string \<Rightarrow> string"
  sv_jsonb :: "json \<Rightarrow> json"
  sv_commit :: "'db \<Rightarrow> js_error option"

definition pg_transaction ::
  "'x ApiDb_scheme api_host \<Rightarrow> ('x ApiDb_scheme, 'a) act \<Rightarrow> ('x ApiDb_scheme, 'a) act" where
  "pg_transaction H operation s =
     (case operation s of
        (Inl e, s') \<Rightarrow> (Inl e, s\<lparr>db_sequence := db_sequence s'\<rparr>)
      | (Inr r, s') \<Rightarrow>
          (case sv_commit H s' of
             Some e \<Rightarrow> (Inl e, s\<lparr>db_sequence := db_sequence s'\<rparr>)
           | None \<Rightarrow> (Inr r, s')))"

text \<open>Two states that differ in the numbers drawn from the sequence only.\<close>

definition same_tables :: "'x ApiDb_scheme \<Rightarrow> 'x ApiDb_scheme \<Rightarrow> bool" where
  "same_tables s t = (t = s\<lparr>db_sequence := db_sequence t\<rparr>)"

lemma same_tables_refl [simp]: "same_tables s s"
  by (simp add: same_tables_def)

lemma same_tables_sequence [simp]: "same_tables s (s\<lparr>db_sequence := n\<rparr>)"
  by (simp add: same_tables_def)

lemma same_tables_trans: "same_tables s t \<Longrightarrow> same_tables t u \<Longrightarrow> same_tables s u"
  unfolding same_tables_def by (metis ApiDb.surjective ApiDb.update_convs(15))

lemma pg_transaction_Inl:
  "pg_transaction H m s = (Inl e, s') \<Longrightarrow> same_tables s s'"
  by (auto simp: pg_transaction_def split: prod.splits sum.splits option.splits)

lemma pg_transaction_Inr:
  "pg_transaction H m s = (Inr r, s') \<longleftrightarrow> m s = (Inr r, s') \<and> sv_commit H s' = None"
  by (auto simp: pg_transaction_def split: prod.splits sum.splits option.splits)

end
