(* ===== verification/Offline_Grant.thy ===== *)
theory Offline_Grant
  imports Api_Http
begin

text \<open>
  The signed evidence of an offline authority: its type guard and signed text of \<open>packages/contracts/src/auth.ts\<close>, and
  its signing and verification of \<open>apps/api/src/offline-authorization.ts\<close>. The elliptic curve operations of the host
  are parameters; \<open>btoa\<close> and \<open>atob\<close>, functions of the language's host on texts, are modelled, with the byte string as the
  string of its code units.
\<close>

unbundle bit_operations_syntax

section \<open>Base64\<close>

definition b64_alphabet :: string where
  "b64_alphabet = ''ABCDEFGHIJKLMNOPQRSTUVWXYZabcdefghijklmnopqrstuvwxyz0123456789+/''"

definition b64_char :: "nat \<Rightarrow> char" where
  "b64_char n = b64_alphabet ! n"

definition b64_value :: "char \<Rightarrow> nat option" where
  "b64_value c = (let n = length (takeWhile (\<lambda>x. x \<noteq> c) b64_alphabet) in if n < 64 then Some n else None)"

fun btoa :: "string \<Rightarrow> string" where
  "btoa [] = []"
| "btoa [a] = (let x = of_char a :: nat in
     [b64_char (x div 4), b64_char ((x mod 4) * 16), CHR ''='', CHR ''=''])"
| "btoa [a, b] = (let x = of_char a :: nat; y = of_char b in
     [b64_char (x div 4), b64_char ((x mod 4) * 16 + y div 16), b64_char ((y mod 16) * 4), CHR ''=''])"
| "btoa (a # b # c # s) = (let x = of_char a :: nat; y = of_char b; z = of_char c in
     [b64_char (x div 4), b64_char ((x mod 4) * 16 + y div 16), b64_char ((y mod 16) * 4 + z div 64), b64_char (z mod 64)] @ btoa s)"

fun b64_bytes :: "nat list \<Rightarrow> string option" where
  "b64_bytes [] = Some []"
| "b64_bytes [p] = None"
| "b64_bytes [p, q] = Some [char_of (p * 4 + q div 16)]"
| "b64_bytes [p, q, r] = Some [char_of (p * 4 + q div 16), char_of ((q mod 16) * 16 + r div 4)]"
| "b64_bytes (p # q # r # t # s) =
     map_option (\<lambda>b. [char_of (p * 4 + q div 16), char_of ((q mod 16) * 16 + r div 4), char_of ((r mod 4) * 64 + t)] @ b) (b64_bytes s)"

definition all_some :: "'a option list \<Rightarrow> 'a list option" where
  "all_some xs = (if None \<in> set xs then None else Some (map the xs))"

text \<open>
  \<open>atob\<close> drops up to two padding characters of a text whose length is a multiple of four; any other character
  outside the alphabet, and a remainder of one character, make it throw.
\<close>

definition strip_padding :: "string \<Rightarrow> string" where
  "strip_padding s =
     (if length s mod 4 \<noteq> 0 then s
      else if drop (length s - 2) s = ''=='' then take (length s - 2) s
      else if drop (length s - 1) s = ''='' then take (length s - 1) s
      else s)"

definition atob :: "string \<Rightarrow> string option" where
  "atob s = (case all_some (map b64_value (strip_padding s)) of None \<Rightarrow> None | Some ns \<Rightarrow> b64_bytes ns)"

definition replaceAll :: "char \<Rightarrow> char \<Rightarrow> string \<Rightarrow> string" where
  "replaceAll a b s = map (\<lambda>c. if c = a then b else c) s"

definition base64UrlEncode :: "string \<Rightarrow> string" where
  "base64UrlEncode bytes =
     rev (dropWhile (\<lambda>c. c = CHR ''='') (rev (replaceAll (CHR ''/'') (CHR ''_'') (replaceAll (CHR ''+'') (CHR ''-'') (btoa bytes)))))"

definition base64UrlDecode :: "string \<Rightarrow> string option" where
  "base64UrlDecode v =
     (let normalized = replaceAll (CHR ''_'') (CHR ''/'') (replaceAll (CHR ''-'') (CHR ''+'') v);
          padded = normalized @ replicate ((length normalized + 3) div 4 * 4 - length normalized) (CHR ''='')
      in atob padded)"

section \<open>The grant\<close>

definition is_base64url :: "string \<Rightarrow> bool" where
  "is_base64url s = (s \<noteq> [] \<and> list_all (\<lambda>c. c \<in> set (take 62 b64_alphabet) \<or> c = CHR ''_'' \<or> c = CHR ''-'') s)"

definition isOfflineAuthorizationGrant :: "json \<Rightarrow> bool" where
  "isOfflineAuthorizationGrant v = (case v of
     JObj grant \<Rightarrow> (case jget grant ''authorization'' of
       Some (JObj auth) \<Rightarrow>
         jget grant ''schema_version'' = Some (JNum 1) \<and>
         jget grant ''algorithm'' = Some (JStr ''ECDSA_P256_SHA256'') \<and>
         isJString (jget grant ''key_id'') \<and> jget grant ''key_id'' \<noteq> Some (JStr []) \<and>
         isJString (jget grant ''session_id'') \<and>
         isJString (jget grant ''device_id'') \<and>
         isJString (jget grant ''terminal_id'') \<and>
         isJString (jget grant ''issued_at'') \<and>
         isJString (jget grant ''offline_valid_until'') \<and>
         (case jget grant ''signature'' of Some (JStr s) \<Rightarrow> is_base64url s | _ \<Rightarrow> False) \<and>
         isJString (jget auth ''user_id'') \<and>
         isJString (jget auth ''business_id'') \<and>
         isJString (jget auth ''primary_role'') \<and>
         (case jget auth ''permissions'' of Some (JArr ps) \<Rightarrow> list_all (\<lambda>p. isJString (Some p)) ps | _ \<Rightarrow> False) \<and>
         (case jget auth ''authorization_version'' of Some (JNum n) \<Rightarrow> isSafeInteger (JSInt n) \<and> 1 \<le> n | _ \<Rightarrow> False) \<and>
         isJString (jget auth ''default_location_id'')
     | _ \<Rightarrow> False)
   | _ \<Rightarrow> False)"

text \<open>The guarded value seen as the declared interface.\<close>

definition text_of :: "json option \<Rightarrow> string" where
  "text_of v = (case v of Some (JStr s) \<Rightarrow> s | _ \<Rightarrow> [])"

definition members_of :: "json option \<Rightarrow> (string \<times> json) list" where
  "members_of v = (case v of Some (JObj ms) \<Rightarrow> ms | _ \<Rightarrow> [])"

definition grant_of :: "json \<Rightarrow> OfflineAuthorizationGrant" where
  "grant_of v = (let grant = members_of (Some v); auth = members_of (jget grant ''authorization'') in
    \<lparr>og_key_id = text_of (jget grant ''key_id''), og_session_id = text_of (jget grant ''session_id''),
     og_device_id = text_of (jget grant ''device_id''), og_terminal_id = text_of (jget grant ''terminal_id''),
     og_issued_at = text_of (jget grant ''issued_at''), og_offline_valid_until = text_of (jget grant ''offline_valid_until''),
     og_user_id = text_of (jget auth ''user_id''), og_business_id = text_of (jget auth ''business_id''),
     og_primary_role = text_of (jget auth ''primary_role''),
     og_permissions = (case jget auth ''permissions'' of Some (JArr ps) \<Rightarrow> map (\<lambda>p. text_of (Some p)) ps | _ \<Rightarrow> []),
     og_authorization_version = (case jget auth ''authorization_version'' of Some (JNum n) \<Rightarrow> n | _ \<Rightarrow> 0),
     og_default_location_id = text_of (jget auth ''default_location_id''),
     og_signature = text_of (jget grant ''signature'')\<rparr>)"

definition offlineAuthorizationSigningPayload :: "OfflineAuthorizationGrant \<Rightarrow> string" where
  "offlineAuthorizationSigningPayload g = json_stringify (JObj
     [(''schema_version'', JNum 1), (''algorithm'', JStr ''ECDSA_P256_SHA256''),
      (''key_id'', JStr (og_key_id g)), (''session_id'', JStr (og_session_id g)), (''device_id'', JStr (og_device_id g)),
      (''terminal_id'', JStr (og_terminal_id g)), (''issued_at'', JStr (og_issued_at g)),
      (''offline_valid_until'', JStr (og_offline_valid_until g)),
      (''authorization'', JObj [(''user_id'', JStr (og_user_id g)), (''business_id'', JStr (og_business_id g)),
         (''primary_role'', JStr (og_primary_role g)), (''permissions'', JArr (map JStr (sort (og_permissions g)))),
         (''authorization_version'', JNum (og_authorization_version g)),
         (''default_location_id'', JStr (og_default_location_id g))])])"

section \<open>Signing and verification\<close>

record EcPrivateJwk =
  jwk_x :: string
  jwk_y :: string
  jwk_d :: string

text \<open>
  The environment of the server. \<open>en_sign\<close> and \<open>en_verify\<close> are \<open>crypto.subtle.sign\<close> and \<open>verify\<close> with the imported key:
  on the key and the text, and on the public coordinates, the signature bytes and the text.
\<close>

record ApiEnvironment =
  en_jwk :: "string option"
  en_key_id :: "string option"
  en_sign :: "EcPrivateJwk \<Rightarrow> string \<Rightarrow> string result"
  en_verify :: "string \<times> string \<Rightarrow> string \<Rightarrow> string \<Rightarrow> bool result"
  en_allowed_origins :: "string option"
  en_setup_token :: "string option"
  en_node_env :: "string option"

definition configuredKey :: "ApiEnvironment \<Rightarrow> (string \<times> EcPrivateJwk) option result" where
  "configuredKey environment =
     (case (map_option js_trim (en_jwk environment), map_option js_trim (en_key_id environment)) of
        (None, None) \<Rightarrow> Inr None
      | (Some encoded, Some keyId) \<Rightarrow>
          if encoded = [] \<or> keyId = [] then Inl (JsError ''Error'')
          else (case json_parse encoded of
             None \<Rightarrow> Inl (JsError ''Error'')
           | Some (JObj jwk) \<Rightarrow>
               if jget jwk ''kty'' \<noteq> Some (JStr ''EC'') \<or> jget jwk ''crv'' \<noteq> Some (JStr ''P-256'') \<or>
                  \<not> isJString (jget jwk ''x'') \<or> \<not> isJString (jget jwk ''y'') \<or> \<not> isJString (jget jwk ''d'')
               then Inl (JsError ''Error'')
               else Inr (Some (keyId, \<lparr>jwk_x = text_of (jget jwk ''x''), jwk_y = text_of (jget jwk ''y''),
                                      jwk_d = text_of (jget jwk ''d'')\<rparr>))
           | Some _ \<Rightarrow> Inl (JsError ''Error''))
      | _ \<Rightarrow> Inl (JsError ''Error''))"

definition publicJwk :: "EcPrivateJwk \<Rightarrow> string \<times> string" where
  "publicJwk k = (jwk_x k, jwk_y k)"

definition verifyOfflineAuthorizationGrant :: "ApiEnvironment \<Rightarrow> json \<Rightarrow> bool result" where
  "verifyOfflineAuthorizationGrant environment v =
     (if \<not> isOfflineAuthorizationGrant v then Inr False
      else bindE (configuredKey environment) (\<lambda>configured.
        case configured of
          None \<Rightarrow> Inr False
        | Some (keyId, jwk) \<Rightarrow>
            let grant = grant_of v in
            if og_key_id grant \<noteq> keyId then Inr False
            else case base64UrlDecode (og_signature grant) of
                None \<Rightarrow> Inr False
              | Some signatureBytes \<Rightarrow>
                  en_verify environment (publicJwk jwk) signatureBytes (offlineAuthorizationSigningPayload grant)))"

section \<open>Base64 round trip\<close>

lemma b64_alphabet_length: "length b64_alphabet = 64"
  by code_simp

lemma b64_alphabet_distinct: "distinct b64_alphabet"
  by (simp add: b64_alphabet_def)

lemma takeWhile_before_nth: "distinct xs \<Longrightarrow> n < length xs \<Longrightarrow> length (takeWhile (\<lambda>x. x \<noteq> xs ! n) xs) = n"
proof (induction xs arbitrary: n)
  case (Cons x xs)
  then show ?case
  proof (cases n)
    case (Suc m)
    then have "m < length xs" "x \<noteq> xs ! m" using Cons.prems by (auto simp: nth_mem)
    then show ?thesis using Cons Suc by simp
  qed simp
qed simp

lemma b64_value_char: "n < 64 \<Longrightarrow> b64_value (b64_char n) = Some n"
  using takeWhile_before_nth [OF b64_alphabet_distinct, of n] by (simp add: b64_value_def b64_char_def b64_alphabet_length)

definition url_char :: "char \<Rightarrow> char" where
  "url_char c = (if c = CHR ''+'' then CHR ''-'' else if c = CHR ''/'' then CHR ''_'' else c)"

definition plain_char :: "char \<Rightarrow> char" where
  "plain_char c = (if c = CHR ''-'' then CHR ''+'' else if c = CHR ''_'' then CHR ''/'' else c)"

lemma b64_char_url:
  assumes "n < 64"
  shows "plain_char (url_char (b64_char n)) = b64_char n" "url_char (b64_char n) \<noteq> CHR ''=''"
    "b64_char n \<noteq> CHR ''=''" "is_base64url [url_char (b64_char n)]"
proof -
  have "list_all (\<lambda>c. plain_char (url_char c) = c \<and> url_char c \<noteq> CHR ''='' \<and> c \<noteq> CHR ''='') b64_alphabet" by code_simp
  moreover have "b64_char n \<in> set b64_alphabet" using assms b64_alphabet_length by (simp add: b64_char_def)
  ultimately show "plain_char (url_char (b64_char n)) = b64_char n" "url_char (b64_char n) \<noteq> CHR ''=''"
    "b64_char n \<noteq> CHR ''=''"
    by (simp_all add: list_all_iff)
  have "b64_alphabet ! 62 = CHR ''+''" "b64_alphabet ! 63 = CHR ''/''" by code_simp+
  moreover note b64_alphabet_length
  moreover have "n < 62 \<or> n = 62 \<or> n = 63" using assms by linarith
  ultimately have "n < 62 \<and> b64_char n \<in> set (take 62 b64_alphabet) \<or> b64_char n \<in> {CHR ''+'', CHR ''/''}"
    unfolding b64_char_def set_conv_nth by (auto simp del: take_Cons' intro: exI [of _ n])
  then show "is_base64url [url_char (b64_char n)]" by (auto simp: is_base64url_def url_char_def)
qed

lemma replaceAll_url:
  "replaceAll (CHR ''/'') (CHR ''_'') (replaceAll (CHR ''+'') (CHR ''-'') s) = map url_char s"
  "replaceAll (CHR ''_'') (CHR ''/'') (replaceAll (CHR ''-'') (CHR ''+'') s) = map plain_char s"
  by (auto simp: replaceAll_def url_char_def plain_char_def)

text \<open>The groups of six bits of a byte string.\<close>

fun sextets :: "string \<Rightarrow> nat list" where
  "sextets [] = []"
| "sextets [a] = (let x = of_char a :: nat in [x div 4, (x mod 4) * 16])"
| "sextets [a, b] = (let x = of_char a :: nat; y = of_char b in [x div 4, (x mod 4) * 16 + y div 16, (y mod 16) * 4])"
| "sextets (a # b # c # s) = (let x = of_char a :: nat; y = of_char b; z = of_char c in
     [x div 4, (x mod 4) * 16 + y div 16, (y mod 16) * 4 + z div 64, z mod 64] @ sextets s)"

lemma digit_arith:
  fixes k m n :: nat
  assumes "m < n"
  shows "(k * n + m) div n = k" "(k * n + m) mod n = m"
  using assms by simp_all

lemma sextet_arith:
  fixes x y z :: nat
  assumes "x < 256" "y < 256" "z < 256"
  shows "x div 4 < 64" "x mod 4 * 16 + y div 16 < 64" "y mod 16 * 4 + z div 64 < 64"
    "x div 4 * 4 + (x mod 4 * 16 + y div 16) div 16 = x"
    "(x mod 4 * 16 + y div 16) mod 16 * 16 + (y mod 16 * 4 + z div 64) div 4 = y"
    "(y mod 16 * 4 + z div 64) mod 4 * 64 + z mod 64 = z"
proof -
  have small: "y div 16 < 16" "z div 64 < 4" "x mod 4 < 4" "y mod 16 < 16" using assms by (simp_all add: less_mult_imp_div_less)
  show "x div 4 < 64" using assms by (simp add: less_mult_imp_div_less)
  show "x mod 4 * 16 + y div 16 < 64" "y mod 16 * 4 + z div 64 < 64" using small by linarith+
  show "x div 4 * 4 + (x mod 4 * 16 + y div 16) div 16 = x" by (simp only: digit_arith [OF small(1)] div_mult_mod_eq)
  show "(x mod 4 * 16 + y div 16) mod 16 * 16 + (y mod 16 * 4 + z div 64) div 4 = y"
    by (simp only: digit_arith [OF small(1)] digit_arith [OF small(2)] div_mult_mod_eq)
  show "(y mod 16 * 4 + z div 64) mod 4 * 64 + z mod 64 = z"
    by (simp only: digit_arith [OF small(2)] div_mult_mod_eq)
qed

lemma char_less: "(of_char c :: nat) < 256"
  by simp

lemmas char_sextets = sextet_arith [OF char_less char_less char_less]

text \<open>A last group is completed with zero bits.\<close>

lemmas char_last = sextet_arith [OF char_less char_less, of 0, simplified] sextet_arith [OF char_less, of 0 0, simplified]

lemma sextets_small: "list_all (\<lambda>n. n < 64) (sextets s)"
  by (induction s rule: sextets.induct) (simp_all add: Let_def char_sextets char_last)

lemma btoa_sextets: "btoa s = map b64_char (sextets s) @ replicate ((3 - length s mod 3) mod 3) (CHR ''='')"
  by (induction s rule: btoa.induct) (simp_all add: Let_def numeral_2_eq_2)

lemma length_sextets: "length (sextets s) mod 4 = (if length s mod 3 = 0 then 0 else length s mod 3 + 1)"
proof (induction s rule: sextets.induct)
  case (4 a b c s)
  then have "length (sextets s) mod 4 = (if length s mod 3 = 0 then 0 else length s mod 3 + 1)" by simp
  moreover have "length (sextets (a # b # c # s)) = 4 + length (sextets s)" "length (a # b # c # s) = 3 + length s"
    by (simp_all add: Let_def)
  ultimately show ?case by (simp only: mod_add_self1)
qed (simp_all add: Let_def)

lemma char_parts:
  "(of_char c :: nat) div 64 mod 4 = of_char c div 64" "(of_char c :: nat) div 16 mod 16 = of_char c div 16"
  "(of_char c :: nat) div 64 div 4 = 0"
  using char_less [of c] by (simp_all add: div_mult2_eq [symmetric] less_mult_imp_div_less)

lemma bytes_sextets: "b64_bytes (sextets s) = Some s"
  by (induction s rule: sextets.induct) (simp_all add: Let_def char_sextets char_last char_parts)

lemma base64UrlEncode_sextets: "base64UrlEncode s = map (\<lambda>n. url_char (b64_char n)) (sextets s)"
proof -
  have "dropWhile (\<lambda>c. c = CHR ''='') (replicate k (CHR ''='') @ map (\<lambda>n. url_char (b64_char n)) ns)
      = map (\<lambda>n. url_char (b64_char n)) ns" if "list_all (\<lambda>n. n < 64) ns" for k ns
    using that by (induction k) (cases ns, simp_all add: b64_char_url)
  then show ?thesis
    using sextets_small [of s]
    by (simp add: base64UrlEncode_def replaceAll_url btoa_sextets url_char_def rev_map o_def list_all_iff)
qed

lemma atob_padded:
  assumes "list_all (\<lambda>n. n < 64) ns" "length ns mod 4 \<noteq> 1"
  shows "atob (map b64_char ns @ replicate ((length ns + 3) div 4 * 4 - length ns) (CHR ''='')) = b64_bytes ns"
proof -
  let ?k = "(length ns + 3) div 4 * 4 - length ns"
  have "?k = 0 \<or> ?k = 1 \<or> ?k = 2" "(length ns + ?k) mod 4 = 0" using assms(2) by presburger+
  moreover have "ns = [] \<or> (\<exists>ms n. ns = ms @ [n] \<and> b64_char n \<noteq> CHR ''='')"
    using assms(1) by (cases ns rule: rev_cases) (simp_all add: b64_char_url)
  ultimately have "strip_padding (map b64_char ns @ replicate ?k (CHR ''='')) = map b64_char ns"
    by (auto simp: strip_padding_def numeral_2_eq_2)
  moreover have "all_some (map b64_value (map b64_char ns)) = Some ns"
    using assms(1) by (auto simp: all_some_def list_all_iff b64_value_char intro: map_idI)
  ultimately show ?thesis by (simp add: atob_def)
qed

lemma base64url_round_trip: "base64UrlDecode (base64UrlEncode s) = Some s"
proof -
  have "map (\<lambda>n. plain_char (url_char (b64_char n))) (sextets s) = map b64_char (sextets s)"
    using sextets_small [of s] by (auto simp: list_all_iff b64_char_url)
  moreover have "length (sextets s) mod 4 \<noteq> 1" using length_sextets [of s] by simp
  ultimately show ?thesis
    using atob_padded [OF sextets_small, of s]
    by (simp add: base64UrlDecode_def base64UrlEncode_sextets replaceAll_url o_def Let_def bytes_sextets del: map_eq_conv)
qed

lemma base64url_syntax: "s \<noteq> [] \<Longrightarrow> is_base64url (base64UrlEncode s)"
proof -
  assume "s \<noteq> []"
  then have "sextets s \<noteq> []" by (cases s rule: sextets.cases) (simp_all add: Let_def)
  moreover have "is_base64url [url_char (b64_char n)]" if "n \<in> set (sextets s)" for n
    using sextets_small [of s] that by (simp add: list_all_iff b64_char_url)
  ultimately show ?thesis by (auto simp: base64UrlEncode_sextets is_base64url_def list_all_iff)
qed

section \<open>Grants on the wire and under the signature\<close>

lemma grant_of_json [simp]: "grant_of (grant_json g) = g"
  by (simp add: grant_of_def grant_json_def members_of_def text_of_def jget_def o_def)

lemma guard_grant_json:
  assumes "og_key_id g \<noteq> []" "is_base64url (og_signature g)" "1 \<le> og_authorization_version g"
    "og_authorization_version g \<le> 9007199254740991"
  shows "isOfflineAuthorizationGrant (grant_json g)"
  using assms by (simp add: isOfflineAuthorizationGrant_def grant_json_def isJString_def jget_def isSafeInteger_def list_all_iff)

text \<open>The signed text determines everything but the signature, and the permissions up to their order.\<close>

lemma signing_payload_binds:
  assumes "offlineAuthorizationSigningPayload g = offlineAuthorizationSigningPayload h"
    "\<bar>og_authorization_version g\<bar> \<le> 2 ^ 53 - 1" "\<bar>og_authorization_version h\<bar> \<le> 2 ^ 53 - 1"
  shows "h = g\<lparr>og_permissions := og_permissions h, og_signature := og_signature h\<rparr>"
    "sort (og_permissions g) = sort (og_permissions h)"
proof -
  let ?j = "\<lambda>g. JObj
     [(''schema_version'', JNum 1), (''algorithm'', JStr ''ECDSA_P256_SHA256''),
      (''key_id'', JStr (og_key_id g)), (''session_id'', JStr (og_session_id g)), (''device_id'', JStr (og_device_id g)),
      (''terminal_id'', JStr (og_terminal_id g)), (''issued_at'', JStr (og_issued_at g)),
      (''offline_valid_until'', JStr (og_offline_valid_until g)),
      (''authorization'', JObj [(''user_id'', JStr (og_user_id g)), (''business_id'', JStr (og_business_id g)),
         (''primary_role'', JStr (og_primary_role g)), (''permissions'', JArr (map JStr (sort (og_permissions g)))),
         (''authorization_version'', JNum (og_authorization_version g)),
         (''default_location_id'', JStr (og_default_location_id g))])]"
  have "json_ok (?j x)" if "\<bar>og_authorization_version x\<bar> \<le> 2 ^ 53 - 1" for x :: OfflineAuthorizationGrant
    using that by simp
  then have "?j g = ?j h"
    using assms parse_stringify unfolding offlineAuthorizationSigningPayload_def by (metis option.inject)
  moreover have "map JStr xs = map JStr ys \<longleftrightarrow> xs = ys" for xs ys
    by (rule inj_map_eq_map) (simp add: inj_def)
  ultimately show "sort (og_permissions g) = sort (og_permissions h)"
    "h = g\<lparr>og_permissions := og_permissions h, og_signature := og_signature h\<rparr>"
    by simp_all
qed

end
