(* ===== verification/Api_Auth.thy ===== *)
theory Api_Auth
  imports Api_Db Offline_Grant
begin

text \<open>
  Sessions, permissions and devices of the server, \<open>apps/api/src/auth.ts\<close>, with the issuing of offline grants of
  \<open>offline-authorization.ts\<close>. The queries are functions of the tables; \<open>LIMIT 1\<close> takes the first row
  that qualifies. \<open>decodeURIComponent\<close> of a cookie is a parameter that may throw.
\<close>

section \<open>The context of a request\<close>

record AuthContext = AuthContextResponse +
  au_display_name :: string
  au_email :: "string option"
  au_server_time :: string

record AuthenticatedRequestContext =
  ax_authorization :: AuthContext
  ax_device_id :: "string option"
  ax_membership_id :: string
  ax_selected_terminal_id :: "string option"
  ax_session_id :: string

abbreviation ax_business :: "AuthenticatedRequestContext \<Rightarrow> string" where
  "ax_business cx \<equiv> au_business_id (ax_authorization cx)"

abbreviation ax_user :: "AuthenticatedRequestContext \<Rightarrow> string" where
  "ax_user cx \<equiv> au_user_id (ax_authorization cx)"

abbreviation ax_location :: "AuthenticatedRequestContext \<Rightarrow> string" where
  "ax_location cx \<equiv> au_default_location_id (ax_authorization cx)"

abbreviation ax_version :: "AuthenticatedRequestContext \<Rightarrow> int" where
  "ax_version cx \<equiv> au_authorization_version (ax_authorization cx)"

section \<open>Session secrets\<close>

fun cookie_value :: "(string \<Rightarrow> string option) \<Rightarrow> string \<Rightarrow> string list \<Rightarrow> string option result" where
  "cookie_value decode name [] = Inr None"
| "cookie_value decode name (part # parts) =
     (if CHR ''='' \<notin> set part then cookie_value decode name parts
      else let key = js_trim (takeWhile (\<lambda>c. c \<noteq> CHR ''='') part) in
        if key = name
        then (case decode (js_trim (tl (dropWhile (\<lambda>c. c \<noteq> CHR ''='') part))) of
                None \<Rightarrow> Inl (JsError ''URIError'') | Some v \<Rightarrow> Inr (Some v))
        else cookie_value decode name parts)"

definition getCookie :: "(string \<Rightarrow> string option) \<Rightarrow> headers \<Rightarrow> string \<Rightarrow> string option result" where
  "getCookie decode request name = (case header_get ''cookie'' request of
     None \<Rightarrow> Inr None | Some h \<Rightarrow> cookie_value decode name (split_on (CHR '';'') h))"

definition bearer_token :: "string \<Rightarrow> string option" where
  "bearer_token h =
     (let t = drop 7 h in
      if js_startsWith h ''Bearer '' \<and> t \<noteq> [] \<and>
         list_all (\<lambda>c. c \<in> set (take 62 b64_alphabet) \<or> c \<in> set ''._~-'') t
      then Some t else None)"

definition getSessionSecret :: "(string \<Rightarrow> string option) \<Rightarrow> headers \<Rightarrow> string result" where
  "getSessionSecret decode request =
     (let bearer = (case header_get ''authorization'' request of None \<Rightarrow> None | Some h \<Rightarrow> bearer_token h) in
      bindE (case bearer of Some t \<Rightarrow> Inr (Some t) | None \<Rightarrow> getCookie decode request ''kastur_session'') (\<lambda>secret.
      case secret of
        None \<Rightarrow> Inl (ApiError 401 ''AUTH_REQUIRED'' ''Sesi autentikasi diperlukan.'' [])
      | Some t \<Rightarrow> if length t < 32 then Inl (ApiError 401 ''AUTH_REQUIRED'' ''Sesi autentikasi diperlukan.'' []) else Inr t))"

text \<open>The comparison of tokens accumulates the differences of all code units before it decides.\<close>

definition constantTimeEqual :: "string \<Rightarrow> string \<Rightarrow> bool" where
  "constantTimeEqual a b =
     (if length a \<noteq> length b then False
      else foldl (\<lambda>r (x, y). r OR (of_char x XOR of_char y)) (0 :: int) (zip a b) = 0)"

definition blank :: "string option \<Rightarrow> bool" where
  "blank t = (case t of None \<Rightarrow> True | Some s \<Rightarrow> js_trim s = [])"

definition verifySetupToken :: "string option \<Rightarrow> string option \<Rightarrow> string option \<Rightarrow> bool" where
  "verifySetupToken provided configured nodeEnv =
     (if nodeEnv = Some ''production'' then
        if blank configured then False
        else if blank provided then False
        else constantTimeEqual (js_trim (the provided)) (js_trim (the configured))
      else if \<not> blank configured then
        if blank provided then False
        else constantTimeEqual (js_trim (the provided)) (js_trim (the configured))
      else True)"

section \<open>Permissions and devices\<close>

definition requirePermission :: "AuthenticatedRequestContext \<Rightarrow> string \<Rightarrow> unit result" where
  "requirePermission cx permission =
     throwIf (permission \<notin> set (au_permissions (ax_authorization cx)))
       (ApiError 403 ''PERMISSION_DENIED'' (''Izin '' @ permission @ '' diperlukan.'') [])"

definition activeDevices :: "string \<Rightarrow> string \<Rightarrow> 'x ApiDb_scheme \<Rightarrow> DeviceRow list" where
  "activeDevices deviceId businessId db = filter (\<lambda>d. dv_id d = pg_uuid deviceId \<and> dv_business_id d = businessId \<and>
     dv_status d = ''ACTIVE'' \<and> dv_revoked_at d = None) (db_devices db)"

definition requireActiveBusinessDevice ::
  "AuthenticatedRequestContext \<Rightarrow> string \<Rightarrow> ('x ApiDb_scheme, unit) act" where
  "requireActiveBusinessDevice cx deviceId =
     bindA (liftA (throwIf (ax_device_id cx \<noteq> None \<and> ax_device_id cx \<noteq> Some deviceId)
        (ApiError 403 ''DEVICE_CONTEXT_MISMATCH'' ''Perangkat command tidak cocok dengan sesi.'' []))) (\<lambda>_.
     bindA (readA (activeDevices deviceId (ax_business cx))) (\<lambda>rows.
     liftA (throwIf (rows = []) (ApiError 403 ''DEVICE_REVOKED'' ''Perangkat tidak aktif untuk Business ini.'' []))))"

definition requireActiveTerminal :: "string \<Rightarrow> string \<Rightarrow> string option \<Rightarrow> ('x ApiDb_scheme, unit) act" where
  "requireActiveTerminal businessId locationId terminalId = (case terminalId of
     None \<Rightarrow> throwA (ApiError 403 ''TERMINAL_CONTEXT_REQUIRED'' ''Sesi POS wajib memilih terminal aktif.'' [])
   | Some t \<Rightarrow>
       bindA (readA (\<lambda>db. filter (\<lambda>r. te_id r = pg_uuid t \<and> te_business_id r = businessId \<and>
          te_location_id r = locationId \<and> te_status r = ''ACTIVE'') (db_terminals db))) (\<lambda>rows.
       liftA (throwIf (rows = []) (ApiError 403 ''TERMINAL_CONTEXT_INVALID''
         ''Terminal POS tidak aktif atau berada di konteks Business/Lokasi yang berbeda.'' []))))"

text \<open>The roles give permissions, the overrides of the membership add and remove some.\<close>

definition roleOf :: "string \<Rightarrow> 'x ApiDb_scheme \<Rightarrow> RoleRow list" where
  "roleOf roleId db = filter (\<lambda>r. ro_id r = roleId \<and> ro_status r = ''ACTIVE'') (db_roles db)"

definition roleGrants :: "MembershipRow \<Rightarrow> 'x ApiDb_scheme \<Rightarrow> string list" where
  "roleGrants m db = remdups [code .
     mr \<leftarrow> db_membership_roles db, mr_membership_id mr = me_id m,
     r \<leftarrow> roleOf (mr_role_id mr) db, ro_business_id r = None \<or> ro_business_id r = Some (me_business_id m),
     (role, permission) \<leftarrow> db_role_permissions db, role = mr_role_id mr,
     (pid, code) \<leftarrow> db_permissions db, pid = permission]"

definition permissionOverrides :: "string \<Rightarrow> 'x ApiDb_scheme \<Rightarrow> (string \<times> string) list" where
  "permissionOverrides membership db = [(code, po_effect po) .
     po \<leftarrow> db_permission_overrides db, po_membership_id po = membership,
     (pid, code) \<leftarrow> db_permissions db, pid = po_permission_id po]"

fun map_set :: "'k \<Rightarrow> 'v \<Rightarrow> ('k \<times> 'v) list \<Rightarrow> ('k \<times> 'v) list" where
  "map_set k v [] = [(k, v)]"
| "map_set k v ((k', v') # xs) = (if k = k' then (k, v) # xs else (k', v') # map_set k v xs)"

definition applyOverride :: "string list \<Rightarrow> string \<times> string \<Rightarrow> string list" where
  "applyOverride ps o1 = (case o1 of (code, effect) \<Rightarrow>
     if effect = ''GRANT'' then (if code \<in> set ps then ps else ps @ [code]) else removeAll code ps)"

definition effectivePermissions :: "MembershipRow \<Rightarrow> 'x ApiDb_scheme \<Rightarrow> string list" where
  "effectivePermissions m db =
     sort (foldl applyOverride (roleGrants m db)
       (foldl (\<lambda>ov (code, effect). map_set code effect ov) [] (permissionOverrides (me_id m) db)))"

section \<open>Authentication\<close>

record SessionRow =
  sr_authorization_version :: int
  sr_business_id :: string
  sr_default_location_id :: "string option"
  sr_device_status :: "string option"
  sr_display_name :: string
  sr_email :: "string option"
  sr_expires_at :: int
  sr_membership :: MembershipRow
  sr_membership_status :: string
  sr_primary_role :: "string option"
  sr_session_device_id :: "string option"
  sr_session_id :: string
  sr_user_id :: string
  sr_user_status :: string

definition primaryRole :: "MembershipRow \<Rightarrow> 'x ApiDb_scheme \<Rightarrow> string option" where
  "primaryRole m db = (case [ro_code r .
       mr \<leftarrow> db_membership_roles db, mr_membership_id mr = me_id m \<and> mr_is_primary mr,
       r \<leftarrow> roleOf (mr_role_id mr) db, ro_business_id r = None \<or> ro_business_id r = Some (me_business_id m)] of
     [] \<Rightarrow> None | c # _ \<Rightarrow> Some c)"

definition locationOrder :: "LocationRow \<Rightarrow> LocationRow \<Rightarrow> int" where
  "locationOrder a b =
     (if lo_is_default a \<noteq> lo_is_default b then (if lo_is_default a then - 1 else 1)
      else sgn (lo_created_at a - lo_created_at b))"

definition defaultLocation :: "string \<Rightarrow> 'x ApiDb_scheme \<Rightarrow> string option" where
  "defaultLocation businessId db =
     (case sort_by locationOrder (filter (\<lambda>l. lo_business_id l = businessId \<and> lo_status l = ''ACTIVE'') (db_locations db)) of
        [] \<Rightarrow> None | l # _ \<Rightarrow> Some (lo_id l))"

definition deviceOf :: "string option \<Rightarrow> 'x ApiDb_scheme \<Rightarrow> DeviceRow option" where
  "deviceOf d db = (case d of None \<Rightarrow> None | Some i \<Rightarrow> find (\<lambda>r. dv_id r = i) (db_devices db))"

definition sessionRows :: "int \<Rightarrow> string \<Rightarrow> 'x ApiDb_scheme \<Rightarrow> SessionRow list" where
  "sessionRows now secretHash db =
    [\<lparr>sr_authorization_version = (case map_of (db_authorization_versions db) (me_id m) of None \<Rightarrow> 1 | Some v \<Rightarrow> v),
      sr_business_id = se_business_id s, sr_default_location_id = defaultLocation (se_business_id s) db,
      sr_device_status = map_option dv_status (deviceOf (se_device_id s) db), sr_display_name = us_display_name u,
      sr_email = us_email u, sr_expires_at = se_expires_at s, sr_membership = m, sr_membership_status = me_status m,
      sr_primary_role = primaryRole m db, sr_session_device_id = se_device_id s, sr_session_id = se_id s,
      sr_user_id = us_id u, sr_user_status = us_status u\<rparr> .
     s \<leftarrow> db_sessions db,
     se_session_secret_hash s = secretHash \<and> se_revoked_at s = None \<and> se_expires_at s > now \<and>
       (se_device_id s = None \<or> map_option dv_business_id (deviceOf (se_device_id s) db) = Some (se_business_id s)),
     u \<leftarrow> db_users db, us_id u = se_user_id s,
     m \<leftarrow> db_memberships db, me_business_id m = se_business_id s \<and> me_user_id m = se_user_id s]"

definition isDeviceUuid :: "string \<Rightarrow> bool" where
  "isDeviceUuid s = matches (uuid_pattern ''12345'') s"

definition isPosClient :: "headers \<Rightarrow> bool" where
  "isPosClient request = (map_option js_toLowerCase (header_get ''x-kastur-client'' request) = Some ''pos'')"

text \<open>The guards on the session row, in the order of the source.\<close>

definition checkSession :: "headers \<Rightarrow> bool \<Rightarrow> SessionRow \<Rightarrow> unit result" where
  "checkSession request skipDeviceCheck session =
     (let requestDeviceId = header_get ''x-kastur-device-id'' request in
      bindE (throwIf (sr_user_status session \<noteq> ''ACTIVE'' \<or> sr_membership_status session \<noteq> ''ACTIVE'')
               (ApiError 403 ''MEMBERSHIP_INACTIVE'' ''Akses pengguna tidak aktif.'' [])) (\<lambda>_.
      bindE (throwIf (sr_session_device_id session \<noteq> None \<and> sr_device_status session \<noteq> Some ''ACTIVE'')
               (ApiError 403 ''DEVICE_REVOKED'' ''Perangkat tidak lagi diizinkan.'' [])) (\<lambda>_.
      bindE (if isPosClient request \<and> \<not> skipDeviceCheck then
               bindE (throwIf (case requestDeviceId of None \<Rightarrow> True | Some d \<Rightarrow> \<not> isDeviceUuid (js_trim d))
                 (ApiError 403 ''DEVICE_BINDING_REQUIRED'' ''Header X-Kastur-Device-Id wajib berupa UUID perangkat valid.'' [])) (\<lambda>_.
               bindE (throwIf (sr_session_device_id session = None)
                 (ApiError 403 ''DEVICE_BINDING_REQUIRED''
                   ''Sesi POS wajib terikat ke perangkat aktif. Daftarkan perangkat terlebih dahulu.'' [])) (\<lambda>_.
               throwIf (map_option js_trim requestDeviceId \<noteq> sr_session_device_id session)
                 (ApiError 403 ''DEVICE_CONTEXT_MISMATCH'' ''Sesi POS terikat ke perangkat yang berbeda.'' [])))
             else Inr ()) (\<lambda>_.
      throwIf (sr_default_location_id session = None \<or> sr_primary_role session = None)
        (ApiError 403 ''OPERATIONAL_CONTEXT_INCOMPLETE'' ''Lokasi atau peran utama belum dikonfigurasi.'' [])))))"

definition resolveTerminal ::
  "headers \<Rightarrow> bool \<Rightarrow> SessionRow \<Rightarrow> string option \<Rightarrow> ('x ApiDb_scheme, string option) act" where
  "resolveTerminal request skipTerminalCheck session selected =
     (let locationId = the (sr_default_location_id session) in
      if isPosClient request \<and> \<not> skipTerminalCheck then
        (case selected of
           None \<Rightarrow>
             bindA (readA (\<lambda>db. filter (\<lambda>r. te_business_id r = sr_business_id session \<and>
                te_location_id r = locationId \<and> te_status r = ''ACTIVE'') (db_terminals db))) (\<lambda>rows.
             case rows of
               [] \<Rightarrow> throwA (ApiError 403 ''TERMINAL_NOT_CONFIGURED'' ''Tidak ada terminal aktif pada lokasi ini.'' [])
             | [t] \<Rightarrow> retA (Some (te_id t))
             | _ \<Rightarrow> throwA (ApiError 403 ''TERMINAL_SELECTION_REQUIRED''
                 ''Terdapat lebih dari satu terminal aktif. Harap pilih terminal kasir.'' []))
         | Some t \<Rightarrow>
             bindA (requireActiveTerminal (sr_business_id session) locationId (Some t)) (\<lambda>_. retA (Some t)))
      else retA selected)"

definition touchSession :: "int \<Rightarrow> SessionRow \<Rightarrow> ('x ApiDb_scheme, unit) act" where
  "touchSession now session db =
     (Inr (), db\<lparr>db_sessions := map (\<lambda>r. if se_id r = sr_session_id session then r\<lparr>se_last_seen_at := Some now\<rparr> else r) (db_sessions db),
        db_devices := (case sr_session_device_id session of
           None \<Rightarrow> db_devices db
         | Some d \<Rightarrow> map (\<lambda>r. if dv_id r = d then r\<lparr>dv_last_seen_at := Some now\<rparr> else r) (db_devices db))\<rparr>)"

definition unsignedGrant :: "string \<Rightarrow> AuthenticatedRequestContext \<Rightarrow> OfflineAuthorizationGrant option" where
  "unsignedGrant keyId cx = (case (ax_device_id cx, ax_selected_terminal_id cx) of
     (Some device, Some terminal) \<Rightarrow> Some
      \<lparr>og_key_id = keyId, og_session_id = ax_session_id cx, og_device_id = device, og_terminal_id = terminal,
       og_issued_at = au_server_time (ax_authorization cx), og_offline_valid_until = au_offline_valid_until (ax_authorization cx),
       og_user_id = ax_user cx, og_business_id = ax_business cx,
       og_primary_role = (case au_primary_role (ax_authorization cx) of None \<Rightarrow> [] | Some r \<Rightarrow> r),
       og_permissions = sort (au_permissions (ax_authorization cx)), og_authorization_version = ax_version cx,
       og_default_location_id = ax_location cx, og_signature = []\<rparr>
   | _ \<Rightarrow> None)"

definition issueOfflineAuthorizationGrant ::
  "ApiEnvironment \<Rightarrow> AuthenticatedRequestContext \<Rightarrow> OfflineAuthorizationGrant option result" where
  "issueOfflineAuthorizationGrant environment cx =
     bindE (configuredKey environment) (\<lambda>configured.
     case configured of
       None \<Rightarrow> Inr None
     | Some (keyId, jwk) \<Rightarrow>
         (case unsignedGrant keyId cx of
            None \<Rightarrow> Inr None
          | Some unsigned \<Rightarrow>
              bindE (en_sign environment jwk (offlineAuthorizationSigningPayload unsigned)) (\<lambda>signature.
              Inr (Some (unsigned\<lparr>og_signature := base64UrlEncode signature\<rparr>)))))"

definition sessionContext ::
  "js_env \<Rightarrow> 'x ApiDb_scheme api_host \<Rightarrow> SessionRow \<Rightarrow> string option \<Rightarrow> string list \<Rightarrow> AuthenticatedRequestContext" where
  "sessionContext E H session terminal permissions =
    \<lparr>ax_authorization =
      \<lparr>au_user_id = sr_user_id session, au_business_id = sr_business_id session,
       au_primary_role = sr_primary_role session, au_permissions = permissions,
       au_authorization_version = sr_authorization_version session,
       au_offline_valid_until = toISOString E (sr_expires_at session),
       au_default_location_id = the (sr_default_location_id session), au_offline_authorization = None,
       au_display_name = sr_display_name session, au_email = sr_email session,
       au_server_time = toISOString E (sv_now H)\<rparr>,
     ax_device_id = sr_session_device_id session, ax_membership_id = me_id (sr_membership session),
     ax_selected_terminal_id = terminal, ax_session_id = sr_session_id session\<rparr>"

definition withGrant :: "AuthenticatedRequestContext \<Rightarrow> OfflineAuthorizationGrant option \<Rightarrow> AuthenticatedRequestContext" where
  "withGrant cx grant = (case grant of
     None \<Rightarrow> cx
   | Some g \<Rightarrow> cx\<lparr>ax_authorization := (ax_authorization cx)\<lparr>au_offline_authorization := Some g\<rparr>\<rparr>)"

definition authenticateSession ::
  "js_env \<Rightarrow> 'x ApiDb_scheme api_host \<Rightarrow> ApiEnvironment \<Rightarrow> headers \<Rightarrow> bool \<Rightarrow> bool \<Rightarrow> string option \<Rightarrow> SessionRow \<Rightarrow>
   ('x ApiDb_scheme, AuthenticatedRequestContext) act" where
  "authenticateSession E H environment request skipDeviceCheck skipTerminalCheck selected session =
     bindA (liftA (checkSession request skipDeviceCheck session)) (\<lambda>_.
     bindA (resolveTerminal request skipTerminalCheck session selected) (\<lambda>terminal.
     bindA (readA (effectivePermissions (sr_membership session))) (\<lambda>permissions.
     bindA (liftA (throwIf (\<not> isSafeInteger (JSInt (sr_authorization_version session)) \<or> sr_authorization_version session < 1)
        (JsError ''Error''))) (\<lambda>_.
     bindA (touchSession (sv_now H) session) (\<lambda>_.
     bindA (liftA (issueOfflineAuthorizationGrant environment (sessionContext E H session terminal permissions))) (\<lambda>grant.
     retA (withGrant (sessionContext E H session terminal permissions) grant)))))))"

definition authenticateRequest ::
  "js_env \<Rightarrow> 'x ApiDb_scheme api_host \<Rightarrow> (string \<Rightarrow> string option) \<Rightarrow> ApiEnvironment \<Rightarrow> headers \<Rightarrow> bool \<Rightarrow> bool \<Rightarrow>
   ('x ApiDb_scheme, AuthenticatedRequestContext) act" where
  "authenticateRequest E H decode environment request skipDeviceCheck skipTerminalCheck =
     bindA (liftA (case header_get ''x-terminal-id'' request of
        None \<Rightarrow> Inr None
      | Some t \<Rightarrow> bindE (uuidValue (Some (JStr t)) ''header X-Terminal-Id'') (\<lambda>t. Inr (Some t)))) (\<lambda>selected.
     bindA (liftA (getSessionSecret decode request)) (\<lambda>secret.
     bindA (readA (sessionRows (sv_now H) (sv_sha256 H secret))) (\<lambda>rows.
     case rows of
       [] \<Rightarrow> throwA (ApiError 401 ''SESSION_INVALID'' ''Sesi tidak valid atau sudah berakhir.'' [])
     | session # _ \<Rightarrow> authenticateSession E H environment request skipDeviceCheck skipTerminalCheck selected session)))"

section \<open>Offline authority\<close>

definition authorizationFromGrant ::
  "js_env \<Rightarrow> 'x ApiDb_scheme api_host \<Rightarrow> OfflineAuthorizationGrant \<Rightarrow> string \<Rightarrow> AuthContext" where
  "authorizationFromGrant E H grant displayName =
    \<lparr>au_user_id = og_user_id grant, au_business_id = og_business_id grant, au_primary_role = Some (og_primary_role grant),
     au_permissions = sort (og_permissions grant), au_authorization_version = og_authorization_version grant,
     au_offline_valid_until = og_offline_valid_until grant, au_default_location_id = og_default_location_id grant,
     au_offline_authorization = Some grant, au_display_name = displayName, au_email = None,
     au_server_time = toISOString E (sv_now H)\<rparr>"

definition contextForOfflineGrant ::
  "js_env \<Rightarrow> 'x ApiDb_scheme api_host \<Rightarrow> ApiEnvironment \<Rightarrow> AuthenticatedRequestContext \<Rightarrow> json \<Rightarrow>
   AuthenticatedRequestContext result" where
  "contextForOfflineGrant E H environment current v =
     (let invalid = ApiError 403 ''OFFLINE_AUTHORIZATION_INVALID'' ''Bukti otorisasi offline tidak valid.'' [] in
      bindE (throwUnless (isOfflineAuthorizationGrant v) invalid) (\<lambda>_.
      bindE (verifyOfflineAuthorizationGrant environment v) (\<lambda>ok.
      bindE (throwUnless ok invalid) (\<lambda>_.
      let grant = grant_of v in
      bindE (throwIf (og_session_id grant \<noteq> ax_session_id current \<or>
               Some (og_device_id grant) \<noteq> ax_device_id current \<or>
               Some (og_terminal_id grant) \<noteq> ax_selected_terminal_id current \<or>
               og_user_id grant \<noteq> ax_user current \<or>
               og_business_id grant \<noteq> ax_business current \<or>
               og_offline_valid_until grant \<noteq> au_offline_valid_until (ax_authorization current))
               (ApiError 403 ''OFFLINE_AUTHORIZATION_CONTEXT_MISMATCH''
                 ''Bukti otorisasi offline tidak cocok dengan sesi/perangkat.'' [])) (\<lambda>_.
      Inr (current\<lparr>ax_authorization :=
             authorizationFromGrant E H grant (au_display_name (ax_authorization current))\<rparr>))))))"

text \<open>The join of the historical session with its user, membership and terminal.\<close>

definition historicalSessions ::
  "OfflineAuthorizationGrant \<Rightarrow> 'x ApiDb_scheme \<Rightarrow> (SessionTableRow \<times> UserRow \<times> MembershipRow) list" where
  "historicalSessions g db = [(s, u, m) .
     s \<leftarrow> db_sessions db,
     se_id s = pg_uuid (og_session_id g) \<and> se_business_id s = pg_uuid (og_business_id g) \<and>
       se_user_id s = pg_uuid (og_user_id g) \<and> se_device_id s = Some (pg_uuid (og_device_id g)),
     u \<leftarrow> db_users db, us_id u = se_user_id s,
     m \<leftarrow> db_memberships db, me_business_id m = se_business_id s \<and> me_user_id m = se_user_id s,
     t \<leftarrow> db_terminals db, te_id t = pg_uuid (og_terminal_id g) \<and> te_business_id t = se_business_id s \<and>
       te_location_id t = pg_uuid (og_default_location_id g)]"

definition authenticateRecoveryRequest ::
  "js_env \<Rightarrow> 'x ApiDb_scheme api_host \<Rightarrow> ApiEnvironment \<Rightarrow> AuthenticatedRequestContext \<Rightarrow> json option \<Rightarrow>
   ('x ApiDb_scheme, AuthenticatedRequestContext) act" where
  "authenticateRecoveryRequest E H environment approver v =
     (let invalid = ApiError 401 ''OFFLINE_AUTHORIZATION_INVALID'' ''Bukti otorisasi offline tidak valid.'' [];
          mismatch = ApiError 401 ''OFFLINE_AUTHORIZATION_CONTEXT_MISMATCH'' ''Bukti offline tidak cocok dengan sesi historis.'' [] in
      bindA (liftA (requirePermission approver ''sync.recovery.import'')) (\<lambda>_.
      case v of
        None \<Rightarrow> throwA invalid
      | Some j \<Rightarrow>
        bindA (liftA (throwUnless (isOfflineAuthorizationGrant j) invalid)) (\<lambda>_.
        bindA (liftA (verifyOfflineAuthorizationGrant environment j)) (\<lambda>ok.
        bindA (liftA (throwUnless ok invalid)) (\<lambda>_.
        let grant = grant_of j in
        bindA (liftA (throwIf (ax_business approver \<noteq> og_business_id grant)
          (ApiError 403 ''CROSS_BUSINESS_ACCESS_DENIED''
            ''Persetujuan recovery dan fakta historis harus berasal dari Business yang sama.'' []))) (\<lambda>_.
        bindA (readA (historicalSessions grant)) (\<lambda>rows.
        case rows of
          [] \<Rightarrow> throwA mismatch
        | (s, u, m) # _ \<Rightarrow>
            (case (dateParse E (og_issued_at grant), dateParse E (og_offline_valid_until grant)) of
               (Some issuedAt, Some validUntil) \<Rightarrow>
                 bindA (liftA (throwIf (se_device_id s \<noteq> Some (og_device_id grant) \<or> se_expires_at s \<noteq> validUntil \<or>
                    issuedAt < se_issued_at s \<or> issuedAt \<ge> validUntil) mismatch)) (\<lambda>_.
                 retA \<lparr>ax_authorization = authorizationFromGrant E H grant (us_display_name u),
                       ax_device_id = Some (og_device_id grant), ax_membership_id = me_id m,
                       ax_selected_terminal_id = Some (og_terminal_id grant), ax_session_id = og_session_id grant\<rparr>)
             | _ \<Rightarrow> throwA mismatch))))))))"

section \<open>Sessions and devices change\<close>

definition audit_row ::
  "string \<Rightarrow> AuthenticatedRequestContext \<Rightarrow> string \<Rightarrow> string \<Rightarrow> string \<Rightarrow> string \<Rightarrow> string option \<Rightarrow> string option \<Rightarrow> json option \<Rightarrow> string \<Rightarrow> AuditEventRow" where
  "audit_row i cx action entityType entityId occurredAt deviceId reason after correlation =
    \<lparr>av_id = i, av_business_id = ax_business cx, av_location_id = Some (ax_location cx), av_actor_user_id = ax_user cx,
     av_actor_role = au_primary_role (ax_authorization cx), av_action = action, av_entity_type = entityType,
     av_entity_id = entityId, av_occurred_at = occurredAt, av_device_id = deviceId, av_session_id = ax_session_id cx,
     av_reason = reason, av_before_data = None, av_after_data = after, av_correlation_id = correlation,
     av_authorization_version = ax_version cx\<rparr>"

definition revokeCurrentSession ::
  "js_env \<Rightarrow> 'x ApiDb_scheme api_host \<Rightarrow> AuthenticatedRequestContext \<Rightarrow> ('x ApiDb_scheme, unit) act" where
  "revokeCurrentSession E H cx = pg_transaction H (\<lambda>db.
     (Inr (), db\<lparr>db_sessions := map (\<lambda>r. if se_id r = ax_session_id cx
            then r\<lparr>se_revoked_at := (case se_revoked_at r of None \<Rightarrow> Some (sv_now H) | Some t \<Rightarrow> Some t)\<rparr> else r) (db_sessions db),
        db_audit_events := db_audit_events db @ [audit_row (sv_uuid H (ax_session_id cx) 0) cx ''SESSION_REVOKED'' ''session''
            (ax_session_id cx) (toISOString E (sv_now H)) (ax_device_id cx) None
            (Some (sv_jsonb H (JObj [(''status'', JStr ''REVOKED'')]))) (sv_uuid H (ax_session_id cx) 1)]\<rparr>))"

definition insertDevice :: "string \<Rightarrow> string \<Rightarrow> string \<Rightarrow> ('x ApiDb_scheme, unit) act" where
  "insertDevice deviceId businessId deviceName db =
     (if list_ex (\<lambda>d. dv_id d = pg_uuid deviceId \<or> dv_business_id d = businessId \<and> dv_device_key d = deviceId) (db_devices db)
      then (Inl (DatabaseError ''23505'' None), db)
      else (Inr (), db\<lparr>db_devices := db_devices db @ [\<lparr>dv_id = pg_uuid deviceId, dv_business_id = businessId,
              dv_device_key = deviceId, dv_name = Some deviceName, dv_status = ''ACTIVE'', dv_last_seen_at = None,
              dv_revoked_at = None\<rparr>]\<rparr>))"

definition bindSession :: "string \<Rightarrow> string \<Rightarrow> ('x ApiDb_scheme, unit) act" where
  "bindSession deviceId sessionId db =
     (Inr (), db\<lparr>db_sessions := map (\<lambda>r. if se_id r = sessionId \<and> (se_device_id r = None \<or> se_device_id r = Some (pg_uuid deviceId))
         then r\<lparr>se_device_id := Some (pg_uuid deviceId)\<rparr> else r) (db_sessions db)\<rparr>)"

definition enrollDevice ::
  "js_env \<Rightarrow> 'x ApiDb_scheme api_host \<Rightarrow> (string \<Rightarrow> string option) \<Rightarrow> ApiEnvironment \<Rightarrow> HttpRequest \<Rightarrow>
   ('x ApiDb_scheme, ApiResponse) act" where
  "enrollDevice E H decode environment request =
     bindA (authenticateRequest E H decode environment (hq_headers request) True True) (\<lambda>cx.
     bindA (liftA (throwUnless (''workspace.pos.access'' \<in> set (au_permissions (ax_authorization cx)))
       (ApiError 403 ''PERMISSION_DENIED'' ''Pengguna tidak memiliki izin untuk mendaftarkan perangkat POS.'' []))) (\<lambda>_.
     bindA (liftA (readJsonObject request)) (\<lambda>body.
     bindA (liftA (case jget body ''device_id'' of
        Some (JStr raw) \<Rightarrow> if isDeviceUuid (js_trim raw) then Inr (js_trim raw)
          else Inl (ApiError 400 ''VALIDATION_ERROR'' ''device_id wajib berupa UUID valid.'' [])
      | _ \<Rightarrow> Inl (ApiError 400 ''VALIDATION_ERROR'' ''device_id wajib berupa UUID valid.'' []))) (\<lambda>deviceId.
     let deviceName = (case jget body ''device_name'' of
           Some (JStr n) \<Rightarrow> if js_trim n = [] then ''POS Terminal'' else js_trim n | _ \<Rightarrow> ''POS Terminal'');
         businessId = ax_business cx in
     bindA (readA (\<lambda>db. find (\<lambda>d. dv_id d = pg_uuid deviceId) (db_devices db))) (\<lambda>existing.
     bindA (case existing of
         Some d \<Rightarrow>
           bindA (liftA (throwIf (dv_business_id d \<noteq> businessId) (ApiError 403 ''CROSS_BUSINESS_DEVICE_FORBIDDEN''
             ''Perangkat sudah terdaftar pada bisnis lain.'' []))) (\<lambda>_.
           liftA (throwIf (dv_status d \<noteq> ''ACTIVE'') (ApiError 403 ''DEVICE_REVOKED'' ''Perangkat telah dicabut.'' [])))
       | None \<Rightarrow> insertDevice deviceId businessId deviceName) (\<lambda>_.
     bindA (bindSession deviceId (ax_session_id cx)) (\<lambda>_.
     bindA (\<lambda>db. (Inr (), db\<lparr>db_audit_events := db_audit_events db @ [audit_row (sv_uuid H (ax_session_id cx) 0) cx
         ''DEVICE_ENROLLED'' ''device'' (pg_uuid deviceId) (toISOString E (sv_now H)) (Some (pg_uuid deviceId))
         (Some ''Explicit device enrollment command'')
         (Some (sv_jsonb H (JObj [(''device_key'', JStr deviceId), (''device_name'', JStr deviceName), (''platform'', JStr ''PWA'')])))
         (sv_uuid H (ax_session_id cx) 1)]\<rparr>)) (\<lambda>_.
     retA (api_json (JObj [(''business_id'', JStr businessId), (''device_id'', JStr deviceId),
         (''message'', JStr ''Perangkat berhasil didaftarkan dan diikat ke sesi.''), (''status'', JStr ''ACTIVE'')])
       201 [] (Some (hq_headers request, en_allowed_origins environment)))))))))))"

section \<open>Tokens\<close>

lemma xor_char_eq_0: "(of_char x XOR of_char y :: int) = 0 \<longleftrightarrow> x = y"
proof
  assume "(of_char x XOR of_char y :: int) = 0"
  then have "(of_char x :: int) = of_char y" by (metis xor.assoc xor.left_neutral xor.right_neutral xor_self_eq)
  then show "x = y" by simp
qed simp

lemma constantTimeEqual_eq: "constantTimeEqual a b \<longleftrightarrow> a = b"
proof -
  have "foldl (\<lambda>r (x, y). r OR (of_char x XOR of_char y)) r (zip a b) = (0 :: int) \<longleftrightarrow> r = 0 \<and> a = b"
    if "length a = length b" for r
    using that by (induction a b arbitrary: r rule: list_induct2) (auto simp: or_eq_0_iff xor_char_eq_0)
  then show ?thesis by (auto simp: constantTimeEqual_def)
qed

text \<open>
  The setup token: in production it has to be configured, and in either mode a configured token admits exactly the
  texts that equal it up to surrounding white space, although the comparison never looks for the first difference.
\<close>

theorem setup_token_exact:
  "verifySetupToken provided configured nodeEnv \<longleftrightarrow>
    (case configured of
       Some c \<Rightarrow> if js_trim c = [] then nodeEnv \<noteq> Some ''production''
                 else map_option js_trim provided = Some (js_trim c)
     | None \<Rightarrow> nodeEnv \<noteq> Some ''production'')"
  by (auto simp: verifySetupToken_def constantTimeEqual_eq blank_def split: option.splits)

section \<open>Effective permissions\<close>

lemma map_set_new: "k \<notin> fst ` set xs \<Longrightarrow> map_set k v xs = xs @ [(k, v)]"
  by (induction xs) auto

lemma foldl_map_set_new:
  assumes "distinct (map fst (acc @ xs))"
  shows "foldl (\<lambda>ov (code, effect). map_set code effect ov) acc xs = acc @ xs"
  using assms
proof (induction xs arbitrary: acc)
  case (Cons x xs)
  obtain k v where x: "x = (k, v)" by (cases x)
  then have "map_set k v acc = acc @ [(k, v)]" using Cons.prems by (auto intro!: map_set_new)
  then show ?case using Cons.IH [of "acc @ [(k, v)]"] Cons.prems x by simp
qed simp

lemma set_applyOverrides:
  assumes "distinct (map fst os)"
  shows "set (foldl applyOverride ps os) =
    (set ps \<union> {c. (c, ''GRANT'') \<in> set os}) - {c. \<exists>e. (c, e) \<in> set os \<and> e \<noteq> ''GRANT''}"
  using assms
proof (induction os arbitrary: ps)
  case (Cons x os)
  obtain c e where x: "x = (c, e)" by (cases x)
  then have new: "\<And>e. (c, e) \<notin> set os" using Cons.prems by force
  have "set (applyOverride ps x) = (if e = ''GRANT'' then insert c (set ps) else set ps - {c})"
    by (auto simp: x applyOverride_def)
  moreover have "set (foldl applyOverride ps (x # os)) = (set (applyOverride ps x) \<union> {c. (c, ''GRANT'') \<in> set os}) -
      {c. \<exists>e. (c, e) \<in> set os \<and> e \<noteq> ''GRANT''}"
    using Cons by simp
  moreover define G where "G = ''GRANT''"
  ultimately show ?case using new unfolding G_def [symmetric] x by (cases "e = G") auto
qed simp

lemma distinct_applyOverrides: "distinct ps \<Longrightarrow> distinct (foldl applyOverride ps os)"
  by (induction os arbitrary: ps) (auto simp: applyOverride_def distinct_removeAll)

text \<open>
  What a membership may do: the permissions of its active roles and the granted overrides, without any that an
  override revokes, each once, in order. The database keeps one override per membership and permission.
\<close>

lemma effective_permissions:
  assumes "distinct (map fst (permissionOverrides (me_id m) db))"
  shows "set (effectivePermissions m db) =
      (set (roleGrants m db) \<union> {c. (c, ''GRANT'') \<in> set (permissionOverrides (me_id m) db)}) -
        {c. \<exists>e. (c, e) \<in> set (permissionOverrides (me_id m) db) \<and> e \<noteq> ''GRANT''}"
    "sorted (effectivePermissions m db)" "distinct (effectivePermissions m db)"
proof -
  have ov: "foldl (\<lambda>ov (code, effect). map_set code effect ov) [] (permissionOverrides (me_id m) db)
      = permissionOverrides (me_id m) db"
    using foldl_map_set_new [of "[]"] assms by simp
  show "set (effectivePermissions m db) =
      (set (roleGrants m db) \<union> {c. (c, ''GRANT'') \<in> set (permissionOverrides (me_id m) db)}) -
        {c. \<exists>e. (c, e) \<in> set (permissionOverrides (me_id m) db) \<and> e \<noteq> ''GRANT''}"
    unfolding effectivePermissions_def ov set_sort by (rule set_applyOverrides [OF assms])
  show "sorted (effectivePermissions m db)" "distinct (effectivePermissions m db)"
    by (simp_all add: effectivePermissions_def distinct_applyOverrides roleGrants_def)
qed

section \<open>What an authenticated request may rely on\<close>

text \<open>The tables after the marks of the last use of the session and its device.\<close>

definition only_touched :: "'x ApiDb_scheme \<Rightarrow> 'x ApiDb_scheme \<Rightarrow> bool" where
  "only_touched s t = (t = s\<lparr>db_sessions := db_sessions t, db_devices := db_devices t\<rparr> \<and>
     map (\<lambda>r. r\<lparr>se_last_seen_at := None\<rparr>) (db_sessions t) = map (\<lambda>r. r\<lparr>se_last_seen_at := None\<rparr>) (db_sessions s) \<and>
     map (\<lambda>r. r\<lparr>dv_last_seen_at := None\<rparr>) (db_devices t) = map (\<lambda>r. r\<lparr>dv_last_seen_at := None\<rparr>) (db_devices s))"

lemma touchSession_only: "touchSession now session s = (Inr u, t) \<Longrightarrow> only_touched s t"
  by (auto simp: touchSession_def only_touched_def split: option.splits)

definition active_terminal :: "string \<Rightarrow> string \<Rightarrow> string option \<Rightarrow> 'x ApiDb_scheme \<Rightarrow> bool" where
  "active_terminal businessId locationId t s = (\<exists>i. t = Some i \<and>
     (\<exists>r \<in> set (db_terminals s). te_id r \<in> {i, pg_uuid i} \<and> te_status r = ''ACTIVE'' \<and>
        te_business_id r = businessId \<and> te_location_id r = locationId))"

lemma resolveTerminal_Inr:
  assumes "resolveTerminal rq skip session sel s = (Inr t, s')"
  shows "s' = s"
    "isPosClient rq \<Longrightarrow> \<not> skip \<Longrightarrow> active_terminal (sr_business_id session) (the (sr_default_location_id session)) t s"
proof -
  have one: "\<exists>r \<in> set xs. te_id r \<in> {i, pg_uuid i} \<and> P r"
    if "filter (\<lambda>r. te_id r = pg_uuid i \<and> P r) xs \<noteq> []" for i P and xs :: "TerminalRow list"
    using that by (auto simp: filter_empty_conv)
  have only: "\<exists>r \<in> set xs. te_id r \<in> {te_id t, pg_uuid (te_id t)} \<and> P r" if "filter P xs = [t]" for P t and xs :: "TerminalRow list"
    using that by (metis filter_eq_ConsD insertI1 in_set_conv_decomp)
  show "s' = s" using assms
    by (auto simp: resolveTerminal_def requireActiveTerminal_def Let_def bindA_def liftA_def retA_def throwA_def readA_def throwIf_def
        split: if_splits option.splits list.splits)
  show "active_terminal (sr_business_id session) (the (sr_default_location_id session)) t s" if pos: "isPosClient rq" "\<not> skip"
  proof (cases sel)
    case None
    then obtain r where r: "filter (\<lambda>r. te_business_id r = sr_business_id session \<and>
        te_location_id r = the (sr_default_location_id session) \<and> te_status r = ''ACTIVE'') (db_terminals s) = [r]" "t = Some (te_id r)"
      using assms pos
      by (auto simp: resolveTerminal_def Let_def bindA_def retA_def throwA_def readA_def split: list.splits)
    then show ?thesis using only [OF r(1)] by (auto simp: active_terminal_def)
  next
    case (Some i)
    then have "t = Some i" "filter (\<lambda>r. te_id r = pg_uuid i \<and> te_business_id r = sr_business_id session \<and>
        te_location_id r = the (sr_default_location_id session) \<and> te_status r = ''ACTIVE'') (db_terminals s) \<noteq> []"
      using assms pos
      by (auto simp: resolveTerminal_def requireActiveTerminal_def Let_def bindA_def liftA_def retA_def readA_def throwIf_def split: if_splits)
    then show ?thesis using one [of i] by (fastforce simp: active_terminal_def)
  qed
qed

lemma sessionRowsD:
  assumes "r \<in> set (sessionRows now h db)"
  obtains s u m where "s \<in> set (db_sessions db)" "u \<in> set (db_users db)" "m \<in> set (db_memberships db)"
    "se_session_secret_hash s = h" "se_revoked_at s = None" "now < se_expires_at s" "us_id u = se_user_id s"
    "me_business_id m = se_business_id s" "me_user_id m = se_user_id s"
    "sr_session_id r = se_id s" "sr_user_id r = us_id u" "sr_business_id r = se_business_id s" "sr_membership r = m"
    "sr_membership_status r = me_status m" "sr_user_status r = us_status u" "sr_session_device_id r = se_device_id s"
    "sr_device_status r = map_option dv_status (deviceOf (se_device_id s) db)"
    "se_device_id s = None \<or> map_option dv_business_id (deviceOf (se_device_id s) db) = Some (se_business_id s)"
    "sr_expires_at r = se_expires_at s"
  using assms unfolding sessionRows_def by (auto split: if_splits)

definition bound_device :: "string option \<Rightarrow> string \<Rightarrow> 'x ApiDb_scheme \<Rightarrow> bool" where
  "bound_device d businessId db = (\<forall>i. d = Some i \<longrightarrow>
     (\<exists>r \<in> set (db_devices db). dv_id r = i \<and> dv_business_id r = businessId \<and> dv_status r = ''ACTIVE''))"

lemma bound_deviceI:
  assumes "d = None \<or> map_option dv_business_id (deviceOf d db) = Some b"
    "d \<noteq> None \<longrightarrow> map_option dv_status (deviceOf d db) = Some ''ACTIVE''"
  shows "bound_device d b db"
  using assms by (cases "deviceOf d db") (auto simp: bound_device_def deviceOf_def dest: find_SomeD split: option.splits)

text \<open>
  C20. A request is served only for a session that exists under the hash of its secret, is neither revoked nor expired,
  and belongs to an active user with an active membership of the business of the session; a device bound to the session is an
  active device of that business. A request of the till comes from the very device the session is bound to, and names an
  active terminal of the location. The context carries these identities and exactly the effective permissions of the
  membership, and nothing in the database changes but the marks of last use.
\<close>

theorem authenticated_context:
  assumes "authenticateRequest E H decode environment rq skipDevice skipTerminal s = (Inr cx, s')"
  shows "\<exists>secret se u m. getSessionSecret decode rq = Inr secret \<and>
    se \<in> set (db_sessions s) \<and> se_session_secret_hash se = sv_sha256 H secret \<and> se_revoked_at se = None \<and> sv_now H < se_expires_at se \<and>
    u \<in> set (db_users s) \<and> us_id u = se_user_id se \<and> us_status u = ''ACTIVE'' \<and>
    m \<in> set (db_memberships s) \<and> me_user_id m = us_id u \<and> me_business_id m = se_business_id se \<and> me_status m = ''ACTIVE'' \<and>
    ax_session_id cx = se_id se \<and> ax_user cx = us_id u \<and> ax_business cx = se_business_id se \<and> ax_membership_id cx = me_id m \<and>
    ax_device_id cx = se_device_id se \<and> bound_device (ax_device_id cx) (ax_business cx) s \<and>
    au_permissions (ax_authorization cx) = effectivePermissions m s \<and>
    (isPosClient rq \<and> \<not> skipDevice \<longrightarrow> (\<exists>d. header_get ''x-kastur-device-id'' rq = Some d \<and> ax_device_id cx = Some (js_trim d))) \<and>
    (isPosClient rq \<and> \<not> skipTerminal \<longrightarrow> active_terminal (ax_business cx) (ax_location cx) (ax_selected_terminal_id cx) s) \<and>
    only_touched s s'"
proof -
  obtain sel secret where
    secret: "getSessionSecret decode rq = Inr secret"
    and found: "(case sessionRows (sv_now H) (sv_sha256 H secret) s of
       [] \<Rightarrow> throwA (ApiError 401 ''SESSION_INVALID'' ''Sesi tidak valid atau sudah berakhir.'' [])
     | session # _ \<Rightarrow> authenticateSession E H environment rq skipDevice skipTerminal sel session) s = (Inr cx, s')"
    using assms unfolding authenticateRequest_def bindA_eq_Inr by (auto split del: list.split)
  then obtain session rest where rows: "sessionRows (sv_now H) (sv_sha256 H secret) s = session # rest"
    and run: "authenticateSession E H environment rq skipDevice skipTerminal sel session s = (Inr cx, s')"
    by (cases "sessionRows (sv_now H) (sv_sha256 H secret) s") simp_all
  obtain t g where check: "checkSession rq skipDevice session = Inr ()"
    and terminal: "resolveTerminal rq skipTerminal session sel s = (Inr t, s)"
    and touched: "touchSession (sv_now H) session s = (Inr (), s')"
    and made: "cx = withGrant (sessionContext E H session t (effectivePermissions (sr_membership session) s)) g"
    using run unfolding authenticateSession_def
    by (auto simp: bindA_eq_Inr dest: resolveTerminal_Inr(1))
  have cx: "ax_session_id cx = sr_session_id session" "ax_user cx = sr_user_id session" "ax_business cx = sr_business_id session"
      "ax_membership_id cx = me_id (sr_membership session)" "ax_device_id cx = sr_session_device_id session"
      "au_permissions (ax_authorization cx) = effectivePermissions (sr_membership session) s"
      "ax_selected_terminal_id cx = t" "ax_location cx = the (sr_default_location_id session)"
    by (simp_all add: made withGrant_def sessionContext_def split: option.split)
  from rows have "session \<in> set (sessionRows (sv_now H) (sv_sha256 H secret) s)" by simp
  then obtain se u m where se: "se \<in> set (db_sessions s)" "u \<in> set (db_users s)" "m \<in> set (db_memberships s)"
    "se_session_secret_hash se = sv_sha256 H secret" "se_revoked_at se = None" "sv_now H < se_expires_at se" "us_id u = se_user_id se"
    "me_business_id m = se_business_id se" "me_user_id m = se_user_id se"
    "sr_session_id session = se_id se" "sr_user_id session = us_id u" "sr_business_id session = se_business_id se" "sr_membership session = m"
    "sr_membership_status session = me_status m" "sr_user_status session = us_status u" "sr_session_device_id session = se_device_id se"
    "sr_device_status session = map_option dv_status (deviceOf (se_device_id se) s)"
    "se_device_id se = None \<or> map_option dv_business_id (deviceOf (se_device_id se) s) = Some (se_business_id se)"
    by (rule sessionRowsD) blast
  have status: "us_status u = ''ACTIVE''" "me_status m = ''ACTIVE''"
    "se_device_id se \<noteq> None \<longrightarrow> map_option dv_status (deviceOf (se_device_id se) s) = Some ''ACTIVE''"
    "isPosClient rq \<and> \<not> skipDevice \<longrightarrow> (\<exists>d. header_get ''x-kastur-device-id'' rq = Some d \<and> se_device_id se = Some (js_trim d))"
    using check se by (auto simp: checkSession_def Let_def bindE_eq_Inr throwIf_eq_Inr split: if_splits option.splits)
  show ?thesis
    using secret se cx status bound_deviceI [OF se(18) status(3)] touchSession_only [OF touched] resolveTerminal_Inr(2) [OF terminal]
    by (intro exI [of _ secret] exI [of _ se] exI [of _ u] exI [of _ m]) simp
qed

section \<open>The signed authority\<close>

lemma configuredKey_id: "configuredKey environment = Inr (Some (keyId, jwk)) \<Longrightarrow> keyId \<noteq> []"
  by (auto simp: configuredKey_def split: option.splits json.splits if_splits)

text \<open>What \<open>crypto.subtle\<close> promises: a signature is not empty and verifies under its public key.\<close>

definition signature_scheme :: "ApiEnvironment \<Rightarrow> bool" where
  "signature_scheme environment = (\<forall>jwk text bytes. en_sign environment jwk text = Inr bytes \<longrightarrow>
     bytes \<noteq> [] \<and> en_verify environment (publicJwk jwk) bytes text = Inr True)"

text \<open>The signature is not part of the signed text.\<close>

lemma signing_payload_signature [simp]:
  "offlineAuthorizationSigningPayload (g\<lparr>og_signature := s\<rparr>) = offlineAuthorizationSigningPayload g"
  by (simp add: offlineAuthorizationSigningPayload_def)

lemma unsignedGrant_fields:
  assumes "unsignedGrant k cx = Some u"
  shows "og_key_id u = k" "og_session_id u = ax_session_id cx" "Some (og_device_id u) = ax_device_id cx"
    "Some (og_terminal_id u) = ax_selected_terminal_id cx" "og_user_id u = ax_user cx" "og_business_id u = ax_business cx"
    "og_offline_valid_until u = au_offline_valid_until (ax_authorization cx)" "og_authorization_version u = ax_version cx"
    "og_default_location_id u = ax_location cx" "set (og_permissions u) = set (au_permissions (ax_authorization cx))"
    "au_primary_role (ax_authorization cx) \<noteq> None \<Longrightarrow> Some (og_primary_role u) = au_primary_role (ax_authorization cx)"
  using assms by (auto simp: unsignedGrant_def split: option.splits)

lemma option_caseE:
  assumes "(case x of None \<Rightarrow> Inr None | Some y \<Rightarrow> f y) = Inr (Some z)"
  obtains y where "x = Some y" "f y = Inr (Some z)"
  using assms by (cases x) simp_all

lemma issued_grant_verifies:
  assumes "signature_scheme environment" "issueOfflineAuthorizationGrant environment cx = Inr (Some g)"
    "1 \<le> ax_version cx" "ax_version cx \<le> 9007199254740991"
  shows "isOfflineAuthorizationGrant (grant_json g)" "verifyOfflineAuthorizationGrant environment (grant_json g) = Inr True"
    "\<exists>u t. unsignedGrant (og_key_id g) cx = Some u \<and> g = u\<lparr>og_signature := t\<rparr>"
proof -
  obtain keyId jwk u bytes where key: "configuredKey environment = Inr (Some (keyId, jwk))"
    and u: "unsignedGrant keyId cx = Some u"
    and bytes: "en_sign environment jwk (offlineAuthorizationSigningPayload u) = Inr bytes"
    and g: "g = u\<lparr>og_signature := base64UrlEncode bytes\<rparr>"
    using assms(2) unfolding issueOfflineAuthorizationGrant_def
    by (auto simp: bindE_eq_Inr elim!: option_caseE)
  have fields: "og_key_id u = keyId" "og_authorization_version u = ax_version cx"
    using unsignedGrant_fields [OF u] by simp_all
  have signed: "bytes \<noteq> []" "en_verify environment (publicJwk jwk) bytes (offlineAuthorizationSigningPayload u) = Inr True"
    using assms(1) bytes by (auto simp: signature_scheme_def)
  show guard: "isOfflineAuthorizationGrant (grant_json g)"
    using assms(3,4) signed(1) fields configuredKey_id [OF key] by (intro guard_grant_json) (simp_all add: g base64url_syntax)
  show "verifyOfflineAuthorizationGrant environment (grant_json g) = Inr True"
    using guard key fields signed(2) by (simp add: verifyOfflineAuthorizationGrant_def Let_def g base64url_round_trip)
  show "\<exists>u t. unsignedGrant (og_key_id g) cx = Some u \<and> g = u\<lparr>og_signature := t\<rparr>"
    using u fields by (auto simp: g)
qed

text \<open>The authority of a context: who, where and with which permissions.\<close>

definition same_authority :: "AuthenticatedRequestContext \<Rightarrow> AuthenticatedRequestContext \<Rightarrow> bool" where
  "same_authority a b =
     (ax_user a = ax_user b \<and> ax_business a = ax_business b \<and> ax_location a = ax_location b \<and> ax_version a = ax_version b \<and>
      au_primary_role (ax_authorization a) = au_primary_role (ax_authorization b) \<and>
      set (au_permissions (ax_authorization a)) = set (au_permissions (ax_authorization b)) \<and>
      ax_device_id a = ax_device_id b \<and> ax_selected_terminal_id a = ax_selected_terminal_id b \<and>
      ax_session_id a = ax_session_id b \<and> ax_membership_id a = ax_membership_id b)"

text \<open>
  The signatures the server's key verifies are those of grants it issued: what the secrecy of the private key promises. The
  contexts are those the server issued grants for.
\<close>

definition issues_only :: "ApiEnvironment \<Rightarrow> AuthenticatedRequestContext set \<Rightarrow> bool" where
  "issues_only environment contexts = (\<forall>keyId jwk bytes text. configuredKey environment = Inr (Some (keyId, jwk)) \<longrightarrow>
     en_verify environment (publicJwk jwk) bytes text = Inr True \<longrightarrow>
       (\<exists>cx \<in> contexts. \<exists>g. issueOfflineAuthorizationGrant environment cx = Inr (Some g) \<and> text = offlineAuthorizationSigningPayload g))"

definition grantable :: "AuthenticatedRequestContext \<Rightarrow> bool" where
  "grantable cx = (au_primary_role (ax_authorization cx) \<noteq> None \<and> 1 \<le> ax_version cx \<and> ax_version cx \<le> 9007199254740991)"

lemma grant_of_version:
  assumes "isOfflineAuthorizationGrant v"
  shows "1 \<le> og_authorization_version (grant_of v) \<and> og_authorization_version (grant_of v) \<le> 9007199254740991"
proof -
  obtain ms where v: "v = JObj ms" using assms by (cases v) (simp_all add: isOfflineAuthorizationGrant_def)
  obtain auth where auth: "jget ms ''authorization'' = Some (JObj auth)"
    using assms v by (auto simp: isOfflineAuthorizationGrant_def split: option.splits json.splits)
  have "case jget auth ''authorization_version'' of Some (JNum n) \<Rightarrow> isSafeInteger (JSInt n) \<and> 1 \<le> n | _ \<Rightarrow> False"
    using assms unfolding isOfflineAuthorizationGrant_def v json.case auth option.case by (elim conjE)
  then obtain n where "jget auth ''authorization_version'' = Some (JNum n)" "\<bar>n\<bar> \<le> 9007199254740991" "1 \<le> n"
    by (auto simp: isSafeInteger_def split: option.splits json.splits)
  then show ?thesis by (simp add: grant_of_def Let_def members_of_def v auth)
qed

lemma accepted_grant:
  assumes "contextForOfflineGrant E H environment cx v = Inr cx'"
  obtains keyId jwk bytes where "isOfflineAuthorizationGrant v" "configuredKey environment = Inr (Some (keyId, jwk))"
    "base64UrlDecode (og_signature (grant_of v)) = Some bytes"
    "en_verify environment (publicJwk jwk) bytes (offlineAuthorizationSigningPayload (grant_of v)) = Inr True"
    "Some (og_device_id (grant_of v)) = ax_device_id cx" "Some (og_terminal_id (grant_of v)) = ax_selected_terminal_id cx"
    "og_session_id (grant_of v) = ax_session_id cx" "og_user_id (grant_of v) = ax_user cx" "og_business_id (grant_of v) = ax_business cx"
    "og_offline_valid_until (grant_of v) = au_offline_valid_until (ax_authorization cx)"
    "cx' = cx\<lparr>ax_authorization := authorizationFromGrant E H (grant_of v) (au_display_name (ax_authorization cx))\<rparr>"
proof -
  have v: "isOfflineAuthorizationGrant v" "verifyOfflineAuthorizationGrant environment v = Inr True"
    using assms by (auto simp: contextForOfflineGrant_def Let_def bindE_eq_Inr throwUnless_eq_Inr)
  then have "\<exists>keyId jwk bytes. configuredKey environment = Inr (Some (keyId, jwk)) \<and> base64UrlDecode (og_signature (grant_of v)) = Some bytes \<and>
         en_verify environment (publicJwk jwk) bytes (offlineAuthorizationSigningPayload (grant_of v)) = Inr True"
    by (cases "configuredKey environment"; cases "base64UrlDecode (og_signature (grant_of v))")
      (auto simp: verifyOfflineAuthorizationGrant_def Let_def split: if_splits option.splits)
  with v(1) that assms show thesis
    by (auto simp: contextForOfflineGrant_def Let_def bindE_eq_Inr throwUnless_eq_Inr throwIf_eq_Inr)
qed

text \<open>
  C21. Offline authority. The grant the server issues for a context is accepted when it comes back through JSON and gives
  exactly the authority of that context. Whatever grant is accepted was verified by the server's own key and is for this
  session, device, terminal, user and business; and when that key verifies only texts of grants the server issued, the
  accepted authority is exactly that of one of the contexts it issued a grant for: the same user, business, location, role,
  permissions, authorization version, validity, session, device and terminal. A grant whose fields were changed is never
  accepted with the changed ones.
\<close>

theorem offline_authority_is_signed:
  assumes "signature_scheme environment"
  shows "(issueOfflineAuthorizationGrant environment cx = Inr (Some g) \<and> grantable cx \<longrightarrow>
      (\<exists>cx'. contextForOfflineGrant E H environment cx (grant_json g) = Inr cx' \<and> same_authority cx cx')) \<and>
    (contextForOfflineGrant E H environment cx v = Inr cx' \<longrightarrow>
      (\<exists>keyId jwk bytes. configuredKey environment = Inr (Some (keyId, jwk)) \<and> base64UrlDecode (og_signature (grant_of v)) = Some bytes \<and>
         en_verify environment (publicJwk jwk) bytes (offlineAuthorizationSigningPayload (grant_of v)) = Inr True) \<and>
      ax_session_id cx' = ax_session_id cx \<and> ax_device_id cx' = ax_device_id cx \<and>
      ax_selected_terminal_id cx' = ax_selected_terminal_id cx \<and> ax_user cx' = ax_user cx \<and> ax_business cx' = ax_business cx \<and>
      (issues_only environment contexts \<and> (\<forall>cx0 \<in> contexts. grantable cx0) \<longrightarrow>
        (\<exists>cx0 \<in> contexts. ax_user cx' = ax_user cx0 \<and> ax_business cx' = ax_business cx0 \<and> ax_location cx' = ax_location cx0 \<and>
           au_primary_role (ax_authorization cx') = au_primary_role (ax_authorization cx0) \<and>
           set (au_permissions (ax_authorization cx')) = set (au_permissions (ax_authorization cx0)) \<and>
           ax_version cx' = ax_version cx0 \<and>
           au_offline_valid_until (ax_authorization cx') = au_offline_valid_until (ax_authorization cx0) \<and>
           ax_session_id cx' = ax_session_id cx0 \<and> ax_device_id cx' = ax_device_id cx0 \<and>
           ax_selected_terminal_id cx' = ax_selected_terminal_id cx0)))"
proof (intro conjI impI)
  assume i: "issueOfflineAuthorizationGrant environment cx = Inr (Some g) \<and> grantable cx"
  then have r: "au_primary_role (ax_authorization cx) \<noteq> None" "1 \<le> ax_version cx" "ax_version cx \<le> 9007199254740991"
    by (simp_all add: grantable_def)
  then have ok: "isOfflineAuthorizationGrant (grant_json g)" "verifyOfflineAuthorizationGrant environment (grant_json g) = Inr True"
    using issued_grant_verifies [OF assms] i by blast+
  obtain u t where u: "unsignedGrant (og_key_id g) cx = Some u" "g = u\<lparr>og_signature := t\<rparr>"
    using issued_grant_verifies(3) [OF assms] i r by blast
  then have g: "og_session_id g = ax_session_id cx" "Some (og_device_id g) = ax_device_id cx"
    "Some (og_terminal_id g) = ax_selected_terminal_id cx" "og_user_id g = ax_user cx" "og_business_id g = ax_business cx"
    "og_offline_valid_until g = au_offline_valid_until (ax_authorization cx)" "og_authorization_version g = ax_version cx"
    "og_default_location_id g = ax_location cx" "set (og_permissions g) = set (au_permissions (ax_authorization cx))"
    "Some (og_primary_role g) = au_primary_role (ax_authorization cx)"
    using r unsignedGrant_fields(2-11) [OF u(1)] by (simp_all add: u(2))
  show "\<exists>cx'. contextForOfflineGrant E H environment cx (grant_json g) = Inr cx' \<and> same_authority cx cx'"
    using ok g by (simp add: contextForOfflineGrant_def Let_def same_authority_def authorizationFromGrant_def)
next
  assume c: "contextForOfflineGrant E H environment cx v = Inr cx'"
  then show "\<exists>keyId jwk bytes. configuredKey environment = Inr (Some (keyId, jwk)) \<and> base64UrlDecode (og_signature (grant_of v)) = Some bytes \<and>
         en_verify environment (publicJwk jwk) bytes (offlineAuthorizationSigningPayload (grant_of v)) = Inr True"
    by (elim accepted_grant) blast
next
  assume c: "contextForOfflineGrant E H environment cx v = Inr cx'"
    and only: "issues_only environment contexts \<and> (\<forall>cx0 \<in> contexts. grantable cx0)"
  obtain keyId jwk bytes where a: "isOfflineAuthorizationGrant v" "configuredKey environment = Inr (Some (keyId, jwk))"
    "en_verify environment (publicJwk jwk) bytes (offlineAuthorizationSigningPayload (grant_of v)) = Inr True"
    "Some (og_device_id (grant_of v)) = ax_device_id cx" "Some (og_terminal_id (grant_of v)) = ax_selected_terminal_id cx"
    "og_session_id (grant_of v) = ax_session_id cx"
    and cx': "cx' = cx\<lparr>ax_authorization := authorizationFromGrant E H (grant_of v) (au_display_name (ax_authorization cx))\<rparr>"
    using c by (rule accepted_grant)
  obtain cx0 h where h: "cx0 \<in> contexts" "issueOfflineAuthorizationGrant environment cx0 = Inr (Some h)" "grantable cx0"
    "offlineAuthorizationSigningPayload (grant_of v) = offlineAuthorizationSigningPayload h"
    using only a(2,3) unfolding issues_only_def by blast
  then have r: "au_primary_role (ax_authorization cx0) \<noteq> None" "1 \<le> ax_version cx0" "ax_version cx0 \<le> 9007199254740991"
    by (simp_all add: grantable_def)
  obtain u t where u: "unsignedGrant (og_key_id h) cx0 = Some u" "h = u\<lparr>og_signature := t\<rparr>"
    using issued_grant_verifies(3) [OF assms h(2) r(2,3)] by blast
  note f = unsignedGrant_fields(2-10) [OF u(1)] unsignedGrant_fields(11) [OF u(1) r(1)]
  have "og_authorization_version h = ax_version cx0" using f(7) by (simp add: u(2))
  then have bound: "\<bar>og_authorization_version (grant_of v)\<bar> \<le> 2 ^ 53 - 1" "\<bar>og_authorization_version h\<bar> \<le> 2 ^ 53 - 1"
    using grant_of_version [OF a(1)] r(2,3) by simp_all
  note same = signing_payload_binds [OF h(4) bound]
  have "set (og_permissions (grant_of v)) = set (og_permissions h)" using arg_cong [OF same(2), of set] by simp
  moreover have "og_user_id h = og_user_id (grant_of v)" "og_business_id h = og_business_id (grant_of v)"
    "og_default_location_id h = og_default_location_id (grant_of v)" "og_primary_role h = og_primary_role (grant_of v)"
    "og_authorization_version h = og_authorization_version (grant_of v)"
    "og_offline_valid_until h = og_offline_valid_until (grant_of v)" "og_session_id h = og_session_id (grant_of v)"
    "og_device_id h = og_device_id (grant_of v)" "og_terminal_id h = og_terminal_id (grant_of v)"
    by (subst same(1), simp)+
  ultimately show "\<exists>cx0 \<in> contexts. ax_user cx' = ax_user cx0 \<and> ax_business cx' = ax_business cx0 \<and> ax_location cx' = ax_location cx0 \<and>
           au_primary_role (ax_authorization cx') = au_primary_role (ax_authorization cx0) \<and>
           set (au_permissions (ax_authorization cx')) = set (au_permissions (ax_authorization cx0)) \<and>
           ax_version cx' = ax_version cx0 \<and>
           au_offline_valid_until (ax_authorization cx') = au_offline_valid_until (ax_authorization cx0) \<and>
           ax_session_id cx' = ax_session_id cx0 \<and> ax_device_id cx' = ax_device_id cx0 \<and>
           ax_selected_terminal_id cx' = ax_selected_terminal_id cx0"
    using f a(4-6) by (intro bexI [OF _ h(1)]) (simp add: cx' authorizationFromGrant_def u(2))
qed (auto simp: contextForOfflineGrant_def Let_def bindE_eq_Inr throwUnless_eq_Inr throwIf_eq_Inr authorizationFromGrant_def)

section \<open>A concrete server\<close>

text \<open>Times are written as their number of milliseconds; a digest is the text itself; a signature is the text with the key in front.\<close>

definition clock_env :: js_env where
  "clock_env = demo_env\<lparr>dateParse := \<lambda>s. if all_digits s then Some (int (digits_val s)) else None, toISOString := int_text\<rparr>"

definition demo_uuid :: "char \<Rightarrow> string" where
  "demo_uuid c = concat [replicate 8 c, ''-'', replicate 4 c, ''-4'', replicate 3 c, ''-8'', replicate 3 c, ''-'', replicate 12 c]"

definition server_environment :: ApiEnvironment where
  "server_environment = \<lparr>en_jwk = None, en_key_id = None, en_sign = \<lambda>jwk t. Inr (jwk_x jwk @ t @ ''.''),
     en_verify = \<lambda>pub sig t. Inr (sig = fst pub @ t @ ''.''), en_allowed_origins = None, en_setup_token = None, en_node_env = None\<rparr>"

definition server_host :: "'x api_host" where
  "server_host = \<lparr>sv_now = 5000, sv_uuid = \<lambda>c i. demo_uuid (if i = 0 then CHR ''e'' else CHR ''f''), sv_sha256 = id, sv_jsonb = id,
     sv_commit = \<lambda>_. None\<rparr>"

definition server_secret :: string where
  "server_secret = replicate 32 (CHR ''k'')"

definition server_permissions :: "string list" where
  "server_permissions = [''cash.in'', ''shift.close'', ''shift.open'', ''workspace.pos.access'']"

definition server_db :: ApiDb where
  "server_db = \<lparr>
     db_terminals = [\<lparr>te_id = demo_uuid (CHR ''7''), te_business_id = demo_uuid (CHR ''b''), te_location_id = demo_uuid (CHR ''1''),
        te_code = ''K1'', te_name = ''Kasir'', te_status = ''ACTIVE''\<rparr>],
     db_locations = [\<lparr>lo_id = demo_uuid (CHR ''1''), lo_business_id = demo_uuid (CHR ''b''), lo_is_default = True, lo_created_at = 1,
        lo_status = ''ACTIVE''\<rparr>],
     db_users = [\<lparr>us_id = demo_uuid (CHR ''a''), us_display_name = ''Kasir'', us_email = None, us_status = ''ACTIVE''\<rparr>],
     db_memberships = [\<lparr>me_id = demo_uuid (CHR ''c''), me_business_id = demo_uuid (CHR ''b''), me_user_id = demo_uuid (CHR ''a''),
        me_status = ''ACTIVE''\<rparr>],
     db_authorization_versions = [], db_roles = [\<lparr>ro_id = ''r'', ro_business_id = None, ro_code = ''CASHIER'', ro_status = ''ACTIVE''\<rparr>],
     db_membership_roles = [\<lparr>mr_membership_id = demo_uuid (CHR ''c''), mr_role_id = ''r'', mr_is_primary = True\<rparr>],
     db_permissions = map (\<lambda>p. (p, p)) server_permissions, db_role_permissions = map (Pair ''r'') server_permissions,
     db_permission_overrides = [],
     db_devices = [\<lparr>dv_id = demo_uuid (CHR ''d''), dv_business_id = demo_uuid (CHR ''b''), dv_device_key = demo_uuid (CHR ''d''),
        dv_name = None, dv_status = ''ACTIVE'', dv_last_seen_at = None, dv_revoked_at = None\<rparr>],
     db_sessions = [\<lparr>se_id = demo_uuid (CHR ''5''), se_user_id = demo_uuid (CHR ''a''), se_business_id = demo_uuid (CHR ''b''),
        se_device_id = Some (demo_uuid (CHR ''d'')), se_session_secret_hash = server_secret, se_issued_at = 1, se_expires_at = 9000,
        se_revoked_at = None, se_last_seen_at = None\<rparr>],
     db_idempotency_records = [], db_change_feed = [], db_sequence = 0, db_audit_events = [], db_device_sync_states = []\<rparr>"

definition server_request :: headers where
  "server_request = [(''authorization'', ''Bearer '' @ server_secret), (''x-kastur-client'', ''pos''),
     (''x-kastur-device-id'', demo_uuid (CHR ''d'')), (''content-type'', ''application/json'')]"

text \<open>The context that this request is served in.\<close>

definition server_context :: AuthenticatedRequestContext where
  "server_context = \<lparr>ax_authorization = \<lparr>au_user_id = demo_uuid (CHR ''a''), au_business_id = demo_uuid (CHR ''b''),
       au_primary_role = Some ''CASHIER'', au_permissions = server_permissions, au_authorization_version = 1,
       au_offline_valid_until = ''9000'', au_default_location_id = demo_uuid (CHR ''1''), au_offline_authorization = None,
       au_display_name = ''Kasir'', au_email = None, au_server_time = ''5000''\<rparr>,
     ax_device_id = Some (demo_uuid (CHR ''d'')), ax_membership_id = demo_uuid (CHR ''c''),
     ax_selected_terminal_id = Some (demo_uuid (CHR ''7'')), ax_session_id = demo_uuid (CHR ''5'')\<rparr>"

definition server_session :: SessionRow where
  "server_session = \<lparr>sr_authorization_version = 1, sr_business_id = demo_uuid (CHR ''b''),
     sr_default_location_id = Some (demo_uuid (CHR ''1'')), sr_device_status = Some ''ACTIVE'', sr_display_name = ''Kasir'', sr_email = None,
     sr_expires_at = 9000, sr_membership = hd (db_memberships server_db), sr_membership_status = ''ACTIVE'',
     sr_primary_role = Some ''CASHIER'', sr_session_device_id = Some (demo_uuid (CHR ''d'')), sr_session_id = demo_uuid (CHR ''5''),
     sr_user_id = demo_uuid (CHR ''a''), sr_user_status = ''ACTIVE''\<rparr>"

lemma server_authenticates:
  "fst (authenticateRequest clock_env server_host Some server_environment server_request False False server_db) = Inr server_context"
proof -
  have steps: "getSessionSecret Some server_request = Inr server_secret" "header_get ''x-terminal-id'' server_request = None"
      "sessionRows 5000 server_secret server_db = [server_session]"
      "checkSession server_request False server_session = Inr ()"
      "fst (resolveTerminal server_request False server_session None server_db) = Inr (Some (demo_uuid (CHR ''7'')))"
      "effectivePermissions (sr_membership server_session) server_db = server_permissions"
      "isSafeInteger (JSInt (sr_authorization_version server_session))"
    by code_simp+
  then have terminal: "resolveTerminal server_request False server_session None server_db = (Inr (Some (demo_uuid (CHR ''7''))), server_db)"
    using resolveTerminal_Inr(1) by (metis prod.collapse)
  have "int_text 9000 = ''9000''" "int_text 5000 = ''5000''" by code_simp+
  then have cx: "sessionContext clock_env server_host server_session (Some (demo_uuid (CHR ''7''))) server_permissions = server_context"
    by (simp add: sessionContext_def server_context_def server_session_def server_host_def server_db_def clock_env_def)
  have key: "configuredKey server_environment = Inr None" by (simp add: configuredKey_def server_environment_def)
  have host: "sv_now (server_host :: ApiDb api_host) = 5000" "sv_sha256 (server_host :: ApiDb api_host) = id"
      "sr_authorization_version server_session = 1" by (simp_all add: server_host_def server_session_def)
  show ?thesis
    by (simp add: authenticateRequest_def authenticateSession_def bindA_def steps terminal cx host touchSession_def
        issueOfflineAuthorizationGrant_def key withGrant_def throwIf_def isSafeInteger_def)
qed

theorem authenticated_context_witness:
  "\<exists>s'. authenticateRequest clock_env server_host Some server_environment server_request False False server_db =
      (Inr server_context, s') \<and> only_touched server_db s' \<and> bound_device (Some (demo_uuid (CHR ''d''))) (ax_business server_context) server_db"
proof -
  obtain s' where run: "authenticateRequest clock_env server_host Some server_environment server_request False False server_db =
      (Inr server_context, s')" using server_authenticates by (metis fst_conv surj_pair)
  from authenticated_context [OF run] have "only_touched server_db s'" "bound_device (ax_device_id server_context) (ax_business server_context) server_db"
    by blast+
  then show ?thesis using run by (auto simp: server_context_def)
qed

lemma server_signs: "signature_scheme server_environment"
  by (simp add: signature_scheme_def server_environment_def publicJwk_def)

definition signing_jwk :: json where
  "signing_jwk = JObj [(''kty'', JStr ''EC''), (''crv'', JStr ''P-256''), (''x'', JStr ''X''), (''y'', JStr ''Y''), (''d'', JStr ''D'')]"

text \<open>A server whose key has signed one grant, that of \<open>server_context\<close>, and verifies nothing else.\<close>

definition signed_text :: string where
  "signed_text = offlineAuthorizationSigningPayload (the (unsignedGrant ''k1'' server_context))"

definition signing_environment :: ApiEnvironment where
  "signing_environment = server_environment\<lparr>en_key_id := Some ''k1'', en_jwk := Some (json_stringify signing_jwk),
     en_sign := \<lambda>jwk t. if t = signed_text then Inr (jwk_x jwk @ t @ ''.'') else Inl (JsError ''Error''),
     en_verify := \<lambda>pub sig t. Inr (t = signed_text \<and> sig = fst pub @ t @ ''.'')\<rparr>"

lemma signing_key: "configuredKey signing_environment = Inr (Some (''k1'', \<lparr>jwk_x = ''X'', jwk_y = ''Y'', jwk_d = ''D''\<rparr>))"
proof -
  have "js_trim (json_stringify signing_jwk) = json_stringify signing_jwk" "js_trim ''k1'' = ''k1''"
    "json_stringify signing_jwk \<noteq> []" by code_simp+
  moreover have "json_parse (json_stringify signing_jwk) = Some signing_jwk"
    by (rule parse_stringify) (simp add: signing_jwk_def)
  ultimately show ?thesis by (simp add: configuredKey_def signing_environment_def) (simp (no_asm) add: signing_jwk_def text_of_def isJString_def jget_def)
qed

lemma signing_issues: "\<exists>g. issueOfflineAuthorizationGrant signing_environment server_context = Inr (Some g) \<and>
    offlineAuthorizationSigningPayload g = signed_text"
proof -
  have "ax_device_id server_context = Some (demo_uuid (CHR ''d''))" "ax_selected_terminal_id server_context = Some (demo_uuid (CHR ''7''))"
    by (simp_all add: server_context_def)
  then obtain u where u: "unsignedGrant ''k1'' server_context = Some u" by (simp add: unsignedGrant_def)
  then have "offlineAuthorizationSigningPayload u = signed_text" by (simp add: signed_text_def)
  then show ?thesis by (simp add: issueOfflineAuthorizationGrant_def signing_key u) (simp add: signing_environment_def)
qed

theorem offline_authority_is_signed_witness:
  "\<exists>g cx'. issueOfflineAuthorizationGrant signing_environment server_context = Inr (Some g) \<and>
     issues_only signing_environment {server_context} \<and>
     contextForOfflineGrant clock_env (server_host :: ApiDb api_host) signing_environment server_context (grant_json g) = Inr cx' \<and>
     same_authority server_context cx' \<and>
     au_offline_valid_until (ax_authorization cx') = au_offline_valid_until (ax_authorization server_context)"
proof -
  have scheme: "signature_scheme signing_environment"
    by (simp add: signature_scheme_def signing_environment_def publicJwk_def)
  obtain g where g: "issueOfflineAuthorizationGrant signing_environment server_context = Inr (Some g)"
    "offlineAuthorizationSigningPayload g = signed_text" using signing_issues by blast
  have only: "issues_only signing_environment {server_context}"
    unfolding issues_only_def
  proof (intro allI impI)
    fix keyId jwk bytes t assume "en_verify signing_environment (publicJwk jwk) bytes t = Inr True"
    then have "t = signed_text" by (simp add: signing_environment_def)
    then show "\<exists>cx \<in> {server_context}. \<exists>g. issueOfflineAuthorizationGrant signing_environment cx = Inr (Some g) \<and>
        t = offlineAuthorizationSigningPayload g" using g by auto
  qed
  have grantable: "grantable server_context" by (simp add: grantable_def server_context_def)
  note claim = offline_authority_is_signed [OF scheme, of server_context g clock_env "server_host :: ApiDb api_host"]
  obtain cx' where cx': "contextForOfflineGrant clock_env (server_host :: ApiDb api_host) signing_environment server_context (grant_json g) = Inr cx'"
    "same_authority server_context cx'" using claim g(1) grantable by blast
  have "au_offline_valid_until (ax_authorization cx') = au_offline_valid_until (ax_authorization server_context)"
    using claim [of "grant_json g" cx' "{server_context}"] cx'(1) only grantable by simp
  then show ?thesis using g(1) only cx' by blast
qed

end
