(* ===== verification/Api_Support.thy ===== *)
theory Api_Support
  imports Api_Auth
begin

text \<open>
  What every command of the server shares, \<open>apps/api/src/command-support.ts\<close>: the canonical fingerprint of a request,
  the table of idempotency records that makes a command happen once, and the writers of the audit trail and the
  change feed. The contract of a command towards its callers is the locale \<open>idempotent_command\<close>.
\<close>

section \<open>Fingerprints\<close>

text \<open>
  The members of an object the code builds are enumerated with the array indexes first, in numeric order, then the
  other keys in the order of their insertion (ECMA-262, OrdinaryOwnPropertyKeys), here the sorted one.
\<close>

definition is_array_index :: "string \<Rightarrow> bool" where
  "is_array_index s = (plain_int s \<and> digits_val s < 4294967295)"

definition sorted_keys :: "string list \<Rightarrow> string list" where
  "sorted_keys ks = (let ds = remdups ks in
     sort_key digits_val (sort (filter is_array_index ds)) @ sort (filter (\<lambda>k. \<not> is_array_index k) ds))"

definition sorted_members :: "(string \<times> json) list \<Rightarrow> (string \<times> json) list" where
  "sorted_members ms = map (\<lambda>k. (k, the (jget ms k))) (sorted_keys (map fst ms))"

fun stableValue :: "json \<Rightarrow> json" where
  "stableValue (JArr xs) = JArr (map stableValue xs)"
| "stableValue (JObj ms) = JObj (sorted_members (map (\<lambda>(k, v). (k, stableValue v)) ms))"
| "stableValue j = j"

definition requestHash :: "'x ApiDb_scheme api_host \<Rightarrow> json \<Rightarrow> string" where
  "requestHash H v = sv_sha256 H (json_stringify (stableValue v))"

section \<open>Commands\<close>

record CommandIdentity =
  ci_command_id :: string
  ci_command_type :: string
  ci_correlation_id :: string
  ci_location_id :: "string option"
  ci_occurred_at :: string

definition command_identity_json :: "CommandIdentity \<Rightarrow> json" where
  "command_identity_json c = JObj [(''command_id'', JStr (ci_command_id c)), (''command_type'', JStr (ci_command_type c)),
     (''correlation_id'', JStr (ci_correlation_id c)), (''location_id'', jstr_opt (ci_location_id c)),
     (''occurred_at'', JStr (ci_occurred_at c))]"

definition defaultFingerprint :: "CommandIdentity \<Rightarrow> json \<Rightarrow> json" where
  "defaultFingerprint command payload = JObj [(''command'', command_identity_json command), (''payload'', payload)]"

definition fingerprintValue :: "AuthenticatedRequestContext \<Rightarrow> json \<Rightarrow> json" where
  "fingerprintValue cx fingerprint = JObj [(''actor_user_id'', JStr (ax_user cx)),
     (''session_device_id'', jstr_opt (ax_device_id cx)), (''request'', fingerprint)]"

definition idempotencyRecord :: "string \<times> string \<times> string \<Rightarrow> 'x ApiDb_scheme \<Rightarrow> IdempotencyRow option" where
  "idempotencyRecord key db = find (\<lambda>r. (ir_business_id r, ir_command_type r, ir_idempotency_key r) = key) (db_idempotency_records db)"

definition command_key :: "AuthenticatedRequestContext \<Rightarrow> CommandIdentity \<Rightarrow> string \<times> string \<times> string" where
  "command_key cx c = (ax_business cx, ci_command_type c, ci_command_id c)"

text \<open>\<open>INSERT ... ON CONFLICT DO NOTHING\<close>: whether a row was inserted.\<close>

definition insertProcessing :: "string \<times> string \<times> string \<Rightarrow> string \<Rightarrow> ('x ApiDb_scheme, bool) act" where
  "insertProcessing key hash db = (case idempotencyRecord key db of
     Some _ \<Rightarrow> (Inr False, db)
   | None \<Rightarrow> (Inr True, db\<lparr>db_idempotency_records := db_idempotency_records db @
       [\<lparr>ir_business_id = fst key, ir_idempotency_key = snd (snd key), ir_command_type = fst (snd key),
         ir_request_hash = hash, ir_status = ''PROCESSING'', ir_response_payload = None\<rparr>]\<rparr>))"

definition markCompleted :: "'x ApiDb_scheme api_host \<Rightarrow> string \<times> string \<times> string \<Rightarrow> json \<Rightarrow> ('x ApiDb_scheme, unit) act" where
  "markCompleted H key result db = (Inr (), db\<lparr>db_idempotency_records :=
     map (\<lambda>r. if (ir_business_id r, ir_command_type r, ir_idempotency_key r) = key
              then r\<lparr>ir_status := ''COMPLETED'', ir_response_payload := Some (sv_jsonb H result)\<rparr> else r)
       (db_idempotency_records db)\<rparr>)"

definition executeIdempotent ::
  "'x ApiDb_scheme api_host \<Rightarrow> AuthenticatedRequestContext \<Rightarrow> CommandIdentity \<Rightarrow> json \<Rightarrow>
   ('x ApiDb_scheme, json) act \<Rightarrow> ('x ApiDb_scheme, bool \<times> json) act" where
  "executeIdempotent H cx command fingerprint operation =
     (let hash = requestHash H (fingerprintValue cx fingerprint); key = command_key cx command in
      pg_transaction H
       (bindA (insertProcessing key hash) (\<lambda>inserted.
        if \<not> inserted then
          bindA (readA (idempotencyRecord key)) (\<lambda>prior.
          case prior of
            None \<Rightarrow> throwA (JsError ''Error'')
          | Some row \<Rightarrow>
              if ir_request_hash row \<noteq> hash then throwA (ApiError 409 ''IDEMPOTENCY_KEY_REUSE_ERROR''
                ''command_id pernah digunakan dengan payload berbeda.'' [])
              else if ir_status row = ''COMPLETED'' then
                retA (True, case ir_response_payload row of None \<Rightarrow> JNull | Some r \<Rightarrow> r)
              else throwA (ApiError 409 ''COMMAND_IN_PROGRESS'' ''Perintah yang sama sedang diproses.'' []))
        else
          bindA operation (\<lambda>result.
          bindA (markCompleted H key result) (\<lambda>_.
          retA (False, result))))))"

record AuditInput =
  ai_action :: string
  ai_after_data :: "json option"
  ai_before_data :: "json option"
  ai_entity_id :: string
  ai_entity_type :: string
  ai_reason :: "string option"

definition appendAuditEvent ::
  "'x ApiDb_scheme api_host \<Rightarrow> nat \<Rightarrow> AuthenticatedRequestContext \<Rightarrow> CommandIdentity \<Rightarrow> AuditInput \<Rightarrow> ('x ApiDb_scheme, unit) act" where
  "appendAuditEvent H n cx command input db =
     (Inr (), db\<lparr>db_audit_events := db_audit_events db @
       [\<lparr>av_id = sv_uuid H (ci_command_id command) n, av_business_id = ax_business cx,
         av_location_id = map_option pg_uuid (ci_location_id command), av_actor_user_id = ax_user cx,
         av_actor_role = au_primary_role (ax_authorization cx), av_action = ai_action input,
         av_entity_type = ai_entity_type input, av_entity_id = pg_uuid (ai_entity_id input),
         av_occurred_at = ci_occurred_at command, av_device_id = ax_device_id cx, av_session_id = ax_session_id cx,
         av_reason = ai_reason input, av_before_data = map_option (sv_jsonb H) (ai_before_data input),
         av_after_data = map_option (sv_jsonb H) (ai_after_data input),
         av_correlation_id = pg_uuid (ci_correlation_id command), av_authorization_version = ax_version cx\<rparr>]\<rparr>)"

record ChangeInput =
  ch_change_type :: string
  ch_entity_id :: string
  ch_entity_type :: string
  ch_entity_version :: "string option"
  ch_payload :: json

definition appendChange ::
  "'x ApiDb_scheme api_host \<Rightarrow> AuthenticatedRequestContext \<Rightarrow> CommandIdentity \<Rightarrow> ChangeInput \<Rightarrow> ('x ApiDb_scheme, string) act" where
  "appendChange H cx command input db =
     (Inr (nat_digits (Suc (db_sequence db))),
      db\<lparr>db_sequence := Suc (db_sequence db),
         db_change_feed := db_change_feed db @
       [\<lparr>cf_sequence = Suc (db_sequence db), cf_business_id = ax_business cx,
         cf_location_id = map_option pg_uuid (ci_location_id command), cf_entity_type = ch_entity_type input,
         cf_entity_id = pg_uuid (ch_entity_id input), cf_change_type = ch_change_type input,
         cf_entity_version = ch_entity_version input, cf_payload = sv_jsonb H (ch_payload input),
         cf_occurred_at = ci_occurred_at command, cf_correlation_id = pg_uuid (ci_correlation_id command)\<rparr>]\<rparr>)"

section \<open>The fingerprint identifies the request\<close>

text \<open>Two values that differ in the order of members only.\<close>

inductive json_equiv :: "json \<Rightarrow> json \<Rightarrow> bool" where
  eq_leaf: "j \<in> range JBool \<union> range JNum \<union> range JFrac \<union> range JStr \<union> {JNull} \<Longrightarrow> json_equiv j j"
| eq_arr: "list_all2 json_equiv xs ys \<Longrightarrow> json_equiv (JArr xs) (JArr ys)"
| eq_obj: "fst ` set ms = fst ` set ns \<Longrightarrow> (\<And>k. rel_option json_equiv (jget ms k) (jget ns k)) \<Longrightarrow>
    json_equiv (JObj ms) (JObj ns)"

lemma sorted_keys_set: "set (sorted_keys ks) = set ks" "distinct (sorted_keys ks)"
  by (auto simp: sorted_keys_def Let_def distinct_filter)

lemma sorted_keys_cong: "set ks = set ls \<Longrightarrow> sorted_keys ks = sorted_keys ls"
proof -
  assume "set ks = set ls"
  moreover have "sort (filter P (remdups xs)) = sorted_list_of_set {x \<in> set xs. P x}" for P and xs :: "string list"
    using sorted_list_of_set_sort_remdups [of "filter P xs"] by (simp add: remdups_filter)
  ultimately show ?thesis by (simp add: sorted_keys_def Let_def)
qed

lemma jget_keys: "jget ms k = None \<longleftrightarrow> k \<notin> fst ` set ms"
  by (simp add: jget_def map_of_eq_None_iff)

lemma jget_mem: "jget ms k = Some v \<Longrightarrow> (k, v) \<in> set ms"
  by (auto simp: jget_def dest: map_of_SomeD)

lemma jget_map: "jget (map (\<lambda>(k, v). (k, f v)) ms) k = map_option f (jget ms k)"
  by (simp add: jget_def rev_map map_of_map)

lemma jget_sorted_members: "jget (sorted_members ms) k = jget ms k"
proof (cases "k \<in> fst ` set ms")
  case True
  have "distinct (map fst (rev (sorted_members ms)))"
    by (simp add: sorted_members_def rev_map o_def sorted_keys_set)
  moreover have "(k, the (jget ms k)) \<in> set (rev (sorted_members ms))"
    using True by (auto simp: sorted_members_def sorted_keys_set)
  ultimately have "map_of (rev (sorted_members ms)) k = Some (the (jget ms k))" by (rule map_of_is_SomeI)
  moreover have "jget ms k \<noteq> None" using True by (simp add: jget_keys)
  ultimately show ?thesis by (auto simp: jget_def)
next
  case False
  have "fst ` set (sorted_members ms) = fst ` set ms"
    by (auto simp: sorted_members_def sorted_keys_set image_image)
  then have "jget (sorted_members ms) k = None" using False jget_keys by metis
  moreover have "jget ms k = None" using False jget_keys by metis
  ultimately show ?thesis by simp
qed

lemma sorted_members_eq_iff:
  "sorted_members ms = sorted_members ns \<longleftrightarrow> (\<forall>k. jget ms k = jget ns k)"
proof
  assume "sorted_members ms = sorted_members ns"
  then show "\<forall>k. jget ms k = jget ns k" using jget_sorted_members by metis
next
  assume get: "\<forall>k. jget ms k = jget ns k"
  then have "fst ` set ms = fst ` set ns" by (intro set_eqI) (metis jget_keys)
  then have "sorted_keys (map fst ms) = sorted_keys (map fst ns)" by (intro sorted_keys_cong) simp
  then show "sorted_members ms = sorted_members ns" using get by (simp add: sorted_members_def)
qed

lemma stable_members:
  "stableValue (JObj ms) = stableValue (JObj ns) \<longleftrightarrow>
     (\<forall>k. map_option stableValue (jget ms k) = map_option stableValue (jget ns k))"
  by (simp add: sorted_members_eq_iff jget_map)

lemma equiv_stable: "json_equiv a b \<Longrightarrow> stableValue a = stableValue b"
proof (induction rule: json_equiv.induct)
  case (eq_arr xs ys)
  then have "list_all2 (\<lambda>x y. stableValue x = stableValue y) xs ys" by (auto elim: list_all2_mono)
  then show ?case by (simp add: list_all2_conv_all_nth list_eq_iff_nth_eq)
next
  case (eq_obj ms ns)
  have "map_option stableValue (jget ms k) = map_option stableValue (jget ns k)" for k
    using eq_obj(2) [of k] by (cases "jget ms k"; cases "jget ns k") auto
  then show ?case unfolding stable_members by blast
qed simp

lemma stable_equiv: "stableValue a = stableValue b \<Longrightarrow> json_equiv a b"
proof (induction a arbitrary: b)
  case (JArr xs)
  from JArr.prems obtain ys where b: "b = JArr ys" and eq: "map stableValue xs = map stableValue ys" by (cases b) simp_all
  then have "length xs = length ys" by (metis length_map)
  moreover have "json_equiv (xs ! i) (ys ! i)" if "i < length xs" for i
    using JArr.IH [of "xs ! i" "ys ! i"] eq that by (metis length_map nth_map nth_mem)
  ultimately show ?case unfolding b by (intro eq_arr) (simp add: list_all2_conv_all_nth)
next
  case (JObj ms)
  from JObj.prems obtain ns where b: "b = JObj ns" by (cases b) simp_all
  have get: "map_option stableValue (jget ms k) = map_option stableValue (jget ns k)" for k
    using JObj.prems unfolding b stable_members by blast
  then have keys: "jget ms k = None \<longleftrightarrow> jget ns k = None" for k by (metis option.map_disc_iff)
  have "rel_option json_equiv (jget ms k) (jget ns k)" for k
  proof (cases "jget ms k")
    case None
    then show ?thesis using keys [of k] by simp
  next
    case (Some v)
    then obtain w where w: "jget ns k = Some w" using keys [of k] by auto
    have "stableValue v = stableValue w" using get [of k] Some w by simp
    then have "json_equiv v w" using JObj.IH [of "(k, v)" v w] jget_mem [OF Some] by simp
    then show ?thesis using Some w by simp
  qed
  moreover have "fst ` set ms = fst ` set ns" by (intro set_eqI) (metis keys jget_keys)
  ultimately show ?case unfolding b by (intro eq_obj)
next
  case JNull
  then show ?case by (cases b) (simp_all add: eq_leaf)
next
  case (JBool x)
  then show ?case by (cases b) (simp_all add: eq_leaf)
next
  case (JNum x)
  then show ?case by (cases b) (simp_all add: eq_leaf)
next
  case (JFrac x)
  then show ?case by (cases b) (simp_all add: eq_leaf)
next
  case (JStr x)
  then show ?case by (cases b) (simp_all add: eq_leaf)
qed

lemma json_ok_stable: "json_ok j \<Longrightarrow> json_ok (stableValue j)"
proof (induction j)
  case (JObj ms)
  have "json_ok (the (jget (map (\<lambda>(k, v). (k, stableValue v)) ms) k))" if k: "k \<in> fst ` set ms" for k
  proof -
    obtain v where v: "jget ms k = Some v" using k jget_keys [of ms k] by (cases "jget ms k") simp_all
    then have "(k, v) \<in> set ms" by (rule jget_mem)
    then have "json_ok (stableValue v)" using JObj by fastforce
    then show ?thesis by (simp add: jget_map v)
  qed
  moreover have "set (sorted_keys (map fst (map (\<lambda>(k, v). (k, stableValue v)) ms))) = fst ` set ms"
    by (simp add: sorted_keys_set image_image case_prod_unfold)
  ultimately show ?case by (simp add: sorted_members_def image_iff)
qed auto

text \<open>
  C22. The text that is hashed identifies the request: two requests have the same text exactly when they differ at most in
  the order of object members, at any depth. So a retry that serialises its members in another order is the same request,
  and any other change is a different one.
\<close>

theorem fingerprint_exact:
  assumes "json_ok a" "json_ok b"
  shows "json_stringify (stableValue a) = json_stringify (stableValue b) \<longleftrightarrow> json_equiv a b"
proof
  assume "json_stringify (stableValue a) = json_stringify (stableValue b)"
  then have "stableValue a = stableValue b"
    using parse_stringify json_ok_stable assms by (metis option.inject)
  then show "json_equiv a b" by (rule stable_equiv)
qed (simp add: equiv_stable)

theorem fingerprint_exact_witness:
  "json_equiv (JObj [(''b'', JNum 1), (''a'', JNull)]) (JObj [(''a'', JNull), (''b'', JNum 1)]) \<and> \<not> json_equiv (JNum 1) (JNum 2)"
proof
  have "json_stringify (stableValue (JObj [(''b'', JNum 1), (''a'', JNull)])) =
      json_stringify (stableValue (JObj [(''a'', JNull), (''b'', JNum 1)]))" by code_simp
  from fingerprint_exact [THEN iffD1, OF _ _ this]
  show "json_equiv (JObj [(''b'', JNum 1), (''a'', JNull)]) (JObj [(''a'', JNull), (''b'', JNum 1)])" by simp
  have "json_stringify (stableValue (JNum 1)) \<noteq> json_stringify (stableValue (JNum 2))" by code_simp
  then show "\<not> json_equiv (JNum 1) (JNum 2)" using fingerprint_exact [of "JNum 1" "JNum 2"] by simp
qed

section \<open>A command happens once\<close>

definition keeps_records :: "('x ApiDb_scheme, 'a) act \<Rightarrow> bool" where
  "keeps_records m = (\<forall>s x s'. m s = (x, s') \<longrightarrow> db_idempotency_records s' = db_idempotency_records s)"

named_theorems keeping \<open>statements that leave the idempotency records alone\<close>

lemma keeps_records_bindA [keeping]: "keeps_records m \<Longrightarrow> (\<And>x. keeps_records (f x)) \<Longrightarrow> keeps_records (bindA m f)"
  unfolding keeps_records_def bindA_def by (fastforce split: prod.splits sum.splits)

lemma keeps_records_basic [keeping]:
  "keeps_records (retA x)" "keeps_records (liftA r)" "keeps_records (throwA e)" "keeps_records (readA g)"
  by (simp_all add: keeps_records_def)

lemma keeps_records_writers [keeping]:
  "keeps_records (appendAuditEvent H n cx c i)" "keeps_records (appendChange H cx c j)"
  by (auto simp: keeps_records_def appendAuditEvent_def appendChange_def)

lemma keepsD: "keeps_records m \<Longrightarrow> m s = (x, s') \<Longrightarrow> idempotencyRecord k s' = idempotencyRecord k s"
  by (simp add: keeps_records_def idempotencyRecord_def)

text \<open>An operation whose answers are JSON objects, as every command of the server promises.\<close>

definition answers_object :: "('x ApiDb_scheme, json) act \<Rightarrow> bool" where
  "answers_object m = (\<forall>s r s'. m s = (Inr r, s') \<longrightarrow> (\<exists>ms. r = JObj ms))"

named_theorems answering \<open>operations whose answers are objects\<close>

lemma answers_bindA [answering]: "(\<And>x. answers_object (f x)) \<Longrightarrow> answers_object (bindA m f)"
  unfolding answers_object_def bindA_eq_Inr by blast

lemma answers_basic [answering]: "answers_object (retA (JObj ms))" "answers_object (throwA e)"
  by (auto simp: answers_object_def retA_def throwA_def)

lemma answers_cases [answering]:
  "(\<And>y. answers_object (f y)) \<Longrightarrow> answers_object n \<Longrightarrow> answers_object (case x of None \<Rightarrow> n | Some y \<Rightarrow> f y)"
  "answers_object a \<Longrightarrow> answers_object b \<Longrightarrow> answers_object (if c then a else b)"
  by (cases x; simp) (cases c; simp)

lemma find_map_update:
  "find P (map (\<lambda>r. if P r then g r else r) xs) = map_option g (find P xs)" if "\<And>r. P r \<Longrightarrow> P (g r)"
  using that by (induction xs) auto

lemma find_map_other:
  "find Q (map (\<lambda>r. if P r then g r else r) xs) = find Q xs" if "\<And>r. P r \<Longrightarrow> \<not> Q r \<and> \<not> Q (g r)"
  using that by (induction xs) auto

lemma record_after_insert:
  "insertProcessing key h s = (Inr b, s') \<Longrightarrow> b \<longleftrightarrow> idempotencyRecord key s = None"
  "insertProcessing key h s = (Inr False, s') \<Longrightarrow> s' = s"
  "insertProcessing key h s = (Inr True, s') \<Longrightarrow> (\<exists>row. idempotencyRecord key s' = Some row \<and> ir_request_hash row = h)"
  "insertProcessing key h s = (x, s') \<Longrightarrow> k \<noteq> key \<Longrightarrow> idempotencyRecord k s' = idempotencyRecord k s"
  by (auto simp: insertProcessing_def idempotencyRecord_def find_append split: option.splits)

lemma record_after_completed:
  assumes "markCompleted H key r s = (x, s')"
  shows "idempotencyRecord key s' =
      map_option (\<lambda>row. row\<lparr>ir_status := ''COMPLETED'', ir_response_payload := Some (sv_jsonb H r)\<rparr>) (idempotencyRecord key s)"
    "k \<noteq> key \<Longrightarrow> idempotencyRecord k s' = idempotencyRecord k s" "x = Inr ()"
proof -
  have s': "s' = snd (markCompleted H key r s)" using assms by simp
  show "idempotencyRecord key s' =
      map_option (\<lambda>row. row\<lparr>ir_status := ''COMPLETED'', ir_response_payload := Some (sv_jsonb H r)\<rparr>) (idempotencyRecord key s)"
    by (simp add: s' markCompleted_def idempotencyRecord_def find_map_update)
  show "idempotencyRecord k s' = idempotencyRecord k s" if "k \<noteq> key"
    using that by (simp add: s' markCompleted_def idempotencyRecord_def) (rule find_map_other, auto)
  show "x = Inr ()" using assms by (simp add: markCompleted_def)
qed

text \<open>The branch of a known key, and the branch that runs the operation.\<close>

lemma executeIdempotent_known:
  assumes "idempotencyRecord (command_key cx c) s = Some row"
  shows "executeIdempotent H cx c f op s =
    (if ir_request_hash row \<noteq> requestHash H (fingerprintValue cx f)
     then (Inl (ApiError 409 ''IDEMPOTENCY_KEY_REUSE_ERROR'' ''command_id pernah digunakan dengan payload berbeda.'' []), s)
     else if ir_status row = ''COMPLETED''
     then (case sv_commit H s of
             None \<Rightarrow> (Inr (True, case ir_response_payload row of None \<Rightarrow> JNull | Some r \<Rightarrow> r), s) | Some e \<Rightarrow> (Inl e, s))
     else (Inl (ApiError 409 ''COMMAND_IN_PROGRESS'' ''Perintah yang sama sedang diproses.'' []), s))"
  using assms
  by (simp add: executeIdempotent_def Let_def pg_transaction_def bindA_def insertProcessing_def readA_def throwA_def retA_def
      split: option.split)

lemma executeIdempotent_new:
  assumes "idempotencyRecord (command_key cx c) s = None" "keeps_records op"
    "executeIdempotent H cx c f op s = (Inr (b, r), s')"
  shows "\<not> b" "sv_commit H s' = None"
    "\<exists>row. idempotencyRecord (command_key cx c) s' = Some row \<and> ir_request_hash row = requestHash H (fingerprintValue cx f) \<and>
       ir_status row = ''COMPLETED'' \<and> ir_response_payload row = Some (sv_jsonb H r)"
    "k \<noteq> command_key cx c \<Longrightarrow> idempotencyRecord k s' = idempotencyRecord k s"
    "\<exists>s1 s2. insertProcessing (command_key cx c) (requestHash H (fingerprintValue cx f)) s = (Inr True, s1) \<and>
       op s1 = (Inr r, s2) \<and> markCompleted H (command_key cx c) r s2 = (Inr (), s')"
proof -
  let ?key = "command_key cx c" and ?h = "requestHash H (fingerprintValue cx f)"
  have "fst (insertProcessing ?key ?h s) = Inr True" using assms(1) by (simp add: insertProcessing_def)
  then obtain s1 s2 where run: "insertProcessing ?key ?h s = (Inr True, s1)" "op s1 = (Inr r, s2)"
      "markCompleted H ?key r s2 = (Inr (), s')" "\<not> b" and commit: "sv_commit H s' = None"
    using assms(3) unfolding executeIdempotent_def Let_def pg_transaction_Inr by (auto simp: bindA_eq_Inr)
  show "\<not> b" "sv_commit H s' = None" by (fact run(4), fact commit)
  show "\<exists>s1 s2. insertProcessing ?key ?h s = (Inr True, s1) \<and> op s1 = (Inr r, s2) \<and> markCompleted H ?key r s2 = (Inr (), s')"
    using run by blast
  show "\<exists>row. idempotencyRecord ?key s' = Some row \<and> ir_request_hash row = ?h \<and> ir_status row = ''COMPLETED'' \<and>
      ir_response_payload row = Some (sv_jsonb H r)"
    using record_after_insert(3) [OF run(1)] keepsD [OF assms(2) run(2), of ?key] record_after_completed(1) [OF run(3)] by auto
  show "idempotencyRecord k s' = idempotencyRecord k s" if "k \<noteq> ?key"
    using that record_after_insert(4) [OF run(1)] keepsD [OF assms(2) run(2), of k] record_after_completed(2) [OF run(3)] by simp
qed

lemma executeIdempotent_fresh:
  assumes "keeps_records op" and run: "executeIdempotent H cx c f op s = (Inr (False, r), s')"
  obtains rs s2 rs' where "op (s\<lparr>db_idempotency_records := rs\<rparr>) = (Inr r, s2)" "s' = s2\<lparr>db_idempotency_records := rs'\<rparr>"
proof -
  have new: "idempotencyRecord (command_key cx c) s = None"
    using run by (cases "idempotencyRecord (command_key cx c) s") (auto simp: executeIdempotent_known split: if_splits option.splits)
  have "\<exists>rs s2 rs'. op (s\<lparr>db_idempotency_records := rs\<rparr>) = (Inr r, s2) \<and> s' = s2\<lparr>db_idempotency_records := rs'\<rparr>"
    using executeIdempotent_new(5) [OF new assms(1) run] by (fastforce simp: insertProcessing_def markCompleted_def new)
  then show thesis using that by blast
qed

lemma executeIdempotent_runs:
  assumes "idempotencyRecord (command_key cx c) s = None" "\<And>rs. \<exists>r s2. op (s\<lparr>db_idempotency_records := rs\<rparr>) = (Inr r, s2)"
    "\<And>t. sv_commit H t = None"
  shows "\<exists>r s'. executeIdempotent H cx c f op s = (Inr (False, r), s')"
proof -
  obtain s1 where s1: "insertProcessing (command_key cx c) (requestHash H (fingerprintValue cx f)) s = (Inr True, s1)"
    "\<exists>rs. s1 = s\<lparr>db_idempotency_records := rs\<rparr>" using assms(1) by (auto simp: insertProcessing_def)
  then obtain r s2 where "op s1 = (Inr r, s2)" using assms(2) by blast
  then show ?thesis using s1(1) assms(3)
    by (auto simp: executeIdempotent_def Let_def pg_transaction_Inr bindA_eq_Inr markCompleted_def)
qed

lemma same_tables_records: "same_tables s t \<Longrightarrow> idempotencyRecord k t = idempotencyRecord k s"
proof -
  assume "same_tables s t"
  then have "db_idempotency_records t = db_idempotency_records (s\<lparr>db_sequence := db_sequence t\<rparr>)"
    unfolding same_tables_def by (rule arg_cong)
  then show ?thesis by (simp add: idempotencyRecord_def)
qed

lemma executeIdempotent_atomic: "executeIdempotent H cx c f op s = (Inl e, s') \<Longrightarrow> same_tables s s'"
  by (simp add: executeIdempotent_def Let_def pg_transaction_Inl)

text \<open>
  The contract of a command towards its callers. \<open>key\<close> is the identity under which the command is recorded.
\<close>

locale idempotent_command =
  fixes H :: "'x ApiDb_scheme api_host"
    and run :: "AuthenticatedRequestContext \<Rightarrow> 'i \<Rightarrow> ('x ApiDb_scheme, bool \<times> json) act"
    and key :: "AuthenticatedRequestContext \<Rightarrow> 'i \<Rightarrow> string \<times> string \<times> string"
  assumes atomic: "run cx i s = (Inl e, s') \<Longrightarrow> same_tables s s'"
    and known: "idempotencyRecord (key cx i) s \<noteq> None \<Longrightarrow> run cx i s = (x, s') \<Longrightarrow> s' = s"
    and recorded: "run cx i s = (Inr (b, r), s') \<Longrightarrow> idempotencyRecord (key cx i) s' \<noteq> None"
    and again: "run cx i s = (Inr (b, r), s') \<Longrightarrow> idempotencyRecord (key cx i) t = idempotencyRecord (key cx i) s' \<Longrightarrow>
      sv_commit H t = None \<Longrightarrow> run cx i t = (Inr (True, if b then r else sv_jsonb H r), t)"
    and others: "run cx i s = (x, s') \<Longrightarrow> k \<noteq> key cx i \<Longrightarrow> idempotencyRecord k s' = idempotencyRecord k s"
    and answers: "run cx i s = (Inr (False, r), s') \<Longrightarrow> \<exists>ms. r = JObj ms"
    and replayed: "run cx i s = (Inr (True, r), s') \<Longrightarrow> s' = s"
begin

text \<open>The state after a sequence of requests, whatever they answer.\<close>

definition runs :: "(AuthenticatedRequestContext \<times> 'i) list \<Rightarrow> 'x ApiDb_scheme \<Rightarrow> 'x ApiDb_scheme" where
  "runs rqs s = foldl (\<lambda>s (cx, i). snd (run cx i s)) s rqs"

lemma record_kept: "idempotencyRecord k s \<noteq> None \<Longrightarrow> idempotencyRecord k (snd (run cx i s)) = idempotencyRecord k s"
  by (metis known others prod.collapse)

lemma record_persists: "idempotencyRecord k s \<noteq> None \<Longrightarrow> idempotencyRecord k (runs rqs s) = idempotencyRecord k s"
proof (induction rqs arbitrary: s)
  case (Cons rq rqs)
  obtain cx i where rq: "rq = (cx, i)" by (cases rq)
  have kept: "idempotencyRecord k (snd (run cx i s)) = idempotencyRecord k s" using Cons.prems by (rule record_kept)
  have "runs (rq # rqs) s = runs rqs (snd (run cx i s))" by (simp add: runs_def rq)
  then show ?case using Cons.IH [of "snd (run cx i s)"] Cons.prems kept by simp
qed (simp add: runs_def)

lemma effect_once:
  assumes "run cx i s = (Inr (b, r), s')"
  shows "snd (run cx i (runs rqs s')) = runs rqs s'"
    "sv_commit H (runs rqs s') = None \<Longrightarrow> fst (run cx i (runs rqs s')) = Inr (True, if b then r else sv_jsonb H r)"
proof -
  have kept: "idempotencyRecord (key cx i) (runs rqs s') = idempotencyRecord (key cx i) s'"
    using recorded [OF assms] by (rule record_persists)
  then show "snd (run cx i (runs rqs s')) = runs rqs s'"
    using known [of cx i "runs rqs s'"] recorded [OF assms] by (metis prod.collapse)
  show "fst (run cx i (runs rqs s')) = Inr (True, if b then r else sv_jsonb H r)" if "sv_commit H (runs rqs s') = None"
    using again [OF assms kept that] by simp
qed

end

lemma guarded_command:
  assumes "run = (\<lambda>s. case check of Inl e \<Rightarrow> (Inl e, s) | Inr p \<Rightarrow> executeIdempotent H cx c (f p) (op p) s)"
    "\<And>p. keeps_records (op p)" "\<And>p. answers_object (op p)"
  shows "run s = (Inl e, s') \<Longrightarrow> same_tables s s'"
    "idempotencyRecord (command_key cx c) s \<noteq> None \<Longrightarrow> run s = (x, s') \<Longrightarrow> s' = s"
    "run s = (Inr (b, r), s') \<Longrightarrow> idempotencyRecord (command_key cx c) s' \<noteq> None"
    "run s = (Inr (b, r), s') \<Longrightarrow> idempotencyRecord (command_key cx c) t = idempotencyRecord (command_key cx c) s' \<Longrightarrow>
      sv_commit H t = None \<Longrightarrow> run t = (Inr (True, if b then r else sv_jsonb H r), t)"
    "run s = (x, s') \<Longrightarrow> k \<noteq> command_key cx c \<Longrightarrow> idempotencyRecord k s' = idempotencyRecord k s"
    "run s = (Inr (False, r), s') \<Longrightarrow> \<exists>ms. r = JObj ms"
    "run s = (Inr (True, r), s') \<Longrightarrow> s' = s"
proof -
  let ?key = "command_key cx c"
  show "same_tables s s'" if "run s = (Inl e, s')"
    using that assms(1) executeIdempotent_atomic by (auto split: sum.splits)
  show "s' = s" if "idempotencyRecord ?key s \<noteq> None" "run s = (x, s')"
    using that assms(1) by (auto simp: executeIdempotent_known split: sum.splits if_splits option.splits)
  have cases: "\<exists>p row. check = Inr p \<and> idempotencyRecord ?key s' = Some row \<and> ir_request_hash row = requestHash H (fingerprintValue cx (f p)) \<and>
      ir_status row = ''COMPLETED'' \<and>
      (case ir_response_payload row of None \<Rightarrow> JNull | Some r \<Rightarrow> r) = (if b then r else sv_jsonb H r)"
    if run: "run s = (Inr (b, r), s')" for b r
  proof -
    obtain p where p: "check = Inr p" "executeIdempotent H cx c (f p) (op p) s = (Inr (b, r), s')"
      using run assms(1) by (cases check) auto
    show ?thesis
    proof (cases "idempotencyRecord ?key s")
      case None
      then show ?thesis using executeIdempotent_new(1,3) [OF None assms(2) p(2)] p(1) by auto
    next
      case (Some row)
      then show ?thesis using p by (auto simp: executeIdempotent_known split: if_splits option.splits)
    qed
  qed
  show "idempotencyRecord ?key s' \<noteq> None" if "run s = (Inr (b, r), s')" using cases [OF that] by auto
  show "run t = (Inr (True, if b then r else sv_jsonb H r), t)"
    if "run s = (Inr (b, r), s')" "idempotencyRecord ?key t = idempotencyRecord ?key s'" "sv_commit H t = None"
    using cases [OF that(1)] that(2,3) assms(1) by (auto simp: executeIdempotent_known)
  show "idempotencyRecord k s' = idempotencyRecord k s" if run: "run s = (x, s')" and k: "k \<noteq> ?key"
  proof (cases x)
    case (Inl e)
    then have "same_tables s s'" using run assms(1) executeIdempotent_atomic by (auto split: sum.splits)
    then show ?thesis by (rule same_tables_records)
  next
    case (Inr y)
    obtain p where p: "check = Inr p" "executeIdempotent H cx c (f p) (op p) s = (Inr (fst y, snd y), s')"
      using run Inr assms(1) by (cases check) auto
    then show ?thesis
      using executeIdempotent_new(4) [OF _ assms(2) p(2) k]
      by (cases "idempotencyRecord ?key s") (auto simp: executeIdempotent_known split: if_splits option.splits)
  qed
  show "\<exists>ms. r = JObj ms" if run: "run s = (Inr (False, r), s')"
  proof -
    obtain p where p: "executeIdempotent H cx c (f p) (op p) s = (Inr (False, r), s')"
      using run assms(1) by (cases check) auto
    then have new: "idempotencyRecord ?key s = None"
      by (cases "idempotencyRecord ?key s") (auto simp: executeIdempotent_known split: if_splits option.splits)
    show ?thesis using executeIdempotent_new(5) [OF new assms(2) p] assms(3) [of p] unfolding answers_object_def by blast
  qed
  show "s' = s" if run: "run s = (Inr (True, r), s')"
  proof -
    obtain p where p: "executeIdempotent H cx c (f p) (op p) s = (Inr (True, r), s')"
      using run assms(1) by (cases check) auto
    then show ?thesis using executeIdempotent_new(1) [OF _ assms(2) p]
      by (cases "idempotencyRecord ?key s") (auto simp: executeIdempotent_known split: if_splits option.splits)
  qed
qed

end
