(* ===== verification/Api_Cash.thy ===== *)
theory Api_Cash
  imports Api_Support "HOL-Library.Multiset"
begin

text \<open>
  The cash commands of the server, \<open>apps/api/src/cash.ts\<close>: opening a shift, recording a manual movement (also one that
  arrives after the shift was closed) and closing a shift by recounting its movements. A column of type
  NUMERIC(20,4) holds the rational number; its text has four decimals.
\<close>

section \<open>Tables\<close>

record ShiftTableRow =
  sf_id :: string
  sf_business_id :: string
  sf_location_id :: string
  sf_terminal_id :: string
  sf_cashier_user_id :: string
  sf_shift_number :: string
  sf_status :: string
  sf_opening_cash :: rat
  sf_opened_at :: string
  sf_closing_started_at :: "string option"
  sf_closed_at :: "string option"
  sf_review_status :: string

record MovementTableRow =
  sm_id :: string
  sm_business_id :: string
  sm_location_id :: string
  sm_terminal_id :: string
  sm_shift_id :: string
  sm_movement_type :: string
  sm_amount :: rat
  sm_direction :: string
  sm_source_type :: string
  sm_source_id :: string
  sm_reason_code :: "string option"
  sm_notes :: "string option"
  sm_occurred_at :: string
  sm_actor_user_id :: string
  sm_device_id :: "string option"
  sm_correlation_id :: "string option"

record ClosingSnapshotRow =
  cl_id :: string
  cl_shift_id :: string
  cl_opening_cash :: rat
  cl_cash_sales :: rat
  cl_cash_in :: rat
  cl_cash_out :: rat
  cl_cash_refunds :: rat
  cl_expected_cash :: rat
  cl_actual_cash :: rat
  cl_variance :: rat
  cl_variance_type :: string
  cl_reason :: "string option"
  cl_transaction_count :: nat
  cl_void_count :: nat
  cl_refund_count :: nat
  cl_created_by :: string

record ReconciliationRow =
  rk_id :: string
  rk_shift_id :: string
  rk_reason_type :: string
  rk_expected_cash_delta :: rat
  rk_notes :: string
  rk_source_type :: string
  rk_source_id :: string
  rk_created_by :: string

record BusinessExceptionRow =
  be_id :: string
  be_business_id :: string
  be_location_id :: string
  be_domain :: string
  be_exception_type :: string
  be_severity :: string
  be_status :: string
  be_source_entity_type :: string
  be_source_entity_id :: string
  be_summary :: string
  be_impact_amount :: "rat option"

record RefundCountRow =
  rf_business_id :: string
  rf_shift_id :: "string option"
  rf_status :: string
  rf_requested_at :: int

record CashDb = ApiDb +
  db_shifts :: "ShiftTableRow list"
  db_cash_movements :: "MovementTableRow list"
  db_closing_snapshots :: "ClosingSnapshotRow list"
  db_reconciliations :: "ReconciliationRow list"
  db_business_exceptions :: "BusinessExceptionRow list"
  db_sale_statuses :: "(string \<times> string) list"
  db_refunds :: "RefundCountRow list"

text \<open>
  Writing a number to a NUMERIC(20,4) column: rounded to four decimals, half away from zero; sixteen integer digits
  at most, else error 22003. Its text shows four decimals.
\<close>

definition numeric_20_4 :: "rat \<Rightarrow> rat result" where
  "numeric_20_4 q =
     (let n = of_int \<lfloor>\<bar>q\<bar> * 10000 + 1 / 2\<rfloor> / 10000; v = (if q < 0 then - n else n) in
      if \<bar>v\<bar> < 10 ^ 16 then Inr v else Inl (DatabaseError ''22003'' None))"

definition numeric_text :: "rat \<Rightarrow> string" where
  "numeric_text q =
     (let n = nat \<lfloor>\<bar>q\<bar> * 10000\<rfloor>; d = nat_digits (n mod 10000) in
      (if q < 0 then ''-'' else []) @ nat_digits (n div 10000) @ ''.'' @ replicate (4 - length d) (CHR ''0'') @ d)"

section \<open>Statements\<close>

definition insertShift :: "ShiftTableRow \<Rightarrow> ('x CashDb_scheme, unit) act" where
  "insertShift row db =
     (if list_ex (\<lambda>r. sf_id r = sf_id row) (db_shifts db) then (Inl (DatabaseError ''23505'' (Some ''shifts_pkey'')), db)
      else if sf_status row \<in> {''OPEN'', ''CLOSING''} \<and>
        list_ex (\<lambda>r. sf_business_id r = sf_business_id row \<and> sf_terminal_id r = sf_terminal_id row \<and>
          sf_status r \<in> {''OPEN'', ''CLOSING''}) (db_shifts db)
      then (Inl (DatabaseError ''23505'' (Some ''shifts_active_terminal_idx'')), db)
      else (Inr (), db\<lparr>db_shifts := db_shifts db @ [row]\<rparr>))"

definition insertMovement :: "MovementTableRow \<Rightarrow> ('x CashDb_scheme, unit) act" where
  "insertMovement row db =
     (if list_ex (\<lambda>r. sm_id r = sm_id row) (db_cash_movements db)
      then (Inl (DatabaseError ''23505'' (Some ''cash_movements_pkey'')), db)
      else if list_ex (\<lambda>r. sm_business_id r = sm_business_id row \<and> sm_source_type r = sm_source_type row \<and>
        sm_source_id r = sm_source_id row) (db_cash_movements db)
      then (Inl (DatabaseError ''23505'' (Some ''cash_movements_source_key'')), db)
      else (Inr (), db\<lparr>db_cash_movements := db_cash_movements db @ [row]\<rparr>))"

definition insertSnapshot :: "ClosingSnapshotRow \<Rightarrow> ('x CashDb_scheme, unit) act" where
  "insertSnapshot row db =
     (if list_ex (\<lambda>r. cl_id r = cl_id row) (db_closing_snapshots db)
      then (Inl (DatabaseError ''23505'' (Some ''shift_closing_snapshots_pkey'')), db)
      else if list_ex (\<lambda>r. cl_shift_id r = cl_shift_id row) (db_closing_snapshots db)
      then (Inl (DatabaseError ''23505'' (Some ''shift_closing_snapshots_shift_key'')), db)
      else (Inr (), db\<lparr>db_closing_snapshots := db_closing_snapshots db @ [row]\<rparr>))"

definition insertReconciliation :: "ReconciliationRow \<Rightarrow> ('x CashDb_scheme, unit) act" where
  "insertReconciliation row db = (Inr (), db\<lparr>db_reconciliations := db_reconciliations db @ [row]\<rparr>)"

definition insertException :: "BusinessExceptionRow \<Rightarrow> ('x CashDb_scheme, unit) act" where
  "insertException row db = (Inr (), db\<lparr>db_business_exceptions := db_business_exceptions db @ [row]\<rparr>)"

text \<open>The shift of a movement or a closing, with the device that opened it.\<close>

record ShiftRow =
  sh_cashier_user :: string
  sh_row_closed_at :: "string option"
  sh_row_location :: string
  sh_opening_device :: "string option"
  sh_row_opening_cash :: rat
  sh_row_status :: string
  sh_row_terminal :: string

definition selectShift :: "string \<Rightarrow> string \<Rightarrow> 'x CashDb_scheme \<Rightarrow> ShiftRow option" where
  "selectShift shiftId businessId db =
     map_option (\<lambda>s. \<lparr>sh_cashier_user = sf_cashier_user_id s, sh_row_closed_at = sf_closed_at s,
        sh_row_location = sf_location_id s,
        sh_opening_device = (case find (\<lambda>m. sm_shift_id m = sf_id s \<and> sm_business_id m = sf_business_id s \<and>
             sm_location_id m = sf_location_id s \<and> sm_terminal_id m = sf_terminal_id s \<and>
             sm_movement_type m = ''OPENING_BALANCE'' \<and> sm_source_type m = ''SHIFT'' \<and> sm_source_id m = sf_id s)
             (db_cash_movements db) of None \<Rightarrow> None | Some m \<Rightarrow> sm_device_id m),
        sh_row_opening_cash = sf_opening_cash s, sh_row_status = sf_status s, sh_row_terminal = sf_terminal_id s\<rparr>)
      (find (\<lambda>s. sf_id s = pg_uuid shiftId \<and> sf_business_id s = pg_uuid businessId) (db_shifts db))"

section \<open>Payloads\<close>

record OpenShiftPayload =
  op_business_id :: string
  op_cashier_user_id :: string
  op_device_id :: string
  op_location_id :: string
  op_opened_at :: string
  op_opening_cash :: MoneyValue
  op_shift_id :: string
  op_shift_number :: string
  op_terminal_id :: string

record ManualMovementPayload =
  mm_actor_user_id :: string
  mm_amount :: MoneyValue
  mm_business_id :: string
  mm_correlation_id :: string
  mm_id :: string
  mm_location_id :: string
  mm_movement_type :: string
  mm_notes :: "string option"
  mm_occurred_at :: string
  mm_reason_code :: string
  mm_shift_id :: string
  mm_source_id :: string
  mm_source_type :: string

record CloseShiftPayload =
  cp_actual :: MoneyValue
  cp_created_at :: string
  cp_id :: string
  cp_location_id :: string
  cp_shift_id :: string
  cp_reason :: "string option"

record CashCommandInput =
  in_command :: CommandIdentity
  in_command_authorization_version :: int
  in_device_id :: string
  in_payload :: "json option"

definition money :: "'d decimal_ops \<Rightarrow> json option \<Rightarrow> string \<Rightarrow> bool \<Rightarrow> MoneyValue result" where
  "money D v field allowZero = (case v of
     Some (JStr s) \<Rightarrow>
       catchE
         (bindE (parseMoney D s) (\<lambda>parsed.
          bindE (parseMoney D ''0'') (\<lambda>zero.
          bindE (moneyCompare D parsed zero) (\<lambda>comparison.
          bindE (fitsPrecisionScale D parsed (JSInt 20) (JSInt 4)) (\<lambda>fits.
          bindE (throwIf (\<not> fits \<or> comparison < 0 \<or> (\<not> allowZero \<and> comparison = 0))
                   (validationError field (if allowZero then ''tidak boleh negatif'' else ''harus lebih besar dari nol''))) (\<lambda>_.
          Inr parsed))))))
         (\<lambda>e. case e of ApiError _ _ _ _ \<Rightarrow> Inl e | _ \<Rightarrow> Inl (validationError field ''bukan nilai uang yang valid''))
   | _ \<Rightarrow> Inl (validationError field ''wajib berupa string desimal''))"

definition assertCommandContext ::
  "AuthenticatedRequestContext \<Rightarrow> CashCommandInput \<Rightarrow> string \<Rightarrow> string \<Rightarrow> string \<Rightarrow> unit result" where
  "assertCommandContext cx input businessId locationId actorUserId =
     throwIf (businessId \<noteq> ax_business cx \<or> locationId \<noteq> ax_location cx \<or> actorUserId \<noteq> ax_user cx \<or>
        ax_device_id cx = None \<or> ax_device_id cx \<noteq> Some (in_device_id input))
       (ApiError 403 ''CASH_CONTEXT_MISMATCH'' ''Konteks operasi kas tidak cocok dengan sesi.'' [])"

definition assertShiftAuthority :: "AuthenticatedRequestContext \<Rightarrow> CashCommandInput \<Rightarrow> ShiftRow \<Rightarrow> unit result" where
  "assertShiftAuthority cx input shift =
     throwIf (sh_cashier_user shift \<noteq> ax_user cx \<or> ax_selected_terminal_id cx = None \<or>
        Some (sh_row_terminal shift) \<noteq> ax_selected_terminal_id cx \<or> ax_device_id cx = None \<or>
        ax_device_id cx \<noteq> Some (in_device_id input) \<or> sh_opening_device shift \<noteq> Some (in_device_id input))
       (ApiError 403 ''CASH_CONTEXT_MISMATCH'' ''Shift kas tidak dimiliki oleh konteks pengguna, terminal, dan perangkat ini.'' [])"

definition readOpenShift :: "'d decimal_ops \<Rightarrow> js_env \<Rightarrow> json option \<Rightarrow> OpenShiftPayload result" where
  "readOpenShift D E v =
     bindE (objectValue v ''payload'') (\<lambda>envelope.
     bindE (case jget envelope ''payload_version'' of
        None \<Rightarrow> Inr envelope
      | Some pv \<Rightarrow>
          bindE (integerValue (Some pv) ''payload.payload_version'' 1) (\<lambda>version.
          bindE (throwIf (version \<noteq> 1) (ApiError 400 ''UNSUPPORTED_PAYLOAD_VERSION''
             ''Versi payload Open Shift tidak didukung.'' [])) (\<lambda>_.
          objectValue (jget envelope ''shift'') ''payload.shift''))) (\<lambda>row.
     bindE (uuidValue (jget row ''business_id'') ''payload.business_id'') (\<lambda>businessId.
     bindE (uuidValue (jget row ''cashier_user_id'') ''payload.cashier_user_id'') (\<lambda>cashier.
     bindE (uuidValue (jget row ''device_id'') ''payload.device_id'') (\<lambda>device.
     bindE (uuidValue (jget row ''location_id'') ''payload.location_id'') (\<lambda>location.
     bindE (timestampValue E (jget row ''opened_at'') ''payload.opened_at'') (\<lambda>openedAt.
     bindE (money D (jget row ''opening_cash'') ''payload.opening_cash'' True) (\<lambda>openingCash.
     bindE (uuidValue (jget row ''shift_id'') ''payload.shift_id'') (\<lambda>shiftId.
     bindE (stringValue (jget row ''shift_number'') ''payload.shift_number'') (\<lambda>shiftNumber.
     bindE (uuidValue (jget row ''terminal_id'') ''payload.terminal_id'') (\<lambda>terminal.
     Inr \<lparr>op_business_id = businessId, op_cashier_user_id = cashier, op_device_id = device, op_location_id = location,
          op_opened_at = openedAt, op_opening_cash = openingCash, op_shift_id = shiftId, op_shift_number = shiftNumber,
          op_terminal_id = terminal\<rparr>)))))))))))"

definition open_payload_json :: "OpenShiftPayload \<Rightarrow> json" where
  "open_payload_json p = JObj [(''business_id'', JStr (op_business_id p)), (''cashier_user_id'', JStr (op_cashier_user_id p)),
     (''device_id'', JStr (op_device_id p)), (''location_id'', JStr (op_location_id p)), (''opened_at'', JStr (op_opened_at p)),
     (''opening_cash'', JStr (op_opening_cash p)), (''shift_id'', JStr (op_shift_id p)),
     (''shift_number'', JStr (op_shift_number p)), (''terminal_id'', JStr (op_terminal_id p))]"

section \<open>Opening a shift\<close>

definition openShiftGuards ::
  "'d decimal_ops \<Rightarrow> js_env \<Rightarrow> AuthenticatedRequestContext \<Rightarrow> CashCommandInput \<Rightarrow> OpenShiftPayload result" where
  "openShiftGuards D E cx input =
     bindE (requirePermission cx ''workspace.pos.access'') (\<lambda>_.
     bindE (requirePermission cx ''shift.open'') (\<lambda>_.
     bindE (throwIf (in_command_authorization_version input \<noteq> ax_version cx)
        (ApiError 409 ''AUTHORIZATION_STALE'' ''Otorisasi Shift sudah berubah.'' [])) (\<lambda>_.
     bindE (readOpenShift D E (in_payload input)) (\<lambda>payload.
     bindE (assertCommandContext cx input (op_business_id payload) (op_location_id payload) (op_cashier_user_id payload)) (\<lambda>_.
     bindE (throwIf (op_device_id payload \<noteq> in_device_id input \<or>
          op_opened_at payload \<noteq> ci_occurred_at (in_command input) \<or>
          Some (op_location_id payload) \<noteq> ci_location_id (in_command input) \<or>
          Some (op_terminal_id payload) \<noteq> ax_selected_terminal_id cx)
        (ApiError 400 ''SHIFT_CONTEXT_MISMATCH'' ''Envelope Open Shift tidak konsisten.'' [])) (\<lambda>_.
     Inr payload))))))"

definition opened_shift_row :: "OpenShiftPayload \<Rightarrow> ShiftTableRow" where
  "opened_shift_row p = \<lparr>sf_id = pg_uuid (op_shift_id p), sf_business_id = pg_uuid (op_business_id p),
     sf_location_id = pg_uuid (op_location_id p), sf_terminal_id = pg_uuid (op_terminal_id p),
     sf_cashier_user_id = pg_uuid (op_cashier_user_id p), sf_shift_number = op_shift_number p, sf_status = ''OPEN'',
     sf_opening_cash = dec_value (op_opening_cash p), sf_opened_at = op_opened_at p, sf_closing_started_at = None,
     sf_closed_at = None, sf_review_status = ''UNREVIEWED''\<rparr>"

definition opening_movement_row ::
  "'x CashDb_scheme api_host \<Rightarrow> CashCommandInput \<Rightarrow> OpenShiftPayload \<Rightarrow> MovementTableRow" where
  "opening_movement_row H input p = \<lparr>sm_id = sv_uuid H (ci_command_id (in_command input)) 0,
     sm_business_id = pg_uuid (op_business_id p), sm_location_id = pg_uuid (op_location_id p),
     sm_terminal_id = pg_uuid (op_terminal_id p), sm_shift_id = pg_uuid (op_shift_id p),
     sm_movement_type = ''OPENING_BALANCE'', sm_amount = dec_value (op_opening_cash p), sm_direction = ''IN'',
     sm_source_type = ''SHIFT'', sm_source_id = pg_uuid (op_shift_id p), sm_reason_code = None, sm_notes = None,
     sm_occurred_at = op_opened_at p, sm_actor_user_id = pg_uuid (op_cashier_user_id p),
     sm_device_id = Some (pg_uuid (in_device_id input)),
     sm_correlation_id = Some (pg_uuid (ci_correlation_id (in_command input)))\<rparr>"

definition opened_result :: "OpenShiftPayload \<Rightarrow> json" where
  "opened_result p = JObj [(''shift_id'', JStr (op_shift_id p)), (''shift_number'', JStr (op_shift_number p)),
     (''status'', JStr ''OPEN'')]"

definition openShiftOperation ::
  "'x CashDb_scheme api_host \<Rightarrow> AuthenticatedRequestContext \<Rightarrow> CashCommandInput \<Rightarrow> OpenShiftPayload \<Rightarrow>
   ('x CashDb_scheme, json) act" where
  "openShiftOperation H cx input payload =
     bindA (readA (\<lambda>db. filter (\<lambda>t. te_id t = pg_uuid (op_terminal_id payload) \<and>
        te_business_id t = pg_uuid (op_business_id payload) \<and> te_location_id t = pg_uuid (op_location_id payload) \<and>
        te_status t = ''ACTIVE'') (db_terminals db))) (\<lambda>terminals.
     bindA (liftA (throwIf (terminals = []) (ApiError 409 ''TERMINAL_NOT_AVAILABLE'' ''Terminal tidak aktif pada lokasi ini.'' []))) (\<lambda>_.
     bindA (insertShift (opened_shift_row payload)) (\<lambda>_.
     bindA (insertMovement (opening_movement_row H input payload)) (\<lambda>_.
     bindA (appendAuditEvent H 1 cx (in_command input) \<lparr>ai_action = ''SHIFT_OPENED'', ai_after_data = Some (opened_result payload),
        ai_before_data = None, ai_entity_id = op_shift_id payload, ai_entity_type = ''cash_shift'', ai_reason = None\<rparr>) (\<lambda>_.
     bindA (appendChange H cx (in_command input) \<lparr>ch_change_type = ''EVENT'', ch_entity_id = op_shift_id payload,
        ch_entity_type = ''cash_shift'', ch_entity_version = None, ch_payload = opened_result payload\<rparr>) (\<lambda>_.
     retA (opened_result payload)))))))"

definition openShiftCommand ::
  "'d decimal_ops \<Rightarrow> js_env \<Rightarrow> 'x CashDb_scheme api_host \<Rightarrow> AuthenticatedRequestContext \<Rightarrow> CashCommandInput \<Rightarrow>
   ('x CashDb_scheme, bool \<times> json) act" where
  "openShiftCommand D E H cx input =
     bindA (liftA (openShiftGuards D E cx input)) (\<lambda>payload.
     executeIdempotent H cx (in_command input) (defaultFingerprint (in_command input) (open_payload_json payload))
       (openShiftOperation H cx input payload))"

section \<open>Recording a movement\<close>

definition readManualMovement :: "'d decimal_ops \<Rightarrow> js_env \<Rightarrow> json option \<Rightarrow> ManualMovementPayload result" where
  "readManualMovement D E v =
     bindE (objectValue v ''payload'') (\<lambda>row.
     bindE (uuidValue (jget row ''actor_user_id'') ''payload.actor_user_id'') (\<lambda>actor.
     bindE (money D (jget row ''amount'') ''payload.amount'' False) (\<lambda>amount.
     bindE (uuidValue (jget row ''business_id'') ''payload.business_id'') (\<lambda>businessId.
     bindE (uuidValue (jget row ''correlation_id'') ''payload.correlation_id'') (\<lambda>correlation.
     bindE (uuidValue (jget row ''id'') ''payload.id'') (\<lambda>movementId.
     bindE (uuidValue (jget row ''location_id'') ''payload.location_id'') (\<lambda>location.
     bindE (enumValue (jget row ''movement_type'') ''payload.movement_type'' [''CASH_IN'', ''CASH_OUT'', ''SAFE_DROP'']) (\<lambda>ty.
     bindE (nullableStringValue (jget row ''notes'') ''payload.notes'') (\<lambda>notes.
     bindE (timestampValue E (jget row ''occurred_at'') ''payload.occurred_at'') (\<lambda>occurredAt.
     bindE (stringValue (jget row ''reason_code'') ''payload.reason_code'') (\<lambda>reason.
     bindE (uuidValue (jget row ''shift_id'') ''payload.shift_id'') (\<lambda>shiftId.
     bindE (uuidValue (jget row ''source_id'') ''payload.source_id'') (\<lambda>sourceId.
     bindE (stringValue (jget row ''source_type'') ''payload.source_type'') (\<lambda>sourceType.
     Inr \<lparr>mm_actor_user_id = actor, mm_amount = amount, mm_business_id = businessId, mm_correlation_id = correlation,
          mm_id = movementId, mm_location_id = location, mm_movement_type = ty, mm_notes = notes, mm_occurred_at = occurredAt,
          mm_reason_code = reason, mm_shift_id = shiftId, mm_source_id = sourceId, mm_source_type = sourceType\<rparr>))))))))))))))"

definition movement_payload_json :: "ManualMovementPayload \<Rightarrow> json" where
  "movement_payload_json p = JObj [(''actor_user_id'', JStr (mm_actor_user_id p)), (''amount'', JStr (mm_amount p)),
     (''business_id'', JStr (mm_business_id p)), (''correlation_id'', JStr (mm_correlation_id p)), (''id'', JStr (mm_id p)),
     (''location_id'', JStr (mm_location_id p)), (''movement_type'', JStr (mm_movement_type p)), (''notes'', jstr_opt (mm_notes p)),
     (''occurred_at'', JStr (mm_occurred_at p)), (''reason_code'', JStr (mm_reason_code p)), (''shift_id'', JStr (mm_shift_id p)),
     (''source_id'', JStr (mm_source_id p)), (''source_type'', JStr (mm_source_type p))]"

definition movementPermission :: "string \<Rightarrow> string" where
  "movementPermission ty =
     (if ty = ''CASH_IN'' then ''cash.in'' else if ty = ''CASH_OUT'' then ''cash.out'' else ''cash.safe_drop'')"

definition recordMovementGuards ::
  "'d decimal_ops \<Rightarrow> js_env \<Rightarrow> AuthenticatedRequestContext \<Rightarrow> CashCommandInput \<Rightarrow> ManualMovementPayload result" where
  "recordMovementGuards D E cx input =
     bindE (readManualMovement D E (in_payload input)) (\<lambda>payload.
     bindE (requirePermission cx (movementPermission (mm_movement_type payload))) (\<lambda>_.
     bindE (assertCommandContext cx input (mm_business_id payload) (mm_location_id payload) (mm_actor_user_id payload)) (\<lambda>_.
     bindE (throwIf (mm_id payload \<noteq> ci_command_id (in_command input) \<or>
          mm_correlation_id payload \<noteq> ci_correlation_id (in_command input) \<or>
          mm_occurred_at payload \<noteq> ci_occurred_at (in_command input))
        (ApiError 400 ''CASH_CONTEXT_MISMATCH'' ''Envelope Cash Movement tidak konsisten.'' [])) (\<lambda>_.
     Inr payload))))"

text \<open>A movement that happened before the shift was closed but arrives after.\<close>

definition isLateMovement :: "js_env \<Rightarrow> ShiftRow \<Rightarrow> string \<Rightarrow> bool" where
  "isLateMovement E shift occurredAt =
     (sh_row_status shift \<in> {''CLOSED'', ''FORCED_CLOSED''} \<and>
      (case sh_row_closed_at shift of
         None \<Rightarrow> False
       | Some c \<Rightarrow> (case (dateParse E occurredAt, dateParse E c) of (Some o1, Some c1) \<Rightarrow> o1 \<le> c1 | _ \<Rightarrow> False)))"

definition movementDirection :: "string \<Rightarrow> string" where
  "movementDirection ty = (if ty = ''CASH_IN'' then ''IN'' else ''OUT'')"

definition manual_movement_row :: "CashCommandInput \<Rightarrow> ManualMovementPayload \<Rightarrow> ShiftRow \<Rightarrow> MovementTableRow" where
  "manual_movement_row input p shift = \<lparr>sm_id = pg_uuid (mm_id p), sm_business_id = pg_uuid (mm_business_id p),
     sm_location_id = pg_uuid (mm_location_id p), sm_terminal_id = sh_row_terminal shift, sm_shift_id = pg_uuid (mm_shift_id p),
     sm_movement_type = mm_movement_type p, sm_amount = dec_value (mm_amount p),
     sm_direction = movementDirection (mm_movement_type p), sm_source_type = mm_source_type p,
     sm_source_id = pg_uuid (mm_source_id p), sm_reason_code = Some (mm_reason_code p), sm_notes = mm_notes p,
     sm_occurred_at = mm_occurred_at p, sm_actor_user_id = pg_uuid (mm_actor_user_id p),
     sm_device_id = Some (pg_uuid (in_device_id input)), sm_correlation_id = Some (pg_uuid (mm_correlation_id p))\<rparr>"

definition late_reconciliation_row ::
  "'x CashDb_scheme api_host \<Rightarrow> AuthenticatedRequestContext \<Rightarrow> CashCommandInput \<Rightarrow> ManualMovementPayload \<Rightarrow> ReconciliationRow" where
  "late_reconciliation_row H cx input p = \<lparr>rk_id = sv_uuid H (ci_command_id (in_command input)) 0,
     rk_shift_id = pg_uuid (mm_shift_id p), rk_reason_type = ''LATE_CASH_MOVEMENT'',
     rk_expected_cash_delta = (if movementDirection (mm_movement_type p) = ''IN'' then dec_value (mm_amount p) else - dec_value (mm_amount p)),
     rk_notes = ''Cash Movement offline diterima setelah Shift ditutup; snapshot penutupan tidak diubah.'',
     rk_source_type = ''CASH_MOVEMENT'', rk_source_id = pg_uuid (mm_id p), rk_created_by = ax_user cx\<rparr>"

definition movement_result :: "ManualMovementPayload \<Rightarrow> string list \<Rightarrow> json" where
  "movement_result p warnings = JObj [(''amount'', JStr (mm_amount p)), (''movement_id'', JStr (mm_id p)),
     (''movement_type'', JStr (mm_movement_type p)), (''warnings'', JArr (map JStr warnings))]"

definition recordMovementOperation ::
  "js_env \<Rightarrow> 'x CashDb_scheme api_host \<Rightarrow> AuthenticatedRequestContext \<Rightarrow> CashCommandInput \<Rightarrow> ManualMovementPayload \<Rightarrow>
   ('x CashDb_scheme, json) act" where
  "recordMovementOperation E H cx input payload =
     (let notOpen = ApiError 409 ''SHIFT_NOT_OPEN'' ''Shift tidak terbuka.'' [];
          stale = (if in_command_authorization_version input = ax_version cx then [] else [''AUTHORIZATION_STALE_EXCEPTION'']) in
      bindA (readA (selectShift (mm_shift_id payload) (mm_business_id payload))) (\<lambda>selected.
      case selected of
        None \<Rightarrow> throwA notOpen
      | Some shift \<Rightarrow>
        bindA (liftA (throwIf (sh_row_location shift \<noteq> mm_location_id payload) notOpen)) (\<lambda>_.
        bindA (liftA (assertShiftAuthority cx input shift)) (\<lambda>_.
        let isLate = isLateMovement E shift (mm_occurred_at payload);
            warnings = stale @ (if isLate then [''LATE_SHIFT_EVENT''] else []);
            result = movement_result payload warnings in
        bindA (liftA (throwIf (sh_row_status shift \<noteq> ''OPEN'' \<and> \<not> isLate) notOpen)) (\<lambda>_.
        bindA (insertMovement (manual_movement_row input payload shift)) (\<lambda>_.
        bindA (if isLate then insertReconciliation (late_reconciliation_row H cx input payload) else retA ()) (\<lambda>_.
        bindA (appendAuditEvent H 1 cx (in_command input) \<lparr>ai_action = ''CASH_MOVEMENT_RECORDED'', ai_after_data = Some result,
           ai_before_data = None, ai_entity_id = mm_id payload, ai_entity_type = ''cash_movement'',
           ai_reason = Some (mm_reason_code payload)\<rparr>) (\<lambda>_.
        bindA (appendChange H cx (in_command input) \<lparr>ch_change_type = ''EVENT'', ch_entity_id = mm_id payload,
           ch_entity_type = ''cash_movement'', ch_entity_version = None, ch_payload = result\<rparr>) (\<lambda>_.
        retA result)))))))))"

definition recordCashMovementCommand ::
  "'d decimal_ops \<Rightarrow> js_env \<Rightarrow> 'x CashDb_scheme api_host \<Rightarrow> AuthenticatedRequestContext \<Rightarrow> CashCommandInput \<Rightarrow>
   ('x CashDb_scheme, bool \<times> json) act" where
  "recordCashMovementCommand D E H cx input =
     bindA (liftA (recordMovementGuards D E cx input)) (\<lambda>payload.
     executeIdempotent H cx (in_command input) (defaultFingerprint (in_command input) (movement_payload_json payload))
       (recordMovementOperation E H cx input payload))"

section \<open>Closing a shift\<close>

definition readCloseShift :: "'d decimal_ops \<Rightarrow> js_env \<Rightarrow> json option \<Rightarrow> CloseShiftPayload result" where
  "readCloseShift D E v =
     bindE (objectValue v ''payload'') (\<lambda>row.
     bindE (money D (jget row ''actual_cash'') ''payload.actual_cash'' True) (\<lambda>actual.
     bindE (timestampValue E (jget row ''created_at'') ''payload.created_at'') (\<lambda>createdAt.
     bindE (uuidValue (jget row ''id'') ''payload.id'') (\<lambda>closingId.
     bindE (uuidValue (jget row ''location_id'') ''payload.location_id'') (\<lambda>location.
     bindE (uuidValue (jget row ''shift_id'') ''payload.shift_id'') (\<lambda>shiftId.
     bindE (nullableStringValue (jget row ''variance_reason'') ''payload.variance_reason'') (\<lambda>reason.
     Inr \<lparr>cp_actual = actual, cp_created_at = createdAt, cp_id = closingId, cp_location_id = location,
          cp_shift_id = shiftId, cp_reason = reason\<rparr>)))))))"

definition close_payload_json :: "CloseShiftPayload \<Rightarrow> json" where
  "close_payload_json p = JObj [(''actual_cash'', JStr (cp_actual p)), (''created_at'', JStr (cp_created_at p)),
     (''id'', JStr (cp_id p)), (''location_id'', JStr (cp_location_id p)), (''shift_id'', JStr (cp_shift_id p)),
     (''variance_reason'', jstr_opt (cp_reason p))]"

definition closeShiftGuards ::
  "'d decimal_ops \<Rightarrow> js_env \<Rightarrow> AuthenticatedRequestContext \<Rightarrow> CashCommandInput \<Rightarrow> CloseShiftPayload result" where
  "closeShiftGuards D E cx input =
     bindE (requirePermission cx ''shift.close'') (\<lambda>_.
     bindE (throwIf (in_command_authorization_version input \<noteq> ax_version cx)
        (ApiError 409 ''AUTHORIZATION_STALE'' ''Otorisasi Shift sudah berubah.'' [])) (\<lambda>_.
     bindE (readCloseShift D E (in_payload input)) (\<lambda>payload.
     bindE (throwIf (cp_id payload \<noteq> ci_command_id (in_command input) \<or> cp_location_id payload \<noteq> ax_location cx \<or>
          cp_created_at payload \<noteq> ci_occurred_at (in_command input))
        (ApiError 400 ''SHIFT_CONTEXT_MISMATCH'' ''Envelope Close Shift tidak konsisten.'' [])) (\<lambda>_.
     Inr payload))))"

text \<open>The query that recounts a shift.\<close>

record ClosingCalculationRow =
  cc_cash_sales :: rat
  cc_cash_in :: rat
  cc_cash_out :: rat
  cc_cash_refunds :: rat
  cc_expected_cash :: rat
  cc_transaction_count :: nat
  cc_void_count :: nat
  cc_refund_count :: nat

definition movementSum :: "string list \<Rightarrow> string \<Rightarrow> MovementTableRow list \<Rightarrow> rat" where
  "movementSum tys shiftId ms = sum_list (map sm_amount (filter (\<lambda>m. sm_shift_id m = shiftId \<and> sm_movement_type m \<in> set tys) ms))"

definition closingCalculation :: "js_env \<Rightarrow> string \<Rightarrow> string \<Rightarrow> string \<Rightarrow> rat \<Rightarrow> 'x CashDb_scheme \<Rightarrow> ClosingCalculationRow" where
  "closingCalculation E shiftId businessId createdAt openingCash db =
     (let ms = db_cash_movements db;
          sales = movementSum [''CASH_SALE''] shiftId ms;
          cashIn = movementSum [''CASH_IN''] shiftId ms;
          cashOut = movementSum [''CASH_OUT'', ''SAFE_DROP''] shiftId ms;
          refunds = movementSum [''CASH_REFUND'', ''CASH_REVERSAL''] shiftId ms in
      \<lparr>cc_cash_sales = sales, cc_cash_in = cashIn, cc_cash_out = cashOut, cc_cash_refunds = refunds,
       cc_expected_cash = openingCash + sales + cashIn - cashOut - refunds,
       cc_transaction_count = length (filter (\<lambda>(s, status). s = shiftId \<and> status = ''COMPLETED'') (db_sale_statuses db)),
       cc_void_count = length (filter (\<lambda>(s, status). s = shiftId \<and> status = ''VOIDED'') (db_sale_statuses db)),
       cc_refund_count = length (filter (\<lambda>r. rf_business_id r = businessId \<and> rf_shift_id r = Some shiftId \<and>
          rf_status r = ''COMPLETED'' \<and> (case dateParse E createdAt of None \<Rightarrow> False | Some t \<Rightarrow> rf_requested_at r \<le> t)) (db_refunds db))\<rparr>)"

definition sqlVarianceType :: "rat \<Rightarrow> rat \<Rightarrow> string" where
  "sqlVarianceType actual expected =
     (if actual = expected then ''MATCHED'' else if actual > expected then ''OVER'' else ''SHORT'')"

definition closing_snapshot_row ::
  "AuthenticatedRequestContext \<Rightarrow> CloseShiftPayload \<Rightarrow> ShiftRow \<Rightarrow> ClosingCalculationRow \<Rightarrow> ClosingSnapshotRow" where
  "closing_snapshot_row cx p shift c = \<lparr>cl_id = pg_uuid (cp_id p), cl_shift_id = pg_uuid (cp_shift_id p),
     cl_opening_cash = sh_row_opening_cash shift, cl_cash_sales = cc_cash_sales c, cl_cash_in = cc_cash_in c,
     cl_cash_out = cc_cash_out c, cl_cash_refunds = cc_cash_refunds c, cl_expected_cash = cc_expected_cash c,
     cl_actual_cash = dec_value (cp_actual p), cl_variance = dec_value (cp_actual p) - cc_expected_cash c,
     cl_variance_type = sqlVarianceType (dec_value (cp_actual p)) (cc_expected_cash c), cl_reason = cp_reason p,
     cl_transaction_count = cc_transaction_count c, cl_void_count = cc_void_count c, cl_refund_count = cc_refund_count c,
     cl_created_by = ax_user cx\<rparr>"

text \<open>The numbers of the snapshot have to fit their columns.\<close>

definition snapshotFits :: "ClosingSnapshotRow \<Rightarrow> unit result" where
  "snapshotFits r = bindE (mapE numeric_20_4 [cl_opening_cash r, cl_cash_sales r, cl_cash_in r, cl_cash_out r, cl_cash_refunds r,
     cl_expected_cash r, cl_actual_cash r, cl_variance r]) (\<lambda>_. Inr ())"

definition closeShiftRow :: "string \<Rightarrow> string \<Rightarrow> string \<Rightarrow> ('x CashDb_scheme, unit) act" where
  "closeShiftRow shiftId createdAt vtype db = (Inr (), db\<lparr>db_shifts := map (\<lambda>r. if sf_id r = shiftId
     then r\<lparr>sf_status := ''CLOSED'',
            sf_closing_started_at := (case sf_closing_started_at r of None \<Rightarrow> Some createdAt | Some t \<Rightarrow> Some t),
            sf_closed_at := Some createdAt,
            sf_review_status := (if vtype = ''MATCHED'' then ''UNREVIEWED'' else ''REQUIRES_FOLLOW_UP'')\<rparr>
     else r) (db_shifts db)\<rparr>)"

definition closed_result :: "CloseShiftPayload \<Rightarrow> ClosingSnapshotRow \<Rightarrow> json" where
  "closed_result p r = JObj [(''actual_cash'', JStr (cp_actual p)), (''expected_cash'', JStr (numeric_text (cl_expected_cash r))),
     (''shift_id'', JStr (cp_shift_id p)), (''status'', JStr ''CLOSED''), (''variance'', JStr (numeric_text (cl_variance r))),
     (''variance_type'', JStr (cl_variance_type r))]"

definition variance_exception ::
  "'x CashDb_scheme api_host \<Rightarrow> AuthenticatedRequestContext \<Rightarrow> CashCommandInput \<Rightarrow> CloseShiftPayload \<Rightarrow> ClosingSnapshotRow \<Rightarrow> BusinessExceptionRow" where
  "variance_exception H cx input p r = \<lparr>be_id = sv_uuid H (ci_command_id (in_command input)) 0, be_business_id = ax_business cx,
     be_location_id = pg_uuid (cp_location_id p), be_domain = ''CASH'', be_exception_type = ''SHIFT_VARIANCE'',
     be_severity = ''REVIEW_REQUIRED'', be_status = ''OPEN'', be_source_entity_type = ''cash_shift'',
     be_source_entity_id = pg_uuid (cp_shift_id p), be_summary = ''Variance Shift '' @ cl_variance_type r @ ''.'',
     be_impact_amount = Some (cl_variance r)\<rparr>"

definition closeShiftOperation ::
  "js_env \<Rightarrow> 'x CashDb_scheme api_host \<Rightarrow> AuthenticatedRequestContext \<Rightarrow> CashCommandInput \<Rightarrow> CloseShiftPayload \<Rightarrow>
   ('x CashDb_scheme, json) act" where
  "closeShiftOperation E H cx input payload =
     (let invalid = ApiError 409 ''INVALID_SHIFT_STATE'' ''Shift tidak dapat ditutup.'' [] in
      bindA (readA (selectShift (cp_shift_id payload) (ax_business cx))) (\<lambda>selected.
      case selected of
        None \<Rightarrow> throwA invalid
      | Some shift \<Rightarrow>
        bindA (liftA (throwIf (sh_row_location shift \<noteq> cp_location_id payload \<or>
           (sh_row_status shift \<noteq> ''OPEN'' \<and> sh_row_status shift \<noteq> ''CLOSING'')) invalid)) (\<lambda>_.
        bindA (liftA (assertShiftAuthority cx input shift)) (\<lambda>_.
        bindA (readA (closingCalculation E (pg_uuid (cp_shift_id payload)) (ax_business cx) (cp_created_at payload)
           (sh_row_opening_cash shift))) (\<lambda>calculation.
        let row = closing_snapshot_row cx payload shift calculation; result = closed_result payload row in
        bindA (liftA (snapshotFits row)) (\<lambda>_.
        bindA (insertSnapshot row) (\<lambda>_.
        bindA (closeShiftRow (pg_uuid (cp_shift_id payload)) (cp_created_at payload) (cl_variance_type row)) (\<lambda>_.
        bindA (if cl_variance_type row \<noteq> ''MATCHED'' then insertException (variance_exception H cx input payload row) else retA ()) (\<lambda>_.
        bindA (appendAuditEvent H 1 cx (in_command input) \<lparr>ai_action = ''SHIFT_CLOSED'', ai_after_data = Some result,
           ai_before_data = None, ai_entity_id = cp_shift_id payload, ai_entity_type = ''cash_shift'', ai_reason = cp_reason payload\<rparr>) (\<lambda>_.
        bindA (appendChange H cx (in_command input) \<lparr>ch_change_type = ''EVENT'', ch_entity_id = cp_shift_id payload,
           ch_entity_type = ''cash_shift'', ch_entity_version = None, ch_payload = result\<rparr>) (\<lambda>_.
        retA result)))))))))))"

definition closeShiftCommand ::
  "'d decimal_ops \<Rightarrow> js_env \<Rightarrow> 'x CashDb_scheme api_host \<Rightarrow> AuthenticatedRequestContext \<Rightarrow> CashCommandInput \<Rightarrow>
   ('x CashDb_scheme, bool \<times> json) act" where
  "closeShiftCommand D E H cx input =
     bindA (liftA (closeShiftGuards D E cx input)) (\<lambda>payload.
     executeIdempotent H cx (in_command input) (defaultFingerprint (in_command input) (close_payload_json payload))
       (closeShiftOperation E H cx input payload))"

section \<open>The commands happen once\<close>

lemma keeps_statements [keeping]:
  "keeps_records (insertShift r)" "keeps_records (insertMovement m)" "keeps_records (insertSnapshot c)"
  "keeps_records (insertReconciliation k)" "keeps_records (insertException x)" "keeps_records (closeShiftRow i t v)"
  by (auto simp: keeps_records_def insertShift_def insertMovement_def insertSnapshot_def insertReconciliation_def
      insertException_def closeShiftRow_def split: if_splits)

lemma keeps_option [keeping]:
  "(\<And>y. keeps_records (f y)) \<Longrightarrow> keeps_records n \<Longrightarrow> keeps_records (case x of None \<Rightarrow> n | Some y \<Rightarrow> f y)"
  "keeps_records a \<Longrightarrow> keeps_records b \<Longrightarrow> keeps_records (if c then a else b)"
  by (cases x; simp) (cases c; simp)

lemma keeps_operations:
  "keeps_records (openShiftOperation H cx input p)" "keeps_records (recordMovementOperation E H cx input q)"
  "keeps_records (closeShiftOperation E H cx input c)"
  unfolding openShiftOperation_def recordMovementOperation_def closeShiftOperation_def Let_def
  by (intro keeping)+

lemma answers_operations:
  "answers_object (openShiftOperation H cx input p)" "answers_object (recordMovementOperation E H cx input q)"
  "answers_object (closeShiftOperation E H cx input c)"
  unfolding openShiftOperation_def recordMovementOperation_def closeShiftOperation_def Let_def opened_result_def
    movement_result_def closed_result_def
  by (intro answering)+

lemma bindA_liftA: "bindA (liftA r) f = (\<lambda>s. case r of Inl e \<Rightarrow> (Inl e, s) | Inr p \<Rightarrow> f p s)"
  by (auto simp: fun_eq_iff bindA_def liftA_def split: sum.splits)

lemmas open_shift_once = guarded_command [OF openShiftCommand_def [unfolded bindA_liftA] keeps_operations(1) answers_operations(1)]
lemmas record_movement_once = guarded_command [OF recordCashMovementCommand_def [unfolded bindA_liftA] keeps_operations(2) answers_operations(2)]
lemmas close_shift_once = guarded_command [OF closeShiftCommand_def [unfolded bindA_liftA] keeps_operations(3) answers_operations(3)]

abbreviation input_key :: "AuthenticatedRequestContext \<Rightarrow> CashCommandInput \<Rightarrow> string \<times> string \<times> string" where
  "input_key cx input \<equiv> command_key cx (in_command input)"

interpretation open_shift: idempotent_command H "openShiftCommand D E H" input_key for D E H
  by unfold_locales (fact open_shift_once)+

interpretation record_movement: idempotent_command H "recordCashMovementCommand D E H" input_key for D E H
  by unfold_locales (fact record_movement_once)+

interpretation close_shift: idempotent_command H "closeShiftCommand D E H" input_key for D E H
  by unfold_locales (fact close_shift_once)+

section \<open>The recount agrees with the till\<close>

text \<open>The server holds the ledger of a shift: the same movements, in any order.\<close>

definition ledger_held :: "string \<Rightarrow> CashMovementDTO list \<Rightarrow> MovementTableRow list \<Rightarrow> bool" where
  "ledger_held shiftId ms rows =
     (mset (map (\<lambda>r. (sm_movement_type r, sm_amount r)) (filter (\<lambda>r. sm_shift_id r = shiftId) rows)) =
      mset (map (\<lambda>m. (movement_type_text (cm_movement_type m), dec_value (cm_amount m))) ms))"

lemma sum_list_mset: "mset (map f xs) = mset (map g ys) \<Longrightarrow> sum_list (map (h \<circ> f) xs) = sum_list (map (h \<circ> g) ys)" for h :: "_ \<Rightarrow> rat"
  by (metis map_map mset_map sum_mset_sum_list)

lemma sum_filter: "sum_list (map f (filter P xs)) = sum_list (map (\<lambda>x. if P x then f x else 0) xs)" for f :: "_ \<Rightarrow> rat"
  by (induction xs) simp_all

lemma movementSum_held:
  assumes "ledger_held shiftId ms rows" "\<And>t. movement_type_text t \<in> set tys \<longleftrightarrow> t \<in> T"
  shows "movementSum tys shiftId rows = category_value T ms"
proof -
  let ?h = "\<lambda>(t, a). if t \<in> set tys then a else (0 :: rat)"
  have "movementSum tys shiftId rows =
      sum_list (map (?h \<circ> (\<lambda>r. (sm_movement_type r, sm_amount r))) (filter (\<lambda>r. sm_shift_id r = shiftId) rows))"
    by (simp add: movementSum_def sum_filter o_def flip: filter_filter)
  also have "\<dots> = sum_list (map (?h \<circ> (\<lambda>m. (movement_type_text (cm_movement_type m), dec_value (cm_amount m)))) ms)"
    using assms(1) unfolding ledger_held_def by (rule sum_list_mset)
  finally show ?thesis by (simp add: category_value_def assms(2) o_def)
qed

lemma held_categories:
  assumes "ledger_held shiftId ms rows"
  shows "movementSum [''CASH_SALE''] shiftId rows = category_value {CASH_SALE} ms"
    "movementSum [''CASH_IN''] shiftId rows = category_value {CASH_IN} ms"
    "movementSum [''CASH_OUT'', ''SAFE_DROP''] shiftId rows = category_value {CASH_OUT, SAFE_DROP} ms"
    "movementSum [''CASH_REFUND'', ''CASH_REVERSAL''] shiftId rows = category_value {CASH_REFUND, CASH_REVERSAL} ms"
  by (rule movementSum_held [OF assms], simp add: movement_type_text_def split: CashMovementType.split)+

lemma variance_texts: "sqlVarianceType a e = variance_type_text (variance_class (a - e))"
  by (auto simp: sqlVarianceType_def variance_type_text_def variance_class_def)

context decimal_library
begin

lemma money_Inr: "money D v f z = Inr m \<Longrightarrow> dec_syntax m \<and> scaled 4 20 (dec_value m) \<and> 0 \<le> dec_value m"
  by (auto simp: money_def catchE_def bindE_eq_Inr parse_text throwIf_eq_Inr fits_text [of _ 4 20] canonical_syntax compare_canonical
      split: option.splits json.splits sum.splits js_error.splits if_splits)

end

lemma closeShiftOperation_Inr:
  assumes "closeShiftOperation E H cx input p s = (Inr r, s')"
  shows "\<exists>shift row. selectShift (cp_shift_id p) (ax_business cx) s = Some shift \<and>
    row = closing_snapshot_row cx p shift (closingCalculation E (pg_uuid (cp_shift_id p)) (ax_business cx) (cp_created_at p)
       (sh_row_opening_cash shift) s) \<and>
    db_closing_snapshots s' = db_closing_snapshots s @ [row] \<and> r = closed_result p row \<and>
    (\<forall>x \<in> set (db_shifts s'). sf_id x = pg_uuid (cp_shift_id p) \<longrightarrow> sf_status x = ''CLOSED'')"
proof -
  from assms obtain shift row s1 where run: "selectShift (cp_shift_id p) (ax_business cx) s = Some shift"
    "row = closing_snapshot_row cx p shift (closingCalculation E (pg_uuid (cp_shift_id p)) (ax_business cx) (cp_created_at p)
       (sh_row_opening_cash shift) s)"
    "r = closed_result p row" "insertSnapshot row s = (Inr (), s1)"
    "db_shifts s' = db_shifts (snd (closeShiftRow (pg_uuid (cp_shift_id p)) (cp_created_at p) (cl_variance_type row) s1))"
    "db_closing_snapshots s' = db_closing_snapshots s1"
    unfolding closeShiftOperation_def Let_def
    by (auto simp: bindA_eq_Inr closeShiftRow_def insertException_def appendAuditEvent_def appendChange_def
        split: option.splits if_splits)
  moreover have "db_closing_snapshots s1 = db_closing_snapshots s @ [row]"
    using run(4) by (auto simp: insertSnapshot_def split: if_splits)
  moreover have "\<forall>x \<in> set (db_shifts s'). sf_id x = pg_uuid (cp_shift_id p) \<longrightarrow> sf_status x = ''CLOSED''"
    unfolding run(5) by (auto simp: closeShiftRow_def)
  ultimately show ?thesis by metis
qed

text \<open>
  C19. Server and till close a shift with the same numbers. When the server holds the ledger of the till, its
  recount of an accepted closing stores one snapshot whose expected cash, variance and class are those the domain
  ledger computes for the counted cash, the answer carries them, and the shift is closed.
\<close>

theorem closing_recount_agrees:
  assumes "decimal_library D V W" "ledger_ok ms" "\<forall>m \<in> set ms. cm_direction m = getCashMovementDirection (cm_movement_type m)"
    and run: "closeShiftCommand D E H cx input s = (Inr (False, r), s')"
    and payload: "readCloseShift D E (in_payload input) = Inr p"
    and shift: "selectShift (cp_shift_id p) (ax_business cx) s = Some shift"
      "sh_row_opening_cash shift = category_value {OPENING_BALANCE} ms"
    and held: "ledger_held (pg_uuid (cp_shift_id p)) ms (db_cash_movements s)"
  shows "\<exists>row c. calculateShiftClosing D ms (cp_actual p) = Inr c \<and>
    db_closing_snapshots s' = db_closing_snapshots s @ [row] \<and> cl_shift_id row = pg_uuid (cp_shift_id p) \<and>
    cl_expected_cash row = dec_value (sc_expected_cash c) \<and> cl_variance row = dec_value (sc_variance c) \<and>
    cl_variance_type row = variance_type_text (sc_variance_type c) \<and> r = closed_result p row \<and>
    (\<forall>x \<in> set (db_shifts s'). sf_id x = pg_uuid (cp_shift_id p) \<longrightarrow> sf_status x = ''CLOSED'')"
proof -
  from run payload have op: "executeIdempotent H cx (in_command input) (defaultFingerprint (in_command input) (close_payload_json p))
      (closeShiftOperation E H cx input p) s = (Inr (False, r), s')"
    by (auto simp: closeShiftCommand_def closeShiftGuards_def bindA_eq_Inr bindE_eq_Inr)
  from executeIdempotent_fresh [OF keeps_operations(3) op] obtain rs s2 rs'
    where run1: "closeShiftOperation E H cx input p (s\<lparr>db_idempotency_records := rs\<rparr>) = (Inr r, s2)"
    and s2: "s' = s2\<lparr>db_idempotency_records := rs'\<rparr>" by blast
  let ?s1 = "s\<lparr>db_idempotency_records := rs\<rparr>"
  have same: "selectShift i b ?s1 = selectShift i b s" for i b
    by (simp add: selectShift_def)
  from closeShiftOperation_Inr [OF run1] obtain row where row:
    "row = closing_snapshot_row cx p shift (closingCalculation E (pg_uuid (cp_shift_id p)) (ax_business cx) (cp_created_at p)
       (sh_row_opening_cash shift) ?s1)"
    "db_closing_snapshots s' = db_closing_snapshots s @ [row]" "r = closed_result p row"
    "\<forall>x \<in> set (db_shifts s'). sf_id x = pg_uuid (cp_shift_id p) \<longrightarrow> sf_status x = ''CLOSED''"
    using shift(1) unfolding same by (auto simp: s2)
  have actual: "dec_syntax (cp_actual p)" "scaled 4 20 (dec_value (cp_actual p))"
    using payload decimal_library.money_Inr [OF assms(1)] by (auto simp: readCloseShift_def bindE_eq_Inr)
  note numbers = held_categories [OF held] shift(2) expected_by_category [OF assms(3)]
    scaled_fraction [OF ledger_scaled(1) [OF assms(2)]] variance_texts
    decimal_library.actual_variance(2) [OF assms(1) actual ledger_scaled(1) [OF assms(2)]]
  have "cl_expected_cash row = expected_value ms" unfolding row(1)
    by (simp add: closing_snapshot_row_def closingCalculation_def Let_def same numbers)
  then show ?thesis
    using decimal_library.closing_text [OF assms(1,2) actual] row(2-4) numbers
    by (auto simp: row(1) closing_snapshot_row_def)
qed

text \<open>A shift opened with 100 and one cash sale of 100, counted at 150.\<close>

definition server_movement :: "char \<Rightarrow> CashMovementType \<Rightarrow> MovementTableRow" where
  "server_movement i t = \<lparr>sm_id = demo_uuid i, sm_business_id = demo_uuid (CHR ''b''), sm_location_id = demo_uuid (CHR ''1''),
     sm_terminal_id = demo_uuid (CHR ''7''), sm_shift_id = demo_uuid (CHR ''9''), sm_movement_type = movement_type_text t,
     sm_amount = 100, sm_direction = ''IN'', sm_source_type = ''SHIFT'', sm_source_id = demo_uuid (CHR ''9''), sm_reason_code = None,
     sm_notes = None, sm_occurred_at = ''1000'', sm_actor_user_id = demo_uuid (CHR ''a''), sm_device_id = Some (demo_uuid (CHR ''d'')),
     sm_correlation_id = None\<rparr>"

definition server_shift :: ShiftTableRow where
  "server_shift = \<lparr>sf_id = demo_uuid (CHR ''9''), sf_business_id = demo_uuid (CHR ''b''), sf_location_id = demo_uuid (CHR ''1''),
     sf_terminal_id = demo_uuid (CHR ''7''), sf_cashier_user_id = demo_uuid (CHR ''a''), sf_shift_number = ''S-1'', sf_status = ''OPEN'',
     sf_opening_cash = 100, sf_opened_at = ''1000'', sf_closing_started_at = None, sf_closed_at = None, sf_review_status = ''UNREVIEWED''\<rparr>"

definition server_till :: CashDb where
  "server_till = ApiDb.extend server_db \<lparr>db_shifts = [server_shift],
     db_cash_movements = [server_movement (CHR ''3'') OPENING_BALANCE, server_movement (CHR ''4'') CASH_SALE],
     db_closing_snapshots = [], db_reconciliations = [], db_business_exceptions = [], db_sale_statuses = [], db_refunds = []\<rparr>"

definition close_payload :: json where
  "close_payload = JObj [(''actual_cash'', JStr ''150''), (''created_at'', JStr ''4000''), (''id'', JStr (demo_uuid (CHR ''8''))),
     (''location_id'', JStr (demo_uuid (CHR ''1''))), (''shift_id'', JStr (demo_uuid (CHR ''9''))), (''variance_reason'', JStr ''salah'')]"

definition close_input :: CashCommandInput where
  "close_input = \<lparr>in_command = \<lparr>ci_command_id = demo_uuid (CHR ''8''), ci_command_type = ''cash.shift.close'',
       ci_correlation_id = demo_uuid (CHR ''6''), ci_location_id = Some (demo_uuid (CHR ''1'')), ci_occurred_at = ''4000''\<rparr>,
     in_command_authorization_version = 1, in_device_id = demo_uuid (CHR ''d''), in_payload = Some close_payload\<rparr>"

definition close_read :: CloseShiftPayload where
  "close_read = \<lparr>cp_actual = ''150'', cp_created_at = ''4000'', cp_id = demo_uuid (CHR ''8''), cp_location_id = demo_uuid (CHR ''1''),
     cp_shift_id = demo_uuid (CHR ''9''), cp_reason = Some ''salah''\<rparr>"

definition close_selected :: ShiftRow where
  "close_selected = \<lparr>sh_cashier_user = demo_uuid (CHR ''a''), sh_row_closed_at = None, sh_row_location = demo_uuid (CHR ''1''),
     sh_opening_device = Some (demo_uuid (CHR ''d'')), sh_row_opening_cash = 100, sh_row_status = ''OPEN'',
     sh_row_terminal = demo_uuid (CHR ''7'')\<rparr>"

lemma close_steps:
  "readCloseShift ref_ops clock_env (in_payload close_input) = Inr close_read"
  "closeShiftGuards ref_ops clock_env server_context close_input = Inr close_read"
  "selectShift (cp_shift_id close_read) (ax_business server_context) server_till = Some close_selected"
  "assertShiftAuthority server_context close_input close_selected = Inr ()"
  "sh_row_location close_selected = cp_location_id close_read" "sh_row_status close_selected = ''OPEN''"
  "pg_uuid (cp_shift_id close_read) = demo_uuid (CHR ''9'')"
  by code_simp+

lemma close_calculated:
  "closingCalculation clock_env (demo_uuid (CHR ''9'')) b t 100 server_till = \<lparr>cc_cash_sales = 100, cc_cash_in = 0, cc_cash_out = 0,
     cc_cash_refunds = 0, cc_expected_cash = 200, cc_transaction_count = 0, cc_void_count = 0, cc_refund_count = 0\<rparr>"
  by (simp add: closingCalculation_def movementSum_def server_till_def ApiDb.defs server_movement_def movement_type_text_def)

lemma numeric_20_4_int: "\<bar>n\<bar> < 10 ^ 16 \<Longrightarrow> numeric_20_4 (of_int n) = Inr (of_int n)"
proof -
  assume n: "\<bar>n\<bar> < 10 ^ 16"
  have floor: "\<lfloor>\<bar>of_int n :: rat\<bar> * 10000 + 1 / 2\<rfloor> = \<bar>n\<bar> * 10000" by (rule floor_unique) simp_all
  have restored: "(of_int (\<bar>n\<bar> * 10000) :: rat) / 10000 = of_int \<bar>n\<bar>" by simp
  have sign: "(if of_int n < (0 :: rat) then - of_int \<bar>n\<bar> else of_int \<bar>n\<bar>) = (of_int n :: rat)" by simp
  have "\<bar>of_int n :: rat\<bar> < 10 ^ 16" using n by (metis of_int_abs of_int_less_iff of_int_numeral of_int_power)
  then show ?thesis unfolding numeric_20_4_def Let_def floor restored sign by simp
qed

lemma close_operates:
  "\<exists>r s'. closeShiftOperation clock_env server_host server_context close_input close_read (server_till\<lparr>db_idempotency_records := rs\<rparr>) = (Inr r, s')"
proof -
  have same: "selectShift i b (server_till\<lparr>db_idempotency_records := rs\<rparr>) = selectShift i b server_till"
    "closingCalculation E i b t q (server_till\<lparr>db_idempotency_records := rs\<rparr>) = closingCalculation E i b t q server_till" for E i b t q
    by (simp_all add: selectShift_def closingCalculation_def)
  have empty: "db_closing_snapshots server_till = []" by (simp add: server_till_def ApiDb.defs)
  have texts: "dec_value ''150'' = 150" "sh_row_opening_cash close_selected = 100" "cp_actual close_read = ''150''"
    by (code_simp, simp_all add: close_selected_def close_read_def)
  have nums: "numeric_20_4 0 = Inr 0" "numeric_20_4 100 = Inr 100" "numeric_20_4 150 = Inr 150" "numeric_20_4 200 = Inr 200"
    "numeric_20_4 (- 50) = Inr (- 50)"
    using numeric_20_4_int [of 0] numeric_20_4_int [of 100] numeric_20_4_int [of 150] numeric_20_4_int [of 200]
      numeric_20_4_int [of "- 50"] by simp_all
  show ?thesis
    by (simp add: closeShiftOperation_def bindA_def close_steps same texts close_calculated snapshotFits_def closing_snapshot_row_def
        nums insertSnapshot_def closeShiftRow_def insertException_def appendAuditEvent_def appendChange_def sqlVarianceType_def
        throwIf_def empty Let_def)
qed

theorem closing_recount_agrees_witness:
  "\<exists>r s' c. closeShiftCommand ref_ops clock_env server_host server_context close_input server_till = (Inr (False, r), s') \<and>
     calculateShiftClosing ref_ops demo_ledger ''150'' = Inr c \<and>
     map cl_expected_cash (db_closing_snapshots s') = [dec_value (sc_expected_cash c)] \<and>
     map cl_variance_type (db_closing_snapshots s') = [variance_type_text (sc_variance_type c)]"
proof -
  have new: "idempotencyRecord k server_till = None" for k
    by (simp add: idempotencyRecord_def server_till_def ApiDb.defs server_db_def)
  have commit: "sv_commit server_host t = None" for t :: CashDb by (simp add: server_host_def)
  obtain r s' where run: "closeShiftCommand ref_ops clock_env server_host server_context close_input server_till = (Inr (False, r), s')"
    using executeIdempotent_runs [where op = "closeShiftOperation clock_env server_host server_context close_input close_read",
      OF new close_operates commit] by (simp add: closeShiftCommand_def close_steps) blast
  have amount: "dec_value ''100'' = 100" by code_simp
  have "category_value {OPENING_BALANCE} demo_ledger = 100"
    by (simp add: category_value_def demo_ledger_def demo_movement_def amount)
  moreover have "ledger_held (pg_uuid (cp_shift_id close_read)) demo_ledger (db_cash_movements server_till)"
    by (simp add: ledger_held_def close_steps server_till_def ApiDb.defs server_movement_def demo_ledger_def demo_movement_def amount)
  moreover have "\<forall>m \<in> set demo_ledger. cm_direction m = getCashMovementDirection (cm_movement_type m)"
    by (simp add: demo_ledger_def demo_movement_def)
  moreover have "db_closing_snapshots server_till = []" by (simp add: server_till_def ApiDb.defs)
  ultimately show ?thesis
    using closing_recount_agrees [OF ref.decimal_library_axioms demo_ledger_ok(2) _ run close_steps(1) close_steps(3)] run
    by (auto simp: close_selected_def close_read_def)
qed

end
