(* ===== verification/Api_Sync.thy ===== *)
theory Api_Sync
  imports Api_Cash
begin

text \<open>
  The server's side of synchronisation: the command envelope and its dispatch (\<open>apps/api/src/commands.ts\<close>), and push, pull
  and acknowledge (\<open>apps/api/src/sync.ts\<close>). The handlers of the cash commands are those of theory \<open>Api_Cash\<close>; the
  handlers of the other command types are a parameter, by type, with the contract \<open>idempotent_command\<close>
  where a property needs it. The dashes of the messages about sizes are written as hyphens.
\<close>

section \<open>Commands\<close>

record CommandEnvelope =
  ev_authorization_version :: int
  ev_command :: CommandIdentity
  ev_device_id :: string
  ev_offline_authorization :: "json option"
  ev_payload :: "json option"

definition readCommandEnvelope :: "js_env \<Rightarrow> json \<Rightarrow> string \<Rightarrow> CommandEnvelope result" where
  "readCommandEnvelope E v field =
     bindE (objectValue (Some v) field) (\<lambda>row.
     bindE (integerValue (jget row ''schema_version'') (field @ ''.schema_version'') 1) (\<lambda>schemaVersion.
     bindE (throwIf (schemaVersion \<noteq> 1)
        (ApiError 409 ''COMMAND_SCHEMA_UNSUPPORTED'' ''Versi schema command tidak didukung.'' [])) (\<lambda>_.
     bindE (if jget row ''location_id'' = None \<or> jget row ''location_id'' = Some JNull then Inr None
            else bindE (uuidValue (jget row ''location_id'') (field @ ''.location_id'')) (\<lambda>l. Inr (Some l))) (\<lambda>locationId.
     bindE (throwIf (case jget row ''offline_authorization'' of None \<Rightarrow> False | Some g \<Rightarrow> \<not> isOfflineAuthorizationGrant g)
        (ApiError 400 ''OFFLINE_AUTHORIZATION_INVALID'' ''Bukti otorisasi offline command tidak valid.'' [])) (\<lambda>_.
     bindE (integerValue (jget row ''authorization_version'') (field @ ''.authorization_version'') 1) (\<lambda>version.
     bindE (uuidValue (jget row ''command_id'') (field @ ''.command_id'')) (\<lambda>commandId.
     bindE (stringValue (jget row ''command_type'') (field @ ''.command_type'')) (\<lambda>commandType.
     bindE (uuidValue (jget row ''correlation_id'') (field @ ''.correlation_id'')) (\<lambda>correlation.
     bindE (timestampValue E (jget row ''occurred_at'') (field @ ''.occurred_at'')) (\<lambda>occurredAt.
     bindE (uuidValue (jget row ''device_id'') (field @ ''.device_id'')) (\<lambda>device.
     Inr \<lparr>ev_authorization_version = version,
          ev_command = \<lparr>ci_command_id = commandId, ci_command_type = commandType, ci_correlation_id = correlation,
             ci_location_id = locationId, ci_occurred_at = occurredAt\<rparr>,
          ev_device_id = device, ev_offline_authorization = jget row ''offline_authorization'',
          ev_payload = jget row ''payload''\<rparr>)))))))))))"

definition other_command_types :: "string list" where
  "other_command_types = [''sales.complete'', ''purchasing.purchase.create'', ''purchasing.receive_goods'',
     ''purchasing.invoice.upsert'', ''purchasing.purchase.post'', ''pricing.proposal.create'', ''pricing.proposal.submit'',
     ''pricing.proposal.approve'', ''pricing.promotion.publish'', ''inventory.adjust'', ''inventory.opname.create'',
     ''inventory.opname.count'', ''inventory.opname.recount'', ''inventory.opname.review'', ''inventory.opname.post'',
     ''returns.complete'', ''returns.refund.retry'', ''returns.refund.resolve'', ''returns.refund.reverse'']"

type_synonym 'x handler = "AuthenticatedRequestContext \<Rightarrow> CashCommandInput \<Rightarrow> ('x CashDb_scheme, bool \<times> json) act"

definition command_input :: "CommandEnvelope \<Rightarrow> CashCommandInput" where
  "command_input envelope = \<lparr>in_command = ev_command envelope,
     in_command_authorization_version = ev_authorization_version envelope, in_device_id = ev_device_id envelope,
     in_payload = ev_payload envelope\<rparr>"

definition dispatchCommand ::
  "'d decimal_ops \<Rightarrow> js_env \<Rightarrow> 'x CashDb_scheme api_host \<Rightarrow> (string \<Rightarrow> 'x handler) \<Rightarrow> AuthenticatedRequestContext \<Rightarrow>
   CommandEnvelope \<Rightarrow> ('x CashDb_scheme, bool \<times> json) act" where
  "dispatchCommand D E H others cx envelope =
     (let ty = ci_command_type (ev_command envelope); input = command_input envelope in
      if ty = ''cash.shift.open'' then openShiftCommand D E H cx input
      else if ty = ''cash.movement.record'' then recordCashMovementCommand D E H cx input
      else if ty = ''cash.shift.close'' then closeShiftCommand D E H cx input
      else if ty \<in> set other_command_types then others ty cx input
      else throwA (ApiError 400 ''COMMAND_TYPE_UNSUPPORTED'' (''Command type '' @ ty @ '' tidak didukung.'') []))"

definition executeOnlineCommand ::
  "'d decimal_ops \<Rightarrow> js_env \<Rightarrow> 'x CashDb_scheme api_host \<Rightarrow> (string \<Rightarrow> 'x handler) \<Rightarrow> HttpRequest \<Rightarrow>
   AuthenticatedRequestContext \<Rightarrow> ('x CashDb_scheme, json) act" where
  "executeOnlineCommand D E H others request cx =
     bindA (liftA (readJsonObject request)) (\<lambda>body.
     bindA (liftA (readCommandEnvelope E (JObj body) ''command'')) (\<lambda>envelope.
     let key = header_get ''idempotency-key'' (hq_headers request) in
     bindA (liftA (throwIf (key = None \<or> key = Some [])
        (ApiError 400 ''IDEMPOTENCY_KEY_REQUIRED'' ''Header Idempotency-Key wajib diisi.'' []))) (\<lambda>_.
     bindA (liftA (throwIf (key \<noteq> Some (ci_command_id (ev_command envelope)))
        (ApiError 409 ''IDEMPOTENCY_KEY_MISMATCH'' ''Idempotency-Key harus sama dengan command_id.'' []))) (\<lambda>_.
     bindA (requireActiveBusinessDevice cx (ev_device_id envelope)) (\<lambda>_.
     bindA (dispatchCommand D E H others cx envelope) (\<lambda>(replayed, result).
     bindA (liftA (objectValue (Some result) ''command result'')) (\<lambda>members.
     retA (JObj [(''command_id'', JStr (ci_command_id (ev_command envelope))),
        (''result'', JObj (map_set ''replayed'' (JBool replayed) members)),
        (''server_time'', JStr (toISOString E (sv_now H)))]))))))))"

section \<open>Push\<close>

definition classifyError :: "js_error \<Rightarrow> string" where
  "classifyError e = (case e of
     ApiError status _ _ _ \<Rightarrow>
       if status = 401 \<or> status = 403 then ''REJECTED_PERMISSION''
       else if status = 409 then ''REJECTED_CONFLICT''
       else if status \<ge> 500 then ''REJECTED_RETRYABLE''
       else if status = 400 \<or> status = 404 \<or> status = 415 then ''REJECTED_VALIDATION''
       else ''REJECTED_FINAL''
   | _ \<Rightarrow> ''REJECTED_RETRYABLE'')"

definition ONLINE_ONLY_COMMANDS :: "string list" where
  "ONLINE_ONLY_COMMANDS = [''purchasing.purchase.post'', ''pricing.proposal.approve'', ''pricing.promotion.publish'']"

definition OFFLINE_SAFE_FACT_COMMANDS :: "string list" where
  "OFFLINE_SAFE_FACT_COMMANDS = [''cash.shift.open'', ''cash.movement.record'', ''cash.shift.close'', ''sales.complete'']"

definition commandAuthorizationContext ::
  "js_env \<Rightarrow> 'x CashDb_scheme api_host \<Rightarrow> ApiEnvironment \<Rightarrow> AuthenticatedRequestContext \<Rightarrow> CommandEnvelope \<Rightarrow> bool \<Rightarrow>
   (AuthenticatedRequestContext \<times> bool) result" where
  "commandAuthorizationContext E H environment current envelope recovery =
     (if \<not> (recovery \<or> ev_authorization_version envelope \<noteq> ax_version current \<or> ev_offline_authorization envelope \<noteq> None)
      then Inr (current, False)
      else case ev_offline_authorization envelope of
        None \<Rightarrow> Inl (ApiError 403 ''OFFLINE_RECOVERY_NOT_ALLOWED''
          ''Command bukan fakta offline-safe atau tidak memiliki bukti otorisasi.'' [])
      | Some v \<Rightarrow>
          let grant = grant_of v;
              occurredAt = dateParse E (ci_occurred_at (ev_command envelope));
              issuedAt = dateParse E (og_issued_at grant);
              validUntil = dateParse E (og_offline_valid_until grant) in
          bindE (throwIf (ci_command_type (ev_command envelope) \<notin> set OFFLINE_SAFE_FACT_COMMANDS)
            (ApiError 403 ''OFFLINE_RECOVERY_NOT_ALLOWED''
              ''Command bukan fakta offline-safe atau tidak memiliki bukti otorisasi.'' [])) (\<lambda>_.
          bindE (throwIf (ev_authorization_version envelope \<noteq> og_authorization_version grant \<or>
              ev_device_id envelope \<noteq> og_device_id grant \<or>
              (ci_location_id (ev_command envelope) \<noteq> None \<and>
               ci_location_id (ev_command envelope) \<noteq> Some (og_default_location_id grant)) \<or>
              occurredAt = None \<or> issuedAt = None \<or> validUntil = None \<or>
              the occurredAt < the issuedAt \<or> the occurredAt > the validUntil)
            (ApiError 403 ''OFFLINE_AUTHORIZATION_SCOPE_MISMATCH''
              ''Command berada di luar scope/waktu bukti otorisasi offline.'' [])) (\<lambda>_.
          bindE (contextForOfflineGrant E H environment current v) (\<lambda>cx.
          Inr (cx, recovery \<or> ev_authorization_version envelope \<noteq> ax_version current)))))"

record PushResult =
  pu_command_id :: string
  pu_error :: "(string \<times> string) option"
  pu_result :: "json option"
  pu_warnings :: "string list option"
  pu_status :: string

text \<open>A \<open>Set\<close> of texts: each once, in the order of insertion.\<close>

definition set_add :: "'a list \<Rightarrow> 'a \<Rightarrow> 'a list" where
  "set_add xs x = (if x \<in> set xs then xs else xs @ [x])"

definition outcomeWarnings :: "json \<Rightarrow> string list" where
  "outcomeWarnings result = (case result of
     JObj ms \<Rightarrow> (case jget ms ''warnings'' of
        Some (JArr ws) \<Rightarrow> foldl set_add [] [s. JStr s \<leftarrow> ws]
      | _ \<Rightarrow> [])
   | _ \<Rightarrow> [])"

definition acceptedResult :: "string \<Rightarrow> bool \<Rightarrow> json \<Rightarrow> bool \<Rightarrow> PushResult result" where
  "acceptedResult commandId replayed result staleReview =
     (let warnings = (if staleReview then set_add (outcomeWarnings result) ''AUTHORIZATION_STALE_EXCEPTION'' else outcomeWarnings result);
          hasReview = (warnings \<noteq> []) in
      bindE (objectValue (Some result) ''command result'') (\<lambda>members.
      let ms = map_set ''replayed'' (JBool replayed) members in
      Inr \<lparr>pu_command_id = commandId, pu_error = None,
           pu_result = Some (JObj (if hasReview then map_set ''warnings'' (JArr (map JStr warnings)) ms else ms)),
           pu_warnings = (if hasReview then Some warnings else None),
           pu_status = (if hasReview then ''ACCEPTED_WITH_REVIEW'' else ''ACCEPTED'')\<rparr>))"

definition rejectedResult :: "string \<Rightarrow> js_error \<Rightarrow> PushResult" where
  "rejectedResult commandId e = (let apiError = normalizeApiError e in
     \<lparr>pu_command_id = commandId, pu_error = Some (api_code apiError, api_message apiError), pu_result = None,
      pu_warnings = None, pu_status = classifyError apiError\<rparr>)"

text \<open>The body of the loop over the commands: the \<open>try\<close> block, and the \<open>catch\<close> that answers for it.\<close>

definition tryCommand ::
  "'d decimal_ops \<Rightarrow> js_env \<Rightarrow> 'x CashDb_scheme api_host \<Rightarrow> (string \<Rightarrow> 'x handler) \<Rightarrow> ApiEnvironment \<Rightarrow> bool \<Rightarrow>
   AuthenticatedRequestContext \<Rightarrow> CommandEnvelope \<Rightarrow> ('x CashDb_scheme, PushResult) act" where
  "tryCommand D E H others environment recovery cx envelope =
     bindA (liftA (throwIf (ci_command_type (ev_command envelope) \<in> set ONLINE_ONLY_COMMANDS)
        (ApiError 409 ''ONLINE_REQUIRED'' ''Command ini harus dijalankan melalui endpoint online authoritative.'' []))) (\<lambda>_.
     bindA (liftA (commandAuthorizationContext E H environment cx envelope recovery)) (\<lambda>(acx, staleReview).
     bindA (dispatchCommand D E H others acx envelope) (\<lambda>(replayed, result).
     liftA (acceptedResult (ci_command_id (ev_command envelope)) replayed result staleReview))))"

definition runCommand ::
  "'d decimal_ops \<Rightarrow> js_env \<Rightarrow> 'x CashDb_scheme api_host \<Rightarrow> (string \<Rightarrow> 'x handler) \<Rightarrow> ApiEnvironment \<Rightarrow> bool \<Rightarrow>
   AuthenticatedRequestContext \<Rightarrow> CommandEnvelope \<Rightarrow> 'x CashDb_scheme \<Rightarrow> PushResult \<times> 'x CashDb_scheme" where
  "runCommand D E H others environment recovery cx envelope s =
     (case tryCommand D E H others environment recovery cx envelope s of
        (Inr r, s') \<Rightarrow> (r, s')
      | (Inl e, s') \<Rightarrow> (rejectedResult (ci_command_id (ev_command envelope)) e, s'))"

fun runCommands :: "(CommandEnvelope \<Rightarrow> 's \<Rightarrow> PushResult \<times> 's) \<Rightarrow> CommandEnvelope list \<Rightarrow> 's \<Rightarrow> PushResult list \<times> 's" where
  "runCommands run [] s = ([], s)"
| "runCommands run (e # es) s =
     (let (r, s') = run e s; (rs, s'') = runCommands run es s' in (r # rs, s''))"

definition push_result_json :: "PushResult \<Rightarrow> json" where
  "push_result_json r = JObj ([(''command_id'', JStr (pu_command_id r))] @
     (case pu_error r of None \<Rightarrow> [] | Some (c, m) \<Rightarrow> [(''error'', JObj [(''code'', JStr c), (''message'', JStr m)])]) @
     (case pu_result r of None \<Rightarrow> [] | Some j \<Rightarrow> [(''result'', j)]) @
     [(''status'', JStr (pu_status r))] @
     (case pu_warnings r of None \<Rightarrow> [] | Some ws \<Rightarrow> [(''warnings'', JArr (map (\<lambda>c. JObj [(''code'', JStr c)]) ws))]))"

definition latestCursor :: "string \<Rightarrow> 'x ApiDb_scheme \<Rightarrow> nat" where
  "latestCursor businessId db = foldl max 0 (map cf_sequence (filter (\<lambda>r. cf_business_id r = businessId) (db_change_feed db)))"

definition isAccepted :: "PushResult \<Rightarrow> bool" where
  "isAccepted r = (pu_status r = ''ACCEPTED'' \<or> pu_status r = ''ACCEPTED_WITH_REVIEW'')"

definition push_response ::
  "js_env \<Rightarrow> 'x ApiDb_scheme api_host \<Rightarrow> string \<Rightarrow> nat \<Rightarrow> PushResult list \<Rightarrow> json" where
  "push_response E H batchId cursor results =
     (let accepted = map pu_command_id (filter isAccepted results);
          rejected = filter (\<lambda>r. pu_command_id r \<notin> set accepted) results in
      JObj [(''accepted_commands'', JArr (map JStr accepted)), (''batch_id'', JStr batchId),
        (''latest_cursor'', JStr (nat_digits cursor)),
        (''rejected_commands'', JArr (map (\<lambda>r. JObj [(''command_id'', JStr (pu_command_id r)),
           (''error_code'', JStr (case pu_error r of None \<Rightarrow> ''COMMAND_REJECTED'' | Some (c, _) \<Rightarrow> c)),
           (''message'', JStr (case pu_error r of None \<Rightarrow> ''Command ditolak.'' | Some (_, m) \<Rightarrow> m))]) rejected)),
        (''results'', JArr (map push_result_json results)), (''server_time'', JStr (toISOString E (sv_now H)))])"

text \<open>The guard loop over the batch: no command twice, and only from an active device of the session.\<close>

definition checkEnvelope ::
  "bool \<Rightarrow> AuthenticatedRequestContext \<Rightarrow> string list \<Rightarrow> CommandEnvelope \<Rightarrow> ('x ApiDb_scheme, string list) act" where
  "checkEnvelope recovery cx seen envelope =
     bindA (liftA (throwIf (ci_command_id (ev_command envelope) \<in> set seen)
        (ApiError 400 ''DUPLICATE_COMMAND_IN_BATCH'' ''command_id duplikat dalam batch.'' []))) (\<lambda>_.
     bindA (if recovery then retA () else requireActiveBusinessDevice cx (ev_device_id envelope)) (\<lambda>_.
     retA (seen @ [ci_command_id (ev_command envelope)])))"

fun checkEnvelopes ::
  "bool \<Rightarrow> AuthenticatedRequestContext \<Rightarrow> string list \<Rightarrow> CommandEnvelope list \<Rightarrow> ('x ApiDb_scheme, unit) act" where
  "checkEnvelopes recovery cx seen [] = retA ()"
| "checkEnvelopes recovery cx seen (e # es) =
     bindA (checkEnvelope recovery cx seen e) (\<lambda>seen'. checkEnvelopes recovery cx seen' es)"

definition readCommands :: "js_env \<Rightarrow> json list \<Rightarrow> CommandEnvelope list result" where
  "readCommands E commands =
     mapE (\<lambda>(i, command). readCommandEnvelope E command (''commands['' @ nat_digits i @ '']'')) (enumerate 0 commands)"

definition readPush :: "js_env \<Rightarrow> HttpRequest \<Rightarrow> (string \<times> CommandEnvelope list) result" where
  "readPush E request =
     bindE (readJsonObject request) (\<lambda>body.
     bindE (uuidValue (jget body ''batch_id'') ''batch_id'') (\<lambda>batchId.
     bindE (integerValue (jget body ''client_schema_version'') ''client_schema_version'' 1) (\<lambda>version.
     bindE (throwIf (version \<noteq> 1) (ApiError 409 ''CLIENT_SCHEMA_UNSUPPORTED'' ''Versi schema client tidak didukung.'' [])) (\<lambda>_.
     bindE (arrayValue (jget body ''commands'') ''commands'') (\<lambda>rows.
     bindE (readCommands E rows) (\<lambda>commands.
     bindE (throwIf (length commands = 0 \<or> length commands > 50)
        (ApiError 400 ''BATCH_SIZE_INVALID'' ''Batch harus berisi 1-50 command.'' [])) (\<lambda>_.
     Inr (batchId, commands))))))))"

definition push ::
  "'d decimal_ops \<Rightarrow> js_env \<Rightarrow> 'x CashDb_scheme api_host \<Rightarrow> (string \<Rightarrow> 'x handler) \<Rightarrow> ApiEnvironment \<Rightarrow> bool \<Rightarrow>
   HttpRequest \<Rightarrow> AuthenticatedRequestContext \<Rightarrow> ('x CashDb_scheme, json) act" where
  "push D E H others environment recovery request cx =
     bindA (liftA (requirePermission cx ''workspace.pos.access'')) (\<lambda>_.
     bindA (liftA (readPush E request)) (\<lambda>(batchId, commands).
     bindA (checkEnvelopes recovery cx [] commands) (\<lambda>_.
     \<lambda>s. let (results, s') = runCommands (runCommand D E H others environment recovery cx) commands s in
         (Inr (push_response E H batchId (latestCursor (ax_business cx) s') results), s'))))"

section \<open>Pull\<close>

text \<open>\<open>iso\<close>, of a time column; \<open>new Date(text).toISOString()\<close> of an unreadable text throws.\<close>

definition iso :: "js_env \<Rightarrow> string \<Rightarrow> string result" where
  "iso E t = (case dateParse E t of None \<Rightarrow> Inl (JsError ''RangeError'') | Some u \<Rightarrow> Inr (toISOString E u))"

definition supportedProjectionTypes :: "string list" where
  "supportedProjectionTypes = [''authorization'', ''barcode'', ''payment_method'', ''product'', ''product_unit'', ''promotion'',
     ''published_retail_price'', ''stock_balance'']"

definition supportedEventTypes :: "string list" where
  "supportedEventTypes = [''cash_movement'', ''cash_shift'', ''sales_transaction'']"

definition visibleChange :: "ChangeFeedRow \<Rightarrow> bool" where
  "visibleChange row =
     (if cf_change_type row = ''EVENT'' then cf_entity_type row \<in> set supportedEventTypes
      else cf_entity_type row \<in> set supportedProjectionTypes)"

text \<open>A member whose value is \<open>undefined\<close> is left out of the JSON text.\<close>

definition pick :: "string list \<Rightarrow> (string \<times> json) list \<Rightarrow> (string \<times> json) list" where
  "pick keys ms = List.map_filter (\<lambda>k. map_option (Pair k) (jget ms k)) keys"

definition change_payload :: "ChangeFeedRow \<Rightarrow> json" where
  "change_payload row = (case cf_payload row of
     JObj ms \<Rightarrow>
       if cf_entity_type row = ''sales_transaction''
       then JObj (pick [''grand_total'', ''location_id'', ''occurred_at'', ''status'', ''transaction_id'', ''transaction_number''] ms)
       else JObj ms
   | j \<Rightarrow> j)"

definition change_json :: "js_env \<Rightarrow> ChangeFeedRow \<Rightarrow> json result" where
  "change_json E row = bindE (iso E (cf_occurred_at row)) (\<lambda>occurredAt.
     Inr (JObj [(''change_type'', JStr (cf_change_type row)), (''entity_id'', JStr (cf_entity_id row)),
       (''entity_type'', JStr (cf_entity_type row)),
       (''entity_version'', case cf_entity_version row of None \<Rightarrow> JNull | Some v \<Rightarrow> JStr v),
       (''occurred_at'', JStr occurredAt), (''payload'', change_payload row),
       (''sequence'', JStr (nat_digits (cf_sequence row)))]))"

text \<open>\<open>$n::bigint\<close> of a text of digits.\<close>

definition pg_bigint :: "string \<Rightarrow> nat result" where
  "pg_bigint s = (if digits_val s < 2 ^ 63 then Inr (digits_val s) else Inl (DatabaseError ''22003'' None))"

text \<open>The rows of a business that a location may see behind a cursor, in the order of the feed.\<close>

definition changesAfter :: "string \<Rightarrow> string \<Rightarrow> nat \<Rightarrow> 'x ApiDb_scheme \<Rightarrow> ChangeFeedRow list" where
  "changesAfter businessId locationId cursor db = sort_key cf_sequence (filter (\<lambda>r. cf_business_id r = businessId \<and>
     cf_sequence r > cursor \<and> (cf_location_id r = None \<or> cf_location_id r = Some locationId)) (db_change_feed db))"

text \<open>\<open>url.searchParams\<close> is the list of its pairs.\<close>

definition pull ::
  "js_env \<Rightarrow> 'x ApiDb_scheme api_host \<Rightarrow> AuthenticatedRequestContext \<Rightarrow> (string \<times> string) list \<Rightarrow> ('x ApiDb_scheme, json) act" where
  "pull E H cx searchParams =
     bindA (liftA (requirePermission cx ''workspace.pos.access'')) (\<lambda>_.
     let cursor = (case map_of searchParams ''cursor'' of None \<Rightarrow> ''0'' | Some c \<Rightarrow> c) in
     bindA (liftA (throwUnless (all_digits cursor) (ApiError 400 ''CURSOR_INVALID'' ''Cursor Sync tidak valid.'' []))) (\<lambda>_.
     bindA (liftA (parsePositiveInteger (map_of searchParams ''limit'') 500 1000)) (\<lambda>limit.
     bindA (liftA (pg_bigint cursor)) (\<lambda>after.
     bindA (readA (\<lambda>db. take (limit + 1) (changesAfter (ax_business cx) (ax_location cx) after db))) (\<lambda>rows.
     let hasMore = length rows > limit;
         selected = (if hasMore then take limit rows else rows) in
     bindA (liftA (mapE (change_json E) (filter visibleChange selected))) (\<lambda>changes.
     retA (JObj [(''changes'', JArr changes), (''has_more'', JBool hasMore),
       (''next_cursor'', JStr (if selected = [] then cursor else nat_digits (cf_sequence (last selected)))),
       (''server_time'', JStr (toISOString E (sv_now H)))])))))))"

section \<open>Acknowledge\<close>

definition upsertAck :: "int \<Rightarrow> string \<Rightarrow> string \<Rightarrow> nat \<Rightarrow> ('x ApiDb_scheme, unit) act" where
  "upsertAck now businessId deviceId sequence db =
     (let same = (\<lambda>r. ds_business_id r = businessId \<and> ds_device_id r = pg_uuid deviceId) in
      (Inr (), db\<lparr>db_device_sync_states :=
        (if list_ex same (db_device_sync_states db)
         then map (\<lambda>r. if same r then r\<lparr>ds_last_ack_sequence := max (ds_last_ack_sequence r) sequence, ds_last_pull_at := now,
                ds_last_success_at := now, ds_updated_at := now\<rparr> else r) (db_device_sync_states db)
         else db_device_sync_states db @ [\<lparr>ds_business_id = businessId, ds_device_id = pg_uuid deviceId,
                ds_last_ack_sequence = sequence, ds_last_pull_at = now, ds_last_success_at = now, ds_updated_at = now\<rparr>])\<rparr>))"

definition acknowledge ::
  "'x ApiDb_scheme api_host \<Rightarrow> HttpRequest \<Rightarrow> AuthenticatedRequestContext \<Rightarrow> ('x ApiDb_scheme, json) act" where
  "acknowledge H request cx =
     bindA (liftA (requirePermission cx ''workspace.pos.access'')) (\<lambda>_.
     bindA (liftA (readJsonObject request)) (\<lambda>body.
     bindA (liftA (uuidValue (jget body ''device_id'') ''device_id'')) (\<lambda>deviceId.
     bindA (liftA (stringValue (jget body ''last_applied_sequence'') ''last_applied_sequence'')) (\<lambda>sequence.
     bindA (liftA (throwUnless (all_digits sequence) (ApiError 400 ''CURSOR_INVALID'' ''Cursor ACK tidak valid.'' []))) (\<lambda>_.
     bindA (requireActiveBusinessDevice cx deviceId) (\<lambda>_.
     bindA (readA (latestCursor (ax_business cx))) (\<lambda>latest.
     bindA (liftA (throwIf (digits_val sequence > latest)
        (ApiError 409 ''CURSOR_AHEAD_OF_SERVER'' ''Cursor ACK melebihi server.'' []))) (\<lambda>_.
     bindA (liftA (pg_bigint sequence)) (\<lambda>n.
     bindA (upsertAck (sv_now H) (ax_business cx) deviceId n) (\<lambda>_.
     retA (JObj [(''acknowledged_cursor'', JStr sequence), (''device_id'', JStr deviceId)])))))))))))"

section \<open>Recovery\<close>

definition routeRecoveryPush ::
  "'d decimal_ops \<Rightarrow> js_env \<Rightarrow> 'x CashDb_scheme api_host \<Rightarrow> (string \<Rightarrow> 'x handler) \<Rightarrow> (string \<Rightarrow> string option) \<Rightarrow>
   ApiEnvironment \<Rightarrow> HttpRequest \<Rightarrow> ('x CashDb_scheme, ApiResponse) act" where
  "routeRecoveryPush D E H others decode environment request =
     bindA (liftA (readJsonObject request)) (\<lambda>body.
     bindA (liftA (arrayValue (jget body ''commands'') ''commands'')) (\<lambda>commands.
     case commands of
       [] \<Rightarrow> throwA (ApiError 400 ''BATCH_SIZE_INVALID'' ''Batch recovery tidak boleh kosong.'' [])
     | firstCommand # _ \<Rightarrow>
         bindA (liftA (uuidValue (jget body ''batch_id'') ''batch_id'')) (\<lambda>batchId.
         bindA (liftA (stringValue (jget body ''recovery_reason'') ''recovery_reason'')) (\<lambda>reason.
         let recoveryReason = js_trim reason in
         bindA (liftA (throwIf (length recoveryReason < 10 \<or> length recoveryReason > 500)
            (ApiError 400 ''RECOVERY_REASON_INVALID'' ''Alasan recovery wajib berisi 10-500 karakter.'' []))) (\<lambda>_.
         bindA (liftA (objectValue (Some firstCommand) ''commands[0]'')) (\<lambda>command.
         bindA (authenticateRequest E H decode environment (hq_headers request) False False) (\<lambda>approver.
         bindA (authenticateRecoveryRequest E H environment approver (jget command ''offline_authorization'')) (\<lambda>cx.
         bindA (\<lambda>db. (Inr (), db\<lparr>db_audit_events := db_audit_events db @
            [(audit_row (sv_uuid H batchId 0) approver ''OFFLINE_FACT_RECOVERY_APPROVED'' ''sync_recovery_batch'' (pg_uuid batchId)
               (toISOString E (sv_now H)) (ax_device_id cx) (Some recoveryReason)
               (Some (sv_jsonb H (JObj [(''command_count'', JNum (int (length commands))),
                  (''historical_session_id'', JStr (ax_session_id cx)),
                  (''terminal_id'', case ax_selected_terminal_id cx of None \<Rightarrow> JNull | Some t \<Rightarrow> JStr t)])))
               (pg_uuid batchId))\<lparr>av_location_id := Some (ax_location cx)\<rparr>]\<rparr>)) (\<lambda>_.
         bindA (push D E H others environment True request cx) (\<lambda>result.
         retA (api_json result 200 [] (Some (hq_headers request, en_allowed_origins environment)))))))))))))"

end
