(* ===== verification/Sync_Protocol.thy ===== *)
theory Sync_Protocol
  imports Api_Sync
begin

text \<open>
  The two ends of the synchronisation: the answers of the server (theory \<open>Api_Sync\<close>) as the gateway of the till decodes them
  (theory \<open>Http_Gateway\<close>) and the orchestrator uses them (theory \<open>Sync_Client\<close>).
\<close>

section \<open>The guards of a push only read\<close>

definition only_reads :: "('s, 'a) act \<Rightarrow> bool" where
  "only_reads m = (\<forall>s. snd (m s) = s)"

named_theorems reading \<open>methods that only read\<close>

lemma only_readsD: "only_reads m \<Longrightarrow> m s = (x, s') \<Longrightarrow> s' = s"
  by (metis only_reads_def snd_conv)

lemma only_reads_bindA [reading]: "only_reads m \<Longrightarrow> (\<And>x. only_reads (f x)) \<Longrightarrow> only_reads (bindA m f)"
  unfolding only_reads_def bindA_def by (auto split: prod.split sum.split) (metis prod.collapse snd_conv)+

lemma only_reads_basic [reading]: "only_reads (retA x)" "only_reads (liftA r)" "only_reads (throwA e)" "only_reads (readA g)"
  by (simp_all add: only_reads_def)

lemma only_reads_cases [reading]:
  "only_reads a \<Longrightarrow> only_reads b \<Longrightarrow> only_reads (if c then a else b)"
  by simp

lemma only_reads_device [reading]: "only_reads (requireActiveBusinessDevice cx d)"
  unfolding requireActiveBusinessDevice_def by (intro reading)

lemma only_reads_envelope [reading]: "only_reads (checkEnvelope recovery cx seen e)"
  unfolding checkEnvelope_def by (intro reading)

lemma only_reads_envelopes [reading]: "only_reads (checkEnvelopes recovery cx seen es)"
  by (induction es arbitrary: seen) (auto intro!: reading)

abbreviation env_id :: "CommandEnvelope \<Rightarrow> string" where
  "env_id e \<equiv> ci_command_id (ev_command e)"

lemma checkEnvelopes_distinct:
  "checkEnvelopes recovery cx seen es s = (Inr u, s') \<Longrightarrow> distinct (map env_id es) \<and> set (map env_id es) \<inter> set seen = {}"
proof (induction es arbitrary: seen s)
  case (Cons e es)
  then obtain s1 where "env_id e \<notin> set seen" "checkEnvelopes recovery cx (seen @ [env_id e]) es s1 = (Inr u, s')"
    by (auto simp: bindA_eq_Inr checkEnvelope_def throwIf_eq_Inr)
  then show ?case using Cons.IH [of "seen @ [env_id e]" s1] by auto
qed simp

lemma push_Inr:
  assumes "push D E H others environment recovery rq cx s = (Inr answer, s')"
  obtains batchId es results where "readPush E rq = Inr (batchId, es)" "distinct (map env_id es)"
    "runCommands (runCommand D E H others environment recovery cx) es s = (results, s')"
    "answer = push_response E H batchId (latestCursor (ax_business cx) s') results"
proof -
  let ?run = "runCommand D E H others environment recovery cx"
  obtain batchId es where es: "readPush E rq = Inr (batchId, es)"
    using assms by (cases "readPush E rq") (auto simp: push_def bindA_eq_Inr)
  obtain x s1 where check: "checkEnvelopes recovery cx [] es s = (x, s1)" by fastforce
  have "requirePermission cx ''workspace.pos.access'' = Inr ()" using assms by (auto simp: push_def bindA_eq_Inr)
  then have run: "(case x of Inl e \<Rightarrow> (Inl e, s1) | Inr _ \<Rightarrow> (case runCommands ?run es s1 of (results, s') \<Rightarrow>
         (Inr (push_response E H batchId (latestCursor (ax_business cx) s') results), s'))) = (Inr answer, s')"
    using assms by (simp add: push_def es bindA_def liftA_def check)
  then have x: "x = Inr ()" by (cases x) simp_all
  have s1: "s1 = s" using check by (rule only_readsD [OF only_reads_envelopes])
  obtain results t where results: "runCommands ?run es s = (results, t)" by fastforce
  show thesis
  proof (rule that [OF es])
    show "distinct (map env_id es)" using checkEnvelopes_distinct check unfolding x by blast
    show "runCommands ?run es s = (results, s')" "answer = push_response E H batchId (latestCursor (ax_business cx) s') results"
      using run results by (auto simp: x s1)
  qed
qed

section \<open>Every command gets one answer that the till can read\<close>

definition accepted_of :: "PushResult \<Rightarrow> AcceptedSyncCommand" where
  "accepted_of r = \<lparr>ac_command_id = pu_command_id r,
     ac_status = (if pu_status r = ''ACCEPTED'' then AC_ACCEPTED else AC_ACCEPTED_WITH_REVIEW),
     ac_warnings = (case pu_warnings r of None \<Rightarrow> [] | Some ws \<Rightarrow> map (\<lambda>c. \<lparr>sw_code = c, sw_message = None, sw_severity = None\<rparr>) ws)\<rparr>"

definition rejected_of :: "PushResult \<Rightarrow> RejectedSyncCommand" where
  "rejected_of r = \<lparr>rj_command_id = pu_command_id r, rj_status = the (rejectedStatus (pu_status r)),
     rj_error_code = fst (the (pu_error r)), rj_message = snd (the (pu_error r))\<rparr>"

definition push_result_ok :: "PushResult \<Rightarrow> bool" where
  "push_result_ok r = (if isAccepted r then pu_error r = None
     else pu_error r \<noteq> None \<and> pu_warnings r = None \<and> pu_result r = None \<and> rejectedStatus (pu_status r) \<noteq> None)"

lemma acceptedResult_Inr:
  "acceptedResult i b q stale = Inr r \<Longrightarrow> isAccepted r \<and> pu_error r = None \<and> pu_command_id r = i"
  by (simp add: acceptedResult_def Let_def bindE_eq_Inr) (elim exE conjE, hypsubst, simp add: isAccepted_def)

lemma rejectedResult_ok: "push_result_ok (rejectedResult i e) \<and> \<not> isAccepted (rejectedResult i e) \<and> pu_command_id (rejectedResult i e) = i"
  by (auto simp: push_result_ok_def rejectedResult_def Let_def isAccepted_def classifyError_def rejectedStatus_def split: js_error.split)

lemma runCommand_ok:
  assumes "runCommand D E H others environment recovery cx e s = (r, s')"
  shows "push_result_ok r" "pu_command_id r = env_id e"
proof -
  have accepted: "push_result_ok y \<and> pu_command_id y = env_id e"
    if "tryCommand D E H others environment recovery cx e s = (Inr y, s1)" for y s1
  proof -
    from that obtain b q stale where "acceptedResult (env_id e) b q stale = Inr y"
      unfolding tryCommand_def bindA_eq_Inr by (auto simp: bindA_eq_Inr)
    then show ?thesis using acceptedResult_Inr by (simp add: push_result_ok_def)
  qed
  have "push_result_ok r \<and> pu_command_id r = env_id e"
    using assms accepted rejectedResult_ok by (fastforce simp: runCommand_def split: prod.splits sum.splits)
  then show "push_result_ok r" "pu_command_id r = env_id e" by auto
qed

lemma runCommands_ok:
  "runCommands (runCommand D E H others environment recovery cx) es s = (rs, s') \<Longrightarrow>
     map pu_command_id rs = map env_id es \<and> list_all push_result_ok rs"
proof (induction es arbitrary: s rs)
  case (Cons e es)
  obtain r s1 where r: "runCommand D E H others environment recovery cx e s = (r, s1)" by fastforce
  then show ?case using Cons runCommand_ok [OF r] by (auto simp: Let_def split: prod.splits)
qed simp

text \<open>The till decodes a result into exactly one verdict, the one the server gave.\<close>

lemma jget_entry [simp]:
  "jget ((k, v) # ms) k = (case jget ms k of None \<Rightarrow> Some v | w \<Rightarrow> w)"
  "k \<noteq> k' \<Longrightarrow> jget ((k, v) # ms) k' = jget ms k'" "jget [] k = None"
  by (auto simp: jget_def map_add_def map_of_append split: option.split)

lemma jget_append: "jget (ms @ ns) k = (case jget ns k of None \<Rightarrow> jget ms k | v \<Rightarrow> v)"
  by (auto simp: jget_def map_add_def split: option.split)

definition with_result :: "SyncPushBatchResult \<Rightarrow> PushResult \<Rightarrow> SyncPushBatchResult" where
  "with_result acc r = (if isAccepted r then acc\<lparr>rb_accepted := rb_accepted acc @ [accepted_of r]\<rparr>
     else acc\<lparr>rb_rejected := rb_rejected acc @ [rejected_of r]\<rparr>)"

lemma decode_warnings: "mapE decodeWarning (map (\<lambda>c. JObj [(''code'', JStr c)]) ws) =
    Inr (map (\<lambda>c. \<lparr>sw_code = c, sw_message = None, sw_severity = None\<rparr>) ws)"
  by (induction ws) (simp_all add: decodeWarning_def optionalString_def requiredString_def)

lemma richEntry_result:
  assumes "push_result_ok r"
  shows "richEntry acc (push_result_json r) = Inr (with_result acc r)"
proof (cases "isAccepted r")
  case True
  then have "pu_status r = ''ACCEPTED'' \<or> pu_status r = ''ACCEPTED_WITH_REVIEW''" by (simp add: isAccepted_def)
  then show ?thesis using True assms
    by (cases "pu_warnings r"; cases "pu_result r")
      (auto simp: richEntry_def push_result_json_def push_result_ok_def with_result_def accepted_of_def jget_append
        requiredString_def decodeWarnings_def decode_warnings)
next
  case False
  then obtain c m st where "pu_error r = Some (c, m)" "pu_warnings r = None" "pu_result r = None" "rejectedStatus (pu_status r) = Some st"
    using assms by (auto simp: push_result_ok_def)
  moreover have "pu_status r \<noteq> ''ACCEPTED''" "pu_status r \<noteq> ''ACCEPTED_WITH_REVIEW''" using False by (simp_all add: isAccepted_def)
  ultimately show ?thesis using False
    by (simp add: richEntry_def push_result_json_def with_result_def rejected_of_def requiredString_def optionalString_def)
qed

lemma richEntries:
  "list_all push_result_ok rs \<Longrightarrow> foldE richEntry acc (map push_result_json rs) = Inr (foldl with_result acc rs)"
  by (induction rs arbitrary: acc) (simp_all add: richEntry_result)

lemma with_results:
  "rb_accepted (foldl with_result acc rs) = rb_accepted acc @ map accepted_of (filter isAccepted rs)"
  "rb_rejected (foldl with_result acc rs) = rb_rejected acc @ map rejected_of (filter (\<lambda>r. \<not> isAccepted r) rs)"
  by (induction rs arbitrary: acc) (simp_all add: with_result_def)

lemma decode_push_response:
  assumes "list_all push_result_ok rs"
  shows "decodePushResponse (push_response E H b n rs) =
    Inr \<lparr>rb_accepted = map accepted_of (filter isAccepted rs), rb_rejected = map rejected_of (filter (\<lambda>r. \<not> isAccepted r) rs)\<rparr>"
proof -
  let ?acc = "\<lparr>rb_accepted = [], rb_rejected = []\<rparr> :: SyncPushBatchResult"
  have "decodePushResponse (push_response E H b n rs) = Inr (foldl with_result ?acc rs)"
    using richEntries [OF assms] by (simp add: decodePushResponse_def push_response_def Let_def normalizeRichPushResponse_def)
  then show ?thesis using with_results [of ?acc rs] by simp
qed

lemma find_distinct:
  assumes "distinct (map f xs)" "x \<in> set xs"
  shows "find (\<lambda>y. f y = f x) (filter P xs) = (if P x then Some x else None)"
proof -
  have same: "y = x" if "y \<in> set xs" "f y = f x" for y
    using assms that by (meson distinct_map inj_onD)
  show ?thesis
  proof (cases "find (\<lambda>y. f y = f x) (filter P xs)")
    case None
    then show ?thesis using assms(2) by (auto simp: find_None_iff)
  next
    case (Some y)
    then have "y \<in> set (filter P xs)" "f y = f x" by (auto simp: find_Some_iff simp del: set_filter)
    then show ?thesis using Some same by auto
  qed
qed

lemma find_of_map: "find Q (map g xs) = map_option g (find (\<lambda>x. Q (g x)) xs)"
  by (induction xs) auto

lemma find_verdict:
  assumes "distinct (map pu_command_id rs)" "r \<in> set rs"
  shows "findCommandResult \<lparr>rb_accepted = map accepted_of (filter isAccepted rs),
      rb_rejected = map rejected_of (filter (\<lambda>r. \<not> isAccepted r) rs)\<rparr> (pu_command_id r) =
    Inr (if isAccepted r then Inr (accepted_of r) else Inl (rejected_of r))"
  using find_distinct [OF assms, of isAccepted] find_distinct [OF assms, of "\<lambda>r. \<not> isAccepted r"]
  by (simp add: findCommandResult_def find_of_map o_def accepted_of_def rejected_of_def)

text \<open>
  C14. Every command of a batch gets exactly one verdict, and the till reads the one the server gave. When a push is
  answered, the till decodes the answer, and finds for the id of each command a single result: accepted when
  the run of that command was accepted, rejected with its code otherwise.
\<close>

theorem push_settles_commands:
  assumes "push D E H others environment recovery rq cx s = (Inr answer, s')"
  shows "\<exists>batchId es results res. readPush E rq = Inr (batchId, es) \<and>
    runCommands (runCommand D E H others environment recovery cx) es s = (results, s') \<and>
    length results = length es \<and> decodePushResponse answer = Inr res \<and>
    (\<forall>i < length es. findCommandResult res (env_id (es ! i)) =
       Inr (if isAccepted (results ! i) then Inr (accepted_of (results ! i)) else Inl (rejected_of (results ! i))))"
proof -
  from push_Inr [OF assms] obtain batchId es results where es: "readPush E rq = Inr (batchId, es)" "distinct (map env_id es)"
    and run: "runCommands (runCommand D E H others environment recovery cx) es s = (results, s')"
    and answer: "answer = push_response E H batchId (latestCursor (ax_business cx) s') results" .
  note ok = runCommands_ok [OF run]
  then have ids: "map pu_command_id results = map env_id es" by simp
  then have len: "length results = length es" by (metis length_map)
  have "findCommandResult \<lparr>rb_accepted = map accepted_of (filter isAccepted results),
      rb_rejected = map rejected_of (filter (\<lambda>r. \<not> isAccepted r) results)\<rparr> (env_id (es ! i)) =
      Inr (if isAccepted (results ! i) then Inr (accepted_of (results ! i)) else Inl (rejected_of (results ! i)))"
    if "i < length es" for i
    using find_verdict [of results "results ! i"] that ids len es(2) by (metis nth_map nth_mem)
  then show ?thesis using es run len decode_push_response ok answer by blast
qed

section \<open>A batch that was accepted can be sent again\<close>

text \<open>Each type of command is dispatched to a handler that keeps the contract; a refusal keeps it too.\<close>

lemma refusal_contract: "idempotent_command H (\<lambda>_ _. throwA err) input_key"
  by unfold_locales simp_all

definition handler_for ::
  "'d decimal_ops \<Rightarrow> js_env \<Rightarrow> 'x CashDb_scheme api_host \<Rightarrow> (string \<Rightarrow> 'x handler) \<Rightarrow> string \<Rightarrow> 'x handler" where
  "handler_for D E H others ty =
     (if ty = ''cash.shift.open'' then openShiftCommand D E H
      else if ty = ''cash.movement.record'' then recordCashMovementCommand D E H
      else if ty = ''cash.shift.close'' then closeShiftCommand D E H
      else if ty \<in> set other_command_types then others ty
      else (\<lambda>_ _. throwA (ApiError 400 ''COMMAND_TYPE_UNSUPPORTED'' (''Command type '' @ ty @ '' tidak didukung.'') [])))"

lemma dispatch_handler:
  "dispatchCommand D E H others cx e = handler_for D E H others (ci_command_type (ev_command e)) cx (command_input e)"
  by (simp add: dispatchCommand_def handler_for_def Let_def)

lemma handler_contract:
  assumes "\<And>ty. idempotent_command H (others ty) input_key"
  shows "idempotent_command H (handler_for D E H others ty) input_key"
  unfolding handler_for_def
  by (simp add: open_shift.idempotent_command_axioms record_movement.idempotent_command_axioms
      close_shift.idempotent_command_axioms assms refusal_contract)

abbreviation envelope_key :: "AuthenticatedRequestContext \<Rightarrow> CommandEnvelope \<Rightarrow> string \<times> string \<times> string" where
  "envelope_key cx e \<equiv> command_key cx (ev_command e)"

lemma dispatch_contract:
  assumes "\<And>ty. idempotent_command H (others ty) input_key"
  shows "idempotent_command H (dispatchCommand D E H others) envelope_key"
proof -
  have key: "in_command (command_input e) = ev_command e" for e by (simp add: command_input_def)
  have run: "idempotent_command H (handler_for D E H others ty) input_key" for ty by (rule handler_contract [OF assms])
  note laws = idempotent_command.atomic [OF run, where i = "command_input e" for e] idempotent_command.known [OF run, where i = "command_input e" for e, unfolded key]
    idempotent_command.recorded [OF run, where i = "command_input e" for e, unfolded key]
    idempotent_command.again [OF run, where i = "command_input e" for e, unfolded key]
    idempotent_command.others [OF run, where i = "command_input e" for e, unfolded key]
    idempotent_command.answers [OF run, where i = "command_input e" for e]
    idempotent_command.replayed [OF run, where i = "command_input e" for e]
  show ?thesis unfolding dispatch_handler by unfold_locales (fact laws)+
qed

text \<open>What one command of a batch does to the state is what its dispatch does, if it comes to that.\<close>

lemma runCommand_accepted:
  assumes "runCommand D E H others environment recovery cx e s = (r, s')" "isAccepted r"
  obtains acx stale b q where "ci_command_type (ev_command e) \<notin> set ONLINE_ONLY_COMMANDS"
    "commandAuthorizationContext E H environment cx e recovery = Inr (acx, stale)"
    "dispatchCommand D E H others acx e s = (Inr (b, q), s')" "acceptedResult (env_id e) b q stale = Inr r"
proof -
  have "tryCommand D E H others environment recovery cx e s = (Inr r, s')"
    using assms rejectedResult_ok by (auto simp: runCommand_def split: prod.splits sum.splits)
  then show thesis using that unfolding tryCommand_def bindA_eq_Inr by (auto simp: bindA_eq_Inr throwIf_eq_Inr)
qed

lemma runCommand_state:
  assumes "runCommand D E H others environment recovery cx e s = (r, s')"
  shows "s' = s \<or> (\<exists>acx x. dispatchCommand D E H others acx e s = (x, s'))"
  using assms
  by (auto simp: runCommand_def tryCommand_def bindA_def liftA_def throwA_def split: prod.splits sum.splits)

lemma acceptedResult_object: "acceptedResult i b q stale = Inr r \<longleftrightarrow> (\<exists>ms. q = JObj ms \<and> acceptedResult i b (JObj ms) stale = Inr r)"
  by (auto simp: acceptedResult_def bindE_eq_Inr objectValue_def Let_def split: json.splits option.splits)

lemma acceptedResult_accepts: "\<exists>r. acceptedResult i b (JObj ms) stale = Inr r"
  by (simp add: acceptedResult_def objectValue_def Let_def)

context idempotent_command
begin

lemma run_kept: "run cx i s = (x, s') \<Longrightarrow> idempotencyRecord k s \<noteq> None \<Longrightarrow> idempotencyRecord k s' = idempotencyRecord k s"
  using record_kept by (metis snd_conv)

end

lemma runCommand_rejected:
  assumes "idempotent_command H (dispatchCommand D E H others) envelope_key"
    "runCommand D E H others environment recovery cx e s = (r, s')" "\<not> isAccepted r"
  shows "same_tables s s'"
proof -
  have raised: "\<exists>err. tryCommand D E H others environment recovery cx e s = (Inl err, s')"
    using assms(2,3) acceptedResult_Inr
    by (auto simp: runCommand_def tryCommand_def bindA_eq_Inr split: prod.splits sum.splits)
  show ?thesis
  proof (cases "\<exists>acx stale x. dispatchCommand D E H others acx e s = (x, s') \<and>
      (\<forall>b q. x = Inr (b, q) \<longrightarrow> (\<exists>err. acceptedResult (env_id e) b q stale = Inl err))")
    case True
    then obtain acx stale x where x: "dispatchCommand D E H others acx e s = (x, s')"
      "\<forall>b q. x = Inr (b, q) \<longrightarrow> (\<exists>err. acceptedResult (env_id e) b q stale = Inl err)" by blast
    show ?thesis
    proof (cases x)
      case (Inl err)
      then show ?thesis using idempotent_command.atomic [OF assms(1)] x(1) by blast
    next
      case (Inr y)
      obtain b q where y: "x = Inr (b, q)" using Inr by (cases y) simp
      then have "b" using idempotent_command.answers [OF assms(1), of acx e s q s'] x acceptedResult_accepts
        by (metis (full_types) Inl_Inr_False)
      then have "s' = s" using idempotent_command.replayed [OF assms(1), of acx e s q s'] x(1) y by simp
      then show ?thesis by simp
    qed
  next
    case False
    then have "s' = s"
      using raised by (auto simp: tryCommand_def bindA_def liftA_def throwA_def split: prod.splits sum.splits)
    then show ?thesis by simp
  qed
qed

lemma runCommands_refused:
  assumes "idempotent_command H (dispatchCommand D E H others) envelope_key"
  shows "runCommands (runCommand D E H others environment recovery cx) es s = (rs, s') \<Longrightarrow>
    list_all (\<lambda>r. \<not> isAccepted r) rs \<Longrightarrow> same_tables s s'"
proof (induction es arbitrary: s rs)
  case (Cons e es)
  obtain r s1 where r: "runCommand D E H others environment recovery cx e s = (r, s1)" by fastforce
  with Cons.prems have "same_tables s s1" by (intro runCommand_rejected [OF assms r]) (auto simp: Let_def split: prod.splits)
  moreover have "same_tables s1 s'" using Cons r by (auto simp: Let_def split: prod.splits)
  ultimately show ?case by (rule same_tables_trans)
qed simp

lemma runCommand_kept:
  assumes "idempotent_command H (dispatchCommand D E H others) envelope_key"
    "runCommand D E H others environment recovery cx e s = (r, s')" "idempotencyRecord k s \<noteq> None"
  shows "idempotencyRecord k s' = idempotencyRecord k s"
  using runCommand_state [OF assms(2)] idempotent_command.run_kept [OF assms(1) _ assms(3)] by blast

lemma runCommands_kept:
  assumes "idempotent_command H (dispatchCommand D E H others) envelope_key"
  shows "runCommands (runCommand D E H others environment recovery cx) es s = (rs, s') \<Longrightarrow>
    idempotencyRecord k s \<noteq> None \<Longrightarrow> idempotencyRecord k s' = idempotencyRecord k s"
proof (induction es arbitrary: s rs)
  case (Cons e es)
  obtain r s1 where r: "runCommand D E H others environment recovery cx e s = (r, s1)" by fastforce
  have "idempotencyRecord k s1 = idempotencyRecord k s" by (rule runCommand_kept [OF assms r Cons.prems(2)])
  then show ?case using Cons r by (auto simp: Let_def split: prod.splits)
qed simp

lemma runCommand_again:
  assumes contract: "idempotent_command H (dispatchCommand D E H others) envelope_key"
    and run: "runCommand D E H others environment recovery cx e s = (r, s')" "isAccepted r"
    and kept: "\<And>k. idempotencyRecord k s' \<noteq> None \<Longrightarrow> idempotencyRecord k t = idempotencyRecord k s'"
  shows "snd (runCommand D E H others environment recovery cx e t) = t"
    "sv_commit H t = None \<Longrightarrow> (\<And>ms. \<exists>ns. sv_jsonb H (JObj ms) = JObj ns) \<Longrightarrow>
      isAccepted (fst (runCommand D E H others environment recovery cx e t))"
proof -
  from runCommand_accepted [OF run] obtain acx stale b q where ty: "ci_command_type (ev_command e) \<notin> set ONLINE_ONLY_COMMANDS"
    and cx: "commandAuthorizationContext E H environment cx e recovery = Inr (acx, stale)"
    and dispatch: "dispatchCommand D E H others acx e s = (Inr (b, q), s')" and result: "acceptedResult (env_id e) b q stale = Inr r" .
  obtain x t' where x: "dispatchCommand D E H others acx e t = (x, t')" by fastforce
  have known: "idempotencyRecord (envelope_key acx e) s' \<noteq> None" by (rule idempotent_command.recorded [OF contract dispatch])
  then have same: "idempotencyRecord (envelope_key acx e) t = idempotencyRecord (envelope_key acx e) s'" by (rule kept)
  have "t' = t" by (rule idempotent_command.known [OF contract _ x]) (simp add: same known)
  then show "snd (runCommand D E H others environment recovery cx e t) = t"
    using x by (auto simp: runCommand_def tryCommand_def bindA_def liftA_def ty cx split: prod.split sum.split)
  show "isAccepted (fst (runCommand D E H others environment recovery cx e t))"
    if "sv_commit H t = None" and jsonb: "\<And>ms. \<exists>ns. sv_jsonb H (JObj ms) = JObj ns"
  proof -
    have again: "dispatchCommand D E H others acx e t = (Inr (True, if b then q else sv_jsonb H q), t)"
      by (rule idempotent_command.again [OF contract dispatch same that(1)])
    obtain ms where "q = JObj ms" using result acceptedResult_object by blast
    then obtain ns where "(if b then q else sv_jsonb H q) = JObj ns" using jsonb [of ms] by (cases b) auto
    then obtain r' where "acceptedResult (env_id e) True (if b then q else sv_jsonb H q) stale = Inr r'"
      using acceptedResult_accepts by metis
    then show ?thesis using again acceptedResult_Inr
      by (simp add: runCommand_def tryCommand_def bindA_def liftA_def ty cx throwIf_def)
  qed
qed

lemma runCommands_again:
  assumes contract: "idempotent_command H (dispatchCommand D E H others) envelope_key"
  shows "runCommands (runCommand D E H others environment recovery cx) es s = (rs, s') \<Longrightarrow> list_all isAccepted rs \<Longrightarrow>
    (\<And>k. idempotencyRecord k s' \<noteq> None \<Longrightarrow> idempotencyRecord k t = idempotencyRecord k s') \<Longrightarrow>
    \<exists>rs'. runCommands (runCommand D E H others environment recovery cx) es t = (rs', t) \<and>
      (sv_commit H t = None \<longrightarrow> (\<forall>ms. \<exists>ns. sv_jsonb H (JObj ms) = JObj ns) \<longrightarrow> list_all isAccepted rs')"
proof (induction es arbitrary: s rs)
  case (Cons e es)
  obtain r s1 where r: "runCommand D E H others environment recovery cx e s = (r, s1)" by fastforce
  obtain rs1 where rest: "runCommands (runCommand D E H others environment recovery cx) es s1 = (rs1, s')" and rs: "rs = r # rs1"
    using Cons.prems(1) r by (auto simp: Let_def split: prod.splits)
  have kept: "idempotencyRecord k t = idempotencyRecord k s1" if "idempotencyRecord k s1 \<noteq> None" for k
    using Cons.prems(3) [of k] runCommands_kept [OF contract rest that] that by simp
  have acc: "isAccepted r" "list_all isAccepted rs1" using Cons.prems(2) rs by simp_all
  obtain r' where r': "runCommand D E H others environment recovery cx e t = (r', t)"
    using runCommand_again(1) [OF contract r acc(1) kept] by (metis prod.collapse)
  have "sv_commit H t = None \<Longrightarrow> \<forall>ms. \<exists>ns. sv_jsonb H (JObj ms) = JObj ns \<Longrightarrow> isAccepted r'"
    using runCommand_again(2) [OF contract r acc(1) kept] unfolding r' by simp
  then show ?case using Cons.IH [OF rest acc(2) Cons.prems(3)] r' by (fastforce simp: Let_def split: prod.splits)
qed simp

lemma push_Inl:
  assumes "push D E H others environment recovery rq cx s = (Inl err, s')"
  shows "s' = s"
proof -
  have reads: "checkEnvelopes recovery cx [] es s = (x, s1) \<Longrightarrow> s1 = s" for es x s1 by (rule only_readsD [OF only_reads_envelopes])
  show ?thesis
    using assms by (auto simp: push_def bindA_def liftA_def split: prod.splits sum.splits dest!: reads)
qed

text \<open>The state after a sequence of pushes, whatever they answer: which batch, by whom, as a recovery or not.\<close>

definition served ::
  "'d decimal_ops \<Rightarrow> js_env \<Rightarrow> 'x CashDb_scheme api_host \<Rightarrow> (string \<Rightarrow> 'x handler) \<Rightarrow> ApiEnvironment \<Rightarrow>
   (bool \<times> HttpRequest \<times> AuthenticatedRequestContext) list \<Rightarrow> 'x CashDb_scheme \<Rightarrow> 'x CashDb_scheme" where
  "served D E H others environment rqs s =
     foldl (\<lambda>s (recovery, rq, cx). snd (push D E H others environment recovery rq cx s)) s rqs"

lemma push_kept:
  assumes "idempotent_command H (dispatchCommand D E H others) envelope_key" "idempotencyRecord k s \<noteq> None"
  shows "idempotencyRecord k (snd (push D E H others environment recovery rq cx s)) = idempotencyRecord k s"
proof -
  obtain x s' where run: "push D E H others environment recovery rq cx s = (x, s')" by fastforce
  show ?thesis
  proof (cases x)
    case (Inl err)
    show ?thesis using push_Inl [OF run [unfolded Inl]] run by simp
  next
    case (Inr answer)
    from push_Inr [OF run [unfolded Inr]] show ?thesis using runCommands_kept [OF assms(1) _ assms(2)] run by (metis snd_conv)
  qed
qed

lemma served_kept:
  assumes "idempotent_command H (dispatchCommand D E H others) envelope_key"
  shows "idempotencyRecord k s \<noteq> None \<Longrightarrow> idempotencyRecord k (served D E H others environment rqs s) = idempotencyRecord k s"
proof (induction rqs arbitrary: s)
  case (Cons q rqs)
  then show ?case using push_kept [OF assms Cons.prems] by (cases q) (simp add: served_def)
qed (simp add: served_def)

text \<open>
  C13. A till that lost the answer may send its batch again. Once every command of a batch was accepted, the same batch
  sent after any other pushes leaves the state as it is; and when it is answered, with the answers stored as JSON
  objects, every one of its commands is accepted again.
\<close>

theorem push_resend_changes_nothing:
  assumes "\<And>ty. idempotent_command H (others ty) input_key"
    and "push D E H others environment recovery rq cx s = (Inr answer, s')"
    and "\<exists>ok. decodePushResponse answer = Inr \<lparr>rb_accepted = ok, rb_rejected = []\<rparr>"
    and "t = served D E H others environment rqs s'"
    and "push D E H others environment recovery rq cx t = (x, t')"
  shows "t' = t \<and>
    (sv_commit H t = None \<longrightarrow> (\<forall>ms. \<exists>ns. sv_jsonb H (JObj ms) = JObj ns) \<longrightarrow>
      (\<forall>again. x = Inr again \<longrightarrow> (\<exists>ok. decodePushResponse again = Inr \<lparr>rb_accepted = ok, rb_rejected = []\<rparr>)))"
proof -
  have contract: "idempotent_command H (dispatchCommand D E H others) envelope_key" by (rule dispatch_contract [OF assms(1)])
  from push_Inr [OF assms(2)] obtain batchId es rs where es: "readPush E rq = Inr (batchId, es)"
    and run: "runCommands (runCommand D E H others environment recovery cx) es s = (rs, s')"
    and answer: "answer = push_response E H batchId (latestCursor (ax_business cx) s') rs" .
  have "list_all isAccepted rs"
    using assms(3) by (auto simp: answer decode_push_response [OF runCommands_ok [OF run, THEN conjunct2]] list_all_iff filter_empty_conv)
  moreover have "idempotencyRecord k t = idempotencyRecord k s'" if "idempotencyRecord k s' \<noteq> None" for k
    unfolding assms(4) by (rule served_kept [OF contract that])
  ultimately obtain rs' where again: "runCommands (runCommand D E H others environment recovery cx) es t = (rs', t)"
    "sv_commit H t = None \<longrightarrow> (\<forall>ms. \<exists>ns. sv_jsonb H (JObj ms) = JObj ns) \<longrightarrow> list_all isAccepted rs'"
    using runCommands_again [OF contract run] by blast
  show ?thesis
  proof (cases x)
    case (Inl err)
    show ?thesis using push_Inl [OF assms(5) [unfolded Inl]] Inl by simp
  next
    case (Inr y)
    from push_Inr [OF assms(5) [unfolded Inr]] have "t' = t" "y = push_response E H batchId (latestCursor (ax_business cx) t) rs'"
      using es again(1) by (metis Pair_inject sum.inject(2))+
    then show ?thesis using Inr again(2)
      by (auto simp: decode_push_response [OF runCommands_ok [OF again(1), THEN conjunct2]] list_all_iff filter_empty_conv)
  qed
qed

text \<open>
  C15. What the server refuses it leaves alone. A push that is refused as a whole changes nothing, and a batch whose commands
  are all rejected changes no table: at most numbers of the change feed are used up.
\<close>

theorem push_refusals_harmless:
  assumes "\<And>ty. idempotent_command H (others ty) input_key"
    and "push D E H others environment recovery rq cx s = (x, s')"
    and "\<And>answer res. x = Inr answer \<Longrightarrow> decodePushResponse answer = Inr res \<Longrightarrow> rb_accepted res = []"
  shows "same_tables s s' \<and> ((\<exists>err. x = Inl err) \<longrightarrow> s' = s)"
proof (cases x)
  case (Inl err)
  show ?thesis using push_Inl [OF assms(2) [unfolded Inl]] by auto
next
  case (Inr answer)
  from push_Inr [OF assms(2) [unfolded Inr]] obtain batchId es rs where
    run: "runCommands (runCommand D E H others environment recovery cx) es s = (rs, s')"
    and answer: "answer = push_response E H batchId (latestCursor (ax_business cx) s') rs" .
  have "list_all (\<lambda>r. \<not> isAccepted r) rs"
    using assms(3) [OF Inr] by (auto simp: answer decode_push_response [OF runCommands_ok [OF run, THEN conjunct2]] list_all_iff filter_empty_conv)
  then show ?thesis using runCommands_refused [OF dispatch_contract [OF assms(1)] run] Inr by simp
qed

section \<open>Following the cursor delivers every change once\<close>

lemma filter_beyond:
  assumes "sorted (map f xs)" "distinct (map f xs)" "0 < n" "xs \<noteq> []"
  shows "filter (\<lambda>x. f (last (take n xs)) < f x) xs = drop n xs"
proof -
  let ?l = "last (take n xs)"
  have take: "take n xs \<noteq> []" using assms(3,4) by simp
  have inside: "f x \<le> f ?l" if x: "x \<in> set (take n xs)" for x
  proof -
    have sorted: "sorted (map f (take n xs))" using assms(1) sorted_wrt_take [of "(\<le>)" "map f xs" n] by (simp add: take_map)
    obtain i where i: "i < length (take n xs)" "x = take n xs ! i" using x by (metis in_set_conv_nth)
    have "map f (take n xs) ! i \<le> map f (take n xs) ! (length (take n xs) - 1)"
      using i by (intro sorted_nth_mono [OF sorted]) (auto simp: min_def split: if_splits)
    also have "\<dots> = f ?l" using take by (metis last_conv_nth last_map length_map map_is_Nil_conv)
    finally show ?thesis using i by simp
  qed
  moreover have "f ?l < f x" if x: "x \<in> set (drop n xs)" for x
  proof -
    have parts: "map f (take n xs) @ map f (drop n xs) = map f xs" by (simp only: map_append [symmetric] append_take_drop_id)
    have "sorted (map f (take n xs) @ map f (drop n xs))" "distinct (map f (take n xs) @ map f (drop n xs))"
      unfolding parts by (fact assms)+
    then have order: "\<forall>a \<in> set (map f (take n xs)). \<forall>b \<in> set (map f (drop n xs)). a \<le> b"
      and apart: "set (map f (take n xs)) \<inter> set (map f (drop n xs)) = {}"
      unfolding sorted_append distinct_append by blast+
    have "f ?l \<in> set (map f (take n xs))" "f x \<in> set (map f (drop n xs))"
      using last_in_set [OF take] x by (simp_all only: set_map image_eqI)
    then show ?thesis using order apart by (metis disjoint_iff le_neq_trans)
  qed
  ultimately have "filter (\<lambda>x. f ?l < f x) (take n xs @ drop n xs) = drop n xs"
    unfolding filter_append by (auto simp: filter_id_conv filter_empty_conv not_less)
  then show ?thesis by simp
qed

definition feed_ok :: "js_env \<Rightarrow> 'x ApiDb_scheme \<Rightarrow> bool" where
  "feed_ok E db = (distinct (map cf_sequence (db_change_feed db)) \<and>
     (\<forall>r \<in> set (db_change_feed db). cf_sequence r < 2 ^ 63 \<and> dateParse E (cf_occurred_at r) \<noteq> None \<and>
        pullChangeType (cf_change_type r) \<noteq> None \<and> (\<forall>v. cf_entity_version r = Some v \<longrightarrow> plain_int v)))"

lemma changesAfter_sorted:
  assumes "distinct (map cf_sequence (db_change_feed db))"
  shows "sorted (map cf_sequence (changesAfter b l c db))" "distinct (map cf_sequence (changesAfter b l c db))"
    "set (changesAfter b l c db) \<subseteq> set (db_change_feed db)" "r \<in> set (changesAfter b l c db) \<Longrightarrow> c < cf_sequence r"
  using assms by (auto simp: changesAfter_def distinct_map intro: inj_on_subset)

lemma changesAfter_later:
  assumes "c \<le> q"
  shows "changesAfter b l q db = filter (\<lambda>r. q < cf_sequence r) (changesAfter b l c db)"
proof -
  have "filter (\<lambda>r. cf_business_id r = b \<and> q < cf_sequence r \<and> (cf_location_id r = None \<or> cf_location_id r = Some l)) (db_change_feed db) =
    filter (\<lambda>r. q < cf_sequence r) (filter (\<lambda>r. cf_business_id r = b \<and> c < cf_sequence r \<and>
      (cf_location_id r = None \<or> cf_location_id r = Some l)) (db_change_feed db))"
    using assms by (auto intro: filter_cong)
  then show ?thesis by (simp add: changesAfter_def filter_sort)
qed

lemma changesAfter_next:
  assumes "distinct (map cf_sequence (db_change_feed db))" "changesAfter b l c db \<noteq> []" "0 < n"
  shows "c < cf_sequence (last (take n (changesAfter b l c db)))"
    "changesAfter b l (cf_sequence (last (take n (changesAfter b l c db)))) db = drop n (changesAfter b l c db)"
proof -
  let ?rows = "changesAfter b l c db"
  have "take n ?rows \<noteq> []" using assms(2,3) by simp
  then have "last (take n ?rows) \<in> set ?rows" using last_in_set in_set_takeD by metis
  then show less: "c < cf_sequence (last (take n ?rows))" by (rule changesAfter_sorted(4) [OF assms(1)])
  show "changesAfter b l (cf_sequence (last (take n ?rows))) db = drop n ?rows"
    using changesAfter_later [of c "cf_sequence (last (take n ?rows))" b l db] less
      filter_beyond [OF changesAfter_sorted(1,2) [OF assms(1)] assms(3,2)] by simp
qed

text \<open>The change as the till reads it.\<close>

definition wire_change :: "js_env \<Rightarrow> ChangeFeedRow \<Rightarrow> SyncPullChange" where
  "wire_change E row = \<lparr>pc_sequence = nat_digits (cf_sequence row), pc_entity_type = cf_entity_type row,
     pc_entity_id = cf_entity_id row, pc_change_type = the (pullChangeType (cf_change_type row)),
     pc_entity_version = cf_entity_version row, pc_occurred_at = toISOString E (the (dateParse E (cf_occurred_at row))),
     pc_payload = change_payload row\<rparr>"

lemma change_decodes:
  assumes "feed_ok E db" "row \<in> set (db_change_feed db)"
  shows "\<exists>j. change_json E row = Inr j \<and> decodePullChange j = Inr (wire_change E row)"
proof -
  obtain u ct where "dateParse E (cf_occurred_at row) = Some u" "pullChangeType (cf_change_type row) = Some ct"
    "\<forall>v. cf_entity_version row = Some v \<longrightarrow> plain_int v"
    using assms by (auto simp: feed_ok_def)
  then show ?thesis
    by (cases "cf_entity_version row")
      (simp_all add: change_json_def iso_def decodePullChange_def requiredString_def decodeEntityVersion_def member_def wire_change_def)
qed

lemma changes_decode:
  assumes "feed_ok E db" "set rows \<subseteq> set (db_change_feed db)"
  shows "\<exists>js. mapE (change_json E) rows = Inr js \<and> mapE decodePullChange js = Inr (map (wire_change E) rows)"
  using assms(2)
proof (induction rows)
  case (Cons row rows)
  then obtain js j where "mapE (change_json E) rows = Inr js" "mapE decodePullChange js = Inr (map (wire_change E) rows)"
    "change_json E row = Inr j" "decodePullChange j = Inr (wire_change E row)"
    using change_decodes [OF assms(1)] by (metis insert_subset list.set(2))
  then show ?case by auto
qed simp

lemma pull_page:
  assumes "requirePermission cx ''workspace.pos.access'' = Inr ()" "feed_ok E s" "all_digits cursor" "digits_val cursor < 2 ^ 63"
    "parsePositiveInteger (Some l) 500 1000 = Inr n" "rows = changesAfter (ax_business cx) (ax_location cx) (digits_val cursor) s"
  shows "\<exists>answer. pull E H cx [(''cursor'', cursor), (''limit'', l)] s = (Inr answer, s) \<and>
    decodePullResponse answer = Inr \<lparr>pl_changes = map (wire_change E) (filter visibleChange (take n rows)),
      pl_next_cursor = (if take n rows = [] then cursor else nat_digits (cf_sequence (last (take n rows)))),
      pl_has_more = (n < length rows), pl_server_time = toISOString E (sv_now H)\<rparr>"
proof -
  let ?page = "filter visibleChange (take n rows)"
  have dist: "distinct (map cf_sequence (db_change_feed s))" using assms(2) by (simp add: feed_ok_def)
  have "set ?page \<subseteq> set (db_change_feed s)"
    using changesAfter_sorted(3) [OF dist, of "ax_business cx" "ax_location cx" "digits_val cursor"] unfolding assms(6) by (auto dest: in_set_takeD)
  then obtain js where js: "mapE (change_json E) ?page = Inr js" "mapE decodePullChange js = Inr (map (wire_change E) ?page)"
    using changes_decode [OF assms(2)] by blast
  have selected: "length (take (n + 1) rows) > n \<longleftrightarrow> n < length rows"
    "(if n < length rows then take n (take (n + 1) rows) else take (n + 1) rows) = take n rows"
    by auto
  let ?answer = "JObj [(''changes'', JArr js), (''has_more'', JBool (n < length rows)),
       (''next_cursor'', JStr (if take n rows = [] then cursor else nat_digits (cf_sequence (last (take n rows))))),
       (''server_time'', JStr (toISOString E (sv_now H)))]"
  have read: "pg_bigint cursor = Inr (digits_val cursor)" using assms(4) by (simp add: pg_bigint_def)
  have "pull E H cx [(''cursor'', cursor), (''limit'', l)] s =
    (let rs = take (n + 1) rows; sel = (if length rs > n then take n rs else rs) in
     case mapE (change_json E) (filter visibleChange sel) of
       Inl e \<Rightarrow> (Inl e, s)
     | Inr js \<Rightarrow> (Inr (JObj [(''changes'', JArr js), (''has_more'', JBool (length rs > n)),
         (''next_cursor'', JStr (if sel = [] then cursor else nat_digits (cf_sequence (last sel)))),
         (''server_time'', JStr (toISOString E (sv_now H)))]), s))"
    unfolding pull_def Let_def
    by (simp add: bindA_def liftA_def readA_def retA_def assms(1,3,5,6) throwUnless_def read cong: sum.case_cong)
  then have "pull E H cx [(''cursor'', cursor), (''limit'', l)] s = (Inr ?answer, s)"
    unfolding Let_def selected js(1) sum.case .
  then show ?thesis using js(2) by (intro exI [of _ ?answer]) (simp add: decodePullResponse_def requiredString_def)
qed

text \<open>The till asks for page after page, from the cursor of the last one, until the server has no more.\<close>

fun drain ::
  "js_env \<Rightarrow> 'x ApiDb_scheme api_host \<Rightarrow> AuthenticatedRequestContext \<Rightarrow> string \<Rightarrow> nat \<Rightarrow> string \<Rightarrow> 'x ApiDb_scheme \<Rightarrow>
   SyncPullChange list option" where
  "drain E H cx l 0 cursor s = None"
| "drain E H cx l (Suc pages) cursor s =
     (case pull E H cx [(''cursor'', cursor), (''limit'', l)] s of
        (Inr answer, s') \<Rightarrow>
          (case decodePullResponse answer of
             Inr page \<Rightarrow>
               if pl_has_more page
               then map_option ((@) (pl_changes page)) (drain E H cx l pages (pl_next_cursor page) s')
               else Some (pl_changes page)
           | Inl _ \<Rightarrow> None)
      | (Inl _, _) \<Rightarrow> None)"

text \<open>
  C16. Following the cursor delivers every change once and in order. However small the page limit, asking for page after
  page until the server has no more ends within as many pages as there are rows, and the pages together
  are exactly the visible changes of the business and location behind the cursor, in the order of the feed.
\<close>

theorem pull_pages_complete:
  assumes "requirePermission cx ''workspace.pos.access'' = Inr ()" "feed_ok E s"
    "parsePositiveInteger (Some l) 500 1000 = Inr n" "0 < n" "all_digits cursor" "digits_val cursor < 2 ^ 63"
    "length (changesAfter (ax_business cx) (ax_location cx) (digits_val cursor) s) < pages * n"
  shows "drain E H cx l pages cursor s =
    Some (map (wire_change E) (filter visibleChange (changesAfter (ax_business cx) (ax_location cx) (digits_val cursor) s)))"
  using assms(5-7)
proof (induction pages arbitrary: cursor)
  case (Suc pages)
  let ?rows = "changesAfter (ax_business cx) (ax_location cx) (digits_val cursor) s"
  have dist: "distinct (map cf_sequence (db_change_feed s))" using assms(2) by (simp add: feed_ok_def)
  from pull_page [OF assms(1,2) Suc.prems(1,2) assms(3) refl] obtain answer
    where answer: "pull E H cx [(''cursor'', cursor), (''limit'', l)] s = (Inr answer, s)"
    and page: "decodePullResponse answer = Inr \<lparr>pl_changes = map (wire_change E) (filter visibleChange (take n ?rows)),
      pl_next_cursor = (if take n ?rows = [] then cursor else nat_digits (cf_sequence (last (take n ?rows)))),
      pl_has_more = (n < length ?rows), pl_server_time = toISOString E (sv_now H)\<rparr>" by blast
  show ?case
  proof (cases "n < length ?rows")
    case False
    then show ?thesis using answer page by simp
  next
    case True
    let ?q = "cf_sequence (last (take n ?rows))"
    have rows: "?rows \<noteq> []" "take n ?rows \<noteq> []" using True assms(4) by auto
    note next_page = changesAfter_next [OF dist rows(1) assms(4)]
    have "last (take n ?rows) \<in> set (db_change_feed s)"
      using rows(2) last_in_set in_set_takeD changesAfter_sorted(3) [OF dist] by (metis subsetD)
    then have "?q < 2 ^ 63" using assms(2) by (simp add: feed_ok_def)
    moreover have "length (drop n ?rows) < pages * n" using Suc.prems(3) True by simp
    ultimately have "drain E H cx l pages (nat_digits ?q) s = Some (map (wire_change E) (filter visibleChange (drop n ?rows)))"
      using Suc.IH [of "nat_digits ?q"] next_page(2) by (simp add: all_digits_def)
    then show ?thesis using answer page True rows(2)
      by (simp flip: map_append filter_append del: take_eq_Nil)
  qed
qed simp

section \<open>Acknowledgements\<close>

definition acks_bounded :: "'x ApiDb_scheme \<Rightarrow> bool" where
  "acks_bounded db = (\<forall>r \<in> set (db_device_sync_states db). ds_last_ack_sequence r \<le> latestCursor (ds_business_id r) db)"

text \<open>
  C18. An acknowledgement is kept and never taken back. Whatever is acknowledged, no device's position falls, none goes beyond the
  last change of its business, and a position that was confirmed is recorded for that device.
\<close>

theorem ack_monotone:
  assumes "acknowledge H rq cx s = (x, s')" "acks_bounded s"
  shows "acks_bounded s' \<and>
    (\<forall>r \<in> set (db_device_sync_states s). \<exists>r' \<in> set (db_device_sync_states s'). ds_business_id r' = ds_business_id r \<and>
       ds_device_id r' = ds_device_id r \<and> ds_last_ack_sequence r \<le> ds_last_ack_sequence r') \<and>
    (\<forall>answer. x = Inr answer \<longrightarrow> (\<exists>device sequence. \<exists>r \<in> set (db_device_sync_states s').
       answer = JObj [(''acknowledged_cursor'', JStr sequence), (''device_id'', JStr device)] \<and>
       ds_business_id r = ax_business cx \<and> ds_device_id r = pg_uuid device \<and> digits_val sequence \<le> ds_last_ack_sequence r))"
proof (cases x)
  case (Inl err)
  have device: "requireActiveBusinessDevice cx d s = (y, s1) \<Longrightarrow> s1 = s" for d y s1
    by (rule only_readsD [OF only_reads_device])
  have "s' = s" using assms(1) Inl
    by (auto simp: acknowledge_def upsertAck_def bindA_def liftA_def readA_def retA_def Let_def split: prod.splits sum.splits dest!: device)
  then show ?thesis using assms(2) Inl by auto
next
  case (Inr answer)
  obtain device sequence where answer: "answer = JObj [(''acknowledged_cursor'', JStr sequence), (''device_id'', JStr device)]"
    and bound: "digits_val sequence \<le> latestCursor (ax_business cx) s"
    and upsert: "upsertAck (sv_now H) (ax_business cx) device (digits_val sequence) s = (Inr (), s')"
  proof -
    have device: "requireActiveBusinessDevice cx d s = (y, s1) \<Longrightarrow> s1 = s" for d y s1
      by (rule only_readsD [OF only_reads_device])
    show thesis using assms(1) that unfolding Inr acknowledge_def bindA_eq_Inr
      by (auto simp: bindA_eq_Inr throwIf_eq_Inr pg_bigint_def split: if_splits dest!: device)
  qed
  let ?same = "\<lambda>r. ds_business_id r = ax_business cx \<and> ds_device_id r = pg_uuid device"
  have latest: "latestCursor b s' = latestCursor b s" for b
    using upsert by (auto simp: upsertAck_def Let_def latestCursor_def)
  show ?thesis
  proof (cases "list_ex ?same (db_device_sync_states s)")
    case True
    let ?f = "\<lambda>r. if ?same r then r\<lparr>ds_last_ack_sequence := max (ds_last_ack_sequence r) (digits_val sequence), ds_last_pull_at := sv_now H,
                ds_last_success_at := sv_now H, ds_updated_at := sv_now H\<rparr> else r"
    have rows: "db_device_sync_states s' = map ?f (db_device_sync_states s)"
      using upsert True by (auto simp: upsertAck_def Let_def)
    obtain r where r: "r \<in> set (db_device_sync_states s)" "?same r" using True by (auto simp: list_ex_iff)
    have "acks_bounded s'" using assms(2) bound by (auto simp: acks_bounded_def rows latest)
    moreover have "\<forall>r \<in> set (db_device_sync_states s). \<exists>r' \<in> set (db_device_sync_states s'). ds_business_id r' = ds_business_id r \<and>
       ds_device_id r' = ds_device_id r \<and> ds_last_ack_sequence r \<le> ds_last_ack_sequence r'"
    proof
      fix r assume "r \<in> set (db_device_sync_states s)"
      then show "\<exists>r' \<in> set (db_device_sync_states s'). ds_business_id r' = ds_business_id r \<and>
       ds_device_id r' = ds_device_id r \<and> ds_last_ack_sequence r \<le> ds_last_ack_sequence r'"
        unfolding rows by (intro bexI [of _ "?f r"]) simp_all
    qed
    moreover have "?f r \<in> set (db_device_sync_states s')" "?same (?f r)" "digits_val sequence \<le> ds_last_ack_sequence (?f r)"
      using r by (simp_all add: rows)
    ultimately show ?thesis using answer Inr by blast
  next
    case False
    then have rows: "db_device_sync_states s' = db_device_sync_states s @ [\<lparr>ds_business_id = ax_business cx, ds_device_id = pg_uuid device,
                ds_last_ack_sequence = digits_val sequence, ds_last_pull_at = sv_now H, ds_last_success_at = sv_now H, ds_updated_at = sv_now H\<rparr>]"
      using upsert by (auto simp: upsertAck_def Let_def)
    have "acks_bounded s'" using assms(2) bound by (auto simp: acks_bounded_def rows latest)
    then show ?thesis using answer Inr by (auto simp: rows)
  qed
qed

section \<open>What the till sends and what the server reads\<close>

text \<open>The route of a push: the answer as the response that the till receives, an error by its status and text, and the state left.\<close>

definition push_route ::
  "'d decimal_ops \<Rightarrow> js_env \<Rightarrow> 'x CashDb_scheme api_host \<Rightarrow> (string \<Rightarrow> 'x handler) \<Rightarrow> ApiEnvironment \<Rightarrow>
   AuthenticatedRequestContext \<Rightarrow> HttpRequest \<Rightarrow> 'x CashDb_scheme \<Rightarrow> HttpResponse \<times> 'x CashDb_scheme" where
  "push_route D E H others environment cx rq s =
     (let (outcome, s') = push D E H others environment False rq cx s;
          response = (case outcome of
            Inr answer \<Rightarrow> api_json answer 200 [] (Some (hq_headers rq, en_allowed_origins environment))
          | Inl e \<Rightarrow> errorResponse e (Some (hq_headers rq, en_allowed_origins environment))) in
      (\<lparr>hr_status = ar_status response, hr_retryAfter = header_get ''retry-after'' (ar_headers response),
        hr_body = json_stringify (ar_body response)\<rparr>, s'))"

lemma command_unversioned:
  "readCommandEnvelope E (command_json c) f = Inl (validationError (f @ ''.schema_version'') ''wajib bilangan bulat minimal 1'')"
proof -
  have "int_text 1 = ''1''" by code_simp
  then show ?thesis
    by (cases "wc_location_id c"; cases "wc_offline_authorization c")
      (simp_all add: readCommandEnvelope_def command_json_def objectValue_def integerValue_def jget_append)
qed

lemma devices_match:
  "\<forall>c \<in> set cs. wc_device_id c = hg_deviceId opts \<Longrightarrow>
    mapE (\<lambda>command. assertDevice opts (wc_device_id command)) cs = Inr (map (\<lambda>_. ()) cs)"
  by (induction cs) (simp_all add: assertDevice_def throwIf_def)

definition unversioned :: js_error where
  "unversioned = validationError ''commands[0].schema_version'' ''wajib bilangan bulat minimal 1''"

lemma readPush_unversioned:
  assumes "hq_body rq = Some (json_stringify (push_body opts sp))" "json_ok (push_body opts sp)"
    "header_get ''content-type'' (hq_headers rq) = Some ''application/json''" "header_get ''content-length'' (hq_headers rq) = None"
    "utf8_length (json_stringify (push_body opts sp)) \<le> MAX_JSON_REQUEST_BYTES"
    "is_uuid (rq_batch_id sp)" "rq_client_schema_version sp = 1" "rq_commands sp = c # cs"
  shows "readPush E rq = Inl unversioned"
proof -
  have json: "js_includes (js_toLowerCase ''application/json'') ''application/json''" "isSafeInteger (JSInt 1)" by code_simp+
  obtain ms where ms: "push_body opts sp = JObj ms" "jget ms ''batch_id'' = Some (JStr (rq_batch_id sp))"
    "jget ms ''client_schema_version'' = Some (JNum 1)" "jget ms ''commands'' = Some (JArr (map command_json (c # cs)))"
    using assms(7,8) by (cases "hg_recoveryReason opts") (simp_all add: push_body_def)
  have body: "readJsonObject rq = Inr ms"
    using assms(1,3,4,5) json(1) parse_stringify [OF assms(2)] ms(1) by (simp add: readJsonObject_def throwUnless_def throwIf_def Let_def)
  have batch: "uuidValue (Some (JStr (rq_batch_id sp))) f = Inr (rq_batch_id sp)" for f
    using assms(6) by (auto simp: uuidValue_def stringValue_def throwIf_def is_uuid_def matches_def uuid_pattern_def)
  have "readCommands E (map command_json (c # cs)) = Inl unversioned"
    by (simp add: readCommands_def command_unversioned unversioned_def nat_digits_0)
  then show ?thesis
    using json(2) by (simp add: readPush_def body ms(2-4) batch integerValue_def throwIf_def arrayValue_def)
qed

lemma header_get_delete: "header_get n hs = None \<Longrightarrow> header_get n (header_delete m hs) = None"
  by (auto simp: header_get_def header_delete_def find_None_iff)

lemma header_get_defaults:
  "header_get n h = None \<Longrightarrow> list_all (\<lambda>(m, _). \<not> sameName m n) kvs \<Longrightarrow>
    header_get n (foldl (\<lambda>h (name, v). if header_get name h = None then header_set name v h else h) h kvs) = None"
  by (induction kvs arbitrary: h) (auto simp: header_get_set)

lemma error_has_no_retry: "header_get ''retry-after'' (ar_headers (api_json d status [] options)) = None"
proof -
  have names: "list_all (\<lambda>(m, _). \<not> sameName m ''retry-after'') jsonHeaders" "\<not> sameName ''vary'' ''retry-after''"
    "\<not> sameName ''access-control-allow-credentials'' ''retry-after''" "\<not> sameName ''access-control-allow-origin'' ''retry-after''"
    by code_simp+
  have "header_get ''retry-after'' (foldl (\<lambda>h (name, v). if header_get name h = None then header_set name v h else h) [] jsonHeaders) = None"
    by (rule header_get_defaults [OF _ names(1)]) (simp add: header_get_def)
  then show ?thesis
    by (simp add: api_json_def Let_def header_get_set names header_get_delete split: option.split prod.split)
qed

text \<open>
  C17. The two ends do not agree on the envelope of a command: the till never sends the member \<open>schema_version\<close> that the server
  requires. A push of a till with a cookie session, made with the right to use the till and within the limits of the server,
  is one request that the server refuses as a whole with a validation error of that member, leaving its state as it was; the
  till that receives the answer takes the refusal for a final one, and its commands wait for a review.
\<close>

theorem till_push_refused:
  assumes "requirePermission cx ''workspace.pos.access'' = Inr ()" "hg_authProvider opts = createCookieSessionAuthProvider"
    and "hg_recoveryReason opts = None" "hg_fetch opts i = (\<lambda>rq. Some (fst (push_route D E H others environment cx rq s)))"
    and "json_ok (push_body opts sp)" "utf8_length (json_stringify (push_body opts sp)) \<le> MAX_JSON_REQUEST_BYTES"
    and "is_uuid (rq_batch_id sp)" "rq_client_schema_version sp = 1" "rq_commands sp = c # cs"
    and "\<forall>c \<in> set (rq_commands sp). wc_device_id c = hg_deviceId opts"
  shows "\<exists>q message. (\<forall>fetch. gateway_push E (opts\<lparr>hg_fetch := fetch\<rparr>) i sp =
      (case fetch i q of
         None \<Rightarrow> Inl (SyncTransportError ''NETWORK'' ''Sync request outcome is unknown because the network request failed.'')
       | Some r \<Rightarrow> if response_ok r then bindE (readResponseJson r) decodePushResponse
           else throwHttpError E (opts\<lparr>hg_fetch := fetch\<rparr>) r)) \<and>
    push D E H others environment False q cx s = (Inl (validationError ''commands[0].schema_version'' ''wajib bilangan bulat minimal 1''), s) \<and>
    hr_status (fst (push_route D E H others environment cx q s)) = 400 \<and> snd (push_route D E H others environment cx q s) = s \<and>
    gateway_push E opts i sp = Inl (SyncHttpError 400 ''VALIDATION_ERROR'' message None None) \<and>
    \<not> fc_retryable (classifySyncFailure M (SyncHttpError 400 ''VALIDATION_ERROR'' message None None))"
proof -
  let ?body = "json_stringify (push_body opts sp)"
  let ?key = "case rq_commands sp of [c] \<Rightarrow> wc_command_id c | _ \<Rightarrow> rq_batch_id sp"
  let ?q = "\<lparr>hq_method = ''POST'', hq_url = hg_url opts SYNC_PUSH_PATH (hg_baseUrl opts),
     hq_headers = request_headers opts i \<lparr>ra_headers = [], ra_credentials = Some ''include''\<rparr> [(''Idempotency-Key'', ?key)] (Some ?body),
     hq_credentials = ''include'', hq_body = Some ?body\<rparr>"
  let ?m = "''commands[0].schema_version wajib bilangan bulat minimal 1.''"
  have names: "sameName ''Content-Type'' ''content-type''" "\<not> sameName ''Idempotency-Key'' ''content-type''"
    "\<not> sameName ''Idempotency-Key'' ''content-length''" "\<not> sameName ''Content-Type'' ''content-length''"
    "\<not> sameName ''Accept'' ''content-length''" "\<not> sameName ''X-Kastur-Client'' ''content-length''"
    "\<not> sameName ''X-Kastur-Client-Version'' ''content-length''" "\<not> sameName ''X-Kastur-Schema-Version'' ''content-length''"
    "\<not> sameName ''X-Kastur-Device-Id'' ''content-length''" "\<not> sameName ''X-Request-Id'' ''content-length''"
    by code_simp+
  have "header_get ''content-type'' (hq_headers ?q) = Some ''application/json''" "header_get ''content-length'' (hq_headers ?q) = None"
    by (simp_all add: request_headers_def Let_def header_get_set names) (simp add: header_get_def)
  then have refused: "readPush E ?q = Inl unversioned" using assms by (intro readPush_unversioned [where opts = opts and sp = sp]) simp_all
  have pushed: "push D E H others environment False ?q cx s = (Inl unversioned, s)"
    by (simp add: push_def bindA_def liftA_def assms(1) refused)
  let ?r = "errorResponse unversioned (Some (hq_headers ?q, en_allowed_origins environment))"
  have response: "ar_status ?r = 400" "header_get ''retry-after'' (ar_headers ?r) = None"
     "ar_body ?r = JObj [(''error'', JObj [(''code'', JStr ''VALIDATION_ERROR''),
        (''details'', JObj [(''field'', JStr ''commands[0].schema_version'')]), (''message'', JStr ?m)])]" (is "_ = ?j")
    using error_has_no_retry
    by (simp_all add: errorResponse_def normalizeApiError_def unversioned_def validationError_def) (simp_all add: api_json_def Let_def)
  let ?route = "push_route D E H others environment cx ?q s"
  have "json_parse (json_stringify ?j) = Some ?j" by (rule parse_stringify) simp
  then have answer: "hr_status (fst ?route) = 400" "hr_retryAfter (fst ?route) = None" "json_parse (hr_body (fst ?route)) = Some ?j"
    "snd ?route = s"
    unfolding push_route_def Let_def pushed prod.case sum.case fst_conv snd_conv HttpResponse.simps response by - (rule refl | assumption)+
  have sent: "gateway_push E (opts\<lparr>hg_fetch := fetch\<rparr>) i sp =
      (case fetch i ?q of
         None \<Rightarrow> Inl (SyncTransportError ''NETWORK'' ''Sync request outcome is unknown because the network request failed.'')
       | Some r \<Rightarrow> if response_ok r then bindE (readResponseJson r) decodePushResponse
           else throwHttpError E (opts\<lparr>hg_fetch := fetch\<rparr>) r)" for fetch
  proof -
    let ?o = "opts\<lparr>hg_fetch := fetch\<rparr>"
    have "mapE (\<lambda>command. assertDevice ?o (wc_device_id command)) (rq_commands sp) = Inr (map (\<lambda>_. ()) (rq_commands sp))"
      using assms(10) by (intro devices_match) simp
    moreover have "push_body ?o sp = push_body opts sp" "request_headers ?o = request_headers opts"
      by (simp_all add: push_body_def request_headers_def fun_eq_iff)
    ultimately show ?thesis
      by (simp add: gateway_push_def http_request_def assms(2,3) createCookieSessionAuthProvider_def Let_def split: option.split)
  qed
  have "throwHttpError E opts (fst ?route) = Inl (SyncHttpError 400 ''VALIDATION_ERROR'' ?m None None)"
    unfolding throwHttpError_def Let_def answer by (simp add: optionalString_def parseRetryAfter_def)
  moreover have "\<not> response_ok (fst ?route)" unfolding response_ok_def answer by simp
  ultimately have "gateway_push E opts i sp = Inl (SyncHttpError 400 ''VALIDATION_ERROR'' ?m None None)"
    using sent [of "hg_fetch opts"] by (simp add: assms(4))
  moreover have "\<not> fc_retryable (classifySyncFailure M (SyncHttpError 400 ''VALIDATION_ERROR'' ?m None None))"
    by (auto simp: isHttpStatusRetryable_def)
  ultimately show ?thesis
    using sent pushed answer(1,4) unfolding unversioned_def by (intro exI [of _ ?q] exI [of _ ?m] conjI allI)
qed

section \<open>Witnesses\<close>

text \<open>The till of theory \<open>Api_Cash\<close> pushes the closing of its shift, and a command that must run online.\<close>

definition close_envelope :: CommandEnvelope where
  "close_envelope = \<lparr>ev_authorization_version = 1, ev_command = in_command close_input, ev_device_id = demo_uuid (CHR ''d''),
     ev_offline_authorization = None, ev_payload = Some close_payload\<rparr>"

definition wire_envelope :: "CommandEnvelope \<Rightarrow> json" where
  "wire_envelope e = JObj [(''authorization_version'', JNum (ev_authorization_version e)), (''command_id'', JStr (env_id e)),
     (''command_type'', JStr (ci_command_type (ev_command e))), (''correlation_id'', JStr (ci_correlation_id (ev_command e))),
     (''device_id'', JStr (ev_device_id e)), (''location_id'', jstr_opt (ci_location_id (ev_command e))),
     (''occurred_at'', JStr (ci_occurred_at (ev_command e))),
     (''payload'', case ev_payload e of None \<Rightarrow> JNull | Some j \<Rightarrow> j), (''schema_version'', JNum 1)]"

definition wire_batch :: "CommandEnvelope list \<Rightarrow> json" where
  "wire_batch es = JObj [(''batch_id'', JStr (demo_uuid (CHR ''4''))), (''client_schema_version'', JNum 1),
     (''commands'', JArr (map wire_envelope es))]"

definition server_post :: "json \<Rightarrow> HttpRequest" where
  "server_post j = \<lparr>hq_method = ''POST'', hq_url = ''/'', hq_headers = server_request, hq_credentials = ''include'',
     hq_body = Some (json_stringify j)\<rparr>"

lemma post_read:
  assumes "json_ok (JObj ms)" "utf8_length (json_stringify (JObj ms)) \<le> MAX_JSON_REQUEST_BYTES"
  shows "readJsonObject (server_post (JObj ms)) = Inr ms"
proof -
  have "header_get ''content-type'' server_request = Some ''application/json''" "header_get ''content-length'' server_request = None"
    "js_includes (js_toLowerCase ''application/json'') ''application/json''" by code_simp+
  then show ?thesis using assms(2) parse_stringify [OF assms(1)]
    by (simp add: readJsonObject_def server_post_def throwUnless_def throwIf_def Let_def)
qed

definition online_envelope :: CommandEnvelope where
  "online_envelope = close_envelope\<lparr>ev_command := (in_command close_input)\<lparr>ci_command_type := ''purchasing.purchase.post''\<rparr>\<rparr>"

abbreviation server_others :: "string \<Rightarrow> unit handler" where
  "server_others \<equiv> \<lambda>_. openShiftCommand ref_ops clock_env server_host"

abbreviation server_answer :: "nat \<Rightarrow> PushResult list \<Rightarrow> json" where
  "server_answer \<equiv> push_response clock_env (server_host :: CashDb api_host) (demo_uuid (CHR ''4''))"

abbreviation server_push :: "json \<Rightarrow> CashDb \<Rightarrow> (js_error + json) \<times> CashDb" where
  "server_push j \<equiv> push ref_ops clock_env server_host server_others server_environment False (server_post j) server_context"

lemma others_contract: "idempotent_command (server_host :: CashDb api_host) (openShiftCommand ref_ops clock_env server_host) input_key"
  by (rule open_shift.idempotent_command_axioms)

lemma batch_read:
  "readPush clock_env (server_post (wire_batch [close_envelope])) = Inr (demo_uuid (CHR ''4''), [close_envelope])"
  "readPush clock_env (server_post (wire_batch [online_envelope])) = Inr (demo_uuid (CHR ''4''), [online_envelope])"
proof -
  have ok: "json_ok (wire_batch [close_envelope])" "json_ok (wire_batch [online_envelope])"
    by (simp_all add: wire_batch_def wire_envelope_def close_envelope_def online_envelope_def close_payload_def jstr_opt_def split: option.split)
  have size: "utf8_length (json_stringify (wire_batch [close_envelope])) \<le> MAX_JSON_REQUEST_BYTES"
    "utf8_length (json_stringify (wire_batch [online_envelope])) \<le> MAX_JSON_REQUEST_BYTES" by code_simp+
  have fields: "uuidValue (Some (JStr (demo_uuid (CHR ''4'')))) ''batch_id'' = Inr (demo_uuid (CHR ''4''))"
    "integerValue (Some (JNum 1)) ''client_schema_version'' 1 = Inr 1"
    "readCommands clock_env [wire_envelope close_envelope] = Inr [close_envelope]"
    "readCommands clock_env [wire_envelope online_envelope] = Inr [online_envelope]" by code_simp+
  show "readPush clock_env (server_post (wire_batch [close_envelope])) = Inr (demo_uuid (CHR ''4''), [close_envelope])"
    "readPush clock_env (server_post (wire_batch [online_envelope])) = Inr (demo_uuid (CHR ''4''), [online_envelope])"
    using post_read [OF ok(1) [unfolded wire_batch_def] size(1) [unfolded wire_batch_def]]
      post_read [OF ok(2) [unfolded wire_batch_def] size(2) [unfolded wire_batch_def]]
    by (simp_all add: readPush_def wire_batch_def fields arrayValue_def throwIf_def)
qed

lemma server_allows:
  "requirePermission server_context ''workspace.pos.access'' = Inr ()"
  "requireActiveBusinessDevice server_context (demo_uuid (CHR ''d'')) server_till = (Inr (), server_till)"
proof -
  show "requirePermission server_context ''workspace.pos.access'' = Inr ()" by code_simp
  have "fst (requireActiveBusinessDevice server_context (demo_uuid (CHR ''d'')) server_till) = Inr ()" by code_simp
  moreover have "snd (requireActiveBusinessDevice server_context (demo_uuid (CHR ''d'')) server_till) = server_till"
    using only_reads_device unfolding only_reads_def by blast
  ultimately show "requireActiveBusinessDevice server_context (demo_uuid (CHR ''d'')) server_till = (Inr (), server_till)"
    by (metis prod.collapse)
qed

lemma close_runs:
  "\<exists>ms s'. closeShiftCommand ref_ops clock_env server_host server_context close_input server_till = (Inr (False, JObj ms), s')"
proof -
  have new: "idempotencyRecord k server_till = None" for k
    by (simp add: idempotencyRecord_def server_till_def ApiDb.defs server_db_def)
  have commit: "sv_commit server_host t = None" for t :: CashDb by (simp add: server_host_def)
  obtain r s' where run: "closeShiftCommand ref_ops clock_env server_host server_context close_input server_till = (Inr (False, r), s')"
    using executeIdempotent_runs [where op = "closeShiftOperation clock_env server_host server_context close_input close_read",
      OF new close_operates commit] by (simp add: closeShiftCommand_def close_steps) blast
  then show ?thesis using close_shift.answers by blast
qed

lemma close_dispatched:
  "\<exists>r s'. runCommand ref_ops clock_env server_host server_others server_environment False server_context close_envelope server_till =
     (r, s') \<and> isAccepted r"
proof -
  obtain ms s' where run: "closeShiftCommand ref_ops clock_env server_host server_context close_input server_till = (Inr (False, JObj ms), s')"
    using close_runs by blast
  have input: "command_input close_envelope = close_input"
    by (simp add: command_input_def close_envelope_def close_input_def)
  have ty: "ci_command_type (ev_command close_envelope) = ''cash.shift.close''" by (simp add: close_envelope_def close_input_def)
  have authority: "commandAuthorizationContext clock_env (server_host :: CashDb api_host) server_environment server_context close_envelope False =
      Inr (server_context, False)"
    by (simp add: commandAuthorizationContext_def close_envelope_def server_context_def)
  obtain r where r: "acceptedResult (env_id close_envelope) False (JObj ms) False = Inr r" using acceptedResult_accepts by blast
  have "runCommand ref_ops clock_env server_host server_others server_environment False server_context close_envelope server_till = (r, s')"
    by (simp add: runCommand_def tryCommand_def bindA_def liftA_def authority dispatchCommand_def ty input run r ONLINE_ONLY_COMMANDS_def throwIf_def)
  then show ?thesis using acceptedResult_Inr [OF r] by blast
qed

lemma close_pushed:
  "\<exists>r s'. server_push (wire_batch [close_envelope]) server_till =
     (Inr (server_answer (latestCursor (ax_business server_context) s') [r]), s') \<and>
     isAccepted r \<and> push_result_ok r \<and> sv_commit server_host s' = None"
proof -
  obtain r s' where r: "runCommand ref_ops clock_env server_host server_others server_environment False server_context close_envelope server_till =
     (r, s')" "isAccepted r" using close_dispatched by blast
  have "checkEnvelopes False server_context [] [close_envelope] server_till = (Inr (), server_till)"
    by (simp add: checkEnvelope_def bindA_def liftA_def throwIf_def retA_def server_allows(2)) (simp add: close_envelope_def server_allows(2))
  moreover have "sv_commit (server_host :: CashDb api_host) s' = None" by (simp add: server_host_def)
  ultimately show ?thesis using r runCommand_ok(1) [OF r(1)]
    by (intro exI [of _ r] exI [of _ s']) (simp add: push_def bindA_def liftA_def server_allows(1) batch_read)
qed

theorem push_settles_commands_witness:
  "\<exists>answer s' res a. server_push (wire_batch [close_envelope]) server_till = (Inr answer, s') \<and> decodePushResponse answer = Inr res \<and>
     findCommandResult res (demo_uuid (CHR ''8'')) = Inr (Inr a)"
proof -
  obtain r s' where run: "server_push (wire_batch [close_envelope]) server_till =
     (Inr (server_answer (latestCursor (ax_business server_context) s') [r]), s')" "isAccepted r"
    using close_pushed by blast
  have one: "env_id close_envelope = demo_uuid (CHR ''8'')" by (simp add: close_envelope_def close_input_def)
  from push_settles_commands [OF run(1), unfolded batch_read] obtain results res
    where settled: "decodePushResponse (server_answer (latestCursor (ax_business server_context) s') [r]) = Inr res"
    "findCommandResult res (demo_uuid (CHR ''8'')) = Inr (if isAccepted (results ! 0) then Inr (accepted_of (results ! 0)) else Inl (rejected_of (results ! 0)))"
    and ran: "runCommands (runCommand ref_ops clock_env server_host server_others server_environment False server_context) [close_envelope] server_till = (results, s')"
    by (auto simp: one)
  have "isAccepted (results ! 0)" using ran close_dispatched by (auto simp: Let_def split: prod.splits)
  then show ?thesis using run(1) settled by auto
qed

theorem push_resend_changes_nothing_witness:
  "\<exists>answer s' again. server_push (wire_batch [close_envelope]) server_till = (Inr answer, s') \<and>
     server_push (wire_batch [close_envelope]) s' = (again, s')"
proof -
  obtain r s' where run: "server_push (wire_batch [close_envelope]) server_till = (Inr (server_answer (latestCursor (ax_business server_context) s') [r]), s')"
    "isAccepted r" "push_result_ok r" using close_pushed by blast
  have "decodePushResponse (server_answer (latestCursor (ax_business server_context) s') [r]) = Inr \<lparr>rb_accepted = [accepted_of r], rb_rejected = []\<rparr>"
    using decode_push_response [of "[r]"] run by simp
  moreover obtain x t' where again: "server_push (wire_batch [close_envelope]) s' = (x, t')" by fastforce
  moreover have "s' = served ref_ops clock_env server_host server_others server_environment [] s'" by (simp add: served_def)
  ultimately have "t' = s'"
    using push_resend_changes_nothing [OF others_contract run(1) _ _ again] by blast
  then show ?thesis using run again by blast
qed

theorem push_refusals_harmless_witness:
  "\<exists>answer s'. server_push (wire_batch [online_envelope]) server_till = (Inr answer, s') \<and> same_tables server_till s'"
proof -
  have "checkEnvelopes False server_context [] [online_envelope] server_till = (Inr (), server_till)"
    by (simp add: checkEnvelope_def bindA_def liftA_def throwIf_def retA_def)
      (simp add: online_envelope_def close_envelope_def server_allows(2))
  moreover obtain r where r: "runCommand ref_ops clock_env server_host server_others server_environment False server_context online_envelope server_till =
     (r, server_till)" "\<not> isAccepted r" "push_result_ok r"
    using rejectedResult_ok
    by (simp add: runCommand_def tryCommand_def bindA_def liftA_def online_envelope_def ONLINE_ONLY_COMMANDS_def throwIf_def)
  ultimately have run: "server_push (wire_batch [online_envelope]) server_till =
      (Inr (server_answer (latestCursor (ax_business server_context) server_till) [r]), server_till)"
    by (simp add: push_def bindA_def liftA_def server_allows(1) batch_read)
  moreover have "decodePushResponse (server_answer n [r]) = Inr \<lparr>rb_accepted = [], rb_rejected = [rejected_of r]\<rparr>" for n
    using decode_push_response [of "[r]"] r by simp
  ultimately have "same_tables server_till server_till"
    using push_refusals_harmless [OF others_contract run] by auto
  then show ?thesis using run by blast
qed

definition feed_row :: "nat \<Rightarrow> ChangeFeedRow" where
  "feed_row n = \<lparr>cf_sequence = n, cf_business_id = demo_uuid (CHR ''b''), cf_location_id = None, cf_entity_type = ''product'',
     cf_entity_id = demo_uuid (CHR ''8''), cf_change_type = ''UPSERT'', cf_entity_version = Some ''7'', cf_payload = JNull,
     cf_occurred_at = ''4000'', cf_correlation_id = demo_uuid (CHR ''6'')\<rparr>"

definition feed_db :: CashDb where
  "feed_db = server_till\<lparr>db_change_feed := [feed_row 2, feed_row 1]\<rparr>"

theorem pull_pages_complete_witness:
  "drain clock_env server_host server_context ''1'' 3 ''0'' feed_db = Some [wire_change clock_env (feed_row 1), wire_change clock_env (feed_row 2)]"
proof -
  have "dateParse clock_env ''4000'' = Some 4000" "pullChangeType ''UPSERT'' = Some CH_UPSERT" "plain_int ''7''" by code_simp+
  then have "feed_ok clock_env feed_db" by (simp add: feed_ok_def feed_db_def feed_row_def)
  moreover have "parsePositiveInteger (Some ''1'') 500 1000 = Inr 1" "all_digits ''0''" "digits_val ''0'' < 2 ^ 63" by code_simp+
  moreover have rows: "changesAfter (ax_business server_context) (ax_location server_context) (digits_val ''0'') feed_db = [feed_row 1, feed_row 2]"
    by code_simp
  moreover have "filter visibleChange [feed_row 1, feed_row 2] = [feed_row 1, feed_row 2]" by code_simp
  ultimately show ?thesis
    using pull_pages_complete [OF server_allows(1), of clock_env feed_db "''1''" 1 "''0''" 3] by simp
qed

definition ack_json :: json where
  "ack_json = JObj [(''device_id'', JStr (demo_uuid (CHR ''d''))), (''last_applied_sequence'', JStr ''2'')]"

lemma ack_runs: "\<exists>answer s'. acknowledge server_host (server_post ack_json) server_context feed_db = (Inr answer, s')"
proof -
  have "json_ok ack_json" by (simp add: ack_json_def)
  moreover have "utf8_length (json_stringify ack_json) \<le> MAX_JSON_REQUEST_BYTES" by code_simp
  ultimately have body: "readJsonObject (server_post ack_json) = Inr [(''device_id'', JStr (demo_uuid (CHR ''d''))), (''last_applied_sequence'', JStr ''2'')]"
    using post_read unfolding ack_json_def by blast
  have fields: "uuidValue (Some (JStr (demo_uuid (CHR ''d'')))) ''device_id'' = Inr (demo_uuid (CHR ''d''))"
    "stringValue (Some (JStr ''2'')) ''last_applied_sequence'' = Inr ''2''" "all_digits ''2''" "pg_bigint ''2'' = Inr 2"
    "latestCursor (ax_business server_context) feed_db = 2" "digit_val (CHR ''2'') = 2" by code_simp+
  have "requireActiveBusinessDevice server_context (demo_uuid (CHR ''d'')) feed_db = (Inr (), feed_db)"
  proof -
    have "fst (requireActiveBusinessDevice server_context (demo_uuid (CHR ''d'')) feed_db) = Inr ()" by code_simp
    moreover have "snd (requireActiveBusinessDevice server_context (demo_uuid (CHR ''d'')) feed_db) = feed_db"
      using only_reads_device unfolding only_reads_def by blast
    ultimately show ?thesis by (metis prod.collapse)
  qed
  then show ?thesis
    by (simp add: acknowledge_def bindA_def liftA_def readA_def retA_def server_allows(1) body fields throwUnless_def throwIf_def upsertAck_def Let_def)
qed

theorem ack_monotone_witness:
  "\<exists>answer s'. acknowledge server_host (server_post ack_json) server_context feed_db = (Inr answer, s') \<and> acks_bounded s' \<and>
     (\<exists>r \<in> set (db_device_sync_states s'). ds_business_id r = demo_uuid (CHR ''b''))"
proof -
  obtain answer s' where run: "acknowledge server_host (server_post ack_json) server_context feed_db = (Inr answer, s')" using ack_runs by blast
  have "acks_bounded feed_db" by (simp add: acks_bounded_def feed_db_def server_till_def ApiDb.defs server_db_def)
  from ack_monotone [OF run this] have "acks_bounded s'" "\<exists>r \<in> set (db_device_sync_states s'). ds_business_id r = ax_business server_context"
    by blast+
  then show ?thesis using run by (auto simp: server_context_def)
qed

definition till_http :: "(string \<Rightarrow> unit handler) \<Rightarrow> HttpSyncGatewayOptions" where
  "till_http others = demo_http\<lparr>hg_authProvider := createCookieSessionAuthProvider,
     hg_fetch := (\<lambda>_ rq. Some (fst (push_route ref_ops clock_env server_host others server_environment server_context rq server_till)))\<rparr>"

definition till_push :: SyncPushRequest where
  "till_push = demo_push\<lparr>rq_batch_id := demo_uuid (CHR ''4'')\<rparr>"

theorem till_push_refused_witness:
  "\<exists>q message. snd (push_route ref_ops clock_env server_host server_others server_environment server_context q server_till) = server_till \<and>
     gateway_push clock_env (till_http server_others) 0 till_push = Inl (SyncHttpError 400 ''VALIDATION_ERROR'' message None None)"
proof -
  have body: "push_body (till_http others) till_push = push_body demo_http till_push" for others
    by (simp add: push_body_def till_http_def)
  have "json_ok (push_body (till_http server_others) till_push)" unfolding body
    by (simp add: push_body_def till_push_def demo_push_def command_json_def demo_http_def)
  moreover have "utf8_length (json_stringify (push_body (till_http server_others) till_push)) \<le> MAX_JSON_REQUEST_BYTES"
    unfolding body by code_simp
  moreover have "is_uuid (rq_batch_id till_push)" by code_simp
  moreover have "rq_client_schema_version till_push = 1" "rq_commands till_push = [hd (rq_commands demo_push)]"
    "\<forall>c \<in> set (rq_commands till_push). wc_device_id c = hg_deviceId (till_http server_others)"
    "hg_authProvider (till_http server_others) = createCookieSessionAuthProvider" "hg_recoveryReason (till_http server_others) = None"
    by (simp_all add: till_push_def demo_push_def till_http_def demo_http_def)
  moreover have "hg_fetch (till_http server_others) 0 =
      (\<lambda>rq. Some (fst (push_route ref_ops clock_env server_host server_others server_environment server_context rq server_till)))"
    by (simp add: till_http_def)
  ultimately show ?thesis
    using till_push_refused [OF server_allows(1), of "till_http server_others" 0 ref_ops clock_env server_host server_others server_environment server_till till_push]
    by blast
qed

end
