(* ===== verification/Spec2Isabelle.thy ===== *)
theory Spec2Isabelle
  imports Sales Sync_Adapter Product_Lookup Sync_Protocol
begin

text \<open>
  Kastur POS: a verification development for the offline-first point of sale.

  The program. A till sells without the network. Its runtime (\<open>src/apps/pos\<close>) drives managers over an IndexedDB database
  (\<open>src/packages/local-db\<close>) and pure domain packages (\<open>src/packages/domain\<close>, \<open>src/packages/numeric\<close>). Every sale, shift and cash
  movement is written with an outbox row in one transaction. The synchronisation client (\<open>src/packages/sync-client\<close>) leases
  outbox rows, sends them as commands to the server (\<open>src/apps/api\<close>), settles each with the verdict of the server, and pulls
  the change feed of the server page by page into the local catalog, prices and projections. The server runs every command
  under an idempotency key in a PostgreSQL transaction, for a context that its authentication has established, online or
  from a grant that it signed for use offline.

  How the code is modelled. A thrown error is a value of \<open>js_error\<close>, a fallible function returns \<open>js_error + 'a\<close>
  (\<open>Inl\<close> the error). A method of a manager is an action \<open>'s \<Rightarrow> 'a result \<times> 's\<close> on the whole database, composed by \<open>bindA\<close>; a
  transaction is \<open>transaction\<close>, which gives back the state before it when its body fails, at whichever write that is. Rows
  are records with the columns as fields, tables are lists of rows in the order of insertion, unique indexes are the schemas
  of \<open>Pos_Db\<close>. Amounts are texts, as in the program; \<open>dec_value\<close> reads their exact value as a rational, and every property on
  money speaks of these values. Clocks, random identifiers, the collation of \<open>localeCompare\<close> and \<open>Date\<close> are arguments
  (\<open>js_env\<close>, \<open>date_ok\<close>, \<open>comparator\<close>).

  The theories, in the order of their imports, with the files under \<open>src/\<close>:

  \<^item> \<open>Kastur_Prelude\<close>: results, actions, loops over lists in them, JavaScript numbers and strings, the locale \<open>comparator\<close> of
    sort orders; its facts are the collections \<open>result_simps\<close> and the like that the component proofs use.
  \<^item> \<open>Decimal_Text\<close>, \<open>Decimal_Js\<close>: decimal texts and their values; the third-party \<open>decimal.js\<close> as the locale \<open>decimal_library\<close>, the
    laws its documentation promises, with an interpretation on exact rationals.
  \<^item> \<open>Js_Json\<close>, \<open>Json_Parse\<close>: \<open>JSON.stringify\<close> and \<open>JSON.parse\<close> over code units, and that parsing gives back what was printed.
  \<^item> \<open>Numeric\<close>: \<open>packages/numeric\<close>, money and quantity values of NUMERIC(20,4) and NUMERIC(20,6).
  \<^item> \<open>Pricing\<close>: \<open>packages/domain/src/pricing/resolver.ts\<close>, tiers and promotions.
  \<^item> \<open>Cart\<close>, \<open>Cash\<close>: \<open>packages/domain/src/sales\<close> and \<open>cash/cash-ledger.ts\<close>, the cart, the cash tender, the closing report and its
    reconciliation with late events.
  \<^item> \<open>Store\<close>, \<open>Pos_Db\<close>: a Dexie table as the locale \<open>table_contract\<close> (lookup after add and put, unique indexes), its
    interpretation on lists of rows, and the rows and the schema of \<open>local-db/src/pos-database.ts\<close>.
  \<^item> \<open>Shifts\<close>, \<open>Sales\<close>: \<open>local-db/src/shift-cache.ts\<close>, \<open>cash-manager.ts\<close> and \<open>sales-manager.ts\<close>.
  \<^item> \<open>Sync_Store\<close>: \<open>local-db/src/sync-store.ts\<close>, the outbox with its leases, the change feed, the bootstrap.
  \<^item> \<open>Sync_Client\<close>: \<open>sync-client/src/orchestrator.ts\<close> and \<open>retry.ts\<close> over the locale \<open>local_sync_store\<close>, what the client relies on
    of its store; \<open>Sync_Adapter\<close>: \<open>apps/pos/src/runtime/sync-store-adapter.ts\<close>, which provides it (the interpretation \<open>pos\<close>).
  \<^item> \<open>Catalog_Cache\<close>, \<open>Product_Lookup\<close>: \<open>local-db/src/catalog-cache.ts\<close>, \<open>pricing-cache.ts\<close>, \<open>audit-store.ts\<close>, \<open>product-lookup.ts\<close>.
  \<^item> \<open>Http_Gateway\<close>: \<open>sync-client/src/http-gateway.ts\<close>, requests and the decoding of every answer.
  \<^item> \<open>Api_Http\<close>, \<open>Offline_Grant\<close>, \<open>Api_Db\<close>, \<open>Api_Auth\<close>: the edge of the server, its signed grants, its tables, sessions and
    devices (\<open>http.ts\<close>, \<open>validation.ts\<close>, \<open>offline-authorization.ts\<close>, \<open>database.ts\<close>, \<open>auth.ts\<close> of \<open>apps/api/src\<close>).
  \<^item> \<open>Api_Support\<close>: \<open>command-support.ts\<close>, with the locale \<open>idempotent_command\<close> of a handler that runs under its key.
  \<^item> \<open>Api_Cash\<close>: \<open>cash.ts\<close>, the shift and cash commands; three interpretations of \<open>idempotent_command\<close>.
  \<^item> \<open>Api_Sync\<close>: \<open>commands.ts\<close> and \<open>sync.ts\<close>, dispatch, push, pull and acknowledgement.
  \<^item> \<open>Sync_Protocol\<close>: the two ends together, what the server answers being read by the till and what the till sends by the server.

  What the properties show, by group:

  \<^item> Sales, shifts and cash: all or nothing with faults at any write, balances of the stored amounts, a repeated command
    changes nothing, the till's preview, the domain ledger and the server's recount agree (C1-C3, C19, C31-C35).
  \<^item> Synchronisation at the till: exclusive leases of due rows, settlement by the lease holder, liveness of a push against
    any server, the change feed as updates of one abstract map, a bootstrap replaces one business without dangling
    references and never touches the till's records (C4-C12, C23).
  \<^item> The protocol: resending is harmless, one verdict per command, refused pushes change nothing, following the cursor
    delivers every visible change once, acknowledgements are monotone, and the one place where the two ends disagree
    (C13-C18, C24, C25).
  \<^item> Authority: a request is served for a live session only, an accepted offline authority is one that the server issued, and
    the fingerprint of a request is exact (C20-C22).
  \<^item> Catalog, prices and cart: lookups, the price in force, the choice of tier and promotion, exact money arithmetic and the
    invariant of every reachable cart (C26-C30, C36-C40).

  Interfaces. A component is proved against the locale of what it uses and not against its provider: the client against
  \<open>local_sync_store\<close>, numeric code against \<open>decimal_library\<close>, tables through \<open>table_contract\<close>, sorting through \<open>comparator\<close>, commands of
  the server through \<open>idempotent_command\<close>; each is interpreted on the model of the code that provides it.

  Bounds. Loops of the program run over lists and are structural recursions. The pulling loop is bounded by
  \<open>maxPullPages\<close>, as in the code; following the cursor until the feed is empty is fuelled and C16 shows how much is enough.
  \<open>JSON.parse\<close> takes fuel, twice the length of the text, proved enough for whatever \<open>JSON.stringify\<close> prints. Instants are
  bounded by the range of \<open>Date\<close>, 8.64 * 10^15 ms; delays by 10^14 ms so that a date can hold their sum; where the
  precision of \<open>decimal.js\<close> matters (80 digits) a cart or a ledger has fewer than 10^30 lines, so that no sum is rounded.

  Parameters. \<open>decimal.js\<close>, \<open>crypto.subtle\<close> and SHA-256, \<open>fetch\<close>, the connection to PostgreSQL (which may fail at the commit),
  the rendering of JSONB, and the handlers of server commands that are not modelled are arguments, with what the code relies
  on as named hypotheses.

  Not modelled. On the server: sales, purchasing, returns, inventory, pricing and catalog publication and the back office
  reports, which are mostly SQL over tables that no modelled part reads, the routing of \<open>index.ts\<close> beyond the push, and the
  bootstrap query. Foreign keys and triggers of the PostgreSQL schema. On the till: the React components, the upgrade of old
  IndexedDB schemas. The back office application, the user interface packages, and the one-off migration tool.
\<close>

end
